(* ===== verification/Prelude.thy ===== *)
theory Prelude
  imports Complex_Main
begin

text \<open>
  Shared vocabulary of the development: the state-and-error monad in which every service
  method is written, the row lists that stand for the tables of the database, JavaScript
  numbers at the service boundary, pagination, and the collections of rewrite rules the
  component theories use.

  A method of a service is a program \<open>'s \<Rightarrow> ('e + 'a) \<times> 's\<close>: it may write the state
  before it throws, exactly as an \<open>async\<close> method that has already awaited some database
  writes.  \<open>transaction\<close> is Prisma's \<open>$transaction\<close>: an error inside rolls every write
  back.
\<close>

section \<open>Programs: state, errors, transactions\<close>

type_synonym ('s, 'e, 'a) prog = "'s \<Rightarrow> ('e + 'a) \<times> 's"

definition return :: "'a \<Rightarrow> ('s, 'e, 'a) prog" where
  "return x = (\<lambda>s. (Inr x, s))"

definition throw :: "'e \<Rightarrow> ('s, 'e, 'a) prog" where
  "throw e = (\<lambda>s. (Inl e, s))"

definition bind :: "('s, 'e, 'a) prog \<Rightarrow> ('a \<Rightarrow> ('s, 'e, 'b) prog) \<Rightarrow> ('s, 'e, 'b) prog" where
  "bind m k = (\<lambda>s. case m s of (Inl e, t) \<Rightarrow> (Inl e, t) | (Inr x, t) \<Rightarrow> k x t)"

definition seq :: "('s, 'e, 'a) prog \<Rightarrow> ('s, 'e, 'b) prog \<Rightarrow> ('s, 'e, 'b) prog" where
  "seq m n = bind m (\<lambda>_. n)"

definition gets :: "('s \<Rightarrow> 'a) \<Rightarrow> ('s, 'e, 'a) prog" where
  "gets f = (\<lambda>s. (Inr (f s), s))"

definition modify :: "('s \<Rightarrow> 's) \<Rightarrow> ('s, 'e, unit) prog" where
  "modify f = (\<lambda>s. (Inr (), f s))"

definition throwIf :: "bool \<Rightarrow> 'e \<Rightarrow> ('s, 'e, unit) prog" where
  "throwIf b e = (if b then throw e else return ())"

definition orThrow :: "'e \<Rightarrow> 'a option \<Rightarrow> ('s, 'e, 'a) prog" where
  "orThrow e x = (case x of None \<Rightarrow> throw e | Some y \<Rightarrow> return y)"

definition transaction :: "('s, 'e, 'a) prog \<Rightarrow> ('s, 'e, 'a) prog" where
  "transaction m = (\<lambda>s. case m s of (Inl e, _) \<Rightarrow> (Inl e, s) | (Inr x, t) \<Rightarrow> (Inr x, t))"

definition catch :: "('s, 'e, 'a) prog \<Rightarrow> ('e \<Rightarrow> ('s, 'e, 'a) prog) \<Rightarrow> ('s, 'e, 'a) prog" where
  "catch m h = (\<lambda>s. case m s of (Inl e, t) \<Rightarrow> h e t | (Inr x, t) \<Rightarrow> (Inr x, t))"

text \<open>The answer of a call to code outside the service, such as an HTTP API.\<close>

definition lift :: "'e + 'a \<Rightarrow> ('s, 'e, 'a) prog" where
  "lift r = (\<lambda>s. (r, s))"

primrec forEach :: "('a \<Rightarrow> ('s, 'e, unit) prog) \<Rightarrow> 'a list \<Rightarrow> ('s, 'e, unit) prog" where
  "forEach f [] = return ()"
| "forEach f (x # xs) = seq (f x) (forEach f xs)"

text \<open>
  How a program ran: \<open>run_simps\<close> turns a run of a compound program into runs of its parts.
\<close>

named_theorems run_simps "runs of the monad's combinators"

lemma run_return [run_simps]: "return x s = (Inr x, s)"
  by (simp add: return_def)

lemma run_throw [run_simps]: "throw e s = (Inl e, s)"
  by (simp add: throw_def)

lemma run_gets [run_simps]: "gets f s = (Inr (f s), s)"
  by (simp add: gets_def)

lemma run_modify [run_simps]: "modify f s = (Inr (), f s)"
  by (simp add: modify_def)

lemma run_throwIf [run_simps]: "throwIf b e s = (if b then Inl e else Inr (), s)"
  by (simp add: throwIf_def run_simps)

lemma run_orThrow [run_simps]:
  "orThrow e x s = (case x of None \<Rightarrow> Inl e | Some y \<Rightarrow> Inr y, s)"
  by (simp add: orThrow_def run_simps split: option.splits)

lemma run_lift [run_simps]: "lift r s = (r, s)"
  by (simp add: lift_def)

lemma run_bind: "bind m k s = (case m s of (Inl e, t) \<Rightarrow> (Inl e, t) | (Inr x, t) \<Rightarrow> k x t)"
  by (simp add: bind_def)

lemma run_seq: "seq m n s = (case m s of (Inl e, t) \<Rightarrow> (Inl e, t) | (Inr x, t) \<Rightarrow> n t)"
  by (simp add: seq_def bind_def)

lemma bind_Inr [run_simps]: "m s = (Inr x, t) \<Longrightarrow> bind m k s = k x t"
  by (simp add: run_bind)

lemma bind_Inl [run_simps]: "m s = (Inl e, t) \<Longrightarrow> bind m k s = (Inl e, t)"
  by (simp add: run_bind)

lemma seq_Inr [run_simps]: "m s = (Inr x, t) \<Longrightarrow> seq m n s = n t"
  by (simp add: run_seq)

lemma seq_Inl [run_simps]: "m s = (Inl e, t) \<Longrightarrow> seq m n s = (Inl e, t)"
  by (simp add: run_seq)

text \<open>Successful runs, as equivalences for unfolding an assumption.\<close>

named_theorems ok_simps "successful runs of the monad's combinators"

lemma bind_ok [ok_simps]:
  "bind m k s = (Inr y, u) \<longleftrightarrow> (\<exists>x t. m s = (Inr x, t) \<and> k x t = (Inr y, u))"
  by (auto simp: run_bind split: prod.splits sum.splits)

lemma seq_ok [ok_simps]:
  "seq m n s = (Inr y, u) \<longleftrightarrow> (\<exists>x t. m s = (Inr x, t) \<and> n t = (Inr y, u))"
  by (auto simp: run_seq split: prod.splits sum.splits)

lemma throwIf_ok [ok_simps]: "throwIf b e s = (Inr y, u) \<longleftrightarrow> \<not> b \<and> u = s"
  by (auto simp: run_simps)

lemma orThrow_ok [ok_simps]: "orThrow e x s = (Inr y, u) \<longleftrightarrow> x = Some y \<and> u = s"
  by (auto simp: run_simps split: option.splits)

lemma return_ok [ok_simps]: "return x s = (Inr y, u) \<longleftrightarrow> y = x \<and> u = s"
  by (auto simp: run_simps)

lemma lift_ok [ok_simps]: "lift r s = (Inr y, u) \<longleftrightarrow> r = Inr y \<and> u = s"
  by (auto simp: run_simps)

lemma gets_ok [ok_simps]: "gets f s = (Inr y, u) \<longleftrightarrow> y = f s \<and> u = s"
  by (auto simp: run_simps)

lemma modify_ok [ok_simps]: "modify f s = (Inr y, u) \<longleftrightarrow> u = f s"
  by (auto simp: run_simps)

lemma throw_ok [ok_simps]: "throw e s = (Inr y, u) \<longleftrightarrow> False"
  by (auto simp: run_simps)

lemma transaction_ok [ok_simps]: "transaction m s = (Inr y, u) \<longleftrightarrow> m s = (Inr y, u)"
  by (auto simp: transaction_def split: prod.splits sum.splits)

text \<open>A failed transaction leaves the database as it found it.\<close>

lemma transaction_rollback: "transaction m s = (Inl e, u) \<Longrightarrow> u = s"
  by (auto simp: transaction_def split: prod.splits sum.splits)

lemma transaction_Inr [run_simps]: "m s = (Inr x, t) \<Longrightarrow> transaction m s = (Inr x, t)"
  by (simp add: transaction_def)

lemma transaction_Inl [run_simps]: "m s = (Inl e, t) \<Longrightarrow> transaction m s = (Inl e, s)"
  by (simp add: transaction_def)

lemma catch_Inr [run_simps]: "m s = (Inr x, t) \<Longrightarrow> catch m h s = (Inr x, t)"
  by (simp add: catch_def)

lemma catch_Inl [run_simps]: "m s = (Inl e, t) \<Longrightarrow> catch m h s = h e t"
  by (simp add: catch_def)

text \<open>A run that does not throw, for evaluating one on a concrete state.\<close>

lemma ran_ok: "\<not> isl (fst (m s)) \<Longrightarrow> \<exists>x. m s = (Inr x, snd (m s))"
  by (cases "m s"; cases "fst (m s)") auto

lemma ran_to: "fst (m s) = x \<Longrightarrow> m s = (x, snd (m s))"
  by (metis prod.collapse)

section \<open>Invariants kept by programs\<close>

text \<open>
  \<open>keeps I m\<close>: the program preserves \<open>I\<close> whether it returns or throws.  The rules in
  \<open>keeps_intros\<close> follow the program's structure.
\<close>

definition keeps :: "('s \<Rightarrow> bool) \<Rightarrow> ('s, 'e, 'a) prog \<Rightarrow> bool" where
  "keeps I m \<longleftrightarrow> (\<forall>s. I s \<longrightarrow> I (snd (m s)))"

named_theorems keeps_intros "structural rules for preserved invariants"

lemma keepsI: "(\<And>s x t. I s \<Longrightarrow> m s = (x, t) \<Longrightarrow> I t) \<Longrightarrow> keeps I m"
  unfolding keeps_def by (metis prod.collapse)

lemma keepsD: "keeps I m \<Longrightarrow> I s \<Longrightarrow> m s = (x, t) \<Longrightarrow> I t"
  by (force simp: keeps_def)

lemma keeps_return [keeps_intros]: "keeps I (return x)"
  by (simp add: keeps_def run_simps)

lemma keeps_throw [keeps_intros]: "keeps I (throw e)"
  by (simp add: keeps_def run_simps)

lemma keeps_gets [keeps_intros]: "keeps I (gets f)"
  by (simp add: keeps_def run_simps)

lemma keeps_lift [keeps_intros]: "keeps I (lift r)"
  by (simp add: keeps_def run_simps)

lemma keeps_throwIf [keeps_intros]: "keeps I (throwIf b e)"
  by (simp add: keeps_def run_simps)

lemma keeps_orThrow [keeps_intros]: "keeps I (orThrow e x)"
  by (simp add: keeps_def run_simps)

lemma keeps_modify: "(\<And>s. I s \<Longrightarrow> I (f s)) \<Longrightarrow> keeps I (modify f)"
  by (simp add: keeps_def run_simps)

lemma keeps_bind [keeps_intros]:
  "keeps I m \<Longrightarrow> (\<And>x. keeps I (k x)) \<Longrightarrow> keeps I (bind m k)"
  by (force simp: keeps_def run_bind split: prod.splits sum.splits)

lemma keeps_seq [keeps_intros]: "keeps I m \<Longrightarrow> keeps I n \<Longrightarrow> keeps I (seq m n)"
  by (simp add: seq_def keeps_bind)

lemma keeps_transaction [keeps_intros]: "keeps I m \<Longrightarrow> keeps I (transaction m)"
  by (force simp: keeps_def transaction_def split: prod.splits sum.splits)

lemma keeps_catch [keeps_intros]:
  "keeps I m \<Longrightarrow> (\<And>e. keeps I (h e)) \<Longrightarrow> keeps I (catch m h)"
  by (force simp: keeps_def catch_def split: prod.splits sum.splits)

lemma keeps_if [keeps_intros]:
  "(b \<Longrightarrow> keeps I m) \<Longrightarrow> (\<not> b \<Longrightarrow> keeps I n) \<Longrightarrow> keeps I (if b then m else n)"
  by simp

lemma keeps_option [keeps_intros]:
  "keeps I m \<Longrightarrow> (\<And>x. keeps I (k x)) \<Longrightarrow> keeps I (case v of None \<Rightarrow> m | Some x \<Rightarrow> k x)"
  by (cases v) auto

lemma keeps_let [keeps_intros]: "(\<And>x. keeps I (k x)) \<Longrightarrow> keeps I (let x = v in k x)"
  by simp

text \<open>What follows a guard may rely on it.\<close>

lemma keeps_guard: "(\<not> b \<Longrightarrow> keeps I m) \<Longrightarrow> keeps I (seq (throwIf b e) m)"
  by (cases b) (auto simp: keeps_def run_seq run_simps)

text \<open>The answer of an outside call may be used to show the rest correct.\<close>

lemma keeps_bind_lift: "(\<And>x. r = Inr x \<Longrightarrow> keeps I (k x)) \<Longrightarrow> keeps I (bind (lift r) k)"
  by (cases r) (auto simp: keeps_def run_bind lift_def)

lemma keeps_forEach [keeps_intros]: "(\<And>x. keeps I (f x)) \<Longrightarrow> keeps I (forEach f xs)"
  by (induction xs) (auto intro: keeps_intros)

text \<open>
  A transaction needs its invariant only on the states it commits.
\<close>

lemma keeps_transactionI:
  "(\<And>s x t. I s \<Longrightarrow> m s = (Inr x, t) \<Longrightarrow> I t) \<Longrightarrow> keeps I (transaction m)"
  by (auto simp: keeps_def transaction_def split: prod.splits sum.splits)

section \<open>Invariants of committed runs\<close>

text \<open>
  \<open>commits I m\<close>: a run that returns preserves \<open>I\<close>.  It is what a program inside a transaction
  has to show, since a run that throws is rolled back.
\<close>

definition commits :: "('s \<Rightarrow> bool) \<Rightarrow> ('s, 'e, 'a) prog \<Rightarrow> bool" where
  "commits I m \<longleftrightarrow> (\<forall>s x t. I s \<longrightarrow> m s = (Inr x, t) \<longrightarrow> I t)"

named_theorems commits_intros "structural rules for invariants of committed runs"

lemma commitsI: "(\<And>s x t. I s \<Longrightarrow> m s = (Inr x, t) \<Longrightarrow> I t) \<Longrightarrow> commits I m"
  by (simp add: commits_def)

lemma commitsD: "commits I m \<Longrightarrow> I s \<Longrightarrow> m s = (Inr x, t) \<Longrightarrow> I t"
  unfolding commits_def by blast

lemma commits_keeps: "keeps I m \<Longrightarrow> commits I m"
  by (force simp: commits_def keeps_def)

lemma commits_modify: "(\<And>s. I s \<Longrightarrow> I (f s)) \<Longrightarrow> commits I (modify f)"
  by (simp add: commits_keeps keeps_modify)

lemma commits_throw [commits_intros]: "commits I (throw e)"
  by (simp add: commits_keeps keeps_throw)

lemma commits_return [commits_intros]: "commits I (return x)"
  by (simp add: commits_keeps keeps_return)

lemma commits_gets [commits_intros]: "commits I (gets f)"
  by (simp add: commits_keeps keeps_gets)

lemma commits_throwIf [commits_intros]: "commits I (throwIf b e)"
  by (simp add: commits_keeps keeps_throwIf)

lemma commits_orThrow [commits_intros]: "commits I (orThrow e v)"
  by (simp add: commits_keeps keeps_orThrow)

lemma commits_bind [commits_intros]: "commits I m \<Longrightarrow> (\<And>x. commits I (k x)) \<Longrightarrow> commits I (bind m k)"
  unfolding commits_def bind_ok by blast

lemma commits_seq [commits_intros]: "commits I m \<Longrightarrow> commits I n \<Longrightarrow> commits I (seq m n)"
  by (simp add: seq_def commits_bind)

lemma commits_if [commits_intros]:
  "(b \<Longrightarrow> commits I m) \<Longrightarrow> (\<not> b \<Longrightarrow> commits I n) \<Longrightarrow> commits I (if b then m else n)"
  by simp

lemma commits_option [commits_intros]:
  "commits I m \<Longrightarrow> (\<And>x. commits I (k x)) \<Longrightarrow> commits I (case v of None \<Rightarrow> m | Some x \<Rightarrow> k x)"
  by (cases v) auto

lemma commits_let [commits_intros]: "(\<And>x. commits I (k x)) \<Longrightarrow> commits I (let x = v in k x)"
  by simp

lemma commits_prod [commits_intros]: "(\<And>x y. commits I (k x y)) \<Longrightarrow> commits I (case v of (x, y) \<Rightarrow> k x y)"
  by (cases v) auto

lemma commits_forEach [commits_intros]: "(\<And>x. commits I (f x)) \<Longrightarrow> commits I (forEach f xs)"
  by (induction xs) (auto intro: commits_intros)

lemma keeps_prod [keeps_intros]: "(\<And>x y. keeps I (k x y)) \<Longrightarrow> keeps I (case v of (x, y) \<Rightarrow> k x y)"
  by (cases v) auto

section \<open>Weakest preconditions\<close>

text \<open>
  \<open>wp m Q E s\<close>: run from \<open>s\<close>, the program returns a value and a state with \<open>Q\<close>, or
  throws in a state with \<open>E\<close>.  \<open>wp_simps\<close> computes it through the combinators;
  \<open>wp_call\<close> uses what is known of a call.
\<close>

definition wp :: "('s, 'e, 'a) prog \<Rightarrow> ('a \<Rightarrow> 's \<Rightarrow> bool) \<Rightarrow> ('e \<Rightarrow> 's \<Rightarrow> bool) \<Rightarrow> 's \<Rightarrow> bool" where
  "wp m Q E s = (case m s of (Inl e, t) \<Rightarrow> E e t | (Inr x, t) \<Rightarrow> Q x t)"

named_theorems wp_simps "weakest preconditions of the combinators"

lemma wp_return [wp_simps]: "wp (return x) Q E s = Q x s"
  by (simp add: wp_def run_simps)

lemma wp_throw [wp_simps]: "wp (throw e) Q E s = E e s"
  by (simp add: wp_def run_simps)

lemma wp_gets [wp_simps]: "wp (gets f) Q E s = Q (f s) s"
  by (simp add: wp_def run_simps)

lemma wp_modify [wp_simps]: "wp (modify f) Q E s = Q () (f s)"
  by (simp add: wp_def run_simps)

lemma wp_lift [wp_simps]: "wp (lift r) Q E s = (case r of Inl e \<Rightarrow> E e s | Inr x \<Rightarrow> Q x s)"
  by (simp add: wp_def run_simps)

lemma wp_throwIf [wp_simps]: "wp (throwIf b e) Q E s = (if b then E e s else Q () s)"
  by (simp add: wp_def run_simps)

lemma wp_orThrow [wp_simps]: "wp (orThrow e v) Q E s = (case v of None \<Rightarrow> E e s | Some x \<Rightarrow> Q x s)"
  by (simp add: wp_def run_simps split: option.splits)

lemma wp_bind [wp_simps]: "wp (bind m k) Q E s = wp m (\<lambda>x. wp (k x) Q E) E s"
  by (simp add: wp_def run_bind split: prod.splits sum.splits)

lemma wp_seq [wp_simps]: "wp (seq m n) Q E s = wp m (\<lambda>_. wp n Q E) E s"
  by (simp add: wp_def run_seq split: prod.splits sum.splits)

lemma wp_transaction [wp_simps]: "wp (transaction m) Q E s = wp m Q (\<lambda>e _. E e s) s"
  by (simp add: wp_def transaction_def split: prod.splits sum.splits)

lemma wp_catch [wp_simps]: "wp (catch m h) Q E s = wp m Q (\<lambda>e. wp (h e) Q E) s"
  by (simp add: wp_def catch_def split: prod.splits sum.splits)

lemma wp_call:
  "wp m Q' E' s \<Longrightarrow> (\<And>x t. Q' x t \<Longrightarrow> Q x t) \<Longrightarrow> (\<And>e t. E' e t \<Longrightarrow> E e t) \<Longrightarrow> wp m Q E s"
  by (auto simp: wp_def split: prod.splits sum.splits)

lemma wp_Inl: "m s = (Inl e, t) \<Longrightarrow> wp m Q E s = E e t"
  by (simp add: wp_def)

lemma wp_Inr: "m s = (Inr x, t) \<Longrightarrow> wp m Q E s = Q x t"
  by (simp add: wp_def)

lemma wp_run: "wp m Q E s \<longleftrightarrow> (\<forall>x t. m s = (Inr x, t) \<longrightarrow> Q x t) \<and> (\<forall>e t. m s = (Inl e, t) \<longrightarrow> E e t)"
  by (auto simp: wp_def split: prod.splits sum.splits)

lemma wp_keeps: "keeps I m \<longleftrightarrow> (\<forall>s. I s \<longrightarrow> wp m (\<lambda>_. I) (\<lambda>_. I) s)"
proof -
  have "wp m (\<lambda>_. I) (\<lambda>_. I) s \<longleftrightarrow> I (snd (m s))" for s
    by (cases "m s"; cases "fst (m s)") (auto simp: wp_def)
  then show ?thesis by (simp add: keeps_def)
qed

lemma wp_forEach:
  assumes "I s" "\<And>x s. x \<in> set xs \<Longrightarrow> I s \<Longrightarrow> wp (f x) (\<lambda>_. I) E s" "\<And>s. I s \<Longrightarrow> Q () s"
  shows "wp (forEach f xs) Q E s"
  using assms(1,2)
proof (induction xs arbitrary: s)
  case Nil
  then show ?case using assms(3) by (simp add: wp_simps)
next
  case (Cons x xs)
  have "wp (f x) (\<lambda>_. I) E s" using Cons.prems by simp
  then show ?case
    unfolding forEach.simps wp_seq by (rule wp_call) (use Cons in auto)
qed

section \<open>Tables as row lists\<close>

text \<open>A UUID is a natural number, a \<open>Date\<close> its milliseconds.\<close>

type_synonym uuid = nat
type_synonym timestamp = int

text \<open>
  A table is the list of its rows in insertion order.  \<open>find_by\<close> is Prisma's
  \<open>findUnique\<close> (or \<open>findFirst\<close> on one column), \<open>update_where\<close> its \<open>updateMany\<close>, and
  appending a row its \<open>create\<close>.
\<close>

definition find_by :: "('r \<Rightarrow> 'k) \<Rightarrow> 'k \<Rightarrow> 'r list \<Rightarrow> 'r option" where
  "find_by key k rows = find (\<lambda>r. key r = k) rows"

definition update_where :: "('r \<Rightarrow> bool) \<Rightarrow> ('r \<Rightarrow> 'r) \<Rightarrow> 'r list \<Rightarrow> 'r list" where
  "update_where p f rows = map (\<lambda>r. if p r then f r else r) rows"

abbreviation set_row :: "('r \<Rightarrow> 'k) \<Rightarrow> 'k \<Rightarrow> ('r \<Rightarrow> 'r) \<Rightarrow> 'r list \<Rightarrow> 'r list" where
  "set_row key k f \<equiv> update_where (\<lambda>r. key r = k) f"

lemma find_by_Nil [simp]: "find_by key k [] = None"
  by (simp add: find_by_def)

lemma find_by_Cons [simp]:
  "find_by key k (r # rows) = (if key r = k then Some r else find_by key k rows)"
  by (simp add: find_by_def)

lemma find_by_Some: "find_by key k rows = Some r \<Longrightarrow> r \<in> set rows \<and> key r = k"
  by (induction rows) (auto split: if_splits)

lemma find_by_None: "find_by key k rows = None \<longleftrightarrow> k \<notin> key ` set rows"
  by (induction rows) auto

lemma find_by_append [simp]:
  "find_by key k (xs @ ys) = (case find_by key k xs of None \<Rightarrow> find_by key k ys | Some r \<Rightarrow> Some r)"
  by (induction xs) auto

lemma find_by_unique:
  "distinct (map key rows) \<Longrightarrow> r \<in> set rows \<Longrightarrow> find_by key (key r) rows = Some r"
  by (induction rows) (auto simp: image_iff)

lemma update_where_Nil [simp]: "update_where p f [] = []"
  by (simp add: update_where_def)

lemma update_where_Cons [simp]:
  "update_where p f (r # rows) = (if p r then f r else r) # update_where p f rows"
  by (simp add: update_where_def)

lemma update_where_append [simp]:
  "update_where p f (xs @ ys) = update_where p f xs @ update_where p f ys"
  by (simp add: update_where_def)

lemma length_update_where [simp]: "length (update_where p f rows) = length rows"
  by (simp add: update_where_def)

lemma map_update_where [simp]:
  "(\<And>r. g (f r) = g r) \<Longrightarrow> map g (update_where p f rows) = map g rows"
  by (induction rows) auto

lemma image_update_where [simp]:
  "(\<And>r. g (f r) = g r) \<Longrightarrow> g ` set (update_where p f rows) = g ` set rows"
  by (metis map_update_where image_set)

lemma update_where_none: "(\<And>r. r \<in> set rows \<Longrightarrow> \<not> p r) \<Longrightarrow> update_where p f rows = rows"
  by (induction rows) auto

lemma find_by_set_row:
  "(\<And>r. key (f r) = key r) \<Longrightarrow>
   find_by key k (set_row key j f rows) =
     (if k = j then map_option f (find_by key k rows) else find_by key k rows)"
  by (induction rows) auto

lemma in_set_row:
  "x \<in> set (update_where p f rows) \<longleftrightarrow> (\<exists>r \<in> set rows. x = (if p r then f r else r))"
  by (auto simp: update_where_def)

lemma set_row_cases:
  assumes "distinct (map key rows)" "r \<in> set rows" "x \<in> set (set_row key (key r) f rows)"
  shows "x = f r \<or> x \<in> set rows \<and> key x \<noteq> key r"
proof -
  from assms(3) obtain y where y: "y \<in> set rows" "x = (if key y = key r then f y else y)"
    by (auto simp: in_set_row)
  moreover have "y = r" if "key y = key r"
    using that find_by_unique [OF assms(1,2)] find_by_unique [OF assms(1) y(1)] by simp
  ultimately show ?thesis by auto
qed

text \<open>Sums over a table, the model of Prisma's \<open>aggregate _sum\<close>.\<close>

definition sum_where :: "('r \<Rightarrow> bool) \<Rightarrow> ('r \<Rightarrow> rat) \<Rightarrow> 'r list \<Rightarrow> rat" where
  "sum_where p f rows = sum_list (map f (filter p rows))"

lemma sum_where_Nil [simp]: "sum_where p f [] = 0"
  by (simp add: sum_where_def)

lemma sum_where_Cons [simp]:
  "sum_where p f (r # rows) = (if p r then f r else 0) + sum_where p f rows"
  by (simp add: sum_where_def)

lemma sum_where_append [simp]: "sum_where p f (xs @ ys) = sum_where p f xs + sum_where p f ys"
  by (simp add: sum_where_def)

lemma sum_where_nonneg: "(\<And>r. r \<in> set rows \<Longrightarrow> p r \<Longrightarrow> 0 \<le> f r) \<Longrightarrow> 0 \<le> sum_where p f rows"
  by (induction rows) auto

lemma sum_where_none: "(\<And>r. r \<in> set rows \<Longrightarrow> \<not> p r) \<Longrightarrow> sum_where p f rows = 0"
  by (induction rows) auto

lemma sum_where_member:
  "(\<And>r. r \<in> set rows \<Longrightarrow> p r \<Longrightarrow> 0 \<le> f r) \<Longrightarrow> x \<in> set rows \<Longrightarrow> p x \<Longrightarrow> f x \<le> sum_where p f rows"
  by (induction rows) (auto intro: sum_where_nonneg add_increasing add_increasing2)

text \<open>
  Updating the one row with key \<open>k\<close> changes the sum by that row's change.
\<close>

lemma sum_where_set_row:
  assumes "distinct (map key rows)" "find_by key k rows = Some r" "\<And>x. key (g x) = key x"
  shows "sum_where p f (set_row key k g rows) =
    sum_where p f rows - (if p r then f r else 0) + (if p (g r) then f (g r) else 0)"
  using assms(1,2)
proof (induction rows)
  case Nil
  then show ?case by simp
next
  case (Cons a rows)
  show ?case
  proof (cases "key a = k")
    case True
    with Cons.prems have "a = r" "\<And>x. x \<in> set rows \<Longrightarrow> key x \<noteq> k"
      by (auto simp: image_iff)
    then show ?thesis using True by (simp add: update_where_none)
  next
    case False
    with Cons show ?thesis by simp
  qed
qed

lemma find_append: "find P (xs @ ys) = (case find P xs of None \<Rightarrow> find P ys | Some x \<Rightarrow> Some x)"
  by (induction xs) auto

lemma find_in: "find P xs = Some p \<Longrightarrow> p \<in> set xs \<and> P p"
  by (induction xs) (auto split: if_splits)

section \<open>JavaScript numbers at the boundary\<close>

text \<open>
  A \<open>number\<close> argument is either a finite value, read as the rational it denotes, or one
  of NaN and the infinities, which \<open>Number.isFinite\<close> rejects.  \<open>Math.round\<close> rounds half
  up.
\<close>

datatype jsnum = Finite rat | NonFinite

fun isFinite :: "jsnum \<Rightarrow> bool" where
  "isFinite (Finite _) = True"
| "isFinite NonFinite = False"

fun num_of :: "jsnum \<Rightarrow> rat" where
  "num_of (Finite x) = x"
| "num_of NonFinite = 0"

definition math_round :: "rat \<Rightarrow> int" where
  "math_round x = \<lfloor>x + 1 / 2\<rfloor>"

lemma math_round_near: "\<bar>of_int (math_round x) - x\<bar> \<le> 1 / 2"
  unfolding math_round_def by linarith

text \<open>
  Rounding half away from zero to \<open>n\<close> decimals: decimal.js's \<open>toFixed\<close> and PostgreSQL's
  \<open>numeric\<close>.
\<close>

definition round_away :: "nat \<Rightarrow> rat \<Rightarrow> rat" where
  "round_away n x = (if 0 \<le> x then of_int \<lfloor>x * 10 ^ n + 1 / 2\<rfloor> / 10 ^ n
                     else - (of_int \<lfloor>(- x) * 10 ^ n + 1 / 2\<rfloor> / 10 ^ n))"

lemma round_away_near: "\<bar>round_away n x - x\<bar> \<le> 1 / (2 * 10 ^ n)"
proof -
  have near: "\<bar>of_int \<lfloor>y * 10 ^ n + 1 / 2\<rfloor> / 10 ^ n - y\<bar> \<le> 1 / (2 * 10 ^ n)" for y :: rat
  proof -
    have "\<bar>of_int \<lfloor>y * 10 ^ n + 1 / 2\<rfloor> - y * 10 ^ n\<bar> \<le> (1 / 2 :: rat)"
      by linarith
    then have "\<bar>of_int \<lfloor>y * 10 ^ n + 1 / 2\<rfloor> - y * 10 ^ n\<bar> / 10 ^ n \<le> (1 / 2) / (10 ^ n :: rat)"
      by (intro divide_right_mono) simp_all
    moreover have "of_int \<lfloor>y * 10 ^ n + 1 / 2\<rfloor> / 10 ^ n - y = (of_int \<lfloor>y * 10 ^ n + 1 / 2\<rfloor> - y * 10 ^ n) / 10 ^ n"
      by (simp add: field_simps)
    ultimately show ?thesis by simp
  qed
  show ?thesis
    using near [of x] near [of "- x"] by (auto simp: round_away_def abs_minus_commute)
qed

section \<open>Optional arguments\<close>

text \<open>\<open>value ?? dflt\<close>\<close>

fun orElse :: "'a option \<Rightarrow> 'a \<Rightarrow> 'a" where
  "orElse (Some x) _ = x"
| "orElse None d = d"

section \<open>Pagination\<close>

text \<open>
  The list endpoints clamp \<open>page\<close> below by 1 and \<open>pageSize\<close> into \<open>[1, cap]\<close>, then skip
  \<open>(page - 1) * pageSize\<close> rows and take \<open>pageSize\<close>.
\<close>

record 'r page_result =
  pr_rows :: "'r list"
  pr_total :: nat
  pr_page :: int
  pr_pageSize :: int

definition clamp_page :: "int option \<Rightarrow> int" where
  "clamp_page p = max 1 (case p of None \<Rightarrow> 1 | Some n \<Rightarrow> n)"

definition clamp_size :: "int \<Rightarrow> int \<Rightarrow> int option \<Rightarrow> int" where
  "clamp_size cap dflt p = min cap (max 1 (case p of None \<Rightarrow> dflt | Some n \<Rightarrow> n))"

definition paginate :: "int \<Rightarrow> int \<Rightarrow> int option \<Rightarrow> int option \<Rightarrow> 'r list \<Rightarrow> 'r page_result" where
  "paginate cap dflt page sz rows =
     (let p = clamp_page page; n = clamp_size cap dflt sz
      in \<lparr>pr_rows = take (nat n) (drop (nat ((p - 1) * n)) rows),
          pr_total = length rows, pr_page = p, pr_pageSize = n\<rparr>)"

lemma paginate_bounded: "1 \<le> cap \<Longrightarrow> int (length (pr_rows (paginate cap d p n rows))) \<le> cap"
  by (simp add: paginate_def Let_def clamp_size_def) linarith

lemma clamp_size_pos: "1 \<le> cap \<Longrightarrow> 1 \<le> clamp_size cap d n"
  by (auto simp: clamp_size_def)

text \<open>Consecutive pages, concatenated, are a prefix of the listing: no row is lost or repeated.\<close>

lemma take_chunks: "concat (map (\<lambda>i. take n (drop (i * n) xs)) [0..<k]) = take (k * n) xs"
proof (induction k)
  case 0
  then show ?case by simp
next
  case (Suc k)
  then show ?case by (simp add: take_add [symmetric] add.commute)
qed

lemma paginate_covers:
  assumes "1 \<le> cap"
  shows "concat (map (\<lambda>i. pr_rows (paginate cap d (Some (int i + 1)) n rows)) [0..<k]) =
    take (k * nat (clamp_size cap d n)) rows"
proof -
  have "pr_rows (paginate cap d (Some (int i + 1)) n rows) =
      take (nat (clamp_size cap d n)) (drop (i * nat (clamp_size cap d n)) rows)" for i
    using clamp_size_pos [OF assms, of d n]
    by (simp add: paginate_def Let_def clamp_page_def nat_mult_distrib)
  then show ?thesis by (simp add: take_chunks)
qed

end
