(* ===== verification/Money.thy ===== *)
theory Money
  imports Prelude
begin

text \<open>
  Decimal columns.  \<open>apps/api/prisma/schema.prisma\<close> gives the amounts of the billing
  tables the type \<open>Decimal(18,6)\<close> and those of the inventory, costing and accounting
  tables \<open>Decimal(18,4)\<close>: the services compute on unrounded decimals (modelled as
  rationals) and the database rounds a value when it is stored.  The rounding is
  PostgreSQL's, so the definitions of the services take it as the parameter \<open>dec\<close>; the
  locale \<open>decimal_column\<close> states what is documented of it for a column whose last digit is
  worth \<open>unit_last\<close>, and \<open>numeric6\<close> and \<open>numeric4\<close>, round half away from zero, are the
  instances.  Overflow of the 18 digits and the 20 significant digits of decimal.js are
  outside the model.
\<close>

locale decimal_column =
  fixes dec :: "rat \<Rightarrow> rat" and unit_last :: rat
  assumes dec_idem: "dec (dec x) = dec x"
    and dec_add: "dec x = x \<Longrightarrow> dec y = y \<Longrightarrow> dec (x + y) = x + y"
    and dec_minus: "dec (- x) = - dec x"
    and dec_mono: "x \<le> y \<Longrightarrow> dec x \<le> dec y"
    and dec_shift: "dec x = x \<Longrightarrow> 0 \<le> x \<Longrightarrow> 0 \<le> y \<Longrightarrow> dec (x + y) = x + dec y"
    and dec_near: "\<bar>dec x - x\<bar> \<le> unit_last / 2"
begin

lemma dec_zero: "dec 0 = 0"
  using dec_minus [of 0] by simp

lemma dec_nonneg: "0 \<le> x \<Longrightarrow> 0 \<le> dec x"
  using dec_mono [of 0 x] by (simp add: dec_zero)

lemma dec_diff: "dec x = x \<Longrightarrow> dec y = y \<Longrightarrow> dec (x - y) = x - y"
  using dec_add [of x "- y"] dec_minus [of y] by simp

lemma dec_abs: "dec x = x \<Longrightarrow> dec \<bar>x\<bar> = \<bar>x\<bar>"
  using dec_minus [of x] by (simp add: abs_if)

lemma dec_sum_list: "(\<And>x. x \<in> set xs \<Longrightarrow> dec x = x) \<Longrightarrow> dec (sum_list xs) = sum_list xs"
  by (induction xs) (auto simp: dec_zero dec_add)

text \<open>
  Storing \<open>x + a\<close> moves a stored \<open>x\<close> by the stored \<open>a\<close> up to one unit in the last
  place; when \<open>a\<close> is itself a column value, exactly.
\<close>

lemma dec_step_drift: "dec x = x \<Longrightarrow> \<bar>(dec (x + a) - x) - dec a\<bar> \<le> unit_last"
  using dec_near [of "x + a"] dec_near [of a] by linarith

lemma dec_step_exact: "dec x = x \<Longrightarrow> dec a = a \<Longrightarrow> dec (x + a) - x = dec a"
  by (simp add: dec_add)

end

text \<open>The documented rounding of PostgreSQL's \<open>numeric(p,n)\<close>.\<close>

lemma round_away_grid: "round_away n (of_int k / 10 ^ n) = of_int k / 10 ^ n"
proof -
  have half: "\<lfloor>of_int m + 1 / 2 :: rat\<rfloor> = m" for m
    by linarith
  have "0 \<le> (of_int k / 10 ^ n :: rat) \<longleftrightarrow> 0 \<le> k"
    by (simp add: pos_le_divide_eq)
  moreover have "\<lfloor>- of_int k + 1 / 2 :: rat\<rfloor> = - k"
    using half [of "- k"] by simp
  ultimately show ?thesis
    by (simp add: round_away_def half)
qed

lemma round_away_on_grid: "\<exists>k. round_away n x = of_int k / 10 ^ n"
proof (cases "0 \<le> x")
  case True
  then show ?thesis by (auto simp: round_away_def)
next
  case False
  then have "round_away n x = of_int (- \<lfloor>(- x) * 10 ^ n + 1 / 2\<rfloor>) / 10 ^ n"
    by (simp add: round_away_def)
  then show ?thesis by blast
qed

lemma round_away_minus: "round_away n (- x) = - round_away n x"
proof (cases x "0 :: rat" rule: linorder_cases)
  case equal
  have "\<lfloor>1 / 2 :: rat\<rfloor> = 0" by linarith
  with equal show ?thesis by (simp add: round_away_def)
qed (auto simp: round_away_def)

lemma round_away_fix_grid: "round_away n x = x \<Longrightarrow> \<exists>k. x = of_int k / 10 ^ n"
  using round_away_on_grid [of n x] by auto

lemma round_away_pos: "0 \<le> x \<Longrightarrow> round_away n x = of_int \<lfloor>x * 10 ^ n + 1 / 2\<rfloor> / 10 ^ n"
  by (simp add: round_away_def)

lemma round_away_mono_nonneg: "0 \<le> x \<Longrightarrow> x \<le> y \<Longrightarrow> round_away n x \<le> round_away n y"
  by (simp add: round_away_pos divide_right_mono floor_mono)

lemma round_away_nonneg: "0 \<le> x \<Longrightarrow> 0 \<le> round_away n x"
  by (simp add: round_away_pos)

lemma round_away_mono: "x \<le> y \<Longrightarrow> round_away n x \<le> round_away n y"
proof (cases "0 \<le> x")
  case True
  then show "x \<le> y \<Longrightarrow> round_away n x \<le> round_away n y" by (rule round_away_mono_nonneg)
next
  case False
  assume "x \<le> y"
  show "round_away n x \<le> round_away n y"
  proof (cases "0 \<le> y")
    case True
    with False round_away_nonneg [of y n] round_away_nonneg [of "- x" n] show ?thesis
      by (simp add: round_away_minus)
  next
    case neg: False
    with False \<open>x \<le> y\<close> have "round_away n (- y) \<le> round_away n (- x)"
      by (intro round_away_mono_nonneg) auto
    then show ?thesis by (simp add: round_away_minus)
  qed
qed

lemma round_away_column: "decimal_column (round_away n) (1 / 10 ^ n)"
proof
  fix x y :: rat
  show "round_away n (round_away n x) = round_away n x"
    using round_away_on_grid [of n x] round_away_grid by metis
  show "round_away n (x + y) = x + y" if fixed: "round_away n x = x" "round_away n y = y"
  proof -
    from fixed obtain k l where "x = of_int k / 10 ^ n" "y = of_int l / 10 ^ n"
      by (meson round_away_fix_grid)
    then have "x + y = of_int (k + l) / 10 ^ n" by (simp add: add_divide_distrib)
    then show ?thesis using round_away_grid by metis
  qed
  show "round_away n (- x) = - round_away n x" by (rule round_away_minus)
  show "round_away n x \<le> round_away n y" if "x \<le> y" using that by (rule round_away_mono)
  show "round_away n (x + y) = x + round_away n y" if fixed: "round_away n x = x" "0 \<le> x" "0 \<le> y"
  proof -
    from fixed obtain k where k: "x = of_int k / 10 ^ n" by (meson round_away_fix_grid)
    have "\<lfloor>(x + y) * 10 ^ n + 1 / 2\<rfloor> = k + \<lfloor>y * 10 ^ n + 1 / 2\<rfloor>"
      using k by (simp add: algebra_simps)
    then show ?thesis
      using fixed k by (simp add: round_away_pos add_divide_distrib)
  qed
  show "\<bar>round_away n x - x\<bar> \<le> 1 / 10 ^ n / 2" using round_away_near [of n x] by (simp add: field_simps)
qed

section \<open>The money columns: \<open>Decimal(18,6)\<close>\<close>

definition ulp :: rat where
  "ulp = 1 / 1000000"

locale money_column = decimal_column dec ulp for dec

definition numeric6 :: "rat \<Rightarrow> rat" where
  "numeric6 = round_away 6"

interpretation numeric6: money_column numeric6
  using round_away_column [of 6] by (simp add: numeric6_def ulp_def money_column_def)

section \<open>The quantity and cost columns: \<open>Decimal(18,4)\<close>\<close>

locale cost_column = decimal_column dec "1 / 10000" for dec

definition numeric4 :: "rat \<Rightarrow> rat" where
  "numeric4 = round_away 4"

interpretation numeric4: cost_column numeric4
  using round_away_column [of 4] by (simp add: numeric4_def cost_column_def)

end
