(* ===== verification/BillingSchema.thy ===== *)
theory BillingSchema
  imports Money
begin

text \<open>
  The data of the AI billing module (\<open>apps/api/src/modules/ai-billing\<close>): the enums and
  tables of \<open>apps/api/prisma/schema.prisma\<close> (lines 5047-5505), the errors of
  \<open>billing.errors.ts\<close>, the database state the services share, and the Prisma calls on it
  (create, update, updateMany).  A UUID is a natural number drawn from \<open>next_id\<close>; a
  \<open>Date\<close> is its milliseconds; \<open>clock\<close> is what \<open>new Date()\<close> reads.  JSON columns
  (\<open>metadata\<close>, the audit rows' before/after snapshots) are not part of the rows.
\<close>

section \<open>Enums\<close>

datatype TenantTier = STARTER | PROFESSIONAL | ENTERPRISE
datatype AiBillingProviderStatus = ACTIVE | DISABLED
datatype AiBillingModelStatus = ACTIVE | DISABLED
datatype AiPricingScope = GLOBAL | PLAN | TENANT
datatype AiPricingStatus = ACTIVE | DISABLED
datatype AiWalletStatus = ACTIVE | SUSPENDED | CLOSED
datatype AiLedgerType = PURCHASE | MANUAL_CREDIT | USAGE_CHARGE | REFUND | BONUS_CREDIT
  | PROMO_CREDIT | DISPUTE_RESOLUTION | CHARGE_REVERSAL | CREDIT_EXPIRY | ADMIN_ADJUSTMENT
  | CORRECTION
datatype AiReservationStatus = ACTIVE | FINALIZED | RELEASED | EXPIRED
datatype AiPurchaseMethod = STRIPE | BANK_TRANSFER
datatype AiPurchaseStatus = PENDING | COMPLETED | REJECTED | CANCELLED | EXPIRED | REFUNDED
datatype AiAccessScope = USER | TENANT | PLAN
datatype AiAccessStatus = ENABLED | DISABLED | SUSPENDED
datatype AiDisputeType = UNEXPECTED_CHARGE | DUPLICATE_CHARGE | FAILED_REQUEST
  | INCORRECT_BILLING | REFUND_REQUEST | TOKEN_USAGE_DISAGREEMENT
datatype AiDisputeStatus = OPEN | UNDER_INVESTIGATION | AWAITING_CUSTOMER | RESOLVED | CLOSED
datatype AiRefundKind = WALLET_CREDIT | CASH
datatype AiRefundStatus = PENDING | COMPLETED | FAILED
datatype AiUsageBillingStatus = CHARGED | FAILED | UNBILLED

section \<open>Errors\<close>

text \<open>
  One constructor per class of \<open>billing.errors.ts\<close>; the prose of the messages is left
  out, since the class carries a stable machine code.  The last two are what the Prisma
  client throws for a missing row (P2025) and a unique constraint (P2002).
\<close>

datatype billing_error =
    InsufficientCreditsError
  | WalletSuspendedError
  | AiAccessDeniedError string
  | SpendLimitExceededError
  | BillingValidationError
  | BillingNotFoundError
  | PricingMissingError
  | PaymentProviderError
  | PrismaRecordNotFound
  | PrismaUniqueViolation

text \<open>The machine code and HTTP status of each class; \<open>None\<close> is not an \<open>AiBillingError\<close>.\<close>

fun error_code :: "billing_error \<Rightarrow> (string \<times> nat) option" where
  "error_code InsufficientCreditsError = Some (''INSUFFICIENT_CREDITS'', 402)"
| "error_code WalletSuspendedError = Some (''WALLET_SUSPENDED'', 402)"
| "error_code (AiAccessDeniedError code) = Some (code, 403)"
| "error_code SpendLimitExceededError = Some (''AI_SPEND_LIMIT_EXCEEDED'', 402)"
| "error_code BillingValidationError = Some (''AI_BILLING_VALIDATION'', 400)"
| "error_code BillingNotFoundError = Some (''AI_BILLING_NOT_FOUND'', 404)"
| "error_code PricingMissingError = Some (''AI_PRICING_MISSING'', 503)"
| "error_code PaymentProviderError = Some (''PAYMENT_PROVIDER_ERROR'', 502)"
| "error_code PrismaRecordNotFound = None"
| "error_code PrismaUniqueViolation = None"

section \<open>Rows\<close>

record AiWallet =
  w_id :: uuid
  w_tenantId :: uuid
  w_currency :: string
  w_balance :: rat
  w_reservedBalance :: rat
  w_totalPurchased :: rat
  w_totalConsumed :: rat
  w_totalRefunded :: rat
  w_totalAdjusted :: rat
  w_status :: AiWalletStatus
  w_lowBalanceThreshold :: "rat option"
  w_criticalBalanceThreshold :: "rat option"
  w_suspendThreshold :: "rat option"
  w_autoRechargeEnabled :: bool
  w_autoRechargeThreshold :: "rat option"
  w_autoRechargeAmount :: "rat option"
  w_autoRechargeMonthlyLimit :: "rat option"
  w_lastActivityAt :: "timestamp option"

record AiWalletTransaction =
  t_id :: uuid
  t_walletId :: uuid
  t_tenantId :: uuid
  t_type :: AiLedgerType
  t_amount :: rat
  t_balanceBefore :: rat
  t_balanceAfter :: rat
  t_relatedEntityType :: "string option"
  t_relatedEntityId :: "uuid option"
  t_createdById :: "uuid option"
  t_notes :: "string option"
  t_createdAt :: timestamp

record AiCreditReservation =
  r_id :: uuid
  r_walletId :: uuid
  r_tenantId :: uuid
  r_userId :: "uuid option"
  r_amount :: rat
  r_status :: AiReservationStatus
  r_requestId :: "uuid option"
  r_expiresAt :: timestamp
  r_finalizedAt :: "timestamp option"

record AiCreditPurchase =
  c_id :: uuid
  c_tenantId :: uuid
  c_walletId :: uuid
  c_userId :: uuid
  c_method :: AiPurchaseMethod
  c_amount :: rat
  c_currency :: string
  c_status :: AiPurchaseStatus
  c_idempotencyKey :: "uuid option"
  c_stripeSessionId :: "string option"
  c_stripePaymentIntentId :: "string option"
  c_stripeEventId :: "string option"
  c_proofUrl :: "string option"
  c_proofNote :: "string option"
  c_reviewedById :: "uuid option"
  c_reviewedAt :: "timestamp option"
  c_reviewNote :: "string option"
  c_createdAt :: timestamp

record AiRefund =
  f_id :: uuid
  f_tenantId :: uuid
  f_walletId :: uuid
  f_purchaseId :: "uuid option"
  f_disputeId :: "uuid option"
  f_amount :: rat
  f_kind :: AiRefundKind
  f_reason :: string
  f_status :: AiRefundStatus
  f_approvedById :: "uuid option"
  f_stripeRefundId :: "string option"
  f_transactionId :: "uuid option"
  f_evidenceUrl :: "string option"

record AiDispute =
  d_id :: uuid
  d_tenantId :: uuid
  d_raisedById :: uuid
  d_type :: AiDisputeType
  d_status :: AiDisputeStatus
  d_subject :: string
  d_description :: string
  d_relatedTransactionId :: "uuid option"
  d_relatedUsageLogId :: "uuid option"
  d_assignedToId :: "uuid option"
  d_resolutionNotes :: "string option"
  d_resolvedById :: "uuid option"
  d_resolvedAt :: "timestamp option"

record AiDisputeMessage =
  m_disputeId :: uuid
  m_tenantId :: uuid
  m_authorId :: "uuid option"
  m_authorRole :: string
  m_body :: string
  m_attachmentUrl :: "string option"

record AiModelPricing =
  p_id :: uuid
  p_modelId :: uuid
  p_scope :: AiPricingScope
  p_planTier :: "TenantTier option"
  p_tenantId :: "uuid option"
  p_currency :: string
  p_status :: AiPricingStatus
  p_effectiveFrom :: timestamp
  p_effectiveTo :: "timestamp option"
  p_providerInputCost :: rat
  p_providerOutputCost :: rat
  p_providerCachedInputCost :: rat
  p_providerReasoningCost :: rat
  p_providerEmbeddingCost :: rat
  p_providerImageCost :: rat
  p_customerInputPrice :: rat
  p_customerOutputPrice :: rat
  p_customerCachedInputPrice :: rat
  p_customerReasoningPrice :: rat
  p_customerEmbeddingPrice :: rat
  p_customerImagePrice :: rat
  p_createdById :: "uuid option"

record AiAccessPolicy =
  y_id :: uuid
  y_scope :: AiAccessScope
  y_tenantId :: "uuid option"
  y_userId :: "uuid option"
  y_planTier :: "TenantTier option"
  y_status :: AiAccessStatus
  y_allowedModelCodes :: "string list option"
  y_dailyRequestLimit :: "int option"
  y_monthlyRequestLimit :: "int option"
  y_maxQueryCost :: "rat option"
  y_maxDailySpend :: "rat option"
  y_maxMonthlySpend :: "rat option"
  y_notes :: "string option"
  y_createdById :: "uuid option"

record AiUsageLog =
  u_id :: uuid
  u_tenantId :: uuid
  u_userId :: "uuid option"
  u_providerId :: "uuid option"
  u_providerName :: string
  u_modelId :: "uuid option"
  u_modelCode :: string
  u_requestId :: "uuid option"
  u_callType :: string
  u_promptTokens :: rat
  u_completionTokens :: rat
  u_cachedTokens :: rat
  u_reasoningTokens :: rat
  u_totalTokens :: rat
  u_executionMs :: "rat option"
  u_providerCost :: rat
  u_customerCharge :: rat
  u_margin :: rat
  u_reservationId :: "uuid option"
  u_transactionId :: "uuid option"
  u_pricingId :: "uuid option"
  u_status :: AiUsageBillingStatus
  u_createdAt :: timestamp

record AiBillingAuditLog =
  a_actorId :: "uuid option"
  a_actorEmail :: "string option"
  a_actorRole :: "string option"
  a_tenantId :: "uuid option"
  a_action :: string
  a_entityType :: string
  a_entityId :: "uuid option"
  a_reason :: "string option"
  a_ipAddress :: "string option"
  a_createdAt :: timestamp

record AiBillingModel =
  b_id :: uuid
  b_providerId :: uuid
  b_modelCode :: string
  b_displayName :: string
  b_status :: AiBillingModelStatus
  b_maxContext :: "int option"
  b_isDefault :: bool

record AiBillingProvider =
  v_id :: uuid
  v_name :: string
  v_kind :: string
  v_apiKeyEncrypted :: "string option"
  v_apiKeyLast4 :: "string option"
  v_endpointUrl :: "string option"
  v_organizationId :: "string option"
  v_priority :: int
  v_status :: AiBillingProviderStatus

section \<open>The database\<close>

text \<open>
  \<open>stripe_refunds\<close> is not a table: it records the refund requests Stripe has accepted, so
  that the money sent back to cards can be compared with the database.
\<close>

record refund_request =
  rq_paymentIntentId :: string
  rq_amountCents :: "int option"
  rq_idempotencyKey :: uuid

record billing =
  wallets :: "AiWallet list"
  txs :: "AiWalletTransaction list"
  reservations :: "AiCreditReservation list"
  purchases :: "AiCreditPurchase list"
  refunds :: "AiRefund list"
  disputes :: "AiDispute list"
  messages :: "AiDisputeMessage list"
  pricings :: "AiModelPricing list"
  policies :: "AiAccessPolicy list"
  usageLogs :: "AiUsageLog list"
  audits :: "AiBillingAuditLog list"
  models :: "AiBillingModel list"
  providers :: "AiBillingProvider list"
  tiers :: "(uuid \<times> TenantTier) list"
  stripe_refunds :: "refund_request list"
  next_id :: uuid
  clock :: timestamp

type_synonym 'a billing_prog = "(billing, billing_error, 'a) prog"

definition empty_billing :: billing where
  "empty_billing = \<lparr>wallets = [], txs = [], reservations = [], purchases = [], refunds = [],
     disputes = [], messages = [], pricings = [], policies = [], usageLogs = [], audits = [],
     models = [], providers = [], tiers = [], stripe_refunds = [], next_id = 0, clock = 0\<rparr>"

text \<open>
  Prisma calls.  \<open>create_*\<close> appends a row built from the fresh id and the current time;
  \<open>update_*\<close> writes the row with the given id and throws when there is none.
\<close>

definition create_tx :: "(uuid \<Rightarrow> timestamp \<Rightarrow> AiWalletTransaction) \<Rightarrow> AiWalletTransaction billing_prog" where
  "create_tx mk = (\<lambda>s. let r = mk (next_id s) (clock s)
     in (Inr r, s\<lparr>txs := txs s @ [r], next_id := next_id s + 1\<rparr>))"

definition create_reservation :: "(uuid \<Rightarrow> timestamp \<Rightarrow> AiCreditReservation) \<Rightarrow> AiCreditReservation billing_prog" where
  "create_reservation mk = (\<lambda>s. let r = mk (next_id s) (clock s)
     in (Inr r, s\<lparr>reservations := reservations s @ [r], next_id := next_id s + 1\<rparr>))"

definition create_purchase :: "(uuid \<Rightarrow> timestamp \<Rightarrow> AiCreditPurchase) \<Rightarrow> AiCreditPurchase billing_prog" where
  "create_purchase mk = (\<lambda>s. let r = mk (next_id s) (clock s)
     in (Inr r, s\<lparr>purchases := purchases s @ [r], next_id := next_id s + 1\<rparr>))"

definition create_refund :: "(uuid \<Rightarrow> AiRefund) \<Rightarrow> AiRefund billing_prog" where
  "create_refund mk = (\<lambda>s. let r = mk (next_id s)
     in (Inr r, s\<lparr>refunds := refunds s @ [r], next_id := next_id s + 1\<rparr>))"

definition create_dispute :: "(uuid \<Rightarrow> AiDispute) \<Rightarrow> AiDispute billing_prog" where
  "create_dispute mk = (\<lambda>s. let r = mk (next_id s)
     in (Inr r, s\<lparr>disputes := disputes s @ [r], next_id := next_id s + 1\<rparr>))"

definition create_message :: "AiDisputeMessage \<Rightarrow> AiDisputeMessage billing_prog" where
  "create_message r = (\<lambda>s. (Inr r, s\<lparr>messages := messages s @ [r]\<rparr>))"

definition create_usageLog :: "(uuid \<Rightarrow> timestamp \<Rightarrow> AiUsageLog) \<Rightarrow> AiUsageLog billing_prog" where
  "create_usageLog mk = (\<lambda>s. let r = mk (next_id s) (clock s)
     in (Inr r, s\<lparr>usageLogs := usageLogs s @ [r], next_id := next_id s + 1\<rparr>))"

definition create_pricing :: "(uuid \<Rightarrow> AiModelPricing) \<Rightarrow> AiModelPricing billing_prog" where
  "create_pricing mk = (\<lambda>s. let r = mk (next_id s)
     in (Inr r, s\<lparr>pricings := pricings s @ [r], next_id := next_id s + 1\<rparr>))"

definition create_policy :: "(uuid \<Rightarrow> AiAccessPolicy) \<Rightarrow> AiAccessPolicy billing_prog" where
  "create_policy mk = (\<lambda>s. let r = mk (next_id s)
     in (Inr r, s\<lparr>policies := policies s @ [r], next_id := next_id s + 1\<rparr>))"

definition create_model :: "(uuid \<Rightarrow> AiBillingModel) \<Rightarrow> AiBillingModel billing_prog" where
  "create_model mk = (\<lambda>s. let r = mk (next_id s)
     in if (\<exists>m \<in> set (models s). b_providerId m = b_providerId r \<and> b_modelCode m = b_modelCode r)
        then (Inl PrismaUniqueViolation, s)
        else (Inr r, s\<lparr>models := models s @ [r], next_id := next_id s + 1\<rparr>))"

definition create_provider :: "(uuid \<Rightarrow> AiBillingProvider) \<Rightarrow> AiBillingProvider billing_prog" where
  "create_provider mk = (\<lambda>s. let r = mk (next_id s)
     in if v_name r \<in> v_name ` set (providers s) then (Inl PrismaUniqueViolation, s)
        else (Inr r, s\<lparr>providers := providers s @ [r], next_id := next_id s + 1\<rparr>))"

definition update_wallet :: "uuid \<Rightarrow> (AiWallet \<Rightarrow> AiWallet) \<Rightarrow> AiWallet billing_prog" where
  "update_wallet i f = (\<lambda>s. case find_by w_id i (wallets s) of None \<Rightarrow> (Inl PrismaRecordNotFound, s)
     | Some w \<Rightarrow> (Inr (f w), s\<lparr>wallets := set_row w_id i f (wallets s)\<rparr>))"

definition update_reservation :: "uuid \<Rightarrow> (AiCreditReservation \<Rightarrow> AiCreditReservation) \<Rightarrow> AiCreditReservation billing_prog" where
  "update_reservation i f = (\<lambda>s. case find_by r_id i (reservations s) of None \<Rightarrow> (Inl PrismaRecordNotFound, s)
     | Some r \<Rightarrow> (Inr (f r), s\<lparr>reservations := set_row r_id i f (reservations s)\<rparr>))"

definition update_refund :: "uuid \<Rightarrow> (AiRefund \<Rightarrow> AiRefund) \<Rightarrow> AiRefund billing_prog" where
  "update_refund i f = (\<lambda>s. case find_by f_id i (refunds s) of None \<Rightarrow> (Inl PrismaRecordNotFound, s)
     | Some r \<Rightarrow> (Inr (f r), s\<lparr>refunds := set_row f_id i f (refunds s)\<rparr>))"

definition update_dispute :: "uuid \<Rightarrow> (AiDispute \<Rightarrow> AiDispute) \<Rightarrow> AiDispute billing_prog" where
  "update_dispute i f = (\<lambda>s. case find_by d_id i (disputes s) of None \<Rightarrow> (Inl PrismaRecordNotFound, s)
     | Some r \<Rightarrow> (Inr (f r), s\<lparr>disputes := set_row d_id i f (disputes s)\<rparr>))"

definition update_pricing :: "uuid \<Rightarrow> (AiModelPricing \<Rightarrow> AiModelPricing) \<Rightarrow> AiModelPricing billing_prog" where
  "update_pricing i f = (\<lambda>s. case find_by p_id i (pricings s) of None \<Rightarrow> (Inl PrismaRecordNotFound, s)
     | Some r \<Rightarrow> (Inr (f r), s\<lparr>pricings := set_row p_id i f (pricings s)\<rparr>))"

definition update_policy :: "uuid \<Rightarrow> (AiAccessPolicy \<Rightarrow> AiAccessPolicy) \<Rightarrow> AiAccessPolicy billing_prog" where
  "update_policy i f = (\<lambda>s. case find_by y_id i (policies s) of None \<Rightarrow> (Inl PrismaRecordNotFound, s)
     | Some r \<Rightarrow> (Inr (f r), s\<lparr>policies := set_row y_id i f (policies s)\<rparr>))"

text \<open>
  \<open>ai_credit_purchases\<close> has unique columns \<open>stripe_event_id\<close> and \<open>stripe_session_id\<close>: an
  update that would repeat another row's value is refused.
\<close>

definition purchase_clash :: "AiCreditPurchase list \<Rightarrow> AiCreditPurchase \<Rightarrow> bool" where
  "purchase_clash rows c \<longleftrightarrow>
     (\<exists>x \<in> set rows. c_id x \<noteq> c_id c \<and>
        (c_stripeEventId c \<noteq> None \<and> c_stripeEventId x = c_stripeEventId c \<or>
         c_stripeSessionId c \<noteq> None \<and> c_stripeSessionId x = c_stripeSessionId c))"

definition update_purchase :: "uuid \<Rightarrow> (AiCreditPurchase \<Rightarrow> AiCreditPurchase) \<Rightarrow> AiCreditPurchase billing_prog" where
  "update_purchase i f = (\<lambda>s. case find_by c_id i (purchases s) of None \<Rightarrow> (Inl PrismaRecordNotFound, s)
     | Some c \<Rightarrow> if purchase_clash (purchases s) (f c) then (Inl PrismaUniqueViolation, s)
                 else (Inr (f c), s\<lparr>purchases := set_row c_id i f (purchases s)\<rparr>))"

text \<open>\<open>updateMany\<close> on purchases answers how many rows it wrote.\<close>

definition update_purchases :: "(AiCreditPurchase \<Rightarrow> bool) \<Rightarrow> (AiCreditPurchase \<Rightarrow> AiCreditPurchase) \<Rightarrow> nat billing_prog" where
  "update_purchases p f = (\<lambda>s.
     let hit = filter p (purchases s); rows = update_where p f (purchases s) in
     if (\<exists>c \<in> set hit. purchase_clash rows (f c)) then (Inl PrismaUniqueViolation, s)
     else (Inr (length hit), s\<lparr>purchases := rows\<rparr>))"

section \<open>Weakest preconditions of the Prisma calls\<close>

lemma wp_create_tx [wp_simps]:
  "wp (create_tx mk) Q E s = Q (mk (next_id s) (clock s)) (s\<lparr>txs := txs s @ [mk (next_id s) (clock s)], next_id := next_id s + 1\<rparr>)"
  by (simp add: wp_def create_tx_def Let_def)

lemma wp_create_reservation [wp_simps]:
  "wp (create_reservation mk) Q E s = Q (mk (next_id s) (clock s)) (s\<lparr>reservations := reservations s @ [mk (next_id s) (clock s)], next_id := next_id s + 1\<rparr>)"
  by (simp add: wp_def create_reservation_def Let_def)

lemma wp_create_purchase [wp_simps]:
  "wp (create_purchase mk) Q E s = Q (mk (next_id s) (clock s)) (s\<lparr>purchases := purchases s @ [mk (next_id s) (clock s)], next_id := next_id s + 1\<rparr>)"
  by (simp add: wp_def create_purchase_def Let_def)

lemma wp_create_usageLog [wp_simps]:
  "wp (create_usageLog mk) Q E s = Q (mk (next_id s) (clock s)) (s\<lparr>usageLogs := usageLogs s @ [mk (next_id s) (clock s)], next_id := next_id s + 1\<rparr>)"
  by (simp add: wp_def create_usageLog_def Let_def)

lemma wp_create_refund [wp_simps]:
  "wp (create_refund mk) Q E s = Q (mk (next_id s)) (s\<lparr>refunds := refunds s @ [mk (next_id s)], next_id := next_id s + 1\<rparr>)"
  by (simp add: wp_def create_refund_def Let_def)

lemma wp_create_dispute [wp_simps]:
  "wp (create_dispute mk) Q E s = Q (mk (next_id s)) (s\<lparr>disputes := disputes s @ [mk (next_id s)], next_id := next_id s + 1\<rparr>)"
  by (simp add: wp_def create_dispute_def Let_def)

lemma wp_create_pricing [wp_simps]:
  "wp (create_pricing mk) Q E s = Q (mk (next_id s)) (s\<lparr>pricings := pricings s @ [mk (next_id s)], next_id := next_id s + 1\<rparr>)"
  by (simp add: wp_def create_pricing_def Let_def)

lemma wp_create_policy [wp_simps]:
  "wp (create_policy mk) Q E s = Q (mk (next_id s)) (s\<lparr>policies := policies s @ [mk (next_id s)], next_id := next_id s + 1\<rparr>)"
  by (simp add: wp_def create_policy_def Let_def)

lemma wp_create_message [wp_simps]:
  "wp (create_message m) Q E s = Q m (s\<lparr>messages := messages s @ [m]\<rparr>)"
  by (simp add: wp_def create_message_def)

lemma wp_update_wallet [wp_simps]:
  "wp (update_wallet i f) Q E s = (case find_by w_id i (wallets s) of None \<Rightarrow> E PrismaRecordNotFound s
     | Some r \<Rightarrow> Q (f r) (s\<lparr>wallets := set_row w_id i f (wallets s)\<rparr>))"
  by (simp add: wp_def update_wallet_def split: option.split)

lemma wp_update_reservation [wp_simps]:
  "wp (update_reservation i f) Q E s = (case find_by r_id i (reservations s) of None \<Rightarrow> E PrismaRecordNotFound s
     | Some r \<Rightarrow> Q (f r) (s\<lparr>reservations := set_row r_id i f (reservations s)\<rparr>))"
  by (simp add: wp_def update_reservation_def split: option.split)

lemma wp_update_refund [wp_simps]:
  "wp (update_refund i f) Q E s = (case find_by f_id i (refunds s) of None \<Rightarrow> E PrismaRecordNotFound s
     | Some r \<Rightarrow> Q (f r) (s\<lparr>refunds := set_row f_id i f (refunds s)\<rparr>))"
  by (simp add: wp_def update_refund_def split: option.split)

lemma wp_update_dispute [wp_simps]:
  "wp (update_dispute i f) Q E s = (case find_by d_id i (disputes s) of None \<Rightarrow> E PrismaRecordNotFound s
     | Some r \<Rightarrow> Q (f r) (s\<lparr>disputes := set_row d_id i f (disputes s)\<rparr>))"
  by (simp add: wp_def update_dispute_def split: option.split)

lemma wp_update_pricing [wp_simps]:
  "wp (update_pricing i f) Q E s = (case find_by p_id i (pricings s) of None \<Rightarrow> E PrismaRecordNotFound s
     | Some r \<Rightarrow> Q (f r) (s\<lparr>pricings := set_row p_id i f (pricings s)\<rparr>))"
  by (simp add: wp_def update_pricing_def split: option.split)

lemma wp_update_policy [wp_simps]:
  "wp (update_policy i f) Q E s = (case find_by y_id i (policies s) of None \<Rightarrow> E PrismaRecordNotFound s
     | Some r \<Rightarrow> Q (f r) (s\<lparr>policies := set_row y_id i f (policies s)\<rparr>))"
  by (simp add: wp_def update_policy_def split: option.split)

end
