(* ===== verification/BillingAudit.thy ===== *)
theory BillingAudit
  imports BillingSchema
begin

text \<open>
  \<open>billing-audit.service.ts\<close>: the append-only audit trail.  \<open>recordIn\<close> writes inside
  the caller's transaction; \<open>record_audit\<close> (the method \<open>record\<close>) catches every error of
  the write.  The before/after JSON snapshots are not part of the rows.
\<close>

record actor =
  actor_id :: "uuid option"
  actor_email :: "string option"
  actor_role :: "string option"
  actor_ip :: "string option"

definition system_actor :: actor where
  "system_actor = \<lparr>actor_id = None, actor_email = None, actor_role = None, actor_ip = None\<rparr>"

record BillingAuditEntry =
  e_actor :: actor
  e_tenantId :: "uuid option"
  e_action :: string
  e_entityType :: string
  e_entityId :: "uuid option"
  e_reason :: "string option"

definition recordIn :: "BillingAuditEntry \<Rightarrow> unit billing_prog" where
  "recordIn entry = modify (\<lambda>s. s\<lparr>audits := audits s @
     [\<lparr>a_actorId = actor_id (e_actor entry),
       a_actorEmail = map_option (take 255) (actor_email (e_actor entry)),
       a_actorRole = map_option (take 40) (actor_role (e_actor entry)),
       a_tenantId = e_tenantId entry,
       a_action = take 80 (e_action entry),
       a_entityType = take 60 (e_entityType entry),
       a_entityId = e_entityId entry,
       a_reason = map_option (take 2000) (e_reason entry),
       a_ipAddress = map_option (take 64) (actor_ip (e_actor entry)),
       a_createdAt = clock s\<rparr>]\<rparr>)"

definition record_audit :: "BillingAuditEntry \<Rightarrow> unit billing_prog" where
  "record_audit entry = catch (recordIn entry) (\<lambda>_. return ())"

record audit_filter =
  af_tenantId :: "uuid option"
  af_entityType :: "string option"
  af_action :: "string option"
  af_page :: "int option"
  af_pageSize :: "int option"

definition list_audits :: "audit_filter \<Rightarrow> AiBillingAuditLog page_result billing_prog" where
  "list_audits flt = gets (\<lambda>s. paginate 200 50 (af_page flt) (af_pageSize flt)
     (sort_key (\<lambda>a. - a_createdAt a)
       (filter (\<lambda>a. (case af_tenantId flt of None \<Rightarrow> True | Some t \<Rightarrow> a_tenantId a = Some t) \<and>
                    (case af_entityType flt of None \<Rightarrow> True | Some e \<Rightarrow> a_entityType a = e) \<and>
                    (case af_action flt of None \<Rightarrow> True | Some c \<Rightarrow> a_action a = c))
         (audits s))))"

section \<open>The audit trail only grows, and nothing else moves\<close>

text \<open>
  \<open>frame_audit I\<close>: the invariant does not look at the audit trail.  Most invariants of the
  billing module are of this kind.
\<close>

definition ignores_audits :: "(billing \<Rightarrow> bool) \<Rightarrow> bool" where
  "ignores_audits I \<longleftrightarrow> (\<forall>s f. I s \<longrightarrow> I (s\<lparr>audits := f\<rparr>))"

lemma keeps_recordIn: "ignores_audits I \<Longrightarrow> keeps I (recordIn entry)"
  by (auto simp: recordIn_def ignores_audits_def intro!: keeps_modify)

lemma keeps_record_audit: "ignores_audits I \<Longrightarrow> keeps I (record_audit entry)"
  by (auto simp: record_audit_def intro!: keeps_intros keeps_recordIn)

lemma record_audit_ok: "\<exists>a. record_audit entry s = (Inr (), s\<lparr>audits := audits s @ [a]\<rparr>)"
  by (auto simp: record_audit_def recordIn_def run_simps)

lemma record_audit_run [ok_simps]:
  "record_audit entry s = (Inr u, t) \<longleftrightarrow> t = snd (recordIn entry s)"
  by (auto simp: record_audit_def recordIn_def run_simps)

lemma recordIn_fields [simp]:
  "wallets (snd (recordIn e s)) = wallets s" "txs (snd (recordIn e s)) = txs s"
  "reservations (snd (recordIn e s)) = reservations s" "purchases (snd (recordIn e s)) = purchases s"
  "refunds (snd (recordIn e s)) = refunds s" "disputes (snd (recordIn e s)) = disputes s"
  "messages (snd (recordIn e s)) = messages s" "pricings (snd (recordIn e s)) = pricings s"
  "policies (snd (recordIn e s)) = policies s" "usageLogs (snd (recordIn e s)) = usageLogs s"
  "models (snd (recordIn e s)) = models s" "providers (snd (recordIn e s)) = providers s"
  "tiers (snd (recordIn e s)) = tiers s" "stripe_refunds (snd (recordIn e s)) = stripe_refunds s"
  "next_id (snd (recordIn e s)) = next_id s"
  "clock (snd (recordIn e s)) = clock s"
  by (simp_all add: recordIn_def run_simps)

end
