(* ===== verification/Wallet.thy ===== *)
theory Wallet
  imports BillingAudit
begin

text \<open>
  \<open>wallet.service.ts\<close>: the prepaid credit wallets, their append-only ledger and the
  reservations that hold credits while an AI request runs.  Every method of the service is
  here; \<open>dec\<close> is the rounding of the money columns.  A method's \<open>$transaction\<close> locks the
  rows it reads (\<open>SELECT ... FOR UPDATE\<close>), so each is one atomic step of the model.
\<close>

section \<open>Wallet rows\<close>

text \<open>A created wallet has the defaults of \<open>model AiWallet\<close>; \<open>tenant_id\<close> is unique.\<close>

definition new_wallet :: "uuid \<Rightarrow> uuid \<Rightarrow> AiWallet" where
  "new_wallet i tenant =
     \<lparr>w_id = i, w_tenantId = tenant, w_currency = ''USD'', w_balance = 0,
      w_reservedBalance = 0, w_totalPurchased = 0, w_totalConsumed = 0, w_totalRefunded = 0,
      w_totalAdjusted = 0, w_status = AiWalletStatus.ACTIVE, w_lowBalanceThreshold = None,
      w_criticalBalanceThreshold = None, w_suspendThreshold = None,
      w_autoRechargeEnabled = False, w_autoRechargeThreshold = None,
      w_autoRechargeAmount = None, w_autoRechargeMonthlyLimit = None,
      w_lastActivityAt = None\<rparr>"

definition create_wallet :: "uuid \<Rightarrow> AiWallet billing_prog" where
  "create_wallet tenant = (\<lambda>s.
     if tenant \<in> w_tenantId ` set (wallets s) then (Inl PrismaUniqueViolation, s)
     else let w = new_wallet (next_id s) tenant
          in (Inr w, s\<lparr>wallets := wallets s @ [w], next_id := next_id s + 1\<rparr>))"

definition getOrCreateWallet :: "uuid \<Rightarrow> AiWallet billing_prog" where
  "getOrCreateWallet tenant =
     bind (gets (\<lambda>s. find_by w_tenantId tenant (wallets s))) (\<lambda>existing.
     case existing of
       Some w \<Rightarrow> return w
     | None \<Rightarrow> catch (create_wallet tenant) (\<lambda>_.
         bind (gets (\<lambda>s. find_by w_tenantId tenant (wallets s))) (orThrow BillingNotFoundError)))"

datatype balance_state = Critical | Low | Ok

definition getWalletSummary :: "uuid \<Rightarrow> (AiWallet \<times> rat \<times> balance_state) billing_prog" where
  "getWalletSummary tenant =
     bind (getOrCreateWallet tenant) (\<lambda>w.
     let available = w_balance w - w_reservedBalance w;
         low = (case w_lowBalanceThreshold w of None \<Rightarrow> False | Some x \<Rightarrow> available < x);
         critical = (case w_criticalBalanceThreshold w of None \<Rightarrow> False | Some x \<Rightarrow> available < x)
     in return (w, available, if critical then Critical else if low then Low else Ok))"

definition lockWalletByTenant :: "uuid \<Rightarrow> AiWallet billing_prog" where
  "lockWalletByTenant tenant =
     bind (gets (\<lambda>s. find_by w_tenantId tenant (wallets s))) (\<lambda>wallet.
     case wallet of
       None \<Rightarrow> create_wallet tenant
     | Some w \<Rightarrow> bind (gets (\<lambda>s. find_by w_id (w_id w) (wallets s))) (orThrow PrismaRecordNotFound))"

definition lockWalletById :: "uuid \<Rightarrow> AiWallet billing_prog" where
  "lockWalletById i = bind (gets (\<lambda>s. find_by w_id i (wallets s))) (orThrow PrismaRecordNotFound)"

definition lockReservation :: "uuid \<Rightarrow> AiCreditReservation billing_prog" where
  "lockReservation i =
     bind (gets (\<lambda>s. find_by r_id i (reservations s))) (orThrow BillingNotFoundError)"

section \<open>Posting to the ledger\<close>

record PostTransactionInput =
  pi_tenantId :: uuid
  pi_type :: AiLedgerType
  pi_amount :: rat
  pi_createdById :: "uuid option"
  pi_notes :: "string option"
  pi_relatedEntityType :: "string option"
  pi_relatedEntityId :: "uuid option"
  pi_allowNegativeBalance :: bool

text \<open>The lifetime aggregate the entry is mirrored into, computed from the locked row.\<close>

fun aggregateDelta :: "(rat \<Rightarrow> rat) \<Rightarrow> AiLedgerType \<Rightarrow> rat \<Rightarrow> AiWallet \<Rightarrow> AiWallet \<Rightarrow> AiWallet" where
  "aggregateDelta dec AiLedgerType.PURCHASE amount w =
     (\<lambda>x. x\<lparr>w_totalPurchased := dec (w_totalPurchased w + \<bar>amount\<bar>)\<rparr>)"
| "aggregateDelta dec AiLedgerType.USAGE_CHARGE amount w =
     (\<lambda>x. x\<lparr>w_totalConsumed := dec (w_totalConsumed w + \<bar>amount\<bar>)\<rparr>)"
| "aggregateDelta dec AiLedgerType.REFUND amount w =
     (\<lambda>x. x\<lparr>w_totalRefunded := dec (w_totalRefunded w + \<bar>amount\<bar>)\<rparr>)"
| "aggregateDelta dec _ amount w =
     (\<lambda>x. x\<lparr>w_totalAdjusted := dec (w_totalAdjusted w + amount)\<rparr>)"

definition should_suspend :: "AiWallet \<Rightarrow> rat \<Rightarrow> bool" where
  "should_suspend w balanceAfter \<longleftrightarrow>
     (case w_suspendThreshold w of None \<Rightarrow> False
      | Some x \<Rightarrow> balanceAfter < x \<and> w_status w = AiWalletStatus.ACTIVE)"

definition ledger_row :: "(rat \<Rightarrow> rat) \<Rightarrow> AiWallet \<Rightarrow> PostTransactionInput \<Rightarrow> uuid \<Rightarrow> timestamp \<Rightarrow> AiWalletTransaction" where
  "ledger_row dec w inp i now =
     \<lparr>t_id = i, t_walletId = w_id w, t_tenantId = pi_tenantId inp, t_type = pi_type inp,
      t_amount = dec (pi_amount inp), t_balanceBefore = dec (w_balance w),
      t_balanceAfter = dec (w_balance w + pi_amount inp),
      t_relatedEntityType = pi_relatedEntityType inp,
      t_relatedEntityId = pi_relatedEntityId inp, t_createdById = pi_createdById inp,
      t_notes = map_option (take 1000) (pi_notes inp), t_createdAt = now\<rparr>"

text \<open>
  The write of the wallet row: the new balance, the aggregate, an automatic suspension and
  the activity stamp.
\<close>

definition wallet_after :: "(rat \<Rightarrow> rat) \<Rightarrow> AiWallet \<Rightarrow> PostTransactionInput \<Rightarrow> timestamp \<Rightarrow> AiWallet \<Rightarrow> AiWallet" where
  "wallet_after dec w inp now x =
     (let balanceAfter = w_balance w + pi_amount inp;
          x1 = aggregateDelta dec (pi_type inp) (pi_amount inp) w (x\<lparr>w_balance := dec balanceAfter\<rparr>);
          x2 = (if should_suspend w balanceAfter then x1\<lparr>w_status := AiWalletStatus.SUSPENDED\<rparr> else x1)
      in x2\<lparr>w_lastActivityAt := Some now\<rparr>)"

definition applyTransaction :: "(rat \<Rightarrow> rat) \<Rightarrow> AiWallet \<Rightarrow> PostTransactionInput \<Rightarrow> AiWalletTransaction billing_prog" where
  "applyTransaction dec w inp =
     (let amount = pi_amount inp; balanceAfter = w_balance w + amount in
      seq (throwIf (amount = 0) BillingValidationError)
     (seq (throwIf (w_status w = AiWalletStatus.CLOSED) WalletSuspendedError)
     (seq (throwIf (balanceAfter < 0 \<and> \<not> pi_allowNegativeBalance inp) InsufficientCreditsError)
     (bind (create_tx (ledger_row dec w inp)) (\<lambda>transaction.
      bind (gets clock) (\<lambda>now.
      seq (update_wallet (w_id w) (wallet_after dec w inp now))
     (seq (if should_suspend w balanceAfter
           then recordIn \<lparr>e_actor = system_actor, e_tenantId = Some (pi_tenantId inp),
                  e_action = ''WALLET_AUTO_SUSPENDED'', e_entityType = ''ai_wallet'',
                  e_entityId = Some (w_id w),
                  e_reason = Some ''Balance fell below the configured suspension threshold''\<rparr>
           else return ())
      (return transaction))))))))"

definition postTransactionIn :: "(rat \<Rightarrow> rat) \<Rightarrow> PostTransactionInput \<Rightarrow> AiWalletTransaction billing_prog" where
  "postTransactionIn dec inp =
     bind (lockWalletByTenant (pi_tenantId inp)) (\<lambda>w. applyTransaction dec w inp)"

text \<open>Without a caller's transaction the method opens its own.\<close>

definition postTransaction :: "(rat \<Rightarrow> rat) \<Rightarrow> PostTransactionInput \<Rightarrow> AiWalletTransaction billing_prog" where
  "postTransaction dec inp = transaction (postTransactionIn dec inp)"

section \<open>Reservations\<close>

definition RESERVATION_TTL_MS :: int where
  "RESERVATION_TTL_MS = 10 * 60 * 1000"

record ReserveInput =
  ri_tenantId :: uuid
  ri_userId :: "uuid option"
  ri_amount :: rat
  ri_requestId :: "uuid option"

definition reserveCredits :: "(rat \<Rightarrow> rat) \<Rightarrow> ReserveInput \<Rightarrow> AiCreditReservation billing_prog" where
  "reserveCredits dec inp =
     (let amount = ri_amount inp in
      seq (throwIf (amount \<le> 0) BillingValidationError)
     (transaction
       (bind (lockWalletByTenant (ri_tenantId inp)) (\<lambda>w.
        seq (throwIf (w_status w = AiWalletStatus.SUSPENDED) WalletSuspendedError)
       (seq (throwIf (w_status w = AiWalletStatus.CLOSED) WalletSuspendedError)
       (seq (throwIf (w_balance w - w_reservedBalance w < amount) InsufficientCreditsError)
       (bind (create_reservation (\<lambda>i now.
          \<lparr>r_id = i, r_walletId = w_id w, r_tenantId = ri_tenantId inp,
           r_userId = ri_userId inp, r_amount = dec amount,
           r_status = AiReservationStatus.ACTIVE, r_requestId = ri_requestId inp,
           r_expiresAt = now + RESERVATION_TTL_MS, r_finalizedAt = None\<rparr>)) (\<lambda>reservation.
        bind (gets clock) (\<lambda>now.
        seq (update_wallet (w_id w) (\<lambda>x. x\<lparr>w_reservedBalance := dec (w_reservedBalance w + amount),
                                          w_lastActivityAt := Some now\<rparr>))
        (return reservation))))))))))"

record FinalizeContext =
  fc_createdById :: "uuid option"
  fc_requestId :: "uuid option"
  fc_notes :: "string option"

text \<open>\<open>a ?? b ?? c\<close> on nullable values.\<close>

fun coalesce :: "'a option \<Rightarrow> 'a option \<Rightarrow> 'a option" where
  "coalesce (Some x) _ = Some x"
| "coalesce None y = y"

text \<open>The ledger input of a settled request.\<close>

definition usage_charge :: "rat \<Rightarrow> FinalizeContext \<Rightarrow> AiCreditReservation \<Rightarrow> PostTransactionInput" where
  "usage_charge charge context reservation =
     \<lparr>pi_tenantId = r_tenantId reservation, pi_type = AiLedgerType.USAGE_CHARGE,
      pi_amount = - charge,
      pi_createdById = coalesce (fc_createdById context) (r_userId reservation),
      pi_notes = fc_notes context, pi_relatedEntityType = Some ''ai_usage'',
      pi_relatedEntityId = coalesce (fc_requestId context)
        (coalesce (r_requestId reservation) (Some (r_id reservation))),
      pi_allowNegativeBalance = True\<rparr>"

definition finalizeReservation ::
    "(rat \<Rightarrow> rat) \<Rightarrow> uuid \<Rightarrow> rat \<Rightarrow> FinalizeContext \<Rightarrow>
     (AiCreditReservation \<times> AiWalletTransaction option) billing_prog" where
  "finalizeReservation dec reservationId charge context =
     seq (throwIf (charge < 0) BillingValidationError)
     (transaction
       (bind (lockReservation reservationId) (\<lambda>reservation.
        seq (throwIf (r_status reservation \<noteq> AiReservationStatus.ACTIVE) BillingValidationError)
       (bind (lockWalletById (r_walletId reservation)) (\<lambda>w.
        seq (update_wallet (w_id w) (\<lambda>x.
              x\<lparr>w_reservedBalance := dec (max 0 (w_reservedBalance w - r_amount reservation))\<rparr>))
       (bind (gets clock) (\<lambda>now.
        seq (update_reservation (r_id reservation) (\<lambda>x.
              x\<lparr>r_status := AiReservationStatus.FINALIZED, r_finalizedAt := Some now\<rparr>))
       (if charge = 0 then return (reservation, None)
        else bind (lockWalletById (w_id w)) (\<lambda>fresh.
             bind (applyTransaction dec fresh (usage_charge charge context reservation)) (\<lambda>transaction.
             return (reservation, Some transaction)))))))))))"

definition releaseReservation ::
    "(rat \<Rightarrow> rat) \<Rightarrow> uuid \<Rightarrow> AiReservationStatus \<Rightarrow> AiCreditReservation billing_prog" where
  "releaseReservation dec reservationId status =
     transaction
       (bind (lockReservation reservationId) (\<lambda>reservation.
        if r_status reservation \<noteq> AiReservationStatus.ACTIVE then return reservation
        else bind (lockWalletById (r_walletId reservation)) (\<lambda>w.
             seq (update_wallet (w_id w) (\<lambda>x.
                   x\<lparr>w_reservedBalance := dec (max 0 (w_reservedBalance w - r_amount reservation))\<rparr>))
             (bind (gets clock) (\<lambda>now.
              update_reservation (r_id reservation) (\<lambda>x.
                x\<lparr>r_status := status, r_finalizedAt := Some now\<rparr>))))))"

definition stale_reservations :: "billing \<Rightarrow> AiCreditReservation list" where
  "stale_reservations s =
     take 200 (filter (\<lambda>r. r_status r = AiReservationStatus.ACTIVE \<and> r_expiresAt r < clock s)
                (reservations s))"

definition expireStaleReservations :: "(rat \<Rightarrow> rat) \<Rightarrow> nat billing_prog" where
  "expireStaleReservations dec =
     bind (gets stale_reservations) (\<lambda>stale.
     seq (forEach (\<lambda>row. catch
            (seq (releaseReservation dec (r_id row) AiReservationStatus.EXPIRED) (return ()))
            (\<lambda>_. return ())) stale)
     (return (length stale)))"

section \<open>Listing and settings\<close>

record tx_filter =
  tf_tenantId :: "uuid option"
  tf_type :: "AiLedgerType option"
  tf_page :: "int option"
  tf_pageSize :: "int option"

definition listTransactions :: "tx_filter \<Rightarrow> AiWalletTransaction page_result billing_prog" where
  "listTransactions flt = gets (\<lambda>s. paginate 200 50 (tf_page flt) (tf_pageSize flt)
     (sort_key (\<lambda>t. - t_createdAt t)
       (filter (\<lambda>t. (case tf_tenantId flt of None \<Rightarrow> True | Some i \<Rightarrow> t_tenantId t = i) \<and>
                    (case tf_type flt of None \<Rightarrow> True | Some ty \<Rightarrow> t_type t = ty))
         (txs s))))"

text \<open>
  An optional field of a patch: absent (\<open>undefined\<close>) or present; a nullable column takes
  an \<open>option\<close> inside.
\<close>

datatype 'a patch = Undefined | Value 'a

fun apply_patch :: "('a \<Rightarrow> 'r \<Rightarrow> 'r) \<Rightarrow> 'a patch \<Rightarrow> 'r \<Rightarrow> 'r" where
  "apply_patch put Undefined r = r"
| "apply_patch put (Value x) r = put x r"

record WalletSettings =
  ws_status :: "AiWalletStatus patch"
  ws_lowBalanceThreshold :: "rat option patch"
  ws_criticalBalanceThreshold :: "rat option patch"
  ws_suspendThreshold :: "rat option patch"
  ws_autoRechargeEnabled :: "bool patch"
  ws_autoRechargeThreshold :: "rat option patch"
  ws_autoRechargeAmount :: "rat option patch"
  ws_autoRechargeMonthlyLimit :: "rat option patch"

definition apply_settings :: "(rat \<Rightarrow> rat) \<Rightarrow> WalletSettings \<Rightarrow> AiWallet \<Rightarrow> AiWallet" where
  "apply_settings dec st w =
     apply_patch (\<lambda>x w. w\<lparr>w_autoRechargeMonthlyLimit := map_option dec x\<rparr>) (ws_autoRechargeMonthlyLimit st)
    (apply_patch (\<lambda>x w. w\<lparr>w_autoRechargeAmount := map_option dec x\<rparr>) (ws_autoRechargeAmount st)
    (apply_patch (\<lambda>x w. w\<lparr>w_autoRechargeThreshold := map_option dec x\<rparr>) (ws_autoRechargeThreshold st)
    (apply_patch (\<lambda>x w. w\<lparr>w_autoRechargeEnabled := x\<rparr>) (ws_autoRechargeEnabled st)
    (apply_patch (\<lambda>x w. w\<lparr>w_suspendThreshold := map_option dec x\<rparr>) (ws_suspendThreshold st)
    (apply_patch (\<lambda>x w. w\<lparr>w_criticalBalanceThreshold := map_option dec x\<rparr>) (ws_criticalBalanceThreshold st)
    (apply_patch (\<lambda>x w. w\<lparr>w_lowBalanceThreshold := map_option dec x\<rparr>) (ws_lowBalanceThreshold st)
    (apply_patch (\<lambda>x w. w\<lparr>w_status := x\<rparr>) (ws_status st) w)))))))"

definition updateWalletSettings :: "(rat \<Rightarrow> rat) \<Rightarrow> uuid \<Rightarrow> WalletSettings \<Rightarrow> actor \<Rightarrow> AiWallet billing_prog" where
  "updateWalletSettings dec tenant st act =
     bind (getOrCreateWallet tenant) (\<lambda>w.
     bind (update_wallet (w_id w) (apply_settings dec st)) (\<lambda>updated.
     seq (record_audit \<lparr>e_actor = act, e_tenantId = Some tenant,
            e_action = ''WALLET_SETTINGS_UPDATED'', e_entityType = ''ai_wallet'',
            e_entityId = Some (w_id w), e_reason = None\<rparr>)
     (return updated)))"

end
