(* ===== verification/WalletBooks.thy ===== *)
theory WalletBooks
  imports Wallet
begin

text \<open>
  The books of the wallet service.  \<open>wallet_ok\<close> is the invariant of its tables: keys are
  unique, stored amounts are column values, the reserved balance of a wallet is the sum of
  its active reservations, the ledger rows of a wallet form a chain of before/after
  snapshots that ends in its balance, and the balance is the sum of the ledger up to one
  unit in the last place per row.
\<close>

section \<open>The invariant\<close>

definition ledger_of :: "uuid \<Rightarrow> billing \<Rightarrow> AiWalletTransaction list" where
  "ledger_of i s = filter (\<lambda>t. t_walletId t = i) (txs s)"

definition ledger_sum :: "uuid \<Rightarrow> billing \<Rightarrow> rat" where
  "ledger_sum i s = sum_list (map t_amount (ledger_of i s))"

definition holds_of :: "uuid \<Rightarrow> AiCreditReservation list \<Rightarrow> rat" where
  "holds_of i rs = sum_where (\<lambda>r. r_walletId r = i \<and> r_status r = AiReservationStatus.ACTIVE) r_amount rs"

fun linked :: "rat \<Rightarrow> AiWalletTransaction list \<Rightarrow> rat \<Rightarrow> bool" where
  "linked b [] e \<longleftrightarrow> b = e"
| "linked b (t # ts) e \<longleftrightarrow> t_balanceBefore t = b \<and> linked (t_balanceAfter t) ts e"

definition keys_ok :: "billing \<Rightarrow> bool" where
  "keys_ok s \<longleftrightarrow>
     distinct (map w_id (wallets s)) \<and> distinct (map w_tenantId (wallets s)) \<and>
     distinct (map r_id (reservations s)) \<and> distinct (map t_id (txs s)) \<and>
     (\<forall>w \<in> set (wallets s). w_id w < next_id s) \<and>
     (\<forall>r \<in> set (reservations s). r_id r < next_id s \<and> r_walletId r < next_id s) \<and>
     (\<forall>t \<in> set (txs s). t_id t < next_id s \<and> t_walletId t < next_id s)"

definition grid_ok :: "(rat \<Rightarrow> rat) \<Rightarrow> billing \<Rightarrow> bool" where
  "grid_ok dec s \<longleftrightarrow>
     (\<forall>w \<in> set (wallets s). dec (w_balance w) = w_balance w \<and>
        dec (w_reservedBalance w) = w_reservedBalance w) \<and>
     (\<forall>r \<in> set (reservations s). dec (r_amount r) = r_amount r \<and> 0 \<le> r_amount r) \<and>
     (\<forall>t \<in> set (txs s). dec (t_amount t) = t_amount t)"

definition holds_ok :: "billing \<Rightarrow> bool" where
  "holds_ok s \<longleftrightarrow> (\<forall>w \<in> set (wallets s). w_reservedBalance w = holds_of (w_id w) (reservations s))"

definition chain_ok :: "billing \<Rightarrow> bool" where
  "chain_ok s \<longleftrightarrow> (\<forall>w \<in> set (wallets s). linked 0 (ledger_of (w_id w) s) (w_balance w))"

definition drift_ok :: "billing \<Rightarrow> bool" where
  "drift_ok s \<longleftrightarrow> (\<forall>w \<in> set (wallets s).
     \<bar>w_balance w - ledger_sum (w_id w) s\<bar> \<le> of_nat (length (ledger_of (w_id w) s)) * ulp)"

definition wallet_ok :: "(rat \<Rightarrow> rat) \<Rightarrow> billing \<Rightarrow> bool" where
  "wallet_ok dec s \<longleftrightarrow> keys_ok s \<and> grid_ok dec s \<and> holds_ok s \<and> chain_ok s \<and> drift_ok s"

text \<open>The books balance exactly.\<close>

definition reconciled :: "billing \<Rightarrow> bool" where
  "reconciled s \<longleftrightarrow> (\<forall>w \<in> set (wallets s). w_balance w = ledger_sum (w_id w) s)"

lemmas wallet_ok_defs = wallet_ok_def keys_ok_def grid_ok_def holds_ok_def chain_ok_def drift_ok_def

text \<open>Only four tables matter, so every write to another table keeps the books.\<close>

lemma wallet_ok_frame:
  assumes "wallet_ok dec s" "wallets t = wallets s" "txs t = txs s" "reservations t = reservations s"
    "next_id s \<le> next_id t"
  shows "wallet_ok dec t"
  using assms by (fastforce simp: wallet_ok_defs ledger_of_def ledger_sum_def)

lemma reconciled_frame:
  "reconciled s \<Longrightarrow> wallets t = wallets s \<Longrightarrow> txs t = txs s \<Longrightarrow> reconciled t"
  by (simp add: reconciled_def ledger_of_def ledger_sum_def)

lemma wallet_ok_ignores_audits: "ignores_audits (wallet_ok dec)"
  by (auto simp: ignores_audits_def elim!: wallet_ok_frame)

lemma reconciled_ignores_audits: "ignores_audits reconciled"
  by (auto simp: ignores_audits_def elim!: reconciled_frame)

lemma wallet_ok_empty: "wallet_ok dec empty_billing"
  by (simp add: wallet_ok_defs empty_billing_def)

section \<open>What the operations do to the tables\<close>

lemma find_wallet_keys:
  "keys_ok s \<Longrightarrow> w \<in> set (wallets s) \<Longrightarrow> find_by w_id (w_id w) (wallets s) = Some w"
  by (simp add: keys_ok_def find_by_unique)

lemma wallet_unique:
  "keys_ok s \<Longrightarrow> w \<in> set (wallets s) \<Longrightarrow> x \<in> set (wallets s) \<Longrightarrow> w_id x = w_id w \<Longrightarrow> x = w"
  by (metis find_wallet_keys option.inject)

lemma wallet_row_cases:
  "keys_ok s \<Longrightarrow> w \<in> set (wallets s) \<Longrightarrow> x \<in> set (set_row w_id (w_id w) f (wallets s)) \<Longrightarrow>
   x = f w \<or> x \<in> set (wallets s) \<and> w_id x \<noteq> w_id w"
  by (rule set_row_cases) (simp_all add: keys_ok_def)

lemma ledger_of_frame [simp]:
  "ledger_of i (wallets_update f s) = ledger_of i s"
  "ledger_of i (reservations_update g s) = ledger_of i s"
  "ledger_of i (next_id_update h s) = ledger_of i s"
  "ledger_of i (audits_update k s) = ledger_of i s"
  by (simp_all add: ledger_of_def)

lemma ledger_sum_frame [simp]:
  "ledger_sum i (wallets_update f s) = ledger_sum i s"
  "ledger_sum i (reservations_update g s) = ledger_sum i s"
  "ledger_sum i (next_id_update h s) = ledger_sum i s"
  "ledger_sum i (audits_update k s) = ledger_sum i s"
  by (simp_all add: ledger_sum_def)

lemma linked_snoc:
  "linked b (ts @ [t]) e \<longleftrightarrow> (\<exists>m. linked b ts m \<and> t_balanceBefore t = m \<and> t_balanceAfter t = e)"
  by (induction ts arbitrary: b) auto

lemma aggregateDelta_fields [simp]:
  "w_id (aggregateDelta dec ty a w x) = w_id x"
  "w_tenantId (aggregateDelta dec ty a w x) = w_tenantId x"
  "w_balance (aggregateDelta dec ty a w x) = w_balance x"
  "w_reservedBalance (aggregateDelta dec ty a w x) = w_reservedBalance x"
  "w_status (aggregateDelta dec ty a w x) = w_status x"
  by (cases ty; simp)+

lemma wallet_after_fields [simp]:
  "w_id (wallet_after dec w inp now x) = w_id x"
  "w_tenantId (wallet_after dec w inp now x) = w_tenantId x"
  "w_balance (wallet_after dec w inp now x) = dec (w_balance w + pi_amount inp)"
  "w_reservedBalance (wallet_after dec w inp now x) = w_reservedBalance x"
  by (simp_all add: wallet_after_def Let_def)

lemma apply_patch_field:
  "(\<And>x r. g (put x r) = g r) \<Longrightarrow> g (apply_patch put p r) = g r"
  by (cases p) auto

lemma apply_settings_fields [simp]:
  "w_id (apply_settings dec st w) = w_id w"
  "w_tenantId (apply_settings dec st w) = w_tenantId w"
  "w_balance (apply_settings dec st w) = w_balance w"
  "w_reservedBalance (apply_settings dec st w) = w_reservedBalance w"
  by (simp_all add: apply_settings_def apply_patch_field)

lemma ledger_row_fields [simp]:
  "t_id (ledger_row dec w inp i now) = i"
  "t_walletId (ledger_row dec w inp i now) = w_id w"
  "t_tenantId (ledger_row dec w inp i now) = pi_tenantId inp"
  "t_type (ledger_row dec w inp i now) = pi_type inp"
  "t_amount (ledger_row dec w inp i now) = dec (pi_amount inp)"
  "t_balanceBefore (ledger_row dec w inp i now) = dec (w_balance w)"
  "t_balanceAfter (ledger_row dec w inp i now) = dec (w_balance w + pi_amount inp)"
  "t_relatedEntityType (ledger_row dec w inp i now) = pi_relatedEntityType inp"
  "t_relatedEntityId (ledger_row dec w inp i now) = pi_relatedEntityId inp"
  by (simp_all add: ledger_row_def)

lemma create_tx_ok [ok_simps]:
  "create_tx mk s = (Inr r, t) \<longleftrightarrow> r = mk (next_id s) (clock s) \<and>
     t = s\<lparr>txs := txs s @ [r], next_id := next_id s + 1\<rparr>"
  by (auto simp: create_tx_def Let_def)

lemma create_reservation_ok [ok_simps]:
  "create_reservation mk s = (Inr r, t) \<longleftrightarrow> r = mk (next_id s) (clock s) \<and>
     t = s\<lparr>reservations := reservations s @ [r], next_id := next_id s + 1\<rparr>"
  by (auto simp: create_reservation_def Let_def)

lemma update_wallet_ok [ok_simps]:
  "update_wallet i f s = (Inr x, t) \<longleftrightarrow> (\<exists>w. find_by w_id i (wallets s) = Some w \<and> x = f w \<and>
     t = s\<lparr>wallets := set_row w_id i f (wallets s)\<rparr>)"
  by (auto simp: update_wallet_def split: option.splits)

lemma update_reservation_ok [ok_simps]:
  "update_reservation i f s = (Inr x, t) \<longleftrightarrow> (\<exists>r. find_by r_id i (reservations s) = Some r \<and> x = f r \<and>
     t = s\<lparr>reservations := set_row r_id i f (reservations s)\<rparr>)"
  by (auto simp: update_reservation_def split: option.splits)

lemma create_wallet_ok [ok_simps]:
  "create_wallet tenant s = (Inr w, t) \<longleftrightarrow> tenant \<notin> w_tenantId ` set (wallets s) \<and>
     w = new_wallet (next_id s) tenant \<and>
     t = s\<lparr>wallets := wallets s @ [w], next_id := next_id s + 1\<rparr>"
  by (auto simp: create_wallet_def Let_def)

lemma lockReservation_ok [ok_simps]:
  "lockReservation i s = (Inr r, t) \<longleftrightarrow> find_by r_id i (reservations s) = Some r \<and> t = s"
  by (auto simp: lockReservation_def ok_simps)

lemma lockWalletById_ok [ok_simps]:
  "lockWalletById i s = (Inr w, t) \<longleftrightarrow> find_by w_id i (wallets s) = Some w \<and> t = s"
  by (auto simp: lockWalletById_def ok_simps)

text \<open>Posting appends one row, writes one wallet, and touches nothing but the audit trail.\<close>

definition posted :: "(rat \<Rightarrow> rat) \<Rightarrow> AiWallet \<Rightarrow> PostTransactionInput \<Rightarrow> billing \<Rightarrow> billing" where
  "posted dec w inp s =
     s\<lparr>txs := txs s @ [ledger_row dec w inp (next_id s) (clock s)], next_id := next_id s + 1,
       wallets := set_row w_id (w_id w) (wallet_after dec w inp (clock s)) (wallets s)\<rparr>"

lemma posted_fields [simp]:
  "wallets (posted dec w inp s) = set_row w_id (w_id w) (wallet_after dec w inp (clock s)) (wallets s)"
  "txs (posted dec w inp s) = txs s @ [ledger_row dec w inp (next_id s) (clock s)]"
  "next_id (posted dec w inp s) = next_id s + 1"
  "reservations (posted dec w inp s) = reservations s" "purchases (posted dec w inp s) = purchases s"
  "refunds (posted dec w inp s) = refunds s" "disputes (posted dec w inp s) = disputes s"
  "messages (posted dec w inp s) = messages s" "pricings (posted dec w inp s) = pricings s"
  "policies (posted dec w inp s) = policies s" "usageLogs (posted dec w inp s) = usageLogs s"
  "models (posted dec w inp s) = models s" "providers (posted dec w inp s) = providers s"
  "tiers (posted dec w inp s) = tiers s" "stripe_refunds (posted dec w inp s) = stripe_refunds s"
  "clock (posted dec w inp s) = clock s"
  by (simp_all add: posted_def)

lemma applyTransaction_okD:
  assumes "applyTransaction dec w inp s = (Inr r, t)"
  shows "pi_amount inp \<noteq> 0" "w_status w \<noteq> AiWalletStatus.CLOSED"
    "0 \<le> w_balance w + pi_amount inp \<or> pi_allowNegativeBalance inp"
    "r = ledger_row dec w inp (next_id s) (clock s)"
    "t = (posted dec w inp s)\<lparr>audits := audits t\<rparr>"
  using assms
  by (auto simp: applyTransaction_def Let_def ok_simps recordIn_def posted_def split: if_splits)

lemma applyTransaction_runs:
  assumes "pi_amount inp \<noteq> 0" "w_status w \<noteq> AiWalletStatus.CLOSED"
    "0 \<le> w_balance w + pi_amount inp \<or> pi_allowNegativeBalance inp"
    "find_by w_id (w_id w) (wallets s) = Some w'"
  shows "\<exists>a. applyTransaction dec w inp s =
    (Inr (ledger_row dec w inp (next_id s) (clock s)), (posted dec w inp s)\<lparr>audits := a\<rparr>)"
proof -
  have "\<exists>t. applyTransaction dec w inp s = (Inr (ledger_row dec w inp (next_id s) (clock s)), t)"
    using assms
    by (auto simp: applyTransaction_def Let_def ok_simps recordIn_def)
  then show ?thesis
    by (metis applyTransaction_okD(5))
qed

lemma lockWalletByTenant_okD:
  assumes "lockWalletByTenant tenant s = (Inr w, t)"
  shows "find_by w_tenantId tenant (wallets s) = Some w' \<Longrightarrow> keys_ok s \<Longrightarrow> w = w' \<and> t = s"
    "find_by w_tenantId tenant (wallets s) = None \<Longrightarrow>
       w = new_wallet (next_id s) tenant \<and> t = s\<lparr>wallets := wallets s @ [w], next_id := next_id s + 1\<rparr>"
  using assms
  by (auto simp: lockWalletByTenant_def ok_simps find_wallet_keys dest!: find_by_Some
      intro: wallet_unique)

end
