(* ===== verification/WalletInv.thy ===== *)
theory WalletInv
  imports WalletBooks
begin

text \<open>
  Every method of the wallet service keeps the books (\<open>wallet_ok\<close>), for any rounding that
  satisfies the laws of \<open>money_column\<close>.  The lemmas about single writes come first, the
  methods follow from them.
\<close>

section \<open>Single writes\<close>

lemma ledger_of_snoc:
  "ledger_of i (s\<lparr>txs := txs s @ [t]\<rparr>) = ledger_of i s @ (if t_walletId t = i then [t] else [])"
  by (simp add: ledger_of_def)

lemma ledger_of_posted:
  "ledger_of i (posted dec w inp s) =
     ledger_of i s @ (if w_id w = i then [ledger_row dec w inp (next_id s) (clock s)] else [])"
  by (simp add: ledger_of_def)

lemma ledger_sum_posted:
  "ledger_sum i (posted dec w inp s) = ledger_sum i s + (if w_id w = i then dec (pi_amount inp) else 0)"
  by (simp add: ledger_sum_def ledger_of_posted)

lemma no_rows_for_fresh_wallet:
  "keys_ok s \<Longrightarrow> ledger_of (next_id s) s = []"
  by (auto simp: keys_ok_def ledger_of_def filter_empty_conv)

lemma no_holds_for_fresh_wallet:
  "keys_ok s \<Longrightarrow> holds_of (next_id s) (reservations s) = 0"
  unfolding holds_of_def by (rule sum_where_none) (auto simp: keys_ok_def)

text \<open>A statement about every wallet after one row was written.\<close>

lemma wallets_after_write:
  assumes "keys_ok s" "w \<in> set (wallets s)" "P (f w)"
    "\<And>x. x \<in> set (wallets s) \<Longrightarrow> w_id x \<noteq> w_id w \<Longrightarrow> P x"
  shows "\<forall>x \<in> set (set_row w_id (w_id w) f (wallets s)). P x"
  using wallet_row_cases [OF assms(1,2)] assms(3,4) by metis

text \<open>Taking and dropping a hold.\<close>

definition held :: "(rat \<Rightarrow> rat) \<Rightarrow> AiWallet \<Rightarrow> rat \<Rightarrow> AiCreditReservation \<Rightarrow> timestamp \<Rightarrow> billing \<Rightarrow> billing" where
  "held dec w amount r now s =
     s\<lparr>reservations := reservations s @ [r], next_id := next_id s + 1,
       wallets := set_row w_id (w_id w) (\<lambda>x. x\<lparr>w_reservedBalance := dec (w_reservedBalance w + amount),
                                             w_lastActivityAt := Some now\<rparr>) (wallets s)\<rparr>"

definition unheld :: "(rat \<Rightarrow> rat) \<Rightarrow> AiWallet \<Rightarrow> AiCreditReservation \<Rightarrow> AiReservationStatus \<Rightarrow> timestamp \<Rightarrow> billing \<Rightarrow> billing" where
  "unheld dec w r status now s =
     s\<lparr>wallets := set_row w_id (w_id w)
         (\<lambda>x. x\<lparr>w_reservedBalance := dec (max 0 (w_reservedBalance w - r_amount r))\<rparr>) (wallets s),
       reservations := set_row r_id (r_id r)
         (\<lambda>x. x\<lparr>r_status := status, r_finalizedAt := Some now\<rparr>) (reservations s)\<rparr>"

lemma held_fields [simp]:
  "wallets (held dec w amount r now s) = set_row w_id (w_id w)
     (\<lambda>x. x\<lparr>w_reservedBalance := dec (w_reservedBalance w + amount), w_lastActivityAt := Some now\<rparr>) (wallets s)"
  "reservations (held dec w amount r now s) = reservations s @ [r]"
  "txs (held dec w amount r now s) = txs s" "next_id (held dec w amount r now s) = next_id s + 1"
  "ledger_of i (held dec w amount r now s) = ledger_of i s"
  "ledger_sum i (held dec w amount r now s) = ledger_sum i s"
  by (simp_all add: held_def)

lemma unheld_fields [simp]:
  "wallets (unheld dec w r status now s) = set_row w_id (w_id w)
     (\<lambda>x. x\<lparr>w_reservedBalance := dec (max 0 (w_reservedBalance w - r_amount r))\<rparr>) (wallets s)"
  "reservations (unheld dec w r status now s) = set_row r_id (r_id r)
     (\<lambda>x. x\<lparr>r_status := status, r_finalizedAt := Some now\<rparr>) (reservations s)"
  "txs (unheld dec w r status now s) = txs s" "next_id (unheld dec w r status now s) = next_id s"
  "ledger_of i (unheld dec w r status now s) = ledger_of i s"
  "ledger_sum i (unheld dec w r status now s) = ledger_sum i s"
  by (simp_all add: unheld_def)

context money_column
begin

lemma keys_ok_created:
  "keys_ok s \<Longrightarrow> tenant \<notin> w_tenantId ` set (wallets s) \<Longrightarrow>
   keys_ok (s\<lparr>wallets := wallets s @ [new_wallet (next_id s) tenant], next_id := next_id s + 1\<rparr>)"
  by (fastforce simp: keys_ok_def new_wallet_def)

lemma wallet_ok_created:
  assumes ok: "wallet_ok dec s" and fresh: "tenant \<notin> w_tenantId ` set (wallets s)"
  shows "wallet_ok dec (s\<lparr>wallets := wallets s @ [new_wallet (next_id s) tenant], next_id := next_id s + 1\<rparr>)"
    (is "wallet_ok dec ?t")
proof -
  from ok have keys: "keys_ok s" by (simp add: wallet_ok_def)
  from ok have "grid_ok dec ?t"
    by (auto simp: wallet_ok_def grid_ok_def new_wallet_def dec_zero)
  moreover from ok no_holds_for_fresh_wallet [OF keys] have "holds_ok ?t"
    by (auto simp: wallet_ok_def holds_ok_def new_wallet_def)
  moreover from ok no_rows_for_fresh_wallet [OF keys] have "chain_ok ?t"
    by (auto simp: wallet_ok_def chain_ok_def new_wallet_def)
  moreover from ok no_rows_for_fresh_wallet [OF keys] have "drift_ok ?t"
    by (auto simp: wallet_ok_def drift_ok_def ledger_sum_def new_wallet_def)
  ultimately show ?thesis
    using keys_ok_created [OF keys fresh] by (simp add: wallet_ok_def)
qed

lemma keys_ok_posted:
  "keys_ok s \<Longrightarrow> w \<in> set (wallets s) \<Longrightarrow> keys_ok (posted dec w inp s)"
  by (auto simp: keys_ok_def in_set_row less_Suc_eq split: if_splits)

lemma wallet_ok_posted:
  assumes ok: "wallet_ok dec s" and w: "w \<in> set (wallets s)"
  shows "wallet_ok dec (posted dec w inp s)" (is "wallet_ok dec ?t")
proof -
  from ok have keys: "keys_ok s" by (simp add: wallet_ok_def)
  have fixed: "dec (w_balance w) = w_balance w" using ok w by (simp add: wallet_ok_def grid_ok_def)
  have "\<forall>x \<in> set (wallets ?t). dec (w_balance x) = w_balance x \<and> dec (w_reservedBalance x) = w_reservedBalance x"
    unfolding posted_fields
    by (rule wallets_after_write [OF keys w]) (use ok w in \<open>simp_all add: wallet_ok_def grid_ok_def dec_idem\<close>)
  with ok have "grid_ok dec ?t"
    by (simp add: wallet_ok_def grid_ok_def dec_idem)
  moreover have "holds_ok ?t"
    unfolding holds_ok_def posted_fields
    by (rule wallets_after_write [OF keys w]) (use ok w in \<open>simp_all add: wallet_ok_def holds_ok_def\<close>)
  moreover have "chain_ok ?t"
    unfolding chain_ok_def posted_fields
    by (rule wallets_after_write [OF keys w])
      (use ok w fixed in \<open>simp_all add: wallet_ok_def chain_ok_def ledger_of_posted linked_snoc\<close>)
  moreover have "drift_ok ?t"
    unfolding drift_ok_def posted_fields
  proof (rule wallets_after_write [OF keys w])
    from ok w have "\<bar>w_balance w - ledger_sum (w_id w) s\<bar> \<le> of_nat (length (ledger_of (w_id w) s)) * ulp"
      by (simp add: wallet_ok_def drift_ok_def)
    with dec_step_drift [OF fixed, of "pi_amount inp"]
    show "\<bar>w_balance (wallet_after dec w inp (clock s) w) - ledger_sum (w_id (wallet_after dec w inp (clock s) w)) ?t\<bar>
        \<le> of_nat (length (ledger_of (w_id (wallet_after dec w inp (clock s) w)) ?t)) * ulp"
      by (simp add: ledger_sum_posted ledger_of_posted algebra_simps)
  next
    fix x assume "x \<in> set (wallets s)" "w_id x \<noteq> w_id w"
    with ok show "\<bar>w_balance x - ledger_sum (w_id x) ?t\<bar> \<le> of_nat (length (ledger_of (w_id x) ?t)) * ulp"
      by (simp add: wallet_ok_def drift_ok_def ledger_sum_posted ledger_of_posted)
  qed
  ultimately show ?thesis
    using keys_ok_posted [OF keys w] by (simp add: wallet_ok_def)
qed

text \<open>An amount that is a column value is booked exactly.\<close>

lemma reconciled_posted:
  assumes ok: "wallet_ok dec s" and w: "w \<in> set (wallets s)" and books: "reconciled s"
    and amount: "dec (pi_amount inp) = pi_amount inp"
  shows "reconciled (posted dec w inp s)"
proof -
  from ok have keys: "keys_ok s" by (simp add: wallet_ok_def)
  have sum: "dec (w_balance w + pi_amount inp) = w_balance w + pi_amount inp"
    using ok w amount by (intro dec_add) (auto simp: wallet_ok_def grid_ok_def)
  show ?thesis
    unfolding reconciled_def posted_fields
    by (rule wallets_after_write [OF keys w])
      (use books w amount sum in \<open>simp_all add: reconciled_def ledger_sum_posted\<close>)
qed

lemma holds_nonneg: "grid_ok dec s \<Longrightarrow> 0 \<le> holds_of i (reservations s)"
  unfolding holds_of_def by (rule sum_where_nonneg) (auto simp: grid_ok_def)

lemma wallet_ok_held:
  assumes ok: "wallet_ok dec s" and w: "w \<in> set (wallets s)" and amount: "0 < amount"
    and r: "r_id r = next_id s" "r_walletId r = w_id w" "r_amount r = dec amount"
      "r_status r = AiReservationStatus.ACTIVE"
  shows "wallet_ok dec (held dec w amount r now s)" (is "wallet_ok dec ?t")
proof -
  from ok have keys: "keys_ok s" and grid: "grid_ok dec s" by (simp_all add: wallet_ok_def)
  have shift: "dec (w_reservedBalance w + amount) = w_reservedBalance w + dec amount"
    using ok w amount holds_nonneg [OF grid, of "w_id w"]
    by (intro dec_shift) (auto simp: wallet_ok_def grid_ok_def holds_ok_def)
  have "keys_ok ?t"
    using keys w r by (auto simp: keys_ok_def in_set_row less_Suc_eq split: if_splits)
  moreover have "\<forall>x \<in> set (wallets ?t). dec (w_balance x) = w_balance x \<and> dec (w_reservedBalance x) = w_reservedBalance x"
    unfolding held_fields
    by (rule wallets_after_write [OF keys w]) (use grid w in \<open>simp_all add: grid_ok_def dec_idem\<close>)
  then have "grid_ok dec ?t"
    using grid r amount by (simp add: grid_ok_def dec_idem dec_nonneg)
  moreover have "holds_ok ?t"
    unfolding holds_ok_def held_fields
    by (rule wallets_after_write [OF keys w])
      (use ok w r shift in \<open>simp_all add: wallet_ok_def holds_ok_def holds_of_def\<close>)
  moreover have "chain_ok ?t"
    unfolding chain_ok_def held_fields
    by (rule wallets_after_write [OF keys w]) (use ok w in \<open>simp_all add: wallet_ok_def chain_ok_def\<close>)
  moreover have "drift_ok ?t"
    unfolding drift_ok_def held_fields
    by (rule wallets_after_write [OF keys w]) (use ok w in \<open>simp_all add: wallet_ok_def drift_ok_def\<close>)
  ultimately show ?thesis by (simp add: wallet_ok_def)
qed

lemma holds_unheld:
  assumes "keys_ok s" "r \<in> set (reservations s)" "r_status r = AiReservationStatus.ACTIVE"
    "status \<noteq> AiReservationStatus.ACTIVE"
  shows "holds_of i (set_row r_id (r_id r) (\<lambda>x. x\<lparr>r_status := status, r_finalizedAt := Some now\<rparr>) (reservations s)) =
    holds_of i (reservations s) - (if r_walletId r = i then r_amount r else 0)"
proof -
  have "find_by r_id (r_id r) (reservations s) = Some r" "distinct (map r_id (reservations s))"
    using assms by (auto simp: keys_ok_def intro: find_by_unique)
  then show ?thesis
    using assms(3,4) unfolding holds_of_def by (subst sum_where_set_row) auto
qed

lemma wallet_ok_unheld:
  assumes ok: "wallet_ok dec s" and w: "w \<in> set (wallets s)" and r: "r \<in> set (reservations s)"
    and active: "r_status r = AiReservationStatus.ACTIVE" "r_walletId r = w_id w"
    and status: "status \<noteq> AiReservationStatus.ACTIVE"
  shows "wallet_ok dec (unheld dec w r status now s)" (is "wallet_ok dec ?t")
proof -
  from ok have keys: "keys_ok s" and grid: "grid_ok dec s" by (simp_all add: wallet_ok_def)
  have covered: "r_amount r \<le> w_reservedBalance w"
  proof -
    have "r_amount r \<le> holds_of (w_id w) (reservations s)"
      unfolding holds_of_def using grid r active
      by (intro sum_where_member [where f = r_amount]) (auto simp: grid_ok_def)
    with ok w show ?thesis by (simp add: wallet_ok_def holds_ok_def)
  qed
  have exact: "dec (max 0 (w_reservedBalance w - r_amount r)) = w_reservedBalance w - r_amount r"
    using covered grid w r by (simp add: max_def dec_diff grid_ok_def)
  have "keys_ok ?t"
    using keys w r by (auto simp: keys_ok_def in_set_row split: if_splits)
  moreover have "\<forall>x \<in> set (wallets ?t). dec (w_balance x) = w_balance x \<and> dec (w_reservedBalance x) = w_reservedBalance x"
    unfolding unheld_fields
    by (rule wallets_after_write [OF keys w]) (use grid w in \<open>simp_all add: grid_ok_def dec_idem\<close>)
  then have "grid_ok dec ?t"
    using grid by (auto simp: grid_ok_def in_set_row split: if_splits)
  moreover have "holds_ok ?t"
    unfolding holds_ok_def unheld_fields
    by (rule wallets_after_write [OF keys w])
      (use ok w active exact holds_unheld [OF keys r active(1) status, of _ now]
        in \<open>simp_all add: wallet_ok_def holds_ok_def\<close>)
  moreover have "chain_ok ?t"
    unfolding chain_ok_def unheld_fields
    by (rule wallets_after_write [OF keys w]) (use ok w in \<open>simp_all add: wallet_ok_def chain_ok_def\<close>)
  moreover have "drift_ok ?t"
    unfolding drift_ok_def unheld_fields
    by (rule wallets_after_write [OF keys w]) (use ok w in \<open>simp_all add: wallet_ok_def drift_ok_def\<close>)
  ultimately show ?thesis by (simp add: wallet_ok_def)
qed

end

end
