(* ===== verification/WalletService.thy ===== *)
theory WalletService
  imports WalletInv
begin

text \<open>
  The methods of the wallet service against the books of \<open>WalletBooks\<close>: each one keeps
  \<open>wallet_ok\<close>, whether it returns or throws, and what each one did when it returned.
\<close>

section \<open>What a successful call did\<close>

lemma postTransaction_okD:
  assumes "postTransaction dec inp s = (Inr r, t)" "keys_ok s"
  obtains w s' where "w \<in> set (wallets s')" "w_tenantId w = pi_tenantId inp"
    "s' = s \<or> pi_tenantId inp \<notin> w_tenantId ` set (wallets s) \<and> w = new_wallet (next_id s) (pi_tenantId inp) \<and>
       s' = s\<lparr>wallets := wallets s @ [w], next_id := next_id s + 1\<rparr>"
    "pi_amount inp \<noteq> 0" "w_status w \<noteq> AiWalletStatus.CLOSED"
    "0 \<le> w_balance w + pi_amount inp \<or> pi_allowNegativeBalance inp"
    "r = ledger_row dec w inp (next_id s') (clock s')"
    "t = (posted dec w inp s')\<lparr>audits := audits t\<rparr>"
proof -
  from assms obtain w s' where lock: "lockWalletByTenant (pi_tenantId inp) s = (Inr w, s')"
    and app: "applyTransaction dec w inp s' = (Inr r, t)"
    by (auto simp: postTransaction_def postTransactionIn_def ok_simps)
  note facts = applyTransaction_okD [OF app]
  show thesis
  proof (cases "find_by w_tenantId (pi_tenantId inp) (wallets s)")
    case None
    with lockWalletByTenant_okD(2) [OF lock] have created:
      "w = new_wallet (next_id s) (pi_tenantId inp)"
      "s' = s\<lparr>wallets := wallets s @ [w], next_id := next_id s + 1\<rparr>" by simp_all
    have fresh: "pi_tenantId inp \<notin> w_tenantId ` set (wallets s)"
      using None by (simp add: find_by_None)
    show thesis
    proof (rule that [OF _ _ _ facts])
      show "w \<in> set (wallets s')" "w_tenantId w = pi_tenantId inp"
        using created by (simp_all add: new_wallet_def)
      show "s' = s \<or> pi_tenantId inp \<notin> w_tenantId ` set (wallets s) \<and> w = new_wallet (next_id s) (pi_tenantId inp) \<and>
          s' = s\<lparr>wallets := wallets s @ [w], next_id := next_id s + 1\<rparr>"
        using created fresh by blast
    qed
  next
    case (Some w')
    with lockWalletByTenant_okD(1) [OF lock Some assms(2)] have "w = w'" "s' = s" by simp_all
    moreover have "w' \<in> set (wallets s)" "w_tenantId w' = pi_tenantId inp"
      using find_by_Some [OF Some] by simp_all
    ultimately show thesis
      by (intro that [of w s']) (use facts in simp_all)
  qed
qed

lemma reserveCredits_okD:
  assumes "reserveCredits dec inp s = (Inr r, t)"
  obtains w s' where "lockWalletByTenant (ri_tenantId inp) s = (Inr w, s')" "0 < ri_amount inp"
    "w_status w = AiWalletStatus.ACTIVE" "ri_amount inp \<le> w_balance w - w_reservedBalance w"
    "r_id r = next_id s'" "r_walletId r = w_id w" "r_tenantId r = ri_tenantId inp"
    "r_amount r = dec (ri_amount inp)" "r_status r = AiReservationStatus.ACTIVE"
    "r_expiresAt r = clock s' + RESERVATION_TTL_MS"
    "find_by w_id (w_id w) (wallets s') \<noteq> None"
    "t = held dec w (ri_amount inp) r (clock s') s'"
proof -
  from assms obtain w s' where
    lock: "lockWalletByTenant (ri_tenantId inp) s = (Inr w, s')" and
    facts: "0 < ri_amount inp" "w_status w \<noteq> AiWalletStatus.SUSPENDED" "w_status w \<noteq> AiWalletStatus.CLOSED"
      "ri_amount inp \<le> w_balance w - w_reservedBalance w"
      "r = \<lparr>r_id = next_id s', r_walletId = w_id w, r_tenantId = ri_tenantId inp,
           r_userId = ri_userId inp, r_amount = dec (ri_amount inp),
           r_status = AiReservationStatus.ACTIVE, r_requestId = ri_requestId inp,
           r_expiresAt = clock s' + RESERVATION_TTL_MS, r_finalizedAt = None\<rparr>"
      "find_by w_id (w_id w) (wallets s') \<noteq> None"
      "t = held dec w (ri_amount inp) r (clock s') s'"
    by (auto simp: reserveCredits_def Let_def ok_simps held_def)
  then show thesis
    by (intro that [OF lock]) (auto intro: AiWalletStatus.exhaust)
qed

section \<open>Runs of the reservation methods\<close>

lemma update_wallet_run [run_simps]:
  "find_by w_id i (wallets s) = Some w \<Longrightarrow>
   update_wallet i f s = (Inr (f w), s\<lparr>wallets := set_row w_id i f (wallets s)\<rparr>)"
  by (simp add: update_wallet_def)

lemma update_reservation_run [run_simps]:
  "find_by r_id i (reservations s) = Some r \<Longrightarrow>
   update_reservation i f s = (Inr (f r), s\<lparr>reservations := set_row r_id i f (reservations s)\<rparr>)"
  by (simp add: update_reservation_def)

lemma lockReservation_run [run_simps]:
  "lockReservation i s = (case find_by r_id i (reservations s) of None \<Rightarrow> Inl BillingNotFoundError | Some r \<Rightarrow> Inr r, s)"
  by (simp add: lockReservation_def run_simps)

lemma lockWalletById_run [run_simps]:
  "lockWalletById i s = (case find_by w_id i (wallets s) of None \<Rightarrow> Inl PrismaRecordNotFound | Some w \<Rightarrow> Inr w, s)"
  by (simp add: lockWalletById_def run_simps)

lemma releaseReservation_run:
  assumes "find_by r_id i (reservations s) = Some r" "r_status r = AiReservationStatus.ACTIVE"
    "find_by w_id (r_walletId r) (wallets s) = Some w"
  shows "releaseReservation dec i status s =
    (Inr (r\<lparr>r_status := status, r_finalizedAt := Some (clock s)\<rparr>), unheld dec w r status (clock s) s)"
  using assms find_by_Some [OF assms(1)] find_by_Some [OF assms(3)]
  by (simp add: releaseReservation_def run_simps unheld_def)

lemma releaseReservation_okD:
  assumes "releaseReservation dec i status s = (Inr r, t)"
  obtains (released) r0 w where "find_by r_id i (reservations s) = Some r0"
      "r_status r0 = AiReservationStatus.ACTIVE" "find_by w_id (r_walletId r0) (wallets s) = Some w"
      "r = r0\<lparr>r_status := status, r_finalizedAt := Some (clock s)\<rparr>" "t = unheld dec w r0 status (clock s) s"
  | (unchanged) "find_by r_id i (reservations s) = Some r" "r_status r \<noteq> AiReservationStatus.ACTIVE" "t = s"
proof -
  from assms obtain r0 where r0: "find_by r_id i (reservations s) = Some r0"
    by (simp add: releaseReservation_def ok_simps) blast
  show thesis
  proof (cases "r_status r0 = AiReservationStatus.ACTIVE")
    case False
    with assms r0 show thesis by (intro unchanged) (simp_all add: releaseReservation_def ok_simps)
  next
    case True
    with assms r0 obtain w where w: "find_by w_id (r_walletId r0) (wallets s) = Some w"
      by (simp add: releaseReservation_def ok_simps) blast
    show thesis
      using released [OF r0 True w] releaseReservation_run [OF r0 True w, of dec status] assms by simp
  qed
qed

lemma finalizeReservation_run:
  assumes "0 \<le> charge" "find_by r_id i (reservations s) = Some r" "r_status r = AiReservationStatus.ACTIVE"
    "find_by w_id (r_walletId r) (wallets s) = Some w"
  shows "finalizeReservation dec i charge ctx s =
    (if charge = 0 then (Inr (r, None), unheld dec w r AiReservationStatus.FINALIZED (clock s) s)
     else transaction (\<lambda>_. bind (applyTransaction dec
       (w\<lparr>w_reservedBalance := dec (max 0 (w_reservedBalance w - r_amount r))\<rparr>) (usage_charge charge ctx r))
         (\<lambda>x. return (r, Some x)) (unheld dec w r AiReservationStatus.FINALIZED (clock s) s)) s)"
  using assms find_by_Some [OF assms(2)] find_by_Some [OF assms(4)]
  by (simp add: finalizeReservation_def run_simps unheld_def transaction_def find_by_set_row)

lemma finalizeReservation_okD:
  assumes "finalizeReservation dec i charge ctx s = (Inr (r, entry), t)"
  obtains w where "0 \<le> charge" "find_by r_id i (reservations s) = Some r"
    "r_status r = AiReservationStatus.ACTIVE" "find_by w_id (r_walletId r) (wallets s) = Some w"
    "(if charge = 0 then entry = None \<and> t = unheld dec w r AiReservationStatus.FINALIZED (clock s) s
      else \<exists>x. entry = Some x \<and> applyTransaction dec
       (w\<lparr>w_reservedBalance := dec (max 0 (w_reservedBalance w - r_amount r))\<rparr>) (usage_charge charge ctx r)
         (unheld dec w r AiReservationStatus.FINALIZED (clock s) s) = (Inr x, t))"
proof -
  have charge: "0 \<le> charge"
    using assms by (simp add: finalizeReservation_def ok_simps not_less)
  obtain r0 where r0: "find_by r_id i (reservations s) = Some r0" "r_status r0 = AiReservationStatus.ACTIVE"
    using assms by (simp add: finalizeReservation_def ok_simps) blast
  obtain w where w: "find_by w_id (r_walletId r0) (wallets s) = Some w"
    using assms r0 by (simp add: finalizeReservation_def ok_simps) blast
  have "r0 = r"
    using assms finalizeReservation_run [OF charge r0 w, of dec ctx]
    by (auto simp: ok_simps split: if_splits)
  show thesis
    using that [of w] charge r0 w assms finalizeReservation_run [OF charge r0 w, of dec ctx]
    unfolding \<open>r0 = r\<close> by (auto simp: ok_simps split: if_splits)
qed

section \<open>Every method keeps the books\<close>

lemma lockWalletByTenant_result:
  assumes "lockWalletByTenant tenant s = (Inr w, t)" "keys_ok s"
  shows "w \<in> set (wallets t)" "w_tenantId w = tenant"
    "t = s \<or> tenant \<notin> w_tenantId ` set (wallets s) \<and> w = new_wallet (next_id s) tenant \<and>
       t = s\<lparr>wallets := wallets s @ [w], next_id := next_id s + 1\<rparr>"
proof -
  have "w \<in> set (wallets t) \<and> w_tenantId w = tenant \<and>
    (t = s \<or> tenant \<notin> w_tenantId ` set (wallets s) \<and> w = new_wallet (next_id s) tenant \<and>
       t = s\<lparr>wallets := wallets s @ [w], next_id := next_id s + 1\<rparr>)"
  proof (cases "find_by w_tenantId tenant (wallets s)")
    case None
    with lockWalletByTenant_okD(2) [OF assms(1) None] show ?thesis
      by (simp add: find_by_None new_wallet_def)
  next
    case (Some w')
    with lockWalletByTenant_okD(1) [OF assms(1) Some assms(2)] find_by_Some [OF Some] show ?thesis
      by simp
  qed
  then show "w \<in> set (wallets t)" "w_tenantId w = tenant"
    "t = s \<or> tenant \<notin> w_tenantId ` set (wallets s) \<and> w = new_wallet (next_id s) tenant \<and>
       t = s\<lparr>wallets := wallets s @ [w], next_id := next_id s + 1\<rparr>" by blast+
qed

context money_column
begin

abbreviation books_ok :: "billing \<Rightarrow> bool" where
  "books_ok s \<equiv> wallet_ok dec s \<and> reconciled s"

lemma wallet_ok_keys: "wallet_ok dec s \<Longrightarrow> keys_ok s"
  by (simp add: wallet_ok_def)

lemma reconciled_created:
  assumes "wallet_ok dec s" "reconciled s"
  shows "reconciled (s\<lparr>wallets := wallets s @ [new_wallet (next_id s) tenant], next_id := next_id s + 1\<rparr>)"
  using assms no_rows_for_fresh_wallet [OF wallet_ok_keys [OF assms(1)]]
  by (simp add: reconciled_def ledger_sum_def new_wallet_def)

lemma wallet_ok_audits: "wallet_ok dec s \<Longrightarrow> wallet_ok dec (s\<lparr>audits := a\<rparr>)"
  by (erule wallet_ok_frame) simp_all

lemma reconciled_audits: "reconciled s \<Longrightarrow> reconciled (s\<lparr>audits := a\<rparr>)"
  by (erule reconciled_frame) simp_all

lemma lockWalletByTenant_keeps:
  assumes "wallet_ok dec s" "lockWalletByTenant tenant s = (Inr w, t)"
  shows "wallet_ok dec t \<and> w \<in> set (wallets t) \<and> (reconciled s \<longrightarrow> reconciled t)"
  using lockWalletByTenant_result [OF assms(2) wallet_ok_keys [OF assms(1)]] assms(1)
    wallet_ok_created [OF assms(1), of tenant] reconciled_created [OF assms(1), of tenant]
  by auto

lemma applyTransaction_keeps:
  assumes "wallet_ok dec s" "w \<in> set (wallets s)" "applyTransaction dec w inp s = (Inr r, t)"
  shows "wallet_ok dec t"
    and "reconciled s \<Longrightarrow> dec (pi_amount inp) = pi_amount inp \<Longrightarrow> reconciled t"
  using applyTransaction_okD(5) [OF assms(3)] wallet_ok_posted [OF assms(1,2), of inp]
    reconciled_posted [OF assms(1,2)]
  by (metis wallet_ok_audits, metis reconciled_audits)

lemma keeps_postTransaction:
  "keeps (wallet_ok dec) (postTransaction dec inp)"
  unfolding postTransaction_def postTransactionIn_def
  by (rule keeps_transactionI)
    (auto simp: ok_simps dest: lockWalletByTenant_keeps applyTransaction_keeps(1))

lemma keeps_books_postTransaction:
  "dec (pi_amount inp) = pi_amount inp \<Longrightarrow> keeps books_ok (postTransaction dec inp)"
  unfolding postTransaction_def postTransactionIn_def
  by (rule keeps_transactionI)
    (auto simp: ok_simps dest: lockWalletByTenant_keeps applyTransaction_keeps)

lemma keeps_create_wallet:
  "keeps (wallet_ok dec) (create_wallet tenant)" "keeps books_ok (create_wallet tenant)"
  using wallet_ok_created reconciled_created by (simp_all add: keeps_def create_wallet_def Let_def)

lemma keeps_getOrCreateWallet:
  "keeps (wallet_ok dec) (getOrCreateWallet tenant)" "keeps books_ok (getOrCreateWallet tenant)"
  unfolding getOrCreateWallet_def by (intro keeps_intros keeps_create_wallet)+

text \<open>A write that leaves the money of a wallet alone, such as a change of settings.\<close>

lemma keeps_update_wallet:
  assumes f: "\<And>w. w_id (f w) = w_id w" "\<And>w. w_tenantId (f w) = w_tenantId w"
    "\<And>w. w_balance (f w) = w_balance w" "\<And>w. w_reservedBalance (f w) = w_reservedBalance w"
  shows "keeps (wallet_ok dec) (update_wallet i f)" "keeps books_ok (update_wallet i f)"
proof -
  have kept: "wallet_ok dec (s\<lparr>wallets := set_row w_id i f (wallets s)\<rparr>)"
    "reconciled s \<Longrightarrow> reconciled (s\<lparr>wallets := set_row w_id i f (wallets s)\<rparr>)" if "wallet_ok dec s" for s
  proof -
    from that have "keys_ok s" by (rule wallet_ok_keys)
    then have "keys_ok (s\<lparr>wallets := set_row w_id i f (wallets s)\<rparr>)"
      using f by (auto simp: keys_ok_def in_set_row)
    with that show "wallet_ok dec (s\<lparr>wallets := set_row w_id i f (wallets s)\<rparr>)"
      using f by (auto simp: wallet_ok_def grid_ok_def holds_ok_def chain_ok_def drift_ok_def in_set_row)
    show "reconciled s \<Longrightarrow> reconciled (s\<lparr>wallets := set_row w_id i f (wallets s)\<rparr>)"
      using f by (auto simp: reconciled_def in_set_row)
  qed
  then show "keeps (wallet_ok dec) (update_wallet i f)" "keeps books_ok (update_wallet i f)"
    by (auto simp: keeps_def update_wallet_def split: option.splits)
qed

lemma keeps_reserve:
  "keeps (\<lambda>s. wallet_ok dec s \<and> (reconciled s \<or> \<not> b)) (reserveCredits dec inp)"
proof (rule keepsI)
  fix s x t assume s: "wallet_ok dec s \<and> (reconciled s \<or> \<not> b)" and run: "reserveCredits dec inp s = (x, t)"
  show "wallet_ok dec t \<and> (reconciled t \<or> \<not> b)"
  proof (cases x)
    case (Inl e)
    with run s show ?thesis
      by (auto simp: reserveCredits_def Let_def run_seq throwIf_def return_def throw_def
          split: if_splits dest!: transaction_rollback)
  next
    case (Inr r)
    with run have ok: "reserveCredits dec inp s = (Inr r, t)" by simp
    show ?thesis
    proof (rule reserveCredits_okD [OF ok])
      fix w s' assume lock: "lockWalletByTenant (ri_tenantId inp) s = (Inr w, s')"
        and facts: "0 < ri_amount inp" "r_id r = next_id s'" "r_walletId r = w_id w"
          "r_amount r = dec (ri_amount inp)" "r_status r = AiReservationStatus.ACTIVE"
          "t = held dec w (ri_amount inp) r (clock s') s'"
      have mid: "wallet_ok dec s'" "w \<in> set (wallets s')" "reconciled s \<Longrightarrow> reconciled s'"
        using lockWalletByTenant_keeps [OF _ lock] s by auto
      have "reconciled s' \<Longrightarrow> reconciled t"
        unfolding facts(6) reconciled_def held_fields
        by (rule wallets_after_write [OF wallet_ok_keys [OF mid(1)] mid(2)]) (use mid in simp_all)
      with mid s show ?thesis
        using wallet_ok_held [OF mid(1,2) facts(1-5)] facts(6) by blast
    qed
  qed
qed

lemma keeps_reserveCredits:
  "keeps (wallet_ok dec) (reserveCredits dec inp)" "keeps books_ok (reserveCredits dec inp)"
  using keeps_reserve [of False inp] keeps_reserve [of True inp] by simp_all

lemma release_active_keeps:
  assumes "wallet_ok dec s" "find_by r_id i (reservations s) = Some r" "r_status r = AiReservationStatus.ACTIVE"
    "find_by w_id (r_walletId r) (wallets s) = Some w" "status \<noteq> AiReservationStatus.ACTIVE"
  shows "wallet_ok dec (unheld dec w r status now s)"
    "reconciled s \<Longrightarrow> reconciled (unheld dec w r status now s)"
    "w\<lparr>w_reservedBalance := dec (max 0 (w_reservedBalance w - r_amount r))\<rparr> \<in> set (wallets (unheld dec w r status now s))"
proof -
  note rows = find_by_Some [OF assms(2)] find_by_Some [OF assms(4)]
  show "wallet_ok dec (unheld dec w r status now s)"
    using wallet_ok_unheld [OF assms(1)] rows assms by auto
  show "reconciled (unheld dec w r status now s)" if "reconciled s"
    unfolding reconciled_def unheld_fields
    by (rule wallets_after_write [OF wallet_ok_keys [OF assms(1)]]) (use rows that in \<open>auto simp: reconciled_def\<close>)
  show "w\<lparr>w_reservedBalance := dec (max 0 (w_reservedBalance w - r_amount r))\<rparr> \<in> set (wallets (unheld dec w r status now s))"
    using rows by (auto simp: in_set_row)
qed

lemma keeps_releaseReservation:
  assumes "status \<noteq> AiReservationStatus.ACTIVE"
  shows "keeps (wallet_ok dec) (releaseReservation dec i status)"
    and "keeps books_ok (releaseReservation dec i status)"
proof -
  have "(wallet_ok dec s \<longrightarrow> wallet_ok dec t) \<and> (books_ok s \<longrightarrow> books_ok t)"
    if run: "releaseReservation dec i status s = (x, t)" for s x t
  proof (cases x)
    case (Inl e)
    with run show ?thesis
      by (auto simp: releaseReservation_def dest!: transaction_rollback)
  next
    case (Inr r)
    with run have "releaseReservation dec i status s = (Inr r, t)" by simp
    then show ?thesis
      by (rule releaseReservation_okD) (use assms release_active_keeps in auto)
  qed
  then show "keeps (wallet_ok dec) (releaseReservation dec i status)"
    "keeps books_ok (releaseReservation dec i status)"
    by (blast intro: keepsI)+
qed

lemma finalizeReservation_keeps:
  assumes "wallet_ok dec s" "finalizeReservation dec i charge ctx s = (x, t)"
  shows "wallet_ok dec t" "reconciled s \<Longrightarrow> dec charge = charge \<Longrightarrow> reconciled t"
proof -
  have "wallet_ok dec t \<and> (reconciled s \<longrightarrow> dec charge = charge \<longrightarrow> reconciled t)"
  proof (cases x)
    case (Inl e)
    with assms show ?thesis
      by (auto simp: finalizeReservation_def run_seq throwIf_def return_def throw_def
          split: if_splits dest!: transaction_rollback)
  next
    case (Inr p)
    obtain r entry where "p = (r, entry)" by (cases p)
    with Inr assms have "finalizeReservation dec i charge ctx s = (Inr (r, entry), t)" by simp
    then show ?thesis
    proof (rule finalizeReservation_okD)
      fix w
      assume r: "find_by r_id i (reservations s) = Some r" "r_status r = AiReservationStatus.ACTIVE"
        "find_by w_id (r_walletId r) (wallets s) = Some w"
      assume post: "if charge = 0 then entry = None \<and> t = unheld dec w r AiReservationStatus.FINALIZED (clock s) s
        else \<exists>x. entry = Some x \<and> applyTransaction dec
         (w\<lparr>w_reservedBalance := dec (max 0 (w_reservedBalance w - r_amount r))\<rparr>) (usage_charge charge ctx r)
           (unheld dec w r AiReservationStatus.FINALIZED (clock s) s) = (Inr x, t)"
      have status: "AiReservationStatus.FINALIZED \<noteq> AiReservationStatus.ACTIVE" by simp
      note mid = release_active_keeps [OF assms(1) r status]
      show ?thesis
        using post mid applyTransaction_keeps [OF mid(1,3), of "usage_charge charge ctx r"]
        by (auto simp: usage_charge_def dec_minus split: if_splits)
    qed
  qed
  then show "wallet_ok dec t" "reconciled s \<Longrightarrow> dec charge = charge \<Longrightarrow> reconciled t" by blast+
qed

lemma keeps_expireStale:
  "keeps (wallet_ok dec) (expireStaleReservations dec)" "keeps books_ok (expireStaleReservations dec)"
  unfolding expireStaleReservations_def
  by (auto intro!: keeps_intros keeps_releaseReservation)

lemma keeps_updateWalletSettings:
  "keeps (wallet_ok dec) (updateWalletSettings dec tenant st act)"
  "keeps books_ok (updateWalletSettings dec tenant st act)"
proof -
  have "ignores_audits books_ok"
    using wallet_ok_audits reconciled_audits by (simp add: ignores_audits_def)
  then show "keeps (wallet_ok dec) (updateWalletSettings dec tenant st act)"
    "keeps books_ok (updateWalletSettings dec tenant st act)"
    unfolding updateWalletSettings_def
    by (intro keeps_intros keeps_getOrCreateWallet keeps_update_wallet keeps_record_audit
        wallet_ok_ignores_audits; simp)+
qed

end

end
