(* ===== verification/JsLib.thy ===== *)
theory JsLib
  imports Prelude
begin

text \<open>
  The parts of the JavaScript library the services use on strings, numbers and dates:
  \<open>trim\<close>, \<open>split\<close>, \<open>slice\<close>, \<open>Number\<close> of a string, \<open>toFixed\<close>, and the UTC calendar of
  \<open>Date\<close>.  Doubles are read as the rationals they denote, so \<open>Number\<close> is exact here.
\<close>

section \<open>Strings\<close>

definition is_space :: "char \<Rightarrow> bool" where
  "is_space c \<longleftrightarrow> of_char c \<in> {9 :: nat, 10, 11, 12, 13, 32, 160}"

definition js_trim :: "string \<Rightarrow> string" where
  "js_trim s = rev (dropWhile is_space (rev (dropWhile is_space s)))"

text \<open>\<open>toLowerCase\<close> on ASCII letters.\<close>

definition js_lower :: "string \<Rightarrow> string" where
  "js_lower s = map (\<lambda>c. let n = of_char c :: nat in
     if 65 \<le> n \<and> n \<le> 90 then char_of (n + 32) else c) s"

text \<open>\<open>!s?.trim()\<close>: missing or blank.\<close>

definition blank :: "string \<Rightarrow> bool" where
  "blank s \<longleftrightarrow> js_trim s = []"

text \<open>An optional string used as a condition: absent and empty are both false.\<close>

definition truthy :: "string option \<Rightarrow> bool" where
  "truthy s \<longleftrightarrow> s \<noteq> None \<and> s \<noteq> Some []"

text \<open>\<open>s.split(c)\<close> for a one-character separator: the pieces between its occurrences.\<close>

fun js_split :: "char \<Rightarrow> string \<Rightarrow> string list" where
  "js_split c [] = [[]]"
| "js_split c (x # xs) = (if x = c then [] # js_split c xs
     else case js_split c xs of [] \<Rightarrow> [[x]] | p # ps \<Rightarrow> (x # p) # ps)"

lemma js_split_nonempty: "js_split c s \<noteq> []"
  by (induction s) (auto split: list.splits)

lemma js_split_no_sep: "c \<notin> set s \<Longrightarrow> js_split c s = [s]"
  by (induction s) auto

lemma js_split_append: "c \<notin> set p \<Longrightarrow> js_split c (p @ c # s) = p # js_split c s"
  by (induction p) auto

section \<open>Numbers\<close>

definition digit_value :: "char \<Rightarrow> nat option" where
  "digit_value c = (let n = of_char c in
     if 48 \<le> n \<and> n \<le> 57 then Some (n - 48)
     else if 97 \<le> n \<and> n \<le> 102 then Some (n - 87)
     else if 65 \<le> n \<and> n \<le> 70 then Some (n - 55) else None)"

fun digits_value :: "nat \<Rightarrow> nat \<Rightarrow> string \<Rightarrow> nat option" where
  "digits_value b acc [] = Some acc"
| "digits_value b acc (c # cs) = (case digit_value c of None \<Rightarrow> None
     | Some d \<Rightarrow> if d < b then digits_value b (acc * b + d) cs else None)"

definition parse_digits :: "nat \<Rightarrow> string \<Rightarrow> nat option" where
  "parse_digits b s = (if s = [] then None else digits_value b 0 s)"

fun parse_signed :: "string \<Rightarrow> int option" where
  "parse_signed (CHR ''-'' # cs) = map_option (\<lambda>n. - int n) (parse_digits 10 cs)"
| "parse_signed (CHR ''+'' # cs) = map_option int (parse_digits 10 cs)"
| "parse_signed cs = map_option int (parse_digits 10 cs)"

definition pow10 :: "int \<Rightarrow> rat" where
  "pow10 e = (if 0 \<le> e then 10 ^ nat e else 1 / 10 ^ nat (- e))"

definition parse_mantissa :: "string \<Rightarrow> rat option" where
  "parse_mantissa s =
     (let ip = takeWhile (\<lambda>c. c \<noteq> CHR ''.'') s; rest = dropWhile (\<lambda>c. c \<noteq> CHR ''.'') s
      in case rest of
           [] \<Rightarrow> map_option of_nat (parse_digits 10 ip)
         | _ # fp \<Rightarrow> map_option (\<lambda>n. of_nat n / 10 ^ length fp) (parse_digits 10 (ip @ fp)))"

definition parse_decimal :: "string \<Rightarrow> rat option" where
  "parse_decimal s =
     (let m = takeWhile (\<lambda>c. c \<noteq> CHR ''e'' \<and> c \<noteq> CHR ''E'') s;
          rest = dropWhile (\<lambda>c. c \<noteq> CHR ''e'' \<and> c \<noteq> CHR ''E'') s
      in case parse_mantissa m of None \<Rightarrow> None
         | Some x \<Rightarrow> (case rest of [] \<Rightarrow> Some x
             | _ # es \<Rightarrow> map_option (\<lambda>e. x * pow10 e) (parse_signed es)))"

definition of_parse :: "rat option \<Rightarrow> jsnum" where
  "of_parse r = (case r of None \<Rightarrow> NonFinite | Some x \<Rightarrow> Finite x)"

text \<open>\<open>Number(s)\<close>; NaN and the infinities are both \<open>NonFinite\<close>.\<close>

fun number_literal :: "string \<Rightarrow> jsnum" where
  "number_literal [] = Finite 0"
| "number_literal (CHR ''-'' # cs) = of_parse (map_option uminus (parse_decimal cs))"
| "number_literal (CHR ''+'' # cs) = of_parse (parse_decimal cs)"
| "number_literal (CHR ''0'' # c # cs) =
     (if c \<in> {CHR ''x'', CHR ''X''} then of_parse (map_option of_nat (parse_digits 16 cs))
      else if c \<in> {CHR ''o'', CHR ''O''} then of_parse (map_option of_nat (parse_digits 8 cs))
      else if c \<in> {CHR ''b'', CHR ''B''} then of_parse (map_option of_nat (parse_digits 2 cs))
      else of_parse (parse_decimal (CHR ''0'' # c # cs)))"
| "number_literal cs = of_parse (parse_decimal cs)"

definition js_Number :: "string \<Rightarrow> jsnum" where
  "js_Number s = number_literal (js_trim s)"

text \<open>\<open>String(n)\<close> of an integer.\<close>

fun digits_of :: "nat \<Rightarrow> string" where
  "digits_of n = (if n < 10 then [char_of (48 + n)] else digits_of (n div 10) @ [char_of (48 + n mod 10)])"

declare digits_of.simps [simp del]

definition js_String :: "int \<Rightarrow> string" where
  "js_String n = (if n < 0 then CHR ''-'' # digits_of (nat (- n)) else digits_of (nat n))"

text \<open>Reading the digits back gives the number, also behind leading zeros.\<close>

lemma digit_value_of_digit: "d < 10 \<Longrightarrow> digit_value (char_of (48 + d)) = Some d"
  by (simp add: digit_value_def)

lemma digits_value_append:
  "digits_value b acc (xs @ ys) = (case digits_value b acc xs of None \<Rightarrow> None | Some a \<Rightarrow> digits_value b a ys)"
  by (induction xs arbitrary: acc) (auto split: option.splits)

lemma digits_value_digits_of: "digits_value 10 0 (digits_of n) = Some n"
proof (induction n rule: digits_of.induct)
  case (1 n)
  show ?case
  proof (cases "n < 10")
    case True
    then show ?thesis by (simp add: digits_of.simps [of n] digit_value_of_digit)
  next
    case False
    then show ?thesis
      using 1 by (simp add: digits_of.simps [of n] digits_value_append digit_value_of_digit)
  qed
qed

lemma digits_value_zeros: "digits_value 10 0 (replicate k (CHR ''0'') @ ds) = digits_value 10 0 ds"
  by (induction k) (simp_all add: digit_value_def)

text \<open>\<open>s.padStart(n, '0')\<close>.\<close>

definition padStart :: "nat \<Rightarrow> string \<Rightarrow> string" where
  "padStart n s = replicate (n - length s) (CHR ''0'') @ s"

lemma padStart_value: "digits_value 10 0 (padStart n (digits_of k)) = Some k"
  by (simp add: padStart_def digits_value_zeros digits_value_digits_of)

text \<open>\<open>Number((x).toFixed(n))\<close>: decimal.js rounds half away from zero.\<close>

definition to_fixed :: "nat \<Rightarrow> rat \<Rightarrow> rat" where
  "to_fixed n x = round_away n x"

lemma to_fixed_near: "\<bar>to_fixed n x - x\<bar> \<le> 1 / (2 * 10 ^ n)"
  unfolding to_fixed_def by (rule round_away_near)

section \<open>The UTC calendar\<close>

text \<open>
  Days since 1970-01-01 and the proleptic Gregorian date they fall on, counted in eras of
  400 years that start on March 1.
\<close>

definition MS_PER_DAY :: int where
  "MS_PER_DAY = 86400000"

definition utc_day :: "int \<Rightarrow> int" where
  "utc_day ms = ms div MS_PER_DAY"

definition year_of_era :: "int \<Rightarrow> int" where
  "year_of_era doe = (doe - doe div 1460 + doe div 36524 - doe div 146096) div 365"

text \<open>\<open>(getUTCFullYear(), getUTCMonth() + 1, getUTCDate())\<close>\<close>

definition utc_date :: "int \<Rightarrow> int \<times> int \<times> int" where
  "utc_date ms =
     (let z = utc_day ms + 719468; doe = z mod 146097; yoe = year_of_era doe;
          doy = doe - (365 * yoe + yoe div 4 - yoe div 100);
          mp = (5 * doy + 2) div 153;
          d = doy - (153 * mp + 2) div 5 + 1;
          m = (if mp < 10 then mp + 3 else mp - 9);
          y = yoe + 400 * (z div 146097) + (if m \<le> 2 then 1 else 0)
      in (y, m, d))"

text \<open>\<open>Date.UTC(y, m - 1, d)\<close> in days.\<close>

definition days_from_civil :: "int \<Rightarrow> int \<Rightarrow> int \<Rightarrow> int" where
  "days_from_civil y m d =
     (let y' = (if m \<le> 2 then y - 1 else y); yoe = y' mod 400;
          doy = (153 * (m + (if m > 2 then - 3 else 9)) + 2) div 5 + d - 1;
          doe = yoe * 365 + yoe div 4 - yoe div 100 + doy
      in (y' div 400) * 146097 + doe - 719468)"

definition date_UTC :: "int \<Rightarrow> int \<Rightarrow> int \<Rightarrow> int" where
  "date_UTC y m d = days_from_civil y m d * MS_PER_DAY"

lemma utc_date_day: "1 \<le> snd (snd (utc_date ms)) \<and> snd (snd (utc_date ms)) \<le> 31"
proof -
  have day: "1 \<le> doy - (153 * mp + 2) div 5 + 1 \<and> doy - (153 * mp + 2) div 5 + 1 \<le> 31"
    if "mp = (5 * doy + 2) div 153" for doy mp :: int
  proof -
    have "153 * mp \<le> 5 * doy + 2 \<and> 5 * doy + 2 \<le> 153 * mp + 152"
      using that mult_div_mod_eq [of 153 "5 * doy + 2"] pos_mod_bound [of 153 "5 * doy + 2"]
        pos_mod_sign [of 153 "5 * doy + 2"] by linarith
    moreover define r where "r = (153 * mp + 2) div 5"
    then have "5 * r \<le> 153 * mp + 2 \<and> 153 * mp + 2 \<le> 5 * r + 4"
      using mult_div_mod_eq [of 5 "153 * mp + 2"] pos_mod_bound [of 5 "153 * mp + 2"]
        pos_mod_sign [of 5 "153 * mp + 2"] by linarith
    ultimately show ?thesis unfolding r_def [symmetric] by linarith
  qed
  show ?thesis
    unfolding utc_date_def Let_def by (simp only: prod.sel) (rule day [OF refl])
qed

text \<open>\<open>toISOString().slice(0, 10)\<close>, for the years from 0 to 9999.\<close>

definition iso_date :: "int \<Rightarrow> string" where
  "iso_date ms = (let (y, m, d) = utc_date ms in
     padStart 4 (digits_of (nat y)) @ ''-'' @ padStart 2 (digits_of (nat m)) @ ''-'' @ padStart 2 (digits_of (nat d)))"

text \<open>The start of the UTC day and month of an instant.\<close>

definition startOfDay :: "int \<Rightarrow> int" where
  "startOfDay now = (let (y, m, d) = utc_date now in date_UTC y m d)"

definition startOfMonth :: "int \<Rightarrow> int" where
  "startOfMonth now = (let (y, m, d) = utc_date now in date_UTC y m 1)"

lemma startOfMonth_le_startOfDay: "startOfMonth now \<le> startOfDay now"
  using utc_date_day [of now]
  by (auto simp: startOfMonth_def startOfDay_def date_UTC_def days_from_civil_def Let_def MS_PER_DAY_def
      split: prod.splits)

end
