(* ===== verification/Pricing.thy ===== *)
theory Pricing
  imports BillingAudit JsLib
begin

text \<open>
  \<open>pricing.service.ts\<close>: which price row applies to a request, what a request costs, and
  the administration of price rows.  Costs are what the AI vendor charges, prices what the
  tenant pays, both per million tokens (images per unit).
\<close>

section \<open>Computing a cost\<close>

record TokenUsageInput =
  k_promptTokens :: "rat option"
  k_completionTokens :: "rat option"
  k_cachedTokens :: "rat option"
  k_reasoningTokens :: "rat option"
  k_embeddingTokens :: "rat option"
  k_images :: "rat option"

record CostBreakdown =
  cb_providerCost :: rat
  cb_customerCharge :: rat
  cb_margin :: rat
  cb_marginPct :: "rat option"
  cb_pricingId :: uuid
  cb_scope :: AiPricingScope
  cb_currency :: string

definition MILLION :: rat where
  "MILLION = 1000000"

definition perMillion :: "rat option \<Rightarrow> rat \<Rightarrow> rat" where
  "perMillion tokens rate = orElse tokens 0 * rate / MILLION"

definition perUnit :: "rat option \<Rightarrow> rat \<Rightarrow> rat" where
  "perUnit units rate = orElse units 0 * rate"

definition providerCost :: "AiModelPricing \<Rightarrow> TokenUsageInput \<Rightarrow> rat" where
  "providerCost p u =
     perMillion (k_promptTokens u) (p_providerInputCost p)
     + perMillion (k_completionTokens u) (p_providerOutputCost p)
     + perMillion (k_cachedTokens u) (p_providerCachedInputCost p)
     + perMillion (k_reasoningTokens u) (p_providerReasoningCost p)
     + perMillion (k_embeddingTokens u) (p_providerEmbeddingCost p)
     + perUnit (k_images u) (p_providerImageCost p)"

definition customerCharge :: "AiModelPricing \<Rightarrow> TokenUsageInput \<Rightarrow> rat" where
  "customerCharge p u =
     perMillion (k_promptTokens u) (p_customerInputPrice p)
     + perMillion (k_completionTokens u) (p_customerOutputPrice p)
     + perMillion (k_cachedTokens u) (p_customerCachedInputPrice p)
     + perMillion (k_reasoningTokens u) (p_customerReasoningPrice p)
     + perMillion (k_embeddingTokens u) (p_customerEmbeddingPrice p)
     + perUnit (k_images u) (p_customerImagePrice p)"

definition computeCost :: "AiModelPricing \<Rightarrow> TokenUsageInput \<Rightarrow> CostBreakdown" where
  "computeCost p u =
     (let cost = providerCost p u; charge = customerCharge p u; margin = charge - cost
      in \<lparr>cb_providerCost = cost, cb_customerCharge = charge, cb_margin = margin,
          cb_marginPct = (if charge = 0 then None else Some (to_fixed 2 (margin / charge * 100))),
          cb_pricingId = p_id p, cb_scope = p_scope p, cb_currency = p_currency p\<rparr>)"

definition estimateCharge :: "AiModelPricing \<Rightarrow> rat \<Rightarrow> rat \<Rightarrow> rat" where
  "estimateCharge p promptTokens maxCompletionTokens =
     cb_customerCharge (computeCost p
       \<lparr>k_promptTokens = Some promptTokens, k_completionTokens = Some maxCompletionTokens,
        k_cachedTokens = None, k_reasoningTokens = None, k_embeddingTokens = None,
        k_images = None\<rparr>)"

section \<open>Which row applies\<close>

text \<open>
  The candidates, newest first (\<open>orderBy effectiveFrom desc\<close>), and the first of them in the
  most specific scope.
\<close>

definition effective_at :: "uuid \<Rightarrow> timestamp \<Rightarrow> AiModelPricing \<Rightarrow> bool" where
  "effective_at modelId now p \<longleftrightarrow>
     p_modelId p = modelId \<and> p_status p = AiPricingStatus.ACTIVE \<and> p_effectiveFrom p \<le> now \<and>
     (case p_effectiveTo p of None \<Rightarrow> True | Some e \<Rightarrow> now < e)"

definition candidates :: "uuid \<Rightarrow> timestamp \<Rightarrow> AiModelPricing list \<Rightarrow> AiModelPricing list" where
  "candidates modelId now rows =
     sort_key (\<lambda>p. - p_effectiveFrom p) (filter (effective_at modelId now) rows)"

definition select_pricing :: "AiModelPricing list \<Rightarrow> uuid option \<Rightarrow> TenantTier option \<Rightarrow> AiModelPricing option" where
  "select_pricing cs tenantId planTier =
     (case (case tenantId of None \<Rightarrow> None
              | Some t \<Rightarrow> find (\<lambda>p. p_scope p = AiPricingScope.TENANT \<and> p_tenantId p = Some t) cs) of
        Some row \<Rightarrow> Some row
      | None \<Rightarrow>
        (case (case planTier of None \<Rightarrow> None
                | Some k \<Rightarrow> find (\<lambda>p. p_scope p = AiPricingScope.PLAN \<and> p_planTier p = Some k) cs) of
           Some row \<Rightarrow> Some row
         | None \<Rightarrow> find (\<lambda>p. p_scope p = AiPricingScope.GLOBAL) cs))"

definition resolvePricing ::
    "uuid \<Rightarrow> uuid option \<Rightarrow> TenantTier option \<Rightarrow> timestamp option \<Rightarrow> AiModelPricing option billing_prog" where
  "resolvePricing modelId tenantId planTier instant = gets (\<lambda>s.
     select_pricing (candidates modelId (orElse instant (clock s)) (pricings s)) tenantId planTier)"

record simulate_input =
  si_modelId :: uuid
  si_tenantId :: "uuid option"
  si_planTier :: "TenantTier option"
  si_promptTokens :: rat
  si_completionTokens :: rat
  si_cachedTokens :: "rat option"
  si_reasoningTokens :: "rat option"

text \<open>The row used, and cost, charge and margin to six decimals.\<close>

definition simulate :: "simulate_input \<Rightarrow> (AiModelPricing \<times> rat \<times> rat \<times> rat \<times> rat option) billing_prog" where
  "simulate inp =
     bind (resolvePricing (si_modelId inp) (si_tenantId inp) (si_planTier inp) None) (\<lambda>row.
     bind (orThrow BillingNotFoundError row) (\<lambda>pricing.
     let b = computeCost pricing
       \<lparr>k_promptTokens = Some (si_promptTokens inp), k_completionTokens = Some (si_completionTokens inp),
        k_cachedTokens = si_cachedTokens inp, k_reasoningTokens = si_reasoningTokens inp,
        k_embeddingTokens = None, k_images = None\<rparr>
     in return (pricing, to_fixed 6 (cb_providerCost b), to_fixed 6 (cb_customerCharge b),
                to_fixed 6 (cb_margin b), cb_marginPct b)))"

section \<open>Administration\<close>

datatype price_key = providerInputCost | providerOutputCost | providerCachedInputCost
  | providerReasoningCost | providerEmbeddingCost | providerImageCost | customerInputPrice
  | customerOutputPrice | customerCachedInputPrice | customerReasoningPrice
  | customerEmbeddingPrice | customerImagePrice

definition price_keys :: "price_key list" where
  "price_keys = [providerInputCost, providerOutputCost, providerCachedInputCost,
     providerReasoningCost, providerEmbeddingCost, providerImageCost, customerInputPrice,
     customerOutputPrice, customerCachedInputPrice, customerReasoningPrice,
     customerEmbeddingPrice, customerImagePrice]"

fun put_price :: "price_key \<Rightarrow> rat \<Rightarrow> AiModelPricing \<Rightarrow> AiModelPricing" where
  "put_price providerInputCost x p = p\<lparr>p_providerInputCost := x\<rparr>"
| "put_price providerOutputCost x p = p\<lparr>p_providerOutputCost := x\<rparr>"
| "put_price providerCachedInputCost x p = p\<lparr>p_providerCachedInputCost := x\<rparr>"
| "put_price providerReasoningCost x p = p\<lparr>p_providerReasoningCost := x\<rparr>"
| "put_price providerEmbeddingCost x p = p\<lparr>p_providerEmbeddingCost := x\<rparr>"
| "put_price providerImageCost x p = p\<lparr>p_providerImageCost := x\<rparr>"
| "put_price customerInputPrice x p = p\<lparr>p_customerInputPrice := x\<rparr>"
| "put_price customerOutputPrice x p = p\<lparr>p_customerOutputPrice := x\<rparr>"
| "put_price customerCachedInputPrice x p = p\<lparr>p_customerCachedInputPrice := x\<rparr>"
| "put_price customerReasoningPrice x p = p\<lparr>p_customerReasoningPrice := x\<rparr>"
| "put_price customerEmbeddingPrice x p = p\<lparr>p_customerEmbeddingPrice := x\<rparr>"
| "put_price customerImagePrice x p = p\<lparr>p_customerImagePrice := x\<rparr>"

record PricingUpsertInput =
  pu_modelId :: uuid
  pu_scope :: AiPricingScope
  pu_planTier :: "TenantTier option"
  pu_tenantId :: "uuid option"
  pu_currency :: "string option"
  pu_status :: "AiPricingStatus option"
  pu_effectiveFrom :: timestamp
  pu_effectiveTo :: "timestamp option"
  pu_prices :: "price_key \<Rightarrow> rat option"

definition validateScope :: "PricingUpsertInput \<Rightarrow> unit billing_prog" where
  "validateScope inp =
     seq (throwIf (pu_scope inp = AiPricingScope.PLAN \<and> pu_planTier inp = None) BillingValidationError)
         (throwIf (pu_scope inp = AiPricingScope.TENANT \<and> pu_tenantId inp = None) BillingValidationError)"

definition new_pricing :: "(rat \<Rightarrow> rat) \<Rightarrow> PricingUpsertInput \<Rightarrow> uuid option \<Rightarrow> uuid \<Rightarrow> AiModelPricing" where
  "new_pricing dec inp createdBy i =
     (let price = (\<lambda>k. dec (orElse (pu_prices inp k) 0)) in
      \<lparr>p_id = i, p_modelId = pu_modelId inp, p_scope = pu_scope inp,
       p_planTier = (if pu_scope inp = AiPricingScope.PLAN then pu_planTier inp else None),
       p_tenantId = (if pu_scope inp = AiPricingScope.TENANT then pu_tenantId inp else None),
       p_currency = orElse (pu_currency inp) ''USD'',
       p_status = orElse (pu_status inp) AiPricingStatus.ACTIVE,
       p_effectiveFrom = pu_effectiveFrom inp, p_effectiveTo = pu_effectiveTo inp,
       p_providerInputCost = price providerInputCost, p_providerOutputCost = price providerOutputCost,
       p_providerCachedInputCost = price providerCachedInputCost,
       p_providerReasoningCost = price providerReasoningCost,
       p_providerEmbeddingCost = price providerEmbeddingCost,
       p_providerImageCost = price providerImageCost,
       p_customerInputPrice = price customerInputPrice, p_customerOutputPrice = price customerOutputPrice,
       p_customerCachedInputPrice = price customerCachedInputPrice,
       p_customerReasoningPrice = price customerReasoningPrice,
       p_customerEmbeddingPrice = price customerEmbeddingPrice,
       p_customerImagePrice = price customerImagePrice, p_createdById = createdBy\<rparr>)"

definition createPricing :: "(rat \<Rightarrow> rat) \<Rightarrow> PricingUpsertInput \<Rightarrow> actor \<Rightarrow> AiModelPricing billing_prog" where
  "createPricing dec inp act =
     seq (validateScope inp)
    (bind (gets (\<lambda>s. find_by b_id (pu_modelId inp) (models s))) (\<lambda>model.
     seq (throwIf (model = None) BillingNotFoundError)
    (bind (create_pricing (new_pricing dec inp (actor_id act))) (\<lambda>created.
     seq (record_audit \<lparr>e_actor = act, e_tenantId = p_tenantId created,
            e_action = ''PRICING_CREATED'', e_entityType = ''ai_model_pricing'',
            e_entityId = Some (p_id created), e_reason = None\<rparr>)
     (return created)))))"

record PricingPatch =
  pp_status :: "AiPricingStatus option"
  pp_effectiveFrom :: "timestamp option"
  pp_effectiveTo :: "timestamp option option"
  pp_prices :: "price_key \<Rightarrow> rat option"

text \<open>
  \<open>numericPatch\<close> goes through the keys in order and stops at the first negative value.
\<close>

fun numericPatch :: "(rat \<Rightarrow> rat) \<Rightarrow> (price_key \<Rightarrow> rat option) \<Rightarrow> price_key list \<Rightarrow>
    billing_error + (AiModelPricing \<Rightarrow> AiModelPricing)" where
  "numericPatch dec prices [] = Inr id"
| "numericPatch dec prices (k # ks) =
     (case prices k of
        None \<Rightarrow> numericPatch dec prices ks
      | Some x \<Rightarrow> if x < 0 then Inl BillingValidationError
          else (case numericPatch dec prices ks of Inl e \<Rightarrow> Inl e
                | Inr f \<Rightarrow> Inr (f \<circ> put_price k (dec x))))"

definition updatePricing :: "(rat \<Rightarrow> rat) \<Rightarrow> uuid \<Rightarrow> PricingPatch \<Rightarrow> actor \<Rightarrow> AiModelPricing billing_prog" where
  "updatePricing dec i inp act =
     bind (gets (\<lambda>s. find_by p_id i (pricings s))) (\<lambda>before.
     seq (throwIf (before = None) BillingNotFoundError)
    (bind (lift (numericPatch dec (pp_prices inp) price_keys)) (\<lambda>prices.
     bind (update_pricing i (\<lambda>p. prices (p
       \<lparr>p_status := orElse (pp_status inp) (p_status p),
        p_effectiveFrom := orElse (pp_effectiveFrom inp) (p_effectiveFrom p),
        p_effectiveTo := orElse (pp_effectiveTo inp) (p_effectiveTo p)\<rparr>))) (\<lambda>updated.
     seq (record_audit \<lparr>e_actor = act, e_tenantId = p_tenantId updated,
            e_action = ''PRICING_UPDATED'', e_entityType = ''ai_model_pricing'',
            e_entityId = Some i, e_reason = None\<rparr>)
     (return updated)))))"

section \<open>The row that applies\<close>

text \<open>
  The scope of a row for a request, as a rank: a tenant override beats a plan row, which
  beats a global one; rank 0 does not apply.
\<close>

definition rank_for :: "uuid option \<Rightarrow> TenantTier option \<Rightarrow> AiModelPricing \<Rightarrow> nat" where
  "rank_for tenantId planTier p =
     (case p_scope p of
        AiPricingScope.TENANT \<Rightarrow> if tenantId \<noteq> None \<and> p_tenantId p = tenantId then 3 else 0
      | AiPricingScope.PLAN \<Rightarrow> if planTier \<noteq> None \<and> p_planTier p = planTier then 2 else 0
      | AiPricingScope.GLOBAL \<Rightarrow> 1)"

lemma rank_for_iffs:
  "rank_for (Some u) k p = 3 \<longleftrightarrow> p_scope p = AiPricingScope.TENANT \<and> p_tenantId p = Some u"
  "rank_for t (Some j) p = 2 \<longleftrightarrow> p_scope p = AiPricingScope.PLAN \<and> p_planTier p = Some j"
  "rank_for t k p = 1 \<longleftrightarrow> p_scope p = AiPricingScope.GLOBAL"
  "rank_for None k p \<noteq> 3" "rank_for t None p \<noteq> 2" "rank_for t k p \<le> 3"
  by (auto simp: rank_for_def split: AiPricingScope.splits)

lemma select_pricing_rank:
  "select_pricing cs t k =
     (case find (\<lambda>p. rank_for t k p = 3) cs of Some p \<Rightarrow> Some p
      | None \<Rightarrow> (case find (\<lambda>p. rank_for t k p = 2) cs of Some p \<Rightarrow> Some p
      | None \<Rightarrow> find (\<lambda>p. rank_for t k p = 1) cs))"
proof -
  have "find (\<lambda>_. False) cs = None" by (simp add: find_None_iff)
  then have "(case t of None \<Rightarrow> None | Some u \<Rightarrow> find (\<lambda>p. p_scope p = AiPricingScope.TENANT \<and> p_tenantId p = Some u) cs)
      = find (\<lambda>p. rank_for t k p = 3) cs"
    "(case k of None \<Rightarrow> None | Some j \<Rightarrow> find (\<lambda>p. p_scope p = AiPricingScope.PLAN \<and> p_planTier p = Some j) cs)
      = find (\<lambda>p. rank_for t k p = 2) cs"
    by (simp_all add: rank_for_iffs split: option.split)
  then show ?thesis by (simp only: select_pricing_def rank_for_iffs)
qed

lemma set_candidates: "set (candidates m now rows) = {p \<in> set rows. effective_at m now p}"
  by (auto simp: candidates_def)

lemma find_Some_newest:
  assumes "find P (candidates m now rows) = Some p"
  shows "p \<in> set (candidates m now rows)" "P p"
    "\<And>q. q \<in> set (candidates m now rows) \<Longrightarrow> P q \<Longrightarrow> p_effectiveFrom q \<le> p_effectiveFrom p"
proof -
  have "find P xs = Some p \<Longrightarrow> sorted (map (\<lambda>p. - p_effectiveFrom p) xs) \<Longrightarrow>
      p \<in> set xs \<and> P p \<and> (\<forall>q \<in> set xs. P q \<longrightarrow> p_effectiveFrom q \<le> p_effectiveFrom p)" for xs
    by (induction xs) (auto split: if_splits)
  from this [OF assms] show "p \<in> set (candidates m now rows)" "P p"
    "\<And>q. q \<in> set (candidates m now rows) \<Longrightarrow> P q \<Longrightarrow> p_effectiveFrom q \<le> p_effectiveFrom p"
    by (simp_all add: candidates_def)
qed

lemma select_pricing_Some:
  assumes "select_pricing (candidates m now rows) t k = Some p"
  shows "p \<in> set rows" "effective_at m now p" "0 < rank_for t k p"
    "\<And>q. q \<in> set rows \<Longrightarrow> effective_at m now q \<Longrightarrow> rank_for t k q < rank_for t k p \<or>
       rank_for t k q = rank_for t k p \<and> p_effectiveFrom q \<le> p_effectiveFrom p"
proof -
  have rank: "rank_for t k q \<in> {0, 1, 2, 3}" for q
    by (auto simp: rank_for_def split: AiPricingScope.splits)
  obtain n where n: "find (\<lambda>p. rank_for t k p = n) (candidates m now rows) = Some p" "n \<in> {1, 2, 3}"
    and none: "\<And>j. j \<in> {2, 3} \<Longrightarrow> n < j \<Longrightarrow> find (\<lambda>p. rank_for t k p = j) (candidates m now rows) = None"
  proof (cases "find (\<lambda>p. rank_for t k p = 3) (candidates m now rows)")
    case (Some x)
    with assms show ?thesis by (intro that [of 3]) (auto simp: select_pricing_rank)
  next
    case no3: None
    show ?thesis
    proof (cases "find (\<lambda>p. rank_for t k p = 2) (candidates m now rows)")
      case (Some x)
      with assms no3 show ?thesis by (intro that [of 2]) (auto simp: select_pricing_rank)
    next
      case None
      with assms no3 show ?thesis by (intro that [of 1]) (auto simp: select_pricing_rank)
    qed
  qed
  note best = find_Some_newest [OF n(1)]
  show "p \<in> set rows" "effective_at m now p" "0 < rank_for t k p"
    using best n(2) by (auto simp: set_candidates)
  fix q assume q: "q \<in> set rows" "effective_at m now q"
  then have mem: "q \<in> set (candidates m now rows)" by (simp add: set_candidates)
  have "rank_for t k q \<le> n"
    using none [of "rank_for t k q"] rank [of q] mem n(2) by (force simp: find_None_iff)
  with best(2) best(3) [OF mem] show "rank_for t k q < rank_for t k p \<or>
      rank_for t k q = rank_for t k p \<and> p_effectiveFrom q \<le> p_effectiveFrom p" by auto
qed

lemma select_pricing_None:
  "select_pricing (candidates m now rows) t k = None \<longleftrightarrow>
     (\<forall>q \<in> set rows. effective_at m now q \<longrightarrow> rank_for t k q = 0)"
proof -
  have rank: "rank_for t k q = 0 \<longleftrightarrow> rank_for t k q \<noteq> 3 \<and> rank_for t k q \<noteq> 2 \<and> rank_for t k q \<noteq> 1" for q
    by (auto simp: rank_for_def split: AiPricingScope.splits)
  have "select_pricing (candidates m now rows) t k = None \<longleftrightarrow>
     (\<forall>q \<in> set (candidates m now rows). rank_for t k q \<noteq> 3 \<and> rank_for t k q \<noteq> 2 \<and> rank_for t k q \<noteq> 1)"
    by (auto simp: select_pricing_rank find_None_iff dest: find_in split: option.splits)
  then show ?thesis using rank by (auto simp: set_candidates)
qed

section \<open>Charges\<close>

definition prices_nonneg :: "AiModelPricing \<Rightarrow> bool" where
  "prices_nonneg p \<longleftrightarrow>
     0 \<le> p_providerInputCost p \<and> 0 \<le> p_providerOutputCost p \<and> 0 \<le> p_providerCachedInputCost p \<and>
     0 \<le> p_providerReasoningCost p \<and> 0 \<le> p_providerEmbeddingCost p \<and> 0 \<le> p_providerImageCost p \<and>
     0 \<le> p_customerInputPrice p \<and> 0 \<le> p_customerOutputPrice p \<and> 0 \<le> p_customerCachedInputPrice p \<and>
     0 \<le> p_customerReasoningPrice p \<and> 0 \<le> p_customerEmbeddingPrice p \<and> 0 \<le> p_customerImagePrice p"

lemma perMillion_mono: "orElse a 0 \<le> orElse b 0 \<Longrightarrow> 0 \<le> r \<Longrightarrow> perMillion a r \<le> perMillion b r"
  by (simp add: perMillion_def MILLION_def mult_right_mono divide_right_mono)

lemma perMillion_nonneg: "0 \<le> orElse a 0 \<Longrightarrow> 0 \<le> r \<Longrightarrow> 0 \<le> perMillion a r"
  by (simp add: perMillion_def MILLION_def)

lemma perMillion_None [simp]: "perMillion None r = 0" "perUnit None r = 0"
  by (simp_all add: perMillion_def perUnit_def)

text \<open>The margin is what is left of the charge after the cost.\<close>

lemma computeCost_margin: "cb_customerCharge (computeCost p u) = cb_providerCost (computeCost p u) + cb_margin (computeCost p u)"
  by (simp add: computeCost_def Let_def)

text \<open>Price rows stay non-negative under \<open>update\<close>, whatever is sent.\<close>

lemma put_price_nonneg: "prices_nonneg p \<Longrightarrow> 0 \<le> x \<Longrightarrow> prices_nonneg (put_price k x p)"
  by (cases k) (simp_all add: prices_nonneg_def)

lemma put_price_id [simp]: "p_id (put_price k x p) = p_id p"
  by (cases k) simp_all

lemma numericPatch_nonneg:
  assumes "\<And>x. 0 \<le> x \<Longrightarrow> 0 \<le> dec x"
  shows "numericPatch dec prices ks = Inr f \<Longrightarrow> \<forall>p. prices_nonneg p \<longrightarrow> prices_nonneg (f p)"
  using assms
  by (induction ks arbitrary: f) (auto simp: not_less put_price_nonneg split: option.splits if_splits sum.splits)

definition pricings_ok :: "billing \<Rightarrow> bool" where
  "pricings_ok s \<longleftrightarrow> (\<forall>p \<in> set (pricings s). prices_nonneg p)"

lemma keeps_updatePricing:
  assumes "\<And>x. 0 \<le> x \<Longrightarrow> 0 \<le> dec x"
  shows "keeps pricings_ok (updatePricing dec i inp act)"
proof -
  have audit: "ignores_audits pricings_ok"
    by (simp add: ignores_audits_def pricings_ok_def)
  have stored: "keeps pricings_ok (update_pricing i (\<lambda>p. f (p\<lparr>p_status := a p, p_effectiveFrom := b p, p_effectiveTo := c p\<rparr>)))"
    if "\<And>p. prices_nonneg p \<Longrightarrow> prices_nonneg (f p)" for f a b c
  proof -
    have "prices_nonneg (f (p\<lparr>p_status := a p, p_effectiveFrom := b p, p_effectiveTo := c p\<rparr>))"
      if "prices_nonneg p" for p
      using that \<open>\<And>p. prices_nonneg p \<Longrightarrow> prices_nonneg (f p)\<close> by (simp add: prices_nonneg_def)
    then show ?thesis
      by (auto simp: keeps_def update_pricing_def pricings_ok_def in_set_row split: option.splits)
  qed
  show ?thesis
    unfolding updatePricing_def
    by (intro keeps_bind_lift keeps_bind [OF keeps_gets] keeps_seq keeps_throwIf keeps_bind [OF stored]
        keeps_record_audit [OF audit] keeps_return)
      (use numericPatch_nonneg [of dec] assms in auto)
qed

end
