(* ===== verification/Access.thy ===== *)
theory Access
  imports Wallet Pricing
begin

text \<open>
  \<open>access.service.ts\<close>: access governance.  A policy row may exist for a user, a tenant and
  a plan tier; every field is taken from the most specific row that sets it.  The gate
  \<open>assertAccess\<close> runs before credits are reserved.
\<close>

section \<open>The effective policy\<close>

datatype policy_field = Status | AllowedModelCodes | DailyRequestLimit | MonthlyRequestLimit
  | MaxQueryCost | MaxDailySpend | MaxMonthlySpend

record EffectivePolicy =
  ep_status :: AiAccessStatus
  ep_allowedModelCodes :: "string list option"
  ep_dailyRequestLimit :: "int option"
  ep_monthlyRequestLimit :: "int option"
  ep_maxQueryCost :: "rat option"
  ep_maxDailySpend :: "rat option"
  ep_maxMonthlySpend :: "rat option"
  ep_sources :: "policy_field \<Rightarrow> AiAccessScope option"

type_synonym policy_chain = "(AiAccessScope \<times> AiAccessPolicy option) list"

definition default_policy :: EffectivePolicy where
  "default_policy =
     \<lparr>ep_status = AiAccessStatus.ENABLED, ep_allowedModelCodes = None, ep_dailyRequestLimit = None,
      ep_monthlyRequestLimit = None, ep_maxQueryCost = None, ep_maxDailySpend = None,
      ep_maxMonthlySpend = None, ep_sources = (\<lambda>_. None)\<rparr>"

text \<open>\<open>pick\<close>: the first row of the chain whose field is set writes the value and its source.\<close>

fun pick :: "policy_field \<Rightarrow> ('v option \<Rightarrow> EffectivePolicy \<Rightarrow> EffectivePolicy) \<Rightarrow> (AiAccessPolicy \<Rightarrow> 'v option) \<Rightarrow>
    policy_chain \<Rightarrow> EffectivePolicy \<Rightarrow> EffectivePolicy" where
  "pick field put get [] ep = ep"
| "pick field put get ((scope, row) # chain) ep =
     (case row of
        None \<Rightarrow> pick field put get chain ep
      | Some r \<Rightarrow> (case get r of
          None \<Rightarrow> pick field put get chain ep
        | Some v \<Rightarrow> (put (Some v) ep)\<lparr>ep_sources := (ep_sources ep)(field := Some scope)\<rparr>))"

text \<open>The status of the most specific row that exists, even when it is ENABLED.\<close>

fun pick_status :: "policy_chain \<Rightarrow> EffectivePolicy \<Rightarrow> EffectivePolicy" where
  "pick_status [] ep = ep"
| "pick_status ((scope, row) # chain) ep =
     (case row of
        None \<Rightarrow> pick_status chain ep
      | Some r \<Rightarrow> ep\<lparr>ep_status := y_status r, ep_sources := (ep_sources ep)(Status := Some scope)\<rparr>)"

definition policy_chain_of :: "uuid \<Rightarrow> uuid option \<Rightarrow> TenantTier option \<Rightarrow> AiAccessPolicy list \<Rightarrow> policy_chain" where
  "policy_chain_of tenantId userId planTier rows =
     [(AiAccessScope.USER, case userId of None \<Rightarrow> None
        | Some u \<Rightarrow> find (\<lambda>r. y_scope r = AiAccessScope.USER \<and> y_userId r = Some u) rows),
      (AiAccessScope.TENANT, find (\<lambda>r. y_scope r = AiAccessScope.TENANT \<and> y_tenantId r = Some tenantId) rows),
      (AiAccessScope.PLAN, case planTier of None \<Rightarrow> None
        | Some k \<Rightarrow> find (\<lambda>r. y_scope r = AiAccessScope.PLAN \<and> y_planTier r = Some k) rows)]"

definition effective_policy :: "policy_chain \<Rightarrow> EffectivePolicy" where
  "effective_policy chain =
     pick MaxMonthlySpend (\<lambda>v p. p\<lparr>ep_maxMonthlySpend := v\<rparr>) y_maxMonthlySpend chain
    (pick MaxDailySpend (\<lambda>v p. p\<lparr>ep_maxDailySpend := v\<rparr>) y_maxDailySpend chain
    (pick MaxQueryCost (\<lambda>v p. p\<lparr>ep_maxQueryCost := v\<rparr>) y_maxQueryCost chain
    (pick MonthlyRequestLimit (\<lambda>v p. p\<lparr>ep_monthlyRequestLimit := v\<rparr>) y_monthlyRequestLimit chain
    (pick DailyRequestLimit (\<lambda>v p. p\<lparr>ep_dailyRequestLimit := v\<rparr>) y_dailyRequestLimit chain
    (pick AllowedModelCodes (\<lambda>v p. p\<lparr>ep_allowedModelCodes := v\<rparr>) y_allowedModelCodes chain
    (pick_status chain default_policy))))))"

definition getEffectivePolicy :: "uuid \<Rightarrow> uuid option \<Rightarrow> TenantTier option \<Rightarrow> EffectivePolicy billing_prog" where
  "getEffectivePolicy tenantId userId planTier =
     gets (\<lambda>s. effective_policy (policy_chain_of tenantId userId planTier (policies s)))"

definition tenantTier :: "uuid \<Rightarrow> TenantTier option billing_prog" where
  "tenantTier tenantId = gets (\<lambda>s. map_of (tiers s) tenantId)"

definition getEffectivePolicyForUser :: "uuid \<Rightarrow> uuid option \<Rightarrow> EffectivePolicy billing_prog" where
  "getEffectivePolicyForUser tenantId userId =
     bind (tenantTier tenantId) (\<lambda>tier. getEffectivePolicy tenantId userId tier)"

section \<open>The gate\<close>

text \<open>Requests and spend since an instant: the tenant's, or one user's when a user is given.\<close>

definition usage_rows :: "uuid \<Rightarrow> uuid option \<Rightarrow> timestamp \<Rightarrow> AiUsageLog list \<Rightarrow> AiUsageLog list" where
  "usage_rows tenantId userId since rows = filter (\<lambda>u. u_tenantId u = tenantId \<and> since \<le> u_createdAt u \<and>
     u_status u \<noteq> AiUsageBillingStatus.UNBILLED \<and>
     (case userId of None \<Rightarrow> True | Some i \<Rightarrow> u_userId u = Some i)) rows"

definition usageSince :: "uuid \<Rightarrow> uuid option \<Rightarrow> timestamp \<Rightarrow> (int \<times> rat) billing_prog" where
  "usageSince tenantId userId since = gets (\<lambda>s.
     let rows = usage_rows tenantId userId since (usageLogs s)
     in (int (length rows), sum_list (map u_customerCharge rows)))"

definition monthToDateSpend :: "uuid \<Rightarrow> rat billing_prog" where
  "monthToDateSpend tenantId =
     bind (gets clock) (\<lambda>now.
     bind (usageSince tenantId None (startOfMonth now)) (\<lambda>(requests, spend). return spend))"

record access_input =
  ai_tenantId :: uuid
  ai_userId :: "uuid option"
  ai_planTier :: "TenantTier option"
  ai_modelCode :: string
  ai_estimatedCharge :: rat

definition exceeds :: "('a \<Rightarrow> 'u \<Rightarrow> bool) \<Rightarrow> 'a option \<Rightarrow> 'u option \<Rightarrow> bool" where
  "exceeds over limit usage = (case (limit, usage) of (Some l, Some u) \<Rightarrow> over l u | _ \<Rightarrow> False)"

text \<open>The limits on the usage of the day and of the month (lines 133 to 152).\<close>

definition assertUsage :: "access_input \<Rightarrow> EffectivePolicy \<Rightarrow> unit billing_prog" where
  "assertUsage inp policy =
     (let needsDaily = ep_dailyRequestLimit policy \<noteq> None \<or> ep_maxDailySpend policy \<noteq> None;
          needsMonthly = ep_monthlyRequestLimit policy \<noteq> None \<or> ep_maxMonthlySpend policy \<noteq> None;
          usage = (\<lambda>needed since. if needed
             then bind (usageSince (ai_tenantId inp) (ai_userId inp) since) (\<lambda>u. return (Some u))
             else return None)
      in if needsDaily \<or> needsMonthly
         then bind (gets clock) (\<lambda>now.
              bind (usage needsDaily (startOfDay now)) (\<lambda>daily.
              bind (usage needsMonthly (startOfMonth now)) (\<lambda>monthly.
              seq (throwIf (exceeds (\<lambda>l u. l \<le> fst u) (ep_dailyRequestLimit policy) daily) SpendLimitExceededError)
             (seq (throwIf (exceeds (\<lambda>l u. l \<le> fst u) (ep_monthlyRequestLimit policy) monthly) SpendLimitExceededError)
             (seq (throwIf (exceeds (\<lambda>l u. l < snd u + ai_estimatedCharge inp) (ep_maxDailySpend policy) daily)
                    SpendLimitExceededError)
                  (throwIf (exceeds (\<lambda>l u. l < snd u + ai_estimatedCharge inp) (ep_maxMonthlySpend policy) monthly)
                    SpendLimitExceededError))))))
         else return ())"

definition assertAccess :: "access_input \<Rightarrow> EffectivePolicy billing_prog" where
  "assertAccess inp =
     bind (getEffectivePolicy (ai_tenantId inp) (ai_userId inp) (ai_planTier inp)) (\<lambda>policy.
     seq (throwIf (ep_status policy = AiAccessStatus.DISABLED) (AiAccessDeniedError ''AI_ACCESS_DISABLED''))
    (seq (throwIf (ep_status policy = AiAccessStatus.SUSPENDED) (AiAccessDeniedError ''AI_ACCESS_SUSPENDED''))
    (seq (throwIf (case ep_allowedModelCodes policy of None \<Rightarrow> False
            | Some codes \<Rightarrow> ai_modelCode inp \<notin> set codes) (AiAccessDeniedError ''AI_MODEL_NOT_ALLOWED''))
    (seq (throwIf (case ep_maxQueryCost policy of None \<Rightarrow> False
            | Some limit \<Rightarrow> limit < ai_estimatedCharge inp) SpendLimitExceededError)
    (seq (assertUsage inp policy)
    (return policy))))))"

section \<open>Policy rows\<close>

record AccessPolicyUpsert =
  au_scope :: AiAccessScope
  au_tenantId :: "uuid option"
  au_userId :: "uuid option"
  au_planTier :: "TenantTier option"
  au_status :: "AiAccessStatus option"
  au_allowedModelCodes :: "string list option patch"
  au_dailyRequestLimit :: "int option patch"
  au_monthlyRequestLimit :: "int option patch"
  au_maxQueryCost :: "rat option patch"
  au_maxDailySpend :: "rat option patch"
  au_maxMonthlySpend :: "rat option patch"
  au_notes :: "string option patch"

definition validateScopeKey :: "AccessPolicyUpsert \<Rightarrow> unit billing_prog" where
  "validateScopeKey inp =
     seq (throwIf (au_scope inp = AiAccessScope.USER \<and> au_userId inp = None) BillingValidationError)
    (seq (throwIf (au_scope inp = AiAccessScope.TENANT \<and> au_tenantId inp = None) BillingValidationError)
         (throwIf (au_scope inp = AiAccessScope.PLAN \<and> au_planTier inp = None) BillingValidationError))"

definition scopeWhere :: "AccessPolicyUpsert \<Rightarrow> AiAccessPolicy \<Rightarrow> bool" where
  "scopeWhere inp r \<longleftrightarrow> y_scope r = au_scope inp \<and>
     (case au_scope inp of
        AiAccessScope.USER \<Rightarrow> y_userId r = au_userId inp
      | AiAccessScope.TENANT \<Rightarrow> y_tenantId r = au_tenantId inp
      | AiAccessScope.PLAN \<Rightarrow> y_planTier r = au_planTier inp)"

text \<open>\<open>input !== undefined ? input : before?.field ?? null\<close>\<close>

fun patched :: "'v option patch \<Rightarrow> ('r \<Rightarrow> 'v option) \<Rightarrow> 'r option \<Rightarrow> 'v option" where
  "patched (Value v) get before = v"
| "patched Undefined get before = (case before of None \<Rightarrow> None | Some r \<Rightarrow> get r)"

definition policy_data :: "(rat \<Rightarrow> rat) \<Rightarrow> AccessPolicyUpsert \<Rightarrow> AiAccessPolicy option \<Rightarrow> AiAccessPolicy \<Rightarrow> AiAccessPolicy" where
  "policy_data dec inp before r =
     r\<lparr>y_status := orElse (au_status inp) AiAccessStatus.ENABLED,
       y_allowedModelCodes := patched (au_allowedModelCodes inp) y_allowedModelCodes before,
       y_dailyRequestLimit := patched (au_dailyRequestLimit inp) y_dailyRequestLimit before,
       y_monthlyRequestLimit := patched (au_monthlyRequestLimit inp) y_monthlyRequestLimit before,
       y_maxQueryCost := map_option dec (patched (au_maxQueryCost inp) y_maxQueryCost before),
       y_maxDailySpend := map_option dec (patched (au_maxDailySpend inp) y_maxDailySpend before),
       y_maxMonthlySpend := map_option dec (patched (au_maxMonthlySpend inp) y_maxMonthlySpend before),
       y_notes := patched (au_notes inp) y_notes before\<rparr>"

definition new_policy :: "AccessPolicyUpsert \<Rightarrow> uuid option \<Rightarrow> uuid \<Rightarrow> AiAccessPolicy" where
  "new_policy inp createdBy i =
     \<lparr>y_id = i, y_scope = au_scope inp,
      y_tenantId = (if au_scope inp \<noteq> AiAccessScope.PLAN then au_tenantId inp else None),
      y_userId = (if au_scope inp = AiAccessScope.USER then au_userId inp else None),
      y_planTier = (if au_scope inp = AiAccessScope.PLAN then au_planTier inp else None),
      y_status = AiAccessStatus.ENABLED, y_allowedModelCodes = None, y_dailyRequestLimit = None,
      y_monthlyRequestLimit = None, y_maxQueryCost = None, y_maxDailySpend = None,
      y_maxMonthlySpend = None, y_notes = None, y_createdById = createdBy\<rparr>"

definition upsertPolicy :: "(rat \<Rightarrow> rat) \<Rightarrow> AccessPolicyUpsert \<Rightarrow> actor \<Rightarrow> AiAccessPolicy billing_prog" where
  "upsertPolicy dec inp act =
     seq (validateScopeKey inp)
    (bind (gets (\<lambda>s. find (scopeWhere inp) (policies s))) (\<lambda>before.
     bind (case before of
        Some b \<Rightarrow> update_policy (y_id b) (policy_data dec inp before)
      | None \<Rightarrow> create_policy (\<lambda>i. policy_data dec inp before (new_policy inp (actor_id act) i))) (\<lambda>saved.
     seq (record_audit \<lparr>e_actor = act, e_tenantId = y_tenantId saved,
            e_action = (if before = None then ''ACCESS_POLICY_CREATED'' else ''ACCESS_POLICY_UPDATED''),
            e_entityType = ''ai_access_policy'', e_entityId = Some (y_id saved), e_reason = None\<rparr>)
     (return saved))))"

definition deletePolicy :: "uuid \<Rightarrow> actor \<Rightarrow> bool billing_prog" where
  "deletePolicy i act =
     bind (gets (\<lambda>s. find_by y_id i (policies s))) (\<lambda>before.
     case before of
       None \<Rightarrow> return False
     | Some b \<Rightarrow>
         seq (modify (\<lambda>s. s\<lparr>policies := filter (\<lambda>r. y_id r \<noteq> i) (policies s)\<rparr>))
        (seq (record_audit \<lparr>e_actor = act, e_tenantId = y_tenantId b,
                e_action = ''ACCESS_POLICY_DELETED'', e_entityType = ''ai_access_policy'',
                e_entityId = Some i, e_reason = None\<rparr>)
         (return True)))"

section \<open>What the effective policy is\<close>

text \<open>The first value of a chain.\<close>

definition first_set :: "(AiAccessPolicy \<Rightarrow> 'v option) \<Rightarrow> policy_chain \<Rightarrow> 'v option" where
  "first_set get chain = (case List.map_filter (\<lambda>(scope, row). Option.bind row get) chain of [] \<Rightarrow> None | v # _ \<Rightarrow> Some v)"

lemma first_set_simps [simp]:
  "first_set get [] = None"
  "first_set get ((scope, None) # chain) = first_set get chain"
  "first_set get ((scope, Some r) # chain) = (case get r of None \<Rightarrow> first_set get chain | Some v \<Rightarrow> Some v)"
  by (simp_all add: first_set_def map_filter_simps split: option.split)

lemma pick_frame:
  assumes "\<And>v p. g (put v p) = g p" "\<And>f p. g (p\<lparr>ep_sources := f\<rparr>) = g p"
  shows "g (pick field put get chain ep) = g ep"
  by (induction chain) (auto simp: assms split: option.splits)

lemma pick_value:
  assumes "\<And>v p. g (put v p) = v" "\<And>f p. g (p\<lparr>ep_sources := f\<rparr>) = g p" "g ep = None"
  shows "g (pick field put get chain ep) = first_set get chain"
  using assms(3)
  by (induction chain) (auto simp: assms(1,2) split: option.splits)

definition status_of_chain :: "policy_chain \<Rightarrow> AiAccessStatus" where
  "status_of_chain chain = (case first_set (\<lambda>r. Some (y_status r)) chain of None \<Rightarrow> AiAccessStatus.ENABLED | Some x \<Rightarrow> x)"

lemma pick_status_value: "ep_status (pick_status chain ep) =
    (case first_set (\<lambda>r. Some (y_status r)) chain of None \<Rightarrow> ep_status ep | Some x \<Rightarrow> x)"
  by (induction chain) (auto split: option.splits)

lemma pick_status_frame:
  "ep_allowedModelCodes (pick_status chain ep) = ep_allowedModelCodes ep"
  "ep_dailyRequestLimit (pick_status chain ep) = ep_dailyRequestLimit ep"
  "ep_monthlyRequestLimit (pick_status chain ep) = ep_monthlyRequestLimit ep"
  "ep_maxQueryCost (pick_status chain ep) = ep_maxQueryCost ep"
  "ep_maxDailySpend (pick_status chain ep) = ep_maxDailySpend ep"
  "ep_maxMonthlySpend (pick_status chain ep) = ep_maxMonthlySpend ep"
  by (induction chain; auto split: option.splits)+

text \<open>Every field is the first one set on the chain.\<close>

lemma effective_policy_fields [simp]:
  "ep_status (effective_policy chain) = status_of_chain chain"
  "ep_allowedModelCodes (effective_policy chain) = first_set y_allowedModelCodes chain"
  "ep_dailyRequestLimit (effective_policy chain) = first_set y_dailyRequestLimit chain"
  "ep_monthlyRequestLimit (effective_policy chain) = first_set y_monthlyRequestLimit chain"
  "ep_maxQueryCost (effective_policy chain) = first_set y_maxQueryCost chain"
  "ep_maxDailySpend (effective_policy chain) = first_set y_maxDailySpend chain"
  "ep_maxMonthlySpend (effective_policy chain) = first_set y_maxMonthlySpend chain"
  by (simp_all add: effective_policy_def pick_frame pick_value pick_status_value pick_status_frame
      default_policy_def status_of_chain_def cong: option.case_cong)

section \<open>When the gate opens\<close>

text \<open>
  \<open>admits s inp\<close>: the request is within every limit of its effective policy, with the usage
  recorded so far in the day and the month.
\<close>

definition day_usage :: "billing \<Rightarrow> access_input \<Rightarrow> AiUsageLog list" where
  "day_usage s inp = usage_rows (ai_tenantId inp) (ai_userId inp) (startOfDay (clock s)) (usageLogs s)"

definition month_usage :: "billing \<Rightarrow> access_input \<Rightarrow> AiUsageLog list" where
  "month_usage s inp = usage_rows (ai_tenantId inp) (ai_userId inp) (startOfMonth (clock s)) (usageLogs s)"

definition within_usage :: "billing \<Rightarrow> access_input \<Rightarrow> EffectivePolicy \<Rightarrow> bool" where
  "within_usage s inp policy \<longleftrightarrow>
     (\<forall>n. ep_dailyRequestLimit policy = Some n \<longrightarrow> int (length (day_usage s inp)) < n) \<and>
     (\<forall>n. ep_monthlyRequestLimit policy = Some n \<longrightarrow> int (length (month_usage s inp)) < n) \<and>
     (\<forall>l. ep_maxDailySpend policy = Some l \<longrightarrow>
        sum_list (map u_customerCharge (day_usage s inp)) + ai_estimatedCharge inp \<le> l) \<and>
     (\<forall>l. ep_maxMonthlySpend policy = Some l \<longrightarrow>
        sum_list (map u_customerCharge (month_usage s inp)) + ai_estimatedCharge inp \<le> l)"

definition admits :: "billing \<Rightarrow> access_input \<Rightarrow> bool" where
  "admits s inp \<longleftrightarrow>
     (let c = policy_chain_of (ai_tenantId inp) (ai_userId inp) (ai_planTier inp) (policies s) in
      status_of_chain c = AiAccessStatus.ENABLED \<and>
      (\<forall>codes. first_set y_allowedModelCodes c = Some codes \<longrightarrow> ai_modelCode inp \<in> set codes) \<and>
      (\<forall>l. first_set y_maxQueryCost c = Some l \<longrightarrow> ai_estimatedCharge inp \<le> l) \<and>
      within_usage s inp (effective_policy c))"

lemma exceeds_simps [simp]:
  "exceeds over limit None \<longleftrightarrow> False" "exceeds over None usage \<longleftrightarrow> False"
  "exceeds over limit (Some u) \<longleftrightarrow> (\<exists>l. limit = Some l \<and> over l u)"
  by (auto simp: exceeds_def split: option.splits)

lemma if_distribR: "(if b then f else g) s = (if b then f s else g s)"
  by simp

lemma seq_throwIf: "seq (throwIf b e) m s = (if b then (Inl e, s) else m s)"
  by (simp add: run_seq run_simps)

lemma bind_gets: "bind (gets f) k s = k (f s) s"
  by (simp add: run_bind run_simps)

lemma assertUsage_run:
  "assertUsage inp policy s =
     (if within_usage s inp policy
      then (Inr (), s) else (Inl SpendLimitExceededError, s))"
proof -
  have usage: "bind (if needed then bind (usageSince tenant user since) (\<lambda>u. return (Some u)) else return None) k s =
      k (if needed then Some (int (length (usage_rows tenant user since (usageLogs s))),
        sum_list (map u_customerCharge (usage_rows tenant user since (usageLogs s)))) else None) s"
    for needed tenant user since and k :: "(int \<times> rat) option \<Rightarrow> unit billing_prog"
    by (simp add: usageSince_def run_bind run_simps Let_def)
  have needed: "exceeds over a (if a \<noteq> None \<or> b \<noteq> None then Some u else None) \<longleftrightarrow> (\<exists>l. a = Some l \<and> over l u)"
    "exceeds over a (if b \<noteq> None \<or> a \<noteq> None then Some u else None) \<longleftrightarrow> (\<exists>l. a = Some l \<and> over l u)"
    for over :: "'a \<Rightarrow> int \<times> rat \<Rightarrow> bool" and a and b :: "'b option" and u
    by (cases a; simp)+
  let ?needed = "(ep_dailyRequestLimit policy \<noteq> None \<or> ep_maxDailySpend policy \<noteq> None) \<or>
     ep_monthlyRequestLimit policy \<noteq> None \<or> ep_maxMonthlySpend policy \<noteq> None"
  have run: "assertUsage inp policy s = (if ?needed then
     (if \<exists>l. ep_dailyRequestLimit policy = Some l \<and> l \<le> int (length (day_usage s inp)) then (Inl SpendLimitExceededError, s)
      else if \<exists>l. ep_monthlyRequestLimit policy = Some l \<and> l \<le> int (length (month_usage s inp)) then (Inl SpendLimitExceededError, s)
      else if \<exists>l. ep_maxDailySpend policy = Some l \<and>
        l < sum_list (map u_customerCharge (day_usage s inp)) + ai_estimatedCharge inp then (Inl SpendLimitExceededError, s)
      else if \<exists>l. ep_maxMonthlySpend policy = Some l \<and>
        l < sum_list (map u_customerCharge (month_usage s inp)) + ai_estimatedCharge inp then (Inl SpendLimitExceededError, s)
      else (Inr (), s)) else (Inr (), s))"
    unfolding assertUsage_def Let_def
    by (simp only: if_distribR bind_gets usage needed seq_throwIf run_throwIf run_return day_usage_def
        month_usage_def fst_conv snd_conv if_cancel) (simp only: if_distrib [of "\<lambda>x. (x, s)"])
  have flip: "(\<forall>n. limit = Some n \<longrightarrow> x < n) \<longleftrightarrow> \<not> (\<exists>n. limit = Some n \<and> n \<le> x)"
    "(\<forall>n. limit = Some n \<longrightarrow> x \<le> n) \<longleftrightarrow> \<not> (\<exists>n. limit = Some n \<and> n < x)"
    for limit :: "('a :: linorder) option" and x
    by (auto simp: not_le not_less)
  show ?thesis
  proof (cases ?needed)
    case True
    then show ?thesis by (simp only: run within_usage_def flip if_True) (simp split: if_split)
  next
    case False
    then show ?thesis by (simp add: run within_usage_def)
  qed
qed

lemma assertAccess_run:
  "assertAccess inp s =
     (let c = policy_chain_of (ai_tenantId inp) (ai_userId inp) (ai_planTier inp) (policies s) in
      if status_of_chain c = AiAccessStatus.DISABLED then (Inl (AiAccessDeniedError ''AI_ACCESS_DISABLED''), s)
      else if status_of_chain c = AiAccessStatus.SUSPENDED then (Inl (AiAccessDeniedError ''AI_ACCESS_SUSPENDED''), s)
      else if \<not> (case first_set y_allowedModelCodes c of None \<Rightarrow> True | Some codes \<Rightarrow> ai_modelCode inp \<in> set codes)
      then (Inl (AiAccessDeniedError ''AI_MODEL_NOT_ALLOWED''), s)
      else if admits s inp then (Inr (effective_policy c), s) else (Inl SpendLimitExceededError, s))"
proof -
  define c where "c = policy_chain_of (ai_tenantId inp) (ai_userId inp) (ai_planTier inp) (policies s)"
  have run: "assertAccess inp s =
     (if status_of_chain c = AiAccessStatus.DISABLED then (Inl (AiAccessDeniedError ''AI_ACCESS_DISABLED''), s)
      else if status_of_chain c = AiAccessStatus.SUSPENDED then (Inl (AiAccessDeniedError ''AI_ACCESS_SUSPENDED''), s)
      else if (case first_set y_allowedModelCodes c of None \<Rightarrow> False | Some codes \<Rightarrow> ai_modelCode inp \<notin> set codes)
      then (Inl (AiAccessDeniedError ''AI_MODEL_NOT_ALLOWED''), s)
      else if (case first_set y_maxQueryCost c of None \<Rightarrow> False | Some l \<Rightarrow> l < ai_estimatedCharge inp)
      then (Inl SpendLimitExceededError, s)
      else seq (assertUsage inp (effective_policy c)) (return (effective_policy c)) s)"
    by (simp add: assertAccess_def getEffectivePolicy_def bind_gets seq_throwIf c_def)
  have status: "status_of_chain c = AiAccessStatus.ENABLED \<longleftrightarrow>
      status_of_chain c \<noteq> AiAccessStatus.DISABLED \<and> status_of_chain c \<noteq> AiAccessStatus.SUSPENDED"
    by (cases "status_of_chain c") auto
  show ?thesis
    unfolding run admits_def Let_def c_def [symmetric]
    by (auto simp: status run_seq assertUsage_run run_simps split: option.split)
qed

lemma assertAccess_ok:
  "assertAccess inp s = (Inr p, t) \<longleftrightarrow> admits s inp \<and> t = s \<and>
     p = effective_policy (policy_chain_of (ai_tenantId inp) (ai_userId inp) (ai_planTier inp) (policies s))"
  by (auto simp: assertAccess_run admits_def Let_def split: if_splits option.splits)

lemma keeps_assertAccess [keeps_intros]: "keeps I (assertAccess inp)"
  by (auto simp: keeps_def assertAccess_run Let_def)

end
