(* ===== verification/Purchase.thy ===== *)
theory Purchase
  imports WalletService JsLib Access
begin

text \<open>
  \<open>purchase.service.ts\<close>: credit purchases by Stripe checkout and by reviewed bank transfer.
  The wallet service is a collaborator handed to the constructor, so the methods take its
  operation \<open>post\<close> (\<open>postTransaction\<close> inside the caller's transaction) as an argument; the
  Stripe API is outside the repository and is the argument \<open>createSession\<close>.
\<close>

section \<open>Stripe objects\<close>

record checkout_request =
  cr_amountCents :: int
  cr_currency :: string
  cr_customerEmail :: "string option"
  cr_purchaseId :: uuid
  cr_tenantId :: uuid
  cr_idempotencyKey :: uuid

record StripeCheckoutSession =
  cs_id :: string
  cs_url :: string

text \<open>
  The \<open>data.object\<close> of a checkout event; \<open>ss_amount_total\<close> is \<open>Number(amount_total)\<close>, so
  \<open>NonFinite\<close> when the field is missing.
\<close>

record stripe_session =
  ss_id :: "string option"
  ss_purchaseId :: "uuid option"
  ss_payment_status :: "string option"
  ss_amount_total :: jsnum
  ss_payment_intent :: "string option"

record StripeWebhookEvent =
  ev_id :: string
  ev_type :: string
  ev_object :: stripe_session

record billing_user =
  bu_id :: uuid
  bu_tenantId :: uuid
  bu_email :: "string option"

section \<open>Opening a purchase\<close>

definition MIN_PURCHASE :: rat where "MIN_PURCHASE = 1"
definition MAX_PURCHASE :: rat where "MAX_PURCHASE = 100000"

definition validateAmount :: "jsnum \<Rightarrow> unit billing_prog" where
  "validateAmount amount = throwIf (\<not> isFinite amount \<or> num_of amount < MIN_PURCHASE \<or>
     MAX_PURCHASE < num_of amount) BillingValidationError"

definition amount_cents :: "rat \<Rightarrow> int" where
  "amount_cents amount = math_round (amount * 100)"

text \<open>\<open>randomUUID()\<close>\<close>

definition randomUUID :: "uuid billing_prog" where
  "randomUUID = (\<lambda>s. (Inr (next_id s), s\<lparr>next_id := next_id s + 1\<rparr>))"

definition pending_purchase :: "(rat \<Rightarrow> rat) \<Rightarrow> billing_user \<Rightarrow> AiWallet \<Rightarrow> AiPurchaseMethod \<Rightarrow> rat \<Rightarrow>
    uuid option \<Rightarrow> string option \<Rightarrow> string option \<Rightarrow> uuid \<Rightarrow> timestamp \<Rightarrow> AiCreditPurchase" where
  "pending_purchase dec user w method amount idempotencyKey proofUrl proofNote i now =
     \<lparr>c_id = i, c_tenantId = bu_tenantId user, c_walletId = w_id w, c_userId = bu_id user,
      c_method = method, c_amount = dec amount, c_currency = w_currency w,
      c_status = AiPurchaseStatus.PENDING, c_idempotencyKey = idempotencyKey,
      c_stripeSessionId = None, c_stripePaymentIntentId = None, c_stripeEventId = None,
      c_proofUrl = proofUrl, c_proofNote = proofNote, c_reviewedById = None, c_reviewedAt = None,
      c_reviewNote = None, c_createdAt = now\<rparr>"

definition createStripeCheckout ::
    "(rat \<Rightarrow> rat) \<Rightarrow> bool \<Rightarrow> (checkout_request \<Rightarrow> billing_error + StripeCheckoutSession) \<Rightarrow>
     billing_user \<Rightarrow> jsnum \<Rightarrow> (uuid \<times> string) billing_prog" where
  "createStripeCheckout dec isConfigured createSession user amount =
     seq (validateAmount amount)
    (seq (throwIf (\<not> isConfigured) BillingValidationError)
    (bind (getOrCreateWallet (bu_tenantId user)) (\<lambda>w.
     bind randomUUID (\<lambda>key.
     bind (create_purchase (pending_purchase dec user w AiPurchaseMethod.STRIPE (num_of amount) (Some key) None None)) (\<lambda>purchase.
     bind (lift (createSession
       \<lparr>cr_amountCents = amount_cents (num_of amount), cr_currency = w_currency w,
        cr_customerEmail = bu_email user, cr_purchaseId = c_id purchase,
        cr_tenantId = bu_tenantId user, cr_idempotencyKey = key\<rparr>)) (\<lambda>session.
     seq (update_purchase (c_id purchase) (\<lambda>c. c\<lparr>c_stripeSessionId := Some (cs_id session)\<rparr>))
     (return (c_id purchase, cs_url session))))))))"

definition submitBankTransfer ::
    "(rat \<Rightarrow> rat) \<Rightarrow> billing_user \<Rightarrow> jsnum \<Rightarrow> string option \<Rightarrow> string option \<Rightarrow> AiCreditPurchase billing_prog" where
  "submitBankTransfer dec user amount proofUrl proofNote =
     seq (validateAmount amount)
    (seq (throwIf (\<not> truthy proofUrl \<and> \<not> truthy proofNote) BillingValidationError)
    (bind (getOrCreateWallet (bu_tenantId user)) (\<lambda>w.
     bind (create_purchase (pending_purchase dec user w AiPurchaseMethod.BANK_TRANSFER (num_of amount) None
             (map_option (take 1000) proofUrl) (map_option (take 2000) proofNote))) (\<lambda>purchase.
     seq (record_audit \<lparr>e_actor = system_actor\<lparr>actor_id := Some (bu_id user)\<rparr>,
            e_tenantId = Some (bu_tenantId user), e_action = ''BANK_TRANSFER_SUBMITTED'',
            e_entityType = ''ai_credit_purchase'', e_entityId = Some (c_id purchase), e_reason = None\<rparr>)
     (return purchase)))))"

section \<open>Completion: the only path that credits a wallet\<close>

record complete_context =
  cc_stripeEventId :: "string option"
  cc_stripePaymentIntentId :: "string option patch"
  cc_reviewedById :: "uuid option"
  cc_reviewNote :: "string option patch"
  cc_source :: string
  cc_actor :: "actor option"

definition completed_row :: "complete_context \<Rightarrow> timestamp \<Rightarrow> AiCreditPurchase \<Rightarrow> AiCreditPurchase" where
  "completed_row ctx now c =
     (let c1 = c\<lparr>c_status := AiPurchaseStatus.COMPLETED\<rparr>;
          c2 = (if truthy (cc_stripeEventId ctx) then c1\<lparr>c_stripeEventId := cc_stripeEventId ctx\<rparr> else c1);
          c3 = apply_patch (\<lambda>x c. c\<lparr>c_stripePaymentIntentId := x\<rparr>) (cc_stripePaymentIntentId ctx) c2;
          c4 = (if cc_reviewedById ctx \<noteq> None
                then c3\<lparr>c_reviewedById := cc_reviewedById ctx, c_reviewedAt := Some now\<rparr> else c3)
      in apply_patch (\<lambda>x c. c\<lparr>c_reviewNote := x\<rparr>) (cc_reviewNote ctx) c4)"

definition purchase_posting :: "AiCreditPurchase \<Rightarrow> complete_context \<Rightarrow> PostTransactionInput" where
  "purchase_posting purchase ctx =
     \<lparr>pi_tenantId = c_tenantId purchase, pi_type = AiLedgerType.PURCHASE, pi_amount = c_amount purchase,
      pi_createdById = Some (orElse (cc_reviewedById ctx) (c_userId purchase)),
      pi_notes = Some (if cc_source ctx = ''stripe_webhook'' then ''Stripe credit purchase''
                       else ''Bank transfer credit purchase''),
      pi_relatedEntityType = Some ''ai_credit_purchase'', pi_relatedEntityId = Some (c_id purchase),
      pi_allowNegativeBalance = False\<rparr>"

text \<open>The transaction: the purchase row is locked, so the status is checked on the locked row.\<close>

definition completeIn ::
    "(PostTransactionInput \<Rightarrow> AiWalletTransaction billing_prog) \<Rightarrow> uuid \<Rightarrow> complete_context \<Rightarrow>
     (AiCreditPurchase \<times> AiWalletTransaction option \<times> bool) billing_prog" where
  "completeIn post purchaseId ctx =
     transaction
      (bind (gets (\<lambda>s. find_by c_id purchaseId (purchases s))) (\<lambda>row.
       bind (orThrow BillingNotFoundError row) (\<lambda>purchase.
       if c_status purchase = AiPurchaseStatus.COMPLETED then return (purchase, None, True)
       else seq (throwIf (c_status purchase \<noteq> AiPurchaseStatus.PENDING) BillingValidationError)
           (bind (post (purchase_posting purchase ctx)) (\<lambda>transaction.
            bind (gets clock) (\<lambda>now.
            bind (update_purchase (c_id purchase) (completed_row ctx now)) (\<lambda>updated.
            return (updated, Some transaction, False))))))))"

definition completePurchase ::
    "(PostTransactionInput \<Rightarrow> AiWalletTransaction billing_prog) \<Rightarrow> uuid \<Rightarrow> complete_context \<Rightarrow> AiCreditPurchase billing_prog" where
  "completePurchase post purchaseId ctx =
     bind (completeIn post purchaseId ctx) (\<lambda>(purchase, transaction, alreadyCompleted).
     if alreadyCompleted then return purchase
     else seq (record_audit \<lparr>e_actor = orElse (cc_actor ctx) system_actor,
            e_tenantId = Some (c_tenantId purchase), e_action = ''PURCHASE_COMPLETED'',
            e_entityType = ''ai_credit_purchase'', e_entityId = Some (c_id purchase), e_reason = None\<rparr>)
         (return purchase))"

section \<open>Stripe events\<close>

definition findPurchaseForSession :: "stripe_session \<Rightarrow> AiCreditPurchase option billing_prog" where
  "findPurchaseForSession session = gets (\<lambda>s.
     case ss_purchaseId session of
       Some i \<Rightarrow> find_by c_id i (purchases s)
     | None \<Rightarrow> if truthy (ss_id session) then find_by c_stripeSessionId (ss_id session) (purchases s) else None)"

definition stripe_context :: "StripeWebhookEvent \<Rightarrow> complete_context" where
  "stripe_context event =
     \<lparr>cc_stripeEventId = Some (ev_id event),
      cc_stripePaymentIntentId = Value (ss_payment_intent (ev_object event)),
      cc_reviewedById = None, cc_reviewNote = Undefined, cc_source = ''stripe_webhook'', cc_actor = None\<rparr>"

text \<open>The value returned is \<open>handled\<close>.\<close>

definition handleStripeEvent ::
    "(PostTransactionInput \<Rightarrow> AiWalletTransaction billing_prog) \<Rightarrow> StripeWebhookEvent \<Rightarrow> bool billing_prog" where
  "handleStripeEvent post event =
     (let session = ev_object event in
      if ev_type event \<in> {''checkout.session.completed'', ''checkout.session.async_payment_succeeded''} then
        bind (findPurchaseForSession session) (\<lambda>found.
        case found of
          None \<Rightarrow> return False
        | Some purchase \<Rightarrow>
            if ev_type event = ''checkout.session.completed'' \<and> ss_payment_status session \<noteq> Some ''paid''
            then return True
            else if isFinite (ss_amount_total session) \<and>
                    num_of (ss_amount_total session) \<noteq> of_int (amount_cents (c_amount purchase))
            then seq (record_audit \<lparr>e_actor = system_actor, e_tenantId = Some (c_tenantId purchase),
                   e_action = ''PURCHASE_AMOUNT_MISMATCH'', e_entityType = ''ai_credit_purchase'',
                   e_entityId = Some (c_id purchase),
                   e_reason = Some ''Stripe session amount does not match the purchase''\<rparr>)
                 (return False)
            else seq (completePurchase post (c_id purchase) (stripe_context event)) (return True))
      else if ev_type event = ''checkout.session.async_payment_failed'' then
        bind (findPurchaseForSession session) (\<lambda>found.
        seq (case found of
               None \<Rightarrow> return ()
             | Some purchase \<Rightarrow>
                 if c_status purchase = AiPurchaseStatus.PENDING
                 then seq (update_purchase (c_id purchase) (\<lambda>c.
                        c\<lparr>c_status := AiPurchaseStatus.REJECTED, c_stripeEventId := Some (ev_id event),
                          c_reviewNote := Some ''Asynchronous payment failed at Stripe''\<rparr>)) (return ())
                 else return ())
        (return True))
      else if ev_type event = ''checkout.session.expired'' then
        seq (if \<not> truthy (ss_id session) then return ()
             else seq (update_purchases
                    (\<lambda>c. c_stripeSessionId c = ss_id session \<and> c_status c = AiPurchaseStatus.PENDING)
                    (\<lambda>c. c\<lparr>c_status := AiPurchaseStatus.EXPIRED, c_stripeEventId := Some (ev_id event)\<rparr>))
                  (return ()))
            (return True)
      else return False)"

definition expireStaleStripePurchases :: "rat \<Rightarrow> nat billing_prog" where
  "expireStaleStripePurchases olderThanHours =
     bind (gets clock) (\<lambda>now. update_purchases
       (\<lambda>c. c_method c = AiPurchaseMethod.STRIPE \<and> c_status c = AiPurchaseStatus.PENDING \<and>
            of_int (c_createdAt c) < of_int now - olderThanHours * 3600 * 1000)
       (\<lambda>c. c\<lparr>c_status := AiPurchaseStatus.EXPIRED\<rparr>))"

section \<open>Cancelling and reviewing\<close>

text \<open>
  \<open>cancelOwnPending\<close> reads the row, checks it, and writes it in a later database call, with
  no lock in between; the two halves are kept apart for the interleavings.
\<close>

definition cancel_read :: "billing_user \<Rightarrow> uuid \<Rightarrow> AiCreditPurchase billing_prog" where
  "cancel_read user purchaseId =
     bind (gets (\<lambda>s. find (\<lambda>c. c_id c = purchaseId \<and> c_tenantId c = bu_tenantId user) (purchases s))) (\<lambda>row.
     bind (orThrow BillingNotFoundError row) (\<lambda>purchase.
     seq (throwIf (c_status purchase \<noteq> AiPurchaseStatus.PENDING) BillingValidationError)
     (return purchase)))"

definition cancel_write :: "AiCreditPurchase \<Rightarrow> AiCreditPurchase billing_prog" where
  "cancel_write purchase = update_purchase (c_id purchase) (\<lambda>c. c\<lparr>c_status := AiPurchaseStatus.CANCELLED\<rparr>)"

definition cancelOwnPending :: "billing_user \<Rightarrow> uuid \<Rightarrow> AiCreditPurchase billing_prog" where
  "cancelOwnPending user purchaseId = bind (cancel_read user purchaseId) cancel_write"

definition reviewBankTransfer ::
    "(PostTransactionInput \<Rightarrow> AiWalletTransaction billing_prog) \<Rightarrow> actor \<Rightarrow> uuid \<Rightarrow> bool \<Rightarrow> string option \<Rightarrow>
     AiCreditPurchase billing_prog" where
  "reviewBankTransfer post admin purchaseId approve note =
     bind (gets (\<lambda>s. find_by c_id purchaseId (purchases s))) (\<lambda>row.
     bind (orThrow BillingNotFoundError row) (\<lambda>purchase.
     seq (throwIf (c_method purchase \<noteq> AiPurchaseMethod.BANK_TRANSFER) BillingValidationError)
    (seq (throwIf (c_status purchase \<noteq> AiPurchaseStatus.PENDING) BillingValidationError)
    (if \<not> approve
     then bind (gets clock) (\<lambda>now.
          bind (update_purchase (c_id purchase) (\<lambda>c.
            c\<lparr>c_status := AiPurchaseStatus.REJECTED, c_reviewedById := actor_id admin,
              c_reviewedAt := Some now, c_reviewNote := map_option (take 2000) note\<rparr>)) (\<lambda>rejected.
          seq (record_audit \<lparr>e_actor = admin, e_tenantId = Some (c_tenantId purchase),
                 e_action = ''BANK_TRANSFER_REJECTED'', e_entityType = ''ai_credit_purchase'',
                 e_entityId = Some (c_id purchase), e_reason = note\<rparr>)
          (return rejected)))
     else completePurchase post (c_id purchase)
       \<lparr>cc_stripeEventId = None, cc_stripePaymentIntentId = Undefined, cc_reviewedById = actor_id admin,
        cc_reviewNote = Value note, cc_source = ''bank_transfer_review'', cc_actor = Some admin\<rparr>))))"

section \<open>Listing\<close>

text \<open>Neither the page nor the size is clamped here; only \<open>take\<close> is capped.\<close>

definition listForTenant :: "uuid \<Rightarrow> nat \<Rightarrow> nat \<Rightarrow> AiCreditPurchase list billing_prog" where
  "listForTenant tenantId page sz = gets (\<lambda>s.
     take (min sz 200) (drop ((page - 1) * sz)
       (sort_key (\<lambda>c. - c_createdAt c) (filter (\<lambda>c. c_tenantId c = tenantId) (purchases s)))))"

definition listReviewQueue :: "AiPurchaseStatus option \<Rightarrow> AiCreditPurchase list billing_prog" where
  "listReviewQueue status = gets (\<lambda>s.
     take 200 (sort_key (\<lambda>c. - c_createdAt c)
       (filter (\<lambda>c. c_method c = AiPurchaseMethod.BANK_TRANSFER \<and>
                    (case status of None \<Rightarrow> True | Some x \<Rightarrow> c_status c = x)) (purchases s))))"

end
