(* ===== verification/LedgerContract.thy ===== *)
theory LedgerContract
  imports WalletService
begin

text \<open>
  What the purchase, refund and dispute services rely on when they call the wallet service:
  a posting that returns appends exactly one ledger row with the requested contents, keeps
  the books, and writes no table of its callers.  \<open>ledger_service\<close> is the contract of a
  posting inside the caller's transaction, \<open>atomic_ledger_service\<close> of one that opens its
  own.  The wallet service meets both.
\<close>

definition accepts_credit :: "billing \<Rightarrow> uuid \<Rightarrow> bool" where
  "accepts_credit s tenant \<longleftrightarrow>
     (\<forall>w \<in> set (wallets s). w_tenantId w = tenant \<longrightarrow>
        w_status w \<noteq> AiWalletStatus.CLOSED \<and> 0 \<le> w_balance w)"

locale ledger_service =
  fixes dec :: "rat \<Rightarrow> rat"
    and post :: "PostTransactionInput \<Rightarrow> AiWalletTransaction billing_prog"
    and ok :: "billing \<Rightarrow> bool"
  assumes post_ok: "ok s \<Longrightarrow> post inp s = (Inr r, t) \<Longrightarrow> ok t"
    and post_row: "ok s \<Longrightarrow> post inp s = (Inr r, t) \<Longrightarrow> txs t = txs s @ [r]"
    and post_contents: "ok s \<Longrightarrow> post inp s = (Inr r, t) \<Longrightarrow>
      t_type r = pi_type inp \<and> t_amount r = dec (pi_amount inp) \<and> t_tenantId r = pi_tenantId inp \<and>
      t_relatedEntityType r = pi_relatedEntityType inp \<and> t_relatedEntityId r = pi_relatedEntityId inp"
    and post_frame: "ok s \<Longrightarrow> post inp s = (Inr r, t) \<Longrightarrow>
      purchases t = purchases s \<and> refunds t = refunds s \<and> disputes t = disputes s \<and>
      messages t = messages s \<and> stripe_refunds t = stripe_refunds s \<and> clock t = clock s \<and> next_id s \<le> t_id r \<and> t_id r < next_id t"
    and post_credits: "ok s \<Longrightarrow> accepts_credit s (pi_tenantId inp) \<Longrightarrow> 0 < pi_amount inp \<Longrightarrow>
      \<exists>r t. post inp s = (Inr r, t)"
    and ok_frame: "ok s \<Longrightarrow> wallets t = wallets s \<Longrightarrow> txs t = txs s \<Longrightarrow>
      reservations t = reservations s \<Longrightarrow> next_id s \<le> next_id t \<Longrightarrow> ok t"

locale atomic_ledger_service = ledger_service +
  assumes post_atomic: "post inp s = (Inl e, t) \<Longrightarrow> t = s"

section \<open>The wallet service meets the contract\<close>

context money_column
begin

lemma postTransactionIn_okD:
  assumes "wallet_ok dec s" "postTransactionIn dec inp s = (Inr r, t)"
  obtains w s' where "w \<in> set (wallets s')" "w_tenantId w = pi_tenantId inp" "wallet_ok dec s'"
    "s' = s \<or> w = new_wallet (next_id s) (pi_tenantId inp) \<and>
       s' = s\<lparr>wallets := wallets s @ [w], next_id := next_id s + 1\<rparr>"
    "applyTransaction dec w inp s' = (Inr r, t)"
proof -
  from assms(2) obtain w s' where lock: "lockWalletByTenant (pi_tenantId inp) s = (Inr w, s')"
    and app: "applyTransaction dec w inp s' = (Inr r, t)"
    by (auto simp: postTransactionIn_def ok_simps)
  show thesis
    using lockWalletByTenant_result [OF lock wallet_ok_keys [OF assms(1)]]
      lockWalletByTenant_keeps [OF assms(1) lock] app
    by (intro that) auto
qed

lemma posting_laws:
  assumes "wallet_ok dec s" "postTransactionIn dec inp s = (Inr r, t)"
  shows "wallet_ok dec t" "txs t = txs s @ [r]"
    "t_type r = pi_type inp \<and> t_amount r = dec (pi_amount inp) \<and> t_tenantId r = pi_tenantId inp \<and>
      t_relatedEntityType r = pi_relatedEntityType inp \<and> t_relatedEntityId r = pi_relatedEntityId inp"
    "purchases t = purchases s \<and> refunds t = refunds s \<and> disputes t = disputes s \<and>
      messages t = messages s \<and> stripe_refunds t = stripe_refunds s \<and> clock t = clock s \<and> next_id s \<le> t_id r \<and> t_id r < next_id t"
proof -
  obtain w s' where w: "w \<in> set (wallets s')" "wallet_ok dec s'"
    and s': "s' = s \<or> w = new_wallet (next_id s) (pi_tenantId inp) \<and>
       s' = s\<lparr>wallets := wallets s @ [w], next_id := next_id s + 1\<rparr>"
    and app: "applyTransaction dec w inp s' = (Inr r, t)"
    by (rule postTransactionIn_okD [OF assms])
  note r = applyTransaction_okD(4) [OF app]
  have t: "txs t = txs (posted dec w inp s')" "purchases t = purchases (posted dec w inp s')"
    "refunds t = refunds (posted dec w inp s')" "disputes t = disputes (posted dec w inp s')"
    "messages t = messages (posted dec w inp s')" "stripe_refunds t = stripe_refunds (posted dec w inp s')" "clock t = clock (posted dec w inp s')"
    "next_id t = next_id (posted dec w inp s')"
    by (subst applyTransaction_okD(5) [OF app], simp)+
  show "wallet_ok dec t" by (rule applyTransaction_keeps(1) [OF w(2,1) app])
  show "txs t = txs s @ [r]" using s' by (auto simp: t r)
  show "t_type r = pi_type inp \<and> t_amount r = dec (pi_amount inp) \<and> t_tenantId r = pi_tenantId inp \<and>
      t_relatedEntityType r = pi_relatedEntityType inp \<and> t_relatedEntityId r = pi_relatedEntityId inp"
    by (simp add: r)
  show "purchases t = purchases s \<and> refunds t = refunds s \<and> disputes t = disputes s \<and>
      messages t = messages s \<and> stripe_refunds t = stripe_refunds s \<and> clock t = clock s \<and> next_id s \<le> t_id r \<and> t_id r < next_id t"
    using s' by (auto simp: t r)
qed

lemma posting_credits:
  assumes ok: "wallet_ok dec s" and accepts: "accepts_credit s (pi_tenantId inp)" and amount: "0 < pi_amount inp"
  shows "\<exists>r t. postTransactionIn dec inp s = (Inr r, t)"
proof -
  have "\<exists>w s'. lockWalletByTenant (pi_tenantId inp) s = (Inr w, s')"
  proof (cases "find_by w_tenantId (pi_tenantId inp) (wallets s)")
    case None
    then have "pi_tenantId inp \<notin> w_tenantId ` set (wallets s)"
      by (simp add: find_by_None)
    with None show ?thesis
      by (simp add: lockWalletByTenant_def run_bind run_simps create_wallet_def Let_def)
  next
    case (Some w)
    with find_wallet_keys [OF wallet_ok_keys [OF ok]] find_by_Some [OF Some] show ?thesis
      by (simp add: lockWalletByTenant_def run_bind run_simps)
  qed
  then obtain w s' where lock: "lockWalletByTenant (pi_tenantId inp) s = (Inr w, s')" by blast
  note result = lockWalletByTenant_result [OF lock wallet_ok_keys [OF ok]]
  have "w_status w \<noteq> AiWalletStatus.CLOSED" "0 \<le> w_balance w"
    using result accepts by (auto simp: accepts_credit_def new_wallet_def)
  moreover have "find_by w_id (w_id w) (wallets s') = Some w"
    using lockWalletByTenant_keeps [OF ok lock] by (auto intro: find_wallet_keys wallet_ok_keys)
  ultimately show ?thesis
    using applyTransaction_runs [of inp w s' w dec] amount lock
    by (auto simp: postTransactionIn_def run_bind)
qed

end

sublocale money_column \<subseteq> posting: ledger_service dec "postTransactionIn dec" "wallet_ok dec"
  by unfold_locales (fact posting_laws posting_credits wallet_ok_frame)+

sublocale money_column \<subseteq> atomic_posting: atomic_ledger_service dec "postTransaction dec" "wallet_ok dec"
proof
  have ok: "postTransaction dec inp s = (Inr r, t) \<longleftrightarrow> postTransactionIn dec inp s = (Inr r, t)" for inp s r t
    by (simp add: postTransaction_def ok_simps)
  fix s t :: billing and inp r e
  show "wallet_ok dec s \<Longrightarrow> postTransaction dec inp s = (Inr r, t) \<Longrightarrow> wallet_ok dec t"
    "wallet_ok dec s \<Longrightarrow> postTransaction dec inp s = (Inr r, t) \<Longrightarrow> txs t = txs s @ [r]"
    "wallet_ok dec s \<Longrightarrow> postTransaction dec inp s = (Inr r, t) \<Longrightarrow>
      t_type r = pi_type inp \<and> t_amount r = dec (pi_amount inp) \<and> t_tenantId r = pi_tenantId inp \<and>
      t_relatedEntityType r = pi_relatedEntityType inp \<and> t_relatedEntityId r = pi_relatedEntityId inp"
    "wallet_ok dec s \<Longrightarrow> postTransaction dec inp s = (Inr r, t) \<Longrightarrow>
      purchases t = purchases s \<and> refunds t = refunds s \<and> disputes t = disputes s \<and>
      messages t = messages s \<and> stripe_refunds t = stripe_refunds s \<and> clock t = clock s \<and> next_id s \<le> t_id r \<and> t_id r < next_id t"
    "wallet_ok dec s \<Longrightarrow> accepts_credit s (pi_tenantId inp) \<Longrightarrow> 0 < pi_amount inp \<Longrightarrow>
      \<exists>r t. postTransaction dec inp s = (Inr r, t)"
    unfolding ok using posting_laws posting_credits by blast+
  show "postTransaction dec inp s = (Inl e, t) \<Longrightarrow> t = s"
    unfolding postTransaction_def by (rule transaction_rollback)
qed (rule wallet_ok_frame)

interpretation wallet6: ledger_service numeric6 "postTransactionIn numeric6" "wallet_ok numeric6"
  by (rule numeric6.posting.ledger_service_axioms)

interpretation wallet6_atomic: atomic_ledger_service numeric6 "postTransaction numeric6" "wallet_ok numeric6"
  by (rule numeric6.atomic_posting.atomic_ledger_service_axioms)

end
