(* ===== verification/PurchaseBooks.thy ===== *)
theory PurchaseBooks
  imports Purchase LedgerContract
begin

text \<open>
  Purchases against the ledger: \<open>purchases_ok\<close> says that a settled purchase (completed or
  since refunded) has exactly one PURCHASE row, of its amount and in its tenant's wallet,
  and every other purchase has none.  Every method of the purchase service keeps it, over
  any ledger that meets the contract \<open>ledger_service\<close>.
\<close>

section \<open>The invariant\<close>

definition is_credit_for :: "uuid \<Rightarrow> AiWalletTransaction \<Rightarrow> bool" where
  "is_credit_for i t \<longleftrightarrow> t_type t = AiLedgerType.PURCHASE \<and>
     t_relatedEntityType t = Some ''ai_credit_purchase'' \<and> t_relatedEntityId t = Some i"

definition credits_of :: "uuid \<Rightarrow> billing \<Rightarrow> AiWalletTransaction list" where
  "credits_of i s = filter (is_credit_for i) (txs s)"

definition settled :: "AiCreditPurchase \<Rightarrow> bool" where
  "settled c \<longleftrightarrow> c_status c \<in> {AiPurchaseStatus.COMPLETED, AiPurchaseStatus.REFUNDED}"

definition purchase_ok :: "(rat \<Rightarrow> rat) \<Rightarrow> billing \<Rightarrow> AiCreditPurchase \<Rightarrow> bool" where
  "purchase_ok dec s c \<longleftrightarrow> c_id c < next_id s \<and>
     (if settled c
      then \<exists>t. credits_of (c_id c) s = [t] \<and> t_amount t = dec (c_amount c) \<and> t_tenantId t = c_tenantId c
      else credits_of (c_id c) s = [] \<and> c_stripePaymentIntentId c = None)"

definition purchases_ok :: "(rat \<Rightarrow> rat) \<Rightarrow> billing \<Rightarrow> bool" where
  "purchases_ok dec s \<longleftrightarrow>
     distinct (map c_id (purchases s)) \<and> (\<forall>c \<in> set (purchases s). purchase_ok dec s c) \<and>
     (\<forall>t \<in> set (txs s). \<forall>i. is_credit_for i t \<longrightarrow> i \<in> c_id ` set (purchases s))"

lemma purchases_ok_empty: "purchases_ok dec empty_billing"
  by (simp add: purchases_ok_def empty_billing_def)

text \<open>Rows of other kinds, and other tables, do not matter.\<close>

lemma purchases_ok_frame:
  assumes "purchases_ok dec s" "purchases t = purchases s" "next_id s \<le> next_id t"
    "txs t = txs s @ rows" "\<And>r i. r \<in> set rows \<Longrightarrow> \<not> is_credit_for i r"
  shows "purchases_ok dec t"
proof -
  have "credits_of i t = credits_of i s" for i
    using assms(4,5) by (simp add: credits_of_def filter_empty_conv)
  with assms show ?thesis
    by (fastforce simp: purchases_ok_def purchase_ok_def)
qed

lemma purchases_ok_ignores_audits: "ignores_audits (purchases_ok dec)"
  by (auto simp: ignores_audits_def elim!: purchases_ok_frame)

lemma credits_of_purchases_update [simp]:
  "credits_of i (purchases_update f s) = credits_of i s" "credits_of i (audits_update g s) = credits_of i s"
  "credits_of i (next_id_update h s) = credits_of i s"
  by (simp_all add: credits_of_def)

lemma find_purchase_keys:
  "purchases_ok dec s \<Longrightarrow> c \<in> set (purchases s) \<Longrightarrow> find_by c_id (c_id c) (purchases s) = Some c"
  by (simp add: purchases_ok_def find_by_unique)

text \<open>A write that moves no row across the line between open and settled.\<close>

lemma purchases_ok_write:
  assumes ok: "purchases_ok dec s"
    and f: "\<And>c. c \<in> set (purchases s) \<Longrightarrow> p c \<Longrightarrow> c_id (f c) = c_id c \<and> c_amount (f c) = c_amount c \<and>
      c_tenantId (f c) = c_tenantId c \<and> settled (f c) = settled c \<and>
      (\<not> settled c \<longrightarrow> c_stripePaymentIntentId (f c) = c_stripePaymentIntentId c)"
  shows "purchases_ok dec (s\<lparr>purchases := update_where p f (purchases s)\<rparr>)"
proof -
  have ids: "map c_id (update_where p f (purchases s)) = map c_id (purchases s)"
    using f by (auto simp: update_where_def)
  have idset: "c_id ` set (update_where p f (purchases s)) = c_id ` set (purchases s)"
    using ids by (metis image_set)
  have "purchase_ok dec s (f c)" if "c \<in> set (purchases s)" "p c" for c
    using ok f [OF that] that by (auto simp: purchases_ok_def purchase_ok_def)
  with ok show ?thesis
    by (auto simp: purchases_ok_def purchase_ok_def in_set_row ids idset)
qed

lemma update_purchase_ok [ok_simps]:
  "update_purchase i f s = (Inr x, t) \<longleftrightarrow> (\<exists>c. find_by c_id i (purchases s) = Some c \<and>
     \<not> purchase_clash (purchases s) (f c) \<and> x = f c \<and> t = s\<lparr>purchases := set_row c_id i f (purchases s)\<rparr>)"
  by (auto simp: update_purchase_def split: option.splits)

lemma create_purchase_ok [ok_simps]:
  "create_purchase mk s = (Inr r, t) \<longleftrightarrow> r = mk (next_id s) (clock s) \<and>
     t = s\<lparr>purchases := purchases s @ [r], next_id := next_id s + 1\<rparr>"
  by (auto simp: create_purchase_def Let_def)

lemma completed_row_fields [simp]:
  "c_id (completed_row ctx now c) = c_id c" "c_amount (completed_row ctx now c) = c_amount c"
  "c_tenantId (completed_row ctx now c) = c_tenantId c"
  "c_status (completed_row ctx now c) = AiPurchaseStatus.COMPLETED"
  by (simp_all add: completed_row_def Let_def apply_patch_field)

lemma purchase_posting_fields [simp]:
  "pi_tenantId (purchase_posting c ctx) = c_tenantId c" "pi_type (purchase_posting c ctx) = AiLedgerType.PURCHASE"
  "pi_amount (purchase_posting c ctx) = c_amount c"
  "pi_relatedEntityType (purchase_posting c ctx) = Some ''ai_credit_purchase''"
  "pi_relatedEntityId (purchase_posting c ctx) = Some (c_id c)"
  by (simp_all add: purchase_posting_def)

section \<open>Completion\<close>

context ledger_service
begin

abbreviation inv :: "billing \<Rightarrow> bool" where
  "inv s \<equiv> ok s \<and> purchases_ok dec s"

lemma completeIn_okD:
  assumes "completeIn post i ctx s = (Inr (c, entry, already), t)"
  obtains (replay) "find_by c_id i (purchases s) = Some c" "c_status c = AiPurchaseStatus.COMPLETED"
      "already" "entry = None" "t = s"
  | (credit) c0 r s1 where "find_by c_id i (purchases s) = Some c0" "c_status c0 = AiPurchaseStatus.PENDING"
      "post (purchase_posting c0 ctx) s = (Inr r, s1)" "entry = Some r" "\<not> already"
      "\<exists>c1. find_by c_id (c_id c0) (purchases s1) = Some c1 \<and> c = completed_row ctx (clock s1) c1"
      "t = s1\<lparr>purchases := set_row c_id (c_id c0) (completed_row ctx (clock s1)) (purchases s1)\<rparr>"
proof -
  from assms obtain c0 where c0: "find_by c_id i (purchases s) = Some c0"
    by (auto simp: completeIn_def ok_simps)
  show thesis
  proof (cases "c_status c0 = AiPurchaseStatus.COMPLETED")
    case True
    with assms c0 show thesis by (intro replay) (auto simp: completeIn_def ok_simps)
  next
    case False
    with assms c0 have "c_status c0 = AiPurchaseStatus.PENDING"
      by (auto simp: completeIn_def ok_simps)
    moreover from False assms c0 obtain r s1 c1 where "post (purchase_posting c0 ctx) s = (Inr r, s1)"
      "find_by c_id (c_id c0) (purchases s1) = Some c1" "c = completed_row ctx (clock s1) c1"
      "entry = Some r" "\<not> already"
      "t = s1\<lparr>purchases := set_row c_id (c_id c0) (completed_row ctx (clock s1)) (purchases s1)\<rparr>"
      by (auto simp: completeIn_def ok_simps)
    moreover have "find_by c_id (c_id c0) (purchases s) = Some c0"
      using c0 find_by_Some [OF c0] by simp
    ultimately show thesis using c0 by (intro credit) auto
  qed
qed

text \<open>One completion, one ledger row, of the purchase's amount and tenant.\<close>

lemma completeIn_credit:
  assumes inv: "inv s" and run: "completeIn post i ctx s = (Inr (c, Some r, already), t)"
  shows "\<exists>c0. find_by c_id i (purchases s) = Some c0 \<and> c_status c0 = AiPurchaseStatus.PENDING \<and>
    c = completed_row ctx (clock s) c0 \<and> txs t = txs s @ [r] \<and> is_credit_for i r \<and>
    t_amount r = dec (c_amount c0) \<and> t_tenantId r = c_tenantId c0 \<and> ok t \<and> next_id s \<le> next_id t \<and>
    purchases t = set_row c_id i (completed_row ctx (clock s)) (purchases s)"
  using run
proof (cases rule: completeIn_okD)
  case (credit c0 r' s1)
  note id = find_by_Some [OF credit(1)]
  have ok: "ok s" using inv by simp
  note laws = post_ok [OF ok credit(3)] post_row [OF ok credit(3)] post_contents [OF ok credit(3)]
    post_frame [OF ok credit(3)]
  have "ok t"
    using credit(7) by (intro ok_frame [OF laws(1)]) simp_all
  with credit laws id show ?thesis by (auto simp: is_credit_for_def)
qed simp

lemma inv_completed:
  assumes inv: "inv s" and run: "completeIn post i ctx s = (Inr (c, entry, already), t)"
  shows "inv t"
proof (cases entry)
  case None
  from run show ?thesis
    by (cases rule: completeIn_okD) (use inv None in auto)
next
  case (Some r)
  obtain c0 where c0: "find_by c_id i (purchases s) = Some c0" "c_status c0 = AiPurchaseStatus.PENDING"
    and r: "txs t = txs s @ [r]" "is_credit_for i r" "t_amount r = dec (c_amount c0)" "t_tenantId r = c_tenantId c0"
    and t: "ok t" "next_id s \<le> next_id t" "purchases t = set_row c_id i (completed_row ctx (clock s)) (purchases s)"
    using completeIn_credit [OF inv] run Some by blast
  note id = find_by_Some [OF c0(1)]
  have credits: "credits_of j t = credits_of j s @ (if j = i then [r] else [])" for j
    using r(1,2) by (auto simp: credits_of_def is_credit_for_def)
  have old: "purchase_ok dec s x" "c_id x = i \<Longrightarrow> x = c0" if "x \<in> set (purchases s)" for x
    using inv that c0(1) find_purchase_keys [of dec s x] by (auto simp: purchases_ok_def)
  have "purchase_ok dec t x" if "x \<in> set (purchases t)" for x
  proof -
    from that obtain y where y: "y \<in> set (purchases s)" "x = (if c_id y = i then completed_row ctx (clock s) y else y)"
      by (auto simp: t in_set_row)
    show ?thesis
    proof (cases "c_id y = i")
      case True
      with old(2) [OF y(1)] have "y = c0" by simp
      with old(1) [OF y(1)] True y c0 r(3,4) t(2) show ?thesis
        by (simp add: purchase_ok_def settled_def credits)
    next
      case False
      with old(1) [OF y(1)] y t(2) show ?thesis by (auto simp: purchase_ok_def credits)
    qed
  qed
  moreover have "map c_id (purchases t) = map c_id (purchases s)" by (simp add: t)
  then have "c_id ` set (purchases t) = c_id ` set (purchases s)" by (metis image_set)
  ultimately show ?thesis
    using inv t(1) r(1,2) id \<open>map c_id (purchases t) = map c_id (purchases s)\<close>
    by (auto simp: purchases_ok_def is_credit_for_def)
qed

lemma keeps_completeIn: "keeps inv (completeIn post i ctx)"
proof (rule keepsI)
  fix s x t assume inv: "inv s" and run: "completeIn post i ctx s = (x, t)"
  show "inv t"
  proof (cases x)
    case (Inl e)
    with run inv show ?thesis by (auto simp: completeIn_def dest!: transaction_rollback)
  next
    case (Inr p)
    with run inv_completed [OF inv] show ?thesis by (cases p) auto
  qed
qed

lemma inv_ignores_audits: "ignores_audits inv"
  using purchases_ok_ignores_audits ok_frame by (auto simp: ignores_audits_def)

lemma keeps_completePurchase: "keeps inv (completePurchase post i ctx)"
  unfolding completePurchase_def
  by (auto intro!: keeps_intros keeps_completeIn keeps_record_audit [OF inv_ignores_audits] split: prod.splits)

lemma inv_write:
  assumes "inv s"
    and "\<And>c. c \<in> set (purchases s) \<Longrightarrow> p c \<Longrightarrow> c_id (f c) = c_id c \<and> c_amount (f c) = c_amount c \<and>
      c_tenantId (f c) = c_tenantId c \<and> settled (f c) = settled c \<and>
      (\<not> settled c \<longrightarrow> c_stripePaymentIntentId (f c) = c_stripePaymentIntentId c)"
  shows "inv (s\<lparr>purchases := update_where p f (purchases s)\<rparr>)"
  using assms(1) purchases_ok_write [OF _ assms(2)] ok_frame [of s "s\<lparr>purchases := update_where p f (purchases s)\<rparr>"]
  by auto

lemma keeps_update_purchases:
  assumes "\<And>c. p c \<Longrightarrow> c_id (f c) = c_id c \<and> c_amount (f c) = c_amount c \<and>
      c_tenantId (f c) = c_tenantId c \<and> settled (f c) = settled c \<and>
      (\<not> settled c \<longrightarrow> c_stripePaymentIntentId (f c) = c_stripePaymentIntentId c)"
  shows "keeps inv (update_purchases p f)"
  unfolding keeps_def update_purchases_def Let_def using inv_write assms by auto

text \<open>A write of one row whose state was read before, when the row is still open.\<close>

lemma keeps_close_purchase:
  assumes "\<And>c. c_id (f c) = c_id c \<and> c_amount (f c) = c_amount c \<and> c_tenantId (f c) = c_tenantId c \<and>
      \<not> settled (f c) \<and> c_stripePaymentIntentId (f c) = c_stripePaymentIntentId c"
    and "inv s" "find_by c_id i (purchases s) = Some c" "\<not> settled c" "update_purchase i f s = (x, t)"
  shows "inv t"
proof -
  have only: "y = c" if "y \<in> set (purchases s)" "c_id y = i" for y
    using assms(2,3) that find_purchase_keys [of dec s y] by simp
  have "inv (s\<lparr>purchases := set_row c_id i f (purchases s)\<rparr>)"
    by (rule inv_write [OF assms(2)]) (use only assms(1,4) in auto)
  with assms(2,3,5) show ?thesis
    by (auto simp: update_purchase_def split: if_splits)
qed

lemma keeps_cancelOwnPending: "keeps inv (cancelOwnPending user i)"
proof (rule keepsI)
  fix s x t assume inv: "inv s" and run: "cancelOwnPending user i s = (x, t)"
  show "inv t"
  proof (cases "cancel_read user i s")
    case (Pair y u)
    have u: "u = s" using Pair by (auto simp: cancel_read_def run_bind run_seq run_simps split: option.splits if_splits)
    show ?thesis
    proof (cases y)
      case (Inl e)
      with run Pair u inv show ?thesis by (simp add: cancelOwnPending_def run_bind)
    next
      case (Inr c)
      with Pair have c: "c \<in> set (purchases s)" "c_status c = AiPurchaseStatus.PENDING"
        by (auto simp: cancel_read_def ok_simps dest: find_in)
      have found: "find_by c_id (c_id c) (purchases s) = Some c"
        using inv c find_purchase_keys by blast
      show ?thesis
        by (rule keeps_close_purchase [OF _ inv found])
          (use run Pair Inr u c in \<open>auto simp: cancelOwnPending_def cancel_write_def run_bind settled_def\<close>)
    qed
  qed
qed

lemma keeps_reviewBankTransfer: "keeps inv (reviewBankTransfer post admin i approve note)"
proof (rule keepsI)
  fix s x t assume inv: "inv s" and run: "reviewBankTransfer post admin i approve note s = (x, t)"
  show "inv t"
  proof (cases "find_by c_id i (purchases s)")
    case None
    with run inv show ?thesis by (simp add: reviewBankTransfer_def run_bind run_simps)
  next
    case (Some c)
    note id = find_by_Some [OF Some]
    consider (guard) "c_method c \<noteq> AiPurchaseMethod.BANK_TRANSFER \<or> c_status c \<noteq> AiPurchaseStatus.PENDING"
      | (approve) "c_status c = AiPurchaseStatus.PENDING" "c_method c = AiPurchaseMethod.BANK_TRANSFER" approve
      | (reject) "c_status c = AiPurchaseStatus.PENDING" "c_method c = AiPurchaseMethod.BANK_TRANSFER" "\<not> approve"
      by blast
    then show ?thesis
    proof cases
      case guard
      with run Some inv show ?thesis
        by (auto simp: reviewBankTransfer_def bind_gets seq_throwIf run_bind run_simps split: if_splits)
    next
      case approve
      with run Some have "completePurchase post (c_id c)
         \<lparr>cc_stripeEventId = None, cc_stripePaymentIntentId = Undefined, cc_reviewedById = actor_id admin,
          cc_reviewNote = Value note, cc_source = ''bank_transfer_review'', cc_actor = Some admin\<rparr> s = (x, t)"
        by (simp add: reviewBankTransfer_def bind_gets seq_throwIf run_bind run_simps)
      then show ?thesis by (rule keepsD [OF keeps_completePurchase inv])
    next
      case reject
      define f where "f = (\<lambda>c :: AiCreditPurchase. c\<lparr>c_status := AiPurchaseStatus.REJECTED, c_reviewedById := actor_id admin,
              c_reviewedAt := Some (clock s), c_reviewNote := map_option (take 2000) note\<rparr>)"
      obtain y u where upd: "update_purchase (c_id c) f s = (y, u)" by fastforce
      have "inv u"
        by (rule keeps_close_purchase [OF _ inv _ _ upd])
          (use Some id reject in \<open>auto simp: f_def settled_def\<close>)
      moreover from reject run Some upd have "t = u \<or> (\<exists>a. t = u\<lparr>audits := a\<rparr>)"
        by (cases y) (auto simp: reviewBankTransfer_def bind_gets seq_throwIf run_bind run_seq run_simps f_def
            record_audit_def catch_def recordIn_def)
      ultimately show ?thesis
        using inv_ignores_audits by (auto simp: ignores_audits_def)
    qed
  qed
qed

lemma findPurchase_in:
  "findPurchaseForSession session s = (Inr (Some c), t) \<Longrightarrow> c \<in> set (purchases s) \<and> t = s"
  by (auto simp: findPurchaseForSession_def ok_simps dest!: find_by_Some [OF sym] split: option.splits if_splits)

lemma findPurchase_total: "\<exists>c. findPurchaseForSession session s = (Inr c, s)"
  by (auto simp: findPurchaseForSession_def run_simps)

text \<open>A failed asynchronous payment closes the purchase it finds open.\<close>

lemma keeps_paymentFailed:
  assumes f: "\<And>c. c_id (f c) = c_id c \<and> c_amount (f c) = c_amount c \<and> c_tenantId (f c) = c_tenantId c \<and>
      \<not> settled (f c) \<and> c_stripePaymentIntentId (f c) = c_stripePaymentIntentId c"
  shows "keeps inv (bind (findPurchaseForSession session) (\<lambda>found.
    seq (case found of None \<Rightarrow> return ()
         | Some purchase \<Rightarrow> if c_status purchase = AiPurchaseStatus.PENDING
             then seq (update_purchase (c_id purchase) f) (return ()) else return ())
      (return True)))"
proof (rule keepsI)
  fix s x t assume inv: "inv s"
  assume run: "bind (findPurchaseForSession session) (\<lambda>found.
    seq (case found of None \<Rightarrow> return ()
         | Some purchase \<Rightarrow> if c_status purchase = AiPurchaseStatus.PENDING
             then seq (update_purchase (c_id purchase) f) (return ()) else return ())
      (return True)) s = (x, t)"
  obtain found where found: "findPurchaseForSession session s = (Inr found, s)"
    using findPurchase_total by blast
  show "inv t"
  proof (cases "\<exists>c. found = Some c \<and> c_status c = AiPurchaseStatus.PENDING")
    case False
    with run found inv show ?thesis
      by (cases found) (auto simp: run_bind run_seq run_simps split: if_splits)
  next
    case True
    then obtain c where c: "found = Some c" "c_status c = AiPurchaseStatus.PENDING" by blast
    with found findPurchase_in have "c \<in> set (purchases s)" by blast
    with inv find_purchase_keys have row: "find_by c_id (c_id c) (purchases s) = Some c" by blast
    obtain y u where upd: "update_purchase (c_id c) f s = (y, u)" by fastforce
    have "inv u"
      by (rule keeps_close_purchase [OF f inv row _ upd]) (simp add: c settled_def)
    with run found c upd show ?thesis
      by (cases y) (auto simp: run_bind run_seq run_simps)
  qed
qed

lemma keeps_handleStripeEvent: "keeps inv (handleStripeEvent post event)"
proof -
  have find: "keeps inv (findPurchaseForSession session)" for session
    unfolding findPurchaseForSession_def by (rule keeps_gets)
  show ?thesis
    unfolding handleStripeEvent_def Let_def
    by (intro keeps_if keeps_paymentFailed)
      (auto intro!: keeps_intros find keeps_record_audit [OF inv_ignores_audits] keeps_completePurchase
        keeps_update_purchases simp: settled_def)
qed

lemma keeps_expireStalePurchases: "keeps inv (expireStaleStripePurchases h)"
  unfolding expireStaleStripePurchases_def
  by (auto intro!: keeps_intros keeps_update_purchases simp: settled_def)

end

text \<open>Opening a purchase, on the wallet service itself.\<close>

context money_column
begin

abbreviation purchase_books :: "billing \<Rightarrow> bool" where
  "purchase_books s \<equiv> wallet_ok dec s \<and> purchases_ok dec s"

lemma getOrCreateWallet_frame:
  "getOrCreateWallet tenant s = (x, t) \<Longrightarrow> purchases t = purchases s \<and> txs t = txs s \<and> next_id s \<le> next_id t \<and>
     refunds t = refunds s \<and> disputes t = disputes s"
  by (auto simp: getOrCreateWallet_def run_bind catch_def create_wallet_def run_simps Let_def
      split: option.splits if_splits sum.splits prod.splits)

lemma keeps_books_getOrCreateWallet: "keeps purchase_books (getOrCreateWallet tenant)"
proof (rule keepsI)
  fix s x t assume "purchase_books s" "getOrCreateWallet tenant s = (x, t)"
  then show "purchase_books t"
    using getOrCreateWallet_frame [of tenant s x t] keepsD [OF keeps_getOrCreateWallet(1)]
      purchases_ok_frame [of dec s t "[]"] by auto
qed

lemma keeps_create_purchase:
  assumes mk: "\<And>i now. c_id (mk i now) = i \<and> \<not> settled (mk i now) \<and> c_stripePaymentIntentId (mk i now) = None"
  shows "keeps purchase_books (create_purchase mk)"
proof (rule keepsI)
  fix s x t assume ok: "purchase_books s" and run: "create_purchase mk s = (x, t)"
  let ?c = "mk (next_id s) (clock s)"
  have t: "t = s\<lparr>purchases := purchases s @ [?c], next_id := next_id s + 1\<rparr>"
    using run by (auto simp: create_purchase_def Let_def)
  have "c_id c \<noteq> next_id s" if "c \<in> set (purchases s)" for c
    using ok that by (auto simp: purchases_ok_def purchase_ok_def)
  moreover from this have "credits_of (next_id s) s = []"
    using ok by (fastforce simp: purchases_ok_def credits_of_def filter_empty_conv)
  ultimately have "purchases_ok dec t"
    using ok mk [of "next_id s" "clock s"]
    by (fastforce simp: t purchases_ok_def purchase_ok_def)
  moreover have "wallet_ok dec t" using ok by (auto simp: t elim: wallet_ok_frame)
  ultimately show "purchase_books t" by simp
qed

lemma purchase_books_ignores_audits: "ignores_audits purchase_books"
  using purchases_ok_ignores_audits wallet_ok_ignores_audits by (simp add: ignores_audits_def)

lemma keeps_randomUUID: "keeps purchase_books randomUUID"
  by (auto simp: keeps_def randomUUID_def elim!: wallet_ok_frame purchases_ok_frame [where rows = "[]"])

lemma keeps_set_session: "keeps purchase_books (update_purchase i (\<lambda>c. c\<lparr>c_stripeSessionId := x\<rparr>))"
  unfolding keeps_def update_purchase_def
  using purchases_ok_write [of dec _ "\<lambda>c. c_id c = i" "\<lambda>c. c\<lparr>c_stripeSessionId := x\<rparr>"]
  by (auto simp: settled_def elim: wallet_ok_frame split: option.splits)

lemma keeps_createStripeCheckout: "keeps purchase_books (createStripeCheckout dec conf sess user amount)"
  unfolding createStripeCheckout_def validateAmount_def
  by (intro keeps_intros keeps_books_getOrCreateWallet keeps_randomUUID keeps_create_purchase keeps_set_session)
    (simp add: pending_purchase_def settled_def)

lemma keeps_submitBankTransfer: "keeps purchase_books (submitBankTransfer dec user amount url note)"
  unfolding submitBankTransfer_def validateAmount_def
  by (intro keeps_intros keeps_books_getOrCreateWallet keeps_create_purchase
      keeps_record_audit [OF purchase_books_ignores_audits])
    (simp add: pending_purchase_def settled_def)

end

end
