(* ===== verification/Refund.thy ===== *)
theory Refund
  imports PurchaseBooks
begin

text \<open>
  \<open>refund.service.ts\<close>: refunds approved by an administrator.  A WALLET_CREDIT refund puts
  credits back; a CASH refund sends money to the card through Stripe (\<open>createRefund\<close>, an
  argument) and takes the credits out of the wallet.  \<open>post\<close> is the wallet service's
  \<open>postTransaction\<close>.
\<close>

record refund_input =
  ri_tenant :: uuid
  ri_refundAmount :: jsnum
  ri_kind :: AiRefundKind
  ri_reason :: string
  ri_purchaseId :: "uuid option"
  ri_disputeId :: "uuid option"
  ri_evidenceUrl :: "string option"

definition counts_as_refunded :: "uuid \<Rightarrow> AiRefund \<Rightarrow> bool" where
  "counts_as_refunded i f \<longleftrightarrow> f_purchaseId f = Some i \<and>
     f_status f \<in> {AiRefundStatus.COMPLETED, AiRefundStatus.PENDING}"

definition refunded_so_far :: "uuid \<Rightarrow> AiRefund list \<Rightarrow> rat" where
  "refunded_so_far i rows = sum_where (counts_as_refunded i) f_amount rows"

text \<open>The purchase a refund is for and whether this refund completes it (lines 58 to 79).\<close>

definition refundable_purchase :: "refund_input \<Rightarrow> (AiCreditPurchase option \<times> bool) billing_prog" where
  "refundable_purchase inp =
     (case ri_purchaseId inp of
        None \<Rightarrow> return (None, False)
      | Some i \<Rightarrow>
          bind (gets (\<lambda>s. find (\<lambda>c. c_id c = i \<and> c_tenantId c = ri_tenant inp) (purchases s))) (\<lambda>row.
          bind (orThrow BillingNotFoundError row) (\<lambda>purchase.
          bind (gets (\<lambda>s. refunded_so_far (c_id purchase) (refunds s))) (\<lambda>already.
          seq (throwIf (c_amount purchase - already < num_of (ri_refundAmount inp)) BillingValidationError)
          (return (Some purchase, c_amount purchase \<le> already + num_of (ri_refundAmount inp)))))))"

definition pending_refund :: "(rat \<Rightarrow> rat) \<Rightarrow> actor \<Rightarrow> refund_input \<Rightarrow> AiWallet \<Rightarrow> uuid \<Rightarrow> AiRefund" where
  "pending_refund dec admin inp w i =
     \<lparr>f_id = i, f_tenantId = ri_tenant inp, f_walletId = w_id w, f_purchaseId = ri_purchaseId inp,
      f_disputeId = ri_disputeId inp, f_amount = dec (num_of (ri_refundAmount inp)), f_kind = ri_kind inp,
      f_reason = take 1000 (ri_reason inp), f_status = AiRefundStatus.PENDING,
      f_approvedById = actor_id admin, f_stripeRefundId = None, f_transactionId = None,
      f_evidenceUrl = map_option (take 1000) (ri_evidenceUrl inp)\<rparr>"

definition refund_posting :: "actor \<Rightarrow> refund_input \<Rightarrow> AiRefund \<Rightarrow> PostTransactionInput" where
  "refund_posting admin inp refund =
     \<lparr>pi_tenantId = ri_tenant inp, pi_type = AiLedgerType.REFUND,
      pi_amount = (if ri_kind inp = AiRefundKind.WALLET_CREDIT then num_of (ri_refundAmount inp)
                   else - num_of (ri_refundAmount inp)),
      pi_createdById = actor_id admin, pi_notes = Some (''Refund: '' @ take 200 (ri_reason inp)),
      pi_relatedEntityType = Some ''ai_refund'', pi_relatedEntityId = Some (f_id refund),
      pi_allowNegativeBalance = (ri_kind inp = AiRefundKind.CASH)\<rparr>"

definition send_stripe_refund ::
    "(refund_request \<Rightarrow> billing_error + string) \<Rightarrow> refund_request \<Rightarrow> string billing_prog" where
  "send_stripe_refund createRefund request =
     bind (lift (createRefund request)) (\<lambda>i.
     seq (modify (\<lambda>s. s\<lparr>stripe_refunds := stripe_refunds s @ [request]\<rparr>)) (return i))"

text \<open>The body of the \<open>try\<close> (lines 100 to 146).\<close>

definition execute_refund ::
    "(PostTransactionInput \<Rightarrow> AiWalletTransaction billing_prog) \<Rightarrow> (refund_request \<Rightarrow> billing_error + string) \<Rightarrow>
     actor \<Rightarrow> refund_input \<Rightarrow> AiCreditPurchase option \<Rightarrow> bool \<Rightarrow> AiRefund \<Rightarrow> AiRefund billing_prog" where
  "execute_refund post createRefund admin inp purchase fullyRefunded refund =
     bind (if ri_kind inp = AiRefundKind.CASH
           then bind (send_stripe_refund createRefund
             \<lparr>rq_paymentIntentId = orElse (Option.bind purchase c_stripePaymentIntentId) [],
              rq_amountCents = Some (math_round (num_of (ri_refundAmount inp) * 100)),
              rq_idempotencyKey = f_id refund\<rparr>) (\<lambda>i. return (Some i))
           else return None) (\<lambda>stripeRefundId.
     bind (post (refund_posting admin inp refund)) (\<lambda>transaction.
     bind (update_refund (f_id refund) (\<lambda>f. f\<lparr>f_status := AiRefundStatus.COMPLETED,
            f_stripeRefundId := stripeRefundId, f_transactionId := Some (t_id transaction)\<rparr>)) (\<lambda>completed.
     seq (case ri_purchaseId inp of
            Some i \<Rightarrow> if ri_kind inp = AiRefundKind.CASH \<and> fullyRefunded
              then seq (update_purchase i (\<lambda>c. c\<lparr>c_status := AiPurchaseStatus.REFUNDED\<rparr>)) (return ())
              else return ()
          | None \<Rightarrow> return ())
    (seq (record_audit \<lparr>e_actor = admin, e_tenantId = Some (ri_tenant inp), e_action = ''REFUND_COMPLETED'',
           e_entityType = ''ai_refund'', e_entityId = Some (f_id refund), e_reason = Some (ri_reason inp)\<rparr>)
     (return completed)))))"

definition fail_refund :: "actor \<Rightarrow> refund_input \<Rightarrow> AiRefund \<Rightarrow> billing_error \<Rightarrow> AiRefund billing_prog" where
  "fail_refund admin inp refund e =
     seq (update_refund (f_id refund) (\<lambda>f. f\<lparr>f_status := AiRefundStatus.FAILED\<rparr>))
    (seq (record_audit \<lparr>e_actor = admin, e_tenantId = Some (ri_tenant inp), e_action = ''REFUND_FAILED'',
           e_entityType = ''ai_refund'', e_entityId = Some (f_id refund), e_reason = None\<rparr>)
     (throw e))"

definition createRefundFor ::
    "(rat \<Rightarrow> rat) \<Rightarrow> (PostTransactionInput \<Rightarrow> AiWalletTransaction billing_prog) \<Rightarrow>
     (refund_request \<Rightarrow> billing_error + string) \<Rightarrow> actor \<Rightarrow> refund_input \<Rightarrow> AiRefund billing_prog" where
  "createRefundFor dec post createRefund admin inp =
     seq (throwIf (\<not> isFinite (ri_refundAmount inp) \<or> num_of (ri_refundAmount inp) \<le> 0) BillingValidationError)
    (seq (throwIf (blank (ri_reason inp)) BillingValidationError)
    (bind (getOrCreateWallet (ri_tenant inp)) (\<lambda>w.
     bind (refundable_purchase inp) (\<lambda>(purchase, fullyRefunded).
     seq (throwIf (ri_kind inp = AiRefundKind.CASH \<and>
            \<not> truthy (Option.bind purchase c_stripePaymentIntentId)) BillingValidationError)
    (bind (create_refund (pending_refund dec admin inp w)) (\<lambda>refund.
     catch (execute_refund post createRefund admin inp purchase fullyRefunded refund)
           (fail_refund admin inp refund)))))))"

record refund_filter =
  rf_tenantId :: "uuid option"
  rf_page :: "int option"
  rf_pageSize :: "int option"

definition list_refunds :: "refund_filter \<Rightarrow> AiRefund page_result billing_prog" where
  "list_refunds flt = gets (\<lambda>s. paginate 200 50 (rf_page flt) (rf_pageSize flt)
     (rev (filter (\<lambda>f. case rf_tenantId flt of None \<Rightarrow> True | Some i \<Rightarrow> f_tenantId f = i) (refunds s))))"

section \<open>The cumulative cap\<close>

text \<open>
  \<open>refunds_ok\<close>: keys, column values, and for every purchase the refunds that count against
  it add up to at most its amount.
\<close>

definition refunds_linked :: "billing \<Rightarrow> bool" where
  "refunds_linked s \<longleftrightarrow> f_purchaseId ` set (refunds s) \<subseteq> insert None (Some ` c_id ` set (purchases s))"

definition refunds_ok :: "(rat \<Rightarrow> rat) \<Rightarrow> billing \<Rightarrow> bool" where
  "refunds_ok dec s \<longleftrightarrow> distinct (map f_id (refunds s)) \<and>
     (\<forall>f \<in> set (refunds s). f_id f < next_id s \<and> dec (f_amount f) = f_amount f \<and> 0 \<le> f_amount f) \<and>
     refunds_linked s \<and>
     (\<forall>c \<in> set (purchases s). dec (c_amount c) = c_amount c \<and>
        refunded_so_far (c_id c) (refunds s) \<le> c_amount c)"

lemma refunds_ok_frame:
  "refunds_ok dec s \<Longrightarrow> refunds t = refunds s \<Longrightarrow> purchases t = purchases s \<Longrightarrow> next_id s \<le> next_id t \<Longrightarrow>
   refunds_ok dec t"
  by (fastforce simp: refunds_ok_def refunds_linked_def)

lemma refunds_ok_ignores_audits: "ignores_audits (refunds_ok dec)"
  by (auto simp: ignores_audits_def elim!: refunds_ok_frame)

lemma update_refund_ok [ok_simps]:
  "update_refund i f s = (Inr x, t) \<longleftrightarrow> (\<exists>r. find_by f_id i (refunds s) = Some r \<and> x = f r \<and>
     t = s\<lparr>refunds := set_row f_id i f (refunds s)\<rparr>)"
  by (auto simp: update_refund_def split: option.splits)

lemma create_refund_ok [ok_simps]:
  "create_refund mk s = (Inr r, t) \<longleftrightarrow> r = mk (next_id s) \<and>
     t = s\<lparr>refunds := refunds s @ [r], next_id := next_id s + 1\<rparr>"
  by (auto simp: create_refund_def Let_def)

lemma refunded_nonneg: "refunds_ok dec s \<Longrightarrow> 0 \<le> refunded_so_far i (refunds s)"
  unfolding refunded_so_far_def by (rule sum_where_nonneg) (auto simp: refunds_ok_def)

text \<open>Completing or failing a refund never raises what counts as refunded.\<close>

lemma refunded_update_le:
  assumes "\<And>f. f_purchaseId (g f) = f_purchaseId f" "\<And>f. f_amount (g f) = f_amount f"
    "\<And>f. f \<in> set rows \<Longrightarrow> 0 \<le> f_amount f"
    "\<And>f p. f \<in> set rows \<Longrightarrow> f_id f = i \<Longrightarrow> counts_as_refunded p (g f) \<Longrightarrow> counts_as_refunded p f"
  shows "refunded_so_far p (set_row f_id i g rows) \<le> refunded_so_far p rows"
  using assms(3,4)
proof (induction rows)
  case Nil
  then show ?case by (simp add: refunded_so_far_def)
next
  case (Cons f rows)
  then have "refunded_so_far p (set_row f_id i g rows) \<le> refunded_so_far p rows" "0 \<le> f_amount f"
    "f_id f = i \<Longrightarrow> counts_as_refunded p (g f) \<Longrightarrow> counts_as_refunded p f" by auto
  then show ?case by (auto simp: refunded_so_far_def assms(2))
qed

lemma refunds_ok_write:
  assumes ok: "refunds_ok dec s"
    and g: "\<And>f. f_id (g f) = f_id f" "\<And>f. f_purchaseId (g f) = f_purchaseId f" "\<And>f. f_amount (g f) = f_amount f"
    and count: "\<And>f p. f \<in> set (refunds s) \<Longrightarrow> f_id f = i \<Longrightarrow> counts_as_refunded p (g f) \<Longrightarrow> counts_as_refunded p f"
  shows "refunds_ok dec (s\<lparr>refunds := set_row f_id i g (refunds s)\<rparr>)"
proof -
  have "refunded_so_far p (set_row f_id i g (refunds s)) \<le> refunded_so_far p (refunds s)" for p
    by (rule refunded_update_le) (use ok g count in \<open>auto simp: refunds_ok_def\<close>)
  then have "refunded_so_far (c_id c) (set_row f_id i g (refunds s)) \<le> c_amount c" if "c \<in> set (purchases s)" for c
    using ok that order_trans by (fastforce simp: refunds_ok_def)
  moreover have "refunds_linked (s\<lparr>refunds := set_row f_id i g (refunds s)\<rparr>)"
    using ok g by (simp add: refunds_ok_def refunds_linked_def)
  ultimately show ?thesis
    using ok g by (auto simp: refunds_ok_def in_set_row)
qed

lemma refunds_ok_purchase_write:
  assumes "refunds_ok dec s" "\<And>c. c_id (f c) = c_id c" "\<And>c. c_amount (f c) = c_amount c"
  shows "refunds_ok dec (s\<lparr>purchases := update_where p f (purchases s)\<rparr>)"
  using assms by (auto simp: refunds_ok_def refunds_linked_def in_set_row)

text \<open>A usage charge is reversed at most once (the dispute service's own rule).\<close>

definition is_reversal_of :: "uuid \<Rightarrow> uuid \<Rightarrow> AiWalletTransaction \<Rightarrow> bool" where
  "is_reversal_of tenantId i t \<longleftrightarrow> t_tenantId t = tenantId \<and> t_type t = AiLedgerType.CHARGE_REVERSAL \<and>
     t_relatedEntityType t = Some ''ai_wallet_transaction'' \<and> t_relatedEntityId t = Some i"

definition reversals_ok :: "billing \<Rightarrow> bool" where
  "reversals_ok s \<longleftrightarrow> (\<forall>tenantId i. length (filter (is_reversal_of tenantId i) (txs s)) \<le> 1)"

lemma reversals_ok_frame: "reversals_ok s \<Longrightarrow> txs t = txs s \<Longrightarrow> reversals_ok t"
  by (simp add: reversals_ok_def)

lemma reversals_ok_snoc:
  assumes "reversals_ok s" "txs t = txs s @ [r]"
    "t_type r \<noteq> AiLedgerType.CHARGE_REVERSAL \<or>
     (\<forall>tenantId i. is_reversal_of tenantId i r \<longrightarrow> find (is_reversal_of tenantId i) (txs s) = None)"
  shows "reversals_ok t"
  unfolding reversals_ok_def
proof (intro allI)
  fix tenantId i
  show "length (filter (is_reversal_of tenantId i) (txs t)) \<le> 1"
  proof (cases "is_reversal_of tenantId i r")
    case True
    with assms(3) have "filter (is_reversal_of tenantId i) (txs s) = []"
      by (auto simp: find_None_iff filter_empty_conv is_reversal_of_def)
    with True show ?thesis by (simp add: assms(2))
  next
    case False
    with assms(1) show ?thesis by (simp add: assms(2) reversals_ok_def)
  qed
qed

context atomic_ledger_service
begin

abbreviation inv3 :: "billing \<Rightarrow> bool" where
  "inv3 s \<equiv> ok s \<and> purchases_ok dec s \<and> refunds_ok dec s \<and> reversals_ok s"

lemma inv3_refund_write:
  assumes "inv3 s" "refunds_ok dec (s\<lparr>refunds := rows\<rparr>)"
  shows "inv3 (s\<lparr>refunds := rows\<rparr>)"
  using assms ok_frame [of s "s\<lparr>refunds := rows\<rparr>"] purchases_ok_frame [of dec s "s\<lparr>refunds := rows\<rparr>" "[]"]
    reversals_ok_frame [of s "s\<lparr>refunds := rows\<rparr>"] by simp

lemma inv3_ignores_audits: "ignores_audits inv3"
  using inv_ignores_audits refunds_ok_ignores_audits by (simp add: ignores_audits_def reversals_ok_def)

lemma post_inv3:
  assumes "inv3 s" "post inp s = (x, t)" "pi_type inp \<noteq> AiLedgerType.PURCHASE"
    and reversal: "pi_type inp \<noteq> AiLedgerType.CHARGE_REVERSAL \<or>
      (\<forall>i. pi_relatedEntityId inp = Some i \<longrightarrow> find (is_reversal_of (pi_tenantId inp) i) (txs s) = None)"
  shows "inv3 t \<and> refunds t = refunds s \<and> purchases t = purchases s"
proof (cases x)
  case (Inl e)
  with post_atomic assms show ?thesis by auto
next
  case (Inr r)
  with assms have ok: "ok s" and run: "post inp s = (Inr r, t)" by simp_all
  note laws = post_ok [OF ok run] post_row [OF ok run] post_contents [OF ok run] post_frame [OF ok run]
  have fresh: "next_id s \<le> next_id t" using laws by simp
  have "purchases_ok dec t"
    by (rule purchases_ok_frame [of dec s t "[r]"]) (use assms laws fresh in \<open>auto simp: is_credit_for_def\<close>)
  moreover have "refunds_ok dec t"
    by (rule refunds_ok_frame [of dec s]) (use assms laws fresh in auto)
  moreover have "reversals_ok t"
    by (rule reversals_ok_snoc [of s _ r]) (use assms laws in \<open>auto simp: is_reversal_of_def\<close>)
  ultimately show ?thesis using laws by simp
qed

lemma keeps_fail_refund: "keeps inv3 (fail_refund admin inp refund e)"
proof -
  have "keeps inv3 (update_refund i (\<lambda>f. f\<lparr>f_status := AiRefundStatus.FAILED\<rparr>))" for i
  proof (rule keepsI)
    fix s x t assume inv: "inv3 s" and run: "update_refund i (\<lambda>f. f\<lparr>f_status := AiRefundStatus.FAILED\<rparr>) s = (x, t)"
    have "inv3 (s\<lparr>refunds := set_row f_id i (\<lambda>f. f\<lparr>f_status := AiRefundStatus.FAILED\<rparr>) (refunds s)\<rparr>)"
      by (rule inv3_refund_write [OF inv], rule refunds_ok_write)
        (use inv in \<open>auto simp: counts_as_refunded_def\<close>)
    with inv run show "inv3 t" by (auto simp: update_refund_def split: option.splits)
  qed
  then show ?thesis
    unfolding fail_refund_def by (intro keeps_intros keeps_record_audit [OF inv3_ignores_audits])
qed

lemma keeps_send: "keeps inv3 (send_stripe_refund createRefund request)"
proof -
  have "keeps inv3 (modify (\<lambda>s. s\<lparr>stripe_refunds := stripe_refunds s @ [request]\<rparr>))"
    using ok_frame refunds_ok_frame reversals_ok_frame
    by (auto simp: keeps_def run_simps elim!: purchases_ok_frame [where rows = "[]"])
  then show ?thesis unfolding send_stripe_refund_def by (intro keeps_intros)
qed

text \<open>The \<open>try\<close> body, from a state that holds the pending row.\<close>

lemma wp_complete_refund:
  assumes "inv3 s" "find_by f_id i (refunds s) = Some f0" "f_status f0 = AiRefundStatus.PENDING"
  shows "wp (update_refund i (\<lambda>f. f\<lparr>f_status := AiRefundStatus.COMPLETED, f_stripeRefundId := a, f_transactionId := b\<rparr>))
     (\<lambda>_ t. inv3 t \<and> purchases t = purchases s) (\<lambda>_. inv3) s"
proof -
  have "f = f0" if "f \<in> set (refunds s)" "f_id f = i" for f
    using assms that find_by_unique [of f_id "refunds s" f] by (simp add: refunds_ok_def)
  then have "inv3 (s\<lparr>refunds := set_row f_id i (\<lambda>f. f\<lparr>f_status := AiRefundStatus.COMPLETED,
      f_stripeRefundId := a, f_transactionId := b\<rparr>) (refunds s)\<rparr>)"
    by (intro inv3_refund_write [OF assms(1)] refunds_ok_write)
      (use assms in \<open>auto simp: counts_as_refunded_def\<close>)
  with assms(2) show ?thesis by (simp add: wp_def update_refund_def)
qed

lemma wp_mark_refunded:
  assumes "inv3 s" "find_by c_id i (purchases s) = Some c" "settled c"
  shows "wp (update_purchase i (\<lambda>c. c\<lparr>c_status := AiPurchaseStatus.REFUNDED\<rparr>)) (\<lambda>_. inv3) (\<lambda>_. inv3) s"
proof -
  have "y = c" if "y \<in> set (purchases s)" "c_id y = i" for y
    using assms that find_purchase_keys [of dec s y] by simp
  then have "inv (s\<lparr>purchases := set_row c_id i (\<lambda>c. c\<lparr>c_status := AiPurchaseStatus.REFUNDED\<rparr>) (purchases s)\<rparr>)"
    by (intro inv_write) (use assms in \<open>auto simp: settled_def\<close>)
  moreover have "refunds_ok dec (s\<lparr>purchases := set_row c_id i (\<lambda>c. c\<lparr>c_status := AiPurchaseStatus.REFUNDED\<rparr>) (purchases s)\<rparr>)"
    by (rule refunds_ok_purchase_write) (use assms in simp_all)
  ultimately show ?thesis
    using assms reversals_ok_frame [of s "s\<lparr>purchases := set_row c_id i (\<lambda>c. c\<lparr>c_status := AiPurchaseStatus.REFUNDED\<rparr>) (purchases s)\<rparr>"]
    by (simp add: wp_def update_purchase_def)
qed

lemma wp_post:
  assumes "inv3 s" "pi_type inp \<noteq> AiLedgerType.PURCHASE" "pi_type inp \<noteq> AiLedgerType.CHARGE_REVERSAL"
  shows "wp (post inp) (\<lambda>_ t. inv3 t \<and> refunds t = refunds s \<and> purchases t = purchases s)
    (\<lambda>_ t. inv3 t \<and> refunds t = refunds s \<and> purchases t = purchases s) s"
  unfolding wp_run using post_inv3 assms by blast

lemma wp_send:
  assumes "inv3 s"
  shows "wp (send_stripe_refund createRefund request)
    (\<lambda>_ t. inv3 t \<and> refunds t = refunds s \<and> purchases t = purchases s)
    (\<lambda>_ t. inv3 t \<and> refunds t = refunds s \<and> purchases t = purchases s) s"
proof -
  have "inv3 (s\<lparr>stripe_refunds := stripe_refunds s @ [request]\<rparr>)"
    using assms ok_frame refunds_ok_frame reversals_ok_frame by (auto elim!: purchases_ok_frame [where rows = "[]"])
  with assms show ?thesis by (auto simp: send_stripe_refund_def wp_simps split: sum.split)
qed

lemma wp_audit:
  assumes "inv3 s" "\<And>t. inv3 t \<Longrightarrow> Q () t"
  shows "wp (record_audit entry) Q E s"
proof -
  obtain a where run: "record_audit entry s = (Inr (), s\<lparr>audits := audits s @ [a]\<rparr>)"
    using record_audit_ok by blast
  have "inv3 (s\<lparr>audits := audits s @ [a]\<rparr>)"
    by (rule keepsD [OF keeps_record_audit [OF inv3_ignores_audits] assms(1) run])
  with run assms(2) show ?thesis by (simp add: wp_def)
qed

lemma wp_execute_refund:
  assumes "inv3 s" "find_by f_id (f_id refund) (refunds s) = Some f0" "f_status f0 = AiRefundStatus.PENDING"
    and "\<And>i. ri_purchaseId inp = Some i \<Longrightarrow> ri_kind inp = AiRefundKind.CASH \<Longrightarrow>
      \<exists>c. find_by c_id i (purchases s) = Some c \<and> settled c"
  shows "wp (execute_refund post createRefund admin inp purchase full refund) (\<lambda>_. inv3) (\<lambda>_. inv3) s"
proof -
  have type: "pi_type (refund_posting admin inp refund) \<noteq> AiLedgerType.PURCHASE"
    "pi_type (refund_posting admin inp refund) \<noteq> AiLedgerType.CHARGE_REVERSAL"
    by (simp_all add: refund_posting_def)
  have rest: "wp (bind (post (refund_posting admin inp refund)) (\<lambda>transaction.
     bind (update_refund (f_id refund) (\<lambda>f. f\<lparr>f_status := AiRefundStatus.COMPLETED,
            f_stripeRefundId := sid, f_transactionId := Some (t_id transaction)\<rparr>)) (\<lambda>completed.
     seq (case ri_purchaseId inp of
            Some i \<Rightarrow> if ri_kind inp = AiRefundKind.CASH \<and> full
              then seq (update_purchase i (\<lambda>c. c\<lparr>c_status := AiPurchaseStatus.REFUNDED\<rparr>)) (return ())
              else return ()
          | None \<Rightarrow> return ())
    (seq (record_audit entry) (return completed))))) (\<lambda>_. inv3) (\<lambda>_. inv3) u"
    if u: "inv3 u" "refunds u = refunds s" "purchases u = purchases s" for u sid entry
    unfolding wp_bind wp_seq
  proof (rule wp_call [OF wp_post [OF u(1) type]])
    fix r t assume "inv3 t \<and> refunds t = refunds u \<and> purchases t = purchases u"
    then have t: "inv3 t" "refunds t = refunds u" "purchases t = purchases u" by blast+
    show "wp (update_refund (f_id refund) (\<lambda>f. f\<lparr>f_status := AiRefundStatus.COMPLETED,
            f_stripeRefundId := sid, f_transactionId := Some (t_id r)\<rparr>)) (\<lambda>completed.
       wp (case ri_purchaseId inp of
            Some i \<Rightarrow> if ri_kind inp = AiRefundKind.CASH \<and> full
              then seq (update_purchase i (\<lambda>c. c\<lparr>c_status := AiPurchaseStatus.REFUNDED\<rparr>)) (return ())
              else return ()
          | None \<Rightarrow> return ()) (\<lambda>_. wp (record_audit entry) (\<lambda>_. wp (return completed) (\<lambda>_. inv3) (\<lambda>_. inv3))
            (\<lambda>_. inv3)) (\<lambda>_. inv3)) (\<lambda>_. inv3) t"
    proof (rule wp_call [OF wp_complete_refund [OF t(1)]])
      show "find_by f_id (f_id refund) (refunds t) = Some f0" using assms(2) u t by simp
      show "f_status f0 = AiRefundStatus.PENDING" by (rule assms(3))
      fix completed v assume "inv3 v \<and> purchases v = purchases t"
      then have v: "inv3 v" "purchases v = purchases t" by blast+
      have audit: "wp (record_audit entry) (\<lambda>_. wp (return completed) (\<lambda>_. inv3) (\<lambda>_. inv3)) (\<lambda>_. inv3) w"
        if "inv3 w" for w
        by (rule wp_audit [OF that]) (simp add: wp_simps)
      show "wp (case ri_purchaseId inp of
            Some i \<Rightarrow> if ri_kind inp = AiRefundKind.CASH \<and> full
              then seq (update_purchase i (\<lambda>c. c\<lparr>c_status := AiPurchaseStatus.REFUNDED\<rparr>)) (return ())
              else return ()
          | None \<Rightarrow> return ()) (\<lambda>_. wp (record_audit entry) (\<lambda>_. wp (return completed) (\<lambda>_. inv3) (\<lambda>_. inv3))
            (\<lambda>_. inv3)) (\<lambda>_. inv3) v"
      proof (cases "\<exists>i. ri_purchaseId inp = Some i \<and> ri_kind inp = AiRefundKind.CASH \<and> full")
        case True
        then obtain i where i: "ri_purchaseId inp = Some i" "ri_kind inp = AiRefundKind.CASH" full by blast
        with assms(4) obtain c where c: "find_by c_id i (purchases v) = Some c" "settled c"
          using u t v by metis
        show ?thesis
          using i by (simp add: wp_seq wp_return) (rule wp_call [OF wp_mark_refunded [OF v(1) c]]; simp add: wp_return audit)
      next
        case False
        then show ?thesis using audit [OF v(1)] by (auto simp: wp_return split: option.split)
      qed
    qed
  qed simp_all
  have first: "wp (if ri_kind inp = AiRefundKind.CASH
      then bind (send_stripe_refund createRefund request) (\<lambda>i. return (Some i)) else return None)
    (\<lambda>_ t. inv3 t \<and> refunds t = refunds s \<and> purchases t = purchases s)
    (\<lambda>_ t. inv3 t \<and> refunds t = refunds s \<and> purchases t = purchases s) s" for request
    using wp_send [OF assms(1), of createRefund request] assms(1) by (simp add: wp_bind wp_return [abs_def])
  show ?thesis
    unfolding execute_refund_def
    by (subst wp_bind, rule wp_call [OF first]) (use rest in blast)+
qed

text \<open>Whatever \<open>try\<close> does, the handler leaves the cap intact.\<close>

lemma wp_try_refund:
  assumes "inv3 s" "find_by f_id (f_id refund) (refunds s) = Some f0" "f_status f0 = AiRefundStatus.PENDING"
    and "\<And>i. ri_purchaseId inp = Some i \<Longrightarrow> ri_kind inp = AiRefundKind.CASH \<Longrightarrow>
      \<exists>c. find_by c_id i (purchases s) = Some c \<and> settled c"
  shows "wp (catch (execute_refund post createRefund admin inp purchase full refund) (fail_refund admin inp refund))
    (\<lambda>_. inv3) (\<lambda>_. inv3) s"
proof -
  have "wp (fail_refund admin inp refund e) (\<lambda>_. inv3) (\<lambda>_. inv3) t" if "inv3 t" for e t
    using keeps_fail_refund [of admin inp refund e] that by (simp add: wp_keeps)
  then show ?thesis
    unfolding wp_catch by (intro wp_call [OF wp_execute_refund [OF assms]]) auto
qed

end

context money_column
begin

abbreviation all_books :: "billing \<Rightarrow> bool" where
  "all_books s \<equiv> wallet_ok dec s \<and> purchases_ok dec s \<and> refunds_ok dec s \<and> reversals_ok s"

lemma refundable_purchase_okD:
  assumes "refundable_purchase inp s = (Inr (purchase, full), t)"
  shows "t = s \<and> (case ri_purchaseId inp of None \<Rightarrow> purchase = None \<and> \<not> full
    | Some i \<Rightarrow> \<exists>c \<in> set (purchases s). purchase = Some c \<and> c_id c = i \<and>
        refunded_so_far i (refunds s) + num_of (ri_refundAmount inp) \<le> c_amount c \<and>
        full = (c_amount c \<le> refunded_so_far i (refunds s) + num_of (ri_refundAmount inp)))"
proof (cases "ri_purchaseId inp")
  case None
  with assms show ?thesis by (simp add: refundable_purchase_def ok_simps)
next
  case (Some i)
  with assms obtain c where "find (\<lambda>c. c_id c = i \<and> c_tenantId c = ri_tenant inp) (purchases s) = Some c"
    "\<not> c_amount c - refunded_so_far (c_id c) (refunds s) < num_of (ri_refundAmount inp)"
    "purchase = Some c" "full = (c_amount c \<le> refunded_so_far (c_id c) (refunds s) + num_of (ri_refundAmount inp))" "t = s"
    by (auto simp: refundable_purchase_def ok_simps)
  moreover from this have "c \<in> set (purchases s)" "c_id c = i" by (auto dest: find_in)
  ultimately show ?thesis using Some by (auto simp: algebra_simps not_less)
qed

lemma all_books_pending:
  assumes ok: "all_books s" and amount: "0 < num_of (ri_refundAmount inp)"
    and cap: "\<And>i. ri_purchaseId inp = Some i \<Longrightarrow> \<exists>c \<in> set (purchases s). c_id c = i \<and>
      refunded_so_far i (refunds s) + num_of (ri_refundAmount inp) \<le> c_amount c"
  shows "all_books (s\<lparr>refunds := refunds s @ [pending_refund dec admin inp w (next_id s)], next_id := next_id s + 1\<rparr>)"
    (is "all_books ?t")
proof -
  let ?x = "num_of (ri_refundAmount inp)" and ?r = "pending_refund dec admin inp w (next_id s)"
  have so_far: "dec (refunded_so_far i (refunds s)) = refunded_so_far i (refunds s)" for i
    unfolding refunded_so_far_def sum_where_def using ok by (intro dec_sum_list) (auto simp: refunds_ok_def)
  have "refunded_so_far (c_id c) (refunds s @ [?r]) \<le> c_amount c" if c: "c \<in> set (purchases s)" for c
  proof (cases "ri_purchaseId inp = Some (c_id c)")
    case True
    from cap [OF True] obtain d where "d \<in> set (purchases s)" "c_id d = c_id c"
      "refunded_so_far (c_id c) (refunds s) + ?x \<le> c_amount d" by blast
    moreover from this c ok have "d = c"
      using find_purchase_keys [of dec s c] find_purchase_keys [of dec s d] by simp
    ultimately have "refunded_so_far (c_id c) (refunds s) + ?x \<le> c_amount c" by simp
    then have "dec (refunded_so_far (c_id c) (refunds s) + ?x) \<le> dec (c_amount c)" by (rule dec_mono)
    moreover have "dec (refunded_so_far (c_id c) (refunds s) + ?x) = refunded_so_far (c_id c) (refunds s) + dec ?x"
      using refunded_nonneg ok amount by (intro dec_shift) (auto simp: so_far)
    moreover have "dec (c_amount c) = c_amount c" using ok c by (simp add: refunds_ok_def)
    ultimately show ?thesis
      using True by (simp add: refunded_so_far_def counts_as_refunded_def pending_refund_def)
  next
    case False
    then show ?thesis
      using ok c by (simp add: refunds_ok_def refunded_so_far_def counts_as_refunded_def pending_refund_def)
  qed
  moreover have "refunds_linked ?t"
    using ok cap by (cases "ri_purchaseId inp") (auto simp: refunds_ok_def refunds_linked_def pending_refund_def)
  ultimately have "refunds_ok dec ?t"
    using ok amount by (fastforce simp: refunds_ok_def pending_refund_def dec_idem dec_nonneg)
  moreover have "wallet_ok dec ?t" using ok by (auto elim: wallet_ok_frame)
  moreover have "purchases_ok dec ?t" using ok by (auto elim!: purchases_ok_frame [where rows = "[]"])
  moreover have "reversals_ok ?t" using ok by (auto elim: reversals_ok_frame)
  ultimately show ?thesis by simp
qed

lemma keeps_createRefundFor:
  "keeps all_books (createRefundFor dec (postTransaction dec) createRefund admin inp)"
  unfolding wp_keeps
proof (intro allI impI)
  fix s assume ok: "all_books s"
  have get: "wp (getOrCreateWallet tenant) (\<lambda>_. all_books) (\<lambda>_. all_books) s" for tenant
  proof -
    have "all_books t" if "getOrCreateWallet tenant s = (x, t)" for x t
      using that ok getOrCreateWallet_frame [OF that] keepsD [OF keeps_books_getOrCreateWallet _ that]
        refunds_ok_frame [of dec s t] reversals_ok_frame [of s t] by auto
    then show ?thesis by (auto simp: wp_run)
  qed
  have main: "wp (bind (refundable_purchase inp) (\<lambda>(purchase, full).
     seq (throwIf (ri_kind inp = AiRefundKind.CASH \<and> \<not> truthy (Option.bind purchase c_stripePaymentIntentId)) BillingValidationError)
    (bind (create_refund (pending_refund dec admin inp w)) (\<lambda>refund.
     catch (execute_refund (postTransaction dec) createRefund admin inp purchase full refund)
           (fail_refund admin inp refund))))) (\<lambda>_. all_books) (\<lambda>_. all_books) t"
    if t: "all_books t" and amount: "0 < num_of (ri_refundAmount inp)" for t w
  proof (cases "refundable_purchase inp t")
    case (Pair r u)
    show ?thesis
    proof (cases r)
      case (Inl e)
      with Pair have "u = t"
        by (auto simp: refundable_purchase_def run_bind run_seq run_simps split: option.splits if_splits)
      with Pair Inl t show ?thesis by (simp add: wp_bind wp_def [of "refundable_purchase inp"])
    next
      case (Inr p)
      obtain purchase full where p: "p = (purchase, full)" by (cases p)
      note D = refundable_purchase_okD [OF Pair [unfolded Inr p]]
      let ?row = "pending_refund dec admin inp w (next_id t)"
      let ?v = "t\<lparr>refunds := refunds t @ [?row], next_id := next_id t + 1\<rparr>"
      have v: "all_books ?v"
        by (rule all_books_pending [OF t amount]) (use D in auto)
      have new: "find_by f_id (f_id ?row) (refunds ?v) = Some ?row"
      proof -
        have "find_by f_id (next_id t) (refunds t) = None"
          using t by (auto simp: find_by_None refunds_ok_def)
        then show ?thesis by (simp add: pending_refund_def)
      qed
      have "wp (catch (execute_refund (postTransaction dec) createRefund admin inp purchase full ?row)
          (fail_refund admin inp ?row)) (\<lambda>_. all_books) (\<lambda>_. all_books) ?v"
        if "\<not> (ri_kind inp = AiRefundKind.CASH \<and> \<not> truthy (Option.bind purchase c_stripePaymentIntentId))"
      proof (rule atomic_posting.wp_try_refund [OF v new])
        fix i assume i: "ri_purchaseId inp = Some i" "ri_kind inp = AiRefundKind.CASH"
        with D obtain c where c: "c \<in> set (purchases t)" "purchase = Some c" "c_id c = i" by auto
        with that i have "c_stripePaymentIntentId c \<noteq> None" by (simp add: truthy_def)
        with c t have "settled c" by (auto simp: purchases_ok_def purchase_ok_def split: if_splits)
        with c t find_purchase_keys [of dec t c]
        show "\<exists>c. find_by c_id i (purchases ?v) = Some c \<and> settled c" by auto
      qed (simp add: pending_refund_def)
      with Pair Inr p D v show ?thesis
        by (simp add: wp_bind wp_seq wp_throwIf wp_Inr wp_create_refund t)
    qed
  qed
  show "wp (createRefundFor dec (postTransaction dec) createRefund admin inp) (\<lambda>_. all_books) (\<lambda>_. all_books) s"
  proof (cases "isFinite (ri_refundAmount inp) \<and> 0 < num_of (ri_refundAmount inp) \<and> \<not> blank (ri_reason inp)")
    case True
    then have amount: "0 < num_of (ri_refundAmount inp)" by blast
    have "wp (bind (getOrCreateWallet (ri_tenant inp)) (\<lambda>w. bind (refundable_purchase inp) (\<lambda>(purchase, full).
       seq (throwIf (ri_kind inp = AiRefundKind.CASH \<and> \<not> truthy (Option.bind purchase c_stripePaymentIntentId)) BillingValidationError)
      (bind (create_refund (pending_refund dec admin inp w)) (\<lambda>refund.
       catch (execute_refund (postTransaction dec) createRefund admin inp purchase full refund)
           (fail_refund admin inp refund)))))) (\<lambda>_. all_books) (\<lambda>_. all_books) s"
      by (subst wp_bind, rule wp_call [OF get]) (use main [OF _ amount] in blast)+
    with True show ?thesis
      by (simp add: createRefundFor_def wp_seq wp_throwIf not_le)
  next
    case False
    with ok show ?thesis by (auto simp: createRefundFor_def wp_seq wp_throwIf not_le)
  qed
qed

end

end
