(* ===== verification/Dispute.thy ===== *)
theory Dispute
  imports Refund
begin

text \<open>
  \<open>dispute.service.ts\<close>: disputes, their thread and the administrator's resolutions.  \<open>post\<close>
  is the wallet service's \<open>postTransaction\<close> and \<open>refund\<close> the refund service's \<open>create\<close>.
  Generated prose is kept to its constant parts: amounts and reference numbers are not
  interpolated.
\<close>

section \<open>Opening and talking\<close>

record dispute_input =
  di_type :: AiDisputeType
  di_subject :: string
  di_description :: string
  di_relatedTransactionId :: "uuid option"
  di_relatedUsageLogId :: "uuid option"

definition open_dispute :: "billing_user \<Rightarrow> dispute_input \<Rightarrow> uuid \<Rightarrow> AiDispute" where
  "open_dispute user inp i =
     \<lparr>d_id = i, d_tenantId = bu_tenantId user, d_raisedById = bu_id user, d_type = di_type inp,
      d_status = AiDisputeStatus.OPEN, d_subject = take 300 (di_subject inp),
      d_description = take 5000 (di_description inp),
      d_relatedTransactionId = di_relatedTransactionId inp, d_relatedUsageLogId = di_relatedUsageLogId inp,
      d_assignedToId = None, d_resolutionNotes = None, d_resolvedById = None, d_resolvedAt = None\<rparr>"

definition createDispute :: "billing_user \<Rightarrow> dispute_input \<Rightarrow> AiDispute billing_prog" where
  "createDispute user inp =
     seq (throwIf (blank (di_subject inp) \<or> blank (di_description inp)) BillingValidationError)
    (seq (case di_relatedTransactionId inp of
            None \<Rightarrow> return ()
          | Some i \<Rightarrow> bind (gets (\<lambda>s. find (\<lambda>t. t_id t = i \<and> t_tenantId t = bu_tenantId user) (txs s)))
              (\<lambda>txn. throwIf (txn = None) BillingNotFoundError))
    (seq (case di_relatedUsageLogId inp of
            None \<Rightarrow> return ()
          | Some i \<Rightarrow> bind (gets (\<lambda>s. find (\<lambda>u. u_id u = i \<and> u_tenantId u = bu_tenantId user) (usageLogs s)))
              (\<lambda>usage. throwIf (usage = None) BillingNotFoundError))
    (bind (create_dispute (open_dispute user inp)) (\<lambda>dispute.
     seq (record_audit \<lparr>e_actor = system_actor\<lparr>actor_id := Some (bu_id user)\<rparr>,
            e_tenantId = Some (bu_tenantId user), e_action = ''DISPUTE_OPENED'',
            e_entityType = ''ai_dispute'', e_entityId = Some (d_id dispute), e_reason = None\<rparr>)
     (return dispute)))))"

text \<open>The dispute row; its messages are the rows of \<open>messages\<close> with its id.\<close>

definition getWithThread :: "uuid \<Rightarrow> uuid option \<Rightarrow> AiDispute billing_prog" where
  "getWithThread disputeId tenantId =
     bind (gets (\<lambda>s. find (\<lambda>d. d_id d = disputeId \<and>
        (case tenantId of None \<Rightarrow> True | Some t \<Rightarrow> d_tenantId d = t)) (disputes s))) (orThrow BillingNotFoundError)"

record message_author =
  ma_id :: uuid
  ma_tenantId :: "uuid option"
  ma_isAdmin :: bool

definition addMessage :: "message_author \<Rightarrow> uuid \<Rightarrow> string \<Rightarrow> string option \<Rightarrow> AiDisputeMessage billing_prog" where
  "addMessage author disputeId body attachmentUrl =
     seq (throwIf (blank body) BillingValidationError)
    (bind (getWithThread disputeId (if ma_isAdmin author then None else ma_tenantId author)) (\<lambda>dispute.
     bind (create_message
       \<lparr>m_disputeId = d_id dispute, m_tenantId = d_tenantId dispute, m_authorId = Some (ma_id author),
        m_authorRole = (if ma_isAdmin author then ''ADMIN'' else ''CUSTOMER''), m_body = take 5000 body,
        m_attachmentUrl = map_option (take 1000) attachmentUrl\<rparr>) (\<lambda>message.
     seq (if \<not> ma_isAdmin author \<and> d_status dispute = AiDisputeStatus.AWAITING_CUSTOMER
          then seq (update_dispute (d_id dispute) (\<lambda>d. d\<lparr>d_status := AiDisputeStatus.UNDER_INVESTIGATION\<rparr>)) (return ())
          else return ())
     (return message))))"

section \<open>Administration\<close>

definition systemMessage :: "uuid \<Rightarrow> uuid \<Rightarrow> string \<Rightarrow> unit billing_prog" where
  "systemMessage disputeId tenantId body =
     seq (create_message \<lparr>m_disputeId = disputeId, m_tenantId = tenantId, m_authorId = None,
            m_authorRole = ''SYSTEM'', m_body = take 5000 body, m_attachmentUrl = None\<rparr>) (return ())"

definition auditAction :: "actor \<Rightarrow> uuid \<Rightarrow> uuid \<Rightarrow> string \<Rightarrow> string option \<Rightarrow> unit billing_prog" where
  "auditAction admin disputeId tenantId action reason =
     record_audit \<lparr>e_actor = admin, e_tenantId = Some tenantId, e_action = action,
       e_entityType = ''ai_dispute'', e_entityId = Some disputeId, e_reason = reason\<rparr>"

definition with_note :: "string \<Rightarrow> string option \<Rightarrow> string" where
  "with_note summary note = summary @ (if truthy note then '' - '' @ orElse note [] else [])"

definition resolve :: "actor \<Rightarrow> AiDispute \<Rightarrow> string \<Rightarrow> string option \<Rightarrow> unit billing_prog" where
  "resolve admin dispute summary note =
     bind (gets clock) (\<lambda>now.
     seq (update_dispute (d_id dispute) (\<lambda>d.
            d\<lparr>d_status := AiDisputeStatus.RESOLVED, d_resolvedById := actor_id admin,
              d_resolvedAt := Some now, d_resolutionNotes := Some (take 5000 (with_note summary note))\<rparr>))
    (seq (systemMessage (d_id dispute) (d_tenantId dispute) summary)
         (auditAction admin (d_id dispute) (d_tenantId dispute) ''DISPUTE_RESOLVED'' (Some (with_note summary note)))))"

definition updateStatus :: "actor \<Rightarrow> uuid \<Rightarrow> AiDisputeStatus \<Rightarrow> string option \<Rightarrow> AiDispute billing_prog" where
  "updateStatus admin disputeId status note =
     bind (getWithThread disputeId None) (\<lambda>before.
     bind (gets clock) (\<lambda>now.
     bind (update_dispute disputeId (\<lambda>d.
        let d1 = d\<lparr>d_status := status\<rparr> in
        if status \<in> {AiDisputeStatus.RESOLVED, AiDisputeStatus.CLOSED}
        then let d2 = d1\<lparr>d_resolvedById := actor_id admin, d_resolvedAt := Some now\<rparr> in
             if truthy note then d2\<lparr>d_resolutionNotes := map_option (take 5000) note\<rparr> else d2
        else d1)) (\<lambda>updated.
     seq (systemMessage disputeId (d_tenantId before) (with_note ''Status changed'' note))
    (seq (auditAction admin disputeId (d_tenantId before) ''DISPUTE_STATUS_CHANGED'' note)
     (return updated)))))"

datatype DisputeAdminAction =
    APPROVE_REFUND jsnum AiRefundKind "uuid option" "string option"
  | PARTIAL_REFUND jsnum AiRefundKind "uuid option" "string option"
  | REJECT string
  | ISSUE_BONUS_CREDITS jsnum "string option"
  | REVERSE_CHARGE uuid "string option"
  | MANUAL_ADJUSTMENT jsnum string
  | ESCALATE "uuid option" "string option"

datatype action_result = RefundId uuid | TransactionId uuid | Rejected | Escalated

definition dispute_posting :: "actor \<Rightarrow> AiDispute \<Rightarrow> AiLedgerType \<Rightarrow> rat \<Rightarrow> string \<Rightarrow> PostTransactionInput" where
  "dispute_posting admin dispute type amount notes =
     \<lparr>pi_tenantId = d_tenantId dispute, pi_type = type, pi_amount = amount, pi_createdById = actor_id admin,
      pi_notes = Some (take 1000 notes), pi_relatedEntityType = Some ''ai_dispute'',
      pi_relatedEntityId = Some (d_id dispute), pi_allowNegativeBalance = False\<rparr>"

text \<open>
  REVERSE_CHARGE: the check that the charge was not reversed yet, and the posting.  They are
  separate database calls with no lock in between.
\<close>

definition reverse_check :: "AiDispute \<Rightarrow> uuid \<Rightarrow> AiWalletTransaction billing_prog" where
  "reverse_check dispute transactionId =
     bind (gets (\<lambda>s. find (\<lambda>t. t_id t = transactionId \<and> t_tenantId t = d_tenantId dispute \<and>
        t_type t = AiLedgerType.USAGE_CHARGE) (txs s))) (\<lambda>row.
     bind (orThrow BillingNotFoundError row) (\<lambda>original.
     bind (gets (\<lambda>s. find (is_reversal_of (d_tenantId dispute) (t_id original)) (txs s))) (\<lambda>alreadyReversed.
     seq (throwIf (alreadyReversed \<noteq> None) BillingValidationError)
     (return original))))"

definition reversal_posting :: "actor \<Rightarrow> AiDispute \<Rightarrow> AiWalletTransaction \<Rightarrow> PostTransactionInput" where
  "reversal_posting admin dispute original =
     \<lparr>pi_tenantId = d_tenantId dispute, pi_type = AiLedgerType.CHARGE_REVERSAL,
      pi_amount = - t_amount original, pi_createdById = actor_id admin,
      pi_notes = Some ''Reversal (dispute)'', pi_relatedEntityType = Some ''ai_wallet_transaction'',
      pi_relatedEntityId = Some (t_id original), pi_allowNegativeBalance = False\<rparr>"

definition refund_action ::
    "(actor \<Rightarrow> refund_input \<Rightarrow> AiRefund billing_prog) \<Rightarrow> actor \<Rightarrow> AiDispute \<Rightarrow> string \<Rightarrow> jsnum \<Rightarrow> AiRefundKind \<Rightarrow>
     uuid option \<Rightarrow> string option \<Rightarrow> action_result billing_prog" where
  "refund_action refund admin dispute summary amount kind purchaseId note =
     seq (throwIf (kind = AiRefundKind.CASH \<and> purchaseId = None) BillingValidationError)
    (bind (refund admin
       \<lparr>ri_tenant = d_tenantId dispute, ri_refundAmount = amount, ri_kind = kind,
        ri_reason = ''Dispute: '' @ orElse note (d_subject dispute), ri_purchaseId = purchaseId,
        ri_disputeId = Some (d_id dispute), ri_evidenceUrl = None\<rparr>) (\<lambda>r.
     seq (resolve admin dispute summary note) (return (RefundId (f_id r)))))"

text \<open>The \<open>switch\<close> over the actions (lines 170 to 268).\<close>

definition dispute_action ::
    "(PostTransactionInput \<Rightarrow> AiWalletTransaction billing_prog) \<Rightarrow> (actor \<Rightarrow> refund_input \<Rightarrow> AiRefund billing_prog) \<Rightarrow>
     actor \<Rightarrow> AiDispute \<Rightarrow> DisputeAdminAction \<Rightarrow> action_result billing_prog" where
  "dispute_action post refund admin dispute action =
    (case action of
       APPROVE_REFUND amount kind purchaseId note \<Rightarrow>
         refund_action refund admin dispute ''Refund approved'' amount kind purchaseId note
     | PARTIAL_REFUND amount kind purchaseId note \<Rightarrow>
         refund_action refund admin dispute ''Partial refund approved'' amount kind purchaseId note
     | REJECT note \<Rightarrow>
         bind (gets clock) (\<lambda>now.
         seq (update_dispute (d_id dispute) (\<lambda>d.
                d\<lparr>d_status := AiDisputeStatus.CLOSED, d_resolvedById := actor_id admin,
                  d_resolvedAt := Some now, d_resolutionNotes := Some (take 5000 note)\<rparr>))
        (seq (systemMessage (d_id dispute) (d_tenantId dispute) (''Dispute rejected: '' @ note))
        (seq (auditAction admin (d_id dispute) (d_tenantId dispute) ''DISPUTE_REJECTED'' (Some note))
         (return Rejected))))
     | ISSUE_BONUS_CREDITS amount note \<Rightarrow>
         seq (throwIf (\<not> isFinite amount \<or> num_of amount \<le> 0) BillingValidationError)
        (bind (post (dispute_posting admin dispute AiLedgerType.BONUS_CREDIT (num_of amount)
                (''Dispute goodwill credit: '' @ orElse note (d_subject dispute)))) (\<lambda>t.
         seq (resolve admin dispute ''Bonus credits issued'' note) (return (TransactionId (t_id t)))))
     | REVERSE_CHARGE transactionId note \<Rightarrow>
         bind (reverse_check dispute transactionId) (\<lambda>original.
         bind (post (reversal_posting admin dispute original)) (\<lambda>t.
         seq (resolve admin dispute ''Charge reversed'' note) (return (TransactionId (t_id t)))))
     | MANUAL_ADJUSTMENT amount note \<Rightarrow>
         seq (throwIf (\<not> isFinite amount \<or> num_of amount = 0) BillingValidationError)
        (bind (post (dispute_posting admin dispute AiLedgerType.DISPUTE_RESOLUTION (num_of amount)
                (''Dispute adjustment: '' @ note))) (\<lambda>t.
         seq (resolve admin dispute ''Manual adjustment applied'' (Some note)) (return (TransactionId (t_id t)))))
     | ESCALATE assignedToId note \<Rightarrow>
         seq (update_dispute (d_id dispute) (\<lambda>d.
                d\<lparr>d_status := AiDisputeStatus.UNDER_INVESTIGATION,
                  d_assignedToId := (if assignedToId = None then d_assignedToId d else assignedToId)\<rparr>))
        (seq (systemMessage (d_id dispute) (d_tenantId dispute) (''Escalated'' @ (if truthy note then '': '' @ orElse note [] else [])))
        (seq (auditAction admin (d_id dispute) (d_tenantId dispute) ''DISPUTE_ESCALATED'' note)
         (return Escalated))))"

definition adminAction ::
    "(PostTransactionInput \<Rightarrow> AiWalletTransaction billing_prog) \<Rightarrow> (actor \<Rightarrow> refund_input \<Rightarrow> AiRefund billing_prog) \<Rightarrow>
     actor \<Rightarrow> uuid \<Rightarrow> DisputeAdminAction \<Rightarrow> action_result billing_prog" where
  "adminAction post refund admin disputeId action =
     bind (getWithThread disputeId None) (\<lambda>dispute.
     seq (throwIf (d_status dispute = AiDisputeStatus.CLOSED) BillingValidationError)
         (dispute_action post refund admin dispute action))"

record dispute_filter =
  df_tenantId :: "uuid option"
  df_status :: "AiDisputeStatus option"
  df_page :: "int option"
  df_pageSize :: "int option"

definition list_disputes :: "dispute_filter \<Rightarrow> AiDispute page_result billing_prog" where
  "list_disputes flt = gets (\<lambda>s. paginate 100 25 (df_page flt) (df_pageSize flt)
     (rev (filter (\<lambda>d. (case df_tenantId flt of None \<Rightarrow> True | Some i \<Rightarrow> d_tenantId d = i) \<and>
                       (case df_status flt of None \<Rightarrow> True | Some x \<Rightarrow> d_status d = x)) (disputes s))))"

section \<open>The ledger under disputes\<close>

text \<open>Thread, dispute rows and audit trail do not matter to the books.\<close>

definition ignores_disputes :: "(billing \<Rightarrow> bool) \<Rightarrow> bool" where
  "ignores_disputes I \<longleftrightarrow> (\<forall>s d m a. I s \<longrightarrow> I (s\<lparr>disputes := d, messages := m, audits := a\<rparr>))"

lemma ignores_disputesD:
  assumes "ignores_disputes I" "I s"
  shows "I (s\<lparr>disputes := d\<rparr>)" "I (s\<lparr>messages := m\<rparr>)" "I (s\<lparr>audits := a\<rparr>)"
proof -
  have "s\<lparr>disputes := d\<rparr> = s\<lparr>disputes := d, messages := messages s, audits := audits s\<rparr>"
    "s\<lparr>messages := m\<rparr> = s\<lparr>disputes := disputes s, messages := m, audits := audits s\<rparr>"
    "s\<lparr>audits := a\<rparr> = s\<lparr>disputes := disputes s, messages := messages s, audits := a\<rparr>" by simp_all
  with assms show "I (s\<lparr>disputes := d\<rparr>)" "I (s\<lparr>messages := m\<rparr>)" "I (s\<lparr>audits := a\<rparr>)"
    unfolding ignores_disputes_def by metis+
qed

lemma ignores_disputes_audits: "ignores_disputes I \<Longrightarrow> ignores_audits I"
  unfolding ignores_audits_def by (blast intro: ignores_disputesD(3))

lemma keeps_update_dispute: "ignores_disputes I \<Longrightarrow> keeps I (update_dispute i f)"
  using ignores_disputesD(1) by (auto simp: keeps_def update_dispute_def split: option.splits)

lemma keeps_create_message: "ignores_disputes I \<Longrightarrow> keeps I (create_message m)"
  using ignores_disputesD(2) by (auto simp: keeps_def create_message_def)

lemmas keeps_thread = keeps_update_dispute keeps_create_message keeps_record_audit [OF ignores_disputes_audits]

lemma keeps_systemMessage: "ignores_disputes I \<Longrightarrow> keeps I (systemMessage i t body)"
  unfolding systemMessage_def by (intro keeps_intros keeps_thread)

lemma keeps_auditAction: "ignores_disputes I \<Longrightarrow> keeps I (auditAction admin i t act reason)"
  unfolding auditAction_def by (intro keeps_thread)

lemma keeps_resolve: "ignores_disputes I \<Longrightarrow> keeps I (resolve admin dispute summary note)"
  unfolding resolve_def by (intro keeps_intros keeps_thread keeps_systemMessage keeps_auditAction)

lemma keeps_getWithThread [keeps_intros]: "keeps I (getWithThread i t)"
  unfolding getWithThread_def by (intro keeps_intros)

lemma keeps_updateStatus: "ignores_disputes I \<Longrightarrow> keeps I (updateStatus admin i status note)"
  unfolding updateStatus_def by (intro keeps_intros keeps_thread keeps_systemMessage keeps_auditAction)

lemma keeps_addMessage: "ignores_disputes I \<Longrightarrow> keeps I (addMessage author i body url)"
  unfolding addMessage_def by (intro keeps_intros keeps_thread)

lemma reverse_check_okD:
  assumes "reverse_check dispute i s = (Inr original, t)"
  shows "t = s" "original \<in> set (txs s)" "t_id original = i" "t_tenantId original = d_tenantId dispute"
    "t_type original = AiLedgerType.USAGE_CHARGE"
    "find (is_reversal_of (d_tenantId dispute) i) (txs s) = None"
  using assms by (auto simp: reverse_check_def ok_simps dest: find_in)

lemma reverse_check_error: "reverse_check dispute i s = (Inl e, t) \<Longrightarrow> t = s"
  by (auto simp: reverse_check_def run_bind run_seq run_simps split: option.splits if_splits)

context atomic_ledger_service
begin

lemma inv3_ignores_disputes: "ignores_disputes inv3"
proof -
  have "inv3 (s\<lparr>disputes := d, messages := m, audits := a\<rparr>)" if "inv3 s" for s d m a
    using that ok_frame [of s "s\<lparr>disputes := d, messages := m, audits := a\<rparr>"]
      purchases_ok_frame [of dec s "s\<lparr>disputes := d, messages := m, audits := a\<rparr>" "[]"]
      refunds_ok_frame [of dec s "s\<lparr>disputes := d, messages := m, audits := a\<rparr>"]
      reversals_ok_frame [of s "s\<lparr>disputes := d, messages := m, audits := a\<rparr>"] by simp
  then show ?thesis by (simp add: ignores_disputes_def)
qed

lemma keeps_dispute_post:
  "pi_type inp \<noteq> AiLedgerType.PURCHASE \<Longrightarrow> pi_type inp \<noteq> AiLedgerType.CHARGE_REVERSAL \<Longrightarrow> keeps inv3 (post inp)"
  using post_inv3 by (blast intro: keepsI)

lemma keeps_reverse:
  assumes "\<And>original. keeps inv3 (k original)"
  shows "keeps inv3 (bind (reverse_check dispute i) (\<lambda>original.
    bind (post (reversal_posting admin dispute original)) k))"
proof (rule keepsI)
  fix s x t assume s: "inv3 s"
    and run: "bind (reverse_check dispute i) (\<lambda>original. bind (post (reversal_posting admin dispute original)) k) s = (x, t)"
  show "inv3 t"
  proof (cases "reverse_check dispute i s")
    case (Pair r u)
    show ?thesis
    proof (cases r)
      case (Inl e)
      with Pair run s reverse_check_error [of dispute i s e u] show ?thesis by (simp add: run_bind)
    next
      case (Inr original)
      note D = reverse_check_okD [OF Pair [unfolded Inr]]
      obtain y v where post: "post (reversal_posting admin dispute original) s = (y, v)" by fastforce
      have "inv3 v"
        by (rule post_inv3 [OF s post, THEN conjunct1]) (use D in \<open>simp_all add: reversal_posting_def\<close>)
      moreover have "(case y of Inl e \<Rightarrow> (Inl e, v) | Inr q \<Rightarrow> k q v) = (x, t)"
        using run Pair Inr D(1) post by (simp add: run_bind)
      ultimately show ?thesis
        by (cases y) (simp, simp only: sum.case, erule (1) keepsD [OF assms])
    qed
  qed
qed

lemma keeps_dispute_action:
  assumes "\<And>inp. keeps inv3 (refund admin inp)"
  shows "keeps inv3 (dispute_action post refund admin dispute action)"
proof -
  have resolved: "keeps inv3 (seq (resolve admin dispute summary nt) (return r))" for summary nt and r :: action_result
    by (intro keeps_intros keeps_resolve inv3_ignores_disputes)
  show ?thesis
    unfolding dispute_action_def refund_action_def
    by (cases action; simp only: DisputeAdminAction.case)
      (intro keeps_intros keeps_reverse resolved assms keeps_thread keeps_systemMessage keeps_auditAction
        inv3_ignores_disputes keeps_dispute_post; simp add: dispute_posting_def)+
qed

lemma keeps_adminAction:
  assumes "\<And>inp. keeps inv3 (refund admin inp)"
  shows "keeps inv3 (adminAction post refund admin i action)"
  unfolding adminAction_def by (intro keeps_intros keeps_dispute_action assms)

lemma keeps_createDispute: "keeps inv3 (createDispute user inp)"
proof -
  have "keeps inv3 (create_dispute mk)" for mk
  proof (rule keepsI)
    fix s x t assume s: "inv3 s" and run: "create_dispute mk s = (x, t)"
    have "inv3 (s\<lparr>disputes := disputes s @ [mk (next_id s)]\<rparr>)"
      using ignores_disputesD(1) [OF inv3_ignores_disputes s] .
    then have "inv3 (s\<lparr>disputes := disputes s @ [mk (next_id s)], next_id := next_id s + 1\<rparr>)"
      using ok_frame [of "s\<lparr>disputes := disputes s @ [mk (next_id s)]\<rparr>"]
      by (auto elim!: purchases_ok_frame [where rows = "[]"] refunds_ok_frame reversals_ok_frame)
    with run show "inv3 t" by (auto simp: create_dispute_def Let_def)
  qed
  then show ?thesis
    unfolding createDispute_def by (intro keeps_intros keeps_thread inv3_ignores_disputes)
qed

end

end
