(* ===== verification/Charge.thy ===== *)
theory Charge
  imports WalletService Access
begin

text \<open>
  \<open>charge.service.ts\<close>: the billing touchpoint of an AI request.  \<open>prepare\<close> resolves the
  price, checks access and reserves the estimate; \<open>settle\<close> charges the actual cost (or
  releases the hold of a failed request) and writes the usage log.  \<open>enforcement\<close> is the
  configuration value \<open>AI_BILLING_ENFORCEMENT\<close>.
\<close>

record ChargeTicket =
  ct_billed :: bool
  ct_tenantId :: uuid
  ct_userId :: "uuid option"
  ct_providerId :: "uuid option"
  ct_providerName :: string
  ct_modelId :: "uuid option"
  ct_modelCode :: string
  ct_callType :: string
  ct_reservationId :: "uuid option"
  ct_pricing :: "AiModelPricing option"
  ct_estimatedCharge :: rat

definition enforcementEnabled :: "string option \<Rightarrow> bool" where
  "enforcementEnabled enforcement \<longleftrightarrow>
     js_lower (js_trim (orElse enforcement ''true'')) \<in> {''true'', ''1'', ''yes'', ''on''}"

record prepare_input =
  pr_tenantId :: uuid
  pr_userId :: "uuid option"
  pr_providerId :: "uuid option"
  pr_providerName :: string
  pr_modelId :: "uuid option"
  pr_modelCode :: string
  pr_callType :: string
  pr_estimatedPromptTokens :: rat
  pr_maxCompletionTokens :: rat

definition ticket :: "prepare_input \<Rightarrow> bool \<Rightarrow> uuid option \<Rightarrow> AiModelPricing option \<Rightarrow> rat \<Rightarrow> ChargeTicket" where
  "ticket inp billed reservationId pricing estimated =
     \<lparr>ct_billed = billed, ct_tenantId = pr_tenantId inp, ct_userId = pr_userId inp,
      ct_providerId = pr_providerId inp, ct_providerName = pr_providerName inp,
      ct_modelId = pr_modelId inp, ct_modelCode = pr_modelCode inp, ct_callType = pr_callType inp,
      ct_reservationId = reservationId, ct_pricing = pricing, ct_estimatedCharge = estimated\<rparr>"

definition prepare :: "(rat \<Rightarrow> rat) \<Rightarrow> string option \<Rightarrow> prepare_input \<Rightarrow> ChargeTicket billing_prog" where
  "prepare dec enforcement inp =
     bind (tenantTier (pr_tenantId inp)) (\<lambda>planTier.
     bind (case pr_modelId inp of
             None \<Rightarrow> return None
           | Some m \<Rightarrow> resolvePricing m (Some (pr_tenantId inp)) planTier None) (\<lambda>pricing.
     if \<not> enforcementEnabled enforcement then return (ticket inp False None pricing 0)
     else bind (orThrow PricingMissingError pricing) (\<lambda>p.
       let estimated = estimateCharge p (pr_estimatedPromptTokens inp) (pr_maxCompletionTokens inp) in
       seq (assertAccess \<lparr>ai_tenantId = pr_tenantId inp, ai_userId = pr_userId inp, ai_planTier = planTier,
              ai_modelCode = pr_modelCode inp, ai_estimatedCharge = estimated\<rparr>)
      (bind (reserveCredits dec \<lparr>ri_tenantId = pr_tenantId inp, ri_userId = pr_userId inp,
              ri_amount = (if 0 < estimated then estimated else 1 / 1000000), ri_requestId = None\<rparr>) (\<lambda>reservation.
       return (ticket inp True (Some (r_id reservation)) (Some p) (to_fixed 6 estimated)))))))"

record SettleUsage =
  su_promptTokens :: "rat option"
  su_completionTokens :: "rat option"
  su_cachedTokens :: "rat option"
  su_reasoningTokens :: "rat option"
  su_totalTokens :: "rat option"

record outcome =
  oc_success :: bool
  oc_usage :: "SettleUsage option"
  oc_executionMs :: "rat option"
  oc_requestId :: "uuid option"

definition no_usage :: SettleUsage where
  "no_usage = \<lparr>su_promptTokens = None, su_completionTokens = None, su_cachedTokens = None,
     su_reasoningTokens = None, su_totalTokens = None\<rparr>"

definition usage_tokens :: "SettleUsage \<Rightarrow> TokenUsageInput" where
  "usage_tokens u =
     \<lparr>k_promptTokens = Some (orElse (su_promptTokens u) 0),
      k_completionTokens = Some (orElse (su_completionTokens u) 0),
      k_cachedTokens = Some (orElse (su_cachedTokens u) 0),
      k_reasoningTokens = Some (orElse (su_reasoningTokens u) 0),
      k_embeddingTokens = None, k_images = None\<rparr>"

text \<open>Provider cost, customer charge and margin of the settled usage.\<close>

definition settle_cost :: "ChargeTicket \<Rightarrow> outcome \<Rightarrow> rat \<times> rat \<times> rat" where
  "settle_cost t oc =
     (case ct_pricing t of
        None \<Rightarrow> (0, 0, 0)
      | Some p \<Rightarrow> (let b = computeCost p (usage_tokens (orElse (oc_usage oc) no_usage))
                  in (cb_providerCost b, cb_customerCharge b, cb_margin b)))"

definition usage_log :: "(rat \<Rightarrow> rat) \<Rightarrow> ChargeTicket \<Rightarrow> outcome \<Rightarrow> uuid option \<Rightarrow> AiUsageBillingStatus \<Rightarrow>
    uuid \<Rightarrow> timestamp \<Rightarrow> AiUsageLog" where
  "usage_log dec t oc transactionId billingStatus i now =
     (let u = orElse (oc_usage oc) no_usage;
          (providerCost, customerCharge, margin) = settle_cost t oc in
      \<lparr>u_id = i, u_tenantId = ct_tenantId t, u_userId = ct_userId t,
       u_providerId = ct_providerId t, u_providerName = ct_providerName t,
       u_modelId = ct_modelId t, u_modelCode = ct_modelCode t, u_requestId = oc_requestId oc,
       u_callType = ct_callType t, u_promptTokens = orElse (su_promptTokens u) 0,
       u_completionTokens = orElse (su_completionTokens u) 0,
       u_cachedTokens = orElse (su_cachedTokens u) 0,
       u_reasoningTokens = orElse (su_reasoningTokens u) 0,
       u_totalTokens = orElse (su_totalTokens u)
         (orElse (su_promptTokens u) 0 + orElse (su_completionTokens u) 0),
       u_executionMs = oc_executionMs oc, u_providerCost = dec providerCost,
       u_customerCharge = dec (if oc_success oc \<and> ct_billed t then customerCharge else 0),
       u_margin = dec (if oc_success oc \<and> ct_billed t then margin else - providerCost),
       u_reservationId = ct_reservationId t, u_transactionId = transactionId,
       u_pricingId = map_option p_id (ct_pricing t), u_status = billingStatus, u_createdAt = now\<rparr>)"

text \<open>The money part of a settlement: the ledger row's id and the status to log.\<close>

definition settle_reservation :: "(rat \<Rightarrow> rat) \<Rightarrow> ChargeTicket \<Rightarrow> outcome \<Rightarrow> (uuid option \<times> AiUsageBillingStatus) billing_prog" where
  "settle_reservation dec t oc =
     (case ct_reservationId t of
        Some reservationId \<Rightarrow>
          if oc_success oc
          then bind (finalizeReservation dec reservationId (fst (snd (settle_cost t oc)))
                 \<lparr>fc_createdById = ct_userId t, fc_requestId = oc_requestId oc,
                  fc_notes = Some (ct_modelCode t @ '' '' @ ct_callType t)\<rparr>) (\<lambda>(reservation, transaction).
               return (map_option t_id transaction, AiUsageBillingStatus.CHARGED))
          else seq (releaseReservation dec reservationId AiReservationStatus.RELEASED)
                 (return (None, AiUsageBillingStatus.FAILED))
      | None \<Rightarrow> return (None, if oc_success oc then AiUsageBillingStatus.UNBILLED else AiUsageBillingStatus.FAILED))"

definition settle :: "(rat \<Rightarrow> rat) \<Rightarrow> ChargeTicket \<Rightarrow> outcome \<Rightarrow> unit billing_prog" where
  "settle dec t oc =
     catch (bind (settle_reservation dec t oc) (\<lambda>(transactionId, billingStatus).
              seq (create_usageLog (usage_log dec t oc transactionId billingStatus)) (return ())))
           (\<lambda>_. return ())"

section \<open>The books stay in order\<close>

lemma create_usageLog_ok [ok_simps]:
  "create_usageLog mk s = (Inr r, t) \<longleftrightarrow> r = mk (next_id s) (clock s) \<and>
     t = s\<lparr>usageLogs := usageLogs s @ [r], next_id := next_id s + 1\<rparr>"
  by (auto simp: create_usageLog_def Let_def)

lemma keeps_create_usageLog: "keeps (wallet_ok dec) (create_usageLog mk)"
  by (auto simp: keeps_def create_usageLog_def Let_def elim!: wallet_ok_frame)

context money_column
begin

lemma keeps_prepare: "keeps (wallet_ok dec) (prepare dec enforcement inp)"
  unfolding prepare_def tenantTier_def resolvePricing_def Let_def
  by (intro keeps_intros keeps_reserveCredits)

lemma keeps_finalizeReservation: "keeps (wallet_ok dec) (finalizeReservation dec i charge ctx)"
  by (rule keepsI) (rule finalizeReservation_keeps(1))

lemma keeps_settle: "keeps (wallet_ok dec) (settle dec t oc)"
  unfolding settle_def settle_reservation_def
  by (auto intro!: keeps_intros keeps_finalizeReservation keeps_releaseReservation keeps_create_usageLog
      split: option.splits prod.splits)

end

end
