(* ===== verification/BillingSystem.thy ===== *)
theory BillingSystem
  imports Dispute Charge
begin

text \<open>
  The billing module as one system: every public method is a step on the shared database,
  and the invariants of the wallet, purchase, refund and dispute services hold together in
  every reachable state.  A step runs one method to completion; Stripe's answers
  (\<open>createSession\<close>, \<open>createRefund\<close>) and the arguments are arbitrary.
\<close>

section \<open>Methods that leave purchases, refunds and reversals alone\<close>

text \<open>
  \<open>quiet s0 s\<close>: since \<open>s0\<close> the ledger grew by rows that are neither purchases nor
  reversals, and the purchase and refund tables did not change.
\<close>

definition quiet_row :: "AiWalletTransaction \<Rightarrow> bool" where
  "quiet_row t \<longleftrightarrow> t_type t \<noteq> AiLedgerType.PURCHASE \<and> t_type t \<noteq> AiLedgerType.CHARGE_REVERSAL"

definition quiet :: "billing \<Rightarrow> billing \<Rightarrow> bool" where
  "quiet s0 s \<longleftrightarrow> purchases s = purchases s0 \<and> refunds s = refunds s0 \<and> next_id s0 \<le> next_id s \<and>
     (\<exists>rows. txs s = txs s0 @ rows \<and> list_all quiet_row rows)"

lemma quiet_refl: "quiet s s"
  by (simp add: quiet_def)

lemma quiet_ignores_audits: "ignores_audits (quiet s0)"
  by (simp add: ignores_audits_def quiet_def)

lemma keeps_quiet_prims:
  "keeps (quiet s0) (create_wallet tenant)" "keeps (quiet s0) (update_wallet i f)"
  "keeps (quiet s0) (update_reservation j g)" "keeps (quiet s0) (create_reservation mk)"
  "keeps (quiet s0) (create_usageLog lg)"
  by (auto simp: keeps_def quiet_def create_wallet_def update_wallet_def update_reservation_def
      create_reservation_def create_usageLog_def Let_def split: option.splits)

lemma keeps_quiet_tx:
  "(\<And>i now. quiet_row (mk i now)) \<Longrightarrow> keeps (quiet s0) (create_tx mk)"
  by (auto simp: keeps_def quiet_def create_tx_def Let_def)

lemmas quiet_intros = keeps_quiet_prims keeps_record_audit [OF quiet_ignores_audits]
  keeps_recordIn [OF quiet_ignores_audits]

lemma keeps_quiet_lock:
  "keeps (quiet s0) (lockWalletByTenant tenant)" "keeps (quiet s0) (lockWalletById i)"
  "keeps (quiet s0) (lockReservation j)" "keeps (quiet s0) (getOrCreateWallet tenant)"
  unfolding lockWalletByTenant_def lockWalletById_def lockReservation_def getOrCreateWallet_def
  by (intro keeps_intros quiet_intros)+

lemma keeps_quiet_apply:
  "pi_type inp \<noteq> AiLedgerType.PURCHASE \<Longrightarrow> pi_type inp \<noteq> AiLedgerType.CHARGE_REVERSAL \<Longrightarrow>
   keeps (quiet s0) (applyTransaction dec w inp)"
  unfolding applyTransaction_def Let_def
  by (intro keeps_intros quiet_intros keeps_quiet_tx) (simp add: quiet_row_def)

lemma keeps_quiet_post:
  "pi_type inp \<noteq> AiLedgerType.PURCHASE \<Longrightarrow> pi_type inp \<noteq> AiLedgerType.CHARGE_REVERSAL \<Longrightarrow>
   keeps (quiet s0) (postTransaction dec inp)"
  unfolding postTransaction_def postTransactionIn_def
  by (intro keeps_intros keeps_quiet_lock keeps_quiet_apply)

lemma keeps_quiet_wallet_methods:
  "keeps (quiet s0) (reserveCredits dec rinp)" "keeps (quiet s0) (finalizeReservation dec i charge ctx)"
  "keeps (quiet s0) (releaseReservation dec j st)" "keeps (quiet s0) (updateWalletSettings dec tenant ws act)"
  unfolding reserveCredits_def finalizeReservation_def releaseReservation_def updateWalletSettings_def Let_def
  by (intro keeps_intros quiet_intros keeps_quiet_lock keeps_quiet_apply; simp add: usage_charge_def)+

lemma keeps_quiet_expire: "keeps (quiet s0) (expireStaleReservations dec)"
  unfolding expireStaleReservations_def by (intro keeps_intros keeps_quiet_wallet_methods)

lemma keeps_quiet_prepare: "keeps (quiet s0) (prepare dec enforcement inp)"
  unfolding prepare_def tenantTier_def resolvePricing_def Let_def
  by (intro keeps_intros keeps_quiet_wallet_methods)

lemma keeps_quiet_settle: "keeps (quiet s0) (settle dec t oc)"
  unfolding settle_def settle_reservation_def
  by (auto intro!: keeps_intros quiet_intros keeps_quiet_wallet_methods split: option.splits prod.splits)

section \<open>The claims on the ledger\<close>

definition claims_ok :: "(rat \<Rightarrow> rat) \<Rightarrow> billing \<Rightarrow> bool" where
  "claims_ok dec s \<longleftrightarrow> purchases_ok dec s \<and> refunds_ok dec s \<and> reversals_ok s"

lemma reversals_ok_append:
  assumes "reversals_ok s" "txs t = txs s @ rows" "list_all quiet_row rows"
  shows "reversals_ok t"
proof -
  have "filter (is_reversal_of tenant i) rows = []" for tenant i
    using assms(3) by (induction rows) (auto simp: quiet_row_def is_reversal_of_def)
  with assms show ?thesis by (simp add: reversals_ok_def)
qed

lemma claims_ok_quiet: "claims_ok dec s \<Longrightarrow> quiet s t \<Longrightarrow> claims_ok dec t"
  unfolding claims_ok_def quiet_def
  by (auto elim!: purchases_ok_frame refunds_ok_frame reversals_ok_append
      simp: list_all_iff quiet_row_def is_credit_for_def)

lemma keeps_claims_quiet: "(\<And>s0. keeps (quiet s0) m) \<Longrightarrow> keeps (claims_ok dec) m"
  using claims_ok_quiet quiet_refl by (fastforce simp: keeps_def)

text \<open>What purchases contribute: fresh keys, non-negative amounts, no reversal rows.\<close>

definition cap_ok :: "(rat \<Rightarrow> rat) \<Rightarrow> billing \<Rightarrow> bool" where
  "cap_ok dec s \<longleftrightarrow> refunds_ok dec s \<and> reversals_ok s \<and> (\<forall>c \<in> set (purchases s). c_id c < next_id s)"

lemma claims_ok_iff: "claims_ok dec s \<longleftrightarrow> purchases_ok dec s \<and> cap_ok dec s"
  by (auto simp: claims_ok_def cap_ok_def purchases_ok_def purchase_ok_def)

lemma cap_ok_ignores_audits: "ignores_audits (cap_ok dec)"
  using refunds_ok_ignores_audits by (simp add: ignores_audits_def cap_ok_def reversals_ok_def)

lemma keeps_cap_prims:
  "keeps (cap_ok dec) (create_wallet tenant)" "keeps (cap_ok dec) (update_wallet i f)"
  "keeps (cap_ok dec) randomUUID"
  by (auto simp: keeps_def cap_ok_def create_wallet_def update_wallet_def randomUUID_def Let_def
      elim!: refunds_ok_frame reversals_ok_frame split: option.splits)

lemma keeps_cap_tx:
  "(\<And>i now. t_type (mk i now) \<noteq> AiLedgerType.CHARGE_REVERSAL) \<Longrightarrow> keeps (cap_ok dec) (create_tx mk)"
  by (auto simp: keeps_def cap_ok_def create_tx_def Let_def elim!: refunds_ok_frame reversals_ok_snoc)

lemma cap_ok_write:
  assumes "cap_ok dec s" "\<And>c. c_id (f c) = c_id c" "\<And>c. c_amount (f c) = c_amount c"
  shows "cap_ok dec (s\<lparr>purchases := update_where p f (purchases s)\<rparr>)"
  using assms refunds_ok_purchase_write [of dec s f p] by (auto simp: cap_ok_def reversals_ok_def in_set_row)

lemma keeps_cap_purchase:
  assumes "\<And>c. c_id (f c) = c_id c" "\<And>c. c_amount (f c) = c_amount c"
  shows "keeps (cap_ok dec) (update_purchase i f)" "keeps (cap_ok dec) (update_purchases p f)"
  using cap_ok_write [OF _ assms] by (auto simp: keeps_def update_purchase_def update_purchases_def Let_def split: option.splits)

lemma refunded_fresh:
  assumes "cap_ok dec s"
  shows "refunded_so_far (next_id s) (refunds s) = 0"
  unfolding refunded_so_far_def
proof (rule sum_where_none)
  fix f assume "f \<in> set (refunds s)"
  with assms have "f_purchaseId f \<in> insert None (Some ` c_id ` set (purchases s))"
    by (auto simp: cap_ok_def refunds_ok_def refunds_linked_def)
  with assms show "\<not> counts_as_refunded (next_id s) f"
    by (auto simp: counts_as_refunded_def cap_ok_def)
qed

lemma keeps_cap_create:
  assumes "\<And>i now. c_id (mk i now) = i" "\<And>i now. 0 \<le> c_amount (mk i now) \<and> dec (c_amount (mk i now)) = c_amount (mk i now)"
  shows "keeps (cap_ok dec) (create_purchase mk)"
proof (rule keepsI)
  fix s x t assume ok: "cap_ok dec s" and run: "create_purchase mk s = (x, t)"
  define c where "c = mk (next_id s) (clock s)"
  have t: "t = s\<lparr>purchases := purchases s @ [c], next_id := next_id s + 1\<rparr>"
    using run by (auto simp: create_purchase_def Let_def c_def)
  have c: "c_id c = next_id s" "0 \<le> c_amount c" "dec (c_amount c) = c_amount c"
    using assms by (simp_all add: c_def)
  have "refunds_linked t" using ok by (auto simp: t cap_ok_def refunds_ok_def refunds_linked_def)
  moreover have "refunded_so_far (c_id x) (refunds t) \<le> c_amount x" if "x \<in> set (purchases t)" for x
    using that ok c refunded_fresh [OF ok] by (auto simp: t cap_ok_def refunds_ok_def)
  ultimately have "refunds_ok dec t"
    using ok c by (auto simp: t cap_ok_def refunds_ok_def less_Suc_eq)
  with ok c show "cap_ok dec t"
    by (auto simp: t cap_ok_def reversals_ok_def)
qed

lemmas cap_intros = keeps_cap_prims keeps_cap_purchase keeps_record_audit [OF cap_ok_ignores_audits]
  keeps_recordIn [OF cap_ok_ignores_audits]

lemma keeps_cap_getOrCreate: "keeps (cap_ok dec) (getOrCreateWallet tenant)"
  unfolding getOrCreateWallet_def by (intro keeps_intros cap_intros)

lemma keeps_cap_post:
  assumes "pi_type inp \<noteq> AiLedgerType.CHARGE_REVERSAL"
  shows "keeps (cap_ok dec) (postTransactionIn d inp)"
  unfolding postTransactionIn_def lockWalletByTenant_def applyTransaction_def Let_def
  by (intro keeps_intros cap_intros keeps_cap_tx) (simp add: assms)

lemma keeps_cap_complete: "keeps (cap_ok dec) (completePurchase (postTransactionIn d) i ctx)"
  unfolding completePurchase_def completeIn_def
  by (auto intro!: keeps_intros cap_intros keeps_cap_post split: prod.splits)

lemma keeps_cap_purchase_methods:
  "keeps (cap_ok dec) (handleStripeEvent (postTransactionIn d) event)"
  "keeps (cap_ok dec) (reviewBankTransfer (postTransactionIn d) admin i approve nt)"
  "keeps (cap_ok dec) (cancelOwnPending user i)" "keeps (cap_ok dec) (expireStaleStripePurchases h)"
  unfolding handleStripeEvent_def reviewBankTransfer_def cancelOwnPending_def cancel_read_def cancel_write_def
    expireStaleStripePurchases_def findPurchaseForSession_def Let_def
  by (auto intro!: keeps_intros cap_intros keeps_cap_complete)

context money_column
begin

lemma keeps_cap_opening:
  "keeps (cap_ok dec) (createStripeCheckout dec conf sess user amount)"
  "keeps (cap_ok dec) (submitBankTransfer dec user amount url nt)"
proof -
  have amount: "0 \<le> dec (num_of amount) \<and> dec (dec (num_of amount)) = dec (num_of amount)"
    if "\<not> (\<not> isFinite amount \<or> num_of amount < MIN_PURCHASE \<or> MAX_PURCHASE < num_of amount)"
    using that dec_nonneg [of "num_of amount"] by (simp add: MIN_PURCHASE_def dec_idem)
  show "keeps (cap_ok dec) (createStripeCheckout dec conf sess user amount)"
    unfolding createStripeCheckout_def validateAmount_def
    by (intro keeps_guard keeps_intros keeps_cap_getOrCreate cap_intros keeps_cap_create)
      (use amount in \<open>simp_all add: pending_purchase_def\<close>)
  show "keeps (cap_ok dec) (submitBankTransfer dec user amount url nt)"
    unfolding submitBankTransfer_def validateAmount_def
    by (intro keeps_guard keeps_intros keeps_cap_getOrCreate cap_intros keeps_cap_create)
      (use amount in \<open>simp_all add: pending_purchase_def\<close>)
qed

lemma all_books_iff: "all_books s \<longleftrightarrow> wallet_ok dec s \<and> claims_ok dec s"
  by (simp add: claims_ok_def)

abbreviation billing_ok :: "billing \<Rightarrow> bool" where
  "billing_ok s \<equiv> wallet_ok dec s \<and> claims_ok dec s"

lemma keeps_billing_quiet:
  "keeps (wallet_ok dec) m \<Longrightarrow> (\<And>s0. keeps (quiet s0) m) \<Longrightarrow> keeps billing_ok m"
  using keeps_claims_quiet [of m dec] by (simp add: keeps_def)

lemma keeps_billing_purchase:
  "keeps purchase_books m \<Longrightarrow> keeps (cap_ok dec) m \<Longrightarrow> keeps billing_ok m"
  by (simp add: keeps_def claims_ok_iff)

lemma keeps_billing_claims: "keeps all_books m \<Longrightarrow> keeps billing_ok m"
  by (simp add: keeps_def claims_ok_def)

lemma keeps_billing_wallet_methods:
  "keeps billing_ok (reserveCredits dec rinp)" "keeps billing_ok (finalizeReservation dec i charge ctx)"
  "st \<noteq> AiReservationStatus.ACTIVE \<Longrightarrow> keeps billing_ok (releaseReservation dec i st)"
  "keeps billing_ok (expireStaleReservations dec)" "keeps billing_ok (updateWalletSettings dec tenant ws act)"
  "keeps billing_ok (getOrCreateWallet tenant)" "keeps billing_ok (prepare dec enforcement pinp)"
  "keeps billing_ok (settle dec tk oc)"
  "pi_type inp \<noteq> AiLedgerType.PURCHASE \<Longrightarrow> pi_type inp \<noteq> AiLedgerType.CHARGE_REVERSAL \<Longrightarrow>
   keeps billing_ok (postTransaction dec inp)"
  by (intro keeps_billing_quiet keeps_reserveCredits keeps_finalizeReservation keeps_releaseReservation
      keeps_expireStale keeps_updateWalletSettings keeps_getOrCreateWallet keeps_prepare keeps_settle
      keeps_postTransaction keeps_quiet_wallet_methods keeps_quiet_expire keeps_quiet_lock keeps_quiet_prepare
      keeps_quiet_settle keeps_quiet_post; assumption)+

lemma keeps_billing_purchase_methods:
  "keeps billing_ok (createStripeCheckout dec conf sess user amount)"
  "keeps billing_ok (submitBankTransfer dec user amount url nt)"
  "keeps billing_ok (handleStripeEvent (postTransactionIn dec) event)"
  "keeps billing_ok (reviewBankTransfer (postTransactionIn dec) admin i approve nt)"
  "keeps billing_ok (cancelOwnPending user i)" "keeps billing_ok (expireStaleStripePurchases h)"
  by (intro keeps_billing_purchase keeps_createStripeCheckout keeps_submitBankTransfer
      posting.keeps_handleStripeEvent posting.keeps_reviewBankTransfer posting.keeps_cancelOwnPending
      posting.keeps_expireStalePurchases keeps_cap_opening keeps_cap_purchase_methods)+

lemma keeps_billing_claims_methods:
  "keeps billing_ok (createRefundFor dec (postTransaction dec) cr admin rf)"
  "keeps billing_ok (createDispute user dinp)" "keeps billing_ok (addMessage author i body url)"
  "keeps billing_ok (updateStatus admin i status nt)"
  "keeps billing_ok (adminAction (postTransaction dec) (createRefundFor dec (postTransaction dec) cr) admin i action)"
  by (intro keeps_billing_claims keeps_createRefundFor atomic_posting.keeps_createDispute keeps_addMessage
      keeps_updateStatus atomic_posting.keeps_adminAction atomic_posting.inv3_ignores_disputes)+

end

section \<open>The system\<close>

text \<open>
  The manual adjustment of \<open>ai-billing-admin.controller.ts\<close>; its request class admits six
  ledger types.
\<close>

definition adjustment_types :: "AiLedgerType set" where
  "adjustment_types = {AiLedgerType.MANUAL_CREDIT, AiLedgerType.BONUS_CREDIT, AiLedgerType.PROMO_CREDIT,
     AiLedgerType.ADMIN_ADJUSTMENT, AiLedgerType.CORRECTION, AiLedgerType.CREDIT_EXPIRY}"

definition adjustWallet :: "(rat \<Rightarrow> rat) \<Rightarrow> uuid \<Rightarrow> uuid \<Rightarrow> AiLedgerType \<Rightarrow> rat \<Rightarrow> string \<Rightarrow> AiWalletTransaction billing_prog" where
  "adjustWallet dec userId tenantId type amount reason =
     seq (throwIf (type \<notin> adjustment_types) BillingValidationError)
     (postTransaction dec
       \<lparr>pi_tenantId = tenantId, pi_type = type, pi_amount = amount, pi_createdById = Some userId,
        pi_notes = Some reason, pi_relatedEntityType = Some ''admin_adjustment'',
        pi_relatedEntityId = None, pi_allowNegativeBalance = False\<rparr>)"

definition outside :: "billing \<Rightarrow> billing \<Rightarrow> bool" where
  "outside s t \<longleftrightarrow> wallets t = wallets s \<and> txs t = txs s \<and> reservations t = reservations s \<and>
     purchases t = purchases s \<and> refunds t = refunds s \<and> next_id s \<le> next_id t"

text \<open>
  One call of a public method.  \<open>other\<close> is everything that writes none of the money tables:
  prices, policies, models, providers, tiers, and the passing of time.
\<close>

inductive billing_step :: "(rat \<Rightarrow> rat) \<Rightarrow> billing \<Rightarrow> billing \<Rightarrow> bool" for dec where
  adjust: "adjustWallet dec u tenant type amount reason s = (x, t) \<Longrightarrow> billing_step dec s t"
| summary: "getWalletSummary tenant s = (x, t) \<Longrightarrow> billing_step dec s t"
| settings: "updateWalletSettings dec tenant st act s = (x, t) \<Longrightarrow> billing_step dec s t"
| reserve: "reserveCredits dec inp s = (x, t) \<Longrightarrow> billing_step dec s t"
| finalize: "finalizeReservation dec i charge ctx s = (x, t) \<Longrightarrow> billing_step dec s t"
| release: "status \<in> {AiReservationStatus.RELEASED, AiReservationStatus.EXPIRED} \<Longrightarrow>
    releaseReservation dec i status s = (x, t) \<Longrightarrow> billing_step dec s t"
| expire: "expireStaleReservations dec s = (x, t) \<Longrightarrow> billing_step dec s t"
| prepare: "prepare dec enforcement inp s = (x, t) \<Longrightarrow> billing_step dec s t"
| settle: "settle dec tk oc s = (x, t) \<Longrightarrow> billing_step dec s t"
| checkout: "createStripeCheckout dec conf createSession user amount s = (x, t) \<Longrightarrow> billing_step dec s t"
| transfer: "submitBankTransfer dec user amount url nt s = (x, t) \<Longrightarrow> billing_step dec s t"
| event: "handleStripeEvent (postTransactionIn dec) ev s = (x, t) \<Longrightarrow> billing_step dec s t"
| review: "reviewBankTransfer (postTransactionIn dec) admin i approve nt s = (x, t) \<Longrightarrow> billing_step dec s t"
| cancel: "cancelOwnPending user i s = (x, t) \<Longrightarrow> billing_step dec s t"
| expire_purchases: "expireStaleStripePurchases h s = (x, t) \<Longrightarrow> billing_step dec s t"
| refund: "createRefundFor dec (postTransaction dec) createRefund admin rf s = (x, t) \<Longrightarrow> billing_step dec s t"
| dispute: "createDispute user dinp s = (x, t) \<Longrightarrow> billing_step dec s t"
| message: "addMessage author i body url s = (x, t) \<Longrightarrow> billing_step dec s t"
| status: "updateStatus admin i st nt s = (x, t) \<Longrightarrow> billing_step dec s t"
| action: "adminAction (postTransaction dec) (createRefundFor dec (postTransaction dec) createRefund)
    admin i act s = (x, t) \<Longrightarrow> billing_step dec s t"
| other: "outside s t \<Longrightarrow> billing_step dec s t"

inductive billing_reachable :: "(rat \<Rightarrow> rat) \<Rightarrow> billing \<Rightarrow> bool" for dec where
  start: "billing_reachable dec empty_billing"
| step: "billing_reachable dec s \<Longrightarrow> billing_step dec s t \<Longrightarrow> billing_reachable dec t"

lemma claims_ok_empty: "claims_ok dec empty_billing"
  using purchases_ok_empty [of dec]
  by (simp add: claims_ok_def refunds_ok_def refunds_linked_def reversals_ok_def empty_billing_def)

lemma claims_ok_outside: "claims_ok dec s \<Longrightarrow> outside s t \<Longrightarrow> claims_ok dec t"
  by (rule claims_ok_quiet) (auto simp: outside_def quiet_def)

lemma wallet_ok_outside: "wallet_ok dec s \<Longrightarrow> outside s t \<Longrightarrow> wallet_ok dec t"
  by (erule wallet_ok_frame) (auto simp: outside_def)

context money_column
begin

lemma keeps_adjustWallet: "keeps billing_ok (adjustWallet dec u tenant type amount reason)"
  unfolding adjustWallet_def
  by (intro keeps_guard keeps_billing_wallet_methods) (auto simp: adjustment_types_def)

lemma keeps_getWalletSummary: "keeps billing_ok (getWalletSummary tenant)"
  unfolding getWalletSummary_def Let_def by (intro keeps_intros keeps_billing_wallet_methods)

lemma step_keeps_books:
  assumes "billing_step dec s t" and books: "billing_ok s"
  shows "billing_ok t"
  using assms(1)
proof (cases rule: billing_step.cases)
  case adjust
  then show ?thesis by (rule keepsD [OF keeps_adjustWallet books])
next
  case summary
  then show ?thesis by (rule keepsD [OF keeps_getWalletSummary books])
next
  case settings
  then show ?thesis by (rule keepsD [OF keeps_billing_wallet_methods(5) books])
next
  case reserve
  then show ?thesis by (rule keepsD [OF keeps_billing_wallet_methods(1) books])
next
  case finalize
  then show ?thesis by (rule keepsD [OF keeps_billing_wallet_methods(2) books])
next
  case (release st i x)
  then have "st \<noteq> AiReservationStatus.ACTIVE" by auto
  then show ?thesis using release keepsD [OF keeps_billing_wallet_methods(3) books] by blast
next
  case expire
  then show ?thesis by (rule keepsD [OF keeps_billing_wallet_methods(4) books])
next
  case prepare
  then show ?thesis by (rule keepsD [OF keeps_billing_wallet_methods(7) books])
next
  case settle
  then show ?thesis by (rule keepsD [OF keeps_billing_wallet_methods(8) books])
next
  case checkout
  then show ?thesis by (rule keepsD [OF keeps_billing_purchase_methods(1) books])
next
  case transfer
  then show ?thesis by (rule keepsD [OF keeps_billing_purchase_methods(2) books])
next
  case event
  then show ?thesis by (rule keepsD [OF keeps_billing_purchase_methods(3) books])
next
  case review
  then show ?thesis by (rule keepsD [OF keeps_billing_purchase_methods(4) books])
next
  case cancel
  then show ?thesis by (rule keepsD [OF keeps_billing_purchase_methods(5) books])
next
  case expire_purchases
  then show ?thesis by (rule keepsD [OF keeps_billing_purchase_methods(6) books])
next
  case refund
  then show ?thesis by (rule keepsD [OF keeps_billing_claims_methods(1) books])
next
  case dispute
  then show ?thesis by (rule keepsD [OF keeps_billing_claims_methods(2) books])
next
  case message
  then show ?thesis by (rule keepsD [OF keeps_billing_claims_methods(3) books])
next
  case status
  then show ?thesis by (rule keepsD [OF keeps_billing_claims_methods(4) books])
next
  case action
  then show ?thesis by (rule keepsD [OF keeps_billing_claims_methods(5) books])
next
  case other
  then show ?thesis using books claims_ok_outside wallet_ok_outside by blast
qed

lemma reachable_books: "billing_reachable dec s \<Longrightarrow> billing_ok s"
proof (induction rule: billing_reachable.induct)
  case start
  show ?case by (simp add: wallet_ok_empty claims_ok_empty)
next
  case (step s t)
  then show ?case using step_keeps_books by blast
qed

end

end
