(* ===== verification/StripeClient.thy ===== *)
theory StripeClient
  imports Purchase
begin

text \<open>
  \<open>stripe.client.ts\<close> and \<open>stripe-webhook.controller.ts\<close>: the requests sent to Stripe and the
  verification of its webhooks.  Outside the repository, and arguments here: \<open>fetch\<close> (the
  HTTP call), \<open>hmac\<close> (the hex HMAC-SHA256 of \<open>timestamp.payload\<close> under a secret) and
  \<open>parseJson\<close> (JSON.parse of the payload as an event).
\<close>

section \<open>Requests\<close>

type_synonym form = "(string \<times> string) list"

record http_request =
  hr_path :: string
  hr_key :: string
  hr_idempotencyKey :: string
  hr_body :: form

text \<open>An answer: whether the status is 2xx, and the payload.\<close>

datatype 'p http_response = Response bool 'p

definition stripe_post :: "(http_request \<Rightarrow> 'p http_response option) \<Rightarrow> string option \<Rightarrow> string \<Rightarrow> form \<Rightarrow> string \<Rightarrow>
    billing_error + 'p" where
  "stripe_post fetch secretKey path body idempotencyKey =
     (case secretKey of
        None \<Rightarrow> Inl PaymentProviderError
      | Some key \<Rightarrow> if key = [] then Inl PaymentProviderError
          else (case fetch \<lparr>hr_path = path, hr_key = key, hr_idempotencyKey = idempotencyKey, hr_body = body\<rparr> of
            Some (Response True payload) \<Rightarrow> Inr payload
          | _ \<Rightarrow> Inl PaymentProviderError))"

definition isConfigured :: "string option \<Rightarrow> bool" where
  "isConfigured secretKey = truthy secretKey"

text \<open>The body of a refund; \<open>input.amountCents ?\<close> drops a zero amount like a missing one.\<close>

definition refund_body :: "string \<Rightarrow> int option \<Rightarrow> form" where
  "refund_body paymentIntentId amountCents =
     (''payment_intent'', paymentIntentId) #
     (case amountCents of None \<Rightarrow> [] | Some n \<Rightarrow> if n = 0 then [] else [(''amount'', js_String n)])"

definition createRefund :: "(http_request \<Rightarrow> 'p http_response option) \<Rightarrow> string option \<Rightarrow> string \<Rightarrow> int option \<Rightarrow> string \<Rightarrow>
    billing_error + 'p" where
  "createRefund fetch secretKey paymentIntentId amountCents idempotencyKey =
     stripe_post fetch secretKey ''/refunds'' (refund_body paymentIntentId amountCents) idempotencyKey"

record checkout_input =
  ci_amountCents :: int
  ci_currency :: string
  ci_customerEmail :: "string option"
  ci_successUrl :: string
  ci_cancelUrl :: string
  ci_purchaseId :: string
  ci_tenantId :: string
  ci_idempotencyKey :: string

definition checkout_body :: "checkout_input \<Rightarrow> form" where
  "checkout_body inp =
     [(''mode'', ''payment''), (''line_items[0][quantity]'', ''1''),
      (''line_items[0][price_data][currency]'', js_lower (ci_currency inp)),
      (''line_items[0][price_data][unit_amount]'', js_String (ci_amountCents inp)),
      (''line_items[0][price_data][product_data][name]'', ''AI Credits''),
      (''success_url'', ci_successUrl inp), (''cancel_url'', ci_cancelUrl inp),
      (''metadata[purchaseId]'', ci_purchaseId inp), (''metadata[tenantId]'', ci_tenantId inp),
      (''payment_intent_data[metadata][purchaseId]'', ci_purchaseId inp)] @
     (if truthy (ci_customerEmail inp) then [(''customer_email'', orElse (ci_customerEmail inp) [])] else [])"

definition createCheckoutSession :: "(http_request \<Rightarrow> 'p http_response option) \<Rightarrow> string option \<Rightarrow> checkout_input \<Rightarrow>
    billing_error + 'p" where
  "createCheckoutSession fetch secretKey inp =
     stripe_post fetch secretKey ''/checkout/sessions'' (checkout_body inp) (ci_idempotencyKey inp)"

section \<open>Webhook signatures\<close>

definition WEBHOOK_TOLERANCE_SECONDS :: rat where
  "WEBHOOK_TOLERANCE_SECONDS = 300"

text \<open>
  The header is a comma-separated list of \<open>key=value\<close>; \<open>split('=', 2)\<close> keeps the first two
  pieces.  The result lists the values of each key in order.
\<close>

fun header_piece :: "string \<Rightarrow> (string \<times> string) option" where
  "header_piece piece = (case js_split (CHR ''='') piece of
     k # v # _ \<Rightarrow> if k = [] then None else Some (js_trim k, js_trim v)
   | _ \<Rightarrow> None)"

definition header_parts :: "string \<Rightarrow> (string \<times> string) list" where
  "header_parts header = List.map_filter header_piece (js_split (CHR '','') header)"

definition values_of :: "string \<Rightarrow> (string \<times> string) list \<Rightarrow> string list" where
  "values_of key parts = map snd (filter (\<lambda>(k, v). k = key) parts)"

definition header_timestamp :: "string \<Rightarrow> jsnum" where
  "header_timestamp header = (case values_of ''t'' (header_parts header) of [] \<Rightarrow> NonFinite | v # _ \<Rightarrow> js_Number v)"

definition header_signatures :: "string \<Rightarrow> string list" where
  "header_signatures header = values_of ''v1'' (header_parts header)"

definition verifyWebhookSignature ::
    "(string \<Rightarrow> rat \<Rightarrow> string \<Rightarrow> string) \<Rightarrow> (string \<Rightarrow> 'ev option) \<Rightarrow> string option \<Rightarrow>
     string \<Rightarrow> string option \<Rightarrow> rat \<Rightarrow> billing_error + 'ev" where
  "verifyWebhookSignature hmac parseJson webhookSecret payload signatureHeader now =
     (if \<not> truthy webhookSecret then Inl PaymentProviderError
      else if \<not> truthy signatureHeader then Inl BillingValidationError
      else let secret = orElse webhookSecret []; header = orElse signatureHeader [];
               timestamp = header_timestamp header; signatures = header_signatures header in
        if \<not> isFinite timestamp \<or> signatures = [] then Inl BillingValidationError
        else if WEBHOOK_TOLERANCE_SECONDS < \<bar>now - num_of timestamp\<bar> then Inl BillingValidationError
        else if \<not> list_ex (\<lambda>candidate. candidate = hmac secret (num_of timestamp) payload) signatures
        then Inl BillingValidationError
        else (case parseJson payload of None \<Rightarrow> Inl BillingValidationError | Some ev \<Rightarrow> Inr ev))"

text \<open>
  The webhook endpoint: nothing happens before the signature is verified.
\<close>

definition handleWebhook ::
    "(string \<Rightarrow> rat \<Rightarrow> string \<Rightarrow> string) \<Rightarrow> (string \<Rightarrow> StripeWebhookEvent option) \<Rightarrow> string option \<Rightarrow>
     (PostTransactionInput \<Rightarrow> AiWalletTransaction billing_prog) \<Rightarrow>
     string \<Rightarrow> string option \<Rightarrow> bool billing_prog" where
  "handleWebhook hmac parseJson webhookSecret post raw signature =
     bind (gets clock) (\<lambda>now.
     bind (lift (verifyWebhookSignature hmac parseJson webhookSecret raw signature (of_int (now div 1000)))) (\<lambda>event.
     handleStripeEvent post event))"

section \<open>What a verified event proves\<close>

lemma verify_ok:
  "verifyWebhookSignature hmac parseJson secret payload header now = Inr ev \<longleftrightarrow>
     (\<exists>k h t. secret = Some k \<and> k \<noteq> [] \<and> header = Some h \<and> h \<noteq> [] \<and> header_timestamp h = Finite t \<and>
        \<bar>now - t\<bar> \<le> 300 \<and> hmac k t payload \<in> set (header_signatures h) \<and> parseJson payload = Some ev)"
proof (cases secret; cases header)
  fix k h assume "secret = Some k" "header = Some h"
  then show ?thesis
    by (cases "header_timestamp h")
      (auto simp: verifyWebhookSignature_def truthy_def Let_def WEBHOOK_TOLERANCE_SECONDS_def not_less list_ex_iff
        split: option.splits if_splits)
qed (auto simp: verifyWebhookSignature_def truthy_def)

text \<open>The header Stripe documents parses to its timestamp and signature.\<close>

lemma header_parts_built:
  assumes "CHR '','' \<notin> set ts" "CHR ''='' \<notin> set ts" "CHR '','' \<notin> set sig" "CHR ''='' \<notin> set sig"
  shows "header_parts (''t='' @ ts @ '',v1='' @ sig) = [(''t'', js_trim ts), (''v1'', js_trim sig)]"
proof -
  have "js_split (CHR '','') ((''t='' @ ts) @ CHR '','' # (''v1='' @ sig)) = [''t='' @ ts, ''v1='' @ sig]"
    using assms by (subst js_split_append) (auto simp: js_split_no_sep)
  moreover have "js_split (CHR ''='') (''t'' @ CHR ''='' # ts) = [''t'', ts]"
    "js_split (CHR ''='') (''v1'' @ CHR ''='' # sig) = [''v1'', sig]"
    using assms by (simp_all add: js_split_no_sep)
  moreover have "js_trim ''t'' = ''t''" "js_trim ''v1'' = ''v1''"
    by (simp_all add: js_trim_def is_space_def)
  ultimately show ?thesis
    by (simp add: header_parts_def map_filter_simps)
qed

lemma webhook_ok:
  "handleWebhook hmac parseJson secret post raw signature s = (Inr h, t) \<Longrightarrow>
   \<exists>ev. verifyWebhookSignature hmac parseJson secret raw signature (of_int (clock s div 1000)) = Inr ev \<and>
     handleStripeEvent post ev s = (Inr h, t)"
  by (auto simp: handleWebhook_def ok_simps)

lemma webhook_rejected:
  "verifyWebhookSignature hmac parseJson secret raw signature (of_int (clock s div 1000)) = Inl e \<Longrightarrow>
   handleWebhook hmac parseJson secret post raw signature s = (Inl e, s)"
  by (simp add: handleWebhook_def run_bind run_simps)

end
