(* ===== verification/Registry.thy ===== *)
theory Registry
  imports Pricing WalletBooks
begin

text \<open>
  \<open>registry.service.ts\<close>: the providers and models a platform administrator configures, and
  the choice of the target an AI request runs on.  Encryption (\<open>encrypt\<close>, \<open>decrypt\<close> of
  \<open>secret-crypto.util.ts\<close>, over Node's crypto) and the fingerprint hash \<open>sha\<close> are
  arguments.
\<close>

definition PROVIDER_KINDS :: "string list" where
  "PROVIDER_KINDS = [''openai'', ''anthropic'', ''gemini'', ''azure_openai'', ''custom'']"

definition EXECUTABLE_KINDS :: "string list" where
  "EXECUTABLE_KINDS = [''openai'', ''azure_openai'', ''custom'']"

section \<open>Key material\<close>

text \<open>The fields \<open>encryptKeyFields\<close> sets; \<open>None\<close> when there is no key to store.\<close>

definition encryptKeyFields :: "(string \<Rightarrow> string) \<Rightarrow> string option \<Rightarrow> AiBillingProvider \<Rightarrow> AiBillingProvider" where
  "encryptKeyFields encrypt apiKey v =
     (case apiKey of
        None \<Rightarrow> v
      | Some k \<Rightarrow> (let clean = js_trim k in
          if clean = [] then v
          else v\<lparr>v_apiKeyEncrypted := Some (encrypt clean),
                 v_apiKeyLast4 := Some (drop (length clean - 4) clean)\<rparr>))"

text \<open>What leaves the service: the row without the encrypted key.\<close>

record masked_provider =
  mp_row :: AiBillingProvider
  mp_hasApiKey :: bool
  mp_fingerprint :: "string option"

definition maskProvider :: "(string \<Rightarrow> string) \<Rightarrow> AiBillingProvider \<Rightarrow> masked_provider" where
  "maskProvider sha v =
     \<lparr>mp_row = v\<lparr>v_apiKeyEncrypted := None\<rparr>, mp_hasApiKey = truthy (v_apiKeyEncrypted v),
      mp_fingerprint = (if truthy (v_apiKeyEncrypted v)
        then Some (take 12 (sha (orElse (v_apiKeyEncrypted v) []))) else None)\<rparr>"

definition trimmed :: "string option \<Rightarrow> string option" where
  "trimmed s = (case s of None \<Rightarrow> None | Some x \<Rightarrow> if js_trim x = [] then None else Some (js_trim x))"

section \<open>Providers\<close>

record provider_input =
  vi_name :: string
  vi_kind :: string
  vi_apiKey :: "string option"
  vi_endpointUrl :: "string option"
  vi_organizationId :: "string option"
  vi_priority :: "int option"
  vi_status :: "AiBillingProviderStatus option"

definition registry_audit :: "actor \<Rightarrow> string \<Rightarrow> string \<Rightarrow> uuid \<Rightarrow> unit billing_prog" where
  "registry_audit act action entity i =
     record_audit \<lparr>e_actor = act, e_tenantId = None, e_action = action, e_entityType = entity,
       e_entityId = Some i, e_reason = None\<rparr>"

definition createProvider :: "(string \<Rightarrow> string) \<Rightarrow> (string \<Rightarrow> string) \<Rightarrow> provider_input \<Rightarrow> actor \<Rightarrow> masked_provider billing_prog" where
  "createProvider encrypt sha inp act =
     seq (throwIf (vi_kind inp \<notin> set PROVIDER_KINDS) BillingValidationError)
    (bind (create_provider (\<lambda>i. encryptKeyFields encrypt (vi_apiKey inp)
       \<lparr>v_id = i, v_name = js_trim (vi_name inp), v_kind = vi_kind inp, v_apiKeyEncrypted = None,
        v_apiKeyLast4 = None, v_endpointUrl = trimmed (vi_endpointUrl inp),
        v_organizationId = trimmed (vi_organizationId inp), v_priority = orElse (vi_priority inp) 100,
        v_status = orElse (vi_status inp) AiBillingProviderStatus.ACTIVE\<rparr>)) (\<lambda>created.
     seq (registry_audit act ''PROVIDER_CREATED'' ''ai_billing_provider'' (v_id created))
     (return (maskProvider sha created))))"

record provider_patch =
  vp_name :: "string patch"
  vp_kind :: "string patch"
  vp_apiKey :: "string option"
  vp_clearApiKey :: bool
  vp_endpointUrl :: "string option patch"
  vp_organizationId :: "string option patch"
  vp_priority :: "int patch"
  vp_status :: "AiBillingProviderStatus patch"

definition patch_provider :: "(string \<Rightarrow> string) \<Rightarrow> provider_patch \<Rightarrow> AiBillingProvider \<Rightarrow> AiBillingProvider" where
  "patch_provider encrypt inp v =
     apply_patch (\<lambda>x v. v\<lparr>v_status := x\<rparr>) (vp_status inp)
    (apply_patch (\<lambda>x v. v\<lparr>v_priority := x\<rparr>) (vp_priority inp)
    (apply_patch (\<lambda>x v. v\<lparr>v_organizationId := trimmed x\<rparr>) (vp_organizationId inp)
    (apply_patch (\<lambda>x v. v\<lparr>v_endpointUrl := trimmed x\<rparr>) (vp_endpointUrl inp)
    ((if vp_clearApiKey inp then (\<lambda>v. v\<lparr>v_apiKeyEncrypted := None, v_apiKeyLast4 := None\<rparr>)
      else encryptKeyFields encrypt (vp_apiKey inp))
    (apply_patch (\<lambda>x v. v\<lparr>v_kind := x\<rparr>) (vp_kind inp)
    (apply_patch (\<lambda>x v. v\<lparr>v_name := js_trim x\<rparr>) (vp_name inp) v))))))"

text \<open>\<open>ai_billing_providers.name\<close> is unique, also under updates.\<close>

definition update_provider :: "uuid \<Rightarrow> (AiBillingProvider \<Rightarrow> AiBillingProvider) \<Rightarrow> AiBillingProvider billing_prog" where
  "update_provider i f = (\<lambda>s. case find_by v_id i (providers s) of
       None \<Rightarrow> (Inl PrismaRecordNotFound, s)
     | Some v \<Rightarrow> if (\<exists>x \<in> set (providers s). v_id x \<noteq> i \<and> v_name x = v_name (f v))
                 then (Inl PrismaUniqueViolation, s)
                 else (Inr (f v), s\<lparr>providers := set_row v_id i f (providers s)\<rparr>))"

definition updateProvider :: "(string \<Rightarrow> string) \<Rightarrow> (string \<Rightarrow> string) \<Rightarrow> uuid \<Rightarrow> provider_patch \<Rightarrow> actor \<Rightarrow> masked_provider billing_prog" where
  "updateProvider encrypt sha i inp act =
     bind (gets (\<lambda>s. find_by v_id i (providers s))) (\<lambda>before.
     seq (throwIf (before = None) BillingNotFoundError)
    (seq (throwIf (case vp_kind inp of Undefined \<Rightarrow> False
            | Value k \<Rightarrow> k \<noteq> [] \<and> k \<notin> set PROVIDER_KINDS) BillingValidationError)
    (bind (update_provider i (patch_provider encrypt inp)) (\<lambda>updated.
     seq (registry_audit act ''PROVIDER_UPDATED'' ''ai_billing_provider'' i)
     (return (maskProvider sha updated))))))"

text \<open>Deleting a provider deletes its models and their prices (\<open>onDelete: Cascade\<close>).\<close>

definition cascade_models :: "(AiBillingModel \<Rightarrow> bool) \<Rightarrow> billing \<Rightarrow> billing" where
  "cascade_models gone s =
     s\<lparr>models := filter (\<lambda>m. \<not> gone m) (models s),
       pricings := filter (\<lambda>p. \<not> (\<exists>m \<in> set (models s). gone m \<and> b_id m = p_modelId p)) (pricings s)\<rparr>"

definition deleteProvider :: "uuid \<Rightarrow> actor \<Rightarrow> unit billing_prog" where
  "deleteProvider i act =
     bind (gets (\<lambda>s. find_by v_id i (providers s))) (\<lambda>before.
     seq (throwIf (before = None) BillingNotFoundError)
    (seq (modify (\<lambda>s. (cascade_models (\<lambda>m. b_providerId m = i) s)\<lparr>providers := filter (\<lambda>v. v_id v \<noteq> i) (providers s)\<rparr>))
         (registry_audit act ''PROVIDER_DELETED'' ''ai_billing_provider'' i)))"

section \<open>Models\<close>

record model_input =
  bi_providerId :: uuid
  bi_modelCode :: string
  bi_displayName :: "string option"
  bi_maxContext :: "int option"
  bi_isDefault :: "bool option"
  bi_status :: "AiBillingModelStatus option"

text \<open>At most one model is the default: setting it clears the others first.\<close>

definition clear_default :: "(AiBillingModel \<Rightarrow> bool) \<Rightarrow> unit billing_prog" where
  "clear_default p = modify (\<lambda>s. s\<lparr>models := update_where (\<lambda>m. b_isDefault m \<and> p m)
     (\<lambda>m. m\<lparr>b_isDefault := False\<rparr>) (models s)\<rparr>)"

definition new_model :: "model_input \<Rightarrow> uuid \<Rightarrow> AiBillingModel" where
  "new_model inp i =
     \<lparr>b_id = i, b_providerId = bi_providerId inp, b_modelCode = js_trim (bi_modelCode inp),
      b_displayName = orElse (trimmed (bi_displayName inp)) (js_trim (bi_modelCode inp)),
      b_status = orElse (bi_status inp) AiBillingModelStatus.ACTIVE, b_maxContext = bi_maxContext inp,
      b_isDefault = orElse (bi_isDefault inp) False\<rparr>"

definition createModel :: "model_input \<Rightarrow> actor \<Rightarrow> AiBillingModel billing_prog" where
  "createModel inp act =
     bind (gets (\<lambda>s. find_by v_id (bi_providerId inp) (providers s))) (\<lambda>provider.
     seq (throwIf (provider = None) BillingNotFoundError)
    (bind (transaction
        (seq (if bi_isDefault inp = Some True then clear_default (\<lambda>_. True) else return ())
             (create_model (new_model inp)))) (\<lambda>created.
     seq (registry_audit act ''MODEL_CREATED'' ''ai_billing_model'' (b_id created))
     (return created))))"

record model_patch =
  bp_displayName :: "string patch"
  bp_maxContext :: "int option patch"
  bp_isDefault :: "bool patch"
  bp_status :: "AiBillingModelStatus patch"

definition patch_model :: "model_patch \<Rightarrow> AiBillingModel \<Rightarrow> AiBillingModel" where
  "patch_model inp m =
     apply_patch (\<lambda>x m. m\<lparr>b_status := x\<rparr>) (bp_status inp)
    (apply_patch (\<lambda>x m. m\<lparr>b_isDefault := x\<rparr>) (bp_isDefault inp)
    (apply_patch (\<lambda>x m. m\<lparr>b_maxContext := x\<rparr>) (bp_maxContext inp)
    (apply_patch (\<lambda>x m. m\<lparr>b_displayName := js_trim x\<rparr>) (bp_displayName inp) m)))"

definition update_model :: "uuid \<Rightarrow> (AiBillingModel \<Rightarrow> AiBillingModel) \<Rightarrow> AiBillingModel billing_prog" where
  "update_model i f = (\<lambda>s. case find_by b_id i (models s) of None \<Rightarrow> (Inl PrismaRecordNotFound, s)
     | Some m \<Rightarrow> (Inr (f m), s\<lparr>models := set_row b_id i f (models s)\<rparr>))"

definition updateModel :: "uuid \<Rightarrow> model_patch \<Rightarrow> actor \<Rightarrow> AiBillingModel billing_prog" where
  "updateModel i inp act =
     bind (gets (\<lambda>s. find_by b_id i (models s))) (\<lambda>before.
     seq (throwIf (before = None) BillingNotFoundError)
    (bind (transaction
        (seq (if bp_isDefault inp = Value True then clear_default (\<lambda>m. b_id m \<noteq> i) else return ())
             (update_model i (patch_model inp)))) (\<lambda>updated.
     seq (registry_audit act ''MODEL_UPDATED'' ''ai_billing_model'' i)
     (return updated))))"

definition deleteModel :: "uuid \<Rightarrow> actor \<Rightarrow> unit billing_prog" where
  "deleteModel i act =
     bind (gets (\<lambda>s. find_by b_id i (models s))) (\<lambda>before.
     seq (throwIf (before = None) BillingNotFoundError)
    (seq (modify (cascade_models (\<lambda>m. b_id m = i)))
         (registry_audit act ''MODEL_DELETED'' ''ai_billing_model'' i)))"

section \<open>The execution target\<close>

definition keyed :: "AiBillingProvider \<Rightarrow> bool" where
  "keyed v \<longleftrightarrow> v_status v = AiBillingProviderStatus.ACTIVE \<and> v_apiKeyEncrypted v \<noteq> None"

definition active_models :: "billing \<Rightarrow> AiBillingProvider \<Rightarrow> AiBillingModel list" where
  "active_models s v = filter (\<lambda>m. b_providerId m = v_id v \<and> b_status m = AiBillingModelStatus.ACTIVE) (models s)"

definition isCentrallyConfigured :: "billing \<Rightarrow> bool" where
  "isCentrallyConfigured s \<longleftrightarrow> (\<exists>v \<in> set (providers s). keyed v \<and> active_models s v \<noteq> [])"

definition pick_model :: "string option \<Rightarrow> AiBillingModel list \<Rightarrow> AiBillingModel option" where
  "pick_model modelCode ms =
     (if truthy modelCode then find (\<lambda>m. Some (b_modelCode m) = modelCode) ms
      else (case find b_isDefault ms of Some m \<Rightarrow> Some m
            | None \<Rightarrow> (case ms of [] \<Rightarrow> None | m # _ \<Rightarrow> Some m)))"

text \<open>The loop over the candidates, in priority order.\<close>

fun first_target :: "string option \<Rightarrow> billing \<Rightarrow> AiBillingProvider list \<Rightarrow> (AiBillingProvider \<times> AiBillingModel) option" where
  "first_target modelCode s [] = None"
| "first_target modelCode s (v # vs) =
     (if v_kind v \<notin> set EXECUTABLE_KINDS then first_target modelCode s vs
      else (case pick_model modelCode (active_models s v) of
              None \<Rightarrow> first_target modelCode s vs
            | Some m \<Rightarrow> Some (v, m)))"

definition execution_order :: "billing \<Rightarrow> AiBillingProvider list" where
  "execution_order s = sort_key v_priority (filter keyed (providers s))"

text \<open>The provider, its decrypted key, and the model.\<close>

definition resolveExecutionTarget :: "(string \<Rightarrow> string) \<Rightarrow> string option \<Rightarrow>
    (AiBillingProvider \<times> string \<times> AiBillingModel) option billing_prog" where
  "resolveExecutionTarget decrypt modelCode = gets (\<lambda>s.
     map_option (\<lambda>(v, m). (v, decrypt (orElse (v_apiKeyEncrypted v) []), m))
       (first_target modelCode s (execution_order s)))"

section \<open>At most one default model\<close>

definition sole_default :: "AiBillingModel list \<Rightarrow> bool" where
  "sole_default ms \<longleftrightarrow> (\<forall>m \<in> set ms. \<forall>n \<in> set ms. b_isDefault m \<longrightarrow> b_isDefault n \<longrightarrow> b_id m = b_id n)"

definition one_default :: "billing \<Rightarrow> bool" where
  "one_default s \<longleftrightarrow> distinct (map b_id (models s)) \<and> (\<forall>m \<in> set (models s). b_id m < next_id s) \<and>
     sole_default (models s)"

lemma sole_defaultD: "sole_default ms \<Longrightarrow> m \<in> set ms \<Longrightarrow> n \<in> set ms \<Longrightarrow> b_isDefault m \<Longrightarrow> b_isDefault n \<Longrightarrow> b_id m = b_id n"
  unfolding sole_default_def by blast

lemma sole_defaultI: "(\<And>m n. m \<in> set ms \<Longrightarrow> n \<in> set ms \<Longrightarrow> b_isDefault m \<Longrightarrow> b_isDefault n \<Longrightarrow> b_id m = b_id n) \<Longrightarrow> sole_default ms"
  unfolding sole_default_def by blast

lemma one_default_ignores_audits: "ignores_audits one_default"
  by (simp add: ignores_audits_def one_default_def)

lemma keeps_registry_audit: "ignores_audits I \<Longrightarrow> keeps I (registry_audit act a e i)"
  unfolding registry_audit_def by (rule keeps_record_audit)

lemma keeps_createModel: "keeps one_default (createModel inp act)"
proof -
  have "one_default t" if s: "one_default s"
    and run: "seq (if bi_isDefault inp = Some True then clear_default (\<lambda>_. True) else return ())
             (create_model (new_model inp)) s = (Inr x, t)" for s x t
  proof -
    define ms where "ms = (if bi_isDefault inp = Some True
      then update_where b_isDefault (\<lambda>m. m\<lparr>b_isDefault := False\<rparr>) (models s) else models s)"
    have t: "models t = ms @ [new_model inp (next_id s)]" "next_id t = next_id s + 1"
      using run by (auto simp: ms_def run_seq clear_default_def run_simps create_model_def Let_def split: if_splits)
    have keys: "map b_id ms = map b_id (models s)" by (simp add: ms_def)
    then have ids: "b_id ` set ms = b_id ` set (models s)" by (metis image_set)
    have clear: "\<not> b_isDefault m" if "m \<in> set ms" "bi_isDefault inp = Some True" for m
    proof -
      from that obtain r where "m = (if b_isDefault r then r\<lparr>b_isDefault := False\<rparr> else r)"
        by (auto simp: ms_def in_set_row)
      then show ?thesis by (simp split: if_splits)
    qed
    have new: "b_isDefault (new_model inp i) \<longleftrightarrow> bi_isDefault inp = Some True" "b_id (new_model inp i) = i" for i
      by (cases "bi_isDefault inp"; simp add: new_model_def)+
    have below: "\<forall>j \<in> b_id ` set ms. j < next_id s" using s by (simp add: ids one_default_def)
    then have "next_id s \<notin> b_id ` set ms" by blast
    then have "distinct (map b_id (models t))"
      using s by (simp add: t new keys one_default_def ids)
    moreover have "\<forall>m \<in> set (models t). b_id m < next_id t"
      using below by (simp add: t new less_Suc_eq)
    moreover have "sole_default (models t)"
    proof (cases "bi_isDefault inp = Some True")
      case True
      have "m = new_model inp (next_id s)" if "m \<in> set (models t)" "b_isDefault m" for m
        using that clear [OF _ True] by (auto simp: t)
      then show ?thesis by (metis sole_defaultI)
    next
      case False
      have "m \<in> set (models s)" if "m \<in> set (models t)" "b_isDefault m" for m
        using that False by (auto simp: t new ms_def)
      moreover have "sole_default (models s)" using s by (simp add: one_default_def)
      ultimately show ?thesis by (metis sole_defaultD sole_defaultI)
    qed
    ultimately show ?thesis by (simp add: one_default_def)
  qed
  then show ?thesis
    unfolding createModel_def
    by (intro keeps_intros keeps_transactionI keeps_registry_audit one_default_ignores_audits)
qed

lemma keeps_updateModel: "keeps one_default (updateModel i inp act)"
proof -
  have "one_default t" if s: "one_default s"
    and run: "seq (if bp_isDefault inp = Value True then clear_default (\<lambda>m. b_id m \<noteq> i) else return ())
             (update_model i (patch_model inp)) s = (Inr x, t)" for s x t
  proof -
    define ms where "ms = (if bp_isDefault inp = Value True
      then update_where (\<lambda>m. b_isDefault m \<and> b_id m \<noteq> i) (\<lambda>m. m\<lparr>b_isDefault := False\<rparr>) (models s) else models s)"
    have t: "models t = set_row b_id i (patch_model inp) ms" "next_id t = next_id s"
      using run by (auto simp: ms_def run_seq clear_default_def run_simps update_model_def split: if_splits option.splits)
    have patch: "b_id (patch_model inp m) = b_id m"
      "b_isDefault (patch_model inp m) = (case bp_isDefault inp of Undefined \<Rightarrow> b_isDefault m | Value v \<Rightarrow> v)" for m
      by (simp add: patch_model_def apply_patch_field)
        (cases "bp_isDefault inp"; simp add: patch_model_def apply_patch_field)
    have keys: "map b_id (models t) = map b_id (models s)" by (simp add: t patch ms_def)
    then have ids: "b_id ` set (models t) = b_id ` set (models s)" by (metis image_set)
    have origin: "\<exists>r \<in> set (models s). b_id r = b_id m \<and> b_isDefault r" if "m \<in> set ms" "b_isDefault m" for m
      using that by (auto simp: ms_def in_set_row split: if_splits)
    have "b_id m = b_id n" if mn: "m \<in> set (models t)" "n \<in> set (models t)" "b_isDefault m" "b_isDefault n" for m n
    proof (cases "bp_isDefault inp = Value True")
      case True
      have "b_id x = i" if "x \<in> set (models t)" "b_isDefault x" for x
      proof -
        from that obtain y where y: "y \<in> set ms" "x = (if b_id y = i then patch_model inp y else y)"
          by (auto simp: t in_set_row)
        moreover from y(1) True obtain r where "y = (if b_isDefault r \<and> b_id r \<noteq> i then r\<lparr>b_isDefault := False\<rparr> else r)"
          by (auto simp: ms_def in_set_row)
        ultimately show ?thesis using that(2) by (simp add: patch split: if_splits)
      qed
      with mn show ?thesis by simp
    next
      case False
      have "\<exists>r \<in> set (models s). b_id r = b_id x \<and> b_isDefault r" if "x \<in> set (models t)" "b_isDefault x" for x
      proof -
        from that obtain y where y: "y \<in> set ms" "x = (if b_id y = i then patch_model inp y else y)"
          by (auto simp: t in_set_row)
        with that(2) False have "b_isDefault y" by (simp add: patch split: if_splits patch.splits)
        moreover have "b_id x = b_id y" using y(2) by (simp add: patch)
        ultimately show ?thesis using origin [OF y(1)] by simp
      qed
      with mn obtain a b where "a \<in> set (models s)" "b \<in> set (models s)" "b_isDefault a" "b_isDefault b"
        "b_id a = b_id m" "b_id b = b_id n" by metis
      moreover have "sole_default (models s)" using s by (simp add: one_default_def)
      ultimately show ?thesis using sole_defaultD by metis
    qed
    then have "sole_default (models t)" by (rule sole_defaultI)
    moreover have "\<forall>j \<in> b_id ` set (models t). j < next_id t" using s by (simp add: ids t(2) one_default_def)
    ultimately show ?thesis using s by (simp add: one_default_def keys)
  qed
  then show ?thesis
    unfolding updateModel_def
    by (intro keeps_intros keeps_transactionI keeps_registry_audit one_default_ignores_audits)
qed

end
