(* ===== verification/BillingProperties.thy ===== *)
theory BillingProperties
  imports BillingSystem StripeClient Registry
begin

text \<open>
  What the AI billing module guarantees, and where it does not: the properties of the
  wallet, charge, purchase, refund, dispute, access, pricing, webhook and registry
  services, over the money columns' rounding \<open>numeric6\<close>.  The concrete states at the
  beginning are the inputs of the witnesses and of the counterexamples.
\<close>

section \<open>Concrete states\<close>

definition operator :: actor where
  "operator = \<lparr>actor_id = Some 1, actor_email = None, actor_role = None, actor_ip = None\<rparr>"

definition customer :: billing_user where
  "customer = \<lparr>bu_id = 2, bu_tenantId = 7, bu_email = None\<rparr>"

text \<open>Tenant 7 with 100 credits.\<close>

definition seeded :: billing where
  "seeded = snd (adjustWallet numeric6 1 7 AiLedgerType.MANUAL_CREDIT 100 ''seed'' empty_billing)"

definition hold :: ReserveInput where
  "hold = \<lparr>ri_tenantId = 7, ri_userId = Some 2, ri_amount = 30, ri_requestId = None\<rparr>"

definition held_state :: billing where
  "held_state = snd (reserveCredits numeric6 hold seeded)"

definition no_context :: FinalizeContext where
  "no_context = \<lparr>fc_createdById = None, fc_requestId = None, fc_notes = None\<rparr>"

text \<open>A bank transfer of 40 credits, approved.\<close>

definition transferred :: billing where
  "transferred = snd (submitBankTransfer numeric6 customer (Finite 40) (Some ''proof'') None seeded)"

definition bought :: billing where
  "bought = snd (reviewBankTransfer (postTransactionIn numeric6) operator
     (c_id (hd (purchases transferred))) True None transferred)"

lemma seeded_reachable: "billing_reachable numeric6 seeded"
  unfolding seeded_def
  by (rule billing_reachable.step [OF billing_reachable.start billing_step.adjust [OF prod.collapse [symmetric]]])

lemma held_reachable: "billing_reachable numeric6 held_state"
  unfolding held_state_def
  by (rule billing_reachable.step [OF seeded_reachable billing_step.reserve [OF prod.collapse [symmetric]]])

lemma bought_reachable: "billing_reachable numeric6 bought"
proof -
  have "billing_reachable numeric6 transferred"
    unfolding transferred_def
    by (rule billing_reachable.step [OF seeded_reachable billing_step.transfer [OF prod.collapse [symmetric]]])
  then show ?thesis
    unfolding bought_def by (rule billing_reachable.step [OF _ billing_step.review [OF prod.collapse [symmetric]]])
qed

section \<open>The books of every reachable state\<close>

text \<open>
  C1: In every state the module can reach, by any sequence of calls of its public methods
  with any arguments and any answers of Stripe, each wallet's reserved balance is exactly
  the sum of its active reservations, its ledger rows form an unbroken chain of
  before/after balances from 0 to its balance, and its balance differs from the sum of its
  ledger by at most one unit in the last place per row.
\<close>

theorem reachable_wallet_books:
  assumes "billing_reachable numeric6 s" "w \<in> set (wallets s)"
  shows "w_reservedBalance w = holds_of (w_id w) (reservations s) \<and>
    linked 0 (ledger_of (w_id w) s) (w_balance w) \<and>
    \<bar>w_balance w - ledger_sum (w_id w) s\<bar> \<le> of_nat (length (ledger_of (w_id w) s)) * ulp"
  using numeric6.reachable_books [OF assms(1)] assms(2)
  by (simp add: wallet_ok_def holds_ok_def chain_ok_def drift_ok_def)

lemma reachable_wallet_books_witness:
  "w_reservedBalance (hd (wallets held_state)) = holds_of (w_id (hd (wallets held_state))) (reservations held_state) \<and>
     linked 0 (ledger_of (w_id (hd (wallets held_state))) held_state) (w_balance (hd (wallets held_state))) \<and>
     w_reservedBalance (hd (wallets held_state)) = 30"
proof -
  have "hd (wallets held_state) \<in> set (wallets held_state)" "w_reservedBalance (hd (wallets held_state)) = 30"
    by code_simp+
  with reachable_wallet_books [OF held_reachable] show ?thesis by blast
qed

text \<open>
  C2: In every reachable state a purchase that is COMPLETED (or has since been REFUNDED) has
  exactly one PURCHASE row in the ledger, of its own amount and tenant, and a purchase in
  any other status has none: no path credits a purchase twice or credits an open one.
\<close>

theorem reachable_purchase_credits:
  assumes "billing_reachable numeric6 s" "c \<in> set (purchases s)"
  shows "if c_status c \<in> {AiPurchaseStatus.COMPLETED, AiPurchaseStatus.REFUNDED}
    then \<exists>t. credits_of (c_id c) s = [t] \<and> t_amount t = numeric6 (c_amount c) \<and> t_tenantId t = c_tenantId c
    else credits_of (c_id c) s = []"
  using numeric6.reachable_books [OF assms(1)] assms(2)
  by (auto simp: claims_ok_def purchases_ok_def purchase_ok_def settled_def split: if_splits)

lemma reachable_purchase_credits_witness:
  "length (credits_of (c_id (hd (purchases bought))) bought) = 1 \<and> purchases bought \<noteq> []"
proof -
  have c: "hd (purchases bought) \<in> set (purchases bought)"
    "c_status (hd (purchases bought)) = AiPurchaseStatus.COMPLETED" "purchases bought \<noteq> []" by code_simp+
  with reachable_purchase_credits [OF bought_reachable c(1)] show ?thesis by auto
qed



text \<open>
  C4: In every state reached by calls that run one after another, a usage charge has been
  reversed at most once.
\<close>

theorem reachable_reversals:
  assumes "billing_reachable numeric6 s"
  shows "length (filter (is_reversal_of tenantId chargeId) (txs s)) \<le> 1"
  using numeric6.reachable_books [OF assms] by (simp add: claims_ok_def reversals_ok_def)

lemma reachable_reversals_witness: "length (filter (is_reversal_of 7 0) (txs bought)) \<le> 1"
  by (rule reachable_reversals [OF bought_reachable])

section \<open>The wallet service\<close>

text \<open>
  A posting whose amount fits the column keeps the exact identity balance = sum of the
  ledger (what \<open>wallet.service.ts\<close> states in its header), whether it returns or throws.
\<close>

theorem post_reconciles:
  assumes "numeric6 (pi_amount inp) = pi_amount inp" "wallet_ok numeric6 s" "reconciled s"
  shows "reconciled (snd (postTransaction numeric6 inp s))"
  using numeric6.keeps_books_postTransaction [OF assms(1)] assms(2,3) by (auto simp: keeps_def)

definition fee :: PostTransactionInput where
  "fee = \<lparr>pi_tenantId = 7, pi_type = AiLedgerType.CORRECTION, pi_amount = - 1 / 4, pi_createdById = None,
     pi_notes = None, pi_relatedEntityType = None, pi_relatedEntityId = None, pi_allowNegativeBalance = False\<rparr>"

lemma post_reconciles_witness: "reconciled (snd (postTransaction numeric6 fee seeded))"
proof (rule post_reconciles)
  show "numeric6 (pi_amount fee) = pi_amount fee" "reconciled seeded" by code_simp+
  show "wallet_ok numeric6 seeded" using numeric6.reachable_books [OF seeded_reachable] by simp
qed

definition half_tick :: PostTransactionInput where
  "half_tick = fee\<lparr>pi_amount := - 1 / 2000000\<rparr>"

definition one_tick :: billing where
  "one_tick = snd (adjustWallet numeric6 1 7 AiLedgerType.MANUAL_CREDIT (1 / 1000000) ''seed'' empty_billing)"

text \<open>
  The identity fails at a rounding tie: with a balance of one millionth, a posting of
  minus half a millionth stores the balance and the amount both rounded away from zero, so
  the balance stays and the ledger sums to zero.
\<close>

theorem tie_breaks_reconciliation:
  "reconciled one_tick \<and> (\<exists>t. postTransaction numeric6 half_tick one_tick = (Inr t, snd (postTransaction numeric6 half_tick one_tick))) \<and>
   \<not> reconciled (snd (postTransaction numeric6 half_tick one_tick))"
proof -
  have "fst (postTransaction numeric6 half_tick one_tick) = Inr (the_elem (set [last (txs (snd (postTransaction numeric6 half_tick one_tick)))]))"
    by code_simp
  then have "\<exists>t. postTransaction numeric6 half_tick one_tick = (Inr t, snd (postTransaction numeric6 half_tick one_tick))"
    by (blast dest: ran_to)
  moreover have "reconciled one_tick" "\<not> reconciled (snd (postTransaction numeric6 half_tick one_tick))" by code_simp+
  ultimately show ?thesis by blast
qed


text \<open>
  C5: A reservation that is granted came from an ACTIVE wallet whose unreserved balance
  covered it, and afterwards the wallet's reserved balance is still at most its balance:
  holds never promise more credits than there are.
\<close>

theorem reserve_never_overcommits:
  assumes "wallet_ok numeric6 s" "reserveCredits numeric6 inp s = (Inr r, t)"
  shows "\<exists>w \<in> set (wallets t). w_id w = r_walletId r \<and> w_tenantId w = ri_tenantId inp \<and>
    w_status w = AiWalletStatus.ACTIVE \<and> w_reservedBalance w \<le> w_balance w \<and>
    r \<in> set (reservations t) \<and> r_status r = AiReservationStatus.ACTIVE \<and> r_amount r = numeric6 (ri_amount inp)"
proof -
  obtain w s' where lock: "lockWalletByTenant (ri_tenantId inp) s = (Inr w, s')"
    and w: "w_status w = AiWalletStatus.ACTIVE" "ri_amount inp \<le> w_balance w - w_reservedBalance w"
    and r: "r_walletId r = w_id w" "r_amount r = numeric6 (ri_amount inp)" "r_status r = AiReservationStatus.ACTIVE"
    and t: "t = held numeric6 w (ri_amount inp) r (clock s') s'"
    by (rule reserveCredits_okD [OF assms(2)]) blast
  note res = lockWalletByTenant_result [OF lock numeric6.wallet_ok_keys [OF assms(1)]]
    numeric6.lockWalletByTenant_keeps [OF assms(1) lock]
  then have "numeric6 (w_balance w) = w_balance w" by (auto simp: wallet_ok_def grid_ok_def)
  with numeric6.dec_mono [of "w_reservedBalance w + ri_amount inp" "w_balance w"] w(2)
  have "numeric6 (w_reservedBalance w + ri_amount inp) \<le> w_balance w" by simp
  moreover have "w \<in> set (wallets s')" "w_tenantId w = ri_tenantId inp" using res by simp_all
  then have "w\<lparr>w_reservedBalance := numeric6 (w_reservedBalance w + ri_amount inp), w_lastActivityAt := Some (clock s')\<rparr>
      \<in> set (wallets t)" (is "?x \<in> _")
    by (auto simp: t in_set_row)
  ultimately show ?thesis
    using w r \<open>w_tenantId w = ri_tenantId inp\<close> by (intro bexI [of _ ?x]) (simp_all add: t)
qed

lemma reserve_never_overcommits_witness:
  "\<exists>w \<in> set (wallets held_state). w_tenantId w = 7 \<and> w_reservedBalance w \<le> w_balance w"
proof -
  have "wallet_ok numeric6 seeded" using numeric6.reachable_books [OF seeded_reachable] by simp
  moreover have "reserveCredits numeric6 hold seeded = (Inr (hd (reservations held_state)), held_state)"
  proof (rule prod_eqI)
    show "fst (reserveCredits numeric6 hold seeded) = fst (Inr (hd (reservations held_state)), held_state)"
      by code_simp
  qed (simp add: held_state_def)
  ultimately have "\<exists>w \<in> set (wallets held_state). w_id w = r_walletId (hd (reservations held_state)) \<and>
      w_tenantId w = ri_tenantId hold \<and> w_status w = AiWalletStatus.ACTIVE \<and> w_reservedBalance w \<le> w_balance w \<and>
      hd (reservations held_state) \<in> set (reservations held_state) \<and>
      r_status (hd (reservations held_state)) = AiReservationStatus.ACTIVE \<and>
      r_amount (hd (reservations held_state)) = numeric6 (ri_amount hold)"
    by (rule reserve_never_overcommits)
  then show ?thesis by (auto simp: hold_def)
qed

text \<open>
  C6: A posting either fails and leaves the database exactly as it was, or appends one
  ledger row of a non-zero amount whose balance-after is the wallet's new balance; unless
  the caller allows an overdraft, the new balance is not negative.
\<close>

theorem post_guarded:
  assumes "wallet_ok numeric6 s" "postTransaction numeric6 inp s = (res, t)"
  shows "case res of Inl e \<Rightarrow> t = s
    | Inr r \<Rightarrow> pi_amount inp \<noteq> 0 \<and> txs t = txs s @ [r] \<and>
        (\<exists>w \<in> set (wallets t). w_tenantId w = pi_tenantId inp \<and> w_balance w = t_balanceAfter r \<and>
           (pi_allowNegativeBalance inp \<or> 0 \<le> w_balance w))"
proof (cases res)
  case (Inl e)
  with assms(2) show ?thesis using numeric6.atomic_posting.post_atomic by simp
next
  case (Inr r)
  then obtain w s' where w: "w \<in> set (wallets s')" "w_tenantId w = pi_tenantId inp" "pi_amount inp \<noteq> 0"
      "0 \<le> w_balance w + pi_amount inp \<or> pi_allowNegativeBalance inp"
    and r: "r = ledger_row numeric6 w inp (next_id s') (clock s')"
    and t: "t = (posted numeric6 w inp s')\<lparr>audits := audits t\<rparr>"
    using postTransaction_okD [of numeric6 inp s r t] assms numeric6.wallet_ok_keys by blast
  have "wallets t = wallets (posted numeric6 w inp s')" by (subst t) simp
  then have "wallet_after numeric6 w inp (clock s') w \<in> set (wallets t)"
    using w(1) by (auto simp: in_set_row)
  moreover have "pi_allowNegativeBalance inp \<or> 0 \<le> numeric6 (w_balance w + pi_amount inp)"
    using w(4) numeric6.dec_nonneg by blast
  moreover have "txs t = txs s @ [r]"
    using numeric6.atomic_posting.post_row [OF assms(1)] assms(2) Inr by simp
  ultimately show ?thesis using Inr w by (auto simp: r intro!: bexI [of _ "wallet_after numeric6 w inp (clock s') w"])
qed

lemma post_guarded_witness: "txs (snd (postTransaction numeric6 fee seeded)) \<noteq> txs seeded"
proof -
  have "wallet_ok numeric6 seeded" using numeric6.reachable_books [OF seeded_reachable] by simp
  note guarded = post_guarded [OF this prod.collapse [symmetric], of fee]
  have "\<not> isl (fst (postTransaction numeric6 fee seeded))" by code_simp
  with guarded show ?thesis by (auto split: sum.splits)
qed

lemma finalized_row:
  assumes "finalizeReservation dec i charge ctx s = (Inr (r, entry), t)"
  shows "\<exists>x. find_by r_id i (reservations t) = Some x \<and> r_status x = AiReservationStatus.FINALIZED"
proof -
  obtain w where r: "find_by r_id i (reservations s) = Some r"
    and run: "if charge = 0 then entry = None \<and> t = unheld dec w r AiReservationStatus.FINALIZED (clock s) s
      else \<exists>x. entry = Some x \<and> applyTransaction dec
        (w\<lparr>w_reservedBalance := dec (max 0 (w_reservedBalance w - r_amount r))\<rparr>) (usage_charge charge ctx r)
          (unheld dec w r AiReservationStatus.FINALIZED (clock s) s) = (Inr x, t)"
    by (rule finalizeReservation_okD [OF assms]) blast
  have "reservations t = set_row r_id (r_id r)
      (\<lambda>x. x\<lparr>r_status := AiReservationStatus.FINALIZED, r_finalizedAt := Some (clock s)\<rparr>) (reservations s)"
  proof (cases "charge = 0")
    case True
    with run show ?thesis by simp
  next
    case False
    with run obtain w' inp x where
      app: "applyTransaction dec w' inp (unheld dec w r AiReservationStatus.FINALIZED (clock s) s) = (Inr x, t)"
      by auto
    show ?thesis by (subst applyTransaction_okD(5) [OF app]) simp
  qed
  with r find_by_Some [OF r] show ?thesis
    by (auto simp: find_by_set_row)
qed

text \<open>
  C7: A reservation is settled once.  After a finalization that returned, finalizing it again
  with any charge is refused and changes nothing, and releasing it changes nothing.
\<close>

theorem finalize_once:
  assumes "finalizeReservation numeric6 i charge ctx s = (Inr (r, entry), t)" "0 \<le> again"
  shows "finalizeReservation numeric6 i again ctx' t = (Inl BillingValidationError, t) \<and>
    snd (releaseReservation numeric6 i status t) = t"
proof -
  obtain x where "find_by r_id i (reservations t) = Some x" "r_status x = AiReservationStatus.FINALIZED"
    using finalized_row [OF assms(1)] by blast
  then show ?thesis
    using assms(2) by (simp add: finalizeReservation_def releaseReservation_def run_simps transaction_def run_bind run_seq)
qed

lemma finalize_once_witness:
  "let s = held_state; i = r_id (hd (reservations s)); t = snd (finalizeReservation numeric6 i 20 no_context s)
   in finalizeReservation numeric6 i 5 no_context t = (Inl BillingValidationError, t)"
proof -
  define i where "i = r_id (hd (reservations held_state))"
  have "\<not> isl (fst (finalizeReservation numeric6 (r_id (hd (reservations held_state))) 20 no_context held_state))"
    by code_simp
  then obtain x where "finalizeReservation numeric6 i 20 no_context held_state =
      (Inr x, snd (finalizeReservation numeric6 i 20 no_context held_state))"
    unfolding i_def by (blast dest: ran_ok)
  then have "finalizeReservation numeric6 i 20 no_context held_state =
      (Inr (fst x, snd x), snd (finalizeReservation numeric6 i 20 no_context held_state))" by simp
  from finalize_once [OF this, of 5 no_context] show ?thesis by (simp add: Let_def i_def)
qed

section \<open>The charge of an AI request\<close>

lemma settle_run:
  assumes "ct_reservationId tk = Some i" "oc_success oc" "find_by r_id i (reservations s) = Some r"
    "r_status r = AiReservationStatus.ACTIVE" "find_by w_id (r_walletId r) (wallets s) = Some w"
    "w_status w \<noteq> AiWalletStatus.CLOSED" "fst (snd (settle_cost tk oc)) = charge" "0 < charge"
  shows "\<exists>x l. txs (snd (settle dec tk oc s)) = txs s @ [x] \<and> usageLogs (snd (settle dec tk oc s)) = usageLogs s @ [l] \<and>
    t_type x = AiLedgerType.USAGE_CHARGE \<and> t_walletId x = w_id w \<and> t_amount x = dec (- charge) \<and>
    u_transactionId l = Some (t_id x) \<and> u_status l = AiUsageBillingStatus.CHARGED \<and>
    u_reservationId l = Some i \<and> u_customerCharge l = dec (if ct_billed tk then charge else 0)"
proof -
  define ctx where "ctx = \<lparr>fc_createdById = ct_userId tk, fc_requestId = oc_requestId oc,
                  fc_notes = Some (ct_modelCode tk @ '' '' @ ct_callType tk)\<rparr>"
  define s1 where "s1 = unheld dec w r AiReservationStatus.FINALIZED (clock s) s"
  define w1 where "w1 = w\<lparr>w_reservedBalance := dec (max 0 (w_reservedBalance w - r_amount r))\<rparr>"
  have id: "r_id r = i" "w_id w = r_walletId r" using find_by_Some [OF assms(3)] find_by_Some [OF assms(5)] by auto
  have found: "find_by w_id (w_id w1) (wallets s1) = Some w1"
    using assms(5) id by (simp add: s1_def w1_def find_by_set_row)
  obtain a where app: "applyTransaction dec w1 (usage_charge charge ctx r) s1 =
      (Inr (ledger_row dec w1 (usage_charge charge ctx r) (next_id s1) (clock s1)),
       (posted dec w1 (usage_charge charge ctx r) s1)\<lparr>audits := a\<rparr>)"
    using applyTransaction_runs [OF _ _ _ found, of "usage_charge charge ctx r" dec] assms(6,8)
    by (auto simp: usage_charge_def w1_def)
  define x where "x = ledger_row dec w1 (usage_charge charge ctx r) (next_id s1) (clock s1)"
  define t1 where "t1 = (posted dec w1 (usage_charge charge ctx r) s1)\<lparr>audits := a\<rparr>"
  have fin: "finalizeReservation dec i charge ctx s = (Inr (r, Some x), t1)"
    using finalizeReservation_run [OF _ assms(3,4,5), of charge dec ctx] assms(8) app
    by (simp add: w1_def [symmetric] s1_def [symmetric] run_simps x_def t1_def)
  have t1: "txs t1 = txs s @ [x]" "usageLogs t1 = usageLogs s"
    by (simp_all add: t1_def x_def s1_def) (simp add: unheld_def)
  define l where "l = usage_log dec tk oc (Some (t_id x)) AiUsageBillingStatus.CHARGED (next_id t1) (clock t1)"
  have "settle dec tk oc s = (Inr (), t1\<lparr>usageLogs := usageLogs t1 @ [l], next_id := next_id t1 + 1\<rparr>)"
    using fin [unfolded ctx_def] assms(1,2)
    by (simp add: settle_def settle_reservation_def assms(7) run_simps create_usageLog_def Let_def l_def)
  moreover have "t_type x = AiLedgerType.USAGE_CHARGE" "t_walletId x = w_id w" "t_amount x = dec (- charge)"
    by (simp_all add: x_def usage_charge_def w1_def)
  moreover have "u_transactionId l = Some (t_id x)" "u_status l = AiUsageBillingStatus.CHARGED"
    "u_reservationId l = Some i" "u_customerCharge l = dec (if ct_billed tk then charge else 0)"
    using assms(1,2,7) by (simp_all add: l_def usage_log_def Let_def case_prod_unfold)
  ultimately show ?thesis using t1 by simp
qed

text \<open>
  C8: Settling a successful request whose hold is active and whose wallet is not closed
  appends exactly one USAGE_CHARGE row, of minus the computed charge, and exactly one usage
  log row that points to it, also when the charge exceeds the hold and the balance.
\<close>

theorem settle_charges_once:
  assumes "ct_reservationId tk = Some i" "oc_success oc" "find_by r_id i (reservations s) = Some r"
    "r_status r = AiReservationStatus.ACTIVE" "find_by w_id (r_walletId r) (wallets s) = Some w"
    "w_status w \<noteq> AiWalletStatus.CLOSED" "0 < fst (snd (settle_cost tk oc))"
  shows "\<exists>x l. txs (snd (settle numeric6 tk oc s)) = txs s @ [x] \<and>
    usageLogs (snd (settle numeric6 tk oc s)) = usageLogs s @ [l] \<and>
    t_type x = AiLedgerType.USAGE_CHARGE \<and> t_walletId x = w_id w \<and>
    t_amount x = - numeric6 (fst (snd (settle_cost tk oc))) \<and>
    u_transactionId l = Some (t_id x) \<and> u_status l = AiUsageBillingStatus.CHARGED"
  using settle_run [OF assms(1-6) refl assms(7), of numeric6] by (auto simp: numeric6.dec_minus)

definition price :: AiModelPricing where
  "price = \<lparr>p_id = 50, p_modelId = 9, p_scope = AiPricingScope.GLOBAL, p_planTier = None, p_tenantId = None,
     p_currency = ''USD'', p_status = AiPricingStatus.ACTIVE, p_effectiveFrom = - 1, p_effectiveTo = None,
     p_providerInputCost = 2, p_providerOutputCost = 8, p_providerCachedInputCost = 1,
     p_providerReasoningCost = 8, p_providerEmbeddingCost = 0, p_providerImageCost = 0,
     p_customerInputPrice = 3, p_customerOutputPrice = 12, p_customerCachedInputPrice = 1,
     p_customerReasoningPrice = 12, p_customerEmbeddingPrice = 0, p_customerImagePrice = 0,
     p_createdById = None\<rparr>"

definition request :: prepare_input where
  "request = \<lparr>pr_tenantId = 7, pr_userId = Some 2, pr_providerId = None, pr_providerName = ''openai'',
     pr_modelId = Some 9, pr_modelCode = ''gpt'', pr_callType = ''chat'', pr_estimatedPromptTokens = 1000,
     pr_maxCompletionTokens = 500\<rparr>"

definition priced :: billing where
  "priced = seeded\<lparr>pricings := [price]\<rparr>"

definition answered :: outcome where
  "answered = \<lparr>oc_success = True, oc_usage = Some \<lparr>su_promptTokens = Some 900, su_completionTokens = Some 400,
     su_cachedTokens = None, su_reasoningTokens = None, su_totalTokens = None\<rparr>, oc_executionMs = None, oc_requestId = None\<rparr>"

definition estimate_hold :: ReserveInput where
  "estimate_hold = \<lparr>ri_tenantId = 7, ri_userId = Some 2, ri_amount = 9 / 1000, ri_requestId = None\<rparr>"

definition prepared_state :: billing where
  "prepared_state = snd (reserveCredits numeric6 estimate_hold priced)"

definition prepared_ticket :: ChargeTicket where
  "prepared_ticket = ticket request True (Some 2) (Some price) (to_fixed 6 (9 / 1000))"

lemma settle_charges_once_witness:
  "\<exists>x l. txs (snd (settle numeric6 prepared_ticket answered prepared_state)) = txs prepared_state @ [x] \<and>
     usageLogs (snd (settle numeric6 prepared_ticket answered prepared_state)) = usageLogs prepared_state @ [l] \<and>
     t_amount x = - numeric6 (75 / 10000)"
proof -
  let ?r = "hd (reservations prepared_state)" and ?w = "hd (wallets prepared_state)"
  have "ct_reservationId prepared_ticket = Some 2" "oc_success answered"
    "find_by r_id 2 (reservations prepared_state) = Some ?r" "r_status ?r = AiReservationStatus.ACTIVE"
    "find_by w_id (r_walletId ?r) (wallets prepared_state) = Some ?w" "w_status ?w \<noteq> AiWalletStatus.CLOSED"
    "0 < fst (snd (settle_cost prepared_ticket answered))"
    by code_simp+
  note charged = settle_charges_once [OF this]
  have "fst (snd (settle_cost prepared_ticket answered)) = 75 / 10000" by code_simp
  with charged show ?thesis by auto
qed

text \<open>
  Settling a successful request whose hold is no longer active (it expired after ten
  minutes, or was released) changes nothing at all: the request is neither charged nor
  logged, since the error of the finalization is only written to the process log.
\<close>

theorem settle_expired_unbilled:
  assumes "ct_reservationId tk = Some i" "oc_success oc" "find_by r_id i (reservations s) = Some r"
    "r_status r \<noteq> AiReservationStatus.ACTIVE"
  shows "settle numeric6 tk oc s = (Inr (), s)"
proof -
  have "\<exists>e. finalizeReservation numeric6 i charge ctx s = (Inl e, s)" for charge ctx
    using assms(3,4) by (simp add: finalizeReservation_def run_simps transaction_def run_bind run_seq)
  then obtain e where e: "finalizeReservation numeric6 i (fst (snd (settle_cost tk oc)))
      \<lparr>fc_createdById = ct_userId tk, fc_requestId = oc_requestId oc,
       fc_notes = Some (ct_modelCode tk @ '' '' @ ct_callType tk)\<rparr> s = (Inl e, s)"
    by blast
  show ?thesis
    using e assms(1,2) by (simp add: settle_def settle_reservation_def run_simps)
qed

definition expired :: billing where
  "expired = snd (expireStaleReservations numeric6 (prepared_state\<lparr>clock := 600001\<rparr>))"

lemma settle_expired_unbilled_witness:
  "settle numeric6 prepared_ticket answered expired = (Inr (), expired) \<and> usageLogs expired = []"
proof -
  have "ct_reservationId prepared_ticket = Some 2" "oc_success answered"
    "find_by r_id 2 (reservations expired) = Some (hd (reservations expired))"
    "r_status (hd (reservations expired)) \<noteq> AiReservationStatus.ACTIVE" "usageLogs expired = []"
    by code_simp+
  with settle_expired_unbilled show ?thesis by blast
qed

text \<open>
  C9: Under enforcement, \<open>prepare\<close> returns a ticket only for a request that has a price, that
  its effective access policy admits, and for which the wallet now holds an active
  reservation of the estimate (a millionth when the estimate is zero).
\<close>

theorem prepare_gates:
  assumes "enforcementEnabled enforcement" "prepare numeric6 enforcement inp s = (Inr tk, t)"
  shows "ct_billed tk \<and> (\<exists>p m r. ct_pricing tk = Some p \<and> pr_modelId inp = Some m \<and>
    select_pricing (candidates m (clock s) (pricings s)) (Some (pr_tenantId inp)) (map_of (tiers s) (pr_tenantId inp)) = Some p \<and>
    admits s \<lparr>ai_tenantId = pr_tenantId inp, ai_userId = pr_userId inp, ai_planTier = map_of (tiers s) (pr_tenantId inp),
      ai_modelCode = pr_modelCode inp,
      ai_estimatedCharge = estimateCharge p (pr_estimatedPromptTokens inp) (pr_maxCompletionTokens inp)\<rparr> \<and>
    r \<in> set (reservations t) \<and> ct_reservationId tk = Some (r_id r) \<and> r_status r = AiReservationStatus.ACTIVE \<and>
    r_amount r = numeric6 (let e = estimateCharge p (pr_estimatedPromptTokens inp) (pr_maxCompletionTokens inp)
      in if 0 < e then e else 1 / 1000000))"
proof -
  obtain p m r where p: "pr_modelId inp = Some m"
      "select_pricing (candidates m (clock s) (pricings s)) (Some (pr_tenantId inp)) (map_of (tiers s) (pr_tenantId inp)) = Some p"
    and ok: "admits s \<lparr>ai_tenantId = pr_tenantId inp, ai_userId = pr_userId inp, ai_planTier = map_of (tiers s) (pr_tenantId inp),
      ai_modelCode = pr_modelCode inp, ai_estimatedCharge = estimateCharge p (pr_estimatedPromptTokens inp) (pr_maxCompletionTokens inp)\<rparr>"
    and r: "reserveCredits numeric6 \<lparr>ri_tenantId = pr_tenantId inp, ri_userId = pr_userId inp,
        ri_amount = (if 0 < estimateCharge p (pr_estimatedPromptTokens inp) (pr_maxCompletionTokens inp)
          then estimateCharge p (pr_estimatedPromptTokens inp) (pr_maxCompletionTokens inp) else 1 / 1000000),
        ri_requestId = None\<rparr> s = (Inr r, t)"
    and tk: "ct_billed tk" "ct_pricing tk = Some p" "ct_reservationId tk = Some (r_id r)"
    using assms
    by (auto simp: prepare_def tenantTier_def resolvePricing_def Let_def ok_simps assertAccess_ok ticket_def
        split: option.splits)
  have "r \<in> set (reservations t) \<and> r_status r = AiReservationStatus.ACTIVE \<and>
    r_amount r = numeric6 (if 0 < estimateCharge p (pr_estimatedPromptTokens inp) (pr_maxCompletionTokens inp)
          then estimateCharge p (pr_estimatedPromptTokens inp) (pr_maxCompletionTokens inp) else 1 / 1000000)"
    by (rule reserveCredits_okD [OF r]) simp
  with p ok tk show ?thesis by (auto simp: Let_def)
qed

lemma no_policies_admit: "policies s = [] \<Longrightarrow> admits s inp"
  by (simp add: admits_def within_usage_def policy_chain_of_def Let_def status_of_chain_def split: option.split)

lemma prepared_run: "prepare numeric6 (Some ''true'') request priced = (Inr prepared_ticket, prepared_state)"
proof -
  have pricing: "select_pricing (candidates 9 0 [price]) (Some 7) None = Some price" by code_simp
  have on: "enforcementEnabled (Some ''true'')" by code_simp
  have est: "estimateCharge price 1000 500 = 9 / 1000" by code_simp
  have state: "clock priced = 0" "pricings priced = [price]" "tiers priced = []" "policies priced = []" by code_simp+
  have res: "reserveCredits numeric6 estimate_hold priced = (fst (reserveCredits numeric6 estimate_hold priced), prepared_state)"
    by (simp add: prepared_state_def)
  have id: "map_option r_id (case fst (reserveCredits numeric6 estimate_hold priced) of Inl _ \<Rightarrow> None | Inr r \<Rightarrow> Some r) = Some 2"
    by code_simp
  then obtain r where r: "reserveCredits numeric6 estimate_hold priced = (Inr r, prepared_state)" "r_id r = 2"
    using res by (auto split: sum.splits)
  have access: "assertAccess inp priced = (Inr (effective_policy (policy_chain_of (ai_tenantId inp) (ai_userId inp) (ai_planTier inp) [])), priced)" for inp
    using no_policies_admit [of priced inp] state(4) by (simp add: assertAccess_ok)
  show ?thesis
    using r by (simp add: prepare_def tenantTier_def resolvePricing_def Let_def request_def run_simps pricing on est state
        access ticket_def prepared_ticket_def estimate_hold_def)
qed

lemma prepare_gates_witness: "ct_billed prepared_ticket \<and> ct_pricing prepared_ticket = Some price"
proof -
  have "enforcementEnabled (Some ''true'')" "ct_pricing prepared_ticket = Some price" by code_simp+
  with prepare_gates [OF _ prepared_run] show ?thesis by blast
qed
end
