(* ===== verification/PurchaseProperties.thy ===== *)
theory PurchaseProperties
  imports BillingProperties
begin

text \<open>
  Properties of prices and access, of purchases and the Stripe webhook, of refunds and
  disputes, and of the model registry.
\<close>

section \<open>Prices and access\<close>

text \<open>
  C10: The price used for a request is active and effective at the instant, and no other
  effective row has a more specific scope (tenant before plan before global) or the same
  scope and a later start; there is none exactly when no effective row applies to the
  tenant and tier.
\<close>

theorem pricing_precedence:
  "case select_pricing (candidates m now rows) t k of
     None \<Rightarrow> (\<forall>q \<in> set rows. effective_at m now q \<longrightarrow> rank_for t k q = 0)
   | Some p \<Rightarrow> p \<in> set rows \<and> effective_at m now p \<and> 0 < rank_for t k p \<and>
       (\<forall>q \<in> set rows. effective_at m now q \<longrightarrow> rank_for t k q < rank_for t k p \<or>
          rank_for t k q = rank_for t k p \<and> p_effectiveFrom q \<le> p_effectiveFrom p)"
proof (cases "select_pricing (candidates m now rows) t k")
  case None
  then have "\<forall>q \<in> set rows. effective_at m now q \<longrightarrow> rank_for t k q = 0" by (simp only: select_pricing_None)
  then show ?thesis by (simp only: None option.case)
next
  case (Some p)
  show ?thesis using select_pricing_Some [OF Some] by (simp add: Some)
qed

lemma pricing_precedence_witness:
  "effective_at 9 0 price \<and> 0 < rank_for (Some 7) None price"
proof -
  have "select_pricing (candidates 9 0 [price]) (Some 7) None = Some price" by code_simp
  with pricing_precedence [where m = 9 and now = 0 and rows = "[price]" and t = "Some 7" and k = None] show ?thesis by (auto simp: less_imp_le)
qed

text \<open>
  C11: The access gate lets a request through, without touching the database, exactly when
  its effective policy is ENABLED, allows the model, its estimate is within the cost per
  query, and the day's and month's requests and spend stay within their limits.
\<close>

theorem access_gate:
  "(\<exists>p t. assertAccess inp s = (Inr p, t)) = admits s inp \<and> snd (assertAccess inp s) = s"
  by (simp add: assertAccess_ok) (simp add: assertAccess_run Let_def)


text \<open>
  Updating an access policy without giving a status enables it: whatever its status was
  (SUSPENDED or DISABLED included), the saved row is ENABLED, although every other field
  that is not given keeps its value.
\<close>

theorem upsert_reenables:
  assumes "find (scopeWhere inp) (policies s) = Some b" "find_by y_id (y_id b) (policies s) = Some b"
    "fst (validateScopeKey inp s) = Inr ()" "au_status inp = None" "au_dailyRequestLimit inp = Undefined"
  shows "\<exists>r t. upsertPolicy dec inp act s = (Inr r, t) \<and> r \<in> set (policies t) \<and> y_id r = y_id b \<and>
    y_status r = AiAccessStatus.ENABLED \<and> y_dailyRequestLimit r = y_dailyRequestLimit b"
proof -
  have valid: "validateScopeKey inp s = (Inr (), s)"
    using assms(3) by (auto simp: validateScopeKey_def run_seq run_simps split: if_splits)
  have mem: "b \<in> set (policies s)" using find_in [OF assms(1)] by simp
  define r where "r = policy_data dec inp (Some b) b"
  have upd: "update_policy (y_id b) (policy_data dec inp (Some b)) s =
      (Inr r, s\<lparr>policies := set_row y_id (y_id b) (policy_data dec inp (Some b)) (policies s)\<rparr>)"
    by (simp add: update_policy_def assms(2) r_def)
  have "\<exists>a. upsertPolicy dec inp act s =
      (Inr r, s\<lparr>policies := set_row y_id (y_id b) (policy_data dec inp (Some b)) (policies s), audits := a\<rparr>)"
    by (simp add: upsertPolicy_def seq_Inr [of "validateScopeKey inp", OF valid] bind_gets assms(1) upd record_audit_def recordIn_def run_simps)
      (rule exI, rule refl)
  then obtain a where "upsertPolicy dec inp act s =
      (Inr r, s\<lparr>policies := set_row y_id (y_id b) (policy_data dec inp (Some b)) (policies s), audits := a\<rparr>)" by blast
  moreover have "r \<in> set (set_row y_id (y_id b) (policy_data dec inp (Some b)) (policies s))"
    using mem by (auto simp: in_set_row r_def)
  ultimately show ?thesis using assms(4,5) by (simp add: r_def policy_data_def)
qed

definition suspended_policy :: AiAccessPolicy where
  "suspended_policy = \<lparr>y_id = 60, y_scope = AiAccessScope.TENANT, y_tenantId = Some 7, y_userId = None, y_planTier = None,
     y_status = AiAccessStatus.SUSPENDED, y_allowedModelCodes = None, y_dailyRequestLimit = Some 10,
     y_monthlyRequestLimit = None, y_maxQueryCost = None, y_maxDailySpend = None, y_maxMonthlySpend = None,
     y_notes = None, y_createdById = None\<rparr>"

definition new_limit :: AccessPolicyUpsert where
  "new_limit = \<lparr>au_scope = AiAccessScope.TENANT, au_tenantId = Some 7, au_userId = None, au_planTier = None,
     au_status = None, au_allowedModelCodes = Undefined, au_dailyRequestLimit = Undefined,
     au_monthlyRequestLimit = Value (Some 100), au_maxQueryCost = Undefined, au_maxDailySpend = Undefined,
     au_maxMonthlySpend = Undefined, au_notes = Undefined\<rparr>"

lemma upsert_reenables_witness:
  "\<exists>r t. upsertPolicy numeric6 new_limit operator (seeded\<lparr>policies := [suspended_policy]\<rparr>) = (Inr r, t) \<and>
     y_status r = AiAccessStatus.ENABLED \<and> y_dailyRequestLimit r = Some 10"
proof -
  have "find (scopeWhere new_limit) (policies (seeded\<lparr>policies := [suspended_policy]\<rparr>)) = Some suspended_policy"
    "find_by y_id (y_id suspended_policy) (policies (seeded\<lparr>policies := [suspended_policy]\<rparr>)) = Some suspended_policy"
    "fst (validateScopeKey new_limit (seeded\<lparr>policies := [suspended_policy]\<rparr>)) = Inr ()"
    "au_status new_limit = None" "au_dailyRequestLimit new_limit = Undefined"
    by code_simp+
  from upsert_reenables [OF this, of numeric6 operator] show ?thesis by (auto simp: suspended_policy_def)
qed

section \<open>Purchases\<close>

text \<open>
  A completed purchase is never credited again: once a completion has returned, running
  it again with any event or reviewer returns the same purchase and changes nothing.
\<close>

theorem completion_replay:
  assumes "wallet_ok numeric6 s" "purchases_ok numeric6 s"
    "completePurchase (postTransactionIn numeric6) i ctx s = (Inr c, t)"
  shows "completePurchase (postTransactionIn numeric6) i ctx' t = (Inr c, t)"
proof -
  obtain entry already u where run: "completeIn (postTransactionIn numeric6) i ctx s = (Inr (c, entry, already), u)"
    and t: "purchases t = purchases u"
    using assms(3) by (auto simp: completePurchase_def ok_simps record_audit_def recordIn_def run_simps split: if_splits)
  have found: "find_by c_id i (purchases u) = Some c \<and> c_status c = AiPurchaseStatus.COMPLETED"
  proof (cases entry)
    case None
    from run show ?thesis by (cases rule: numeric6.posting.completeIn_okD) (use None in auto)
  next
    case (Some r)
    obtain c0 where c0: "find_by c_id i (purchases s) = Some c0" "c = completed_row ctx (clock s) c0"
      "purchases u = set_row c_id i (completed_row ctx (clock s)) (purchases s)"
      using numeric6.posting.completeIn_credit [of s i ctx c r already u] assms(1,2) run Some by blast
    then show ?thesis by (simp add: find_by_set_row)
  qed
  show ?thesis
    using found t by (simp add: completePurchase_def completeIn_def run_simps)
qed

definition replay_context :: complete_context where
  "replay_context = \<lparr>cc_stripeEventId = Some ''evt_2'', cc_stripePaymentIntentId = Undefined, cc_reviewedById = None,
     cc_reviewNote = Undefined, cc_source = ''stripe_webhook'', cc_actor = None\<rparr>"

definition completed_transfer :: "(billing_error + AiCreditPurchase) \<times> billing" where
  "completed_transfer = completePurchase (postTransactionIn numeric6) (c_id (hd (purchases transferred))) replay_context transferred"

lemma transferred_ok: "wallet_ok numeric6 transferred \<and> purchases_ok numeric6 transferred"
proof -
  have "billing_reachable numeric6 transferred"
    unfolding transferred_def
    by (rule billing_reachable.step [OF seeded_reachable billing_step.transfer [OF prod.collapse [symmetric]]])
  from numeric6.reachable_books [OF this] show ?thesis by (simp add: claims_ok_def)
qed

lemma completion_replay_witness:
  "snd (completePurchase (postTransactionIn numeric6) (c_id (hd (purchases transferred))) replay_context (snd completed_transfer)) =
     snd completed_transfer"
proof -
  have "\<not> isl (fst (completePurchase (postTransactionIn numeric6) (c_id (hd (purchases transferred))) replay_context transferred))"
    by code_simp
  then obtain c where "completePurchase (postTransactionIn numeric6) (c_id (hd (purchases transferred))) replay_context transferred =
      (Inr c, snd completed_transfer)"
    unfolding completed_transfer_def by (blast dest: ran_ok)
  from completion_replay [OF _ _ this] transferred_ok show ?thesis by simp
qed

definition checkout_completed :: "string \<Rightarrow> AiCreditPurchase \<Rightarrow> jsnum \<Rightarrow> StripeWebhookEvent" where
  "checkout_completed evt c cents = \<lparr>ev_id = evt, ev_type = ''checkout.session.completed'',
     ev_object = \<lparr>ss_id = c_stripeSessionId c, ss_purchaseId = Some (c_id c), ss_payment_status = Some ''paid'',
       ss_amount_total = cents, ss_payment_intent = Some ''pi''\<rparr>\<rparr>"


definition checkout_session :: "checkout_request \<Rightarrow> billing_error + StripeCheckoutSession" where
  "checkout_session req = Inr \<lparr>cs_id = ''cs_1'', cs_url = ''url''\<rparr>"

text \<open>Tenant 7 opened a card purchase of the given amount.\<close>

definition opened :: "rat \<Rightarrow> billing" where
  "opened amount = snd (createStripeCheckout numeric6 True checkout_session customer (Finite amount) seeded)"



text \<open>
  A checkout event whose total is not the purchase's amount in cents never credits: the
  event is answered as not handled, and only the audit trail changes.
\<close>

theorem mismatch_never_credits:
  assumes "find_by c_id (c_id c) (purchases s) = Some c" "x \<noteq> of_int (amount_cents (c_amount c))"
  shows "\<exists>a. handleStripeEvent post (checkout_completed evt c (Finite x)) s = (Inr False, s\<lparr>audits := a\<rparr>)"
  using assms
  by (simp add: handleStripeEvent_def checkout_completed_def findPurchaseForSession_def Let_def run_simps
      record_audit_def recordIn_def) (rule exI, rule refl)

lemma mismatch_never_credits_witness:
  "\<exists>a. handleStripeEvent (postTransactionIn numeric6) (checkout_completed ''evt_1'' (hd (purchases (opened 25))) (Finite 1))
     (opened 25) = (Inr False, opened 25\<lparr>audits := a\<rparr>)"
proof -
  have "find_by c_id (c_id (hd (purchases (opened 25)))) (purchases (opened 25)) = Some (hd (purchases (opened 25)))"
    "1 \<noteq> (of_int (amount_cents (c_amount (hd (purchases (opened 25))))) :: rat)"
    by code_simp+
  then show ?thesis by (rule mismatch_never_credits)
qed

text \<open>
  The total the checkout sends to Stripe can differ from the one the webhook expects,
  because the former is computed from the requested amount and the latter from the amount
  the column rounded: a purchase of 1.1249999 credits asks Stripe for 112 cents, stores
  1.125, and the genuine payment of 112 cents is then refused as a mismatch.
\<close>

theorem rounded_checkout_refused:
  "math_round (11249999 / 10000000 * 100) = 112 \<and>
   (\<exists>c. purchases (opened (11249999 / 10000000)) = [c] \<and> amount_cents (c_amount c) = 113 \<and>
     (\<exists>a. handleStripeEvent (postTransactionIn numeric6) (checkout_completed ''evt_1'' c (Finite 112))
        (opened (11249999 / 10000000)) = (Inr False, opened (11249999 / 10000000)\<lparr>audits := a\<rparr>)))"
proof -
  let ?s = "opened (11249999 / 10000000)"
  let ?c = "hd (purchases ?s)"
  have facts: "math_round (11249999 / 10000000 * 100) = 112" "length (purchases ?s) = 1" "amount_cents (c_amount ?c) = 113"
    "find_by c_id (c_id ?c) (purchases ?s) = Some ?c"
    by code_simp+
  have "\<exists>a. handleStripeEvent post (checkout_completed ''evt_1'' ?c (Finite 112)) ?s = (Inr False, ?s\<lparr>audits := a\<rparr>)" for post
    using facts(3,4)
    by (simp add: handleStripeEvent_def checkout_completed_def findPurchaseForSession_def Let_def run_simps
        record_audit_def recordIn_def) (rule exI, rule refl)
  moreover have "purchases ?s = [?c]" using facts(2) by (cases "purchases ?s") auto
  ultimately show ?thesis using facts by blast
qed

text \<open>
  C13: The webhook endpoint changes the database only for a payload whose signature is the
  HMAC of its timestamp and body under the configured secret, at most five minutes from the
  server's clock, and then it runs exactly the event the payload parses to.
\<close>

theorem webhook_gate:
  "(case handleWebhook hmac parseJson secret post raw signature s of
      (Inl e, t) \<Rightarrow> t = s \<or> (\<exists>ev. verifyWebhookSignature hmac parseJson secret raw signature (of_int (clock s div 1000)) = Inr ev \<and>
        handleStripeEvent post ev s = (Inl e, t))
    | (Inr h, t) \<Rightarrow> \<exists>ev k hd ts. secret = Some k \<and> k \<noteq> [] \<and> signature = Some hd \<and> header_timestamp hd = Finite ts \<and>
        \<bar>of_int (clock s div 1000) - ts\<bar> \<le> 300 \<and> hmac k ts raw \<in> set (header_signatures hd) \<and>
        parseJson raw = Some ev \<and> handleStripeEvent post ev s = (Inr h, t))"
proof (cases "verifyWebhookSignature hmac parseJson secret raw signature (of_int (clock s div 1000))")
  case (Inl e)
  then show ?thesis by (simp add: webhook_rejected)
next
  case (Inr ev)
  then have run: "handleWebhook hmac parseJson secret post raw signature s = handleStripeEvent post ev s"
    by (simp add: handleWebhook_def run_simps)
  from Inr [unfolded verify_ok] show ?thesis
    unfolding run by (auto split: prod.split sum.split simp: Inr)
qed

text \<open>
  The signature header in Stripe's format, with the server's own timestamp and a
  signature without commas, equals signs or surrounding blanks, is accepted whenever the
  timestamp is at most five minutes off.
\<close>

theorem signed_header_accepted:
  assumes "CHR '','' \<notin> set ts" "CHR ''='' \<notin> set ts" "js_trim ts = ts" "js_Number ts = Finite t"
    "sig = hmac k t payload" "CHR '','' \<notin> set sig" "CHR ''='' \<notin> set sig" "js_trim sig = sig"
    "k \<noteq> []" "\<bar>now - t\<bar> \<le> 300" "parseJson payload = Some ev"
  shows "verifyWebhookSignature hmac parseJson (Some k) payload (Some (''t='' @ ts @ '',v1='' @ sig)) now = Inr ev"
proof -
  define h where "h = ''t='' @ ts @ '',v1='' @ sig"
  have parts: "header_parts h = [(''t'', ts), (''v1'', sig)]"
    unfolding h_def using header_parts_built [of ts sig] assms by simp
  have "header_timestamp h = Finite t" "header_signatures h = [sig]" "h \<noteq> []"
    using assms(4) by (simp_all add: header_timestamp_def header_signatures_def values_of_def parts) (simp add: h_def)
  with assms show ?thesis unfolding h_def [symmetric] by (simp add: verify_ok)
qed

lemma signed_header_accepted_witness:
  "verifyWebhookSignature (\<lambda>k t p. ''c0ffee'') (\<lambda>p. Some p) (Some ''whsec'') ''{}'' (Some (''t='' @ ''1700'' @ '',v1='' @ ''c0ffee''))
     1900 = Inr ''{}''"
proof (rule signed_header_accepted)
  show "CHR '','' \<notin> set ''1700''" "CHR ''='' \<notin> set ''1700''" "CHR '','' \<notin> set ''c0ffee''" "CHR ''='' \<notin> set ''c0ffee''"
    by simp_all
  show "js_trim ''1700'' = ''1700''" "js_trim ''c0ffee'' = ''c0ffee''"
    by (simp_all add: js_trim_def is_space_def)
  show "js_Number ''1700'' = Finite 1700"
    by (simp add: js_Number_def js_trim_def is_space_def parse_decimal_def parse_mantissa_def parse_digits_def
        digit_value_def of_parse_def Let_def)
qed simp_all

end
