(* ===== verification/ErpSchema.thy ===== *)
theory ErpSchema
  imports JsLib Money
begin

text \<open>
  The rows of the stock and accounting tables of \<open>apps/api/prisma/schema.prisma\<close>, the errors of
  the manufacturing services and their state: one list per table, the database sequences, and
  the in-memory caches of the accounting service.  Identifiers are 128-bit numbers, dates of
  type \<open>Date\<close> their milliseconds and columns of type \<open>DATE\<close> their day; free text (notes and
  descriptions) is left out.
\<close>

section \<open>Enumerations and errors\<close>

datatype LedgerEntryType = LEDGER_RECEIPT | LEDGER_ISSUE | LEDGER_TRANSFER_OUT | LEDGER_TRANSFER_IN
  | LEDGER_ADJUSTMENT | LEDGER_SCRAP | LEDGER_RETURN | LEDGER_PRODUCTION_RECEIPT
  | LEDGER_PRODUCTION_ISSUE | LEDGER_HOLD | LEDGER_RELEASE | LEDGER_RESERVATION
  | LEDGER_UNRESERVATION

datatype InventoryStatus = INV_AVAILABLE | INV_RESERVED | INV_ON_HOLD | INV_QUARANTINE | INV_IN_TRANSIT

datatype GLAccountType = ASSET | LIABILITY | EQUITY | REVENUE | EXPENSE | CONTRA_ASSET
datatype NormalBalance = DEBIT | CREDIT
datatype JournalEntryStatus = POSTED | REVERSED
datatype PostingTransactionType = GOODS_RECEIPT | MATERIAL_ISSUE | PRODUCTION_RECEIPT
  | INVENTORY_ADJUSTMENT | SCRAP | COST_VARIANCE | LABOR_ABSORPTION | OVERHEAD_ABSORPTION

text \<open>
  The exceptions of NestJS the services throw, the plain \<open>Error\<close> of an unknown document
  prefix, and the errors of the Prisma client: a missing row (P2025), a unique constraint
  (P2002), a foreign key (P2003), a write conflict (P2034), a text longer than its column
  (P2000), and a value the column's type does not have.
\<close>

datatype erp_error =
    BadRequestException
  | ConflictException
  | NotFoundException
  | UnknownDocumentPrefix
  | PrismaRecordNotFound
  | PrismaUniqueViolation
  | PrismaForeignKeyViolation
  | PrismaWriteConflict
  | PrismaValueTooLong
  | PrismaInvalidValue

section \<open>Stock\<close>

record InventoryLevel =
  lv_id :: uuid
  lv_tenantId :: uuid
  lv_productId :: uuid
  lv_locationId :: uuid
  lv_onHandQty :: rat
  lv_availableQty :: rat
  lv_reservedQty :: rat
  lv_quarantineQty :: rat
  lv_version :: nat

record InventoryLedger =
  le_id :: uuid
  le_tenantId :: uuid
  le_transactionDate :: timestamp
  le_productId :: uuid
  le_locationId :: uuid
  le_batchId :: "uuid option"
  le_entryType :: LedgerEntryType
  le_quantity :: rat
  le_uom :: string
  le_unitCost :: rat
  le_totalCost :: rat
  le_referenceType :: "string option"
  le_referenceId :: "uuid option"
  le_referenceNumber :: "string option"
  le_lotNumber :: "string option"
  le_inventoryStatus :: InventoryStatus
  le_runningBalance :: rat
  le_journalEntryId :: "uuid option"
  le_createdById :: "uuid option"

record Batch =
  ba_id :: uuid
  ba_tenantId :: uuid
  ba_productId :: uuid
  ba_locationId :: uuid
  ba_quantity :: rat
  ba_availableQty :: rat

record InventoryReservation =
  rs_id :: uuid
  rs_tenantId :: uuid
  rs_reservationNumber :: string
  rs_productId :: uuid
  rs_locationId :: uuid
  rs_batchId :: "uuid option"
  rs_reservedQty :: rat
  rs_fulfilledQty :: rat
  rs_uom :: string
  rs_status :: string
  rs_referenceType :: string
  rs_referenceId :: uuid
  rs_reservedById :: uuid
  rs_releasedById :: "uuid option"
  rs_releasedAt :: "timestamp option"

record InventoryHold =
  hd_id :: uuid
  hd_tenantId :: uuid
  hd_holdNumber :: string
  hd_productId :: uuid
  hd_locationId :: uuid
  hd_batchId :: "uuid option"
  hd_heldQty :: rat
  hd_releasedQty :: rat
  hd_uom :: string
  hd_holdReason :: string
  hd_status :: string
  hd_inspectionId :: "uuid option"
  hd_placedById :: uuid
  hd_releasedById :: "uuid option"
  hd_releasedAt :: "timestamp option"

record IdempotencyKey =
  ik_tenantId :: uuid
  ik_scope :: string
  ik_key :: string
  ik_resultId :: "uuid option"
  ik_completedAt :: timestamp

section \<open>Accounting\<close>

record GLAccount =
  gl_id :: uuid
  gl_tenantId :: uuid
  gl_accountNumber :: string
  gl_name :: string
  gl_accountType :: GLAccountType
  gl_parentId :: "uuid option"
  gl_isActive :: bool
  gl_isSystem :: bool
  gl_normalBalance :: NormalBalance
  gl_isInventoryAsset :: bool

record ProductCategory =
  pc_id :: uuid
  pc_tenantId :: uuid
  pc_code :: string
  pc_name :: string

record PostingProfile =
  pp_id :: uuid
  pp_tenantId :: uuid
  pp_profileName :: string
  pp_transactionType :: PostingTransactionType
  pp_debitAccountId :: uuid
  pp_creditAccountId :: uuid
  pp_productCategory :: "string option"
  pp_productCategoryId :: "uuid option"
  pp_locationId :: "uuid option"
  pp_isActive :: bool
  pp_priority :: int

record FiscalCalendar =
  fc_id :: uuid
  fc_tenantId :: uuid
  fc_isDefault :: bool

record FiscalPeriod =
  fp_id :: uuid
  fp_calendarId :: uuid
  fp_periodName :: string
  fp_startDate :: int
  fp_endDate :: int
  fp_isClosed :: bool
  fp_isLocked :: bool
  fp_lockedAt :: "timestamp option"
  fp_lockedById :: "uuid option"

record JournalEntryLine =
  jl_lineNumber :: nat
  jl_glAccountId :: uuid
  jl_debitAmount :: rat
  jl_creditAmount :: rat
  jl_productId :: "uuid option"
  jl_locationId :: "uuid option"
  jl_costCenterId :: "uuid option"

record JournalEntry =
  je_id :: uuid
  je_tenantId :: uuid
  je_entryNumber :: string
  je_entryDate :: int
  je_fiscalPeriodId :: "uuid option"
  je_referenceType :: string
  je_referenceId :: "uuid option"
  je_reversalOfId :: "uuid option"
  je_isReversed :: bool
  je_status :: JournalEntryStatus
  je_totalDebit :: rat
  je_totalCredit :: rat
  je_currency :: string
  je_postedById :: uuid
  je_idempotencyKey :: "string option"
  je_lines :: "JournalEntryLine list"

text \<open>What the accounting service caches of a period.\<close>

record period_info =
  pi_id :: uuid
  pi_isLocked :: bool
  pi_isClosed :: bool
  pi_periodName :: string

section \<open>State\<close>

record erp =
  levels :: "InventoryLevel list"
  ledger :: "InventoryLedger list"
  batches :: "Batch list"
  stockReservations :: "InventoryReservation list"
  holds :: "InventoryHold list"
  idempotencyKeys :: "IdempotencyKey list"
  glAccounts :: "GLAccount list"
  productCategories :: "ProductCategory list"
  postingProfiles :: "PostingProfile list"
  fiscalCalendars :: "FiscalCalendar list"
  fiscalPeriods :: "FiscalPeriod list"
  journalEntries :: "JournalEntry list"
  defaultCurrencies :: "(uuid \<times> string) list"
  sequences :: "(string \<times> nat) list"
  fiscalCalendarIdCache :: "(uuid \<times> uuid option) list"
  fiscalPeriodCache :: "((uuid \<times> int) \<times> period_info option) list"
  erp_next :: uuid
  now :: timestamp

type_synonym 'a erp_prog = "(erp, erp_error, 'a) prog"

definition empty_erp :: erp where
  "empty_erp = \<lparr>levels = [], ledger = [], batches = [], stockReservations = [], holds = [],
     idempotencyKeys = [], glAccounts = [], productCategories = [], postingProfiles = [],
     fiscalCalendars = [], fiscalPeriods = [], journalEntries = [], defaultCurrencies = [],
     sequences = [], fiscalCalendarIdCache = [], fiscalPeriodCache = [], erp_next = 0, now = 0\<rparr>"

text \<open>
  \<open>prisma.$transaction\<close>: an error inside rolls the tables back, but neither the database
  sequences nor the caches, which live in the process.
\<close>

definition rollback_to :: "erp \<Rightarrow> erp \<Rightarrow> erp" where
  "rollback_to s t = s\<lparr>sequences := sequences t, fiscalCalendarIdCache := fiscalCalendarIdCache t,
     fiscalPeriodCache := fiscalPeriodCache t\<rparr>"

definition erp_transaction :: "'a erp_prog \<Rightarrow> 'a erp_prog" where
  "erp_transaction m = (\<lambda>s. case m s of (Inl e, t) \<Rightarrow> (Inl e, rollback_to s t) | (Inr x, t) \<Rightarrow> (Inr x, t))"

lemma rollback_to_same [simp]: "rollback_to s s = s"
  by (simp add: rollback_to_def)

lemma erp_transaction_Inr [run_simps]: "m s = (Inr x, t) \<Longrightarrow> erp_transaction m s = (Inr x, t)"
  by (simp add: erp_transaction_def)

lemma erp_transaction_Inl [run_simps]: "m s = (Inl e, t) \<Longrightarrow> erp_transaction m s = (Inl e, rollback_to s t)"
  by (simp add: erp_transaction_def)

lemma erp_transaction_ok [ok_simps]: "erp_transaction m s = (Inr y, u) \<longleftrightarrow> m s = (Inr y, u)"
  by (auto simp: erp_transaction_def split: prod.splits sum.splits)

lemma wp_erp_transaction [wp_simps]:
  "wp (erp_transaction m) Q E s = wp m Q (\<lambda>e t. E e (rollback_to s t)) s"
  by (simp add: wp_def erp_transaction_def split: prod.splits sum.splits)

text \<open>Writes of one row: \<open>update\<close> throws when there is no row with the id.\<close>

definition fresh_id :: "uuid erp_prog" where
  "fresh_id = (\<lambda>s. (Inr (erp_next s), s\<lparr>erp_next := erp_next s + 1\<rparr>))"

definition get_row :: "(erp \<Rightarrow> 'r list) \<Rightarrow> ('r \<Rightarrow> uuid) \<Rightarrow> uuid \<Rightarrow> 'r erp_prog" where
  "get_row table key i = bind (gets (\<lambda>s. find_by key i (table s))) (orThrow PrismaRecordNotFound)"

lemma run_fresh_id [run_simps]: "fresh_id s = (Inr (erp_next s), s\<lparr>erp_next := erp_next s + 1\<rparr>)"
  by (simp add: fresh_id_def)

lemma fresh_id_ok [ok_simps]: "fresh_id s = (Inr i, t) \<longleftrightarrow> i = erp_next s \<and> t = s\<lparr>erp_next := erp_next s + 1\<rparr>"
  by (auto simp: run_simps)

lemma wp_fresh_id [wp_simps]: "wp fresh_id Q E s = Q (erp_next s) (s\<lparr>erp_next := erp_next s + 1\<rparr>)"
  by (simp add: wp_def run_simps)

lemma get_row_ok [ok_simps]: "get_row table key i s = (Inr r, t) \<longleftrightarrow> find_by key i (table s) = Some r \<and> t = s"
  by (auto simp: get_row_def ok_simps)

lemma wp_get_row [wp_simps]:
  "wp (get_row table key i) Q E s = (case find_by key i (table s) of None \<Rightarrow> E PrismaRecordNotFound s | Some r \<Rightarrow> Q r s)"
  by (simp add: get_row_def wp_simps)

lemma run_get_row:
  "get_row table key i s = (case find_by key i (table s) of None \<Rightarrow> (Inl PrismaRecordNotFound, s) | Some r \<Rightarrow> (Inr r, s))"
  by (simp add: get_row_def run_bind run_gets run_orThrow split: option.split)

end
