(* ===== verification/ErpSupport.thy ===== *)
theory ErpSupport
  imports ErpSchema
begin

text \<open>
  Three helpers of the manufacturing services: \<open>sequence.service.ts\<close>, document numbers from
  database sequences; \<open>idempotency.service.ts\<close>, the guard that lets an operation run once;
  \<open>retry.utility.ts\<close>, the retry loop around conflicting transactions.
\<close>

section \<open>Document numbers\<close>

definition sequence_names :: "(string \<times> string) list" where
  "sequence_names =
    [(''RSV'', ''seq_reservation_number''), (''HLD'', ''seq_hold_number''),
     (''JE'', ''seq_journal_entry_number''), (''QI'', ''seq_inspection_number''),
     (''NCR'', ''seq_ncr_number''), (''CAPA'', ''seq_capa_number''),
     (''PO'', ''seq_purchase_order_number''), (''GR'', ''seq_goods_receipt_number''),
     (''WO'', ''seq_work_order_number''), (''MI'', ''seq_material_issue_number''),
     (''PC'', ''seq_production_completion_number''), (''BN'', ''seq_batch_number''),
     (''IT'', ''seq_inventory_transaction_number'')]"

definition getSequenceName :: "string \<Rightarrow> string erp_prog" where
  "getSequenceName prefix = orThrow UnknownDocumentPrefix (map_of sequence_names prefix)"

definition last_value :: "string \<Rightarrow> erp \<Rightarrow> nat" where
  "last_value name s = (case map_of (sequences s) name of None \<Rightarrow> 0 | Some n \<Rightarrow> n)"

definition nextval :: "string \<Rightarrow> nat erp_prog" where
  "nextval name = (\<lambda>s. (Inr (last_value name s + 1),
     s\<lparr>sequences := (name, last_value name s + 1) # sequences s\<rparr>))"

definition document_number :: "string \<Rightarrow> nat \<Rightarrow> string" where
  "document_number prefix n = prefix @ CHR ''-'' # padStart (if prefix = ''JE'' then 7 else 6) (digits_of n)"

definition nextNumber :: "string \<Rightarrow> string erp_prog" where
  "nextNumber prefix = bind (getSequenceName prefix) (\<lambda>name.
     bind (nextval name) (\<lambda>num. return (document_number prefix num)))"

lemma run_nextNumber:
  "nextNumber prefix s = (case map_of sequence_names prefix of
     None \<Rightarrow> (Inl UnknownDocumentPrefix, s)
   | Some name \<Rightarrow> (Inr (document_number prefix (last_value name s + 1)),
       s\<lparr>sequences := (name, last_value name s + 1) # sequences s\<rparr>))"
  by (simp add: nextNumber_def getSequenceName_def nextval_def run_bind run_orThrow run_return split: option.split)

lemma wp_nextNumber [wp_simps]:
  "wp (nextNumber prefix) Q E s = (case map_of sequence_names prefix of
     None \<Rightarrow> E UnknownDocumentPrefix s
   | Some name \<Rightarrow> Q (document_number prefix (last_value name s + 1))
       (s\<lparr>sequences := (name, last_value name s + 1) # sequences s\<rparr>))"
  by (simp add: wp_def run_nextNumber split: option.split)

lemma nextNumber_ok:
  "nextNumber prefix s = (Inr x, t) \<longleftrightarrow> (\<exists>name. map_of sequence_names prefix = Some name \<and>
     x = document_number prefix (last_value name s + 1) \<and>
     t = s\<lparr>sequences := (name, last_value name s + 1) # sequences s\<rparr>)"
  by (auto simp: run_nextNumber split: option.split)

text \<open>A document number determines its prefix and its counter.\<close>

lemma prefix_no_dash: "map_of sequence_names prefix = Some name \<Longrightarrow> CHR ''-'' \<notin> set prefix"
  by (auto simp: sequence_names_def split: if_splits)

lemma digits_of_no_dash: "CHR ''-'' \<notin> set (digits_of n)"
proof
  assume "CHR ''-'' \<in> set (digits_of n)"
  then obtain xs ys where "digits_of n = xs @ CHR ''-'' # ys" by (meson split_list)
  with digits_value_digits_of [of n] have "digits_value 10 0 (xs @ CHR ''-'' # ys) = Some n" by (simp only:)
  moreover have "digit_value (CHR ''-'') = None" by (simp add: digit_value_def)
  ultimately show False by (simp add: digits_value_append split: option.splits)
qed

lemma append_sep_eq: "c \<notin> set p \<Longrightarrow> c \<notin> set q \<Longrightarrow> p @ c # xs = q @ c # ys \<Longrightarrow> p = q \<and> xs = ys"
proof (induction p arbitrary: q)
  case Nil
  then show ?case by (cases q) auto
next
  case (Cons a p)
  then show ?case by (cases q) auto
qed

lemma document_number_inj:
  assumes "CHR ''-'' \<notin> set p" "CHR ''-'' \<notin> set q" "document_number p m = document_number q n"
  shows "p = q \<and> m = n"
proof -
  define w where "w = (\<lambda>p. if p = ''JE'' then 7 else (6 :: nat))"
  have "p = q \<and> padStart (w p) (digits_of m) = padStart (w q) (digits_of n)"
    using append_sep_eq [OF assms(1,2)] assms(3) unfolding document_number_def w_def by blast
  moreover have "padStart (w p) (digits_of m) = padStart (w q) (digits_of n) \<Longrightarrow> m = n"
    using padStart_value [of "w p" m] padStart_value [of "w q" n] by (metis option.inject)
  ultimately show ?thesis by blast
qed

text \<open>
  \<open>sequences_le s t\<close>: no sequence of \<open>t\<close> is behind \<open>s\<close>.  Every program of the services keeps
  it, because nothing resets a sequence.
\<close>

definition sequences_le :: "erp \<Rightarrow> erp \<Rightarrow> bool" where
  "sequences_le s t \<longleftrightarrow> (\<forall>name. last_value name s \<le> last_value name t)"

lemma sequences_le_refl [simp]: "sequences_le s s"
  by (simp add: sequences_le_def)

lemma sequences_le_trans: "sequences_le s t \<Longrightarrow> sequences_le t u \<Longrightarrow> sequences_le s u"
  unfolding sequences_le_def by (meson le_trans)

lemma last_value_cong: "sequences s = sequences t \<Longrightarrow> last_value name s = last_value name t"
  by (simp add: last_value_def)

lemma sequences_le_cong: "sequences t = sequences t' \<Longrightarrow> sequences_le s t = sequences_le s t'"
  by (simp add: sequences_le_def last_value_def)

lemma nextNumber_le: "nextNumber prefix s = (r, t) \<Longrightarrow> sequences_le s t"
  by (auto simp: run_nextNumber sequences_le_def last_value_def split: option.splits if_splits)

section \<open>Idempotency keys\<close>

definition has_key :: "string \<Rightarrow> string \<Rightarrow> uuid \<Rightarrow> IdempotencyKey \<Rightarrow> bool" where
  "has_key scope key tenantId k \<longleftrightarrow> ik_tenantId k = tenantId \<and> ik_scope k = scope \<and> ik_key k = key"

lemma has_key_unique: "has_key sc ky tn k \<Longrightarrow> has_key scope key tenantId k \<Longrightarrow> sc = scope \<and> ky = key \<and> tn = tenantId"
  by (simp add: has_key_def)

lemma has_key_stamped [simp]: "has_key sc ky tn (k\<lparr>ik_resultId := r\<rparr>) = has_key sc ky tn k"
  by (simp add: has_key_def)

definition find_key :: "string \<Rightarrow> string \<Rightarrow> uuid \<Rightarrow> erp \<Rightarrow> IdempotencyKey option" where
  "find_key scope key tenantId s = find (has_key scope key tenantId) (idempotencyKeys s)"

text \<open>
  \<open>tx.idempotencyKey.create\<close>: scopes have at most 50 characters, keys at most 255, and tenant,
  scope and key are unique.
\<close>

definition key_fits :: "string \<Rightarrow> string \<Rightarrow> bool" where
  "key_fits scope key \<longleftrightarrow> length scope \<le> 50 \<and> length key \<le> 255"

definition create_key :: "string \<Rightarrow> string \<Rightarrow> uuid \<Rightarrow> unit erp_prog" where
  "create_key scope key tenantId =
     seq (throwIf (\<not> key_fits scope key) PrismaValueTooLong)
    (bind (gets (find_key scope key tenantId)) (\<lambda>clash.
     seq (throwIf (clash \<noteq> None) PrismaUniqueViolation)
         (modify (\<lambda>s. s\<lparr>idempotencyKeys := idempotencyKeys s @
            [\<lparr>ik_tenantId = tenantId, ik_scope = scope, ik_key = key, ik_resultId = None, ik_completedAt = now s\<rparr>]\<rparr>))))"

text \<open>The insert, whose unique violation means that another request inserted first.\<close>

definition insert_key :: "string \<Rightarrow> string \<Rightarrow> uuid \<Rightarrow> unit erp_prog" where
  "insert_key scope key tenantId =
     catch (create_key scope key tenantId)
       (\<lambda>error. throw (if error = PrismaUniqueViolation then ConflictException else error))"

definition acquire :: "string \<Rightarrow> string \<Rightarrow> uuid \<Rightarrow> (uuid option \<times> timestamp) option erp_prog" where
  "acquire scope key tenantId =
     bind (gets (find_key scope key tenantId)) (\<lambda>existing.
     case existing of
       Some k \<Rightarrow> return (Some (ik_resultId k, ik_completedAt k))
     | None \<Rightarrow> seq (insert_key scope key tenantId) (return None))"

definition stamp :: "string \<Rightarrow> string \<Rightarrow> uuid \<Rightarrow> uuid \<Rightarrow> unit erp_prog" where
  "stamp scope key tenantId resultId =
     bind (gets (find_key scope key tenantId)) (\<lambda>row.
     seq (throwIf (row = None) PrismaRecordNotFound)
         (modify (\<lambda>s. s\<lparr>idempotencyKeys := update_where (has_key scope key tenantId)
            (\<lambda>k. k\<lparr>ik_resultId := Some resultId\<rparr>) (idempotencyKeys s)\<rparr>)))"

definition new_key :: "string \<Rightarrow> string \<Rightarrow> uuid \<Rightarrow> timestamp \<Rightarrow> IdempotencyKey" where
  "new_key scope key tenantId t =
     \<lparr>ik_tenantId = tenantId, ik_scope = scope, ik_key = key, ik_resultId = None, ik_completedAt = t\<rparr>"

lemma run_acquire:
  "acquire scope key tenantId s = (case find_key scope key tenantId s of
     Some k \<Rightarrow> (Inr (Some (ik_resultId k, ik_completedAt k)), s)
   | None \<Rightarrow> if key_fits scope key
       then (Inr None, s\<lparr>idempotencyKeys := idempotencyKeys s @ [new_key scope key tenantId (now s)]\<rparr>)
       else (Inl PrismaValueTooLong, s))"
  by (simp add: acquire_def insert_key_def create_key_def new_key_def run_simps split: option.split)

lemma wp_acquire [wp_simps]:
  "wp (acquire scope key tenantId) Q E s = (case find_key scope key tenantId s of
     Some k \<Rightarrow> Q (Some (ik_resultId k, ik_completedAt k)) s
   | None \<Rightarrow> if key_fits scope key
       then Q None (s\<lparr>idempotencyKeys := idempotencyKeys s @ [new_key scope key tenantId (now s)]\<rparr>)
       else E PrismaValueTooLong s)"
  by (simp add: wp_def run_acquire split: option.split)

lemma find_key_append:
  "find_key scope key t (s\<lparr>idempotencyKeys := ks @ [k]\<rparr>) =
    (case find_key scope key t (s\<lparr>idempotencyKeys := ks\<rparr>) of Some r \<Rightarrow> Some r
     | None \<Rightarrow> if has_key scope key t k then Some k else None)"
  by (induction ks) (auto simp: find_key_def)

lemma find_key_stamp:
  "find_key sc ky tn (snd (stamp scope key tenantId r s)) =
    (if sc = scope \<and> ky = key \<and> tn = tenantId then map_option (\<lambda>k. k\<lparr>ik_resultId := Some r\<rparr>) (find_key sc ky tn s)
     else find_key sc ky tn s)"
proof (cases "find_key scope key tenantId s")
  case None
  then show ?thesis by (auto simp: stamp_def run_simps)
next
  case (Some k)
  have "find (has_key sc ky tn) (update_where (has_key scope key tenantId) (\<lambda>k. k\<lparr>ik_resultId := Some r\<rparr>) rows) =
    (if sc = scope \<and> ky = key \<and> tn = tenantId
     then map_option (\<lambda>k. k\<lparr>ik_resultId := Some r\<rparr>) (find (has_key sc ky tn) rows)
     else find (has_key sc ky tn) rows)" for rows
    by (induction rows) (auto dest: has_key_unique)
  moreover have "snd (stamp scope key tenantId r s) =
      s\<lparr>idempotencyKeys := update_where (has_key scope key tenantId) (\<lambda>k. k\<lparr>ik_resultId := Some r\<rparr>) (idempotencyKeys s)\<rparr>"
    using Some by (simp add: stamp_def run_simps)
  ultimately show ?thesis by (simp add: find_key_def)
qed

section \<open>Retrying conflicts\<close>

definition isConflict :: "erp_error \<Rightarrow> bool" where
  "isConflict e \<longleftrightarrow> e \<in> {ConflictException, PrismaWriteConflict}"

lemma catch_cong [fundef_cong]: "m = m' \<Longrightarrow> (\<And>e. h e = h' e) \<Longrightarrow> catch m h = catch m' h'"
  by (drule ext [of h h']) simp

function retry_from :: "nat \<Rightarrow> nat \<Rightarrow> ('s, erp_error, 'a) prog \<Rightarrow> ('s, erp_error, 'a) prog" where
  "retry_from maxRetries attempt fn =
     catch fn (\<lambda>error. if \<not> isConflict error \<or> maxRetries \<le> attempt then throw error
                       else retry_from maxRetries (attempt + 1) fn)"
  by pat_completeness auto
termination
  by (relation "measure (\<lambda>(maxRetries, attempt, _). maxRetries - attempt)") auto

declare retry_from.simps [simp del]

definition withRetry :: "nat option \<Rightarrow> ('s, erp_error, 'a) prog \<Rightarrow> ('s, erp_error, 'a) prog" where
  "withRetry maxRetries fn = retry_from (case maxRetries of None \<Rightarrow> 5 | Some n \<Rightarrow> n) 0 fn"

text \<open>The state after \<open>k\<close> attempts.\<close>

definition after_attempts :: "('s, erp_error, 'a) prog \<Rightarrow> nat \<Rightarrow> 's \<Rightarrow> 's" where
  "after_attempts fn k = (\<lambda>s. snd (fn s)) ^^ k"

definition conflicts :: "('s, erp_error, 'a) prog \<Rightarrow> 's \<Rightarrow> bool" where
  "conflicts fn s \<longleftrightarrow> (\<exists>e. fst (fn s) = Inl e \<and> isConflict e)"

lemma after_attempts_0 [simp]: "after_attempts fn 0 s = s"
  by (simp add: after_attempts_def)

lemma after_attempts_Suc: "after_attempts fn (Suc k) s = after_attempts fn k (snd (fn s))"
  by (simp add: after_attempts_def funpow_Suc_right del: funpow.simps)

text \<open>The loop stops at the first attempt that does not conflict, or at the last one allowed.\<close>

lemma retry_from_stops:
  assumes "\<And>j. j < k \<Longrightarrow> conflicts fn (after_attempts fn j s)" "attempt + k \<le> maxRetries"
    "\<not> conflicts fn (after_attempts fn k s) \<or> attempt + k = maxRetries"
  shows "retry_from maxRetries attempt fn s = fn (after_attempts fn k s)"
  using assms
proof (induction k arbitrary: attempt s)
  case 0
  show ?case
  proof (cases "fn s")
    case (Pair r t)
    then show ?thesis
      using 0 by (cases r) (auto simp: retry_from.simps [of maxRetries attempt fn] run_simps conflicts_def)
  qed
next
  case (Suc k)
  from Suc.prems(1) [of 0] obtain e t where e: "fn s = (Inl e, t)" "isConflict e"
    by (cases "fn s") (auto simp: conflicts_def)
  have "retry_from maxRetries (attempt + 1) fn t = fn (after_attempts fn k t)"
  proof (rule Suc.IH)
    show "conflicts fn (after_attempts fn j t)" if "j < k" for j
      using Suc.prems(1) [of "Suc j"] that e by (simp add: after_attempts_Suc)
    show "attempt + 1 + k \<le> maxRetries" "\<not> conflicts fn (after_attempts fn k t) \<or> attempt + 1 + k = maxRetries"
      using Suc.prems(2,3) e by (simp_all add: after_attempts_Suc)
  qed
  then show ?case
    using e Suc.prems(2) by (simp add: retry_from.simps [of maxRetries attempt fn] run_simps after_attempts_Suc)
qed

end
