(* ===== verification/StockLedger.thy ===== *)
theory StockLedger
  imports ErpSupport
begin

text \<open>
  \<open>inventory-ledger.service.ts\<close>: the append-only stock ledger with its materialised balances
  (\<open>inventory_levels\<close>), reservations and holds.  Every method runs inside its caller's
  transaction.  The row lock of \<open>SELECT ... FOR UPDATE\<close> makes a method one step; the optimistic
  version test that follows it is modelled as written.  The order of the ledger list is the
  order of \<open>sequence_number\<close>.
\<close>

section \<open>Deltas\<close>

text \<open>\<open>calculateDeltas\<close>: the change of the on-hand, reserved and quarantine quantities.\<close>

fun calculateDeltas :: "LedgerEntryType \<Rightarrow> rat \<Rightarrow> rat \<times> rat \<times> rat" where
  "calculateDeltas LEDGER_RECEIPT q = (\<bar>q\<bar>, 0, 0)"
| "calculateDeltas LEDGER_PRODUCTION_RECEIPT q = (\<bar>q\<bar>, 0, 0)"
| "calculateDeltas LEDGER_RETURN q = (\<bar>q\<bar>, 0, 0)"
| "calculateDeltas LEDGER_TRANSFER_IN q = (\<bar>q\<bar>, 0, 0)"
| "calculateDeltas LEDGER_ISSUE q = (- \<bar>q\<bar>, 0, 0)"
| "calculateDeltas LEDGER_PRODUCTION_ISSUE q = (- \<bar>q\<bar>, 0, 0)"
| "calculateDeltas LEDGER_SCRAP q = (- \<bar>q\<bar>, 0, 0)"
| "calculateDeltas LEDGER_TRANSFER_OUT q = (- \<bar>q\<bar>, 0, 0)"
| "calculateDeltas LEDGER_ADJUSTMENT q = (q, 0, 0)"
| "calculateDeltas LEDGER_RESERVATION q = (0, \<bar>q\<bar>, 0)"
| "calculateDeltas LEDGER_UNRESERVATION q = (0, - \<bar>q\<bar>, 0)"
| "calculateDeltas LEDGER_HOLD q = (0, 0, \<bar>q\<bar>)"
| "calculateDeltas LEDGER_RELEASE q = (0, 0, - \<bar>q\<bar>)"

definition onHandDelta :: "LedgerEntryType \<Rightarrow> rat \<Rightarrow> rat" where
  "onHandDelta ty q = fst (calculateDeltas ty q)"

definition reservedDelta :: "LedgerEntryType \<Rightarrow> rat \<Rightarrow> rat" where
  "reservedDelta ty q = fst (snd (calculateDeltas ty q))"

definition quarantineDelta :: "LedgerEntryType \<Rightarrow> rat \<Rightarrow> rat" where
  "quarantineDelta ty q = snd (snd (calculateDeltas ty q))"

definition isNegativeAllowed :: "LedgerEntryType \<Rightarrow> bool" where
  "isNegativeAllowed ty \<longleftrightarrow> ty = LEDGER_ADJUSTMENT"

section \<open>Recording an entry\<close>

record entry_params =
  en_tenantId :: uuid
  en_productId :: uuid
  en_locationId :: uuid
  en_batchId :: "uuid option"
  en_entryType :: LedgerEntryType
  en_quantity :: rat
  en_uom :: string
  en_unitCost :: "rat option"
  en_referenceType :: "string option"
  en_referenceId :: "uuid option"
  en_referenceNumber :: "string option"
  en_lotNumber :: "string option"
  en_inventoryStatus :: "InventoryStatus option"
  en_journalEntryId :: "uuid option"
  en_createdById :: "uuid option"

text \<open>An entry without the optional parameters.\<close>

definition entry :: "uuid \<Rightarrow> uuid \<Rightarrow> uuid \<Rightarrow> LedgerEntryType \<Rightarrow> rat \<Rightarrow> string \<Rightarrow> entry_params" where
  "entry t p l ty q uom = \<lparr>en_tenantId = t, en_productId = p, en_locationId = l, en_batchId = None,
     en_entryType = ty, en_quantity = q, en_uom = uom, en_unitCost = None, en_referenceType = None,
     en_referenceId = None, en_referenceNumber = None, en_lotNumber = None, en_inventoryStatus = None,
     en_journalEntryId = None, en_createdById = None\<rparr>"

definition is_level :: "uuid \<Rightarrow> uuid \<Rightarrow> uuid \<Rightarrow> InventoryLevel \<Rightarrow> bool" where
  "is_level t p l v \<longleftrightarrow> lv_tenantId v = t \<and> lv_productId v = p \<and> lv_locationId v = l"

definition level_at :: "uuid \<Rightarrow> uuid \<Rightarrow> uuid \<Rightarrow> erp \<Rightarrow> InventoryLevel option" where
  "level_at t p l s = find (is_level t p l) (levels s)"

definition quantity_of :: "(InventoryLevel \<Rightarrow> rat) \<Rightarrow> InventoryLevel option \<Rightarrow> rat" where
  "quantity_of f v = (case v of None \<Rightarrow> 0 | Some r \<Rightarrow> f r)"

definition ledger_entry :: "(rat \<Rightarrow> rat) \<Rightarrow> entry_params \<Rightarrow> rat \<Rightarrow> uuid \<Rightarrow> timestamp \<Rightarrow> InventoryLedger" where
  "ledger_entry dec p newOnHand i t =
     (let qty = en_quantity p; cost = (case en_unitCost p of None \<Rightarrow> 0 | Some c \<Rightarrow> c) in
      \<lparr>le_id = i, le_tenantId = en_tenantId p, le_transactionDate = t, le_productId = en_productId p,
       le_locationId = en_locationId p, le_batchId = en_batchId p, le_entryType = en_entryType p,
       le_quantity = dec qty, le_uom = en_uom p, le_unitCost = dec cost, le_totalCost = dec (\<bar>qty\<bar> * cost),
       le_referenceType = en_referenceType p, le_referenceId = en_referenceId p,
       le_referenceNumber = en_referenceNumber p, le_lotNumber = en_lotNumber p,
       le_inventoryStatus = (case en_inventoryStatus p of None \<Rightarrow> INV_AVAILABLE | Some x \<Rightarrow> x),
       le_runningBalance = dec newOnHand, le_journalEntryId = en_journalEntryId p,
       le_createdById = en_createdById p\<rparr>)"

text \<open>\<open>tx.inventoryLedger.create\<close>, whose batch must exist.\<close>

definition create_entry :: "(rat \<Rightarrow> rat) \<Rightarrow> entry_params \<Rightarrow> rat \<Rightarrow> InventoryLedger erp_prog" where
  "create_entry dec p newOnHand =
     bind (gets (\<lambda>s. case en_batchId p of None \<Rightarrow> True | Some b \<Rightarrow> find_by ba_id b (batches s) \<noteq> None)) (\<lambda>known.
     seq (throwIf (\<not> known) PrismaForeignKeyViolation)
    (bind fresh_id (\<lambda>i.
     bind (gets now) (\<lambda>t.
     let row = ledger_entry dec p newOnHand i t in
     seq (modify (\<lambda>s. s\<lparr>ledger := ledger s @ [row]\<rparr>)) (return row)))))"

definition set_level :: "(rat \<Rightarrow> rat) \<Rightarrow> rat \<Rightarrow> rat \<Rightarrow> rat \<Rightarrow> InventoryLevel \<Rightarrow> InventoryLevel" where
  "set_level dec onHand reserved quarantine v =
     v\<lparr>lv_onHandQty := dec onHand, lv_reservedQty := dec reserved, lv_quarantineQty := dec quarantine,
       lv_availableQty := dec (onHand - reserved - quarantine), lv_version := lv_version v + 1\<rparr>"

text \<open>\<open>UPDATE ... WHERE id = levelId AND version = currentVersion\<close>.\<close>

definition update_level :: "(rat \<Rightarrow> rat) \<Rightarrow> InventoryLevel \<Rightarrow> rat \<Rightarrow> rat \<Rightarrow> rat \<Rightarrow> unit erp_prog" where
  "update_level dec row onHand reserved quarantine =
     bind (gets (\<lambda>s. filter (\<lambda>v. lv_id v = lv_id row \<and> lv_version v = lv_version row) (levels s))) (\<lambda>affected.
     seq (modify (\<lambda>s. s\<lparr>levels := update_where (\<lambda>v. lv_id v = lv_id row \<and> lv_version v = lv_version row)
                (set_level dec onHand reserved quarantine) (levels s)\<rparr>))
         (throwIf (affected = []) ConflictException))"

definition create_level :: "(rat \<Rightarrow> rat) \<Rightarrow> entry_params \<Rightarrow> rat \<Rightarrow> rat \<Rightarrow> rat \<Rightarrow> unit erp_prog" where
  "create_level dec p onHand reserved quarantine =
     bind fresh_id (\<lambda>i. modify (\<lambda>s. s\<lparr>levels := levels s @
       [\<lparr>lv_id = i, lv_tenantId = en_tenantId p, lv_productId = en_productId p, lv_locationId = en_locationId p,
         lv_onHandQty = dec onHand, lv_availableQty = dec (onHand - reserved - quarantine),
         lv_reservedQty = dec reserved, lv_quarantineQty = dec quarantine, lv_version = 1\<rparr>]\<rparr>))"

definition move_batch :: "(rat \<Rightarrow> rat) \<Rightarrow> uuid \<Rightarrow> rat \<Rightarrow> rat \<Rightarrow> unit erp_prog" where
  "move_batch dec b d1 d2 =
     seq (bind (get_row batches ba_id b) (\<lambda>_. return ()))
         (modify (\<lambda>s. s\<lparr>batches := set_row ba_id b (\<lambda>x. x\<lparr>ba_quantity := dec (ba_quantity x + d1),
            ba_availableQty := dec (ba_availableQty x + (d1 - d2))\<rparr>) (batches s)\<rparr>))"

definition recordEntry :: "(rat \<Rightarrow> rat) \<Rightarrow> entry_params \<Rightarrow> InventoryLedger erp_prog" where
  "recordEntry dec p =
     bind (gets (level_at (en_tenantId p) (en_productId p) (en_locationId p))) (\<lambda>level.
     let d1 = onHandDelta (en_entryType p) (en_quantity p);
         d2 = reservedDelta (en_entryType p) (en_quantity p);
         d3 = quarantineDelta (en_entryType p) (en_quantity p);
         newOnHand = quantity_of lv_onHandQty level + d1;
         newReserved = quantity_of lv_reservedQty level + d2;
         newQuarantine = quantity_of lv_quarantineQty level + d3
     in seq (throwIf (newOnHand < 0 \<and> \<not> isNegativeAllowed (en_entryType p)) BadRequestException)
       (bind (create_entry dec p newOnHand) (\<lambda>row.
        seq (case level of
               Some v \<Rightarrow> update_level dec v newOnHand newReserved newQuarantine
             | None \<Rightarrow> create_level dec p newOnHand newReserved newQuarantine)
       (seq (case en_batchId p of
               Some b \<Rightarrow> if d1 \<noteq> 0 then move_batch dec b d1 d2 else return ()
             | None \<Rightarrow> return ())
       (return row)))))"

section \<open>Reservations\<close>

record reserve_params =
  rp_tenantId :: uuid
  rp_productId :: uuid
  rp_locationId :: uuid
  rp_batchId :: "uuid option"
  rp_quantity :: rat
  rp_uom :: string
  rp_referenceType :: string
  rp_referenceId :: uuid
  rp_reservedById :: uuid

definition createReservation :: "(rat \<Rightarrow> rat) \<Rightarrow> reserve_params \<Rightarrow> InventoryReservation erp_prog" where
  "createReservation dec p =
     bind (gets (\<lambda>s. quantity_of lv_availableQty (level_at (rp_tenantId p) (rp_productId p) (rp_locationId p) s))) (\<lambda>available.
     seq (throwIf (available < rp_quantity p) ConflictException)
    (bind (nextNumber ''RSV'') (\<lambda>number.
     bind fresh_id (\<lambda>i.
     let row = \<lparr>rs_id = i, rs_tenantId = rp_tenantId p, rs_reservationNumber = number,
       rs_productId = rp_productId p, rs_locationId = rp_locationId p, rs_batchId = rp_batchId p,
       rs_reservedQty = dec (rp_quantity p), rs_fulfilledQty = 0, rs_uom = rp_uom p, rs_status = ''ACTIVE'',
       rs_referenceType = rp_referenceType p, rs_referenceId = rp_referenceId p,
       rs_reservedById = rp_reservedById p, rs_releasedById = None, rs_releasedAt = None\<rparr>
     in seq (modify (\<lambda>s. s\<lparr>stockReservations := stockReservations s @ [row]\<rparr>))
       (bind (recordEntry dec ((entry (rp_tenantId p) (rp_productId p) (rp_locationId p)
            LEDGER_RESERVATION (rp_quantity p) (rp_uom p))
          \<lparr>en_batchId := rp_batchId p, en_inventoryStatus := Some INV_RESERVED,
           en_referenceType := Some (rp_referenceType p), en_referenceId := Some (rp_referenceId p),
           en_referenceNumber := Some number, en_createdById := Some (rp_reservedById p)\<rparr>)) (\<lambda>_.
        return row))))))"

text \<open>
  An optional quantity: a JavaScript number counts as absent when it is zero, a \<open>Decimal\<close>
  never does.
\<close>

datatype js_quantity = NumberQty rat | DecimalQty rat

fun given :: "js_quantity option \<Rightarrow> rat option" where
  "given None = None"
| "given (Some (NumberQty q)) = (if q = 0 then None else Some q)"
| "given (Some (DecimalQty q)) = Some q"

text \<open>The tenant test of the release methods, skipped when no tenant is given.\<close>

definition other_tenant :: "uuid option \<Rightarrow> uuid \<Rightarrow> bool" where
  "other_tenant tenantId owner = (case tenantId of None \<Rightarrow> False | Some t \<Rightarrow> owner \<noteq> t)"

lemma not_other_tenant [simp]: "\<not> other_tenant tn x \<longleftrightarrow> tn = None \<or> tn = Some x"
  by (auto simp: other_tenant_def split: option.splits)

definition releaseReservation :: "(rat \<Rightarrow> rat) \<Rightarrow> uuid \<Rightarrow> uuid option \<Rightarrow> uuid \<Rightarrow> js_quantity option \<Rightarrow> unit erp_prog" where
  "releaseReservation dec reservationId tenantId releasedById fulfilledQty =
     bind (get_row stockReservations rs_id reservationId) (\<lambda>reservation.
     seq (throwIf (other_tenant tenantId (rs_tenantId reservation)) BadRequestException)
    (seq (throwIf (rs_status reservation \<noteq> ''ACTIVE'') BadRequestException)
    (let releaseQty = (case given fulfilledQty of None \<Rightarrow> rs_reservedQty reservation | Some q \<Rightarrow> q) in
     bind (gets now) (\<lambda>t.
     seq (modify (\<lambda>s. s\<lparr>stockReservations := set_row rs_id reservationId
            (\<lambda>r. r\<lparr>rs_status := ''RELEASED'', rs_fulfilledQty := dec releaseQty,
                  rs_releasedById := Some releasedById, rs_releasedAt := Some t\<rparr>) (stockReservations s)\<rparr>))
    (bind (recordEntry dec ((entry (rs_tenantId reservation) (rs_productId reservation) (rs_locationId reservation)
            LEDGER_UNRESERVATION releaseQty (rs_uom reservation))
          \<lparr>en_batchId := rs_batchId reservation, en_inventoryStatus := Some INV_AVAILABLE,
           en_referenceType := Some (rs_referenceType reservation), en_referenceId := Some (rs_referenceId reservation),
           en_referenceNumber := Some (rs_reservationNumber reservation), en_createdById := Some releasedById\<rparr>)) (\<lambda>_.
     return ()))))))"

section \<open>Holds\<close>

record hold_params =
  hp_tenantId :: uuid
  hp_productId :: uuid
  hp_locationId :: uuid
  hp_batchId :: "uuid option"
  hp_quantity :: rat
  hp_uom :: string
  hp_holdReason :: string
  hp_inspectionId :: "uuid option"
  hp_placedById :: uuid

definition placeHold :: "(rat \<Rightarrow> rat) \<Rightarrow> hold_params \<Rightarrow> InventoryHold erp_prog" where
  "placeHold dec p =
     bind (nextNumber ''HLD'') (\<lambda>number.
     bind fresh_id (\<lambda>i.
     let row = \<lparr>hd_id = i, hd_tenantId = hp_tenantId p, hd_holdNumber = number, hd_productId = hp_productId p,
       hd_locationId = hp_locationId p, hd_batchId = hp_batchId p, hd_heldQty = dec (hp_quantity p),
       hd_releasedQty = 0, hd_uom = hp_uom p, hd_holdReason = hp_holdReason p, hd_status = ''ACTIVE'',
       hd_inspectionId = hp_inspectionId p, hd_placedById = hp_placedById p, hd_releasedById = None,
       hd_releasedAt = None\<rparr>
     in seq (modify (\<lambda>s. s\<lparr>holds := holds s @ [row]\<rparr>))
       (bind (recordEntry dec ((entry (hp_tenantId p) (hp_productId p) (hp_locationId p) LEDGER_HOLD
            (hp_quantity p) (hp_uom p))
          \<lparr>en_batchId := hp_batchId p, en_inventoryStatus := Some INV_QUARANTINE,
           en_referenceType := Some ''HOLD'', en_referenceId := Some i,
           en_referenceNumber := Some number, en_createdById := Some (hp_placedById p)\<rparr>)) (\<lambda>_.
        return row))))"

definition releaseHold :: "(rat \<Rightarrow> rat) \<Rightarrow> uuid \<Rightarrow> uuid option \<Rightarrow> uuid \<Rightarrow> js_quantity option \<Rightarrow> unit erp_prog" where
  "releaseHold dec holdId tenantId releasedById releasedQty =
     bind (get_row holds hd_id holdId) (\<lambda>hold.
     seq (throwIf (other_tenant tenantId (hd_tenantId hold)) BadRequestException)
    (seq (throwIf (hd_status hold \<noteq> ''ACTIVE'') BadRequestException)
    (let releaseQty = (case given releasedQty of None \<Rightarrow> hd_heldQty hold | Some q \<Rightarrow> q) in
     bind (gets now) (\<lambda>t.
     seq (modify (\<lambda>s. s\<lparr>holds := set_row hd_id holdId
            (if releaseQty < hd_heldQty hold
             then (\<lambda>h. h\<lparr>hd_heldQty := dec (hd_heldQty hold - releaseQty),
                        hd_releasedQty := dec (hd_releasedQty hold + releaseQty)\<rparr>)
             else (\<lambda>h. h\<lparr>hd_status := ''RELEASED'', hd_releasedQty := dec releaseQty,
                        hd_releasedById := Some releasedById, hd_releasedAt := Some t\<rparr>)) (holds s)\<rparr>))
    (bind (recordEntry dec ((entry (hd_tenantId hold) (hd_productId hold) (hd_locationId hold) LEDGER_RELEASE
            releaseQty (hd_uom hold))
          \<lparr>en_batchId := hd_batchId hold, en_inventoryStatus := Some INV_AVAILABLE,
           en_referenceType := Some ''HOLD'', en_referenceId := Some (hd_id hold),
           en_referenceNumber := Some (hd_holdNumber hold), en_createdById := Some releasedById\<rparr>)) (\<lambda>_.
     return ()))))))"

section \<open>Queries\<close>

definition getBalance :: "uuid \<Rightarrow> uuid \<Rightarrow> uuid \<Rightarrow> erp \<Rightarrow> InventoryLevel option" where
  "getBalance t p l s = level_at t p l s"

definition ledger_at :: "uuid \<Rightarrow> uuid \<Rightarrow> uuid \<Rightarrow> erp \<Rightarrow> InventoryLedger list" where
  "ledger_at t p l s = filter (\<lambda>e. le_tenantId e = t \<and> le_productId e = p \<and> le_locationId e = l) (ledger s)"

text \<open>The \<open>CASE\<close> of the reconciliation query (lines 491 to 496).\<close>

definition signed_quantity :: "InventoryLedger \<Rightarrow> rat" where
  "signed_quantity e =
     (if le_entryType e \<in> {LEDGER_RECEIPT, LEDGER_PRODUCTION_RECEIPT, LEDGER_RETURN, LEDGER_TRANSFER_IN} then \<bar>le_quantity e\<bar>
      else if le_entryType e \<in> {LEDGER_ISSUE, LEDGER_PRODUCTION_ISSUE, LEDGER_SCRAP, LEDGER_TRANSFER_OUT} then - \<bar>le_quantity e\<bar>
      else if le_entryType e = LEDGER_ADJUSTMENT then le_quantity e
      else 0)"

record reconciliation =
  rc_ledgerBalance :: rat
  rc_materializedBalance :: rat
  rc_discrepancy :: rat
  rc_isConsistent :: bool

definition reconcileBalance :: "uuid \<Rightarrow> uuid \<Rightarrow> uuid \<Rightarrow> erp \<Rightarrow> reconciliation" where
  "reconcileBalance t p l s =
     (let ledgerBalance = sum_list (map signed_quantity (ledger_at t p l s));
          materializedBalance = quantity_of lv_onHandQty (getBalance t p l s);
          discrepancy = ledgerBalance - materializedBalance
      in \<lparr>rc_ledgerBalance = ledgerBalance, rc_materializedBalance = materializedBalance,
          rc_discrepancy = discrepancy, rc_isConsistent = (discrepancy = 0)\<rparr>)"

record ledger_filter =
  lf_productId :: "uuid option"
  lf_locationId :: "uuid option"
  lf_batchId :: "uuid option"
  lf_entryType :: "LedgerEntryType option"
  lf_referenceType :: "string option"
  lf_referenceId :: "uuid option"
  lf_fromDate :: "timestamp option"
  lf_toDate :: "timestamp option"

definition matches :: "'a option \<Rightarrow> ('a \<Rightarrow> bool) \<Rightarrow> bool" where
  "matches f p = (case f of None \<Rightarrow> True | Some x \<Rightarrow> p x)"

definition selects :: "uuid \<Rightarrow> ledger_filter \<Rightarrow> InventoryLedger \<Rightarrow> bool" where
  "selects tenantId f e \<longleftrightarrow> le_tenantId e = tenantId \<and>
     matches (lf_productId f) ((=) (le_productId e)) \<and> matches (lf_locationId f) ((=) (le_locationId e)) \<and>
     matches (lf_batchId f) (\<lambda>b. le_batchId e = Some b) \<and> matches (lf_entryType f) ((=) (le_entryType e)) \<and>
     (\<not> truthy (lf_referenceType f) \<or> le_referenceType e = lf_referenceType f) \<and>
     matches (lf_referenceId f) (\<lambda>r. le_referenceId e = Some r) \<and>
     matches (lf_fromDate f) (\<lambda>d. d \<le> le_transactionDate e) \<and> matches (lf_toDate f) (\<lambda>d. le_transactionDate e \<le> d)"

definition getLedgerEntries :: "uuid \<Rightarrow> ledger_filter \<Rightarrow> nat option \<Rightarrow> nat option \<Rightarrow> erp \<Rightarrow> InventoryLedger list \<times> nat" where
  "getLedgerEntries tenantId f skip tk s =
     (let rows = filter (selects tenantId f) (ledger s)
      in (take (case tk of None \<Rightarrow> 50 | Some n \<Rightarrow> n) (drop (case skip of None \<Rightarrow> 0 | Some n \<Rightarrow> n) (rev rows)), length rows))"

end
