(* ===== verification/StockBooks.thy ===== *)
theory StockBooks
  imports StockLedger
begin

text \<open>
  The books of the stock ledger: at every product and location the materialised balances are
  the sums of the ledger's deltas, the available quantity is what the other three leave, and
  the version counts the entries.  \<open>recorded\<close> is the state a successful \<open>recordEntry\<close> leaves;
  \<open>recordEntry_run\<close> turns every run into one of three cases.
\<close>

section \<open>What an entry does\<close>

definition is_entry :: "uuid \<Rightarrow> uuid \<Rightarrow> uuid \<Rightarrow> entry_params \<Rightarrow> bool" where
  "is_entry t p l e \<longleftrightarrow> en_tenantId e = t \<and> en_productId e = p \<and> en_locationId e = l"

abbreviation entry_level :: "entry_params \<Rightarrow> erp \<Rightarrow> InventoryLevel option" where
  "entry_level e s \<equiv> level_at (en_tenantId e) (en_productId e) (en_locationId e) s"

definition new_onHand :: "entry_params \<Rightarrow> erp \<Rightarrow> rat" where
  "new_onHand e s = quantity_of lv_onHandQty (entry_level e s) + onHandDelta (en_entryType e) (en_quantity e)"

definition new_reserved :: "entry_params \<Rightarrow> erp \<Rightarrow> rat" where
  "new_reserved e s = quantity_of lv_reservedQty (entry_level e s) + reservedDelta (en_entryType e) (en_quantity e)"

definition new_quarantine :: "entry_params \<Rightarrow> erp \<Rightarrow> rat" where
  "new_quarantine e s = quantity_of lv_quarantineQty (entry_level e s) + quarantineDelta (en_entryType e) (en_quantity e)"

definition moved_level :: "(rat \<Rightarrow> rat) \<Rightarrow> entry_params \<Rightarrow> erp \<Rightarrow> InventoryLevel" where
  "moved_level dec e s = (case entry_level e s of
     Some v \<Rightarrow> set_level dec (new_onHand e s) (new_reserved e s) (new_quarantine e s) v
   | None \<Rightarrow> \<lparr>lv_id = erp_next s + 1, lv_tenantId = en_tenantId e, lv_productId = en_productId e,
         lv_locationId = en_locationId e, lv_onHandQty = dec (new_onHand e s),
         lv_availableQty = dec (new_onHand e s - new_reserved e s - new_quarantine e s),
         lv_reservedQty = dec (new_reserved e s), lv_quarantineQty = dec (new_quarantine e s), lv_version = 1\<rparr>)"

definition moved_levels :: "(rat \<Rightarrow> rat) \<Rightarrow> entry_params \<Rightarrow> erp \<Rightarrow> InventoryLevel list" where
  "moved_levels dec e s = (case entry_level e s of
     Some v \<Rightarrow> set_row lv_id (lv_id v) (set_level dec (new_onHand e s) (new_reserved e s) (new_quarantine e s)) (levels s)
   | None \<Rightarrow> levels s @ [moved_level dec e s])"

definition moved_batches :: "(rat \<Rightarrow> rat) \<Rightarrow> entry_params \<Rightarrow> erp \<Rightarrow> Batch list" where
  "moved_batches dec e s = (case en_batchId e of
     None \<Rightarrow> batches s
   | Some b \<Rightarrow> (let d1 = onHandDelta (en_entryType e) (en_quantity e); d2 = reservedDelta (en_entryType e) (en_quantity e) in
       if d1 = 0 then batches s
       else set_row ba_id b (\<lambda>x. x\<lparr>ba_quantity := dec (ba_quantity x + d1),
              ba_availableQty := dec (ba_availableQty x + (d1 - d2))\<rparr>) (batches s)))"

definition recorded_row :: "(rat \<Rightarrow> rat) \<Rightarrow> entry_params \<Rightarrow> erp \<Rightarrow> InventoryLedger" where
  "recorded_row dec e s = ledger_entry dec e (new_onHand e s) (erp_next s) (now s)"

definition recorded :: "(rat \<Rightarrow> rat) \<Rightarrow> entry_params \<Rightarrow> erp \<Rightarrow> erp" where
  "recorded dec e s = s\<lparr>ledger := ledger s @ [recorded_row dec e s], levels := moved_levels dec e s,
     batches := moved_batches dec e s,
     erp_next := (if entry_level e s = None then erp_next s + 2 else erp_next s + 1)\<rparr>"

definition overdraws :: "entry_params \<Rightarrow> erp \<Rightarrow> bool" where
  "overdraws e s \<longleftrightarrow> new_onHand e s < 0 \<and> \<not> isNegativeAllowed (en_entryType e)"

definition known_batch :: "entry_params \<Rightarrow> erp \<Rightarrow> bool" where
  "known_batch e s = (case en_batchId e of None \<Rightarrow> True | Some b \<Rightarrow> find_by ba_id b (batches s) \<noteq> None)"

lemma known_batch_simps [simp]:
  "known_batch e (s\<lparr>stockReservations := x3\<rparr>) = known_batch e s"
  "known_batch e (s\<lparr>holds := x4\<rparr>) = known_batch e s"
  "known_batch e (s\<lparr>sequences := x5\<rparr>) = known_batch e s"
  "known_batch e (s\<lparr>erp_next := x6\<rparr>) = known_batch e s"
  by (simp_all add: known_batch_def split: option.split)

definition level_ids :: "erp \<Rightarrow> bool" where
  "level_ids s \<longleftrightarrow> distinct (map lv_id (levels s)) \<and> (\<forall>v \<in> set (levels s). lv_id v < erp_next s)"

lemma level_at_Some: "level_at t p l s = Some v \<Longrightarrow> v \<in> set (levels s) \<and> is_level t p l v"
  unfolding level_at_def by (rule find_in)

lemma level_at_simps [simp]:
  "level_at t p l (s\<lparr>ledger := x1\<rparr>) = level_at t p l s"
  "level_at t p l (s\<lparr>batches := x2\<rparr>) = level_at t p l s"
  "level_at t p l (s\<lparr>stockReservations := x3\<rparr>) = level_at t p l s"
  "level_at t p l (s\<lparr>holds := x4\<rparr>) = level_at t p l s"
  "level_at t p l (s\<lparr>sequences := x5\<rparr>) = level_at t p l s"
  "level_at t p l (s\<lparr>erp_next := x6\<rparr>) = level_at t p l s"
  by (simp_all add: level_at_def)

text \<open>Under the row lock the version test always passes.\<close>

lemma version_row:
  assumes "distinct (map lv_id rows)" "v \<in> set rows"
  shows "update_where (\<lambda>x. lv_id x = lv_id v \<and> lv_version x = lv_version v) f rows = set_row lv_id (lv_id v) f rows"
    "filter (\<lambda>x. lv_id x = lv_id v \<and> lv_version x = lv_version v) rows \<noteq> []"
proof -
  have "lv_version x = lv_version v" if "x \<in> set rows" "lv_id x = lv_id v" for x
    using that find_by_unique [OF assms] find_by_unique [OF assms(1) that(1)] by simp
  then show "update_where (\<lambda>x. lv_id x = lv_id v \<and> lv_version x = lv_version v) f rows = set_row lv_id (lv_id v) f rows"
    by (auto simp: update_where_def)
  show "filter (\<lambda>x. lv_id x = lv_id v \<and> lv_version x = lv_version v) rows \<noteq> []"
    using assms(2) by (auto simp: filter_empty_conv)
qed

theorem recordEntry_run:
  assumes "level_ids s"
  shows "recordEntry dec e s =
    (if overdraws e s then (Inl BadRequestException, s)
     else if \<not> known_batch e s then (Inl PrismaForeignKeyViolation, s)
     else (Inr (recorded_row dec e s), recorded dec e s))"
proof (cases "overdraws e s \<or> \<not> known_batch e s")
  case True
  then show ?thesis
    by (auto simp: recordEntry_def create_entry_def overdraws_def known_batch_def new_onHand_def run_simps
        run_bind run_seq Let_def)
next
  case False
  define s1 where "s1 = s\<lparr>ledger := ledger s @ [recorded_row dec e s], erp_next := erp_next s + 1\<rparr>"
  have create: "create_entry dec e (new_onHand e s) s = (Inr (recorded_row dec e s), s1)"
    using False by (simp add: create_entry_def known_batch_def recorded_row_def s1_def run_simps Let_def)
  have level: "(case entry_level e s of
        Some v \<Rightarrow> update_level dec v (new_onHand e s) (new_reserved e s) (new_quarantine e s)
      | None \<Rightarrow> create_level dec e (new_onHand e s) (new_reserved e s) (new_quarantine e s)) s1 =
      (Inr (), s1\<lparr>levels := moved_levels dec e s, erp_next := erp_next (recorded dec e s)\<rparr>)"
  proof (cases "entry_level e s")
    case None
    then show ?thesis by (simp add: create_level_def moved_levels_def moved_level_def recorded_def s1_def run_simps)
  next
    case (Some v)
    then have "distinct (map lv_id (levels s))" "v \<in> set (levels s)"
      using assms level_at_Some by (auto simp: level_ids_def)
    note version_row [OF this]
    with Some show ?thesis by (simp add: update_level_def moved_levels_def recorded_def s1_def run_simps)
  qed
  have batch: "(case en_batchId e of
        Some b \<Rightarrow> if onHandDelta (en_entryType e) (en_quantity e) \<noteq> 0
          then move_batch dec b (onHandDelta (en_entryType e) (en_quantity e)) (reservedDelta (en_entryType e) (en_quantity e))
          else return ()
      | None \<Rightarrow> return ()) (s1\<lparr>levels := moved_levels dec e s, erp_next := erp_next (recorded dec e s)\<rparr>) =
      (Inr (), recorded dec e s)"
    using False
    by (auto simp: move_batch_def moved_batches_def recorded_def s1_def known_batch_def run_simps run_get_row Let_def
        split: option.splits)
  have guard: "seq (throwIf (overdraws e s) x) m s = m s" for x and m :: "InventoryLedger erp_prog"
    using False by (simp add: run_seq run_throwIf)
  have "recordEntry dec e s =
      seq (throwIf (overdraws e s) BadRequestException)
        (bind (create_entry dec e (new_onHand e s)) (\<lambda>row.
         seq (case entry_level e s of
               Some v \<Rightarrow> update_level dec v (new_onHand e s) (new_reserved e s) (new_quarantine e s)
             | None \<Rightarrow> create_level dec e (new_onHand e s) (new_reserved e s) (new_quarantine e s))
        (seq (case en_batchId e of
               Some b \<Rightarrow> if onHandDelta (en_entryType e) (en_quantity e) \<noteq> 0
                 then move_batch dec b (onHandDelta (en_entryType e) (en_quantity e)) (reservedDelta (en_entryType e) (en_quantity e))
                 else return ()
             | None \<Rightarrow> return ())
        (return row)))) s"
    unfolding recordEntry_def Let_def new_onHand_def new_reserved_def new_quarantine_def overdraws_def
    by (simp add: bind_Inr [OF run_gets])
  also have "\<dots> = (Inr (recorded_row dec e s), recorded dec e s)"
    unfolding guard
    by (rule trans, rule bind_Inr, rule create, rule trans, rule seq_Inr, rule level, rule trans, rule seq_Inr,
        rule batch, rule run_return)
  finally show ?thesis using False by simp
qed

section \<open>The balances after an entry\<close>

lemma find_set_row:
  assumes "distinct (map key rows)" "v \<in> set rows" "\<And>x. P (f x) = P x" "P v \<Longrightarrow> find P rows = Some v"
  shows "find P (set_row key (key v) f rows) = (if P v then Some (f v) else find P rows)"
  using assms
proof (induction rows)
  case (Cons r rows)
  show ?case
  proof (cases "key r = key v")
    case True
    then have "r = v" using Cons.prems(1,2) by (auto simp: image_iff)
    moreover have "update_where (\<lambda>x. key x = key v) f rows = rows"
      using Cons.prems(1) True by (intro update_where_none) (auto simp: image_iff)
    ultimately show ?thesis using Cons.prems(3) by auto
  next
    case False
    then have "r \<noteq> v" "v \<in> set rows" using Cons.prems(2) by auto
    moreover have "P v \<Longrightarrow> \<not> P r \<and> find P rows = Some v"
      using Cons.prems(4) \<open>r \<noteq> v\<close> by (auto split: if_splits)
    ultimately show ?thesis using False Cons by auto
  qed
qed simp

lemma is_level_set_level [simp]: "is_level t p l (set_level dec a b c v) = is_level t p l v"
  by (simp add: is_level_def set_level_def)

lemma is_level_unique: "is_level t p l v \<Longrightarrow> is_level t' p' l' v \<longleftrightarrow> t' = t \<and> p' = p \<and> l' = l"
  by (auto simp: is_level_def)

lemma level_at_recorded:
  assumes "level_ids s"
  shows "level_at t p l (recorded dec e s) = (if is_entry t p l e then Some (moved_level dec e s) else level_at t p l s)"
proof (cases "entry_level e s")
  case None
  then have "is_level t p l (moved_level dec e s) \<longleftrightarrow> is_entry t p l e"
    by (auto simp: moved_level_def is_level_def is_entry_def)
  with None show ?thesis
    by (auto simp: level_at_def recorded_def moved_levels_def is_entry_def find_append split: option.split)
next
  case (Some v)
  have v: "v \<in> set (levels s)" "is_level (en_tenantId e) (en_productId e) (en_locationId e) v"
    using level_at_Some [OF Some] by auto
  have "find (is_level t p l) (levels (recorded dec e s)) =
      (if is_level t p l v then Some (moved_level dec e s) else find (is_level t p l) (levels s))"
    unfolding recorded_def moved_levels_def
    using Some find_set_row [of lv_id "levels s" v "is_level t p l"] assms v is_level_unique [OF v(2)]
    by (simp add: level_ids_def moved_level_def level_at_def)
  then show ?thesis
    using is_level_unique [OF v(2), of t p l] by (auto simp: level_at_def is_entry_def)
qed

lemma ledger_at_recorded:
  "ledger_at t p l (recorded dec e s) = ledger_at t p l s @ (if is_entry t p l e then [recorded_row dec e s] else [])"
  by (simp add: ledger_at_def recorded_def recorded_row_def ledger_entry_def Let_def is_entry_def)

lemma level_ids_recorded: "level_ids s \<Longrightarrow> level_ids (recorded dec e s)"
proof -
  assume ids: "level_ids s"
  show ?thesis
  proof (cases "entry_level e s")
    case None
    with ids show ?thesis
      by (force simp: level_ids_def recorded_def moved_levels_def moved_level_def)
  next
    case (Some v)
    have same: "map lv_id (moved_levels dec e s) = map lv_id (levels s)"
      using Some by (simp add: moved_levels_def set_level_def)
    then have "lv_id ` set (moved_levels dec e s) = lv_id ` set (levels s)" by (metis image_set)
    with ids have "lv_id v < erp_next s" if "v \<in> set (moved_levels dec e s)" for v
      using that by (auto simp: level_ids_def dest!: equalityD1)
    with same ids Some show ?thesis by (auto simp: level_ids_def recorded_def less_SucI)
  qed
qed

section \<open>The invariant\<close>

definition delta_sum :: "(LedgerEntryType \<Rightarrow> rat \<Rightarrow> rat) \<Rightarrow> uuid \<Rightarrow> uuid \<Rightarrow> uuid \<Rightarrow> erp \<Rightarrow> rat" where
  "delta_sum f t p l s = sum_list (map (\<lambda>e. f (le_entryType e) (le_quantity e)) (ledger_at t p l s))"

lemma delta_sum_simps [simp]:
  "delta_sum f t p l (s\<lparr>batches := x2\<rparr>) = delta_sum f t p l s"
  "delta_sum f t p l (s\<lparr>stockReservations := x3\<rparr>) = delta_sum f t p l s"
  "delta_sum f t p l (s\<lparr>holds := x4\<rparr>) = delta_sum f t p l s"
  "delta_sum f t p l (s\<lparr>sequences := x5\<rparr>) = delta_sum f t p l s"
  "delta_sum f t p l (s\<lparr>erp_next := x6\<rparr>) = delta_sum f t p l s"
  by (simp_all add: delta_sum_def ledger_at_def)

lemma delta_sum_recorded:
  "delta_sum f t p l (recorded dec e s) =
    delta_sum f t p l s + (if is_entry t p l e then f (en_entryType e) (dec (en_quantity e)) else 0)"
  by (simp add: delta_sum_def ledger_at_recorded) (simp add: recorded_row_def ledger_entry_def Let_def)

abbreviation onHand_at where "onHand_at t p l s \<equiv> quantity_of lv_onHandQty (level_at t p l s)"
abbreviation reserved_at where "reserved_at t p l s \<equiv> quantity_of lv_reservedQty (level_at t p l s)"
abbreviation quarantine_at where "quarantine_at t p l s \<equiv> quantity_of lv_quarantineQty (level_at t p l s)"
abbreviation available_at where "available_at t p l s \<equiv> quantity_of lv_availableQty (level_at t p l s)"

definition balanced :: "uuid \<Rightarrow> uuid \<Rightarrow> uuid \<Rightarrow> erp \<Rightarrow> bool" where
  "balanced t p l s \<longleftrightarrow>
     onHand_at t p l s = delta_sum onHandDelta t p l s \<and>
     reserved_at t p l s = delta_sum reservedDelta t p l s \<and>
     quarantine_at t p l s = delta_sum quarantineDelta t p l s \<and>
     available_at t p l s = onHand_at t p l s - reserved_at t p l s - quarantine_at t p l s"

definition versions :: "uuid \<Rightarrow> uuid \<Rightarrow> uuid \<Rightarrow> erp \<Rightarrow> bool" where
  "versions t p l s \<longleftrightarrow> (case level_at t p l s of None \<Rightarrow> ledger_at t p l s = []
     | Some v \<Rightarrow> lv_version v = length (ledger_at t p l s))"

definition withdrawn :: "uuid \<Rightarrow> uuid \<Rightarrow> uuid \<Rightarrow> erp \<Rightarrow> bool" where
  "withdrawn t p l s \<longleftrightarrow> (\<exists>e \<in> set (ledger_at t p l s). le_entryType e = LEDGER_ADJUSTMENT \<and> le_quantity e < 0)"

definition stock_grid :: "(rat \<Rightarrow> rat) \<Rightarrow> erp \<Rightarrow> bool" where
  "stock_grid dec s \<longleftrightarrow> (\<forall>v \<in> set (levels s). dec (lv_onHandQty v) = lv_onHandQty v \<and>
     dec (lv_reservedQty v) = lv_reservedQty v \<and> dec (lv_quarantineQty v) = lv_quarantineQty v)"

definition stock_ok :: "(rat \<Rightarrow> rat) \<Rightarrow> erp \<Rightarrow> bool" where
  "stock_ok dec s \<longleftrightarrow> level_ids s \<and> stock_grid dec s \<and> (\<forall>t p l. balanced t p l s \<and> versions t p l s \<and>
     (onHand_at t p l s < 0 \<longrightarrow> withdrawn t p l s))"

text \<open>The stored columns of the moved level, for a quantity the column holds exactly.\<close>

context cost_column
begin

lemma deltas_on_grid:
  assumes "dec q = q"
  shows "dec (onHandDelta ty q) = onHandDelta ty q" "dec (reservedDelta ty q) = reservedDelta ty q"
    "dec (quarantineDelta ty q) = quarantineDelta ty q"
  using assms dec_abs [OF assms]
  by (cases ty; simp add: onHandDelta_def reservedDelta_def quarantineDelta_def dec_zero dec_minus)+

lemma level_grid:
  "stock_grid dec s \<Longrightarrow> dec (onHand_at t p l s) = onHand_at t p l s \<and>
    dec (reserved_at t p l s) = reserved_at t p l s \<and> dec (quarantine_at t p l s) = quarantine_at t p l s"
  by (auto simp: quantity_of_def stock_grid_def dec_zero dest: level_at_Some split: option.split)

lemma new_on_grid:
  assumes "stock_grid dec s" "dec (en_quantity e) = en_quantity e"
  shows "dec (new_onHand e s) = new_onHand e s" "dec (new_reserved e s) = new_reserved e s"
    "dec (new_quarantine e s) = new_quarantine e s"
  using level_grid [OF assms(1)] deltas_on_grid [OF assms(2)]
  by (simp_all add: new_onHand_def new_reserved_def new_quarantine_def dec_add)

lemma moved_level_quantities:
  assumes "stock_grid dec s" "dec (en_quantity e) = en_quantity e"
  shows "lv_onHandQty (moved_level dec e s) = new_onHand e s" "lv_reservedQty (moved_level dec e s) = new_reserved e s"
    "lv_quarantineQty (moved_level dec e s) = new_quarantine e s"
    "lv_availableQty (moved_level dec e s) = new_onHand e s - new_reserved e s - new_quarantine e s"
  using new_on_grid [OF assms] by (auto simp: moved_level_def set_level_def dec_diff split: option.split)

lemma recorded_keeps_stock:
  assumes "stock_ok dec s" "dec (en_quantity e) = en_quantity e" "\<not> overdraws e s"
  shows "stock_ok dec (recorded dec e s)"
proof -
  from assms(1) have ids: "level_ids s" and grid: "stock_grid dec s" and bal: "balanced t p l s" and ver: "versions t p l s"
    and neg: "onHand_at t p l s < 0 \<longrightarrow> withdrawn t p l s" for t p l
    by (auto simp: stock_ok_def)
  note moved = moved_level_quantities [OF grid assms(2)]
  have row: "le_entryType (recorded_row dec e s) = en_entryType e" "le_quantity (recorded_row dec e s) = en_quantity e"
    using assms(2) by (simp_all add: recorded_row_def ledger_entry_def Let_def)
  have grid': "stock_grid dec (recorded dec e s)"
    using grid new_on_grid [OF grid assms(2)]
    by (auto simp: stock_grid_def recorded_def moved_levels_def moved_level_def set_level_def in_set_row split: option.split)
  have "balanced t p l (recorded dec e s) \<and> versions t p l (recorded dec e s) \<and>
      (onHand_at t p l (recorded dec e s) < 0 \<longrightarrow> withdrawn t p l (recorded dec e s))" for t p l
  proof (cases "is_entry t p l e")
    case False
    then have "ledger_at t p l (recorded dec e s) = ledger_at t p l s" by (simp add: ledger_at_recorded)
    with False show ?thesis
      using bal [of t p l] ver [of t p l] neg [of t p l]
      by (simp add: balanced_def versions_def withdrawn_def delta_sum_def level_at_recorded [OF ids] split: option.splits)
  next
    case True
    then have here: "en_tenantId e = t" "en_productId e = p" "en_locationId e = l" by (simp_all add: is_entry_def)
    have "balanced t p l (recorded dec e s)"
      using bal [of t p l] True moved
      by (simp add: balanced_def delta_sum_def level_at_recorded [OF ids] ledger_at_recorded quantity_of_def row
          new_onHand_def new_reserved_def new_quarantine_def here)
    moreover have "versions t p l (recorded dec e s)"
      using ver [of t p l] True
      by (auto simp: versions_def level_at_recorded [OF ids] ledger_at_recorded moved_level_def set_level_def here
          split: option.splits)
    moreover have "onHand_at t p l (recorded dec e s) < 0 \<longrightarrow> withdrawn t p l (recorded dec e s)"
    proof
      assume "onHand_at t p l (recorded dec e s) < 0"
      then have less: "new_onHand e s < 0"
        using True moved by (simp add: level_at_recorded [OF ids] quantity_of_def)
      with assms(3) have adj: "en_entryType e = LEDGER_ADJUSTMENT" by (simp add: overdraws_def isNegativeAllowed_def)
      show "withdrawn t p l (recorded dec e s)"
      proof (cases "en_quantity e < 0")
        case True
        with adj \<open>is_entry t p l e\<close> show ?thesis by (simp add: withdrawn_def ledger_at_recorded row)
      next
        case False
        then have "onHand_at t p l s < 0" using less adj by (simp add: new_onHand_def onHandDelta_def here)
        with neg [of t p l] have "withdrawn t p l s" by blast
        then show ?thesis by (auto simp: withdrawn_def ledger_at_recorded)
      qed
    qed
    ultimately show ?thesis by blast
  qed
  with grid' level_ids_recorded [OF ids] show ?thesis by (simp add: stock_ok_def)
qed

end

end
