(* ===== verification/StockSystem.thy ===== *)
theory StockSystem
  imports StockBooks
begin

text \<open>
  The stock module as a whole: reservations and holds explain the reserved and the quarantine
  quantities of every level, every method keeps the books, and \<open>stock_step\<close> is any of them run
  in a transaction.  Quantities have at most four decimals (what the columns hold), holds are
  placed and released with non-negative quantities, and entries that move reserved or
  quarantine stock are recorded by the methods of this service only, as its callers do.
\<close>

section \<open>What reservations and holds account for\<close>

definition outstanding :: "InventoryReservation \<Rightarrow> rat" where
  "outstanding r = \<bar>rs_reservedQty r\<bar> - (if rs_status r = ''ACTIVE'' then 0 else \<bar>rs_fulfilledQty r\<bar>)"

definition reserved_out :: "uuid \<Rightarrow> uuid \<Rightarrow> uuid \<Rightarrow> erp \<Rightarrow> rat" where
  "reserved_out t p l s =
     sum_where (\<lambda>r. rs_tenantId r = t \<and> rs_productId r = p \<and> rs_locationId r = l) outstanding (stockReservations s)"

definition still_held :: "InventoryHold \<Rightarrow> rat" where
  "still_held h = (if hd_status h = ''ACTIVE'' then hd_heldQty h else hd_heldQty h - hd_releasedQty h)"

definition held_out :: "uuid \<Rightarrow> uuid \<Rightarrow> uuid \<Rightarrow> erp \<Rightarrow> rat" where
  "held_out t p l s =
     sum_where (\<lambda>h. hd_tenantId h = t \<and> hd_productId h = p \<and> hd_locationId h = l) still_held (holds s)"

definition reservations_ok :: "(rat \<Rightarrow> rat) \<Rightarrow> erp \<Rightarrow> bool" where
  "reservations_ok dec s \<longleftrightarrow> distinct (map rs_id (stockReservations s)) \<and>
     (\<forall>r \<in> set (stockReservations s). rs_id r < erp_next s \<and> dec (rs_reservedQty r) = rs_reservedQty r) \<and>
     (\<forall>t p l. reserved_at t p l s = reserved_out t p l s)"

definition holds_ok :: "(rat \<Rightarrow> rat) \<Rightarrow> erp \<Rightarrow> bool" where
  "holds_ok dec s \<longleftrightarrow> distinct (map hd_id (holds s)) \<and>
     (\<forall>h \<in> set (holds s). hd_id h < erp_next s \<and> dec (hd_heldQty h) = hd_heldQty h \<and> 0 \<le> hd_heldQty h) \<and>
     (\<forall>t p l. quarantine_at t p l s = held_out t p l s)"

definition stock_inv :: "(rat \<Rightarrow> rat) \<Rightarrow> erp \<Rightarrow> bool" where
  "stock_inv dec s \<longleftrightarrow> stock_ok dec s \<and> reservations_ok dec s \<and> holds_ok dec s"

lemma stock_inv_ids: "stock_inv dec s \<Longrightarrow> level_ids s"
  by (simp add: stock_inv_def stock_ok_def)

text \<open>The invariant reads only the stock tables and the source of identifiers.\<close>

definition same_stock :: "erp \<Rightarrow> erp \<Rightarrow> bool" where
  "same_stock s t \<longleftrightarrow> levels t = levels s \<and> ledger t = ledger s \<and> stockReservations t = stockReservations s \<and>
     holds t = holds s \<and> erp_next s \<le> erp_next t"

lemma level_at_cong: "levels t = levels s \<Longrightarrow> level_at a b c t = level_at a b c s"
  by (simp add: level_at_def)

lemma ledger_at_cong: "ledger t = ledger s \<Longrightarrow> ledger_at a b c t = ledger_at a b c s"
  by (simp add: ledger_at_def)

lemma books_cong:
  assumes "levels t = levels s" "ledger t = ledger s"
  shows "balanced a b c t = balanced a b c s" "versions a b c t = versions a b c s"
    "withdrawn a b c t = withdrawn a b c s"
  unfolding balanced_def versions_def withdrawn_def delta_sum_def
  by (simp_all only: level_at_cong [OF assms(1)] ledger_at_cong [OF assms(2)])

lemma stock_ok_cong:
  assumes "levels t = levels s" "ledger t = ledger s" "erp_next s \<le> erp_next t" "stock_ok dec s"
  shows "stock_ok dec t"
  using assms(4) assms(3) level_at_cong [OF assms(1)] books_cong [OF assms(1,2)]
  by (auto simp: stock_ok_def level_ids_def stock_grid_def assms(1) intro: less_le_trans)

lemma stock_inv_cong: "same_stock s t \<Longrightarrow> stock_inv dec s \<Longrightarrow> stock_inv dec t"
  using stock_ok_cong [of t s dec] level_at_cong [of t s]
  by (auto simp: same_stock_def stock_inv_def reservations_ok_def holds_ok_def reserved_out_def held_out_def
      intro: less_le_trans)

lemma rollback_same_stock: "same_stock s (rollback_to s t)"
  by (simp add: same_stock_def rollback_to_def)

lemma recorded_frame [simp]:
  "stockReservations (recorded dec e s) = stockReservations s" "holds (recorded dec e s) = holds s"
  "now (recorded dec e s) = now s" "sequences (recorded dec e s) = sequences s"
  "idempotencyKeys (recorded dec e s) = idempotencyKeys s" "journalEntries (recorded dec e s) = journalEntries s"
  by (simp_all add: recorded_def)

lemma recorded_next: "erp_next s \<le> erp_next (recorded dec e s)"
  by (simp add: recorded_def)

context cost_column
begin

lemma reserved_at_recorded:
  assumes "stock_ok dec s" "dec (en_quantity e) = en_quantity e"
  shows "reserved_at t p l (recorded dec e s) =
      reserved_at t p l s + (if is_entry t p l e then reservedDelta (en_entryType e) (en_quantity e) else 0)"
    "quarantine_at t p l (recorded dec e s) =
      quarantine_at t p l s + (if is_entry t p l e then quarantineDelta (en_entryType e) (en_quantity e) else 0)"
  using assms moved_level_quantities [OF _ assms(2), of s]
  by (auto simp: stock_ok_def level_at_recorded quantity_of_def is_entry_def new_reserved_def new_quarantine_def
      split: option.splits)

lemma recorded_keeps_reservations:
  assumes "stock_ok dec s" "dec (en_quantity e) = en_quantity e"
    "distinct (map rs_id (stockReservations s))"
    "\<forall>r \<in> set (stockReservations s). rs_id r < erp_next s \<and> dec (rs_reservedQty r) = rs_reservedQty r"
    "\<And>t p l. reserved_out t p l s =
      reserved_at t p l s + (if is_entry t p l e then reservedDelta (en_entryType e) (en_quantity e) else 0)"
  shows "reservations_ok dec (recorded dec e s)"
  using assms(3,4,5) recorded_next [of s dec e]
  by (auto simp: reservations_ok_def reserved_at_recorded [OF assms(1,2)] reserved_out_def intro: less_le_trans)

lemma recorded_keeps_holds:
  assumes "stock_ok dec s" "dec (en_quantity e) = en_quantity e"
    "distinct (map hd_id (holds s))"
    "\<forall>h \<in> set (holds s). hd_id h < erp_next s \<and> dec (hd_heldQty h) = hd_heldQty h \<and> 0 \<le> hd_heldQty h"
    "\<And>t p l. held_out t p l s =
      quarantine_at t p l s + (if is_entry t p l e then quarantineDelta (en_entryType e) (en_quantity e) else 0)"
  shows "holds_ok dec (recorded dec e s)"
  using assms(3,4,5) recorded_next [of s dec e]
  by (auto simp: holds_ok_def reserved_at_recorded [OF assms(1,2)] held_out_def intro: less_le_trans)

end

section \<open>Successful runs\<close>

lemma recordEntry_okD:
  "level_ids s \<Longrightarrow> recordEntry dec e s = (Inr r, t) \<Longrightarrow>
     \<not> overdraws e s \<and> known_batch e s \<and> r = recorded_row dec e s \<and> t = recorded dec e s"
  by (auto simp: recordEntry_run split: if_splits)

definition reserve_entry :: "reserve_params \<Rightarrow> string \<Rightarrow> entry_params" where
  "reserve_entry p number = (entry (rp_tenantId p) (rp_productId p) (rp_locationId p) LEDGER_RESERVATION (rp_quantity p) (rp_uom p))
     \<lparr>en_batchId := rp_batchId p, en_inventoryStatus := Some INV_RESERVED,
      en_referenceType := Some (rp_referenceType p), en_referenceId := Some (rp_referenceId p),
      en_referenceNumber := Some number, en_createdById := Some (rp_reservedById p)\<rparr>"

lemma createReservation_okD:
  assumes "level_ids s" "createReservation dec p s = (Inr r, t)"
  shows "\<exists>sq. rp_quantity p \<le> available_at (rp_tenantId p) (rp_productId p) (rp_locationId p) s \<and>
    rs_id r = erp_next s \<and> rs_tenantId r = rp_tenantId p \<and> rs_productId r = rp_productId p \<and>
    rs_locationId r = rp_locationId p \<and> rs_reservedQty r = dec (rp_quantity p) \<and> rs_fulfilledQty r = 0 \<and>
    rs_status r = ''ACTIVE'' \<and> rs_batchId r = rp_batchId p \<and> known_batch (reserve_entry p (rs_reservationNumber r)) s \<and>
    rs_reservationNumber r = document_number ''RSV'' (last_value ''seq_reservation_number'' s + 1) \<and>
    (let u = s\<lparr>sequences := sq, erp_next := erp_next s + 1, stockReservations := stockReservations s @ [r]\<rparr>
     in \<not> overdraws (reserve_entry p (rs_reservationNumber r)) u \<and> t = recorded dec (reserve_entry p (rs_reservationNumber r)) u)"
proof -
  have name: "map_of sequence_names ''RSV'' = Some ''seq_reservation_number''" by code_simp
  define sq where "sq = (''seq_reservation_number'', last_value ''seq_reservation_number'' s + 1) # sequences s"
  have ids: "level_ids (s\<lparr>sequences := sq, erp_next := erp_next s + 1, stockReservations := x\<rparr>)" for x
    using assms(1) by (auto simp: level_ids_def)
  show ?thesis
    using assms(2)
    by (auto simp: createReservation_def ok_simps nextNumber_ok name Let_def reserve_entry_def sq_def
        dest!: recordEntry_okD [OF ids [unfolded sq_def], simplified] intro!: exI [of _ sq])
qed

definition unreserve_entry :: "InventoryReservation \<Rightarrow> rat \<Rightarrow> uuid \<Rightarrow> entry_params" where
  "unreserve_entry r q by_id = (entry (rs_tenantId r) (rs_productId r) (rs_locationId r) LEDGER_UNRESERVATION q (rs_uom r))
     \<lparr>en_batchId := rs_batchId r, en_inventoryStatus := Some INV_AVAILABLE,
      en_referenceType := Some (rs_referenceType r), en_referenceId := Some (rs_referenceId r),
      en_referenceNumber := Some (rs_reservationNumber r), en_createdById := Some by_id\<rparr>"

lemma unreserve_okD:
  assumes "level_ids s" "releaseReservation dec i tn by_id f s = (Inr x, t)"
  shows "\<exists>r q. find_by rs_id i (stockReservations s) = Some r \<and> rs_status r = ''ACTIVE'' \<and>
    q = (case given f of None \<Rightarrow> rs_reservedQty r | Some q \<Rightarrow> q) \<and> (tn = None \<or> tn = Some (rs_tenantId r)) \<and>
    (let u = s\<lparr>stockReservations := set_row rs_id i (\<lambda>r. r\<lparr>rs_status := ''RELEASED'', rs_fulfilledQty := dec q,
         rs_releasedById := Some by_id, rs_releasedAt := Some (now s)\<rparr>) (stockReservations s)\<rparr>
     in \<not> overdraws (unreserve_entry r q by_id) u \<and> t = recorded dec (unreserve_entry r q by_id) u)"
proof -
  have ids: "level_ids (s\<lparr>stockReservations := x\<rparr>)" for x
    using assms(1) by (simp add: level_ids_def)
  show ?thesis
    using assms(2)
    by (auto simp: releaseReservation_def ok_simps Let_def unreserve_entry_def
        dest!: recordEntry_okD [OF ids, simplified])
qed

definition hold_entry :: "hold_params \<Rightarrow> uuid \<Rightarrow> string \<Rightarrow> entry_params" where
  "hold_entry p i number = (entry (hp_tenantId p) (hp_productId p) (hp_locationId p) LEDGER_HOLD (hp_quantity p) (hp_uom p))
     \<lparr>en_batchId := hp_batchId p, en_inventoryStatus := Some INV_QUARANTINE,
      en_referenceType := Some ''HOLD'', en_referenceId := Some i,
      en_referenceNumber := Some number, en_createdById := Some (hp_placedById p)\<rparr>"

lemma placeHold_okD:
  assumes "level_ids s" "placeHold dec p s = (Inr h, t)"
  shows "\<exists>sq. hd_id h = erp_next s \<and> hd_tenantId h = hp_tenantId p \<and> hd_productId h = hp_productId p \<and>
    hd_locationId h = hp_locationId p \<and> hd_heldQty h = dec (hp_quantity p) \<and> hd_releasedQty h = 0 \<and>
    hd_status h = ''ACTIVE'' \<and>
    (let u = s\<lparr>sequences := sq, erp_next := erp_next s + 1, holds := holds s @ [h]\<rparr>
     in \<not> overdraws (hold_entry p (hd_id h) (hd_holdNumber h)) u \<and> t = recorded dec (hold_entry p (hd_id h) (hd_holdNumber h)) u)"
proof -
  have name: "map_of sequence_names ''HLD'' = Some ''seq_hold_number''" by code_simp
  define sq where "sq = (''seq_hold_number'', last_value ''seq_hold_number'' s + 1) # sequences s"
  have ids: "level_ids (s\<lparr>sequences := sq, erp_next := erp_next s + 1, holds := x\<rparr>)" for x
    using assms(1) by (auto simp: level_ids_def)
  show ?thesis
    using assms(2)
    by (auto simp: placeHold_def ok_simps nextNumber_ok name Let_def hold_entry_def sq_def
        dest!: recordEntry_okD [OF ids [unfolded sq_def], simplified] intro!: exI [of _ sq])
qed

definition release_entry :: "InventoryHold \<Rightarrow> rat \<Rightarrow> uuid \<Rightarrow> entry_params" where
  "release_entry h q by_id = (entry (hd_tenantId h) (hd_productId h) (hd_locationId h) LEDGER_RELEASE q (hd_uom h))
     \<lparr>en_batchId := hd_batchId h, en_inventoryStatus := Some INV_AVAILABLE,
      en_referenceType := Some ''HOLD'', en_referenceId := Some (hd_id h),
      en_referenceNumber := Some (hd_holdNumber h), en_createdById := Some by_id\<rparr>"

text \<open>What a release writes to the hold: a partial one shrinks it, a full one closes it.\<close>

definition released_hold :: "(rat \<Rightarrow> rat) \<Rightarrow> InventoryHold \<Rightarrow> rat \<Rightarrow> uuid \<Rightarrow> timestamp \<Rightarrow> InventoryHold \<Rightarrow> InventoryHold" where
  "released_hold dec hold q by_id t = (if q < hd_heldQty hold
     then (\<lambda>h. h\<lparr>hd_heldQty := dec (hd_heldQty hold - q), hd_releasedQty := dec (hd_releasedQty hold + q)\<rparr>)
     else (\<lambda>h. h\<lparr>hd_status := ''RELEASED'', hd_releasedQty := dec q, hd_releasedById := Some by_id,
                hd_releasedAt := Some t\<rparr>))"

lemma releaseHold_okD:
  assumes "level_ids s" "releaseHold dec i tn by_id f s = (Inr x, t)"
  shows "\<exists>h q. find_by hd_id i (holds s) = Some h \<and> hd_status h = ''ACTIVE'' \<and>
    q = (case given f of None \<Rightarrow> hd_heldQty h | Some q \<Rightarrow> q) \<and> (tn = None \<or> tn = Some (hd_tenantId h)) \<and>
    (let u = s\<lparr>holds := set_row hd_id i (released_hold dec h q by_id (now s)) (holds s)\<rparr>
     in \<not> overdraws (release_entry h q by_id) u \<and> t = recorded dec (release_entry h q by_id) u)"
proof -
  have ids: "level_ids (s\<lparr>holds := x\<rparr>)" for x
    using assms(1) by (simp add: level_ids_def)
  show ?thesis
    using assms(2)
    by (auto simp: releaseHold_def ok_simps Let_def release_entry_def released_hold_def
        dest!: recordEntry_okD [OF ids, simplified])
qed

section \<open>Every method keeps the books\<close>

definition moves_stock :: "LedgerEntryType \<Rightarrow> bool" where
  "moves_stock ty \<longleftrightarrow> ty \<notin> {LEDGER_RESERVATION, LEDGER_UNRESERVATION, LEDGER_HOLD, LEDGER_RELEASE}"

lemma moves_stock_deltas: "moves_stock ty \<Longrightarrow> reservedDelta ty q = 0 \<and> quarantineDelta ty q = 0"
  by (cases ty) (simp_all add: moves_stock_def reservedDelta_def quarantineDelta_def)

lemma entry_sel [simp]:
  "en_tenantId (entry t p l ty q u) = t" "en_productId (entry t p l ty q u) = p" "en_locationId (entry t p l ty q u) = l"
  "en_entryType (entry t p l ty q u) = ty" "en_quantity (entry t p l ty q u) = q"
  by (simp_all add: entry_def)

lemma delta_simps [simp]:
  "reservedDelta LEDGER_RESERVATION q = \<bar>q\<bar>" "reservedDelta LEDGER_UNRESERVATION q = - \<bar>q\<bar>"
  "reservedDelta LEDGER_HOLD q = 0" "reservedDelta LEDGER_RELEASE q = 0"
  "quarantineDelta LEDGER_HOLD q = \<bar>q\<bar>" "quarantineDelta LEDGER_RELEASE q = - \<bar>q\<bar>"
  "quarantineDelta LEDGER_RESERVATION q = 0" "quarantineDelta LEDGER_UNRESERVATION q = 0"
  "onHandDelta LEDGER_RESERVATION q = 0" "onHandDelta LEDGER_UNRESERVATION q = 0"
  "onHandDelta LEDGER_HOLD q = 0" "onHandDelta LEDGER_RELEASE q = 0"
  by (simp_all add: reservedDelta_def quarantineDelta_def onHandDelta_def)

context cost_column
begin

text \<open>The common part: an entry whose deltas the reservations and holds already account for.\<close>

lemma recorded_keeps_inv:
  assumes "stock_ok dec u" "dec (en_quantity e) = en_quantity e" "\<not> overdraws e u"
    "distinct (map rs_id (stockReservations u))"
    "\<forall>r \<in> set (stockReservations u). rs_id r < erp_next u \<and> dec (rs_reservedQty r) = rs_reservedQty r"
    "\<And>t p l. reserved_out t p l u =
      reserved_at t p l u + (if is_entry t p l e then reservedDelta (en_entryType e) (en_quantity e) else 0)"
    "distinct (map hd_id (holds u))"
    "\<forall>h \<in> set (holds u). hd_id h < erp_next u \<and> dec (hd_heldQty h) = hd_heldQty h \<and> 0 \<le> hd_heldQty h"
    "\<And>t p l. held_out t p l u =
      quarantine_at t p l u + (if is_entry t p l e then quarantineDelta (en_entryType e) (en_quantity e) else 0)"
  shows "stock_inv dec (recorded dec e u)"
  using recorded_keeps_stock [OF assms(1-3)] recorded_keeps_reservations [OF assms(1,2,4-6)]
    recorded_keeps_holds [OF assms(1,2,7-9)]
  by (simp add: stock_inv_def)

lemma recordEntry_keeps:
  assumes "stock_inv dec s" "moves_stock (en_entryType e)" "dec (en_quantity e) = en_quantity e"
    "recordEntry dec e s = (Inr r, t)"
  shows "stock_inv dec t"
proof -
  have "\<not> overdraws e s" "t = recorded dec e s"
    using recordEntry_okD [OF stock_inv_ids [OF assms(1)] assms(4)] by auto
  moreover have "stock_inv dec (recorded dec e s)"
    by (rule recorded_keeps_inv)
      (use assms(1,3) \<open>\<not> overdraws e s\<close> moves_stock_deltas [OF assms(2)] in
        \<open>auto simp: stock_inv_def reservations_ok_def holds_ok_def\<close>)
  ultimately show ?thesis by simp
qed

lemma createReservation_keeps:
  assumes "stock_inv dec s" "dec (rp_quantity p) = rp_quantity p" "createReservation dec p s = (Inr r, t)"
  shows "stock_inv dec t"
proof -
  obtain sq where r: "rs_id r = erp_next s" "rs_tenantId r = rp_tenantId p" "rs_productId r = rp_productId p"
      "rs_locationId r = rp_locationId p" "rs_reservedQty r = rp_quantity p" "rs_status r = ''ACTIVE''"
    and u: "\<not> overdraws (reserve_entry p (rs_reservationNumber r))
        (s\<lparr>sequences := sq, erp_next := erp_next s + 1, stockReservations := stockReservations s @ [r]\<rparr>)"
    and t: "t = recorded dec (reserve_entry p (rs_reservationNumber r))
        (s\<lparr>sequences := sq, erp_next := erp_next s + 1, stockReservations := stockReservations s @ [r]\<rparr>)"
    using createReservation_okD [OF stock_inv_ids [OF assms(1)] assms(3)] assms(2) by (auto simp: Let_def)
  note parts = assms(1) [unfolded stock_inv_def reservations_ok_def holds_ok_def]
  let ?u = "s\<lparr>sequences := sq, erp_next := erp_next s + 1, stockReservations := stockReservations s @ [r]\<rparr>"
  have ok: "stock_ok dec ?u" using parts stock_ok_cong [of ?u s dec] by simp
  show ?thesis
    unfolding t
    by (rule recorded_keeps_inv [OF ok _ u])
      (use parts r assms(2) in \<open>auto simp: reserve_entry_def reserved_out_def held_out_def outstanding_def is_entry_def\<close>)
qed

lemma releaseReservation_keeps:
  assumes "stock_inv dec s" "\<And>q. given f = Some q \<Longrightarrow> dec q = q" "releaseReservation dec i tn by_id f s = (Inr x, t)"
  shows "stock_inv dec t"
proof -
  note parts = assms(1) [unfolded stock_inv_def reservations_ok_def holds_ok_def]
  define g :: "rat \<Rightarrow> InventoryReservation \<Rightarrow> InventoryReservation" where "g = (\<lambda>q r. r\<lparr>rs_status := ''RELEASED'', rs_fulfilledQty := dec q,
         rs_releasedById := Some by_id, rs_releasedAt := Some (now s)\<rparr>)"
  obtain r q where r: "find_by rs_id i (stockReservations s) = Some r" "rs_status r = ''ACTIVE''"
      "q = (case given f of None \<Rightarrow> rs_reservedQty r | Some q \<Rightarrow> q)"
    and u: "\<not> overdraws (unreserve_entry r q by_id) (s\<lparr>stockReservations := set_row rs_id i (g q) (stockReservations s)\<rparr>)"
    and t: "t = recorded dec (unreserve_entry r q by_id) (s\<lparr>stockReservations := set_row rs_id i (g q) (stockReservations s)\<rparr>)"
    using unreserve_okD [OF stock_inv_ids [OF assms(1)] assms(3)] unfolding Let_def g_def by blast
  have mem: "r \<in> set (stockReservations s)" "rs_id r = i" using find_by_Some [OF r(1)] by auto
  have q: "dec q = q" using r(3) assms(2) mem(1) parts by (auto split: option.splits)
  have g: "rs_id (g q y) = rs_id y" "rs_reservedQty (g q y) = rs_reservedQty y"
      "rs_tenantId (g q y) = rs_tenantId y" "rs_productId (g q y) = rs_productId y" "rs_locationId (g q y) = rs_locationId y"
      "outstanding (g q y) = \<bar>rs_reservedQty y\<bar> - \<bar>q\<bar>" for y
    by (simp_all add: g_def q outstanding_def)
  let ?u = "s\<lparr>stockReservations := set_row rs_id i (g q) (stockReservations s)\<rparr>"
  have ok: "stock_ok dec ?u" using parts stock_ok_cong [of ?u s dec] by simp
  show ?thesis
    unfolding t
    by (rule recorded_keeps_inv [OF ok _ u])
      (use parts r(1,2) mem q in \<open>auto simp: unreserve_entry_def reserved_out_def held_out_def is_entry_def g in_set_row
        sum_where_set_row [OF _ r(1)] outstanding_def [of r]\<close>)
qed

lemma placeHold_keeps:
  assumes "stock_inv dec s" "dec (hp_quantity p) = hp_quantity p" "0 \<le> hp_quantity p" "placeHold dec p s = (Inr h, t)"
  shows "stock_inv dec t"
proof -
  obtain sq where h: "hd_id h = erp_next s" "hd_tenantId h = hp_tenantId p" "hd_productId h = hp_productId p"
      "hd_locationId h = hp_locationId p" "hd_heldQty h = hp_quantity p" "hd_status h = ''ACTIVE''"
    and u: "\<not> overdraws (hold_entry p (hd_id h) (hd_holdNumber h))
        (s\<lparr>sequences := sq, erp_next := erp_next s + 1, holds := holds s @ [h]\<rparr>)"
    and t: "t = recorded dec (hold_entry p (hd_id h) (hd_holdNumber h))
        (s\<lparr>sequences := sq, erp_next := erp_next s + 1, holds := holds s @ [h]\<rparr>)"
    using placeHold_okD [OF stock_inv_ids [OF assms(1)] assms(4)] assms(2) by (auto simp: Let_def)
  note parts = assms(1) [unfolded stock_inv_def reservations_ok_def holds_ok_def]
  let ?u = "s\<lparr>sequences := sq, erp_next := erp_next s + 1, holds := holds s @ [h]\<rparr>"
  have ok: "stock_ok dec ?u" using parts stock_ok_cong [of ?u s dec] by simp
  show ?thesis
    unfolding t
    by (rule recorded_keeps_inv [OF ok _ u])
      (use parts h assms(2,3) in \<open>auto simp: hold_entry_def reserved_out_def held_out_def still_held_def is_entry_def\<close>)
qed

lemma releaseHold_keeps:
  assumes "stock_inv dec s" "\<And>q. given f = Some q \<Longrightarrow> dec q = q \<and> 0 \<le> q" "releaseHold dec i tn by_id f s = (Inr x, t)"
  shows "stock_inv dec t"
proof -
  note parts = assms(1) [unfolded stock_inv_def reservations_ok_def holds_ok_def]
  obtain h q where h: "find_by hd_id i (holds s) = Some h" "hd_status h = ''ACTIVE''"
      "q = (case given f of None \<Rightarrow> hd_heldQty h | Some q \<Rightarrow> q)"
    and u: "\<not> overdraws (release_entry h q by_id) (s\<lparr>holds := set_row hd_id i (released_hold dec h q by_id (now s)) (holds s)\<rparr>)"
    and t: "t = recorded dec (release_entry h q by_id) (s\<lparr>holds := set_row hd_id i (released_hold dec h q by_id (now s)) (holds s)\<rparr>)"
    using releaseHold_okD [OF stock_inv_ids [OF assms(1)] assms(3)] unfolding Let_def by blast
  have mem: "h \<in> set (holds s)" "hd_id h = i" using find_by_Some [OF h(1)] by auto
  have q: "dec q = q" "0 \<le> q" "dec (hd_heldQty h) = hd_heldQty h" using h(3) assms(2) mem(1) parts by (auto split: option.splits)
  define g where "g = released_hold dec h q by_id (now s)"
  have g: "hd_id (g y) = hd_id y" "hd_tenantId (g y) = hd_tenantId y" "hd_productId (g y) = hd_productId y"
      "hd_locationId (g y) = hd_locationId y" for y
    by (simp_all add: g_def released_hold_def)
  have held: "still_held (g h) = hd_heldQty h - q"
    using h(2) q by (simp add: g_def released_hold_def still_held_def dec_diff)
  have grid: "dec (hd_heldQty (g y)) = hd_heldQty (g y) \<and> 0 \<le> hd_heldQty (g y)"
    if "dec (hd_heldQty y) = hd_heldQty y" "0 \<le> hd_heldQty y" for y
    using that q by (simp add: g_def released_hold_def dec_diff)
  let ?u = "s\<lparr>holds := set_row hd_id i g (holds s)\<rparr>"
  have ok: "stock_ok dec ?u" using parts stock_ok_cong [of ?u s dec] by simp
  have sum: "held_out a b c ?u = held_out a b c s -
      (if hd_tenantId h = a \<and> hd_productId h = b \<and> hd_locationId h = c then q else 0)" for a b c
    using sum_where_set_row [of hd_id "holds s" i h g] parts h(1) g held
    by (simp add: held_out_def still_held_def h(2))
  show ?thesis
    unfolding t g_def [symmetric]
    by (rule recorded_keeps_inv [OF ok _ u [folded g_def]])
      (use parts h(1,2) mem q g grid sum in \<open>auto simp: release_entry_def reserved_out_def held_out_def is_entry_def in_set_row\<close>)
qed

end

section \<open>The step relation\<close>

inductive stock_step :: "(rat \<Rightarrow> rat) \<Rightarrow> erp \<Rightarrow> erp \<Rightarrow> bool" for dec :: "rat \<Rightarrow> rat" where
  record_entry: "moves_stock (en_entryType e) \<Longrightarrow> dec (en_quantity e) = en_quantity e \<Longrightarrow>
     erp_transaction (recordEntry dec e) s = (r, t) \<Longrightarrow> stock_step dec s t"
| reserve: "dec (rp_quantity p) = rp_quantity p \<Longrightarrow>
     erp_transaction (createReservation dec p) s = (r', t) \<Longrightarrow> stock_step dec s t"
| unreserve: "(\<And>q. given f = Some q \<Longrightarrow> dec q = q) \<Longrightarrow>
     erp_transaction (releaseReservation dec i tn by_id f) s = (r'', t) \<Longrightarrow> stock_step dec s t"
| hold: "dec (hp_quantity h) = hp_quantity h \<Longrightarrow> 0 \<le> hp_quantity h \<Longrightarrow>
     erp_transaction (placeHold dec h) s = (h', t) \<Longrightarrow> stock_step dec s t"
| unhold: "(\<And>q. given f = Some q \<Longrightarrow> dec q = q \<and> 0 \<le> q) \<Longrightarrow>
     erp_transaction (releaseHold dec i tn by_id f) s = (r'', t) \<Longrightarrow> stock_step dec s t"
| elsewhere: "same_stock s t \<Longrightarrow> stock_step dec s t"

inductive stock_reachable :: "(rat \<Rightarrow> rat) \<Rightarrow> erp \<Rightarrow> bool" for dec :: "rat \<Rightarrow> rat" where
  start: "levels s = [] \<Longrightarrow> ledger s = [] \<Longrightarrow> stockReservations s = [] \<Longrightarrow> holds s = [] \<Longrightarrow> stock_reachable dec s"
| step: "stock_reachable dec s \<Longrightarrow> stock_step dec s t \<Longrightarrow> stock_reachable dec t"

lemma stock_inv_empty:
  "levels s = [] \<Longrightarrow> ledger s = [] \<Longrightarrow> stockReservations s = [] \<Longrightarrow> holds s = [] \<Longrightarrow> stock_inv dec s"
  by (simp add: stock_inv_def stock_ok_def reservations_ok_def holds_ok_def level_ids_def stock_grid_def balanced_def
      versions_def withdrawn_def delta_sum_def level_at_def ledger_at_def reserved_out_def held_out_def quantity_of_def)

text \<open>A transaction of a method that keeps the invariant when it returns keeps it.\<close>

lemma erp_transaction_inv:
  assumes "\<And>x u. m s = (Inr x, u) \<Longrightarrow> stock_inv dec u" "stock_inv dec s" "erp_transaction m s = (r, t)"
  shows "stock_inv dec t"
proof (cases "fst (m s)")
  case (Inl e)
  then have "t = rollback_to s (snd (m s))" using assms(3) by (cases "m s") (auto simp: run_simps)
  with assms(2) stock_inv_cong [OF rollback_same_stock] show ?thesis by simp
next
  case (Inr x)
  then have "m s = (Inr x, snd (m s))" by (cases "m s") simp
  with assms(1,3) show ?thesis by (auto simp: run_simps)
qed

context cost_column
begin

lemma stock_step_keeps: "stock_step dec s t \<Longrightarrow> stock_inv dec s \<Longrightarrow> stock_inv dec t"
proof (induction rule: stock_step.induct)
  case (record_entry e s r t)
  then show ?case by (rule_tac erp_transaction_inv) (auto intro: recordEntry_keeps)
next
  case (reserve p s r' t)
  then show ?case by (rule_tac erp_transaction_inv) (auto intro: createReservation_keeps)
next
  case (unreserve f i tn by_id s r'' t)
  then show ?case by (rule_tac erp_transaction_inv) (auto intro: releaseReservation_keeps)
next
  case (hold h s h' t)
  then show ?case by (rule_tac erp_transaction_inv) (auto intro: placeHold_keeps)
next
  case (unhold f i tn by_id s r'' t)
  then show ?case by (rule_tac erp_transaction_inv) (auto intro: releaseHold_keeps)
next
  case (elsewhere s t)
  then show ?case by (rule_tac stock_inv_cong)
qed

lemma reachable_stock: "stock_reachable dec s \<Longrightarrow> stock_inv dec s"
  by (induction rule: stock_reachable.induct) (auto intro: stock_inv_empty stock_step_keeps)

end

end
