(* ===== verification/StockProperties.thy ===== *)
theory StockProperties
  imports StockSystem
begin

text \<open>
  Properties of document numbers, idempotency keys and retries, and of the stock ledger.
\<close>

section \<open>Sequences, keys and retries\<close>

text \<open>
  C14: Document numbers never repeat: two numbers drawn one after the other, whatever happens
  in between (also transactions that roll back), for the same or for different prefixes,
  differ.
\<close>

theorem document_numbers_distinct:
  assumes "nextNumber p s = (Inr x, s')" "sequences_le s' t" "nextNumber q t = (Inr y, t')"
  shows "x \<noteq> y"
proof
  assume "x = y"
  obtain n m where n: "map_of sequence_names p = Some n" "x = document_number p (last_value n s + 1)"
      "s' = s\<lparr>sequences := (n, last_value n s + 1) # sequences s\<rparr>"
    and m: "map_of sequence_names q = Some m" "y = document_number q (last_value m t + 1)"
    using assms(1,3) by (auto simp: nextNumber_ok)
  with \<open>x = y\<close> have "p = q" "last_value n s = last_value m t"
    using document_number_inj [OF prefix_no_dash [OF n(1)] prefix_no_dash [OF m(1)]] by auto
  moreover from this n m have "n = m" by simp
  moreover have "last_value n s' = last_value n s + 1" by (simp add: n(3) last_value_def)
  ultimately show False using assms(2) by (auto simp: sequences_le_def dest: spec [of _ n])
qed

definition after_JE :: erp where "after_JE = snd (nextNumber ''JE'' empty_erp)"

lemma document_numbers_distinct_witness:
  "''JE-0000001'' \<noteq> (''JE-0000002'' :: string)"
proof (rule document_numbers_distinct)
  show "nextNumber ''JE'' empty_erp = (Inr ''JE-0000001'', after_JE)"
    unfolding after_JE_def by (rule ran_to) code_simp
  show "sequences_le after_JE after_JE" by simp
  show "nextNumber ''JE'' after_JE = (Inr ''JE-0000002'', snd (nextNumber ''JE'' after_JE))"
    by (rule ran_to) code_simp
qed

text \<open>
  C15: An idempotency key is acquired once: after an acquisition that told its caller to
  proceed, every further one of the same key is told of the recorded run (with the result
  stamped meanwhile) and changes nothing, and an insert that raced past the check gets a
  conflict.
\<close>

theorem key_acquired_once:
  assumes "acquire scope key tn s = (Inr None, s')"
  shows "\<exists>k. acquire scope key tn s' = (Inr (Some (None, k)), s') \<and>
    acquire scope key tn (snd (stamp scope key tn result s')) = (Inr (Some (Some result, k)), snd (stamp scope key tn result s')) \<and>
    insert_key scope key tn s' = (Inl ConflictException, s')"
proof -
  have s': "find_key scope key tn s = None" "key_fits scope key" "s' = s\<lparr>idempotencyKeys := idempotencyKeys s @ [new_key scope key tn (now s)]\<rparr>"
    using assms by (auto simp: run_acquire split: option.splits if_splits)
  then have found: "find_key scope key tn s' = Some (new_key scope key tn (now s))"
    by (simp add: find_key_def find_append has_key_def new_key_def)
  moreover have "find_key scope key tn (snd (stamp scope key tn result s')) =
      Some ((new_key scope key tn (now s))\<lparr>ik_resultId := Some result\<rparr>)"
    using found by (simp add: find_key_stamp)
  ultimately show ?thesis
    using s'(2) by (simp add: run_acquire new_key_def insert_key_def create_key_def run_simps)
qed

lemma key_acquired_once_witness:
  "insert_key ''WO_COMPLETE'' ''42'' 7 (snd (acquire ''WO_COMPLETE'' ''42'' 7 empty_erp)) =
    (Inl ConflictException, snd (acquire ''WO_COMPLETE'' ''42'' 7 empty_erp))"
proof -
  have "acquire ''WO_COMPLETE'' ''42'' 7 empty_erp = (Inr None, snd (acquire ''WO_COMPLETE'' ''42'' 7 empty_erp))"
    by (rule ran_to) code_simp
  from key_acquired_once [OF this] show ?thesis by blast
qed

text \<open>
  With the default of five retries an operation runs at most six times: it stops at the
  first attempt that does not fail with a conflict and returns or throws what that attempt
  did, and if six attempts conflict it throws the conflict of the last.
\<close>

theorem retry_stops:
  "\<exists>k \<le> 5. withRetry None fn s = fn (after_attempts fn k s) \<and> (\<forall>j < k. conflicts fn (after_attempts fn j s)) \<and>
    (k < 5 \<longrightarrow> \<not> conflicts fn (after_attempts fn k s))"
proof -
  define P where "P = (\<lambda>k. \<not> conflicts fn (after_attempts fn k s) \<or> k = 5)"
  define k where "k = (LEAST k. P k)"
  have "P k" unfolding k_def by (rule LeastI [of P 5]) (simp add: P_def)
  have le: "k \<le> 5" unfolding k_def by (rule Least_le) (simp add: P_def)
  have before: "conflicts fn (after_attempts fn j s)" if "j < k" for j
    using not_less_Least [of j P] that by (simp add: k_def P_def)
  have "withRetry None fn s = fn (after_attempts fn k s)"
    unfolding withRetry_def option.case
    by (rule retry_from_stops) (use before le \<open>P k\<close> in \<open>auto simp: P_def\<close>)
  with le before \<open>P k\<close> show ?thesis by (auto simp: P_def)
qed

lemma retry_stops_witness:
  "withRetry None (throw ConflictException :: unit erp_prog) empty_erp = (Inl ConflictException, empty_erp)"
proof -
  obtain k where "withRetry None (throw ConflictException :: unit erp_prog) empty_erp =
      throw ConflictException (after_attempts (throw ConflictException :: unit erp_prog) k empty_erp)"
    using retry_stops [of "throw ConflictException :: unit erp_prog" empty_erp] by blast
  moreover have "after_attempts (throw ConflictException :: unit erp_prog) k empty_erp = empty_erp"
    by (induction k) (simp_all add: after_attempts_Suc run_throw)
  ultimately show ?thesis by (simp add: run_throw)
qed

section \<open>The stock ledger\<close>

lemma signed_quantity_delta: "signed_quantity = (\<lambda>e. onHandDelta (le_entryType e) (le_quantity e))"
proof
  fix e
  show "signed_quantity e = onHandDelta (le_entryType e) (le_quantity e)"
    by (cases "le_entryType e") (simp_all add: signed_quantity_def onHandDelta_def)
qed

text \<open>
  C16: In every state the stock service can reach, by any sequence of its methods with
  quantities of at most four decimals, the reconciliation of every product and location
  reports a consistent balance, the available quantity is on-hand minus reserved minus
  quarantined, and the row's version counts its ledger entries.
\<close>

theorem reachable_reconciles:
  assumes "stock_reachable numeric4 s"
  shows "rc_isConsistent (reconcileBalance t p l s) \<and> rc_discrepancy (reconcileBalance t p l s) = 0 \<and>
    available_at t p l s = onHand_at t p l s - reserved_at t p l s - quarantine_at t p l s \<and>
    quantity_of (of_nat \<circ> lv_version) (level_at t p l s) = of_nat (length (ledger_at t p l s))"
proof -
  have "balanced t p l s \<and> versions t p l s"
    using numeric4.reachable_stock [OF assms] by (simp add: stock_inv_def stock_ok_def)
  then show ?thesis
    by (auto simp: reconcileBalance_def getBalance_def Let_def balanced_def versions_def delta_sum_def signed_quantity_delta
        quantity_of_def split: option.splits)
qed

text \<open>
  C17: In every reachable state the reserved quantity of a product at a location is the sum
  over its reservations of what they reserved, less what was released, and the quarantined
  quantity is what its holds still hold (less what was released beyond them).
\<close>

theorem reachable_reservations:
  assumes "stock_reachable numeric4 s"
  shows "reserved_at t p l s = reserved_out t p l s \<and> quarantine_at t p l s = held_out t p l s"
  using numeric4.reachable_stock [OF assms] by (simp add: stock_inv_def reservations_ok_def holds_ok_def)

text \<open>
  C18: On-hand stock is negative only where a negative adjustment was recorded: no receipt,
  issue, transfer, scrap, reservation or hold takes it below zero.
\<close>

theorem reachable_not_negative:
  assumes "stock_reachable numeric4 s"
    "\<forall>e \<in> set (ledger_at t p l s). le_entryType e = LEDGER_ADJUSTMENT \<longrightarrow> 0 \<le> le_quantity e"
  shows "0 \<le> onHand_at t p l s"
proof -
  have "onHand_at t p l s < 0 \<longrightarrow> withdrawn t p l s"
    using numeric4.reachable_stock [OF assms(1)] by (simp add: stock_inv_def stock_ok_def)
  with assms(2) show ?thesis by (force simp: withdrawn_def)
qed

definition receipt :: entry_params where
  "receipt = entry 7 1 2 LEDGER_RECEIPT 10 ''EA''"

definition stocked :: erp where
  "stocked = snd (recordEntry numeric4 receipt empty_erp)"

definition demand :: reserve_params where
  "demand = \<lparr>rp_tenantId = 7, rp_productId = 1, rp_locationId = 2, rp_batchId = None, rp_quantity = 6,
     rp_uom = ''EA'', rp_referenceType = ''WORK_ORDER'', rp_referenceId = 99, rp_reservedById = 5\<rparr>"

definition reserved_state :: erp where
  "reserved_state = snd (createReservation numeric4 demand stocked)"

lemma stocked_reachable: "stock_reachable numeric4 stocked"
proof (rule stock_reachable.step)
  show "stock_reachable numeric4 empty_erp" by (rule stock_reachable.start) (simp_all add: empty_erp_def)
  have "\<exists>x. recordEntry numeric4 receipt empty_erp = (Inr x, stocked)"
    unfolding stocked_def by (rule ran_ok) code_simp
  then obtain x where "recordEntry numeric4 receipt empty_erp = (Inr x, stocked)" by blast
  then have "erp_transaction (recordEntry numeric4 receipt) empty_erp = (Inr x, stocked)" by (rule erp_transaction_Inr)
  moreover have "moves_stock (en_entryType receipt)" "numeric4 (en_quantity receipt) = en_quantity receipt" by code_simp+
  ultimately show "stock_step numeric4 empty_erp stocked" by (intro stock_step.record_entry)
qed

lemma reserved_run: "\<exists>r. createReservation numeric4 demand stocked = (Inr r, reserved_state)"
  unfolding reserved_state_def by (rule ran_ok) code_simp

lemma reserved_reachable: "stock_reachable numeric4 reserved_state"
proof (rule stock_reachable.step [OF stocked_reachable])
  obtain r where "createReservation numeric4 demand stocked = (Inr r, reserved_state)" using reserved_run by blast
  then have "erp_transaction (createReservation numeric4 demand) stocked = (Inr r, reserved_state)"
    by (rule erp_transaction_Inr)
  moreover have "numeric4 (rp_quantity demand) = rp_quantity demand" by code_simp
  ultimately show "stock_step numeric4 stocked reserved_state" by (intro stock_step.reserve)
qed

lemma reachable_reconciles_witness: "available_at 7 1 2 reserved_state = 4 \<and> rc_isConsistent (reconcileBalance 7 1 2 reserved_state)"
proof -
  have "onHand_at 7 1 2 reserved_state = 10" "reserved_at 7 1 2 reserved_state = 6" "quarantine_at 7 1 2 reserved_state = 0"
    by code_simp+
  with reachable_reconciles [OF reserved_reachable, of 7 1 2] show ?thesis by simp
qed

lemma reachable_reservations_witness: "reserved_out 7 1 2 reserved_state = 6"
proof -
  have "reserved_at 7 1 2 reserved_state = 6" by code_simp
  with reachable_reservations [OF reserved_reachable, of 7 1 2] show ?thesis by simp
qed

lemma reachable_not_negative_witness: "0 \<le> onHand_at 7 1 2 reserved_state"
proof (rule reachable_not_negative [OF reserved_reachable])
  show "\<forall>e \<in> set (ledger_at 7 1 2 reserved_state). le_entryType e = LEDGER_ADJUSTMENT \<longrightarrow> 0 \<le> le_quantity e"
    by code_simp
qed


text \<open>
  C19: Reserving and then releasing in full restores the quantities of every product and
  location, and the release succeeds (also for the tenant test and a batch), wherever on-hand
  stock is not negative.
\<close>

theorem reserve_release_roundtrip:
  assumes "stock_reachable numeric4 s" "numeric4 (rp_quantity p) = rp_quantity p"
    "0 \<le> onHand_at (rp_tenantId p) (rp_productId p) (rp_locationId p) s"
    "createReservation numeric4 p s = (Inr r, u)"
  shows "\<exists>t. releaseReservation numeric4 (rs_id r) (Some (rp_tenantId p)) by_id None u = (Inr (), t) \<and>
    onHand_at a b c t = onHand_at a b c s \<and> reserved_at a b c t = reserved_at a b c s \<and>
    quarantine_at a b c t = quarantine_at a b c s \<and> available_at a b c t = available_at a b c s"
proof -
  note inv = numeric4.reachable_stock [OF assms(1)]
  have inv_u: "stock_inv numeric4 u" by (rule numeric4.createReservation_keeps [OF inv assms(2,4)])
  define e where "e = reserve_entry p (rs_reservationNumber r)"
  obtain sq where r: "rs_id r = erp_next s" "rs_tenantId r = rp_tenantId p" "rs_productId r = rp_productId p"
      "rs_locationId r = rp_locationId p" "rs_reservedQty r = rp_quantity p" "rs_status r = ''ACTIVE''" "rs_batchId r = rp_batchId p"
    and known: "known_batch e s"
    and u: "u = recorded numeric4 e (s\<lparr>sequences := sq, erp_next := erp_next s + 1, stockReservations := stockReservations s @ [r]\<rparr>)"
    using createReservation_okD [OF stock_inv_ids [OF inv] assms(4)] assms(2)
    by (auto simp: Let_def e_def known_batch_def)
  have e [simp]: "en_tenantId e = rp_tenantId p" "en_productId e = rp_productId p" "en_locationId e = rp_locationId p"
      "en_entryType e = LEDGER_RESERVATION" "en_quantity e = rp_quantity p" "en_batchId e = rp_batchId p"
    by (simp_all add: e_def reserve_entry_def)
  have "\<forall>x \<in> set (stockReservations s). rs_id x < erp_next s"
    using inv by (simp add: stock_inv_def reservations_ok_def)
  then have "find_by rs_id (rs_id r) (stockReservations s) = None" using r(1) by (auto simp: find_by_None)
  then have found: "find_by rs_id (rs_id r) (stockReservations u) = Some r" by (simp add: u)
  define e' where "e' = unreserve_entry r (rp_quantity p) by_id"
  have e' [simp]: "en_tenantId e' = rp_tenantId p" "en_productId e' = rp_productId p" "en_locationId e' = rp_locationId p"
      "en_entryType e' = LEDGER_UNRESERVATION" "en_quantity e' = rp_quantity p" "en_batchId e' = rp_batchId p"
    using r by (simp_all add: e'_def unreserve_entry_def)
  define v where "v = u\<lparr>stockReservations := set_row rs_id (rs_id r) (\<lambda>x. x\<lparr>rs_status := ''RELEASED'',
      rs_fulfilledQty := numeric4 (rp_quantity p), rs_releasedById := Some by_id, rs_releasedAt := Some (now u)\<rparr>) (stockReservations u)\<rparr>"
  have ok_s: "stock_ok numeric4 s" and ok_u: "stock_ok numeric4 u" using inv inv_u by (simp_all add: stock_inv_def)
  have ok_v: "stock_ok numeric4 v" using stock_ok_cong [of v u numeric4] ok_u by (simp add: v_def)
  have onHand_u: "onHand_at a b c u = onHand_at a b c s" for a b c
  proof -
    have "delta_sum onHandDelta a b c u = delta_sum onHandDelta a b c s"
      by (simp add: u delta_sum_recorded)
    with ok_u ok_s show ?thesis by (simp add: stock_ok_def balanced_def)
  qed
  have batches_u: "batches u = batches s" by (simp add: u recorded_def moved_batches_def Let_def split: option.split)
  have run: "recordEntry numeric4 e' v = (Inr (recorded_row numeric4 e' v), recorded numeric4 e' v)"
  proof -
    have bv: "batches v = batches s" by (simp add: v_def batches_u)
    have "known_batch e' v" using known unfolding known_batch_def bv by simp
    moreover have "\<not> overdraws e' v" using assms(3) onHand_u by (simp add: overdraws_def new_onHand_def v_def)
    moreover have "level_ids v" using ok_v by (simp add: stock_ok_def)
    ultimately show ?thesis by (simp add: recordEntry_run)
  qed
  define t where "t = recorded numeric4 e' v"
  have release: "releaseReservation numeric4 (rs_id r) (Some (rp_tenantId p)) by_id None u = (Inr (), t)"
    using found r run
    by (simp add: releaseReservation_def run_get_row run_simps run_bind run_seq other_tenant_def Let_def v_def t_def e'_def
        unreserve_entry_def)
  have ok_t: "stock_ok numeric4 t"
    using numeric4.recorded_keeps_stock [OF ok_v, of e'] assms(2) run recordEntry_okD [OF _ run] ok_v
    by (simp add: t_def stock_ok_def)
  have "delta_sum f a b c t = delta_sum f a b c s + (if is_entry a b c e then f LEDGER_RESERVATION (rp_quantity p) + f LEDGER_UNRESERVATION (rp_quantity p) else 0)"
    for f a b c
    using assms(2)
    by (simp add: t_def v_def u delta_sum_recorded is_entry_def)
  then have "onHand_at a b c t = onHand_at a b c s \<and> reserved_at a b c t = reserved_at a b c s \<and>
      quarantine_at a b c t = quarantine_at a b c s" for a b c
    using ok_s ok_t by (simp add: stock_ok_def balanced_def)
  with release ok_s ok_t show ?thesis by (auto simp: stock_ok_def balanced_def)
qed

lemma reserve_release_roundtrip_witness:
  "\<exists>t. releaseReservation numeric4 (rs_id (hd (stockReservations reserved_state))) (Some 7) 5 None reserved_state = (Inr (), t) \<and>
     available_at 7 1 2 t = 10"
proof -
  obtain r where r: "createReservation numeric4 demand stocked = (Inr r, reserved_state)" using reserved_run by blast
  have "fst (createReservation numeric4 demand stocked) = Inr (hd (stockReservations reserved_state))" by code_simp
  with r have "r = hd (stockReservations reserved_state)" by simp
  moreover have "numeric4 (rp_quantity demand) = rp_quantity demand"
    "0 \<le> onHand_at (rp_tenantId demand) (rp_productId demand) (rp_locationId demand) stocked"
    "available_at 7 1 2 stocked = 10" "rp_tenantId demand = 7" by code_simp+
  ultimately show ?thesis using reserve_release_roundtrip [OF stocked_reachable _ _ r, where a = 7 and b = 1 and c = 2 and by_id = 5] by fastforce
qed

text \<open>
  A partial release strands the rest of a reservation: the reservation is closed, so it
  can never be released again, while the part that was not fulfilled stays reserved.
\<close>

theorem partial_release_strands:
  assumes "stock_reachable numeric4 s" "find_by rs_id i (stockReservations s) = Some r" "numeric4 q = q"
    "releaseReservation numeric4 i tn by_id (Some (DecimalQty q)) s = (Inr (), t)"
  shows "reserved_at (rs_tenantId r) (rs_productId r) (rs_locationId r) t =
      reserved_at (rs_tenantId r) (rs_productId r) (rs_locationId r) s - \<bar>q\<bar> \<and>
    releaseReservation numeric4 i tn' by_id' f t = (Inl BadRequestException, t)"
proof -
  note inv = numeric4.reachable_stock [OF assms(1)]
  obtain g where t: "t = recorded numeric4 (unreserve_entry r q by_id) (s\<lparr>stockReservations := set_row rs_id i g (stockReservations s)\<rparr>)"
    and g: "g = (\<lambda>r. r\<lparr>rs_status := ''RELEASED'', rs_fulfilledQty := numeric4 q, rs_releasedById := Some by_id, rs_releasedAt := Some (now s)\<rparr>)"
    using unreserve_okD [OF stock_inv_ids [OF inv] assms(4)] assms(2) by (auto simp: Let_def)
  let ?u = "s\<lparr>stockReservations := set_row rs_id i g (stockReservations s)\<rparr>"
  have "stock_ok numeric4 ?u" using stock_ok_cong [of ?u s numeric4] inv by (simp add: stock_inv_def)
  then have "reserved_at (rs_tenantId r) (rs_productId r) (rs_locationId r) t =
      reserved_at (rs_tenantId r) (rs_productId r) (rs_locationId r) s - \<bar>q\<bar>"
    unfolding t using numeric4.reserved_at_recorded(1) [of ?u "unreserve_entry r q by_id"] assms(3)
    by (simp add: unreserve_entry_def is_entry_def)
  moreover have "find_by rs_id i (stockReservations t) = Some (g r)"
    using assms(2) by (simp add: t g find_by_set_row)
  then have "releaseReservation numeric4 i tn' by_id' f t = (Inl BadRequestException, t)"
    by (auto simp: releaseReservation_def run_get_row run_bind run_seq run_throwIf g)
  ultimately show ?thesis by blast
qed

lemma partial_release_strands_witness:
  "reserved_at 7 1 2 (snd (releaseReservation numeric4 (rs_id (hd (stockReservations reserved_state))) None 5 (Some (DecimalQty 4)) reserved_state)) = 2"
proof -
  let ?r = "hd (stockReservations reserved_state)"
  have run: "releaseReservation numeric4 (rs_id ?r) None 5 (Some (DecimalQty 4)) reserved_state =
      (Inr (), snd (releaseReservation numeric4 (rs_id ?r) None 5 (Some (DecimalQty 4)) reserved_state))"
    by (rule ran_to) code_simp
  have found: "find_by rs_id (rs_id ?r) (stockReservations reserved_state) = Some ?r" "numeric4 4 = 4" by code_simp+
  have "rs_tenantId ?r = 7" "rs_productId ?r = 1" "rs_locationId ?r = 2" "reserved_at 7 1 2 reserved_state = 6"
    by code_simp+
  with partial_release_strands [OF reserved_reachable found run] show ?thesis by simp
qed

end
