(* ===== verification/Accounting.thy ===== *)
theory Accounting
  imports ErpSupport "HOL-Library.List_Lexorder" "HOL-Library.Char_ord"
begin

text \<open>
  \<open>accounting.service.ts\<close>: the general ledger.  Accounts, posting profiles and their
  resolution, balanced journal entries with idempotency keys, reversals, the trial balance, and
  the locks of fiscal periods behind an in-memory cache.
\<close>

section \<open>Identifiers and texts\<close>

definition normalizeOptionalString :: "string option \<Rightarrow> string option" where
  "normalizeOptionalString v = (case v of None \<Rightarrow> None
     | Some x \<Rightarrow> let n = js_trim x in if n = [] then None else Some n)"

text \<open>\<open>looksLikeUuid\<close>: 8-4-4-4-12 hexadecimal digits with a version and a variant digit.\<close>

definition looksLikeUuid :: "string \<Rightarrow> bool" where
  "looksLikeUuid v \<longleftrightarrow> length v = 36 \<and>
     list_all (\<lambda>(i, c). if i \<in> {8, 13, 18, 23} then c = CHR ''-'' else digit_value c \<noteq> None) (enumerate 0 v) \<and>
     v ! 14 \<in> set ''12345'' \<and> v ! 19 \<in> set ''89abAB''"

text \<open>The identifier a text spells: a UUID is a 128-bit number written in hexadecimal.\<close>

definition uuid_of_text :: "string \<Rightarrow> uuid option" where
  "uuid_of_text v = (if looksLikeUuid v then digits_value 16 0 (filter (\<lambda>c. c \<noteq> CHR ''-'') v) else None)"

fun hex_of :: "nat \<Rightarrow> nat \<Rightarrow> string" where
  "hex_of 0 n = []"
| "hex_of (Suc k) n = hex_of k (n div 16) @ [''0123456789abcdef'' ! (n mod 16)]"

definition uuid_text :: "uuid \<Rightarrow> string" where
  "uuid_text i = (let h = hex_of 32 i in take 8 h @ ''-'' @ take 4 (drop 8 h) @ ''-'' @ take 4 (drop 12 h) @ ''-'' @
     take 4 (drop 16 h) @ ''-'' @ drop 20 h)"

definition same_text :: "string \<Rightarrow> string \<Rightarrow> bool" where
  "same_text a b \<longleftrightarrow> js_lower a = js_lower b"

section \<open>Accounts\<close>

record gl_input =
  gi_accountNumber :: string
  gi_name :: string
  gi_accountType :: GLAccountType
  gi_parentId :: "uuid option"
  gi_normalBalance :: "NormalBalance option"
  gi_isSystem :: "bool option"

definition known_account :: "uuid \<Rightarrow> erp \<Rightarrow> bool" where
  "known_account i s \<longleftrightarrow> find_by gl_id i (glAccounts s) \<noteq> None"

definition createGLAccount :: "uuid \<Rightarrow> gl_input \<Rightarrow> GLAccount erp_prog" where
  "createGLAccount tenantId d =
     bind (gets (find (\<lambda>a. gl_tenantId a = tenantId \<and> gl_accountNumber a = gi_accountNumber d) \<circ> glAccounts)) (\<lambda>clash.
     seq (throwIf (clash \<noteq> None) PrismaUniqueViolation)
    (bind (gets (\<lambda>s. case gi_parentId d of None \<Rightarrow> True | Some p \<Rightarrow> known_account p s)) (\<lambda>parent.
     seq (throwIf (\<not> parent) PrismaForeignKeyViolation)
    (bind fresh_id (\<lambda>i.
     let row = \<lparr>gl_id = i, gl_tenantId = tenantId, gl_accountNumber = gi_accountNumber d, gl_name = gi_name d,
       gl_accountType = gi_accountType d, gl_parentId = gi_parentId d, gl_isActive = True,
       gl_isSystem = orElse (gi_isSystem d) False, gl_normalBalance = orElse (gi_normalBalance d) DEBIT,
       gl_isInventoryAsset = False\<rparr>
     in seq (modify (\<lambda>s. s\<lparr>glAccounts := glAccounts s @ [row]\<rparr>)) (return row))))))"

definition getGLAccount :: "uuid \<Rightarrow> uuid \<Rightarrow> GLAccount erp_prog" where
  "getGLAccount tenantId i =
     bind (gets (find (\<lambda>a. gl_id a = i \<and> gl_tenantId a = tenantId) \<circ> glAccounts)) (orThrow PrismaRecordNotFound)"

record gl_patch =
  gq_name :: "string option"
  gq_isActive :: "bool option"
  gq_parentId :: "uuid option"

definition patch_account :: "gl_patch \<Rightarrow> GLAccount \<Rightarrow> GLAccount" where
  "patch_account d a = a\<lparr>gl_name := orElse (gq_name d) (gl_name a), gl_isActive := orElse (gq_isActive d) (gl_isActive a),
     gl_parentId := (case gq_parentId d of None \<Rightarrow> gl_parentId a | p \<Rightarrow> p)\<rparr>"

definition updateGLAccount :: "uuid \<Rightarrow> uuid \<Rightarrow> gl_patch \<Rightarrow> GLAccount erp_prog" where
  "updateGLAccount tenantId i d =
     bind (getGLAccount tenantId i) (\<lambda>a.
     bind (gets (\<lambda>s. case gq_parentId d of None \<Rightarrow> True | Some p \<Rightarrow> known_account p s)) (\<lambda>parent.
     seq (throwIf (\<not> parent) PrismaForeignKeyViolation)
    (seq (modify (\<lambda>s. s\<lparr>glAccounts := set_row gl_id i (patch_account d) (glAccounts s)\<rparr>))
    (return (patch_account d a)))))"

section \<open>Posting profiles\<close>

definition category_matches :: "uuid \<Rightarrow> uuid option \<Rightarrow> string option \<Rightarrow> ProductCategory \<Rightarrow> bool" where
  "category_matches tenantId categoryId categoryValue c \<longleftrightarrow> pc_tenantId c = tenantId \<and>
     (case categoryId of Some i \<Rightarrow> pc_id c = i
      | None \<Rightarrow> (case categoryValue of None \<Rightarrow> False
          | Some v \<Rightarrow> uuid_of_text v = Some (pc_id c) \<or> same_text (pc_code c) v \<or> same_text (pc_name c) v))"

definition resolvePostingProfileCategory ::
    "uuid \<Rightarrow> uuid option \<Rightarrow> string option \<Rightarrow> bool \<Rightarrow> ProductCategory option erp_prog" where
  "resolvePostingProfileCategory tenantId categoryId categoryValue throwIfMissing =
     (let v = normalizeOptionalString categoryValue in
      if categoryId = None \<and> v = None then return None
      else bind (gets (find (category_matches tenantId categoryId v) \<circ> productCategories)) (\<lambda>category.
           seq (throwIf (category = None \<and> throwIfMissing) BadRequestException)
               (return category)))"

record profile_input =
  po_profileName :: string
  po_transactionType :: PostingTransactionType
  po_debitAccountId :: uuid
  po_creditAccountId :: uuid
  po_productCategory :: "string option"
  po_productCategoryId :: "uuid option"
  po_locationId :: "uuid option"
  po_priority :: "int option"

definition own_account :: "uuid \<Rightarrow> uuid \<Rightarrow> erp \<Rightarrow> bool" where
  "own_account tenantId i s \<longleftrightarrow> find (\<lambda>a. gl_id a = i \<and> gl_tenantId a = tenantId) (glAccounts s) \<noteq> None"

definition createPostingProfile :: "uuid \<Rightarrow> profile_input \<Rightarrow> PostingProfile erp_prog" where
  "createPostingProfile tenantId d =
     bind (gets (own_account tenantId (po_debitAccountId d))) (\<lambda>debitAcct.
     bind (gets (own_account tenantId (po_creditAccountId d))) (\<lambda>creditAcct.
     seq (throwIf (\<not> debitAcct) BadRequestException)
    (seq (throwIf (\<not> creditAcct) BadRequestException)
    (bind (resolvePostingProfileCategory tenantId (po_productCategoryId d) (po_productCategory d) True) (\<lambda>category.
     bind (gets (find (\<lambda>p. pp_tenantId p = tenantId \<and> pp_profileName p = po_profileName d) \<circ> postingProfiles)) (\<lambda>clash.
     seq (throwIf (clash \<noteq> None) PrismaUniqueViolation)
    (bind fresh_id (\<lambda>i.
     let row = \<lparr>pp_id = i, pp_tenantId = tenantId, pp_profileName = po_profileName d,
       pp_transactionType = po_transactionType d, pp_debitAccountId = po_debitAccountId d,
       pp_creditAccountId = po_creditAccountId d, pp_productCategory = map_option pc_name category,
       pp_productCategoryId = map_option pc_id category, pp_locationId = po_locationId d, pp_isActive = True,
       pp_priority = orElse (po_priority d) 0\<rparr>
     in seq (modify (\<lambda>s. s\<lparr>postingProfiles := postingProfiles s @ [row]\<rparr>)) (return row)))))))))"

text \<open>\<open>orderBy: { priority: 'desc' }\<close>; rows of equal priority in the order of the table.\<close>

definition by_priority :: "PostingProfile list \<Rightarrow> PostingProfile list" where
  "by_priority = sort_key (\<lambda>p. - pp_priority p)"

definition getPostingProfiles :: "uuid \<Rightarrow> PostingTransactionType option \<Rightarrow> erp \<Rightarrow> PostingProfile list" where
  "getPostingProfiles tenantId ty s = by_priority (filter (\<lambda>p. pp_tenantId p = tenantId \<and> pp_isActive p \<and>
     (case ty of None \<Rightarrow> True | Some x \<Rightarrow> pp_transactionType p = x)) (postingProfiles s))"

definition profile_category :: "PostingProfile \<Rightarrow> string option" where
  "profile_category p = map_option js_lower (normalizeOptionalString (pp_productCategory p))"

definition profileHasCategory :: "PostingProfile \<Rightarrow> bool" where
  "profileHasCategory p \<longleftrightarrow> pp_productCategoryId p \<noteq> None \<or> profile_category p \<noteq> None"

definition categoryMatch :: "ProductCategory option \<Rightarrow> string option \<Rightarrow> PostingProfile \<Rightarrow> bool" where
  "categoryMatch resolved raw p \<longleftrightarrow>
     (if \<not> profileHasCategory p then True
      else if (case resolved of None \<Rightarrow> False
           | Some c \<Rightarrow> pp_productCategoryId p = Some (pc_id c) \<or> profile_category p = Some (js_lower (pc_name c)) \<or>
               profile_category p = Some (js_lower (pc_code c))) then True
      else raw \<noteq> None \<and> profile_category p = raw)"

definition locationMatch :: "uuid option \<Rightarrow> PostingProfile \<Rightarrow> bool" where
  "locationMatch locationId p \<longleftrightarrow> pp_locationId p = None \<or> pp_locationId p = locationId"

definition specificity :: "PostingProfile \<Rightarrow> int" where
  "specificity p = (if profileHasCategory p then 2 else 0) + (if pp_locationId p \<noteq> None then 1 else 0)"

text \<open>One turn of the loop: \<open>None\<close> is the start, with specificity -1 and priority minus infinity.\<close>

definition beats :: "PostingProfile \<Rightarrow> PostingProfile option \<Rightarrow> bool" where
  "beats p best = (case best of None \<Rightarrow> True
     | Some b \<Rightarrow> specificity b < specificity p \<or> specificity p = specificity b \<and> pp_priority b < pp_priority p)"

definition better_profile :: "(PostingProfile \<Rightarrow> bool) \<Rightarrow> PostingProfile option \<Rightarrow> PostingProfile \<Rightarrow> PostingProfile option" where
  "better_profile fits best p = (if fits p \<and> beats p best then Some p else best)"

definition best_profile :: "(PostingProfile \<Rightarrow> bool) \<Rightarrow> PostingProfile list \<Rightarrow> PostingProfile option" where
  "best_profile fits profiles = foldl (better_profile fits) None profiles"

definition resolvePostingProfile ::
    "uuid \<Rightarrow> PostingTransactionType \<Rightarrow> string option \<Rightarrow> uuid option \<Rightarrow> uuid option \<Rightarrow> PostingProfile option erp_prog" where
  "resolvePostingProfile tenantId ty productCategory locationId productCategoryId =
     bind (resolvePostingProfileCategory tenantId productCategoryId productCategory False) (\<lambda>resolved.
     bind (gets (getPostingProfiles tenantId (Some ty))) (\<lambda>profiles.
     let raw = map_option js_lower (normalizeOptionalString productCategory);
         bestMatch = best_profile (\<lambda>p. categoryMatch resolved raw p \<and> locationMatch locationId p) profiles
     in return (case bestMatch of Some p \<Rightarrow> Some p
          | None \<Rightarrow> (case profiles of [] \<Rightarrow> None | p # _ \<Rightarrow> Some p))))"

section \<open>Fiscal periods\<close>

definition info_of :: "FiscalPeriod \<Rightarrow> period_info" where
  "info_of p = \<lparr>pi_id = fp_id p, pi_isLocked = fp_isLocked p, pi_isClosed = fp_isClosed p, pi_periodName = fp_periodName p\<rparr>"

definition default_calendar :: "uuid \<Rightarrow> erp \<Rightarrow> uuid option" where
  "default_calendar tenantId s =
     map_option fc_id (find (\<lambda>c. fc_tenantId c = tenantId \<and> fc_isDefault c) (fiscalCalendars s))"

definition period_of :: "uuid \<Rightarrow> int \<Rightarrow> erp \<Rightarrow> FiscalPeriod option" where
  "period_of calendarId day s =
     find (\<lambda>p. fp_calendarId p = calendarId \<and> fp_startDate p \<le> day \<and> day \<le> fp_endDate p) (fiscalPeriods s)"

definition findFiscalPeriod :: "uuid \<Rightarrow> timestamp \<Rightarrow> period_info option erp_prog" where
  "findFiscalPeriod tenantId entryDate =
     bind (gets (\<lambda>s. map_of (fiscalCalendarIdCache s) tenantId)) (\<lambda>cached.
     bind (case cached of
             Some c \<Rightarrow> return c
           | None \<Rightarrow> bind (gets (default_calendar tenantId)) (\<lambda>c.
               seq (modify (\<lambda>s. s\<lparr>fiscalCalendarIdCache := (tenantId, c) # fiscalCalendarIdCache s\<rparr>)) (return c))) (\<lambda>calendarId.
     case calendarId of
       None \<Rightarrow> return None
     | Some c \<Rightarrow>
         bind (gets (\<lambda>s. map_of (fiscalPeriodCache s) (tenantId, utc_day entryDate))) (\<lambda>hit.
         case hit of
           Some info \<Rightarrow> return info
         | None \<Rightarrow> bind (gets (\<lambda>s. map_option info_of (period_of c (utc_day entryDate) s))) (\<lambda>period.
             seq (modify (\<lambda>s. s\<lparr>fiscalPeriodCache := ((tenantId, utc_day entryDate), period) # fiscalPeriodCache s\<rparr>))
                 (return period)))))"

definition validatePeriodOpen :: "uuid \<Rightarrow> timestamp \<Rightarrow> unit erp_prog" where
  "validatePeriodOpen tenantId entryDate =
     bind (findFiscalPeriod tenantId entryDate) (\<lambda>period.
     case period of
       None \<Rightarrow> return ()
     | Some p \<Rightarrow> seq (throwIf (pi_isLocked p) BadRequestException) (throwIf (pi_isClosed p) BadRequestException))"

text \<open>The join of a period with a calendar of the tenant, locked for the update.\<close>

definition own_period :: "uuid \<Rightarrow> uuid \<Rightarrow> erp \<Rightarrow> FiscalPeriod option" where
  "own_period tenantId periodId s =
     find (\<lambda>p. fp_id p = periodId \<and> (\<exists>c \<in> set (fiscalCalendars s). fc_id c = fp_calendarId p \<and> fc_tenantId c = tenantId))
       (fiscalPeriods s)"

definition set_lock :: "uuid option \<Rightarrow> timestamp \<Rightarrow> FiscalPeriod \<Rightarrow> FiscalPeriod" where
  "set_lock by_id t p = (case by_id of
     Some u \<Rightarrow> p\<lparr>fp_isLocked := True, fp_lockedAt := Some t, fp_lockedById := Some u\<rparr>
   | None \<Rightarrow> p\<lparr>fp_isLocked := False, fp_lockedAt := None, fp_lockedById := None\<rparr>)"

definition change_lock :: "uuid \<Rightarrow> uuid \<Rightarrow> uuid option \<Rightarrow> FiscalPeriod erp_prog" where
  "change_lock tenantId periodId by_id =
     erp_transaction
       (bind (gets (own_period tenantId periodId)) (\<lambda>row.
        bind (orThrow BadRequestException row) (\<lambda>p.
        bind (gets now) (\<lambda>t.
        seq (modify (\<lambda>s. s\<lparr>fiscalPeriods := set_row fp_id periodId (set_lock by_id t) (fiscalPeriods s)\<rparr>))
            (return (set_lock by_id t p))))))"

definition lockFiscalPeriod :: "uuid \<Rightarrow> uuid \<Rightarrow> uuid \<Rightarrow> FiscalPeriod erp_prog" where
  "lockFiscalPeriod tenantId periodId lockedById = change_lock tenantId periodId (Some lockedById)"

definition unlockFiscalPeriod :: "uuid \<Rightarrow> uuid \<Rightarrow> FiscalPeriod erp_prog" where
  "unlockFiscalPeriod tenantId periodId = change_lock tenantId periodId None"

section \<open>Journal entries\<close>

record line_input =
  li_glAccountId :: uuid
  li_debitAmount :: "rat option"
  li_creditAmount :: "rat option"
  li_productId :: "uuid option"
  li_locationId :: "uuid option"
  li_costCenterId :: "uuid option"

record journal_params =
  jp_tenantId :: uuid
  jp_entryDate :: timestamp
  jp_referenceType :: string
  jp_referenceId :: "uuid option"
  jp_postedById :: uuid
  jp_idempotencyKey :: "string option"
  jp_fiscalPeriodId :: "uuid option"
  jp_currency :: "string option"
  jp_lines :: "line_input list"

definition debit_of :: "line_input \<Rightarrow> rat" where
  "debit_of l = orElse (li_debitAmount l) 0"

definition credit_of :: "line_input \<Rightarrow> rat" where
  "credit_of l = orElse (li_creditAmount l) 0"

definition find_journal :: "uuid \<Rightarrow> string option \<Rightarrow> erp \<Rightarrow> JournalEntry option" where
  "find_journal tenantId key s = (if truthy key
     then find (\<lambda>j. je_tenantId j = tenantId \<and> je_idempotencyKey j = key) (journalEntries s) else None)"

definition journal_lines :: "(rat \<Rightarrow> rat) \<Rightarrow> line_input list \<Rightarrow> JournalEntryLine list" where
  "journal_lines dec ls = map (\<lambda>(i, l). \<lparr>jl_lineNumber = i + 1, jl_glAccountId = li_glAccountId l,
     jl_debitAmount = dec (debit_of l), jl_creditAmount = dec (credit_of l), jl_productId = li_productId l,
     jl_locationId = li_locationId l, jl_costCenterId = li_costCenterId l\<rparr>) (enumerate 0 ls)"

definition resolve_currency :: "uuid \<Rightarrow> string option \<Rightarrow> string erp_prog" where
  "resolve_currency tenantId currency =
     (if truthy currency then return (the currency)
      else bind (gets (\<lambda>s. map_of (defaultCurrencies s) tenantId)) (\<lambda>c.
           seq (throwIf (\<not> truthy c) BadRequestException) (return (the c))))"

text \<open>
  \<open>tx.journalEntry.create\<close> with its lines: entry numbers and idempotency keys are unique for a
  tenant, and the accounts must exist (of any tenant).
\<close>

definition journal_clash :: "JournalEntry \<Rightarrow> JournalEntry \<Rightarrow> bool" where
  "journal_clash j k \<longleftrightarrow> je_tenantId j = je_tenantId k \<and>
     (je_entryNumber j = je_entryNumber k \<or> je_idempotencyKey j \<noteq> None \<and> je_idempotencyKey j = je_idempotencyKey k)"

definition create_journal :: "(uuid \<Rightarrow> JournalEntry) \<Rightarrow> JournalEntry erp_prog" where
  "create_journal mk =
     bind fresh_id (\<lambda>i.
     bind (gets (list_ex (journal_clash (mk i)) \<circ> journalEntries)) (\<lambda>clash.
     seq (throwIf clash PrismaUniqueViolation)
    (bind (gets (\<lambda>s. list_all (\<lambda>l. known_account (jl_glAccountId l) s) (je_lines (mk i)))) (\<lambda>known.
     seq (throwIf (\<not> known) PrismaForeignKeyViolation)
    (seq (modify (\<lambda>s. s\<lparr>journalEntries := journalEntries s @ [mk i]\<rparr>))
    (return (mk i)))))))"

definition createJournalEntry :: "(rat \<Rightarrow> rat) \<Rightarrow> journal_params \<Rightarrow> JournalEntry erp_prog" where
  "createJournalEntry dec p =
     bind (gets (find_journal (jp_tenantId p) (jp_idempotencyKey p))) (\<lambda>existing.
     case existing of
       Some j \<Rightarrow> return j
     | None \<Rightarrow>
         seq (validatePeriodOpen (jp_tenantId p) (jp_entryDate p))
        (let totalDebit = sum_list (map debit_of (jp_lines p)); totalCredit = sum_list (map credit_of (jp_lines p)) in
         seq (throwIf (totalDebit \<noteq> totalCredit) BadRequestException)
        (seq (throwIf (totalDebit = 0) BadRequestException)
        (bind (case jp_fiscalPeriodId p of
                 Some i \<Rightarrow> gets (\<lambda>s. map_option fp_id (find_by fp_id i (fiscalPeriods s)))
               | None \<Rightarrow> bind (findFiscalPeriod (jp_tenantId p) (jp_entryDate p)) (\<lambda>x. return (map_option pi_id x))) (\<lambda>fiscalPeriod.
         bind (nextNumber ''JE'') (\<lambda>entryNumber.
         bind (resolve_currency (jp_tenantId p) (jp_currency p)) (\<lambda>currency.
         create_journal (\<lambda>i.
           \<lparr>je_id = i, je_tenantId = jp_tenantId p, je_entryNumber = entryNumber, je_entryDate = utc_day (jp_entryDate p),
            je_fiscalPeriodId = fiscalPeriod, je_referenceType = jp_referenceType p, je_referenceId = jp_referenceId p,
            je_reversalOfId = None, je_isReversed = False, je_status = POSTED, je_totalDebit = dec totalDebit,
            je_totalCredit = dec totalCredit, je_currency = currency, je_postedById = jp_postedById p,
            je_idempotencyKey = jp_idempotencyKey p, je_lines = journal_lines dec (jp_lines p)\<rparr>))))))))"

record post_params =
  au_tenantId :: uuid
  au_transactionType :: PostingTransactionType
  au_amount :: rat
  au_entryDate :: timestamp
  au_referenceType :: string
  au_referenceId :: "uuid option"
  au_productId :: "uuid option"
  au_productCategory :: "string option"
  au_productCategoryId :: "uuid option"
  au_locationId :: "uuid option"
  au_costCenterId :: "uuid option"
  au_postedById :: uuid
  au_idempotencyKey :: "string option"
  au_fiscalPeriodId :: "uuid option"

definition auto_lines :: "post_params \<Rightarrow> PostingProfile \<Rightarrow> line_input list" where
  "auto_lines p profile =
    [\<lparr>li_glAccountId = pp_debitAccountId profile, li_debitAmount = Some (au_amount p), li_creditAmount = Some 0,
      li_productId = au_productId p, li_locationId = au_locationId p, li_costCenterId = au_costCenterId p\<rparr>,
     \<lparr>li_glAccountId = pp_creditAccountId profile, li_debitAmount = Some 0, li_creditAmount = Some (au_amount p),
      li_productId = au_productId p, li_locationId = au_locationId p, li_costCenterId = au_costCenterId p\<rparr>]"

definition autoPost :: "(rat \<Rightarrow> rat) \<Rightarrow> post_params \<Rightarrow> JournalEntry erp_prog" where
  "autoPost dec p =
     bind (resolvePostingProfile (au_tenantId p) (au_transactionType p) (au_productCategory p) (au_locationId p)
            (au_productCategoryId p)) (\<lambda>found.
     bind (orThrow BadRequestException found) (\<lambda>profile.
     createJournalEntry dec \<lparr>jp_tenantId = au_tenantId p, jp_entryDate = au_entryDate p,
       jp_referenceType = au_referenceType p, jp_referenceId = au_referenceId p, jp_postedById = au_postedById p,
       jp_idempotencyKey = au_idempotencyKey p, jp_fiscalPeriodId = au_fiscalPeriodId p, jp_currency = None,
       jp_lines = auto_lines p profile\<rparr>))"

fun type_name :: "PostingTransactionType \<Rightarrow> string" where
  "type_name GOODS_RECEIPT = ''GOODS_RECEIPT''"
| "type_name MATERIAL_ISSUE = ''MATERIAL_ISSUE''"
| "type_name PRODUCTION_RECEIPT = ''PRODUCTION_RECEIPT''"
| "type_name INVENTORY_ADJUSTMENT = ''INVENTORY_ADJUSTMENT''"
| "type_name SCRAP = ''SCRAP''"
| "type_name COST_VARIANCE = ''COST_VARIANCE''"
| "type_name LABOR_ABSORPTION = ''LABOR_ABSORPTION''"
| "type_name OVERHEAD_ABSORPTION = ''OVERHEAD_ABSORPTION''"

record transactional_params =
  tp_tenantId :: uuid
  tp_transactionType :: PostingTransactionType
  tp_referenceType :: string
  tp_referenceId :: uuid
  tp_entryDate :: timestamp
  tp_fiscalPeriodId :: "uuid option"
  tp_amount :: rat
  tp_productId :: "uuid option"
  tp_locationId :: "uuid option"
  tp_userId :: uuid

definition journal_key :: "PostingTransactionType \<Rightarrow> uuid \<Rightarrow> string" where
  "journal_key ty referenceId = type_name ty @ CHR '':'' # uuid_text referenceId"

definition postTransactionalJournal :: "(rat \<Rightarrow> rat) \<Rightarrow> transactional_params \<Rightarrow> JournalEntry erp_prog" where
  "postTransactionalJournal dec p =
     autoPost dec \<lparr>au_tenantId = tp_tenantId p, au_transactionType = tp_transactionType p, au_amount = tp_amount p,
       au_entryDate = tp_entryDate p, au_referenceType = tp_referenceType p, au_referenceId = Some (tp_referenceId p),
       au_productId = tp_productId p, au_productCategory = None, au_productCategoryId = None,
       au_locationId = tp_locationId p, au_costCenterId = None, au_postedById = tp_userId p,
       au_idempotencyKey = Some (journal_key (tp_transactionType p) (tp_referenceId p)),
       au_fiscalPeriodId = tp_fiscalPeriodId p\<rparr>"

section \<open>Reversals\<close>

definition swap_line :: "nat \<Rightarrow> JournalEntryLine \<Rightarrow> JournalEntryLine" where
  "swap_line i l = l\<lparr>jl_lineNumber := i + 1, jl_debitAmount := jl_creditAmount l, jl_creditAmount := jl_debitAmount l\<rparr>"

definition reversal_entry :: "JournalEntry \<Rightarrow> string \<Rightarrow> uuid option \<Rightarrow> uuid \<Rightarrow> timestamp \<Rightarrow> uuid \<Rightarrow> JournalEntry" where
  "reversal_entry j entryNumber period postedById t i =
     \<lparr>je_id = i, je_tenantId = je_tenantId j, je_entryNumber = entryNumber, je_entryDate = utc_day t,
      je_fiscalPeriodId = period, je_referenceType = ''REVERSAL'', je_referenceId = Some (je_id j),
      je_reversalOfId = Some (je_id j), je_isReversed = False, je_status = POSTED, je_totalDebit = je_totalCredit j,
      je_totalCredit = je_totalDebit j, je_currency = je_currency j, je_postedById = postedById,
      je_idempotencyKey = None, je_lines = map (\<lambda>(i, l). swap_line i l) (enumerate 0 (je_lines j))\<rparr>"

definition reverseJournalEntry :: "uuid \<Rightarrow> uuid \<Rightarrow> uuid \<Rightarrow> JournalEntry erp_prog" where
  "reverseJournalEntry tenantId journalEntryId postedById =
     bind (get_row journalEntries je_id journalEntryId) (\<lambda>original.
     seq (throwIf (je_tenantId original \<noteq> tenantId) BadRequestException)
    (seq (throwIf (je_isReversed original) BadRequestException)
    (seq (throwIf (je_status original = REVERSED) BadRequestException)
    (bind (gets now) (\<lambda>t.
     seq (validatePeriodOpen (je_tenantId original) t)
    (bind (nextNumber ''JE'') (\<lambda>entryNumber.
     bind (findFiscalPeriod (je_tenantId original) t) (\<lambda>period.
     bind (create_journal (reversal_entry original entryNumber (map_option pi_id period) postedById t)) (\<lambda>reversal.
     seq (modify (\<lambda>s. s\<lparr>journalEntries := set_row je_id (je_id original) (\<lambda>j. j\<lparr>je_isReversed := True\<rparr>) (journalEntries s)\<rparr>))
         (return reversal))))))))))"

definition reverseJournalEntryById :: "uuid \<Rightarrow> uuid \<Rightarrow> uuid \<Rightarrow> JournalEntry erp_prog" where
  "reverseJournalEntryById tenantId journalEntryId postedById =
     erp_transaction (reverseJournalEntry tenantId journalEntryId postedById)"

section \<open>The trial balance\<close>

record balance_filter =
  bf_fromDate :: "timestamp option"
  bf_toDate :: "timestamp option"
  bf_fiscalPeriodId :: "uuid option"

record balance_row =
  br_account :: GLAccount
  br_total_debits :: rat
  br_total_credits :: rat
  br_net_balance :: rat

text \<open>The condition of the second \<open>LEFT JOIN\<close> (lines 731 to 735).\<close>

definition joins :: "uuid \<Rightarrow> balance_filter \<Rightarrow> JournalEntry \<Rightarrow> bool" where
  "joins tenantId f j \<longleftrightarrow> je_tenantId j = tenantId \<and> je_status j = POSTED \<and>
     (case bf_fromDate f of None \<Rightarrow> True | Some d \<Rightarrow> d \<le> je_entryDate j * MS_PER_DAY) \<and>
     (case bf_toDate f of None \<Rightarrow> True | Some d \<Rightarrow> je_entryDate j * MS_PER_DAY \<le> d) \<and>
     (case bf_fiscalPeriodId f of None \<Rightarrow> True | Some p \<Rightarrow> je_fiscalPeriodId j = Some p)"

text \<open>
  The joined rows of an account: every one of its journal lines, with the entry it belongs to
  when that satisfies the condition and with null columns otherwise.
\<close>

definition joined_lines :: "uuid \<Rightarrow> balance_filter \<Rightarrow> GLAccount \<Rightarrow> erp \<Rightarrow> (JournalEntryLine \<times> JournalEntry option) list" where
  "joined_lines tenantId f a s =
     concat (map (\<lambda>j. map (\<lambda>l. (l, if joins tenantId f j then Some j else None))
       (filter (\<lambda>l. jl_glAccountId l = gl_id a) (je_lines j))) (journalEntries s))"

definition balance_of :: "(JournalEntryLine \<times> JournalEntry option) list \<Rightarrow> GLAccount \<Rightarrow> balance_row" where
  "balance_of rows a =
     (let d = sum_list (map (jl_debitAmount \<circ> fst) rows); c = sum_list (map (jl_creditAmount \<circ> fst) rows)
      in \<lparr>br_account = a, br_total_debits = d, br_total_credits = c, br_net_balance = d - c\<rparr>)"

definition getTrialBalance :: "uuid \<Rightarrow> balance_filter \<Rightarrow> erp \<Rightarrow> balance_row list" where
  "getTrialBalance tenantId f s =
     map (\<lambda>a. balance_of (joined_lines tenantId f a s) a)
       (sort_key gl_accountNumber (filter (\<lambda>a. gl_tenantId a = tenantId \<and> gl_isActive a) (glAccounts s)))"

end
