(* ===== verification/AccountingBooks.thy ===== *)
theory AccountingBooks
  imports Accounting
begin

text \<open>
  The books of the general ledger: what a posting and a reversal add, the invariant of the
  journal (balanced entries, one entry per idempotency key, distinct numbers, at most one
  reversal), and the step relation of the accounting service.
\<close>

section \<open>Frames\<close>

text \<open>\<open>cached s t\<close>: only the caches differ.\<close>

definition cached :: "erp \<Rightarrow> erp \<Rightarrow> bool" where
  "cached s t \<longleftrightarrow> t = s\<lparr>fiscalCalendarIdCache := fiscalCalendarIdCache t, fiscalPeriodCache := fiscalPeriodCache t\<rparr>"

lemma cached_refl [simp]: "cached s s"
  by (simp add: cached_def)

lemma cached_sel:
  assumes "cached s t"
  shows "journalEntries t = journalEntries s" "erp_next t = erp_next s" "sequences t = sequences s"
    "glAccounts t = glAccounts s" "defaultCurrencies t = defaultCurrencies s" "now t = now s"
    "fiscalPeriods t = fiscalPeriods s" "fiscalCalendars t = fiscalCalendars s"
proof -
  obtain x y where t: "t = s\<lparr>fiscalCalendarIdCache := x, fiscalPeriodCache := y\<rparr>"
    using assms unfolding cached_def by blast
  show "journalEntries t = journalEntries s" "erp_next t = erp_next s" "sequences t = sequences s"
    "glAccounts t = glAccounts s" "defaultCurrencies t = defaultCurrencies s" "now t = now s"
    "fiscalPeriods t = fiscalPeriods s" "fiscalCalendars t = fiscalCalendars s"
    by (simp_all add: t)
qed

lemma cached_trans: "cached s t \<Longrightarrow> cached t u \<Longrightarrow> cached s u"
  by (cases s; cases t; cases u) (simp add: cached_def)

lemma findFiscalPeriod_cached: "findFiscalPeriod tn d s = (r, t) \<Longrightarrow> cached s t"
  by (auto simp: findFiscalPeriod_def run_bind run_seq run_gets run_modify run_return cached_def split: option.splits)

lemma validatePeriodOpen_cached: "validatePeriodOpen tn d s = (r, t) \<Longrightarrow> cached s t"
  by (auto simp: validatePeriodOpen_def run_bind run_seq run_throwIf run_return dest!: findFiscalPeriod_cached
      split: option.splits prod.splits sum.splits if_splits)

section \<open>Looking up a period\<close>

definition cached_calendar :: "uuid \<Rightarrow> erp \<Rightarrow> uuid option" where
  "cached_calendar tn s = (case map_of (fiscalCalendarIdCache s) tn of Some c \<Rightarrow> c | None \<Rightarrow> default_calendar tn s)"

definition looked_up :: "uuid \<Rightarrow> int \<Rightarrow> erp \<Rightarrow> period_info option" where
  "looked_up tn day s = (case cached_calendar tn s of None \<Rightarrow> None
     | Some c \<Rightarrow> (case map_of (fiscalPeriodCache s) (tn, day) of Some info \<Rightarrow> info
         | None \<Rightarrow> map_option info_of (period_of c day s)))"

lemma period_of_cache [simp]:
  "period_of c d (s\<lparr>fiscalCalendarIdCache := x\<rparr>) = period_of c d s"
  "period_of c d (s\<lparr>fiscalPeriodCache := y\<rparr>) = period_of c d s"
  by (simp_all add: period_of_def)

lemma findFiscalPeriod_value: "fst (findFiscalPeriod tn d s) = Inr (looked_up tn (utc_day d) s)"
  by (simp add: findFiscalPeriod_def looked_up_def cached_calendar_def run_bind run_seq run_gets run_modify run_return
      split: option.split)

text \<open>A second lookup finds what the first one found.\<close>

lemma looked_up_again: "looked_up tn (utc_day d) (snd (findFiscalPeriod tn d s)) = looked_up tn (utc_day d) s"
  by (auto simp: findFiscalPeriod_def looked_up_def cached_calendar_def default_calendar_def run_bind run_seq run_gets
      run_modify run_return split: option.splits)

definition period_open :: "period_info option \<Rightarrow> bool" where
  "period_open p = (case p of None \<Rightarrow> True | Some i \<Rightarrow> \<not> pi_isLocked i \<and> \<not> pi_isClosed i)"

lemma validatePeriodOpen_value:
  "fst (validatePeriodOpen tn d s) = (if period_open (looked_up tn (utc_day d) s) then Inr () else Inl BadRequestException)"
  using findFiscalPeriod_value [of tn d s]
  by (cases "findFiscalPeriod tn d s")
    (auto simp: validatePeriodOpen_def run_bind run_seq run_throwIf run_return period_open_def split: option.splits)

section \<open>A new entry\<close>

definition journal_row :: "(rat \<Rightarrow> rat) \<Rightarrow> journal_params \<Rightarrow> string \<Rightarrow> uuid option \<Rightarrow> string \<Rightarrow> uuid \<Rightarrow> JournalEntry" where
  "journal_row dec p number period currency i =
     \<lparr>je_id = i, je_tenantId = jp_tenantId p, je_entryNumber = number, je_entryDate = utc_day (jp_entryDate p),
      je_fiscalPeriodId = period, je_referenceType = jp_referenceType p, je_referenceId = jp_referenceId p,
      je_reversalOfId = None, je_isReversed = False, je_status = POSTED, je_totalDebit = dec (sum_list (map debit_of (jp_lines p))),
      je_totalCredit = dec (sum_list (map credit_of (jp_lines p))), je_currency = currency, je_postedById = jp_postedById p,
      je_idempotencyKey = jp_idempotencyKey p, je_lines = journal_lines dec (jp_lines p)\<rparr>"

text \<open>\<open>appended s j t\<close>: the journal of \<open>t\<close> is that of \<open>s\<close> with the new entry \<open>j\<close>.\<close>

definition appended :: "erp \<Rightarrow> JournalEntry \<Rightarrow> erp \<Rightarrow> bool" where
  "appended s j t \<longleftrightarrow> journalEntries t = journalEntries s @ [j] \<and> je_id j = erp_next s \<and> erp_next t = erp_next s + 1 \<and>
     list_all (\<lambda>k. \<not> journal_clash j k) (journalEntries s) \<and>
     je_entryNumber j = document_number ''JE'' (last_value ''seq_journal_entry_number'' s + 1) \<and>
     (\<forall>n. last_value n t = (if n = ''seq_journal_entry_number'' then last_value n s + 1 else last_value n s))"

lemma JE_sequence: "map_of sequence_names ''JE'' = Some ''seq_journal_entry_number''"
  by code_simp

lemma resolve_currency_frame: "resolve_currency tn c s = (r, t) \<Longrightarrow> t = s"
  by (auto simp: resolve_currency_def run_bind run_seq run_gets run_throwIf run_return split: if_splits)

lemma create_journal_ok:
  "create_journal mk s = (Inr j, t) \<longleftrightarrow> j = mk (erp_next s) \<and> list_all (\<lambda>k. \<not> journal_clash j k) (journalEntries s) \<and>
     list_all (\<lambda>l. known_account (jl_glAccountId l) s) (je_lines j) \<and>
     t = s\<lparr>erp_next := erp_next s + 1, journalEntries := journalEntries s @ [j]\<rparr>"
  by (auto simp: create_journal_def ok_simps known_account_def list_ex_iff list_all_iff)

lemma createJournalEntry_okD:
  assumes "createJournalEntry dec p s = (Inr j, t)"
  shows "find_journal (jp_tenantId p) (jp_idempotencyKey p) s = Some j \<and> t = s \<or>
    find_journal (jp_tenantId p) (jp_idempotencyKey p) s = None \<and> appended s j t \<and>
    period_open (looked_up (jp_tenantId p) (utc_day (jp_entryDate p)) s) \<and>
    sum_list (map debit_of (jp_lines p)) = sum_list (map credit_of (jp_lines p)) \<and>
    sum_list (map debit_of (jp_lines p)) \<noteq> 0 \<and>
    (\<exists>number period currency. j = journal_row dec p number period currency (erp_next s) \<and>
      (\<forall>i. jp_fiscalPeriodId p = Some i \<longrightarrow> period = map_option fp_id (find_by fp_id i (fiscalPeriods s))))"
proof (cases "find_journal (jp_tenantId p) (jp_idempotencyKey p) s")
  case (Some x)
  then show ?thesis using assms by (simp add: createJournalEntry_def bind_Inr [OF run_gets] run_return)
next
  case None
  let ?d = "sum_list (map debit_of (jp_lines p))" and ?c = "sum_list (map credit_of (jp_lines p))"
  from assms None obtain s1 period s2 number s3 currency s4
    where 1: "validatePeriodOpen (jp_tenantId p) (jp_entryDate p) s = (Inr (), s1)"
      and bal: "?d = ?c" "?d \<noteq> 0"
      and 2: "(case jp_fiscalPeriodId p of
                 Some i \<Rightarrow> gets (\<lambda>s. map_option fp_id (find_by fp_id i (fiscalPeriods s)))
               | None \<Rightarrow> bind (findFiscalPeriod (jp_tenantId p) (jp_entryDate p)) (\<lambda>x. return (map_option pi_id x))) s1 = (Inr period, s2)"
      and 3: "nextNumber ''JE'' s2 = (Inr number, s3)"
      and 4: "resolve_currency (jp_tenantId p) (jp_currency p) s3 = (Inr currency, s4)"
      and 5: "create_journal (journal_row dec p number period currency) s4 = (Inr j, t)"
    by (auto simp: createJournalEntry_def bind_Inr [OF run_gets] ok_simps Let_def journal_row_def [abs_def])
  have c1: "cached s s1" using 1 by (rule validatePeriodOpen_cached)
  have c2: "cached s1 s2"
    using 2 by (auto simp: run_gets ok_simps split: option.splits dest: findFiscalPeriod_cached)
  have period: "period = map_option fp_id (find_by fp_id i (fiscalPeriods s))" if "jp_fiscalPeriodId p = Some i" for i
    using 2 that cached_sel(7) [OF c1] by (auto simp: run_gets)
  note same = cached_sel [OF cached_trans [OF c1 c2]]
  have s3: "s3 = s2\<lparr>sequences := (''seq_journal_entry_number'', last_value ''seq_journal_entry_number'' s2 + 1) # sequences s2\<rparr>"
      "number = document_number ''JE'' (last_value ''seq_journal_entry_number'' s2 + 1)"
    using 3 by (simp_all add: nextNumber_ok JE_sequence)
  have s4: "s4 = s3" using 4 by (rule resolve_currency_frame)
  have "last_value n s2 = last_value n s" for n by (rule last_value_cong) (simp add: same)
  then have "appended s j t"
    using 5 same by (auto simp: create_journal_ok s3 s4 appended_def journal_row_def) (auto simp: last_value_def)
  moreover have "period_open (looked_up (jp_tenantId p) (utc_day (jp_entryDate p)) s)"
    using validatePeriodOpen_value [of "jp_tenantId p" "jp_entryDate p" s] 1 by (auto split: if_splits)
  moreover have "j = journal_row dec p number period currency (erp_next s)"
    using 5 same by (simp add: create_journal_ok s3 s4)
  ultimately show ?thesis using None bal period by blast
qed

text \<open>Nothing moves a sequence back, also in a failing run.\<close>

abbreviation not_behind :: "erp \<Rightarrow> erp \<Rightarrow> bool" where
  "not_behind s t \<equiv> sequences_le s t"

lemma not_behind_nextNumber [keeps_intros]: "keeps (not_behind s) (nextNumber p)"
  by (rule keepsI) (blast intro: sequences_le_trans dest: nextNumber_le)

lemma not_behind_modify [keeps_intros]: "(\<And>t. sequences (f t) = sequences t) \<Longrightarrow> keeps (not_behind s) (modify f)"
  by (rule keeps_modify) (simp add: sequences_le_def last_value_def)

lemma not_behind_fresh_id [keeps_intros]: "keeps (not_behind s) fresh_id"
  by (rule keepsI) (auto simp: run_simps sequences_le_def last_value_def)

lemma not_behind_transaction [keeps_intros]: "keeps (not_behind s) m \<Longrightarrow> keeps (not_behind s) (erp_transaction m)"
  using sequences_le_cong [of "rollback_to _ _"]
  by (rule_tac keepsI) (auto simp: erp_transaction_def rollback_to_def split: prod.splits sum.splits dest: keepsD)

lemma not_behind_findFiscalPeriod [keeps_intros]: "keeps (not_behind s) (findFiscalPeriod tn d)"
  unfolding findFiscalPeriod_def by (intro keeps_intros) simp_all

lemma not_behind_validatePeriodOpen [keeps_intros]: "keeps (not_behind s) (validatePeriodOpen tn d)"
  unfolding validatePeriodOpen_def by (intro keeps_intros)

lemma not_behind_create_journal [keeps_intros]: "keeps (not_behind s) (create_journal mk)"
  unfolding create_journal_def by (intro keeps_intros) simp_all

lemma not_behind_resolve_currency [keeps_intros]: "keeps (not_behind s) (resolve_currency tn c)"
  unfolding resolve_currency_def by (intro keeps_intros)

lemma not_behind_createJournalEntry [keeps_intros]: "keeps (not_behind s) (createJournalEntry dec p)"
  unfolding createJournalEntry_def by (intro keeps_intros)

lemma not_behind_category [keeps_intros]: "keeps (not_behind s) (resolvePostingProfileCategory tn c v b)"
  unfolding resolvePostingProfileCategory_def by (intro keeps_intros)

lemma not_behind_autoPost [keeps_intros]: "keeps (not_behind s) (autoPost dec p)"
  unfolding autoPost_def resolvePostingProfile_def by (intro keeps_intros)

lemma not_behind_get_row [keeps_intros]: "keeps (not_behind s) (get_row table key i)"
  unfolding get_row_def by (intro keeps_intros)

lemma not_behind_reverseJournalEntry [keeps_intros]: "keeps (not_behind s) (reverseJournalEntry tn i u)"
  unfolding reverseJournalEntry_def by (intro keeps_intros) simp

section \<open>Reversals\<close>

lemma reverseJournalEntry_okD:
  assumes "reverseJournalEntry tn i u s = (Inr r, t)"
  shows "\<exists>j v number period. find_by je_id i (journalEntries s) = Some j \<and> je_tenantId j = tn \<and> \<not> je_isReversed j \<and>
    je_status j \<noteq> REVERSED \<and> period_open (looked_up tn (utc_day (now s)) s) \<and> appended s r v \<and>
    r = reversal_entry j number period u (now s) (erp_next s) \<and>
    t = v\<lparr>journalEntries := set_row je_id i (\<lambda>j. j\<lparr>je_isReversed := True\<rparr>) (journalEntries v)\<rparr>"
proof -
  from assms obtain j s1 number s2 period s3 v
    where j: "find_by je_id i (journalEntries s) = Some j" "je_tenantId j = tn" "\<not> je_isReversed j" "je_status j \<noteq> REVERSED"
      and 1: "validatePeriodOpen tn (now s) s = (Inr (), s1)"
      and 2: "nextNumber ''JE'' s1 = (Inr number, s2)"
      and 3: "findFiscalPeriod tn (now s) s2 = (Inr period, s3)"
      and 4: "create_journal (reversal_entry j number (map_option pi_id period) u (now s)) s3 = (Inr r, v)"
      and t: "t = v\<lparr>journalEntries := set_row je_id (je_id j) (\<lambda>j. j\<lparr>je_isReversed := True\<rparr>) (journalEntries v)\<rparr>"
    by (auto simp: reverseJournalEntry_def ok_simps)
  have i: "je_id j = i" using find_by_Some [OF j(1)] by simp
  note c1 = validatePeriodOpen_cached [OF 1]
  have s2: "s2 = s1\<lparr>sequences := (''seq_journal_entry_number'', last_value ''seq_journal_entry_number'' s1 + 1) # sequences s1\<rparr>"
      "number = document_number ''JE'' (last_value ''seq_journal_entry_number'' s1 + 1)"
    using 2 by (simp_all add: nextNumber_ok JE_sequence)
  note same = cached_sel [OF c1] cached_sel [OF findFiscalPeriod_cached [OF 3]]
  have "last_value n s1 = last_value n s" for n by (rule last_value_cong) (simp add: same)
  moreover have "last_value n s3 = last_value n s2" for n by (rule last_value_cong) (simp add: same)
  ultimately have "appended s r v"
    using 4 same by (auto simp: create_journal_ok appended_def reversal_entry_def s2) (auto simp: last_value_def)
  moreover have "period_open (looked_up tn (utc_day (now s)) s)"
    using validatePeriodOpen_value [of tn "now s" s] 1 by (auto split: if_splits)
  moreover have "r = reversal_entry j number (map_option pi_id period) u (now s) (erp_next s)"
    using 4 same s2 by (simp add: create_journal_ok)
  ultimately show ?thesis using j t i by blast
qed

end
