(* ===== verification/AccountingSystem.thy ===== *)
theory AccountingSystem
  imports AccountingBooks
begin

text \<open>
  The journal as a whole: its invariant (balanced entries, distinct numbers and keys, reversals
  that mirror and happen once), the methods that write it as steps, and reachability.
\<close>

section \<open>The invariant\<close>

definition balanced_entry :: "JournalEntry \<Rightarrow> bool" where
  "balanced_entry j \<longleftrightarrow> sum_list (map jl_debitAmount (je_lines j)) = je_totalDebit j \<and>
     sum_list (map jl_creditAmount (je_lines j)) = je_totalCredit j \<and> je_totalDebit j = je_totalCredit j"

text \<open>What an entry adds to the balance of an account.\<close>

definition line_net :: "uuid \<Rightarrow> JournalEntryLine list \<Rightarrow> rat" where
  "line_net a = sum_where (\<lambda>l. jl_glAccountId l = a) (\<lambda>l. jl_debitAmount l - jl_creditAmount l)"

definition mirrors :: "JournalEntry \<Rightarrow> JournalEntry \<Rightarrow> bool" where
  "mirrors r j \<longleftrightarrow> je_tenantId r = je_tenantId j \<and> (\<forall>a. line_net a (je_lines r) = - line_net a (je_lines j))"

definition reversals_of :: "uuid \<Rightarrow> erp \<Rightarrow> JournalEntry list" where
  "reversals_of i s = filter (\<lambda>r. je_reversalOfId r = Some i) (journalEntries s)"

definition journal_ids :: "erp \<Rightarrow> bool" where
  "journal_ids s \<longleftrightarrow> distinct (map je_id (journalEntries s)) \<and> (\<forall>j \<in> set (journalEntries s). je_id j < erp_next s)"

definition journal_number :: "nat \<Rightarrow> string" where
  "journal_number n = document_number ''JE'' n"

definition journal_count :: "erp \<Rightarrow> nat" where
  "journal_count s = last_value ''seq_journal_entry_number'' s"

definition journal_numbers :: "erp \<Rightarrow> bool" where
  "journal_numbers s \<longleftrightarrow> distinct (map je_entryNumber (journalEntries s)) \<and>
     (\<forall>x \<in> je_entryNumber ` set (journalEntries s). \<exists>n \<le> journal_count s. x = journal_number n)"

definition journal_keys :: "erp \<Rightarrow> bool" where
  "journal_keys s \<longleftrightarrow> distinct (map (\<lambda>j. (je_tenantId j, je_idempotencyKey j))
     (filter (\<lambda>j. je_idempotencyKey j \<noteq> None) (journalEntries s)))"

definition journal_reversals :: "erp \<Rightarrow> bool" where
  "journal_reversals s \<longleftrightarrow>
     (\<forall>j \<in> set (journalEntries s). length (reversals_of (je_id j) s) = (if je_isReversed j then 1 else 0)) \<and>
     (\<forall>r \<in> set (journalEntries s). \<forall>i. je_reversalOfId r = Some i \<longrightarrow> (\<exists>j \<in> set (journalEntries s). je_id j = i \<and> mirrors r j))"

definition journal_ok :: "erp \<Rightarrow> bool" where
  "journal_ok s \<longleftrightarrow> journal_ids s \<and> list_all balanced_entry (journalEntries s) \<and> journal_numbers s \<and> journal_keys s \<and>
     journal_reversals s"

lemmas journal_parts = journal_ok_def journal_ids_def journal_numbers_def journal_keys_def journal_reversals_def

lemma journal_ok_cong:
  assumes "journalEntries t = journalEntries s" "erp_next s \<le> erp_next t" "sequences_le s t" "journal_ok s"
  shows "journal_ok t"
proof -
  have "journal_count s \<le> journal_count t" using assms(3) by (simp add: sequences_le_def journal_count_def)
  then have "journal_numbers t"
    using assms(4) unfolding journal_ok_def journal_numbers_def assms(1) by (blast intro: order_trans)
  moreover have "journal_ids t"
    using assms(1,2,4) by (auto simp: journal_ok_def journal_ids_def intro: less_le_trans)
  moreover have "journal_keys t = journal_keys s" "journal_reversals t = journal_reversals s"
    by (simp_all add: journal_keys_def journal_reversals_def reversals_of_def assms(1))
  ultimately show ?thesis using assms(1,4) by (simp add: journal_ok_def)
qed

section \<open>Adding an entry\<close>

lemma journal_number_inj: "journal_number n = journal_number m \<Longrightarrow> n = m"
  unfolding journal_number_def by (drule document_number_inj [rotated 2]) simp_all

text \<open>A journal with one more number, the next of the sequence.\<close>

lemma journal_numbers_next:
  assumes "journal_numbers s" "journal_count t = journal_count s + 1"
    "map je_entryNumber (journalEntries t) = map je_entryNumber (journalEntries s) @ [journal_number (journal_count s + 1)]"
  shows "journal_numbers t"
proof -
  have numbers: "je_entryNumber ` set (journalEntries t) =
      insert (journal_number (journal_count s + 1)) (je_entryNumber ` set (journalEntries s))"
    using arg_cong [OF assms(3), of set] by simp
  have below: "\<exists>n \<le> journal_count s. x = journal_number n" if "x \<in> je_entryNumber ` set (journalEntries s)" for x
    using assms(1) that unfolding journal_numbers_def by blast
  have "journal_number (journal_count s + 1) \<notin> je_entryNumber ` set (journalEntries s)"
    using below journal_number_inj by fastforce
  then have "distinct (map je_entryNumber (journalEntries t))"
    using assms(1) unfolding assms(3) by (simp add: journal_numbers_def)
  moreover have "\<exists>n \<le> journal_count s + 1. x = journal_number n" if "x \<in> je_entryNumber ` set (journalEntries t)" for x
    using that below unfolding numbers by (blast intro: le_SucI trans_le_add1)
  ultimately show ?thesis unfolding journal_numbers_def assms(2) by blast
qed

lemma appended_count:
  assumes "appended s j t"
  shows "je_entryNumber j = journal_number (journal_count s + 1)" "journal_count t = journal_count s + 1"
  using assms unfolding appended_def journal_number_def journal_count_def by simp_all

lemma appended_keeps:
  assumes "journal_ok s" "appended s j t" "balanced_entry j" "\<not> je_isReversed j" "je_reversalOfId j = None"
  shows "journal_ok t"
proof -
  have js: "journalEntries t = journalEntries s @ [j]" and i: "je_id j = erp_next s" "erp_next t = erp_next s + 1"
    and clash: "\<And>k. k \<in> set (journalEntries s) \<Longrightarrow> \<not> journal_clash j k"
    using assms(2) by (auto simp: appended_def list_all_iff)
  note inv = assms(1) [unfolded journal_ok_def]
  have fresh: "k \<in> set (journalEntries s) \<Longrightarrow> je_id k \<noteq> erp_next s" for k
    using inv by (auto simp: journal_ids_def)
  have ids: "journal_ids t" using inv fresh by (auto simp: journal_ids_def js i less_Suc_eq)
  have numbers: "journal_numbers t"
  proof (rule journal_numbers_next)
    show "journal_numbers s" using inv by blast
    show "journal_count t = journal_count s + 1" by (rule appended_count(2) [OF assms(2)])
  qed (simp only: js appended_count(1) [OF assms(2)] map_append list.map)
  have keys: "journal_keys t"
    using inv unfolding journal_keys_def js by (auto simp: journal_clash_def dest!: clash)
  have same: "reversals_of k t = reversals_of k s" for k
    using assms(5) by (simp add: reversals_of_def js)
  have "reversals_of (erp_next s) s = []"
    using inv fresh by (auto simp: journal_reversals_def reversals_of_def filter_empty_conv)
  then have reversals: "journal_reversals t"
    using inv assms(4,5) by (auto simp: journal_reversals_def same js i)
  show ?thesis using ids inv assms(3) numbers keys reversals by (simp add: journal_ok_def js)
qed

lemma line_net_swap: "line_net a (map (\<lambda>(i, l). swap_line i l) (enumerate n ls)) = - line_net a ls"
  by (induction ls arbitrary: n) (auto simp: line_net_def swap_line_def)

lemma reversal_mirrors: "mirrors (reversal_entry j number period u d i) j"
  by (simp add: mirrors_def reversal_entry_def line_net_swap)

lemma swap_sums:
  "sum_list (map jl_debitAmount (map (\<lambda>(i, l). swap_line i l) (enumerate n ls))) = sum_list (map jl_creditAmount ls)"
  "sum_list (map jl_creditAmount (map (\<lambda>(i, l). swap_line i l) (enumerate n ls))) = sum_list (map jl_debitAmount ls)"
  by (induction ls arbitrary: n) (simp_all add: swap_line_def)

lemma reversal_balanced: "balanced_entry j \<Longrightarrow> balanced_entry (reversal_entry j number period u d i)"
  unfolding balanced_entry_def reversal_entry_def by (simp add: swap_sums del: map_map)

lemma flag_frame:
  "je_tenantId (if b then j\<lparr>je_isReversed := True\<rparr> else j) = je_tenantId j"
  "je_idempotencyKey (if b then j\<lparr>je_isReversed := True\<rparr> else j) = je_idempotencyKey j"
  "je_reversalOfId (if b then j\<lparr>je_isReversed := True\<rparr> else j) = je_reversalOfId j"
  "je_id (if b then j\<lparr>je_isReversed := True\<rparr> else j) = je_id j"
  "je_lines (if b then j\<lparr>je_isReversed := True\<rparr> else j) = je_lines j"
  "je_entryNumber (if b then j\<lparr>je_isReversed := True\<rparr> else j) = je_entryNumber j"
  "balanced_entry (if b then j\<lparr>je_isReversed := True\<rparr> else j) = balanced_entry j"
  "mirrors r (if b then j\<lparr>je_isReversed := True\<rparr> else j) = mirrors r j"
  "mirrors (if b then j\<lparr>je_isReversed := True\<rparr> else j) r = mirrors j r"
  by (simp_all add: balanced_entry_def mirrors_def)

lemma reversed_keeps:
  assumes "journal_ok s" "find_by je_id i (journalEntries s) = Some j" "\<not> je_isReversed j"
    "appended s r v" "balanced_entry r" "\<not> je_isReversed r" "je_reversalOfId r = Some i" "mirrors r j" "je_idempotencyKey r = None"
    "t = v\<lparr>journalEntries := set_row je_id i (\<lambda>j. j\<lparr>je_isReversed := True\<rparr>) (journalEntries v)\<rparr>"
  shows "journal_ok t"
proof -
  define f :: "JournalEntry \<Rightarrow> JournalEntry" where "f = (\<lambda>k. if je_id k = i then k\<lparr>je_isReversed := True\<rparr> else k)"
  have f [simp]: "je_tenantId (f k) = je_tenantId k" "je_idempotencyKey (f k) = je_idempotencyKey k"
    "je_reversalOfId (f k) = je_reversalOfId k" "je_id (f k) = je_id k" "je_entryNumber (f k) = je_entryNumber k"
    "balanced_entry (f k) = balanced_entry k" "mirrors x (f k) = mirrors x k" "mirrors (f k) x = mirrors k x"
    "je_isReversed (f k) = (je_id k = i \<or> je_isReversed k)" for k x
    by (simp_all add: f_def flag_frame)
  have n: "erp_next t = erp_next s + 1" and rid: "je_id r = erp_next s"
    and js: "journalEntries t = map f (journalEntries s @ [r])"
    using assms(4,10) by (auto simp: appended_def update_where_def f_def)
  have count: "journal_count t = journal_count v" by (simp add: journal_count_def assms(10) last_value_def)
  have mem: "j \<in> set (journalEntries s)" "je_id j = i" using find_by_Some [OF assms(2)] by auto
  note inv = assms(1) [unfolded journal_ok_def]
  have fresh: "k \<in> set (journalEntries s) \<Longrightarrow> je_id k \<noteq> erp_next s" for k
    using inv by (auto simp: journal_ids_def)
  have map: "map g (map f xs) = map g xs" if "\<And>k. g (f k) = g k" for g :: "JournalEntry \<Rightarrow> 'b" and xs
    using that by simp
  have ids: "journal_ids t"
    using inv fresh unfolding journal_ids_def js n by (auto simp: rid less_Suc_eq comp_def)
  have numbers: "journal_numbers t"
  proof (rule journal_numbers_next)
    show "journal_numbers s" using inv by blast
    show "journal_count t = journal_count s + 1" unfolding count by (rule appended_count(2) [OF assms(4)])
    have "map je_entryNumber (map f xs) = map je_entryNumber xs" for xs by (simp add: comp_def)
    then show "map je_entryNumber (journalEntries t) =
        map je_entryNumber (journalEntries s) @ [journal_number (journal_count s + 1)]"
      by (simp only: js f(5) appended_count(1) [OF assms(4)] map_append list.map)
  qed
  have keys: "journal_keys t"
    using inv assms(9) unfolding journal_keys_def js by (simp add: filter_map comp_def)
  have same: "length (reversals_of k t) = length (reversals_of k s) + (if k = i then 1 else 0)" for k
    using assms(7) unfolding reversals_of_def js by (simp add: filter_map comp_def)
  have unique: "k = j" if "k \<in> set (journalEntries s)" "je_id k = i" for k
    using inv mem that by (metis find_by_unique journal_ids_def option.inject)
  have none: "reversals_of (erp_next s) s = []"
    using inv fresh by (auto simp: journal_reversals_def reversals_of_def filter_empty_conv)
  have "i \<noteq> erp_next s" using fresh mem by blast
  then have "length (reversals_of (je_id k) t) = (if je_isReversed k then 1 else 0)" if "k \<in> set (journalEntries t)" for k
    using that inv assms(3,6) unique none unfolding journal_reversals_def js by (auto simp: same rid)
  moreover have "\<exists>k \<in> set (journalEntries t). je_id k = i' \<and> mirrors x k"
    if x: "x \<in> set (journalEntries t)" "je_reversalOfId x = Some i'" for x i'
  proof -
    obtain y where y: "y \<in> set (journalEntries s) \<or> y = r" "x = f y" using x(1) by (auto simp: js)
    have "\<exists>k \<in> set (journalEntries s). je_id k = i' \<and> mirrors y k"
    proof (cases "y = r")
      case True
      then show ?thesis using x(2) y(2) assms(7,8) mem by auto
    next
      case False
      then show ?thesis using x(2) y inv by (simp add: journal_reversals_def)
    qed
    then show ?thesis by (auto simp: js y(2))
  qed
  ultimately have reversals: "journal_reversals t" by (simp add: journal_reversals_def)
  have "list_all balanced_entry (journalEntries t)" using inv assms(5) by (simp add: js list_all_iff)
  with ids numbers keys reversals show ?thesis by (simp add: journal_ok_def)
qed


section \<open>The methods keep the journal\<close>

text \<open>Manual lines on the grid of the columns; generated lines need not be.\<close>

definition on_grid :: "(rat \<Rightarrow> rat) \<Rightarrow> line_input list \<Rightarrow> bool" where
  "on_grid dec ls \<longleftrightarrow> list_all (\<lambda>l. dec (debit_of l) = debit_of l \<and> dec (credit_of l) = credit_of l) ls"

lemma journal_lines_sums:
  "sum_list (map jl_debitAmount (journal_lines dec ls)) = sum_list (map (dec \<circ> debit_of) ls)"
  "sum_list (map jl_creditAmount (journal_lines dec ls)) = sum_list (map (dec \<circ> credit_of) ls)"
proof -
  have index: "map (\<lambda>x. g (snd x)) (enumerate n ls) = map g ls" for g :: "line_input \<Rightarrow> rat" and n
    by (induction ls arbitrary: n) simp_all
  show "sum_list (map jl_debitAmount (journal_lines dec ls)) = sum_list (map (dec \<circ> debit_of) ls)"
    "sum_list (map jl_creditAmount (journal_lines dec ls)) = sum_list (map (dec \<circ> credit_of) ls)"
    using index [of "dec \<circ> debit_of" 0] index [of "dec \<circ> credit_of" 0]
    by (simp_all add: journal_lines_def comp_def case_prod_unfold)
qed

lemma resolvePostingProfile_frame: "resolvePostingProfile tn ty c l i s = (r, t) \<Longrightarrow> t = s"
  by (auto simp: resolvePostingProfile_def resolvePostingProfileCategory_def run_bind run_seq run_gets run_throwIf run_return
      Let_def split: if_splits)

definition auto_params :: "post_params \<Rightarrow> PostingProfile \<Rightarrow> journal_params" where
  "auto_params p profile = \<lparr>jp_tenantId = au_tenantId p, jp_entryDate = au_entryDate p,
     jp_referenceType = au_referenceType p, jp_referenceId = au_referenceId p, jp_postedById = au_postedById p,
     jp_idempotencyKey = au_idempotencyKey p, jp_fiscalPeriodId = au_fiscalPeriodId p, jp_currency = None,
     jp_lines = auto_lines p profile\<rparr>"

lemma autoPost_okD:
  assumes "autoPost dec p s = (Inr j, t)"
  shows "\<exists>profile. resolvePostingProfile (au_tenantId p) (au_transactionType p) (au_productCategory p) (au_locationId p)
      (au_productCategoryId p) s = (Inr (Some profile), s) \<and> createJournalEntry dec (auto_params p profile) s = (Inr j, t)"
proof -
  obtain profile u where "resolvePostingProfile (au_tenantId p) (au_transactionType p) (au_productCategory p) (au_locationId p)
      (au_productCategoryId p) s = (Inr (Some profile), u)" "createJournalEntry dec (auto_params p profile) u = (Inr j, t)"
    using assms by (auto simp: autoPost_def bind_ok orThrow_ok auto_params_def)
  then show ?thesis using resolvePostingProfile_frame by blast
qed

context cost_column
begin

lemma grid_row_balanced:
  assumes "on_grid dec (jp_lines p)" "sum_list (map debit_of (jp_lines p)) = sum_list (map credit_of (jp_lines p))"
  shows "balanced_entry (journal_row dec p number period currency i)"
proof -
  have grid: "map (dec \<circ> debit_of) (jp_lines p) = map debit_of (jp_lines p)"
    "map (dec \<circ> credit_of) (jp_lines p) = map credit_of (jp_lines p)"
    using assms(1) by (simp_all add: on_grid_def list_all_iff)
  have "dec (sum_list (map debit_of (jp_lines p))) = sum_list (map debit_of (jp_lines p))"
    by (rule dec_sum_list) (use assms(1) in \<open>auto simp: on_grid_def list_all_iff\<close>)
  then show ?thesis
    using assms(2) by (simp add: balanced_entry_def journal_row_def journal_lines_sums grid)
qed

lemma auto_row_balanced:
  "jp_lines p = auto_lines q profile \<Longrightarrow> balanced_entry (journal_row dec p number period currency i)"
  by (simp add: balanced_entry_def journal_row_def journal_lines_sums auto_lines_def debit_of_def credit_of_def dec_zero)

lemma createJournalEntry_keeps:
  assumes "journal_ok s" "createJournalEntry dec p s = (Inr j, t)"
    "\<And>number period currency i. sum_list (map debit_of (jp_lines p)) = sum_list (map credit_of (jp_lines p)) \<Longrightarrow>
      balanced_entry (journal_row dec p number period currency i)"
  shows "journal_ok t"
  using createJournalEntry_okD [OF assms(2)] appended_keeps [OF assms(1)] assms(1,3)
  by (auto simp: journal_row_def)

lemma autoPost_keeps:
  assumes "journal_ok s" "autoPost dec p s = (Inr j, t)"
  shows "journal_ok t"
  using autoPost_okD [OF assms(2)]
proof (elim exE conjE)
  fix profile
  assume "createJournalEntry dec (auto_params p profile) s = (Inr j, t)"
  then show ?thesis
    by (rule createJournalEntry_keeps [OF assms(1)]) (rule auto_row_balanced [where q = p and profile = profile], simp add: auto_params_def)
qed

end

lemma reverseJournalEntry_keeps:
  assumes "journal_ok s" "reverseJournalEntry tn i u s = (Inr r, t)"
  shows "journal_ok t"
proof -
  obtain j v number period where j: "find_by je_id i (journalEntries s) = Some j" "\<not> je_isReversed j"
    and v: "appended s r v" "r = reversal_entry j number period u (now s) (erp_next s)"
    and t: "t = v\<lparr>journalEntries := set_row je_id i (\<lambda>j. j\<lparr>je_isReversed := True\<rparr>) (journalEntries v)\<rparr>"
    using reverseJournalEntry_okD [OF assms(2)] by blast
  have i: "j \<in> set (journalEntries s)" "je_id j = i" using find_by_Some [OF j(1)] by auto
  then have "balanced_entry j" using assms(1) by (simp add: journal_ok_def list_all_iff)
  then have "balanced_entry r" "mirrors r j" unfolding v(2) using reversal_balanced reversal_mirrors by blast+
  moreover have "\<not> je_isReversed r" "je_reversalOfId r = Some i" "je_idempotencyKey r = None"
    using i(2) by (simp_all add: v(2) reversal_entry_def)
  ultimately show ?thesis using reversed_keeps [OF assms(1) j v(1) _ _ _ _ _ t] by blast
qed

section \<open>Steps\<close>

inductive acc_step :: "(rat \<Rightarrow> rat) \<Rightarrow> erp \<Rightarrow> erp \<Rightarrow> bool" for dec :: "rat \<Rightarrow> rat" where
  manual: "on_grid dec (jp_lines p) \<Longrightarrow> erp_transaction (createJournalEntry dec p) s = (r, t) \<Longrightarrow> acc_step dec s t"
| auto_post: "erp_transaction (autoPost dec q) s = (r, t) \<Longrightarrow> acc_step dec s t"
| reverse: "reverseJournalEntryById tn i u s = (r, t) \<Longrightarrow> acc_step dec s t"
| elsewhere: "journalEntries t = journalEntries s \<Longrightarrow> erp_next s \<le> erp_next t \<Longrightarrow> sequences_le s t \<Longrightarrow> acc_step dec s t"

inductive acc_reachable :: "(rat \<Rightarrow> rat) \<Rightarrow> erp \<Rightarrow> bool" for dec :: "rat \<Rightarrow> rat" where
  start: "journalEntries s = [] \<Longrightarrow> acc_reachable dec s"
| step: "acc_reachable dec s \<Longrightarrow> acc_step dec s t \<Longrightarrow> acc_reachable dec t"

lemma journal_ok_empty: "journalEntries s = [] \<Longrightarrow> journal_ok s"
  by (simp add: journal_parts)

lemma journal_transaction:
  assumes "\<And>x u. m s = (Inr x, u) \<Longrightarrow> journal_ok u" "keeps (not_behind s) m" "journal_ok s" "erp_transaction m s = (r, t)"
  shows "journal_ok t"
proof (cases "fst (m s)")
  case (Inl e)
  then have t: "t = rollback_to s (snd (m s))" using assms(4) by (cases "m s") (auto simp: run_simps)
  have "sequences_le s (snd (m s))" using assms(2) by (simp add: keeps_def)
  then have "sequences_le s t" by (simp add: t rollback_to_def sequences_le_def last_value_def)
  then show ?thesis using assms(3) by (rule_tac journal_ok_cong [of t s]) (simp_all add: t rollback_to_def)
next
  case (Inr x)
  then have "m s = (Inr x, snd (m s))" by (cases "m s") simp
  with assms(1,4) show ?thesis by (auto simp: run_simps)
qed

context cost_column
begin

lemma acc_step_keeps: "acc_step dec s t \<Longrightarrow> journal_ok s \<Longrightarrow> journal_ok t"
proof (induction rule: acc_step.induct)
  case (manual p s r t)
  show ?case
    by (rule journal_transaction [OF _ not_behind_createJournalEntry manual(3,2)])
      (blast intro: createJournalEntry_keeps [OF manual(3)] grid_row_balanced [OF manual(1)])
next
  case (auto_post q s r t)
  show ?case
    by (rule journal_transaction [OF _ not_behind_autoPost auto_post(2,1)]) (rule autoPost_keeps [OF auto_post(2)])
next
  case (reverse tn i u s r t)
  show ?case
    by (rule journal_transaction [OF _ not_behind_reverseJournalEntry reverse(2) reverse(1) [unfolded reverseJournalEntryById_def]])
      (rule reverseJournalEntry_keeps [OF reverse(2)])
next
  case (elsewhere t s)
  then show ?case by (rule_tac journal_ok_cong)
qed

lemma reachable_journal: "acc_reachable dec s \<Longrightarrow> journal_ok s"
  by (induction rule: acc_reachable.induct) (auto intro: journal_ok_empty acc_step_keeps)

end

section \<open>What later steps leave alone\<close>

text \<open>Entries are only added, and only the reversal mark of an entry ever changes.\<close>

definition marked :: "(JournalEntry \<Rightarrow> JournalEntry) \<Rightarrow> bool" where
  "marked f \<longleftrightarrow> (\<forall>j. f j = j \<or> f j = j\<lparr>je_isReversed := True\<rparr>)"

definition evolves :: "erp \<Rightarrow> erp \<Rightarrow> bool" where
  "evolves s t \<longleftrightarrow> (\<exists>f new. marked f \<and> journalEntries t = map f (journalEntries s) @ new)"

lemma marked_sel:
  assumes "marked f"
  shows "je_id (f j) = je_id j" "je_tenantId (f j) = je_tenantId j" "je_idempotencyKey (f j) = je_idempotencyKey j"
    "je_isReversed j \<Longrightarrow> je_isReversed (f j)"
  using assms unfolding marked_def by (auto dest: spec [of _ j])

lemma evolves_same: "journalEntries t = journalEntries s \<Longrightarrow> evolves s t"
  unfolding evolves_def by (rule exI [of _ id]) (simp add: marked_def)

lemma evolves_trans: "evolves s t \<Longrightarrow> evolves t u \<Longrightarrow> evolves s u"
  unfolding evolves_def
proof (elim exE conjE)
  fix f g xs ys
  assume "marked f" "marked g" "journalEntries t = map f (journalEntries s) @ xs" "journalEntries u = map g (journalEntries t) @ ys"
  then have "journalEntries u = map (g \<circ> f) (journalEntries s) @ map g xs @ ys" "marked (g \<circ> f)"
    by (auto simp: marked_def) (metis JournalEntry.update_convs(9) JournalEntry.surjective)
  then show "\<exists>f new. marked f \<and> journalEntries u = map f (journalEntries s) @ new" by blast
qed

lemma evolves_find_by:
  assumes "evolves s t" "find_by je_id i (journalEntries s) = Some j"
  shows "\<exists>k. find_by je_id i (journalEntries t) = Some k \<and> je_tenantId k = je_tenantId j \<and> (je_isReversed j \<longrightarrow> je_isReversed k)"
proof -
  obtain f new where f: "marked f" and t: "journalEntries t = map f (journalEntries s) @ new"
    using assms(1) by (auto simp: evolves_def)
  have "find_by je_id i (map f js) = map_option f (find_by je_id i js)" for js
    by (induction js) (simp_all add: marked_sel(1) [OF f])
  then show ?thesis using assms(2) marked_sel [OF f] by (simp add: t)
qed

lemma evolves_find_journal:
  assumes "evolves s t" "find_journal tn key s = Some j"
  shows "\<exists>k. find_journal tn key t = Some k \<and> je_id k = je_id j"
proof -
  obtain f new where f: "marked f" and t: "journalEntries t = map f (journalEntries s) @ new"
    using assms(1) by (auto simp: evolves_def)
  have "find P (map f js) = map_option f (find P js)"
    if "P = (\<lambda>j. je_tenantId j = tn \<and> je_idempotencyKey j = key)" for js P
    by (induction js) (simp_all add: that marked_sel [OF f])
  then show ?thesis using assms(2) marked_sel [OF f] by (auto simp: find_journal_def t find_append split: if_splits)
qed

lemma evolves_transaction:
  assumes "\<And>x u. m s = (Inr x, u) \<Longrightarrow> evolves s u" "erp_transaction m s = (r, t)"
  shows "evolves s t"
  using assms by (auto simp: erp_transaction_def rollback_to_def evolves_same split: prod.splits sum.splits)

lemma evolves_appended: "appended s j t \<Longrightarrow> evolves s t"
  unfolding evolves_def appended_def by (rule exI [of _ id]) (simp add: marked_def)

lemma evolves_create: "createJournalEntry dec p s = (Inr j, t) \<Longrightarrow> evolves s t"
  using createJournalEntry_okD evolves_appended evolves_same by blast

lemma evolves_reverse:
  assumes "reverseJournalEntry tn i u s = (Inr r, t)"
  shows "evolves s t"
proof -
  define f :: "JournalEntry \<Rightarrow> JournalEntry" where "f = (\<lambda>j. if je_id j = i then j\<lparr>je_isReversed := True\<rparr> else j)"
  obtain v where v: "appended s r v"
      "t = v\<lparr>journalEntries := set_row je_id i (\<lambda>j. j\<lparr>je_isReversed := True\<rparr>) (journalEntries v)\<rparr>"
    using reverseJournalEntry_okD [OF assms] by blast
  then have "journalEntries t = map f (journalEntries v)" by (simp add: update_where_def f_def)
  moreover have "marked f" by (simp add: marked_def f_def)
  ultimately have "evolves v t" unfolding evolves_def by (intro exI [of _ f] exI [of _ "[]"]) simp
  with evolves_appended [OF v(1)] show ?thesis by (rule evolves_trans)
qed

lemma acc_step_evolves: "acc_step dec s t \<Longrightarrow> evolves s t"
proof (induction rule: acc_step.induct)
  case (auto_post q s r t)
  then show ?case by (rule_tac evolves_transaction) (auto dest!: autoPost_okD evolves_create)
next
  case (reverse tn i u s r t)
  then show ?case unfolding reverseJournalEntryById_def by (rule_tac evolves_transaction) (auto dest: evolves_reverse)
qed (auto intro: evolves_transaction evolves_create evolves_same)

lemma acc_steps_evolve: "(acc_step dec)\<^sup>*\<^sup>* s t \<Longrightarrow> evolves s t"
  by (induction rule: rtranclp_induct) (auto intro: evolves_same evolves_trans acc_step_evolves)

end
