(* ===== verification/AccountingProperties.thy ===== *)
theory AccountingProperties
  imports AccountingSystem
begin

text \<open>
  Properties of the general ledger: balanced books, reversals, idempotent posting, period locks,
  the choice of a posting profile and the trial balance.
\<close>

section \<open>The books\<close>

text \<open>
  C20: In every journal the accounting service can build from manual entries with at most four
  decimals, automatic postings of any amount and reversals, each entry's debits equal its
  credits and its totals, so the balances of all accounts sum to zero; entry numbers are
  distinct, and no two entries of a tenant carry the same idempotency key.
\<close>

theorem reachable_books_balance:
  assumes "acc_reachable numeric4 s"
  shows "list_all balanced_entry (journalEntries s) \<and>
    sum_list (map (\<lambda>j. sum_list (map (\<lambda>l. jl_debitAmount l - jl_creditAmount l) (je_lines j))) (journalEntries s)) = 0 \<and>
    distinct (map je_entryNumber (journalEntries s)) \<and> journal_keys s"
proof -
  note inv = numeric4.reachable_journal [OF assms, unfolded journal_ok_def]
  have "sum_list (map (\<lambda>l. jl_debitAmount l - jl_creditAmount l) (je_lines j)) = 0" if "balanced_entry j" for j
    using that by (simp add: balanced_entry_def sum_list_subtractf)
  then have "sum_list (map (\<lambda>j. sum_list (map (\<lambda>l. jl_debitAmount l - jl_creditAmount l) (je_lines j))) js) = 0"
    if "list_all balanced_entry js" for js
    using that by (induction js) simp_all
  then show ?thesis using inv by (simp add: journal_numbers_def)
qed

definition account :: "uuid \<Rightarrow> string \<Rightarrow> GLAccount" where
  "account i number = \<lparr>gl_id = i, gl_tenantId = 7, gl_accountNumber = number, gl_name = ''Account'', gl_accountType = ASSET,
     gl_parentId = None, gl_isActive = True, gl_isSystem = False, gl_normalBalance = DEBIT, gl_isInventoryAsset = False\<rparr>"

definition march :: FiscalPeriod where
  "march = \<lparr>fp_id = 21, fp_calendarId = 20, fp_periodName = ''2026-03'', fp_startDate = 0, fp_endDate = 30,
     fp_isClosed = False, fp_isLocked = False, fp_lockedAt = None, fp_lockedById = None\<rparr>"

definition books :: erp where
  "books = empty_erp\<lparr>glAccounts := [account 1 ''1000'', account 2 ''2000''], defaultCurrencies := [(7, ''EUR'')],
     fiscalCalendars := [\<lparr>fc_id = 20, fc_tenantId = 7, fc_isDefault = True\<rparr>], fiscalPeriods := [march], erp_next := 100\<rparr>"

definition manual_entry :: "rat \<Rightarrow> journal_params" where
  "manual_entry a = \<lparr>jp_tenantId = 7, jp_entryDate = 0, jp_referenceType = ''MANUAL'', jp_referenceId = None,
     jp_postedById = 5, jp_idempotencyKey = Some ''K1'', jp_fiscalPeriodId = None, jp_currency = None,
     jp_lines = [\<lparr>li_glAccountId = 1, li_debitAmount = Some a, li_creditAmount = None, li_productId = None,
         li_locationId = None, li_costCenterId = None\<rparr>,
       \<lparr>li_glAccountId = 2, li_debitAmount = None, li_creditAmount = Some a, li_productId = None,
         li_locationId = None, li_costCenterId = None\<rparr>]\<rparr>"

definition posted :: erp where
  "posted = snd (createJournalEntry numeric4 (manual_entry 12) books)"

definition reversed :: erp where
  "reversed = snd (reverseJournalEntry 7 100 5 posted)"

lemma posted_run: "createJournalEntry numeric4 (manual_entry 12) books = (Inr (hd (journalEntries posted)), posted)"
  unfolding posted_def by (rule ran_to) code_simp

lemma reversed_run: "reverseJournalEntry 7 100 5 posted = (Inr (last (journalEntries reversed)), reversed)"
  unfolding reversed_def by (rule ran_to) code_simp

lemma books_reachable: "acc_reachable numeric4 books"
  by (rule acc_reachable.start) (simp add: books_def empty_erp_def)

lemma posted_reachable: "acc_reachable numeric4 posted"
proof (rule acc_reachable.step [OF books_reachable])
  have "on_grid numeric4 (jp_lines (manual_entry 12))" by code_simp
  then show "acc_step numeric4 books posted"
    by (rule acc_step.manual) (rule erp_transaction_Inr, rule posted_run)
qed

lemma reversed_step: "acc_step numeric4 posted reversed"
  by (rule acc_step.reverse) (unfold reverseJournalEntryById_def, rule erp_transaction_Inr, rule reversed_run)

lemma reversed_reachable: "acc_reachable numeric4 reversed"
  by (rule acc_reachable.step [OF posted_reachable reversed_step])

lemma reachable_books_balance_witness:
  "length (journalEntries reversed) = 2 \<and> list_all balanced_entry (journalEntries reversed)"
proof -
  have "length (journalEntries reversed) = 2" by code_simp
  with reachable_books_balance [OF reversed_reachable] show ?thesis by blast
qed

section \<open>Reversals\<close>

text \<open>
  C21: A reversal answers an entry of the tenant that was not reversed: the new entry refers to
  it and swaps its lines, so that the two together move no account, and it is the only reversal
  of that entry.  In every later state a further reversal of the entry is refused.
\<close>

theorem reversal_once:
  assumes "acc_reachable numeric4 s" "reverseJournalEntry tn i u s = (Inr r, t)" "(acc_step numeric4)\<^sup>*\<^sup>* t t'"
  shows "(\<exists>j. find_by je_id i (journalEntries s) = Some j \<and> \<not> je_isReversed j \<and> je_tenantId j = tn \<and>
      je_reversalOfId r = Some i \<and> line_net a (je_lines r) + line_net a (je_lines j) = 0) \<and>
    length (reversals_of i t) = 1 \<and> fst (reverseJournalEntry tn' i u' t') = Inl BadRequestException"
proof -
  obtain j v number period where j: "find_by je_id i (journalEntries s) = Some j" "je_tenantId j = tn" "\<not> je_isReversed j"
    and v: "appended s r v" "r = reversal_entry j number period u (now s) (erp_next s)"
    and t: "t = v\<lparr>journalEntries := set_row je_id i (\<lambda>j. j\<lparr>je_isReversed := True\<rparr>) (journalEntries v)\<rparr>"
    using reverseJournalEntry_okD [OF assms(2)] by blast
  have ok: "journal_ok t" using reverseJournalEntry_keeps [OF numeric4.reachable_journal [OF assms(1)] assms(2)] .
  have i: "je_id j = i" using find_by_Some [OF j(1)] by simp
  have "find_by je_id i (journalEntries v) = Some j" using v(1) j(1) by (simp add: appended_def)
  then have found: "find_by je_id i (journalEntries t) = Some (j\<lparr>je_isReversed := True\<rparr>)" by (simp add: t find_by_set_row)
  then have "length (reversals_of i t) = 1"
    using find_by_Some [OF found] ok i unfolding journal_ok_def journal_reversals_def by fastforce
  moreover have "fst (reverseJournalEntry tn' i u' t') = Inl BadRequestException"
    using evolves_find_by [OF acc_steps_evolve [OF assms(3)] found]
    by (auto simp: reverseJournalEntry_def run_get_row run_bind run_seq run_throwIf)
  moreover have "line_net a (je_lines r) + line_net a (je_lines j) = 0"
    using reversal_mirrors [of j number period u "now s" "erp_next s"] by (simp add: v(2) mirrors_def)
  moreover have "je_reversalOfId r = Some i" using i by (simp add: v(2) reversal_entry_def)
  ultimately show ?thesis using j by blast
qed

lemma reversal_once_witness:
  "length (reversals_of 100 reversed) = 1 \<and> fst (reverseJournalEntry 7 100 5 reversed) = Inl BadRequestException"
  using reversal_once [OF posted_reachable reversed_run, of reversed _ 7 5] by blast

section \<open>Idempotent posting\<close>

text \<open>
  An idempotency key posts once: after an entry with a key, every later request of the
  tenant with the same key, whatever its amounts, date and accounts, returns the recorded entry
  and changes nothing.
\<close>

theorem journal_posted_once:
  assumes "createJournalEntry dec p s = (Inr j, t)" "truthy (jp_idempotencyKey p)" "(acc_step dec)\<^sup>*\<^sup>* t u"
    "jp_tenantId q = jp_tenantId p" "jp_idempotencyKey q = jp_idempotencyKey p"
  shows "\<exists>k. createJournalEntry dec q u = (Inr k, u) \<and> je_id k = je_id j"
proof -
  have "\<exists>k. find_journal (jp_tenantId p) (jp_idempotencyKey p) t = Some k \<and> je_id k = je_id j"
    using createJournalEntry_okD [OF assms(1)] assms(2)
    by (auto simp: find_journal_def appended_def find_append journal_row_def)
  then obtain k where "find_journal (jp_tenantId q) (jp_idempotencyKey q) u = Some k" "je_id k = je_id j"
    using evolves_find_journal [OF acc_steps_evolve [OF assms(3)]] assms(4,5) by metis
  then show ?thesis by (simp add: createJournalEntry_def bind_Inr [OF run_gets] run_return)
qed

lemma journal_posted_once_witness:
  "\<exists>k. createJournalEntry numeric4 (manual_entry 99) reversed = (Inr k, reversed) \<and> je_id k = je_id (hd (journalEntries posted))"
proof -
  have "(acc_step numeric4)\<^sup>*\<^sup>* posted reversed" using reversed_step by blast
  then show ?thesis
    by (rule_tac journal_posted_once [OF posted_run]) (simp_all add: manual_entry_def truthy_def)
qed

text \<open>
  The key of a transactional posting is its transaction type and its reference only: a
  second posting of the same type for the same reference, such as the receipt of another line
  of an order, adds nothing to the journal, whatever its amount and product.
\<close>

theorem second_posting_lost:
  assumes "postTransactionalJournal dec p s = (Inr j, t)" "(acc_step dec)\<^sup>*\<^sup>* t u"
    "tp_tenantId q = tp_tenantId p" "tp_transactionType q = tp_transactionType p" "tp_referenceId q = tp_referenceId p"
    "postTransactionalJournal dec q u = (Inr k, v)"
  shows "je_id k = je_id j \<and> journalEntries v = journalEntries u"
proof -
  obtain p' where p': "createJournalEntry dec p' s = (Inr j, t)" "jp_tenantId p' = tp_tenantId p"
      "jp_idempotencyKey p' = Some (journal_key (tp_transactionType p) (tp_referenceId p))"
    using autoPost_okD [OF assms(1) [unfolded postTransactionalJournal_def]] by (auto simp: auto_params_def)
  obtain q' where q': "createJournalEntry dec q' u = (Inr k, v)" "jp_tenantId q' = tp_tenantId q"
      "jp_idempotencyKey q' = Some (journal_key (tp_transactionType q) (tp_referenceId q))"
    using autoPost_okD [OF assms(6) [unfolded postTransactionalJournal_def]] by (auto simp: auto_params_def)
  have "truthy (jp_idempotencyKey p')" by (simp add: p'(3) journal_key_def truthy_def)
  with journal_posted_once [OF p'(1) _ assms(2), of q'] p' q' assms(3-5) show ?thesis by auto
qed

definition receipt_profile :: PostingProfile where
  "receipt_profile = \<lparr>pp_id = 11, pp_tenantId = 7, pp_profileName = ''Receipts'', pp_transactionType = GOODS_RECEIPT,
     pp_debitAccountId = 1, pp_creditAccountId = 2, pp_productCategory = None, pp_productCategoryId = None,
     pp_locationId = None, pp_isActive = True, pp_priority = 0\<rparr>"

definition profiled :: erp where
  "profiled = books\<lparr>postingProfiles := [receipt_profile]\<rparr>"

definition receipt_posting :: "uuid \<Rightarrow> rat \<Rightarrow> transactional_params" where
  "receipt_posting product a = \<lparr>tp_tenantId = 7, tp_transactionType = GOODS_RECEIPT, tp_referenceType = ''GOODS_RECEIPT'',
     tp_referenceId = 33, tp_entryDate = 0, tp_fiscalPeriodId = None, tp_amount = a, tp_productId = Some product,
     tp_locationId = None, tp_userId = 5\<rparr>"

definition received_line :: erp where
  "received_line = snd (postTransactionalJournal numeric4 (receipt_posting 1 50) profiled)"

lemma second_posting_lost_witness:
  "journalEntries (snd (postTransactionalJournal numeric4 (receipt_posting 2 80) received_line)) = journalEntries received_line"
proof -
  have run: "postTransactionalJournal numeric4 (receipt_posting 1 50) profiled = (Inr (hd (journalEntries received_line)), received_line)"
    unfolding received_line_def by (rule ran_to) code_simp
  have again: "postTransactionalJournal numeric4 (receipt_posting 2 80) received_line = (Inr (hd (journalEntries received_line)),
      snd (postTransactionalJournal numeric4 (receipt_posting 2 80) received_line))"
    by (rule ran_to) code_simp
  show ?thesis
    using second_posting_lost [OF run rtranclp.rtrancl_refl _ _ _ again] by (simp add: receipt_posting_def)
qed

section \<open>Periods\<close>

text \<open>
  A locked period takes no new entry dated in it if its state was not cached before; but a
  process that looked the period up while it was open still finds it open after the lock.
\<close>

theorem lock_and_cache:
  assumes "lockFiscalPeriod tn i u s = (Inr p, t)" "cached_calendar tn s = Some (fp_calendarId p)"
    "period_of (fp_calendarId p) (utc_day d) s = find_by fp_id i (fiscalPeriods s)"
    "find_journal tn key s = None"
    "jp_tenantId q = tn" "jp_entryDate q = d" "jp_idempotencyKey q = key"
  shows "(map_of (fiscalPeriodCache s) (tn, utc_day d) = None \<longrightarrow>
      fst (createJournalEntry dec q t) = Inl BadRequestException) \<and>
    (\<forall>info. map_of (fiscalPeriodCache s) (tn, utc_day d) = Some (Some info) \<and> \<not> pi_isLocked info \<and> \<not> pi_isClosed info \<longrightarrow>
      fst (validatePeriodOpen tn d t) = Inr ())"
proof -
  obtain p0 where p0: "own_period tn i s = Some p0" "p = set_lock (Some u) (now s) p0"
    and t: "t = s\<lparr>fiscalPeriods := set_row fp_id i (set_lock (Some u) (now s)) (fiscalPeriods s)\<rparr>"
    using assms(1) by (auto simp: lockFiscalPeriod_def change_lock_def ok_simps)
  have "default_calendar tn t = default_calendar tn s" "fiscalCalendarIdCache t = fiscalCalendarIdCache s"
    by (simp_all add: default_calendar_def t)
  then have cal: "cached_calendar tn t = Some (fp_calendarId p)" using assms(2) by (simp only: cached_calendar_def)
  have i: "fp_id p0 = i" and mem: "p0 \<in> set (fiscalPeriods s)" using p0(1) find_in by (fastforce simp: own_period_def)+
  have "find_by fp_id i (fiscalPeriods s) \<noteq> None" using i mem by (auto simp: find_by_None)
  then obtain p1 where p1: "period_of (fp_calendarId p) (utc_day d) s = Some p1" "find_by fp_id i (fiscalPeriods s) = Some p1"
    using assms(3) by auto
  have same: "find P (set_row fp_id i (set_lock (Some u) (now s)) ps) =
      map_option (\<lambda>x. if fp_id x = i then set_lock (Some u) (now s) x else x) (find P ps)"
    if "\<And>x. P (set_lock (Some u) (now s) x) = P x" for P ps
    using that by (induction ps) auto
  have "period_of (fp_calendarId p) (utc_day d) t = Some (set_lock (Some u) (now s) p1)"
    using p1 find_by_Some [OF p1(2)] by (simp add: period_of_def t same set_lock_def)
  then have "fst (validatePeriodOpen tn d t) = Inl BadRequestException" if "map_of (fiscalPeriodCache s) (tn, utc_day d) = None"
    using that cal by (simp add: validatePeriodOpen_value looked_up_def t period_open_def info_of_def set_lock_def)
  moreover have "fst (createJournalEntry dec q t) = Inl BadRequestException"
    if "fst (validatePeriodOpen tn d t) = Inl BadRequestException"
  proof -
    have "find_journal tn key t = None" using assms(4) by (simp add: find_journal_def t split: if_splits)
    with that assms(5-7) show ?thesis
      by (cases "validatePeriodOpen tn d t") (simp add: createJournalEntry_def bind_Inr [OF run_gets] seq_Inl)
  qed
  moreover have "fst (validatePeriodOpen tn d t) = Inr ()"
    if "map_of (fiscalPeriodCache s) (tn, utc_day d) = Some (Some info)" "\<not> pi_isLocked info" "\<not> pi_isClosed info" for info
    using that cal by (simp add: validatePeriodOpen_value looked_up_def t period_open_def)
  ultimately show ?thesis by blast
qed

definition locked :: erp where
  "locked = snd (lockFiscalPeriod 7 21 5 books)"

definition warm :: erp where
  "warm = snd (findFiscalPeriod 7 0 books)"

lemma lock_and_cache_witness:
  "fst (createJournalEntry numeric4 (manual_entry 12) locked) = Inl BadRequestException \<and>
   fst (validatePeriodOpen 7 0 (snd (lockFiscalPeriod 7 21 5 warm))) = Inr ()"
proof -
  have run: "lockFiscalPeriod 7 21 5 books = (Inr (hd (fiscalPeriods locked)), locked)"
    unfolding locked_def by (rule ran_to) code_simp
  have cold: "cached_calendar 7 books = Some (fp_calendarId (hd (fiscalPeriods locked)))"
    "period_of (fp_calendarId (hd (fiscalPeriods locked))) (utc_day 0) books = find_by fp_id 21 (fiscalPeriods books)"
    "find_journal 7 (Some ''K1'') books = None" "map_of (fiscalPeriodCache books) (7, utc_day 0) = None" by code_simp+
  have "jp_tenantId (manual_entry 12) = 7" "jp_entryDate (manual_entry 12) = 0" "jp_idempotencyKey (manual_entry 12) = Some ''K1''"
    by (simp_all add: manual_entry_def)
  with lock_and_cache [OF run cold(1-3)] cold(4)
  have "fst (createJournalEntry numeric4 (manual_entry 12) locked) = Inl BadRequestException" by blast
  moreover define p where "p = hd (fiscalPeriods (snd (lockFiscalPeriod 7 21 5 warm)))"
  have run': "lockFiscalPeriod 7 21 5 warm = (Inr p, snd (lockFiscalPeriod 7 21 5 warm))"
    unfolding p_def by (rule ran_to) code_simp
  have hot: "cached_calendar 7 warm = Some (fp_calendarId p)"
    "period_of (fp_calendarId p) (utc_day 0) warm = find_by fp_id 21 (fiscalPeriods warm)"
    "find_journal 7 (Some ''K1'') warm = None" "map_of (fiscalPeriodCache warm) (7, utc_day 0) = Some (Some (info_of march))"
    "\<not> pi_isLocked (info_of march)" "\<not> pi_isClosed (info_of march)" unfolding p_def by code_simp+
  have "jp_tenantId (manual_entry 1) = 7" "jp_entryDate (manual_entry 1) = 0" "jp_idempotencyKey (manual_entry 1) = Some ''K1''"
    by (simp_all add: manual_entry_def)
  with lock_and_cache [OF run' hot(1-3)] hot(4-6)
  have "fst (validatePeriodOpen 7 0 (snd (lockFiscalPeriod 7 21 5 warm))) = Inr ()" by blast
  ultimately show ?thesis by blast
qed

section \<open>The trial balance\<close>

text \<open>
  The date and period filters of the trial balance have no effect: they only null the
  columns of the joined entry, which no sum reads, so every filter gives the balance of all
  lines ever posted to the account, of every tenant and of every period.
\<close>

theorem trial_balance_ignores_filters:
  "getTrialBalance tn f s = getTrialBalance tn g s \<and>
   (\<forall>row \<in> set (getTrialBalance tn f s). br_net_balance row =
      sum_list (map (\<lambda>j. line_net (gl_id (br_account row)) (je_lines j)) (journalEntries s)))"
proof -
  have lines: "map fst (joined_lines tn h a s) = concat (map (\<lambda>j. filter (\<lambda>l. jl_glAccountId l = gl_id a) (je_lines j)) (journalEntries s))"
    for h a by (simp add: joined_lines_def map_concat comp_def)
  have concat: "sum_list (map g (concat (map (\<lambda>j. filter (\<lambda>l. jl_glAccountId l = a) (je_lines j)) js))) =
      sum_list (map (\<lambda>j. sum_where (\<lambda>l. jl_glAccountId l = a) g (je_lines j)) js)" for g a js
    by (induction js) (simp_all add: sum_where_def)
  have "balance_of (joined_lines tn h a s) a = balance_of (joined_lines tn h' a s) a" for h h' a
    unfolding balance_of_def map_map [symmetric] lines ..
  then have "getTrialBalance tn f s = getTrialBalance tn g s" by (simp add: getTrialBalance_def)
  moreover
  have account: "br_account (balance_of rows a) = a" for rows a by (simp add: balance_of_def Let_def)
  moreover have net: "br_net_balance (balance_of (joined_lines tn h a s) a) =
      sum_list (map (\<lambda>j. line_net (gl_id a) (je_lines j)) (journalEntries s))" for h a
    unfolding balance_of_def Let_def map_map [symmetric] lines
    by (simp add: concat line_net_def sum_where_def sum_list_subtractf)
  ultimately show ?thesis by (auto simp: getTrialBalance_def account net)
qed

lemma trial_balance_ignores_filters_witness:
  "map br_net_balance (getTrialBalance 7 \<lparr>bf_fromDate = Some 999999999999, bf_toDate = None, bf_fiscalPeriodId = Some 4\<rparr> posted) = [12, - 12]"
proof -
  have "map br_net_balance (getTrialBalance 7 \<lparr>bf_fromDate = None, bf_toDate = None, bf_fiscalPeriodId = None\<rparr> posted) = [12, - 12]"
    by code_simp
  then show ?thesis using trial_balance_ignores_filters by metis
qed

end
