(* ===== verification/CostSchema.thy ===== *)
theory CostSchema
  imports Accounting StockLedger "HOL-Library.Log_Nat"
begin

text \<open>
  The rows of the costing tables of \<open>apps/api/prisma/schema.prisma\<close>, the state of the costing
  engine (the tables of the stock and general ledger, which it calls, and its own), and the
  arithmetic it computes with: decimal.js quotients of 20 significant digits, the columns the
  results are stored in, and binary floating point in the cost rollup.
\<close>

section \<open>Enumerations\<close>

datatype CostingMethod = STANDARD | MOVING_AVERAGE | FIFO | LIFO | ACTUAL_JOB_COSTING
datatype CostLayerStatus = OPEN | DEPLETED | FROZEN
datatype RevaluationStatus = DRAFT | POSTED | REVERSED
datatype PeriodCloseStatus = OPEN | CLOSING | CLOSED | REOPENED
datatype CostType = STANDARD | ACTUAL | BUDGET | PLANNED
datatype BOMStatus = DRAFT | ACTIVE | OBSOLETE | PENDING_APPROVAL

section \<open>Rows\<close>

record ItemCostProfile =
  ip_id :: uuid
  ip_tenantId :: uuid
  ip_productId :: uuid
  ip_locationId :: "uuid option"
  ip_costingMethod :: CostingMethod
  ip_standardCostVersion :: "string option"
  ip_enableLandedCost :: bool
  ip_overheadRate :: "rat option"
  ip_laborRate :: "rat option"

record CostLayer =
  ly_id :: uuid
  ly_tenantId :: uuid
  ly_productId :: uuid
  ly_locationId :: uuid
  ly_batchId :: "uuid option"
  ly_costingMethod :: CostingMethod
  ly_layerDate :: timestamp
  ly_referenceType :: string
  ly_referenceId :: uuid
  ly_referenceNumber :: "string option"
  ly_originalQty :: rat
  ly_remainingQty :: rat
  ly_unitCost :: rat
  ly_totalCost :: rat
  ly_landedCost :: rat
  ly_currency :: string
  ly_exchangeRate :: rat
  ly_baseCurrCost :: rat
  ly_fiscalPeriodId :: "uuid option"
  ly_status :: CostLayerStatus
  ly_version :: nat
  ly_createdAt :: timestamp

record CostLayerDepletion =
  dp_id :: uuid
  dp_tenantId :: uuid
  dp_costLayerId :: uuid
  dp_depletedQty :: rat
  dp_unitCost :: rat
  dp_totalCost :: rat
  dp_referenceType :: string
  dp_referenceId :: uuid
  dp_referenceNumber :: "string option"
  dp_depletedAt :: timestamp

record ItemCost =
  ic_id :: uuid
  ic_tenantId :: uuid
  ic_productId :: uuid
  ic_locationId :: uuid
  ic_currentUnitCost :: rat
  ic_currentTotalQty :: rat
  ic_currentTotalValue :: rat
  ic_standardCost :: rat
  ic_lastReceiptCost :: rat
  ic_lastReceiptDate :: "timestamp option"
  ic_lastIssueCost :: "rat option"
  ic_lastIssueDate :: "timestamp option"
  ic_currency :: string
  ic_version :: nat

record WIPCostAccumulation =
  wi_id :: uuid
  wi_tenantId :: uuid
  wi_workOrderId :: uuid
  wi_costElement :: string
  wi_accumulatedAmount :: rat
  wi_absorbedAmount :: rat
  wi_varianceAmount :: rat
  wi_version :: nat
  wi_lastTransactionDate :: timestamp

record CostVariance =
  cv_id :: uuid
  cv_tenantId :: uuid
  cv_varianceType :: string
  cv_referenceType :: string
  cv_referenceId :: uuid
  cv_productId :: "uuid option"
  cv_fiscalPeriodId :: "uuid option"
  cv_standardAmount :: rat
  cv_actualAmount :: rat
  cv_varianceAmount :: rat
  cv_variancePct :: rat
  cv_favorability :: string
  cv_createdAt :: timestamp

record RevaluationHistory =
  rv_id :: uuid
  rv_tenantId :: uuid
  rv_revaluationNumber :: string
  rv_revaluationType :: string
  rv_productId :: uuid
  rv_locationId :: uuid
  rv_fiscalPeriodId :: "uuid option"
  rv_oldUnitCost :: rat
  rv_newUnitCost :: rat
  rv_affectedQty :: rat
  rv_revaluationAmount :: rat
  rv_journalEntryId :: "uuid option"
  rv_status :: RevaluationStatus
  rv_performedById :: uuid
  rv_performedAt :: timestamp

record CurrencyRateSnapshot =
  cr_id :: uuid
  cr_tenantId :: uuid
  cr_fromCurrency :: string
  cr_toCurrency :: string
  cr_rate :: rat
  cr_inverseRate :: rat
  cr_rateDate :: int
  cr_source :: string
  cr_referenceType :: string
  cr_referenceId :: uuid

record PeriodValuationSnapshot =
  vs_tenantId :: uuid
  vs_fiscalPeriodId :: uuid
  vs_productId :: uuid
  vs_locationId :: uuid
  vs_onHandQty :: rat
  vs_unitCost :: rat
  vs_totalValue :: rat
  vs_costingMethod :: CostingMethod
  vs_openLayerCount :: nat
  vs_currency :: string

record LandedCostAllocation =
  la_id :: uuid
  la_tenantId :: uuid
  la_goodsReceiptId :: uuid
  la_goodsReceiptLineId :: uuid
  la_costLayerId :: "uuid option"
  la_costCategory :: string
  la_allocationMethod :: string
  la_allocatedAmount :: rat
  la_vendorInvoiceRef :: "string option"

record PeriodCloseCheckpoint =
  ck_tenantId :: uuid
  ck_fiscalPeriodId :: uuid
  ck_status :: PeriodCloseStatus
  ck_inventoryValuationTotal :: rat
  ck_glInventoryTotal :: rat
  ck_discrepancy :: rat
  ck_varianceSummary :: "(string \<times> rat) list option"
  ck_closedById :: "uuid option"
  ck_closedAt :: "timestamp option"
  ck_reopenedById :: "uuid option"
  ck_reopenedAt :: "timestamp option"
  ck_reopenReason :: "string option"

record ProductCosting =
  co_id :: uuid
  co_tenantId :: uuid
  co_productId :: uuid
  co_locationId :: "uuid option"
  co_costType :: CostType
  co_effectiveFrom :: int
  co_effectiveTo :: "int option"
  co_materialCost :: rat
  co_laborCost :: rat
  co_overheadCost :: rat
  co_subcontractCost :: rat
  co_totalCost :: rat
  co_version :: "string option"

record WorkOrderCost =
  wc_tenantId :: uuid
  wc_workOrderId :: uuid
  wc_materialCost :: rat
  wc_laborCost :: rat
  wc_overheadCost :: rat
  wc_subcontractCost :: rat
  wc_scrapCost :: rat
  wc_totalCost :: rat
  wc_costPerUnit :: rat
  wc_completedQty :: rat
  wc_stdMaterialCost :: rat
  wc_stdLaborCost :: rat
  wc_stdOverheadCost :: rat
  wc_stdTotalCost :: rat
  wc_materialVariance :: rat
  wc_laborVariance :: rat
  wc_overheadVariance :: rat
  wc_totalVariance :: rat

record WorkCenter =
  ce_id :: uuid
  ce_costPerHour :: rat
  ce_setupCostPerHour :: rat
  ce_efficiency :: rat

record RoutingOperation =
  ro_routingId :: uuid
  ro_workCenter :: WorkCenter
  ro_sequence :: int
  ro_setupTime :: rat
  ro_runTimePerUnit :: rat
  ro_isSubcontracted :: bool

record Routing =
  rt_id :: uuid
  rt_version :: string
  rt_status :: BOMStatus

record BOMComponent =
  bc_componentProductId :: uuid
  bc_sequence :: int
  bc_quantity :: rat
  bc_scrapPercent :: rat
  bc_isPhantom :: bool

record BillOfMaterial =
  bm_id :: uuid
  bm_tenantId :: uuid
  bm_parentProductId :: uuid
  bm_status :: BOMStatus
  bm_effectiveFrom :: int
  bm_effectiveTo :: "int option"
  bm_baseQuantity :: rat
  bm_components :: "BOMComponent list"
  bm_routings :: "Routing list"

text \<open>What the engine reads of products, work orders, forecasts and scenarios.\<close>

record product_row =
  pr_id :: uuid
  pr_tenantId :: uuid
  pr_standardCost :: "rat option"

record work_order_row =
  wo_id :: uuid
  wo_tenantId :: uuid
  wo_routingId :: "uuid option"

record forecast_row =
  fo_tenantId :: uuid
  fo_scenarioId :: uuid
  fo_productId :: "uuid option"
  fo_periodDate :: int
  fo_forecastQuantity :: "rat option"
  fo_forecastAmount :: rat

record scenario_row =
  sc_id :: uuid
  sc_tenantId :: uuid
  sc_name :: string

section \<open>State\<close>

text \<open>
  \<open>books\<close> holds the tables of the services the engine calls; the rest are its own tables and the
  ones it only reads.
\<close>

record costing =
  books :: erp
  costLayers :: "CostLayer list"
  costLayerDepletions :: "CostLayerDepletion list"
  itemCosts :: "ItemCost list"
  itemCostProfiles :: "ItemCostProfile list"
  wipAccumulations :: "WIPCostAccumulation list"
  costVariances :: "CostVariance list"
  revaluationHistory :: "RevaluationHistory list"
  rateSnapshots :: "CurrencyRateSnapshot list"
  valuationSnapshots :: "PeriodValuationSnapshot list"
  landedAllocations :: "LandedCostAllocation list"
  closeCheckpoints :: "PeriodCloseCheckpoint list"
  productCostings :: "ProductCosting list"
  workOrderCosts :: "WorkOrderCost list"
  billsOfMaterial :: "BillOfMaterial list"
  routingOperations :: "RoutingOperation list"
  products :: "product_row list"
  workOrders :: "work_order_row list"
  forecasts :: "forecast_row list"
  scenarios :: "scenario_row list"

type_synonym 'a cost_prog = "(costing, erp_error, 'a) prog"

definition empty_costing :: "erp \<Rightarrow> costing" where
  "empty_costing s = \<lparr>books = s, costLayers = [], costLayerDepletions = [], itemCosts = [], itemCostProfiles = [],
     wipAccumulations = [], costVariances = [], revaluationHistory = [], rateSnapshots = [], valuationSnapshots = [],
     landedAllocations = [], closeCheckpoints = [], productCostings = [], workOrderCosts = [], billsOfMaterial = [],
     routingOperations = [], products = [], workOrders = [], forecasts = [], scenarios = []\<rparr>"

text \<open>A call of another service, on its part of the state, inside the same transaction.\<close>

definition call :: "'a erp_prog \<Rightarrow> 'a cost_prog" where
  "call m = (\<lambda>s. case m (books s) of (r, t) \<Rightarrow> (r, s\<lparr>books := t\<rparr>))"

lemma run_call: "call m s = (fst (m (books s)), s\<lparr>books := snd (m (books s))\<rparr>)"
  by (simp add: call_def split: prod.split)

lemma call_ok [ok_simps]: "call m s = (Inr x, t) \<longleftrightarrow> (\<exists>u. m (books s) = (Inr x, u) \<and> t = s\<lparr>books := u\<rparr>)"
  by (auto simp: call_def split: prod.splits)

lemma call_Inr [run_simps]: "m (books s) = (Inr x, u) \<Longrightarrow> call m s = (Inr x, s\<lparr>books := u\<rparr>)"
  by (simp add: call_def)

lemma call_Inl [run_simps]: "m (books s) = (Inl e, u) \<Longrightarrow> call m s = (Inl e, s\<lparr>books := u\<rparr>)"
  by (simp add: call_def)

lemma wp_call_books [wp_simps]: "wp (call m) Q E s = wp m (\<lambda>x u. Q x (s\<lparr>books := u\<rparr>)) (\<lambda>e u. E e (s\<lparr>books := u\<rparr>)) (books s)"
  by (simp add: wp_def call_def split: prod.splits sum.splits)

text \<open>\<open>prisma.$transaction\<close> around an operation of the engine.\<close>

definition cost_transaction :: "'a cost_prog \<Rightarrow> 'a cost_prog" where
  "cost_transaction m = (\<lambda>s. case m s of
     (Inl e, t) \<Rightarrow> (Inl e, s\<lparr>books := rollback_to (books s) (books t)\<rparr>)
   | (Inr x, t) \<Rightarrow> (Inr x, t))"

lemma cost_transaction_Inr [run_simps]: "m s = (Inr x, t) \<Longrightarrow> cost_transaction m s = (Inr x, t)"
  by (simp add: cost_transaction_def)

lemma cost_transaction_Inl [run_simps]:
  "m s = (Inl e, t) \<Longrightarrow> cost_transaction m s = (Inl e, s\<lparr>books := rollback_to (books s) (books t)\<rparr>)"
  by (simp add: cost_transaction_def)

lemma cost_transaction_ok [ok_simps]: "cost_transaction m s = (Inr y, u) \<longleftrightarrow> m s = (Inr y, u)"
  by (auto simp: cost_transaction_def split: prod.splits sum.splits)

section \<open>Numbers\<close>

text \<open>
  \<open>sig20\<close> rounds to 20 significant digits, half away from zero: the result of a decimal.js
  division and of a product with such a quotient.  \<open>decimal_exponent\<close> is the exponent of the
  leading digit.
\<close>

definition decimal_exponent :: "rat \<Rightarrow> int" where
  "decimal_exponent x =
     (let (p, q) = quotient_of \<bar>x\<bar>; e = int (floorlog 10 (nat p)) - int (floorlog 10 (nat q))
      in if pow10 e \<le> \<bar>x\<bar> then e else e - 1)"

definition sig20 :: "rat \<Rightarrow> rat" where
  "sig20 x = (if x = 0 then 0
     else let k = 19 - decimal_exponent x in round_away 0 (x * pow10 k) * pow10 (- k))"

text \<open>
  Evaluation of \<open>floorlog\<close> that unfolds only on numerals, so that it may stand under a binder.
\<close>

definition floorlog_if :: "bool \<Rightarrow> nat \<Rightarrow> nat \<Rightarrow> nat" where
  "floorlog_if c b n = (if c then floorlog b n else 0)"

lemma floorlog_code [code]: "floorlog b n = floorlog_if (0 < n \<and> 1 < b) b n"
  by (simp add: floorlog_if_def compute_floorlog)

lemma floorlog_if_code [code]:
  "floorlog_if False b n = 0"
  "floorlog_if True b n = (if n = 0 \<or> b \<le> 1 then 0 else Suc (floorlog_if (0 < n div b \<and> 1 < b) b (n div b)))"
  by (simp_all add: floorlog_if_def compute_floorlog)

text \<open>
  What the engine's numbers depend on outside the code: the rounding of the columns with four
  and with eight decimals, binary floating point (\<open>nb_float\<close> rounds the exact result of an
  operation on \<open>number\<close>s), and how JavaScript prints a \<open>number\<close>.
\<close>

record numbers =
  nb4 :: "rat \<Rightarrow> rat"
  nb8 :: "rat \<Rightarrow> rat"
  nb_float :: "rat \<Rightarrow> rat"
  nb_text :: "rat \<Rightarrow> string"
  nb_shown :: "rat \<Rightarrow> rat"

lemma pow10_pos [simp]: "0 < pow10 k"
  by (simp add: pow10_def)

lemma pow10_minus: "pow10 k * pow10 (- k) = 1"
  by (simp add: pow10_def)

lemma pow10_add: "pow10 (a + b) = pow10 a * pow10 b"
proof -
  have p: "pow10 k = 10 powi k" for k
    by (simp add: pow10_def power_int_def power_one_over inverse_eq_divide)
  show ?thesis unfolding p by (rule power_int_add) simp
qed

lemma pow10_nat: "pow10 (int n) = 10 ^ n" "pow10 (- int n) = 1 / 10 ^ n"
  by (auto simp: pow10_def)

lemma decimal_exponent_le:
  assumes "x \<noteq> 0"
  shows "pow10 (decimal_exponent x) \<le> \<bar>x\<bar>"
proof -
  obtain p q where pq: "quotient_of \<bar>x\<bar> = (p, q)" by (cases "quotient_of \<bar>x\<bar>")
  then have q: "0 < q" "\<bar>x\<bar> = of_int p / of_int q"
    using quotient_of_denom_pos quotient_of_div by blast+
  then have p: "0 < p" using assms by (metis abs_eq_0 abs_ge_zero div_by_0 divide_eq_0_iff not_less_iff_gr_or_eq of_int_0
        of_int_0_less_iff zero_less_abs_iff zero_less_divide_iff)
  define a b where "a = floorlog 10 (nat p)" and "b = floorlog 10 (nat q)"
  have np: "10 ^ (a - 1) \<le> nat p" and nq: "nat q < 10 ^ b" and a: "0 < a"
    using floorlog_bounds [of "nat p" 10] floorlog_bounds [of "nat q" 10] p q(1) floorlog_eq_zero_iff [of 10 "nat p"]
    by (auto simp: a_def b_def)
  have "(10 :: rat) ^ (a - 1) = of_nat (10 ^ (a - 1))" by simp
  also have "\<dots> \<le> of_nat (nat p)" using np by (rule of_nat_mono)
  finally have p': "(10 :: rat) ^ (a - 1) \<le> of_int p" using p by simp
  have "(of_nat (nat q) :: rat) < of_nat (10 ^ b)" using nq by (rule of_nat_less_iff [THEN iffD2])
  then have q': "(of_int q :: rat) < 10 ^ b" using q(1) by simp
  have "pow10 (int a - int b - 1) = 10 ^ (a - 1) / 10 ^ b"
    using pow10_add [of "int (a - 1)" "- int b"] pow10_nat(1) [of "a - 1"] pow10_nat(2) [of b] a
    by (simp add: of_nat_diff algebra_simps)
  also have "\<dots> \<le> of_int p / of_int q"
    using p' q' q(1) p by (intro frac_le) auto
  finally show ?thesis
    by (simp add: decimal_exponent_def pq q(2) [symmetric] a_def b_def Let_def)
qed

lemma sig20_near: "\<bar>sig20 x - x\<bar> \<le> \<bar>x\<bar> / (2 * 10 ^ 19)"
proof (cases "x = 0")
  case False
  define k where "k = 19 - decimal_exponent x"
  have "\<bar>round_away 0 (x * pow10 k) - x * pow10 k\<bar> \<le> 1 / 2"
    using round_away_near [of 0 "x * pow10 k"] by simp
  then have "\<bar>round_away 0 (x * pow10 k) - x * pow10 k\<bar> * pow10 (- k) \<le> 1 / 2 * pow10 (- k)"
    by (intro mult_right_mono) (simp_all add: less_imp_le)
  moreover have "\<bar>round_away 0 (x * pow10 k) - x * pow10 k\<bar> * pow10 (- k) = \<bar>sig20 x - x\<bar>"
  proof -
    have "sig20 x - x = (round_away 0 (x * pow10 k) - x * pow10 k) * pow10 (- k)"
      using pow10_minus [of k] False by (simp add: sig20_def k_def Let_def left_diff_distrib mult.assoc)
    then show ?thesis by (simp add: abs_mult abs_of_pos)
  qed
  ultimately have "\<bar>sig20 x - x\<bar> \<le> 1 / 2 * pow10 (- k)" by simp
  also have "pow10 (- k) = pow10 (decimal_exponent x) / 10 ^ 19"
    using pow10_add [of "decimal_exponent x" "- int 19"] pow10_nat(2) [of 19] by (simp add: k_def)
  also have "1 / 2 * (pow10 (decimal_exponent x) / 10 ^ 19) \<le> \<bar>x\<bar> / (2 * 10 ^ 19)"
    using decimal_exponent_le [OF False] by simp
  finally show ?thesis .
qed (simp add: sig20_def)

lemma sig20_zero [simp]: "sig20 0 = 0"
  by (simp add: sig20_def)

lemma sig20_pos:
  assumes "0 < x"
  shows "0 < sig20 x"
proof -
  have "\<bar>sig20 x - x\<bar> \<le> x / (2 * 10 ^ 19)" using sig20_near [of x] assms by simp
  moreover have "x / (2 * 10 ^ 19) < x" using assms by (simp add: field_simps)
  ultimately show ?thesis by linarith
qed

end
