(* ===== verification/CostLayers.thy ===== *)
theory CostLayers
  imports CostSchema
begin

text \<open>
  The tables of the costing engine (\<open>costing-engine.service.ts\<close>) and the helpers that read and
  write them: costing methods and standard costs, the depletion of FIFO and LIFO layers, moving
  averages, and work in process.
\<close>

section \<open>Lookups\<close>

definition today :: "costing \<Rightarrow> timestamp" where
  "today s = now (books s)"

definition resolveBaseCurrency :: "uuid \<Rightarrow> string cost_prog" where
  "resolveBaseCurrency tenantId =
     bind (gets (\<lambda>s. map_of (defaultCurrencies (books s)) tenantId)) (orThrow PrismaRecordNotFound)"

definition profile_for :: "uuid \<Rightarrow> uuid \<Rightarrow> uuid option \<Rightarrow> costing \<Rightarrow> ItemCostProfile option" where
  "profile_for tenantId productId locationId s =
     find (\<lambda>p. ip_tenantId p = tenantId \<and> ip_productId p = productId \<and> ip_locationId p = locationId) (itemCostProfiles s)"

definition resolveMethod :: "uuid \<Rightarrow> uuid \<Rightarrow> uuid \<Rightarrow> costing \<Rightarrow> CostingMethod" where
  "resolveMethod tenantId productId locationId s =
     (case profile_for tenantId productId (Some locationId) s of
        None \<Rightarrow> CostingMethod.STANDARD | Some p \<Rightarrow> ip_costingMethod p)"

definition item_cost_at :: "uuid \<Rightarrow> uuid \<Rightarrow> uuid \<Rightarrow> costing \<Rightarrow> ItemCost option" where
  "item_cost_at tenantId productId locationId s =
     find (\<lambda>c. ic_tenantId c = tenantId \<and> ic_productId c = productId \<and> ic_locationId c = locationId) (itemCosts s)"

definition getMovingAverageCost :: "uuid \<Rightarrow> uuid \<Rightarrow> uuid \<Rightarrow> costing \<Rightarrow> rat" where
  "getMovingAverageCost tenantId productId locationId s =
     (case item_cost_at tenantId productId locationId s of None \<Rightarrow> 0 | Some c \<Rightarrow> ic_currentUnitCost c)"

definition active_on :: "int \<Rightarrow> int \<Rightarrow> int option \<Rightarrow> bool" where
  "active_on day from until \<longleftrightarrow> from \<le> day \<and> (case until of None \<Rightarrow> True | Some e \<Rightarrow> day \<le> e)"

text \<open>The newest standard costing effective on a day, of any location.\<close>

definition standard_costing :: "uuid \<Rightarrow> uuid \<Rightarrow> int \<Rightarrow> costing \<Rightarrow> ProductCosting option" where
  "standard_costing tenantId productId day s =
     (case sort_key (\<lambda>c. - co_effectiveFrom c) (filter (\<lambda>c. co_tenantId c = tenantId \<and> co_productId c = productId \<and>
        co_costType c = CostType.STANDARD \<and> active_on day (co_effectiveFrom c) (co_effectiveTo c)) (productCostings s)) of
        [] \<Rightarrow> None | c # _ \<Rightarrow> Some c)"

definition getStandardCost :: "uuid \<Rightarrow> uuid \<Rightarrow> rat cost_prog" where
  "getStandardCost tenantId productId =
     bind (gets (\<lambda>s. standard_costing tenantId productId (utc_day (today s)) s)) (\<lambda>costing.
     case costing of
       Some c \<Rightarrow> return (co_totalCost c)
     | None \<Rightarrow>
         bind (gets (find (\<lambda>p. pr_id p = productId \<and> pr_tenantId p = tenantId) \<circ> products)) (\<lambda>found.
         bind (orThrow PrismaRecordNotFound found) (\<lambda>product. return (orElse (pr_standardCost product) 0))))"

definition checkpoint_of :: "uuid \<Rightarrow> uuid \<Rightarrow> costing \<Rightarrow> PeriodCloseCheckpoint option" where
  "checkpoint_of tenantId fiscalPeriodId s =
     find (\<lambda>c. ck_tenantId c = tenantId \<and> ck_fiscalPeriodId c = fiscalPeriodId) (closeCheckpoints s)"

definition assertPeriodOpen :: "uuid \<Rightarrow> uuid option \<Rightarrow> unit cost_prog" where
  "assertPeriodOpen tenantId fiscalPeriodId = (case fiscalPeriodId of
     None \<Rightarrow> return ()
   | Some f \<Rightarrow>
       bind (gets (checkpoint_of tenantId f)) (\<lambda>checkpoint.
       seq (throwIf (map_option ck_status checkpoint = Some PeriodCloseStatus.CLOSED) BadRequestException)
      (bind (gets (\<lambda>s. find_by fp_id f (fiscalPeriods (books s)))) (\<lambda>period.
       seq (throwIf (period = None) BadRequestException)
           (throwIf (map_option fp_isLocked period = Some True) BadRequestException)))))"

section \<open>Cost layers\<close>

record deplete_params =
  de_tenantId :: uuid
  de_productId :: uuid
  de_locationId :: uuid
  de_quantity :: rat
  de_method :: CostingMethod
  de_referenceType :: string
  de_referenceId :: uuid
  de_referenceNumber :: "string option"

definition depletable :: "uuid \<Rightarrow> uuid \<Rightarrow> uuid \<Rightarrow> CostLayer \<Rightarrow> bool" where
  "depletable tenantId productId locationId l \<longleftrightarrow> ly_tenantId l = tenantId \<and> ly_productId l = productId \<and>
     ly_locationId l = locationId \<and> ly_status l = CostLayerStatus.OPEN \<and> 0 < ly_remainingQty l"

text \<open>\<open>ORDER BY layer_date, created_at\<close>, ascending for FIFO and descending otherwise.\<close>

definition layers_for :: "deplete_params \<Rightarrow> costing \<Rightarrow> CostLayer list" where
  "layers_for p s =
     (let ls = filter (depletable (de_tenantId p) (de_productId p) (de_locationId p)) (costLayers s)
      in if de_method p = FIFO then sort_key ly_layerDate (sort_key ly_createdAt ls)
         else sort_key (\<lambda>l. - ly_layerDate l) (sort_key (\<lambda>l. - ly_createdAt l) ls))"

text \<open>\<open>UPDATE cost_layers ... WHERE id = layer.id AND version = layer.version\<close>.\<close>

definition update_layer :: "numbers \<Rightarrow> CostLayer \<Rightarrow> rat \<Rightarrow> unit cost_prog" where
  "update_layer D layer newRemaining =
     bind (gets (filter (\<lambda>l. ly_id l = ly_id layer \<and> ly_version l = ly_version layer) \<circ> costLayers)) (\<lambda>affected.
     seq (modify (\<lambda>s. s\<lparr>costLayers := update_where (\<lambda>l. ly_id l = ly_id layer \<and> ly_version l = ly_version layer)
            (\<lambda>l. l\<lparr>ly_remainingQty := nb4 D newRemaining,
               ly_status := (if newRemaining \<le> 0 then DEPLETED else CostLayerStatus.OPEN),
               ly_version := ly_version l + 1\<rparr>) (costLayers s)\<rparr>))
         (throwIf (affected = []) ConflictException))"

definition create_depletion :: "numbers \<Rightarrow> deplete_params \<Rightarrow> CostLayer \<Rightarrow> rat \<Rightarrow> unit cost_prog" where
  "create_depletion D p layer depleteQty =
     bind (call fresh_id) (\<lambda>i. modify (\<lambda>s. s\<lparr>costLayerDepletions := costLayerDepletions s @
       [\<lparr>dp_id = i, dp_tenantId = de_tenantId p, dp_costLayerId = ly_id layer, dp_depletedQty = nb4 D depleteQty,
         dp_unitCost = nb4 D (ly_unitCost layer), dp_totalCost = nb4 D (depleteQty * ly_unitCost layer),
         dp_referenceType = de_referenceType p, dp_referenceId = de_referenceId p,
         dp_referenceNumber = de_referenceNumber p, dp_depletedAt = today s\<rparr>]\<rparr>))"

text \<open>The loop over the locked layers; it returns what is left to deplete and the cost so far.\<close>

fun deplete_from :: "numbers \<Rightarrow> deplete_params \<Rightarrow> CostLayer list \<Rightarrow> rat \<Rightarrow> rat \<Rightarrow> (rat \<times> rat) cost_prog" where
  "deplete_from D p [] remaining totalCost = return (remaining, totalCost)"
| "deplete_from D p (layer # layers) remaining totalCost =
     (if remaining \<le> 0 then return (remaining, totalCost)
      else let depleteQty = min remaining (ly_remainingQty layer) in
        seq (update_layer D layer (ly_remainingQty layer - depleteQty))
       (seq (create_depletion D p layer depleteQty)
            (deplete_from D p layers (remaining - depleteQty) (totalCost + depleteQty * ly_unitCost layer))))"

definition depleteCostLayers :: "numbers \<Rightarrow> deplete_params \<Rightarrow> rat cost_prog" where
  "depleteCostLayers D p =
     bind (gets (layers_for p)) (\<lambda>layers.
     bind (deplete_from D p layers (de_quantity p) 0) (\<lambda>(remaining, totalCost).
     seq (throwIf (0 < remaining) BadRequestException)
         (return totalCost)))"

section \<open>Moving average\<close>

record average_params =
  ua_tenantId :: uuid
  ua_productId :: uuid
  ua_locationId :: uuid
  ua_incomingQty :: rat
  ua_incomingUnitCost :: rat
  ua_currency :: string

definition new_item_cost :: "numbers \<Rightarrow> average_params \<Rightarrow> timestamp \<Rightarrow> uuid \<Rightarrow> ItemCost" where
  "new_item_cost D p t i =
     \<lparr>ic_id = i, ic_tenantId = ua_tenantId p, ic_productId = ua_productId p, ic_locationId = ua_locationId p,
      ic_currentUnitCost = nb4 D (if 0 < ua_incomingQty p then ua_incomingUnitCost p else 0),
      ic_currentTotalQty = nb4 D (ua_incomingQty p),
      ic_currentTotalValue = nb4 D (\<bar>ua_incomingQty p\<bar> * ua_incomingUnitCost p), ic_standardCost = 0,
      ic_lastReceiptCost = nb4 D (if 0 < ua_incomingQty p then ua_incomingUnitCost p else 0),
      ic_lastReceiptDate = (if 0 < ua_incomingQty p then Some t else None), ic_lastIssueCost = None,
      ic_lastIssueDate = None, ic_currency = ua_currency p, ic_version = 1\<rparr>"

definition moved_average :: "numbers \<Rightarrow> average_params \<Rightarrow> timestamp \<Rightarrow> ItemCost \<Rightarrow> ItemCost" where
  "moved_average D p t row =
     (let newQty = ic_currentTotalQty row + ua_incomingQty p;
          newValue = ic_currentTotalValue row + ua_incomingQty p * ua_incomingUnitCost p;
          newUnitCost = (if 0 < newQty then sig20 (newValue / newQty) else ic_currentUnitCost row)
      in row\<lparr>ic_currentUnitCost := nb4 D newUnitCost, ic_currentTotalQty := nb4 D newQty,
           ic_currentTotalValue := nb4 D newValue,
           ic_lastReceiptCost := (if 0 < ua_incomingQty p then nb4 D (ua_incomingUnitCost p) else ic_lastReceiptCost row),
           ic_lastReceiptDate := (if 0 < ua_incomingQty p then Some t else ic_lastReceiptDate row),
           ic_version := ic_version row + 1\<rparr>)"

text \<open>\<open>UPDATE item_costs ... WHERE id = row.id AND version = row.version\<close>.\<close>

definition update_item_cost :: "ItemCost \<Rightarrow> (ItemCost \<Rightarrow> ItemCost) \<Rightarrow> unit cost_prog" where
  "update_item_cost row f =
     bind (gets (filter (\<lambda>c. ic_id c = ic_id row \<and> ic_version c = ic_version row) \<circ> itemCosts)) (\<lambda>affected.
     seq (modify (\<lambda>s. s\<lparr>itemCosts := update_where (\<lambda>c. ic_id c = ic_id row \<and> ic_version c = ic_version row) f (itemCosts s)\<rparr>))
         (throwIf (affected = []) ConflictException))"

definition updateMovingAverage :: "numbers \<Rightarrow> average_params \<Rightarrow> unit cost_prog" where
  "updateMovingAverage D p =
     bind (gets (item_cost_at (ua_tenantId p) (ua_productId p) (ua_locationId p))) (\<lambda>found.
     bind (gets today) (\<lambda>t.
     case found of
       None \<Rightarrow> bind (call fresh_id) (\<lambda>i. modify (\<lambda>s. s\<lparr>itemCosts := itemCosts s @ [new_item_cost D p t i]\<rparr>))
     | Some row \<Rightarrow> update_item_cost row (moved_average D p t)))"

definition adjusted_value :: "numbers \<Rightarrow> rat \<Rightarrow> ItemCost \<Rightarrow> ItemCost" where
  "adjusted_value D valueAdjustment row =
     (let newValue = ic_currentTotalValue row + valueAdjustment; qty = ic_currentTotalQty row
      in row\<lparr>ic_currentUnitCost := nb4 D (if 0 < qty then sig20 (newValue / qty) else 0),
           ic_currentTotalValue := nb4 D newValue, ic_version := ic_version row + 1\<rparr>)"

definition adjustMovingAverageValue :: "numbers \<Rightarrow> uuid \<Rightarrow> uuid \<Rightarrow> uuid \<Rightarrow> rat \<Rightarrow> unit cost_prog" where
  "adjustMovingAverageValue D tenantId productId locationId valueAdjustment =
     bind (gets (item_cost_at tenantId productId locationId)) (\<lambda>found.
     case found of None \<Rightarrow> return () | Some row \<Rightarrow> update_item_cost row (adjusted_value D valueAdjustment))"

definition updateLastIssueCost :: "numbers \<Rightarrow> uuid \<Rightarrow> uuid \<Rightarrow> uuid \<Rightarrow> rat \<Rightarrow> unit cost_prog" where
  "updateLastIssueCost D tenantId productId locationId unitCost =
     modify (\<lambda>s. s\<lparr>itemCosts := update_where (\<lambda>c. ic_tenantId c = tenantId \<and> ic_productId c = productId \<and> ic_locationId c = locationId)
       (\<lambda>c. c\<lparr>ic_lastIssueCost := Some (nb4 D unitCost), ic_lastIssueDate := Some (today s)\<rparr>) (itemCosts s)\<rparr>)"

section \<open>Work in process\<close>

definition is_wip :: "uuid \<Rightarrow> uuid \<Rightarrow> string \<Rightarrow> WIPCostAccumulation \<Rightarrow> bool" where
  "is_wip tenantId workOrderId costElement w \<longleftrightarrow> wi_tenantId w = tenantId \<and> wi_workOrderId w = workOrderId \<and>
     wi_costElement w = costElement"

text \<open>The upsert does not touch the version of an existing row.\<close>

definition accumulateWIP :: "numbers \<Rightarrow> uuid \<Rightarrow> uuid \<Rightarrow> string \<Rightarrow> rat \<Rightarrow> unit cost_prog" where
  "accumulateWIP D tenantId workOrderId costElement amount =
     bind (gets (find (is_wip tenantId workOrderId costElement) \<circ> wipAccumulations)) (\<lambda>found.
     bind (gets today) (\<lambda>t.
     case found of
       None \<Rightarrow> bind (call fresh_id) (\<lambda>i. modify (\<lambda>s. s\<lparr>wipAccumulations := wipAccumulations s @
         [\<lparr>wi_id = i, wi_tenantId = tenantId, wi_workOrderId = workOrderId, wi_costElement = costElement,
           wi_accumulatedAmount = nb4 D amount, wi_absorbedAmount = 0, wi_varianceAmount = 0, wi_version = 1,
           wi_lastTransactionDate = t\<rparr>]\<rparr>))
     | Some _ \<Rightarrow> modify (\<lambda>s. s\<lparr>wipAccumulations := update_where (is_wip tenantId workOrderId costElement)
         (\<lambda>w. w\<lparr>wi_accumulatedAmount := nb4 D (wi_accumulatedAmount w + amount), wi_lastTransactionDate := t\<rparr>)
         (wipAccumulations s)\<rparr>)))"

end
