(* ===== verification/CostEngine.thy ===== *)
theory CostEngine
  imports CostLayers "HOL-Library.AList"
begin

text \<open>
  The operations of \<open>costing-engine.service.ts\<close> that post costs: receipts, landed cost, material
  issues, labour, overhead, work order completion, scrap, revaluation and reversal.  The name of
  an operation ends in \<open>InTx\<close> where it runs inside its caller's transaction; the operation of
  the same name without it wraps its own.
\<close>

section \<open>Calls of the other services\<close>

datatype 'a handled = AlreadyProcessed "uuid option" | Processed 'a

text \<open>Guard, body and stamp of an operation that runs once per key.\<close>

definition scoped_key :: "string \<Rightarrow> uuid \<Rightarrow> string" where
  "scoped_key scope i = scope @ CHR '':'' # uuid_text i"

definition posting :: "uuid \<Rightarrow> PostingTransactionType \<Rightarrow> string \<Rightarrow> uuid \<Rightarrow> timestamp \<Rightarrow> uuid option \<Rightarrow> rat \<Rightarrow>
    uuid option \<Rightarrow> uuid option \<Rightarrow> uuid \<Rightarrow> transactional_params" where
  "posting tenantId ty referenceType referenceId t fiscalPeriodId amount productId locationId userId =
     \<lparr>tp_tenantId = tenantId, tp_transactionType = ty, tp_referenceType = referenceType, tp_referenceId = referenceId,
      tp_entryDate = t, tp_fiscalPeriodId = fiscalPeriodId, tp_amount = amount, tp_productId = productId,
      tp_locationId = locationId, tp_userId = userId\<rparr>"

definition post_journal :: "numbers \<Rightarrow> (timestamp \<Rightarrow> transactional_params) \<Rightarrow> JournalEntry cost_prog" where
  "post_journal D p = bind (gets today) (\<lambda>t. call (postTransactionalJournal (nb4 D) (p t)))"

section \<open>Purchase receipts\<close>

record receipt_params =
  gr_tenantId :: uuid
  gr_goodsReceiptId :: uuid
  gr_goodsReceiptLineId :: uuid
  gr_productId :: uuid
  gr_locationId :: uuid
  gr_quantity :: rat
  gr_unitPrice :: rat
  gr_uom :: string
  gr_purchaseCurrency :: string
  gr_baseCurrency :: "string option"
  gr_exchangeRate :: "js_quantity option"
  gr_batchId :: "uuid option"
  gr_fiscalPeriodId :: "uuid option"
  gr_userId :: uuid

record receipt_result =
  rr_costLayerId :: "uuid option"
  rr_journalEntryId :: uuid
  rr_unitCost :: rat
  rr_totalCost :: rat
  rr_method :: CostingMethod

definition rate_missing :: "js_quantity option \<Rightarrow> bool" where
  "rate_missing r \<longleftrightarrow> r = None \<or> r = Some (NumberQty 0)"

definition rate_of :: "js_quantity option \<Rightarrow> rat" where
  "rate_of r = (case r of None \<Rightarrow> 1 | Some (NumberQty x) \<Rightarrow> x | Some (DecimalQty x) \<Rightarrow> x)"

text \<open>The snapshot of the rate; the inverse of a zero \<open>Decimal\<close> is infinite, which no column takes.\<close>

definition create_rate_snapshot :: "numbers \<Rightarrow> receipt_params \<Rightarrow> string \<Rightarrow> rat \<Rightarrow> unit cost_prog" where
  "create_rate_snapshot D p baseCurrency exRate =
     seq (throwIf (exRate = 0) PrismaInvalidValue)
    (bind (call fresh_id) (\<lambda>i. modify (\<lambda>s. s\<lparr>rateSnapshots := rateSnapshots s @
       [\<lparr>cr_id = i, cr_tenantId = gr_tenantId p, cr_fromCurrency = gr_purchaseCurrency p, cr_toCurrency = baseCurrency,
         cr_rate = nb8 D exRate, cr_inverseRate = nb8 D (sig20 (1 / exRate)), cr_rateDate = utc_day (today s),
         cr_source = ''GOODS_RECEIPT'', cr_referenceType = ''GOODS_RECEIPT_LINE'',
         cr_referenceId = gr_goodsReceiptLineId p\<rparr>]\<rparr>)))"

definition receipt_layer :: "numbers \<Rightarrow> receipt_params \<Rightarrow> CostingMethod \<Rightarrow> string \<Rightarrow> rat \<Rightarrow> rat \<Rightarrow> timestamp \<Rightarrow> uuid \<Rightarrow> CostLayer" where
  "receipt_layer D p method baseCurrency exRate unitCost t i =
     \<lparr>ly_id = i, ly_tenantId = gr_tenantId p, ly_productId = gr_productId p, ly_locationId = gr_locationId p,
      ly_batchId = gr_batchId p, ly_costingMethod = method, ly_layerDate = t, ly_referenceType = ''GOODS_RECEIPT'',
      ly_referenceId = gr_goodsReceiptId p, ly_referenceNumber = Some (uuid_text (gr_goodsReceiptLineId p)),
      ly_originalQty = nb4 D (gr_quantity p), ly_remainingQty = nb4 D (gr_quantity p), ly_unitCost = nb4 D unitCost,
      ly_totalCost = nb4 D (gr_quantity p * unitCost), ly_landedCost = 0, ly_currency = baseCurrency,
      ly_exchangeRate = nb8 D exRate, ly_baseCurrCost = nb4 D unitCost, ly_fiscalPeriodId = gr_fiscalPeriodId p,
      ly_status = CostLayerStatus.OPEN, ly_version = 1, ly_createdAt = t\<rparr>"

definition create_layer :: "(timestamp \<Rightarrow> uuid \<Rightarrow> CostLayer) \<Rightarrow> uuid cost_prog" where
  "create_layer mk =
     bind (gets today) (\<lambda>t.
     bind (call fresh_id) (\<lambda>i.
     seq (modify (\<lambda>s. s\<lparr>costLayers := costLayers s @ [mk t i]\<rparr>)) (return i)))"

definition receipt_entry :: "receipt_params \<Rightarrow> rat \<Rightarrow> uuid \<Rightarrow> entry_params" where
  "receipt_entry p unitCost journalEntryId =
     (entry (gr_tenantId p) (gr_productId p) (gr_locationId p) LEDGER_RECEIPT (gr_quantity p) (gr_uom p))
       \<lparr>en_batchId := gr_batchId p, en_unitCost := Some unitCost, en_referenceType := Some ''GOODS_RECEIPT'',
        en_referenceId := Some (gr_goodsReceiptId p), en_referenceNumber := Some (uuid_text (gr_goodsReceiptLineId p)),
        en_journalEntryId := Some journalEntryId, en_createdById := Some (gr_userId p)\<rparr>"

definition calculatePurchaseReceiptCostInTx :: "numbers \<Rightarrow> receipt_params \<Rightarrow> receipt_result handled cost_prog" where
  "calculatePurchaseReceiptCostInTx D p =
     bind (case gr_baseCurrency p of Some c \<Rightarrow> return c | None \<Rightarrow> resolveBaseCurrency (gr_tenantId p)) (\<lambda>baseCurrency.
     let idempKey = scoped_key ''GR_COST'' (gr_goodsReceiptLineId p) in
     bind (call (acquire ''GR_COST'' idempKey (gr_tenantId p))) (\<lambda>existing.
     case existing of
       Some (resultId, _) \<Rightarrow> return (AlreadyProcessed resultId)
     | None \<Rightarrow>
         seq (assertPeriodOpen (gr_tenantId p) (gr_fiscalPeriodId p))
        (let foreign = (gr_purchaseCurrency p \<noteq> baseCurrency) in
         seq (throwIf (foreign \<and> rate_missing (gr_exchangeRate p)) BadRequestException)
        (let exRate = rate_of (gr_exchangeRate p);
             unitCost = (if foreign then gr_unitPrice p * exRate else gr_unitPrice p);
             totalCost = gr_quantity p * unitCost in
         seq (if foreign then create_rate_snapshot D p baseCurrency exRate else return ())
        (bind (gets (resolveMethod (gr_tenantId p) (gr_productId p) (gr_locationId p))) (\<lambda>method.
         bind (if method = FIFO \<or> method = LIFO
               then bind (create_layer (receipt_layer D p method baseCurrency exRate unitCost)) (\<lambda>i. return (Some i))
               else return None) (\<lambda>costLayerId.
         seq (if method = MOVING_AVERAGE \<or> method = CostingMethod.STANDARD
              then updateMovingAverage D \<lparr>ua_tenantId = gr_tenantId p, ua_productId = gr_productId p,
                ua_locationId = gr_locationId p, ua_incomingQty = gr_quantity p, ua_incomingUnitCost = unitCost,
                ua_currency = baseCurrency\<rparr>
              else return ())
        (bind (post_journal D (\<lambda>t. posting (gr_tenantId p) GOODS_RECEIPT ''GOODS_RECEIPT'' (gr_goodsReceiptId p) t
                (gr_fiscalPeriodId p) totalCost (Some (gr_productId p)) (Some (gr_locationId p)) (gr_userId p))) (\<lambda>journal.
         bind (call (recordEntry (nb4 D) (receipt_entry p unitCost (je_id journal)))) (\<lambda>_.
         seq (call (stamp ''GR_COST'' idempKey (gr_tenantId p) (orElse costLayerId (je_id journal))))
             (return (Processed \<lparr>rr_costLayerId = costLayerId, rr_journalEntryId = je_id journal, rr_unitCost = unitCost,
                rr_totalCost = totalCost, rr_method = method\<rparr>))))))))))))"

definition calculatePurchaseReceiptCost :: "numbers \<Rightarrow> receipt_params \<Rightarrow> receipt_result handled cost_prog" where
  "calculatePurchaseReceiptCost D p = cost_transaction (calculatePurchaseReceiptCostInTx D p)"

section \<open>Landed cost\<close>

record landed_line =
  ll_goodsReceiptLineId :: uuid
  ll_costLayerId :: "uuid option"
  ll_productId :: uuid
  ll_locationId :: uuid
  ll_costCategory :: string
  ll_amount :: rat

record landed_params =
  ld_tenantId :: uuid
  ld_goodsReceiptId :: uuid
  ld_allocations :: "landed_line list"
  ld_allocationMethod :: string
  ld_vendorInvoiceRef :: "string option"
  ld_fiscalPeriodId :: "uuid option"
  ld_userId :: uuid

text \<open>\<open>allocations.map(a => ...).join('|')\<close>\<close>

fun join_with :: "string \<Rightarrow> string list \<Rightarrow> string" where
  "join_with sep [] = []"
| "join_with sep [x] = x"
| "join_with sep (x # y # zs) = x @ sep @ join_with sep (y # zs)"

definition landed_key :: "numbers \<Rightarrow> landed_params \<Rightarrow> string" where
  "landed_key D p = ''LANDED:'' @ uuid_text (ld_goodsReceiptId p) @ '':'' @ ld_allocationMethod p @ '':'' @
     join_with ''|'' (map (\<lambda>a. uuid_text (ll_goodsReceiptLineId a) @ '':'' @ nb_text D (ll_amount a)) (ld_allocations p))"

definition add_landed_cost :: "numbers \<Rightarrow> uuid \<Rightarrow> landed_line \<Rightarrow> unit cost_prog" where
  "add_landed_cost D tenantId a = (case ll_costLayerId a of
     None \<Rightarrow> return ()
   | Some i \<Rightarrow>
       let mine = (\<lambda>l. ly_id l = i \<and> ly_tenantId l = tenantId \<and> ly_productId l = ll_productId a \<and> ly_locationId l = ll_locationId a) in
       bind (gets (\<lambda>s. filter mine (costLayers s))) (\<lambda>updated.
       seq (modify (\<lambda>s. s\<lparr>costLayers := update_where mine (\<lambda>l. l\<lparr>ly_landedCost := nb4 D (ly_landedCost l + ll_amount a),
              ly_totalCost := nb4 D (ly_totalCost l + ll_amount a)\<rparr>) (costLayers s)\<rparr>))
           (throwIf (updated = []) BadRequestException)))"

definition allocate_line :: "numbers \<Rightarrow> landed_params \<Rightarrow> landed_line \<Rightarrow> uuid cost_prog" where
  "allocate_line D p a =
     seq (throwIf (ll_amount a \<le> 0) BadRequestException)
    (bind (call fresh_id) (\<lambda>i.
     seq (modify (\<lambda>s. s\<lparr>landedAllocations := landedAllocations s @ [\<lparr>la_id = i, la_tenantId = ld_tenantId p,
            la_goodsReceiptId = ld_goodsReceiptId p, la_goodsReceiptLineId = ll_goodsReceiptLineId a,
            la_costLayerId = ll_costLayerId a, la_costCategory = ll_costCategory a,
            la_allocationMethod = ld_allocationMethod p, la_allocatedAmount = nb4 D (ll_amount a),
            la_vendorInvoiceRef = ld_vendorInvoiceRef p\<rparr>]\<rparr>))
    (seq (add_landed_cost D (ld_tenantId p) a)
    (bind (gets (resolveMethod (ld_tenantId p) (ll_productId a) (ll_locationId a))) (\<lambda>method.
     seq (if method = MOVING_AVERAGE
          then adjustMovingAverageValue D (ld_tenantId p) (ll_productId a) (ll_locationId a) (ll_amount a)
          else return ())
         (return i))))))"

fun allocate_lines :: "numbers \<Rightarrow> landed_params \<Rightarrow> landed_line list \<Rightarrow> (uuid \<times> uuid \<times> rat) list cost_prog" where
  "allocate_lines D p [] = return []"
| "allocate_lines D p (a # as) =
     bind (allocate_line D p a) (\<lambda>i.
     bind (allocate_lines D p as) (\<lambda>results. return ((i, ll_productId a, ll_amount a) # results)))"

definition allocateLandedCostInTx :: "numbers \<Rightarrow> landed_params \<Rightarrow> (rat \<times> (uuid \<times> uuid \<times> rat) list) handled cost_prog" where
  "allocateLandedCostInTx D p =
     bind (call (acquire ''LANDED_COST'' (landed_key D p) (ld_tenantId p))) (\<lambda>existing.
     if existing \<noteq> None then return (AlreadyProcessed None)
     else
       seq (assertPeriodOpen (ld_tenantId p) (ld_fiscalPeriodId p))
      (bind (allocate_lines D p (ld_allocations p)) (\<lambda>results.
       let totalAllocated = sum_list (map ll_amount (ld_allocations p)) in
       seq (if 0 < totalAllocated
            then bind (post_journal D (\<lambda>t. posting (ld_tenantId p) GOODS_RECEIPT ''LANDED_COST'' (ld_goodsReceiptId p) t
                   (ld_fiscalPeriodId p) totalAllocated None None (ld_userId p))) (\<lambda>_. return ())
            else return ())
      (seq (call (stamp ''LANDED_COST'' (landed_key D p) (ld_tenantId p) (ld_goodsReceiptId p)))
           (return (Processed (totalAllocated, results)))))))"

definition allocateLandedCost :: "numbers \<Rightarrow> landed_params \<Rightarrow> (rat \<times> (uuid \<times> uuid \<times> rat) list) handled cost_prog" where
  "allocateLandedCost D p = cost_transaction (allocateLandedCostInTx D p)"

end
