(* ===== verification/WorkOrderCosting.thy ===== *)
theory WorkOrderCosting
  imports CostEngine
begin

text \<open>
  The work order side of \<open>costing-engine.service.ts\<close>: material issues, labour and overhead into
  work in process, completion with its variances, scrap, revaluation, and the reversal of a
  posting.
\<close>

section \<open>Material issues\<close>

record issue_params =
  mi_tenantId :: uuid
  mi_workOrderId :: uuid
  mi_materialIssueId :: uuid
  mi_productId :: uuid
  mi_locationId :: uuid
  mi_quantity :: rat
  mi_uom :: string
  mi_batchId :: "uuid option"
  mi_fiscalPeriodId :: "uuid option"
  mi_userId :: uuid

record issue_result =
  ir_totalCost :: rat
  ir_unitCost :: rat
  ir_method :: CostingMethod
  ir_journalEntryId :: uuid

definition issue_cost :: "numbers \<Rightarrow> issue_params \<Rightarrow> string \<Rightarrow> CostingMethod \<Rightarrow> rat cost_prog" where
  "issue_cost D p baseCurrency method =
     (if method = FIFO \<or> method = LIFO then
        depleteCostLayers D \<lparr>de_tenantId = mi_tenantId p, de_productId = mi_productId p, de_locationId = mi_locationId p,
          de_quantity = mi_quantity p, de_method = method, de_referenceType = ''MATERIAL_ISSUE'',
          de_referenceId = mi_materialIssueId p, de_referenceNumber = None\<rparr>
      else if method = MOVING_AVERAGE then
        bind (gets (getMovingAverageCost (mi_tenantId p) (mi_productId p) (mi_locationId p))) (\<lambda>avgCost.
        seq (updateMovingAverage D \<lparr>ua_tenantId = mi_tenantId p, ua_productId = mi_productId p,
              ua_locationId = mi_locationId p, ua_incomingQty = - mi_quantity p, ua_incomingUnitCost = avgCost,
              ua_currency = baseCurrency\<rparr>)
            (return (mi_quantity p * avgCost)))
      else bind (getStandardCost (mi_tenantId p) (mi_productId p)) (\<lambda>stdCost. return (mi_quantity p * stdCost)))"

definition issue_entry :: "issue_params \<Rightarrow> rat \<Rightarrow> uuid \<Rightarrow> entry_params" where
  "issue_entry p unitCost journalEntryId =
     (entry (mi_tenantId p) (mi_productId p) (mi_locationId p) LEDGER_PRODUCTION_ISSUE (- mi_quantity p) (mi_uom p))
       \<lparr>en_batchId := mi_batchId p, en_unitCost := Some unitCost, en_referenceType := Some ''MATERIAL_ISSUE'',
        en_referenceId := Some (mi_materialIssueId p), en_journalEntryId := Some journalEntryId,
        en_createdById := Some (mi_userId p)\<rparr>"

definition issueMaterialCostInTx :: "numbers \<Rightarrow> issue_params \<Rightarrow> issue_result handled cost_prog" where
  "issueMaterialCostInTx D p =
     bind (resolveBaseCurrency (mi_tenantId p)) (\<lambda>baseCurrency.
     let idempKey = scoped_key ''MI_COST'' (mi_materialIssueId p) in
     bind (call (acquire ''MI_COST'' idempKey (mi_tenantId p))) (\<lambda>existing.
     case existing of
       Some (resultId, _) \<Rightarrow> return (AlreadyProcessed resultId)
     | None \<Rightarrow>
         seq (assertPeriodOpen (mi_tenantId p) (mi_fiscalPeriodId p))
        (seq (throwIf (mi_quantity p = 0) BadRequestException)
        (bind (gets (resolveMethod (mi_tenantId p) (mi_productId p) (mi_locationId p))) (\<lambda>method.
         bind (issue_cost D p baseCurrency method) (\<lambda>issueCost.
         let unitCost = sig20 (issueCost / mi_quantity p) in
         seq (updateLastIssueCost D (mi_tenantId p) (mi_productId p) (mi_locationId p) unitCost)
        (seq (accumulateWIP D (mi_tenantId p) (mi_workOrderId p) ''MATERIAL'' issueCost)
        (bind (post_journal D (\<lambda>t. posting (mi_tenantId p) MATERIAL_ISSUE ''MATERIAL_ISSUE'' (mi_materialIssueId p) t
                (mi_fiscalPeriodId p) issueCost (Some (mi_productId p)) (Some (mi_locationId p)) (mi_userId p))) (\<lambda>journal.
         bind (call (recordEntry (nb4 D) (issue_entry p unitCost (je_id journal)))) (\<lambda>_.
         seq (call (stamp ''MI_COST'' idempKey (mi_tenantId p) (mi_materialIssueId p)))
             (return (Processed \<lparr>ir_totalCost = issueCost, ir_unitCost = unitCost, ir_method = method,
                ir_journalEntryId = je_id journal\<rparr>))))))))))))"

definition issueMaterialCost :: "numbers \<Rightarrow> issue_params \<Rightarrow> issue_result handled cost_prog" where
  "issueMaterialCost D p = cost_transaction (issueMaterialCostInTx D p)"

section \<open>Labour and overhead\<close>

record labor_params =
  lb_tenantId :: uuid
  lb_workOrderId :: uuid
  lb_laborEntryId :: uuid
  lb_hours :: rat
  lb_costPerHour :: rat
  lb_isSetup :: bool
  lb_fiscalPeriodId :: "uuid option"
  lb_userId :: uuid

definition recordLaborCostToWIPInTx :: "numbers \<Rightarrow> labor_params \<Rightarrow> rat handled cost_prog" where
  "recordLaborCostToWIPInTx D p =
     (let idempKey = scoped_key ''LABOR_COST'' (lb_laborEntryId p) in
      bind (call (acquire ''LABOR_COST'' idempKey (lb_tenantId p))) (\<lambda>existing.
      if existing \<noteq> None then return (AlreadyProcessed None)
      else
        seq (assertPeriodOpen (lb_tenantId p) (lb_fiscalPeriodId p))
       (let laborCost = lb_hours p * lb_costPerHour p in
        seq (accumulateWIP D (lb_tenantId p) (lb_workOrderId p) (if lb_isSetup p then ''LABOR_SETUP'' else ''LABOR_RUN'') laborCost)
       (bind (post_journal D (\<lambda>t. posting (lb_tenantId p) LABOR_ABSORPTION ''LABOR_ENTRY'' (lb_laborEntryId p) t
               (lb_fiscalPeriodId p) laborCost None None (lb_userId p))) (\<lambda>_.
        seq (call (stamp ''LABOR_COST'' idempKey (lb_tenantId p) (lb_laborEntryId p)))
            (return (Processed laborCost)))))))"

definition recordLaborCostToWIP :: "numbers \<Rightarrow> labor_params \<Rightarrow> rat handled cost_prog" where
  "recordLaborCostToWIP D p = cost_transaction (recordLaborCostToWIPInTx D p)"

record overhead_params =
  oh_tenantId :: uuid
  oh_workOrderId :: uuid
  oh_referenceId :: uuid
  oh_amount :: rat
  oh_costElement :: "string option"
  oh_fiscalPeriodId :: "uuid option"
  oh_userId :: uuid

definition recordOverheadToWIPInTx :: "numbers \<Rightarrow> overhead_params \<Rightarrow> rat handled cost_prog" where
  "recordOverheadToWIPInTx D p =
     (let idempKey = scoped_key ''OVERHEAD'' (oh_referenceId p) in
      bind (call (acquire ''OVERHEAD_COST'' idempKey (oh_tenantId p))) (\<lambda>existing.
      if existing \<noteq> None then return (AlreadyProcessed None)
      else
        seq (assertPeriodOpen (oh_tenantId p) (oh_fiscalPeriodId p))
       (seq (accumulateWIP D (oh_tenantId p) (oh_workOrderId p) (orElse (oh_costElement p) ''OVERHEAD'') (oh_amount p))
       (bind (post_journal D (\<lambda>t. posting (oh_tenantId p) OVERHEAD_ABSORPTION ''OVERHEAD'' (oh_referenceId p) t
               (oh_fiscalPeriodId p) (oh_amount p) None None (oh_userId p))) (\<lambda>_.
        seq (call (stamp ''OVERHEAD_COST'' idempKey (oh_tenantId p) (oh_referenceId p)))
            (return (Processed (oh_amount p))))))))"

definition recordOverheadToWIP :: "numbers \<Rightarrow> overhead_params \<Rightarrow> rat handled cost_prog" where
  "recordOverheadToWIP D p = cost_transaction (recordOverheadToWIPInTx D p)"

section \<open>The overhead rate\<close>

text \<open>
  \<open>resolveOverheadRate\<close>: the percentage of the item's profile, else the ratio of the rates of
  the work order's first operation, which is infinite (\<open>NonFinite\<close>) where the cost per hour is 0.
\<close>

definition center_ratio :: "WorkCenter \<Rightarrow> jsnum option" where
  "center_ratio w =
     (if ce_costPerHour w = 0 then (if 0 < ce_setupCostPerHour w then Some NonFinite else None)
      else let ratio = sig20 (ce_setupCostPerHour w / ce_costPerHour w) in if 0 < ratio then Some (Finite ratio) else None)"

definition routing_ratio :: "uuid \<Rightarrow> uuid option \<Rightarrow> costing \<Rightarrow> jsnum option" where
  "routing_ratio tenantId workOrderId s =
     Option.bind workOrderId (\<lambda>w.
     Option.bind (find (\<lambda>x. wo_id x = w \<and> wo_tenantId x = tenantId) (workOrders s)) (\<lambda>wo.
     Option.bind (wo_routingId wo) (\<lambda>r.
     Option.bind (find (\<lambda>o'. ro_routingId o' = r) (routingOperations s)) (\<lambda>o'. center_ratio (ro_workCenter o')))))"

definition profile_rate :: "uuid \<Rightarrow> uuid \<Rightarrow> uuid option \<Rightarrow> costing \<Rightarrow> rat option" where
  "profile_rate tenantId productId locationId s =
     Option.bind (profile_for tenantId productId locationId s) (\<lambda>p.
     Option.bind (ip_overheadRate p) (\<lambda>r. if r = 0 then None else Some (sig20 (r / 100))))"

definition resolveOverheadRate :: "uuid \<Rightarrow> uuid \<Rightarrow> uuid option \<Rightarrow> uuid option \<Rightarrow> jsnum cost_prog" where
  "resolveOverheadRate tenantId productId locationId workOrderId =
     bind (gets (profile_rate tenantId productId locationId)) (\<lambda>rate.
     case rate of
       Some r \<Rightarrow> return (Finite r)
     | None \<Rightarrow> bind (gets (routing_ratio tenantId workOrderId)) (orThrow BadRequestException))"

section \<open>Variances\<close>

record standard_costs =
  sd_material :: rat
  sd_labor :: rat
  sd_overhead :: rat
  sd_total :: rat

record variance_result =
  vr_standard :: standard_costs
  vr_totalVariance :: rat
  vr_byElement :: "(string \<times> rat) list"

text \<open>\<open>wipByElement[element] ?? ZERO\<close>\<close>

definition amount_of :: "string \<Rightarrow> (string \<times> rat) list \<Rightarrow> rat" where
  "amount_of element amounts = (case map_of amounts element of None \<Rightarrow> 0 | Some a \<Rightarrow> a)"

definition standard_costs_for :: "ProductCosting option \<Rightarrow> rat \<Rightarrow> standard_costs" where
  "standard_costs_for costing completedQty =
     (let part = (\<lambda>f. (case costing of None \<Rightarrow> 0 | Some c \<Rightarrow> f c) * completedQty)
      in \<lparr>sd_material = part co_materialCost, sd_labor = part co_laborCost, sd_overhead = part co_overheadCost,
          sd_total = part co_totalCost\<rparr>)"

definition labor_of :: "(string \<times> rat) list \<Rightarrow> rat" where
  "labor_of wipByElement = amount_of ''LABOR_RUN'' wipByElement + amount_of ''LABOR_SETUP'' wipByElement"

definition variance_row :: "numbers \<Rightarrow> uuid \<Rightarrow> uuid \<Rightarrow> uuid \<Rightarrow> uuid option \<Rightarrow> string \<Rightarrow> rat \<Rightarrow> rat \<Rightarrow> timestamp \<Rightarrow> uuid \<Rightarrow> CostVariance" where
  "variance_row D tenantId workOrderId productId fiscalPeriodId ty std actual t i =
     (let varianceAmt = sig20 (actual - std) in
      \<lparr>cv_id = i, cv_tenantId = tenantId, cv_varianceType = ty, cv_referenceType = ''WORK_ORDER'',
       cv_referenceId = workOrderId, cv_productId = Some productId, cv_fiscalPeriodId = fiscalPeriodId,
       cv_standardAmount = nb4 D std, cv_actualAmount = nb4 D actual, cv_varianceAmount = nb4 D varianceAmt,
       cv_variancePct = nb4 D (if 0 < std then sig20 (sig20 (varianceAmt / std) * 100) else 0),
       cv_favorability = (if varianceAmt < 0 then ''FAVORABLE'' else if varianceAmt = 0 then ''NEUTRAL'' else ''UNFAVORABLE''),
       cv_createdAt = t\<rparr>)"

definition create_variance :: "(timestamp \<Rightarrow> uuid \<Rightarrow> CostVariance) \<Rightarrow> unit cost_prog" where
  "create_variance mk =
     bind (gets today) (\<lambda>t.
     bind (call fresh_id) (\<lambda>i. modify (\<lambda>s. s\<lparr>costVariances := costVariances s @ [mk t i]\<rparr>)))"

definition calculateWorkOrderVariances ::
    "numbers \<Rightarrow> uuid \<Rightarrow> uuid \<Rightarrow> uuid \<Rightarrow> rat \<Rightarrow> (string \<times> rat) list \<Rightarrow> uuid option \<Rightarrow> uuid \<Rightarrow> variance_result cost_prog" where
  "calculateWorkOrderVariances D tenantId workOrderId productId completedQty wipByElement fiscalPeriodId userId =
     bind (gets (\<lambda>s. standard_costing tenantId productId (utc_day (today s)) s)) (\<lambda>costing.
     let std = standard_costs_for costing completedQty;
         actualMaterial = amount_of ''MATERIAL'' wipByElement;
         actualLabor = labor_of wipByElement;
         actualOverhead = amount_of ''OVERHEAD'' wipByElement;
         actualTotal = sig20 (sum_list (map snd wipByElement));
         byElement = [(''MATERIAL'', actualMaterial - sd_material std), (''LABOR_RUN'', actualLabor - sd_labor std),
           (''LABOR_SETUP'', 0), (''OVERHEAD'', sig20 (actualOverhead - sd_overhead std))];
         totalVariance = sig20 (actualTotal - sd_total std)
     in seq (forEach (\<lambda>(ty, s, a). create_variance (variance_row D tenantId workOrderId productId fiscalPeriodId ty s a))
              [(''MATERIAL_USAGE'', sd_material std, actualMaterial), (''LABOR'', sd_labor std, actualLabor),
               (''OVERHEAD'', sd_overhead std, actualOverhead), (''TOTAL_PRODUCTION'', sd_total std, actualTotal)])
       (seq (if totalVariance \<noteq> 0
             then bind (post_journal D (\<lambda>t. posting tenantId PostingTransactionType.COST_VARIANCE ''WORK_ORDER'' workOrderId t fiscalPeriodId
                    \<bar>totalVariance\<bar> (Some productId) None userId)) (\<lambda>_. return ())
             else return ())
            (return \<lparr>vr_standard = std, vr_totalVariance = totalVariance, vr_byElement = byElement\<rparr>)))"

section \<open>Completion\<close>

record completion_params =
  cm_tenantId :: uuid
  cm_workOrderId :: uuid
  cm_productId :: uuid
  cm_locationId :: uuid
  cm_completedQty :: rat
  cm_scrappedQty :: "rat option"
  cm_uom :: string
  cm_batchId :: "uuid option"
  cm_fiscalPeriodId :: "uuid option"
  cm_userId :: uuid

record completion_result =
  cx_totalWIP :: rat
  cx_fgCost :: rat
  cx_scrapCost :: rat
  cx_wipPerUnit :: rat
  cx_variances :: variance_result
  cx_journalEntryId :: uuid

definition wip_rows :: "uuid \<Rightarrow> uuid \<Rightarrow> costing \<Rightarrow> WIPCostAccumulation list" where
  "wip_rows tenantId workOrderId s =
     filter (\<lambda>w. wi_tenantId w = tenantId \<and> wi_workOrderId w = workOrderId) (wipAccumulations s)"

text \<open>The object \<open>wipByElement\<close>, in the order its keys were first set.\<close>

definition by_element :: "WIPCostAccumulation list \<Rightarrow> (string \<times> rat) list" where
  "by_element rows = foldl (\<lambda>m w. AList.update (wi_costElement w) (wi_accumulatedAmount w) m) [] rows"

text \<open>The overhead that completion adds when none was accumulated; an infinite amount is refused.\<close>

definition computed_overhead :: "jsnum \<Rightarrow> (string \<times> rat) list \<Rightarrow> jsnum" where
  "computed_overhead rate wipByElement = (case rate of
     Finite r \<Rightarrow> Finite (sig20 (labor_of wipByElement * r))
   | NonFinite \<Rightarrow> if 0 < labor_of wipByElement then NonFinite else Finite 0)"

definition apply_overhead :: "numbers \<Rightarrow> uuid \<Rightarrow> uuid \<Rightarrow> jsnum \<Rightarrow> (string \<times> rat) list \<Rightarrow> ((string \<times> rat) list \<times> rat) cost_prog" where
  "apply_overhead D tenantId workOrderId rate wipByElement =
     (if amount_of ''OVERHEAD'' wipByElement \<noteq> 0 then return (wipByElement, 0)
      else case computed_overhead rate wipByElement of
        NonFinite \<Rightarrow> throw PrismaInvalidValue
      | Finite c \<Rightarrow> if 0 < c
          then seq (accumulateWIP D tenantId workOrderId ''OVERHEAD'' c)
                   (return (AList.update ''OVERHEAD'' c wipByElement, c))
          else return (wipByElement, 0))"

definition completion_layer :: "numbers \<Rightarrow> completion_params \<Rightarrow> CostingMethod \<Rightarrow> string \<Rightarrow> rat \<Rightarrow> rat \<Rightarrow> timestamp \<Rightarrow> uuid \<Rightarrow> CostLayer" where
  "completion_layer D p method baseCurrency wipPerUnit fgCost t i =
     \<lparr>ly_id = i, ly_tenantId = cm_tenantId p, ly_productId = cm_productId p, ly_locationId = cm_locationId p,
      ly_batchId = cm_batchId p, ly_costingMethod = method, ly_layerDate = t, ly_referenceType = ''WORK_ORDER'',
      ly_referenceId = cm_workOrderId p, ly_referenceNumber = None, ly_originalQty = nb4 D (cm_completedQty p),
      ly_remainingQty = nb4 D (cm_completedQty p), ly_unitCost = nb4 D wipPerUnit, ly_totalCost = nb4 D fgCost,
      ly_landedCost = 0, ly_currency = baseCurrency, ly_exchangeRate = 1, ly_baseCurrCost = 0,
      ly_fiscalPeriodId = cm_fiscalPeriodId p, ly_status = CostLayerStatus.OPEN, ly_version = 1, ly_createdAt = t\<rparr>"

definition completion_entry :: "completion_params \<Rightarrow> rat \<Rightarrow> uuid \<Rightarrow> entry_params" where
  "completion_entry p unitCost journalEntryId =
     (entry (cm_tenantId p) (cm_productId p) (cm_locationId p) LEDGER_PRODUCTION_RECEIPT (cm_completedQty p) (cm_uom p))
       \<lparr>en_batchId := cm_batchId p, en_unitCost := Some unitCost, en_referenceType := Some ''WORK_ORDER'',
        en_referenceId := Some (cm_workOrderId p), en_journalEntryId := Some journalEntryId,
        en_createdById := Some (cm_userId p)\<rparr>"

text \<open>One row of the absorption loop, under its optimistic lock.\<close>

definition absorb_row :: "numbers \<Rightarrow> (string \<times> rat) list \<Rightarrow> WIPCostAccumulation \<Rightarrow> unit cost_prog" where
  "absorb_row D byElement row =
     bind (gets (filter (\<lambda>w. wi_id w = wi_id row \<and> wi_version w = wi_version row) \<circ> wipAccumulations)) (\<lambda>affected.
     seq (modify (\<lambda>s. s\<lparr>wipAccumulations := update_where (\<lambda>w. wi_id w = wi_id row \<and> wi_version w = wi_version row)
            (\<lambda>w. w\<lparr>wi_absorbedAmount := wi_accumulatedAmount w,
               wi_varianceAmount := nb4 D (amount_of (wi_costElement row) byElement), wi_version := wi_version w + 1\<rparr>)
            (wipAccumulations s)\<rparr>))
         (throwIf (affected = []) ConflictException))"

definition work_order_cost :: "numbers \<Rightarrow> completion_params \<Rightarrow> (string \<times> rat) list \<Rightarrow> rat \<Rightarrow> rat \<Rightarrow> rat \<Rightarrow> variance_result \<Rightarrow> uuid \<Rightarrow> WorkOrderCost" where
  "work_order_cost D p wipByElement scrapCost totalWIP wipPerUnit v tenantId =
     (let d = nb4 D; std = vr_standard v; diff = (\<lambda>e. amount_of e (vr_byElement v)) in
      \<lparr>wc_tenantId = tenantId, wc_workOrderId = cm_workOrderId p, wc_materialCost = d (amount_of ''MATERIAL'' wipByElement),
       wc_laborCost = d (labor_of wipByElement), wc_overheadCost = d (amount_of ''OVERHEAD'' wipByElement),
       wc_subcontractCost = d (amount_of ''SUBCONTRACT'' wipByElement), wc_scrapCost = d scrapCost,
       wc_totalCost = d totalWIP, wc_costPerUnit = d wipPerUnit, wc_completedQty = d (cm_completedQty p),
       wc_stdMaterialCost = d (sd_material std), wc_stdLaborCost = d (sd_labor std),
       wc_stdOverheadCost = d (sd_overhead std), wc_stdTotalCost = d (sd_total std),
       wc_materialVariance = d (diff ''MATERIAL''), wc_laborVariance = d (diff ''LABOR_RUN'' + diff ''LABOR_SETUP''),
       wc_overheadVariance = d (diff ''OVERHEAD''), wc_totalVariance = d (vr_totalVariance v)\<rparr>)"

text \<open>\<open>workOrderCost.upsert\<close>: the row is unique per work order, which must exist.\<close>

definition upsert_work_order_cost :: "uuid \<Rightarrow> (uuid \<Rightarrow> WorkOrderCost) \<Rightarrow> uuid \<Rightarrow> unit cost_prog" where
  "upsert_work_order_cost workOrderId mk tenantId =
     bind (gets (\<lambda>s. (find_by wc_workOrderId workOrderId (workOrderCosts s), find_by wo_id workOrderId (workOrders s)))) (\<lambda>(found, order).
     case found of
       Some _ \<Rightarrow> modify (\<lambda>s. s\<lparr>workOrderCosts := set_row wc_workOrderId workOrderId (\<lambda>w. mk (wc_tenantId w)) (workOrderCosts s)\<rparr>)
     | None \<Rightarrow> seq (throwIf (order = None) PrismaForeignKeyViolation)
         (modify (\<lambda>s. s\<lparr>workOrderCosts := workOrderCosts s @ [mk tenantId]\<rparr>)))"

definition wip_per_unit :: "rat \<Rightarrow> rat \<Rightarrow> rat" where
  "wip_per_unit totalWIP totalOutputQty = (if 0 < totalOutputQty then sig20 (totalWIP / totalOutputQty) else totalWIP)"

definition completeWorkOrderCostInTx :: "numbers \<Rightarrow> completion_params \<Rightarrow> completion_result handled cost_prog" where
  "completeWorkOrderCostInTx D p =
     (let idempKey = scoped_key ''WO_COST_COMPLETE'' (cm_workOrderId p); tenantId = cm_tenantId p in
      bind (call (acquire ''WO_COST_COMPLETE'' idempKey tenantId)) (\<lambda>existing.
      if existing \<noteq> None then return (AlreadyProcessed None)
      else
        seq (assertPeriodOpen tenantId (cm_fiscalPeriodId p))
       (bind (resolveBaseCurrency tenantId) (\<lambda>baseCurrency.
        let compQty = cm_completedQty p; scrapQty = orElse (cm_scrappedQty p) 0 in
        bind (gets (wip_rows tenantId (cm_workOrderId p))) (\<lambda>rows.
        bind (resolveOverheadRate tenantId (cm_productId p) (Some (cm_locationId p)) (Some (cm_workOrderId p))) (\<lambda>rate.
        bind (apply_overhead D tenantId (cm_workOrderId p) rate (by_element rows)) (\<lambda>(wipByElement, overhead).
        let totalWIP = sig20 (sum_list (map wi_accumulatedAmount rows) + overhead);
            wipPerUnit = wip_per_unit totalWIP (compQty + scrapQty);
            fgCost = sig20 (compQty * wipPerUnit);
            scrapCost = sig20 (scrapQty * wipPerUnit)
        in bind (gets (resolveMethod tenantId (cm_productId p) (cm_locationId p))) (\<lambda>method.
        seq (if method = FIFO \<or> method = LIFO
             then bind (create_layer (completion_layer D p method baseCurrency wipPerUnit fgCost)) (\<lambda>_. return ())
             else updateMovingAverage D \<lparr>ua_tenantId = tenantId, ua_productId = cm_productId p,
               ua_locationId = cm_locationId p, ua_incomingQty = compQty, ua_incomingUnitCost = wipPerUnit,
               ua_currency = baseCurrency\<rparr>)
       (bind (post_journal D (\<lambda>t. posting tenantId PRODUCTION_RECEIPT ''WORK_ORDER'' (cm_workOrderId p) t
               (cm_fiscalPeriodId p) fgCost (Some (cm_productId p)) (Some (cm_locationId p)) (cm_userId p))) (\<lambda>fgJournal.
        seq (if 0 < scrapCost
             then bind (post_journal D (\<lambda>t. posting tenantId SCRAP ''WORK_ORDER'' (cm_workOrderId p) t
                    (cm_fiscalPeriodId p) scrapCost (Some (cm_productId p)) (Some (cm_locationId p)) (cm_userId p))) (\<lambda>_. return ())
             else return ())
       (bind (call (recordEntry (nb4 D) (completion_entry p wipPerUnit (je_id fgJournal)))) (\<lambda>_.
        bind (calculateWorkOrderVariances D tenantId (cm_workOrderId p) (cm_productId p) compQty wipByElement
               (cm_fiscalPeriodId p) (cm_userId p)) (\<lambda>v.
        seq (forEach (absorb_row D (vr_byElement v)) rows)
       (seq (upsert_work_order_cost (cm_workOrderId p) (work_order_cost D p wipByElement scrapCost totalWIP wipPerUnit v) tenantId)
       (seq (call (stamp ''WO_COST_COMPLETE'' idempKey tenantId (cm_workOrderId p)))
            (return (Processed \<lparr>cx_totalWIP = totalWIP, cx_fgCost = fgCost, cx_scrapCost = scrapCost,
               cx_wipPerUnit = wipPerUnit, cx_variances = v, cx_journalEntryId = je_id fgJournal\<rparr>)))))))))))))))))"

definition completeWorkOrderCost :: "numbers \<Rightarrow> completion_params \<Rightarrow> completion_result handled cost_prog" where
  "completeWorkOrderCost D p = cost_transaction (completeWorkOrderCostInTx D p)"

section \<open>Scrap\<close>

record scrap_params =
  sp_tenantId :: uuid
  sp_productId :: uuid
  sp_locationId :: uuid
  sp_quantity :: rat
  sp_uom :: string
  sp_workOrderId :: "uuid option"
  sp_referenceId :: uuid
  sp_fiscalPeriodId :: "uuid option"
  sp_userId :: uuid

definition scrap_entry :: "scrap_params \<Rightarrow> rat \<Rightarrow> entry_params" where
  "scrap_entry p unitCost =
     (entry (sp_tenantId p) (sp_productId p) (sp_locationId p) LEDGER_SCRAP (- sp_quantity p) (sp_uom p))
       \<lparr>en_unitCost := Some unitCost, en_referenceType := Some ''SCRAP'', en_referenceId := Some (sp_referenceId p),
        en_createdById := Some (sp_userId p)\<rparr>"

text \<open>Quantity 0 costs nothing, so the posting refuses it before the unit cost is divided.\<close>

definition costScrapInTx :: "numbers \<Rightarrow> scrap_params \<Rightarrow> rat cost_prog" where
  "costScrapInTx D p =
     seq (assertPeriodOpen (sp_tenantId p) (sp_fiscalPeriodId p))
    (bind (gets (resolveMethod (sp_tenantId p) (sp_productId p) (sp_locationId p))) (\<lambda>method.
     bind (if method = FIFO \<or> method = LIFO
           then depleteCostLayers D \<lparr>de_tenantId = sp_tenantId p, de_productId = sp_productId p,
             de_locationId = sp_locationId p, de_quantity = sp_quantity p, de_method = method,
             de_referenceType = ''SCRAP'', de_referenceId = sp_referenceId p, de_referenceNumber = None\<rparr>
           else bind (gets (getMovingAverageCost (sp_tenantId p) (sp_productId p) (sp_locationId p))) (\<lambda>avgCost.
             return (sp_quantity p * avgCost))) (\<lambda>scrapCost.
     seq (case sp_workOrderId p of None \<Rightarrow> return ()
          | Some w \<Rightarrow> accumulateWIP D (sp_tenantId p) w ''SCRAP'' scrapCost)
    (bind (post_journal D (\<lambda>t. posting (sp_tenantId p) SCRAP ''SCRAP'' (sp_referenceId p) t (sp_fiscalPeriodId p)
            scrapCost (Some (sp_productId p)) (Some (sp_locationId p)) (sp_userId p))) (\<lambda>_.
     bind (call (recordEntry (nb4 D) (scrap_entry p (sig20 (scrapCost / sp_quantity p))))) (\<lambda>_.
     return scrapCost))))))"

definition costScrap :: "numbers \<Rightarrow> scrap_params \<Rightarrow> rat cost_prog" where
  "costScrap D p = cost_transaction (costScrapInTx D p)"

section \<open>Revaluation and reversal\<close>

record revalue_params =
  re_tenantId :: uuid
  re_productId :: uuid
  re_locationId :: uuid
  re_newUnitCost :: rat
  re_fiscalPeriodId :: "uuid option"
  re_userId :: uuid

definition revaluation_row :: "numbers \<Rightarrow> revalue_params \<Rightarrow> ItemCost \<Rightarrow> string \<Rightarrow> uuid \<Rightarrow> timestamp \<Rightarrow> uuid \<Rightarrow> RevaluationHistory" where
  "revaluation_row D p row revalNumber journalEntryId t i =
     \<lparr>rv_id = i, rv_tenantId = re_tenantId p, rv_revaluationNumber = revalNumber, rv_revaluationType = ''COST_CHANGE'',
      rv_productId = re_productId p, rv_locationId = re_locationId p, rv_fiscalPeriodId = re_fiscalPeriodId p,
      rv_oldUnitCost = ic_currentUnitCost row, rv_newUnitCost = nb4 D (re_newUnitCost p),
      rv_affectedQty = ic_currentTotalQty row,
      rv_revaluationAmount = nb4 D (ic_currentTotalQty row * re_newUnitCost p - ic_currentTotalValue row),
      rv_journalEntryId = Some journalEntryId, rv_status = RevaluationStatus.POSTED, rv_performedById = re_userId p,
      rv_performedAt = t\<rparr>"

definition revalued :: "numbers \<Rightarrow> rat \<Rightarrow> ItemCost \<Rightarrow> ItemCost" where
  "revalued D newCost row =
     row\<lparr>ic_currentUnitCost := nb4 D newCost, ic_currentTotalValue := nb4 D (ic_currentTotalQty row * newCost),
       ic_version := ic_version row + 1\<rparr>"

definition revalueInventoryInTx :: "numbers \<Rightarrow> revalue_params \<Rightarrow> RevaluationHistory cost_prog" where
  "revalueInventoryInTx D p =
     seq (assertPeriodOpen (re_tenantId p) (re_fiscalPeriodId p))
    (bind (gets (item_cost_at (re_tenantId p) (re_productId p) (re_locationId p))) (\<lambda>found.
     bind (orThrow BadRequestException found) (\<lambda>row.
     bind (call (nextNumber ''RV'')) (\<lambda>revalNumber.
     bind (post_journal D (\<lambda>t. posting (re_tenantId p) INVENTORY_ADJUSTMENT ''REVALUATION'' (ic_id row) t
            (re_fiscalPeriodId p) \<bar>ic_currentTotalQty row * re_newUnitCost p - ic_currentTotalValue row\<bar>
            (Some (re_productId p)) (Some (re_locationId p)) (re_userId p))) (\<lambda>journal.
     seq (update_item_cost row (revalued D (re_newUnitCost p)))
    (bind (gets today) (\<lambda>t.
     bind (call fresh_id) (\<lambda>i.
     let history = revaluation_row D p row revalNumber (je_id journal) t i in
     seq (modify (\<lambda>s. s\<lparr>revaluationHistory := revaluationHistory s @ [history]\<rparr>)) (return history)))))))))"

definition revalueInventory :: "numbers \<Rightarrow> revalue_params \<Rightarrow> RevaluationHistory cost_prog" where
  "revalueInventory D p = withRetry None (cost_transaction (revalueInventoryInTx D p))"

definition reverseTransaction :: "uuid \<Rightarrow> uuid \<Rightarrow> uuid \<Rightarrow> JournalEntry cost_prog" where
  "reverseTransaction tenantId journalEntryId userId = call (reverseJournalEntryById tenantId journalEntryId userId)"

end
