(* ===== verification/CostRollup.thy ===== *)
theory CostRollup
  imports WorkOrderCosting
begin

text \<open>
  The standard cost rollup of \<open>costing-engine.service.ts\<close>: the material cost of a bill of
  material, with phantom components exploded, and the labour, overhead and subcontract cost of
  its routing.  Hours are computed on binary floating point \<open>number\<close>s: \<open>nb_float\<close> rounds the
  exact result of each operation.
\<close>

section \<open>Material\<close>

definition active_bom :: "uuid \<Rightarrow> uuid \<Rightarrow> int \<Rightarrow> costing \<Rightarrow> BillOfMaterial option" where
  "active_bom tenantId productId day s =
     find (\<lambda>b. bm_tenantId b = tenantId \<and> bm_parentProductId b = productId \<and> bm_status b = ACTIVE \<and>
       active_on day (bm_effectiveFrom b) (bm_effectiveTo b)) (billsOfMaterial s)"

text \<open>
  \<open>recursiveMaterialCost\<close>: \<open>material_cost\<close> is the recursion on the depth, \<open>component_costs\<close> the
  loop over the components.  A phantom component joins the set of visited products for the rest
  of the loop, and the recursion gets a copy of the set; the base quantity of a phantom's bill is
  not used.  The first argument counts down from the depth limit of 20, so that running out is the
  test \<open>depth > 20\<close>.
\<close>

definition extended_quantity :: "BOMComponent \<Rightarrow> rat" where
  "extended_quantity c = sig20 (bc_quantity c * (1 + sig20 (bc_scrapPercent c / 100)))"

function (sequential) material_cost :: "uuid \<Rightarrow> int \<Rightarrow> nat \<Rightarrow> BOMComponent list \<Rightarrow> uuid list \<Rightarrow> rat \<Rightarrow> rat cost_prog" where
  "material_cost tenantId day left [] visited acc = return acc"
| "material_cost tenantId day left (c # cs) visited acc =
     (if bc_isPhantom c then
        if bc_componentProductId c \<in> set visited then throw BadRequestException
        else let visited' = bc_componentProductId c # visited in
          bind (gets (active_bom tenantId (bc_componentProductId c) day)) (\<lambda>childBom.
          bind (case childBom of
                  None \<Rightarrow> return acc
                | Some b \<Rightarrow>
                    if left = 0 then throw BadRequestException
                    else bind (material_cost tenantId day (left - 1) (bm_components b) visited' 0) (\<lambda>childCost.
                         return (sig20 (acc + sig20 (extended_quantity c * childCost))))) (\<lambda>acc'.
          material_cost tenantId day left cs visited' acc'))
      else
        bind (getStandardCost tenantId (bc_componentProductId c)) (\<lambda>compCost.
        material_cost tenantId day left cs visited (sig20 (acc + sig20 (extended_quantity c * compCost)))))"
  by pat_completeness auto
termination
  by (relation "measures [\<lambda>(_, _, left, _, _, _). left, \<lambda>(_, _, _, cs, _, _). length cs]") auto

declare material_cost.simps [simp del]

definition recursiveMaterialCost :: "uuid \<Rightarrow> BillOfMaterial \<Rightarrow> int \<Rightarrow> uuid \<Rightarrow> rat cost_prog" where
  "recursiveMaterialCost tenantId bom day productId =
     material_cost tenantId day 20 (sort_key bc_sequence (bm_components bom)) [productId] 0"

section \<open>Routing\<close>

definition active_routing :: "BillOfMaterial \<Rightarrow> Routing option" where
  "active_routing bom =
     (case rev (sort_key rt_version (filter (\<lambda>r. rt_status r = ACTIVE) (bm_routings bom))) of [] \<Rightarrow> None | r # _ \<Rightarrow> Some r)"

definition total_hours :: "numbers \<Rightarrow> rat \<Rightarrow> RoutingOperation \<Rightarrow> rat" where
  "total_hours D baseQty o' =
     (let fl = nb_float D;
          eff = max (fl (fl (ce_efficiency (ro_workCenter o')) / 100)) (fl (1 / 100));
          setupHours = fl (fl (ro_setupTime o') / 60);
          runHours = fl (fl (fl (ro_runTimePerUnit o') * baseQty) / 60)
      in fl (fl (setupHours + runHours) / eff))"

record rolled_costs =
  rc_labor :: rat
  rc_overhead :: rat
  rc_subcontract :: rat

definition add_operation :: "numbers \<Rightarrow> rat \<Rightarrow> rat \<Rightarrow> rolled_costs \<Rightarrow> RoutingOperation \<Rightarrow> rolled_costs" where
  "add_operation D baseQty overheadRate acc o' =
     (let cost = sig20 (nb_shown D (total_hours D baseQty o') * ce_costPerHour (ro_workCenter o')) in
      if ro_isSubcontracted o' then acc\<lparr>rc_subcontract := sig20 (rc_subcontract acc + cost)\<rparr>
      else acc\<lparr>rc_labor := sig20 (rc_labor acc + cost),
            rc_overhead := sig20 (rc_overhead acc + sig20 (cost * overheadRate))\<rparr>)"

definition routing_costs :: "numbers \<Rightarrow> rat \<Rightarrow> rat \<Rightarrow> BillOfMaterial \<Rightarrow> costing \<Rightarrow> rolled_costs" where
  "routing_costs D baseQty overheadRate bom s =
     (case active_routing bom of
        None \<Rightarrow> \<lparr>rc_labor = 0, rc_overhead = 0, rc_subcontract = 0\<rparr>
      | Some r \<Rightarrow> foldl (add_operation D baseQty overheadRate) \<lparr>rc_labor = 0, rc_overhead = 0, rc_subcontract = 0\<rparr>
          (sort_key ro_sequence (filter (\<lambda>o'. ro_routingId o' = rt_id r) (routingOperations s))))"

section \<open>The rollup\<close>

record rollup_params =
  ru_tenantId :: uuid
  ru_productId :: uuid
  ru_effectiveDate :: "timestamp option"
  ru_locationId :: "uuid option"
  ru_version :: "string option"

definition unit_cost :: "numbers \<Rightarrow> rat \<Rightarrow> rat \<Rightarrow> rat" where
  "unit_cost D baseQty cost = (if 0 < baseQty then sig20 (cost / nb_shown D baseQty) else cost)"

definition is_costing :: "rollup_params \<Rightarrow> int \<Rightarrow> ProductCosting \<Rightarrow> bool" where
  "is_costing p day c \<longleftrightarrow> co_tenantId c = ru_tenantId p \<and> co_productId c = ru_productId p \<and>
     co_costType c = CostType.STANDARD \<and> co_locationId c = ru_locationId p \<and> co_effectiveFrom c = day"

definition total_cost :: "rat \<Rightarrow> rolled_costs \<Rightarrow> rat" where
  "total_cost unitMat u = sig20 (sig20 (sig20 (unitMat + rc_labor u) + rc_overhead u) + rc_subcontract u)"

definition costing_data :: "numbers \<Rightarrow> rat \<Rightarrow> rolled_costs \<Rightarrow> string \<Rightarrow> ProductCosting \<Rightarrow> ProductCosting" where
  "costing_data D unitMat u version c =
     c\<lparr>co_materialCost := nb4 D unitMat, co_laborCost := nb4 D (rc_labor u), co_overheadCost := nb4 D (rc_overhead u),
       co_subcontractCost := nb4 D (rc_subcontract u),
       co_totalCost := nb4 D (total_cost unitMat u), co_version := Some version\<rparr>"

text \<open>The update of an existing costing of the same location and date, or a new row.\<close>

definition save_costing :: "numbers \<Rightarrow> rollup_params \<Rightarrow> int \<Rightarrow> (ProductCosting \<Rightarrow> ProductCosting) \<Rightarrow> ProductCosting cost_prog" where
  "save_costing D p day data =
     bind (gets (find (is_costing p day) \<circ> productCostings)) (\<lambda>existing.
     case existing of
       Some c \<Rightarrow> seq (modify (\<lambda>s. s\<lparr>productCostings := set_row co_id (co_id c) data (productCostings s)\<rparr>)) (return (data c))
     | None \<Rightarrow> bind (call fresh_id) (\<lambda>i.
         let c = data \<lparr>co_id = i, co_tenantId = ru_tenantId p, co_productId = ru_productId p, co_locationId = ru_locationId p,
           co_costType = CostType.STANDARD, co_effectiveFrom = day, co_effectiveTo = None, co_materialCost = 0, co_laborCost = 0,
           co_overheadCost = 0, co_subcontractCost = 0, co_totalCost = 0, co_version = None\<rparr>
         in seq (modify (\<lambda>s. s\<lparr>productCostings := productCostings s @ [c]\<rparr>)) (return c)))"

text \<open>
  The standard cost in \<open>item_costs\<close>, at the location or at the empty string, which is no
  identifier: that lookup fails.
\<close>

definition save_standard_cost :: "numbers \<Rightarrow> rollup_params \<Rightarrow> rat \<Rightarrow> unit cost_prog" where
  "save_standard_cost D p totalCost = (case ru_locationId p of
     None \<Rightarrow> throw PrismaInvalidValue
   | Some l \<Rightarrow>
       bind (gets (item_cost_at (ru_tenantId p) (ru_productId p) l)) (\<lambda>existing.
       case existing of
         Some c \<Rightarrow> modify (\<lambda>s. s\<lparr>itemCosts := set_row ic_id (ic_id c) (\<lambda>c. c\<lparr>ic_standardCost := nb4 D totalCost\<rparr>) (itemCosts s)\<rparr>)
       | None \<Rightarrow> bind (call fresh_id) (\<lambda>i. modify (\<lambda>s. s\<lparr>itemCosts := itemCosts s @
           [\<lparr>ic_id = i, ic_tenantId = ru_tenantId p, ic_productId = ru_productId p, ic_locationId = l, ic_currentUnitCost = 0,
             ic_currentTotalQty = 0, ic_currentTotalValue = 0, ic_standardCost = nb4 D totalCost, ic_lastReceiptCost = 0,
             ic_lastReceiptDate = None, ic_lastIssueCost = None, ic_lastIssueDate = None, ic_currency = ''USD'',
             ic_version = 1\<rparr>]\<rparr>))))"

definition rollupStandardCostInTx :: "numbers \<Rightarrow> rollup_params \<Rightarrow> ProductCosting cost_prog" where
  "rollupStandardCostInTx D p =
     bind (gets today) (\<lambda>t.
     let day = utc_day (orElse (ru_effectiveDate p) t) in
     bind (gets (active_bom (ru_tenantId p) (ru_productId p) day)) (\<lambda>found.
     bind (orThrow BadRequestException found) (\<lambda>bom.
     let baseQty = nb_float D (bm_baseQuantity bom) in
     bind (recursiveMaterialCost (ru_tenantId p) bom day (ru_productId p)) (\<lambda>materialCost.
     bind (resolveOverheadRate (ru_tenantId p) (ru_productId p) (ru_locationId p) None) (\<lambda>rate.
     bind (gets (routing_costs D baseQty (num_of rate) bom)) (\<lambda>c.
     let u = \<lparr>rc_labor = unit_cost D baseQty (rc_labor c), rc_overhead = unit_cost D baseQty (rc_overhead c),
           rc_subcontract = unit_cost D baseQty (rc_subcontract c)\<rparr>;
         unitMat = unit_cost D baseQty materialCost;
         totalCost = total_cost unitMat u
     in bind (save_costing D p day (costing_data D unitMat u (orElse (ru_version p) (''STD-'' @ iso_date (orElse (ru_effectiveDate p) t))))) (\<lambda>costing.
        seq (save_standard_cost D p totalCost)
            (return costing))))))))"

definition rollupStandardCost :: "numbers \<Rightarrow> rollup_params \<Rightarrow> ProductCosting cost_prog" where
  "rollupStandardCost D p = cost_transaction (rollupStandardCostInTx D p)"

end
