(* ===== verification/CostPeriods.thy ===== *)
theory CostPeriods
  imports CostRollup
begin

text \<open>
  Periods in \<open>costing-engine.service.ts\<close>: the valuation snapshot with its reconciliation against
  the general ledger, the close and the reopening of a period; the maintenance of cost profiles;
  and the engine's reports.  Reports return the values before their \<open>toNumber()\<close>.
\<close>

section \<open>Valuation snapshot\<close>

text \<open>
  A row of the snapshot query: stock levels joined with item costs, with the cost profiles of the
  location or of no location, and with the number of open layers.
\<close>

record snapshot_row =
  sn_productId :: uuid
  sn_locationId :: uuid
  sn_onHandQty :: rat
  sn_unitCost :: rat
  sn_totalValue :: rat
  sn_costingMethod :: CostingMethod
  sn_openLayerCount :: nat

text \<open>The rows of the right table that join, or one row of nulls.\<close>

definition left_join :: "('r \<Rightarrow> bool) \<Rightarrow> 'r list \<Rightarrow> 'r option list" where
  "left_join on rows = (case filter on rows of [] \<Rightarrow> [None] | rs \<Rightarrow> map Some rs)"

definition open_layer_count :: "InventoryLevel \<Rightarrow> costing \<Rightarrow> nat" where
  "open_layer_count il s =
     length (filter (\<lambda>l. ly_status l = CostLayerStatus.OPEN \<and> ly_tenantId l = lv_tenantId il \<and>
       ly_productId l = lv_productId il \<and> ly_locationId l = lv_locationId il) (costLayers s))"

definition snapshot_row_of :: "costing \<Rightarrow> InventoryLevel \<Rightarrow> ItemCost option \<Rightarrow> ItemCostProfile option \<Rightarrow> snapshot_row" where
  "snapshot_row_of s il ic icp =
     (let unitCost = (case ic of None \<Rightarrow> 0 | Some c \<Rightarrow> ic_currentUnitCost c) in
      \<lparr>sn_productId = lv_productId il, sn_locationId = lv_locationId il, sn_onHandQty = lv_onHandQty il,
       sn_unitCost = unitCost, sn_totalValue = lv_onHandQty il * unitCost,
       sn_costingMethod = (case icp of None \<Rightarrow> CostingMethod.STANDARD | Some p \<Rightarrow> ip_costingMethod p),
       sn_openLayerCount = open_layer_count il s\<rparr>)"

definition same_item :: "InventoryLevel \<Rightarrow> ItemCost \<Rightarrow> bool" where
  "same_item il c \<longleftrightarrow> ic_tenantId c = lv_tenantId il \<and> ic_productId c = lv_productId il \<and> ic_locationId c = lv_locationId il"

definition applies_to :: "InventoryLevel \<Rightarrow> ItemCostProfile \<Rightarrow> bool" where
  "applies_to il p \<longleftrightarrow> ip_tenantId p = lv_tenantId il \<and> ip_productId p = lv_productId il \<and>
     (ip_locationId p = Some (lv_locationId il) \<or> ip_locationId p = None)"

definition snapshot_rows :: "uuid \<Rightarrow> costing \<Rightarrow> snapshot_row list" where
  "snapshot_rows tenantId s =
     [snapshot_row_of s il ic icp.
        il \<leftarrow> filter (\<lambda>il. lv_tenantId il = tenantId \<and> 0 < lv_onHandQty il) (levels (books s)),
        ic \<leftarrow> left_join (same_item il) (itemCosts s),
        icp \<leftarrow> left_join (applies_to il) (itemCostProfiles s)]"

definition is_snapshot :: "uuid \<Rightarrow> uuid \<Rightarrow> snapshot_row \<Rightarrow> PeriodValuationSnapshot \<Rightarrow> bool" where
  "is_snapshot tenantId fiscalPeriodId r v \<longleftrightarrow> vs_tenantId v = tenantId \<and> vs_fiscalPeriodId v = fiscalPeriodId \<and>
     vs_productId v = sn_productId r \<and> vs_locationId v = sn_locationId r"

definition upsert_snapshot :: "numbers \<Rightarrow> uuid \<Rightarrow> uuid \<Rightarrow> string \<Rightarrow> snapshot_row \<Rightarrow> unit cost_prog" where
  "upsert_snapshot D tenantId fiscalPeriodId baseCurrency r =
     (let row = \<lparr>vs_tenantId = tenantId, vs_fiscalPeriodId = fiscalPeriodId, vs_productId = sn_productId r,
        vs_locationId = sn_locationId r, vs_onHandQty = nb4 D (sn_onHandQty r), vs_unitCost = nb4 D (sn_unitCost r),
        vs_totalValue = nb4 D (sn_totalValue r), vs_costingMethod = sn_costingMethod r,
        vs_openLayerCount = sn_openLayerCount r, vs_currency = baseCurrency\<rparr>
      in modify (\<lambda>s. s\<lparr>valuationSnapshots :=
        (if filter (is_snapshot tenantId fiscalPeriodId r) (valuationSnapshots s) = [] then valuationSnapshots s @ [row]
         else update_where (is_snapshot tenantId fiscalPeriodId r) (\<lambda>_. row) (valuationSnapshots s))\<rparr>))"

text \<open>The balance of the accounts flagged as inventory, over all posted entries of the tenant.\<close>

definition gl_inventory_total :: "uuid \<Rightarrow> costing \<Rightarrow> rat" where
  "gl_inventory_total tenantId s =
     sum_list [jl_debitAmount l - jl_creditAmount l.
       je \<leftarrow> filter (\<lambda>je. je_tenantId je = tenantId \<and> je_status je = JournalEntryStatus.POSTED) (journalEntries (books s)),
       l \<leftarrow> je_lines je,
       ga \<leftarrow> filter (\<lambda>ga. gl_id ga = jl_glAccountId l \<and> gl_isInventoryAsset ga) (glAccounts (books s))]"

definition wip_balance :: "uuid \<Rightarrow> costing \<Rightarrow> rat" where
  "wip_balance tenantId s =
     sum_where (\<lambda>w. wi_tenantId w = tenantId) (\<lambda>w. wi_accumulatedAmount w - wi_absorbedAmount w) (wipAccumulations s)"

definition is_checkpoint :: "uuid \<Rightarrow> uuid \<Rightarrow> PeriodCloseCheckpoint \<Rightarrow> bool" where
  "is_checkpoint tenantId fiscalPeriodId c \<longleftrightarrow> ck_tenantId c = tenantId \<and> ck_fiscalPeriodId c = fiscalPeriodId"

definition upsert_checkpoint :: "uuid \<Rightarrow> uuid \<Rightarrow> rat \<Rightarrow> rat \<Rightarrow> rat \<Rightarrow> unit cost_prog" where
  "upsert_checkpoint tenantId fiscalPeriodId valuation glTotal discrepancy =
     modify (\<lambda>s. s\<lparr>closeCheckpoints :=
       (if checkpoint_of tenantId fiscalPeriodId s = None
        then closeCheckpoints s @ [\<lparr>ck_tenantId = tenantId, ck_fiscalPeriodId = fiscalPeriodId, ck_status = CLOSING,
          ck_inventoryValuationTotal = valuation, ck_glInventoryTotal = glTotal, ck_discrepancy = discrepancy,
          ck_varianceSummary = None, ck_closedById = None, ck_closedAt = None, ck_reopenedById = None,
          ck_reopenedAt = None, ck_reopenReason = None\<rparr>]
        else update_where (is_checkpoint tenantId fiscalPeriodId) (\<lambda>c. c\<lparr>ck_inventoryValuationTotal := valuation,
          ck_glInventoryTotal := glTotal, ck_discrepancy := discrepancy, ck_status := CLOSING\<rparr>) (closeCheckpoints s))\<rparr>)"

record snapshot_result =
  sx_inventoryValuationTotal :: rat
  sx_wipBalance :: rat
  sx_glInventoryTotal :: rat
  sx_discrepancy :: rat
  sx_isReconciled :: bool
  sx_snapshotCount :: nat

definition snapshotPeriodValuationInTx :: "numbers \<Rightarrow> uuid \<Rightarrow> uuid \<Rightarrow> snapshot_result cost_prog" where
  "snapshotPeriodValuationInTx D tenantId fiscalPeriodId =
     bind (gets (\<lambda>s. find_by fp_id fiscalPeriodId (fiscalPeriods (books s)))) (\<lambda>period.
     seq (throwIf (period = None) BadRequestException)
    (bind (resolveBaseCurrency tenantId) (\<lambda>baseCurrency.
     bind (gets (snapshot_rows tenantId)) (\<lambda>rows.
     seq (forEach (upsert_snapshot D tenantId fiscalPeriodId baseCurrency) rows)
    (bind (gets (gl_inventory_total tenantId)) (\<lambda>glInventoryTotal.
     bind (gets (wip_balance tenantId)) (\<lambda>wipBalance.
     let inventoryValuationTotal = sum_list (map sn_totalValue rows);
         totalSubledgerValue = inventoryValuationTotal + wipBalance;
         discrepancy = totalSubledgerValue - glInventoryTotal
     in seq (upsert_checkpoint tenantId fiscalPeriodId (nb4 D totalSubledgerValue) (nb4 D glInventoryTotal) (nb4 D discrepancy))
       (return \<lparr>sx_inventoryValuationTotal = inventoryValuationTotal, sx_wipBalance = wipBalance,
          sx_glInventoryTotal = glInventoryTotal, sx_discrepancy = discrepancy,
          sx_isReconciled = (\<bar>discrepancy\<bar> < 1 / 100), sx_snapshotCount = length rows\<rparr>))))))))"

definition snapshotPeriodValuation :: "numbers \<Rightarrow> uuid \<Rightarrow> uuid \<Rightarrow> snapshot_result cost_prog" where
  "snapshotPeriodValuation D tenantId fiscalPeriodId = cost_transaction (snapshotPeriodValuationInTx D tenantId fiscalPeriodId)"

section \<open>Close and reopen\<close>

text \<open>\<open>fiscalPeriod.updateMany\<close> by id, which neither stamps the lock nor clears the accounting caches.\<close>

definition set_period_lock :: "uuid \<Rightarrow> bool \<Rightarrow> unit cost_prog" where
  "set_period_lock fiscalPeriodId locked =
     bind (gets (\<lambda>s. find_by fp_id fiscalPeriodId (fiscalPeriods (books s)))) (\<lambda>period.
     seq (modify (\<lambda>s. s\<lparr>books := (books s)\<lparr>fiscalPeriods :=
            set_row fp_id fiscalPeriodId (\<lambda>f. f\<lparr>fp_isLocked := locked\<rparr>) (fiscalPeriods (books s))\<rparr>\<rparr>))
         (throwIf (period = None) BadRequestException))"

definition set_checkpoint :: "uuid \<Rightarrow> uuid \<Rightarrow> (PeriodCloseCheckpoint \<Rightarrow> PeriodCloseCheckpoint) \<Rightarrow> unit cost_prog" where
  "set_checkpoint tenantId fiscalPeriodId f =
     modify (\<lambda>s. s\<lparr>closeCheckpoints := update_where (is_checkpoint tenantId fiscalPeriodId) f (closeCheckpoints s)\<rparr>)"

definition of_period :: "uuid \<Rightarrow> uuid \<Rightarrow> CostLayer \<Rightarrow> bool" where
  "of_period tenantId fiscalPeriodId l \<longleftrightarrow> ly_tenantId l = tenantId \<and> ly_fiscalPeriodId l = Some fiscalPeriodId"

definition freeze_layer :: "uuid \<Rightarrow> uuid \<Rightarrow> CostLayer \<Rightarrow> CostLayer" where
  "freeze_layer tenantId fiscalPeriodId l =
     (if of_period tenantId fiscalPeriodId l \<and> ly_status l = CostLayerStatus.OPEN
      then l\<lparr>ly_status := FROZEN, ly_version := ly_version l + 1\<rparr> else l)"

definition thaw_layer :: "uuid \<Rightarrow> uuid \<Rightarrow> CostLayer \<Rightarrow> CostLayer" where
  "thaw_layer tenantId fiscalPeriodId l =
     (if of_period tenantId fiscalPeriodId l \<and> ly_status l = FROZEN \<and> 0 < ly_remainingQty l
      then l\<lparr>ly_status := CostLayerStatus.OPEN, ly_version := ly_version l + 1\<rparr> else l)"

text \<open>The variance amounts of the period, summed per type as \<open>number\<close>s.\<close>

definition variance_summary :: "numbers \<Rightarrow> uuid \<Rightarrow> uuid \<Rightarrow> costing \<Rightarrow> (string \<times> rat) list" where
  "variance_summary D tenantId fiscalPeriodId s =
     foldl (\<lambda>acc v. AList.update (cv_varianceType v)
         (nb_float D (amount_of (cv_varianceType v) acc + nb_float D (cv_varianceAmount v))) acc)
       [] (filter (\<lambda>v. cv_tenantId v = tenantId \<and> cv_fiscalPeriodId v = Some fiscalPeriodId) (costVariances s))"

definition closePeriodInTx :: "numbers \<Rightarrow> uuid \<Rightarrow> uuid \<Rightarrow> uuid \<Rightarrow> ((string \<times> rat) list \<times> rat) cost_prog" where
  "closePeriodInTx D tenantId fiscalPeriodId userId =
     bind (gets (checkpoint_of tenantId fiscalPeriodId)) (\<lambda>found.
     case found of
       None \<Rightarrow> throw BadRequestException
     | Some checkpoint \<Rightarrow>
         seq (throwIf (ck_status checkpoint \<noteq> CLOSING) BadRequestException)
        (seq (set_period_lock fiscalPeriodId True)
        (seq (modify (\<lambda>s. s\<lparr>costLayers := map (freeze_layer tenantId fiscalPeriodId) (costLayers s)\<rparr>))
        (bind (gets (variance_summary D tenantId fiscalPeriodId)) (\<lambda>varianceSummary.
         bind (gets today) (\<lambda>t.
         seq (set_checkpoint tenantId fiscalPeriodId (\<lambda>c. c\<lparr>ck_status := PeriodCloseStatus.CLOSED, ck_closedById := Some userId,
                ck_closedAt := Some t, ck_varianceSummary := Some varianceSummary\<rparr>))
             (return (varianceSummary, ck_discrepancy checkpoint))))))))"

definition closePeriod :: "numbers \<Rightarrow> uuid \<Rightarrow> uuid \<Rightarrow> uuid \<Rightarrow> ((string \<times> rat) list \<times> rat) cost_prog" where
  "closePeriod D tenantId fiscalPeriodId userId = cost_transaction (closePeriodInTx D tenantId fiscalPeriodId userId)"

definition reopenPeriodInTx :: "uuid \<Rightarrow> uuid \<Rightarrow> string \<Rightarrow> uuid \<Rightarrow> unit cost_prog" where
  "reopenPeriodInTx tenantId fiscalPeriodId reason userId =
     bind (gets (checkpoint_of tenantId fiscalPeriodId)) (\<lambda>checkpoint.
     seq (throwIf (map_option ck_status checkpoint \<noteq> Some PeriodCloseStatus.CLOSED) BadRequestException)
    (seq (set_period_lock fiscalPeriodId False)
    (seq (modify (\<lambda>s. s\<lparr>costLayers := map (thaw_layer tenantId fiscalPeriodId) (costLayers s)\<rparr>))
    (bind (gets today) (\<lambda>t.
     set_checkpoint tenantId fiscalPeriodId (\<lambda>c. c\<lparr>ck_status := REOPENED, ck_reopenedById := Some userId,
       ck_reopenedAt := Some t, ck_reopenReason := Some reason\<rparr>))))))"

definition reopenPeriod :: "uuid \<Rightarrow> uuid \<Rightarrow> string \<Rightarrow> uuid \<Rightarrow> unit cost_prog" where
  "reopenPeriod tenantId fiscalPeriodId reason userId = cost_transaction (reopenPeriodInTx tenantId fiscalPeriodId reason userId)"

section \<open>Cost profiles\<close>

record profile_data =
  pd_productId :: uuid
  pd_locationId :: "uuid option"
  pd_costingMethod :: CostingMethod
  pd_standardCostVersion :: "string option"
  pd_enableLandedCost :: "bool option"
  pd_overheadRate :: "rat option"
  pd_laborRate :: "rat option"

text \<open>An absent field of an update leaves the column as it is.\<close>

definition patch_profile :: "numbers \<Rightarrow> profile_data \<Rightarrow> ItemCostProfile \<Rightarrow> ItemCostProfile" where
  "patch_profile D d p =
     p\<lparr>ip_costingMethod := pd_costingMethod d,
       ip_standardCostVersion := (if pd_standardCostVersion d = None then ip_standardCostVersion p else pd_standardCostVersion d),
       ip_enableLandedCost := orElse (pd_enableLandedCost d) (ip_enableLandedCost p),
       ip_overheadRate := (if pd_overheadRate d = None then ip_overheadRate p else map_option (nb4 D) (pd_overheadRate d)),
       ip_laborRate := (if pd_laborRate d = None then ip_laborRate p else map_option (nb4 D) (pd_laborRate d))\<rparr>"

definition upsertCostProfile :: "numbers \<Rightarrow> uuid \<Rightarrow> profile_data \<Rightarrow> ItemCostProfile cost_prog" where
  "upsertCostProfile D tenantId d =
     bind (gets (profile_for tenantId (pd_productId d) (pd_locationId d))) (\<lambda>existingProfile.
     case existingProfile of
       Some p \<Rightarrow>
         seq (modify (\<lambda>s. s\<lparr>itemCostProfiles := set_row ip_id (ip_id p) (patch_profile D d) (itemCostProfiles s)\<rparr>))
             (return (patch_profile D d p))
     | None \<Rightarrow>
         bind (call fresh_id) (\<lambda>i.
         let p = \<lparr>ip_id = i, ip_tenantId = tenantId, ip_productId = pd_productId d, ip_locationId = pd_locationId d,
           ip_costingMethod = pd_costingMethod d, ip_standardCostVersion = pd_standardCostVersion d,
           ip_enableLandedCost = orElse (pd_enableLandedCost d) False, ip_overheadRate = map_option (nb4 D) (pd_overheadRate d),
           ip_laborRate = map_option (nb4 D) (pd_laborRate d)\<rparr>
         in seq (modify (\<lambda>s. s\<lparr>itemCostProfiles := itemCostProfiles s @ [p]\<rparr>)) (return p)))"

section \<open>Reports\<close>

text \<open>A filter that is absent accepts every row.\<close>

definition wanted :: "'a option \<Rightarrow> 'a \<Rightarrow> bool" where
  "wanted f x \<longleftrightarrow> f = None \<or> f = Some x"

definition wanted_text :: "string option \<Rightarrow> string \<Rightarrow> bool" where
  "wanted_text f x \<longleftrightarrow> \<not> truthy f \<or> f = Some x"

definition page_of :: "nat option \<Rightarrow> nat option \<Rightarrow> 'r list \<Rightarrow> 'r list \<times> nat" where
  "page_of sk tk rows = (take (orElse tk 50) (drop (orElse sk 0) rows), length rows)"

definition getCostLayers :: "uuid \<Rightarrow> uuid option \<Rightarrow> uuid option \<Rightarrow> CostLayerStatus option \<Rightarrow> nat option \<Rightarrow> nat option \<Rightarrow>
    costing \<Rightarrow> (CostLayer \<times> CostLayerDepletion list) list \<times> nat" where
  "getCostLayers tenantId productId locationId status sk tk s =
     (let (items, n) = page_of sk tk (sort_key (\<lambda>l. - ly_layerDate l) (filter (\<lambda>l. ly_tenantId l = tenantId \<and>
        wanted productId (ly_productId l) \<and> wanted locationId (ly_locationId l) \<and> wanted status (ly_status l)) (costLayers s)))
      in (map (\<lambda>l. (l, take 10 (sort_key (\<lambda>d. - dp_depletedAt d)
            (filter (\<lambda>d. dp_costLayerId d = ly_id l) (costLayerDepletions s))))) items, n))"

definition getWIPAccumulation :: "uuid \<Rightarrow> uuid \<Rightarrow> costing \<Rightarrow> WIPCostAccumulation list" where
  "getWIPAccumulation tenantId workOrderId s =
     filter (\<lambda>w. wi_tenantId w = tenantId \<and> wi_workOrderId w = workOrderId) (wipAccumulations s)"

record variance_filter =
  vf_varianceType :: "string option"
  vf_referenceType :: "string option"
  vf_referenceId :: "uuid option"
  vf_fiscalPeriodId :: "uuid option"
  vf_productId :: "uuid option"
  vf_skip :: "nat option"
  vf_take :: "nat option"

definition getCostVariances :: "uuid \<Rightarrow> variance_filter \<Rightarrow> costing \<Rightarrow> CostVariance list \<times> nat" where
  "getCostVariances tenantId f s =
     page_of (vf_skip f) (vf_take f) (sort_key (\<lambda>v. - cv_createdAt v) (filter (\<lambda>v. cv_tenantId v = tenantId \<and>
       wanted_text (vf_varianceType f) (cv_varianceType v) \<and> wanted_text (vf_referenceType f) (cv_referenceType v) \<and>
       wanted (vf_referenceId f) (cv_referenceId v) \<and>
       (vf_fiscalPeriodId f = None \<or> vf_fiscalPeriodId f = cv_fiscalPeriodId v) \<and>
       (vf_productId f = None \<or> vf_productId f = cv_productId v)) (costVariances s)))"

definition getRevaluationHistory :: "uuid \<Rightarrow> uuid option \<Rightarrow> RevaluationStatus option \<Rightarrow> nat option \<Rightarrow> nat option \<Rightarrow>
    costing \<Rightarrow> RevaluationHistory list \<times> nat" where
  "getRevaluationHistory tenantId productId status sk tk s =
     page_of sk tk (sort_key (\<lambda>r. - rv_performedAt r) (filter (\<lambda>r. rv_tenantId r = tenantId \<and>
       wanted productId (rv_productId r) \<and> wanted status (rv_status r)) (revaluationHistory s)))"

definition getPeriodCloseStatus :: "uuid \<Rightarrow> uuid \<Rightarrow> costing \<Rightarrow> PeriodCloseCheckpoint option" where
  "getPeriodCloseStatus = checkpoint_of"

record valuation_row =
  vl_productId :: uuid
  vl_locationId :: uuid
  vl_onHandQty :: rat
  vl_unitCost :: rat
  vl_totalValue :: rat
  vl_costingMethod :: CostingMethod
  vl_standardCost :: rat
  vl_movingAvgCost :: rat

definition valuation_of :: "uuid \<Rightarrow> costing \<Rightarrow> InventoryLevel \<Rightarrow> valuation_row" where
  "valuation_of tenantId s level =
     (let itemCost = item_cost_at tenantId (lv_productId level) (lv_locationId level) s;
          unitCost = (case itemCost of None \<Rightarrow> 0 | Some c \<Rightarrow> ic_currentUnitCost c)
      in \<lparr>vl_productId = lv_productId level, vl_locationId = lv_locationId level, vl_onHandQty = lv_onHandQty level,
          vl_unitCost = unitCost, vl_totalValue = lv_onHandQty level * unitCost,
          vl_costingMethod = resolveMethod tenantId (lv_productId level) (lv_locationId level) s,
          vl_standardCost = (case itemCost of None \<Rightarrow> 0 | Some c \<Rightarrow> ic_standardCost c), vl_movingAvgCost = unitCost\<rparr>)"

definition getInventoryValuation :: "uuid \<Rightarrow> uuid option \<Rightarrow> uuid option \<Rightarrow> costing \<Rightarrow> valuation_row list \<times> rat \<times> nat" where
  "getInventoryValuation tenantId productId locationId s =
     (let results = map (valuation_of tenantId s) (filter (\<lambda>l. lv_tenantId l = tenantId \<and> wanted productId (lv_productId l) \<and>
        wanted locationId (lv_locationId l) \<and> 0 < lv_onHandQty l) (levels (books s)))
      in (results, sum_list (map vl_totalValue results), length results))"

section \<open>Projections\<close>

record planned_params =
  pl_scenarioId :: "uuid option"
  pl_productId :: "uuid option"
  pl_startDate :: timestamp
  pl_endDate :: timestamp

record cogs_row =
  cg_periodDate :: int
  cg_productId :: uuid
  cg_forecastQty :: rat
  cg_forecastRevenue :: rat
  cg_unitCost :: rat
  cg_plannedCOGS :: rat
  cg_contributionMargin :: rat
  cg_marginPct :: rat

record cogs_summary =
  cs_totalRevenue :: rat
  cs_totalPlannedCOGS :: rat
  cs_contributionMargin :: rat
  cs_marginPct :: rat

definition margin_pct :: "rat \<Rightarrow> rat \<Rightarrow> rat" where
  "margin_pct margin revenue = (if 0 < revenue then sig20 (sig20 (margin / revenue) * 100) else 0)"

definition planned_row :: "uuid \<Rightarrow> costing \<Rightarrow> forecast_row \<Rightarrow> uuid \<Rightarrow> cogs_row" where
  "planned_row tenantId s f productId =
     (let cost = (case standard_costing tenantId productId (fo_periodDate f) s of None \<Rightarrow> 0 | Some c \<Rightarrow> co_totalCost c);
          qty = orElse (fo_forecastQuantity f) 0;
          revenue = fo_forecastAmount f;
          cogs = qty * cost;
          margin = revenue - cogs
      in \<lparr>cg_periodDate = fo_periodDate f, cg_productId = productId, cg_forecastQty = qty, cg_forecastRevenue = revenue,
          cg_unitCost = cost, cg_plannedCOGS = cogs, cg_contributionMargin = margin, cg_marginPct = margin_pct margin revenue\<rparr>)"

definition cogs_total :: "cogs_row list \<Rightarrow> cogs_summary" where
  "cogs_total rows =
     (let revenue = sum_list (map cg_forecastRevenue rows); cogs = sum_list (map cg_plannedCOGS rows)
      in \<lparr>cs_totalRevenue = revenue, cs_totalPlannedCOGS = cogs, cs_contributionMargin = revenue - cogs,
          cs_marginPct = margin_pct (revenue - cogs) revenue\<rparr>)"

definition getPlannedCOGS :: "uuid \<Rightarrow> planned_params \<Rightarrow> costing \<Rightarrow> cogs_row list \<times> cogs_summary" where
  "getPlannedCOGS tenantId p s =
     (let fs = filter (\<lambda>f. fo_tenantId f = tenantId \<and> wanted (pl_scenarioId p) (fo_scenarioId f) \<and>
            (pl_productId p = None \<or> pl_productId p = fo_productId f) \<and>
            utc_day (pl_startDate p) \<le> fo_periodDate f \<and> fo_periodDate f \<le> utc_day (pl_endDate p)) (forecasts s);
          rows = [planned_row tenantId s f productId. f \<leftarrow> fs, productId \<leftarrow> (case fo_productId f of None \<Rightarrow> [] | Some i \<Rightarrow> [i])]
      in (rows, cogs_total rows))"

definition getScenarioCostComparison :: "uuid \<Rightarrow> uuid list \<Rightarrow> uuid option \<Rightarrow> timestamp \<Rightarrow> timestamp \<Rightarrow> costing \<Rightarrow>
    (uuid \<times> string \<times> cogs_summary) list" where
  "getScenarioCostComparison tenantId scenarioIds productId startDate endDate s =
     map (\<lambda>scenarioId.
       (scenarioId,
        (case find (\<lambda>c. sc_id c = scenarioId \<and> sc_tenantId c = tenantId) (scenarios s) of None \<Rightarrow> ''Unknown'' | Some c \<Rightarrow> sc_name c),
        snd (getPlannedCOGS tenantId \<lparr>pl_scenarioId = Some scenarioId, pl_productId = productId, pl_startDate = startDate,
          pl_endDate = endDate\<rparr> s))) scenarioIds"

end
