(* ===== verification/CostContract.thy ===== *)
theory CostContract
  imports CostPeriods AccountingSystem StockSystem
begin

text \<open>
  What the operations of the costing engine rely on.  \<open>ledger_books\<close> is the contract of the
  services it calls: an invariant of their tables that every call keeps.  \<open>cost_store\<close> is the
  contract of the tables as the operations see them: an invariant of the engine's state that
  every call and every write of a row keeps; its lemmas lift it to all operations.  The first
  gives the second.
\<close>

section \<open>Sequences never go back\<close>

text \<open>
  A rolled back operation leaves the database sequences where they are, so the invariants of
  the books survive it because no operation moves a sequence backwards.
\<close>

abbreviation ahead :: "erp \<Rightarrow> costing \<Rightarrow> bool" where
  "ahead b t \<equiv> sequences_le b (books t)"

lemma ahead_call [keeps_intros]: "keeps (not_behind b) m \<Longrightarrow> keeps (ahead b) (call m)"
  by (force simp: keeps_def call_def split: prod.splits)

lemma ahead_modify [keeps_intros]:
  "(\<And>s. sequences (books (f s)) = sequences (books s)) \<Longrightarrow> keeps (ahead b) (modify f)"
  by (rule keeps_modify) (simp add: sequences_le_def last_value_def)

lemma not_behind_acquire [keeps_intros]: "keeps (not_behind b) (acquire scope key t)"
  unfolding acquire_def insert_key_def create_key_def by (intro keeps_intros) simp_all

lemma not_behind_stamp [keeps_intros]: "keeps (not_behind b) (stamp scope key t r)"
  unfolding stamp_def by (intro keeps_intros) simp

lemma not_behind_recordEntry [keeps_intros]: "keeps (not_behind b) (recordEntry dec e)"
  unfolding recordEntry_def create_entry_def update_level_def create_level_def move_batch_def
  by (intro keeps_intros) simp_all

lemma not_behind_post [keeps_intros]: "keeps (not_behind b) (postTransactionalJournal dec p)"
  unfolding postTransactionalJournal_def by (intro keeps_intros)

lemma not_behind_reverse [keeps_intros]: "keeps (not_behind b) (reverseJournalEntryById t i u)"
  unfolding reverseJournalEntryById_def by (intro keeps_intros)

section \<open>The services\<close>

locale ledger_books = cost_column "nb4 D" for D :: numbers +
  fixes J :: "erp \<Rightarrow> bool"
  assumes acquire: "commits J (acquire scope key t)"
    and stamp: "commits J (stamp scope key t r)"
    and post: "commits J (postTransactionalJournal (nb4 D) q)"
    and reverse: "commits J (reverseJournalEntryById t i u)"
    and recording: "moves_stock (en_entryType e) \<Longrightarrow> nb4 D (en_quantity e) = en_quantity e \<Longrightarrow> commits J (recordEntry (nb4 D) e)"
    and number: "commits J (nextNumber prefix)"
    and fresh: "commits J fresh_id"
    and rollback: "J b \<Longrightarrow> sequences_le b c \<Longrightarrow> J (rollback_to b c)"
    and periods: "J b \<Longrightarrow> J (b\<lparr>fiscalPeriods := f\<rparr>)"

section \<open>The tables\<close>

text \<open>A layer as it is created: untouched, with its own identifier.\<close>

definition new_layer :: "numbers \<Rightarrow> uuid \<Rightarrow> CostLayer \<Rightarrow> bool" where
  "new_layer D i l \<longleftrightarrow> ly_id l = i \<and> ly_remainingQty l = ly_originalQty l \<and> nb4 D (ly_originalQty l) = ly_originalQty l \<and>
     ly_status l = CostLayerStatus.OPEN"

locale cost_store = cost_column "nb4 D" for D :: numbers +
  fixes I :: "costing \<Rightarrow> bool"
  assumes acquire: "commits I (call (acquire scope key t))"
    and stamp: "commits I (call (stamp scope key t r))"
    and post: "commits I (call (postTransactionalJournal (nb4 D) q))"
    and reverse: "commits I (call (reverseJournalEntryById t i u))"
    and recording: "moves_stock (en_entryType e) \<Longrightarrow> nb4 D (en_quantity e) = en_quantity e \<Longrightarrow> commits I (call (recordEntry (nb4 D) e))"
    and number: "commits I (call (nextNumber prefix))"
    and fresh: "commits I (call fresh_id)"
    and rollback: "I s \<Longrightarrow> sequences_le (books s) b \<Longrightarrow> I (s\<lparr>books := rollback_to (books s) b\<rparr>)"
    and period_lock: "commits I (set_period_lock f locked)"
    and layer: "(\<And>t i. new_layer D i (mk t i)) \<Longrightarrow> commits I (create_layer mk)"
    and deplete: "nb4 D (de_quantity p) = de_quantity p \<Longrightarrow> commits I (depleteCostLayers D p)"
    and landed: "commits I (add_landed_cost D t a)"
    and freeze: "I s \<Longrightarrow> I (s\<lparr>costLayers := map (freeze_layer t f) (costLayers s)\<rparr>)"
    and thaw: "I s \<Longrightarrow> I (s\<lparr>costLayers := map (thaw_layer t f) (costLayers s)\<rparr>)"
    and average: "commits I (updateMovingAverage D ua)"
    and adjust: "commits I (adjustMovingAverageValue D t pr l x)"
    and last_issue: "commits I (updateLastIssueCost D t pr l x)"
    and revaluing: "commits I (update_item_cost row (revalued D x))"
    and standard: "commits I (save_standard_cost D ru x)"
    and wip: "commits I (accumulateWIP D t w el x)"
    and absorb: "commits I (absorb_row D els wrow)"
    and order_cost: "(\<And>t. wc_workOrderId (mk' t) = w) \<Longrightarrow> commits I (upsert_work_order_cost w mk' t)"
    and checkpoint: "commits I (upsert_checkpoint t f x y z)"
    and close_checkpoint: "(\<And>c. ck_tenantId (g c) = ck_tenantId c \<and> ck_fiscalPeriodId (g c) = ck_fiscalPeriodId c) \<Longrightarrow>
      commits I (set_checkpoint t f g)"
    and others: "I s \<Longrightarrow> I (s\<lparr>landedAllocations := a1\<rparr>)" "I s \<Longrightarrow> I (s\<lparr>rateSnapshots := a2\<rparr>)"
      "I s \<Longrightarrow> I (s\<lparr>costVariances := a3\<rparr>)" "I s \<Longrightarrow> I (s\<lparr>revaluationHistory := a4\<rparr>)"
      "I s \<Longrightarrow> I (s\<lparr>productCostings := a5\<rparr>)" "I s \<Longrightarrow> I (s\<lparr>valuationSnapshots := a6\<rparr>)"
      "I s \<Longrightarrow> I (s\<lparr>itemCostProfiles := a7\<rparr>)"

section \<open>Every operation\<close>

context cost_store
begin

lemmas primitives = acquire stamp post reverse number fresh period_lock deplete landed average adjust last_issue revaluing
  standard wip absorb checkpoint

lemma writes: "commits I (modify (\<lambda>s. s\<lparr>landedAllocations := h1 s\<rparr>))" "commits I (modify (\<lambda>s. s\<lparr>rateSnapshots := h2 s\<rparr>))"
    "commits I (modify (\<lambda>s. s\<lparr>costVariances := h3 s\<rparr>))" "commits I (modify (\<lambda>s. s\<lparr>revaluationHistory := h4 s\<rparr>))"
    "commits I (modify (\<lambda>s. s\<lparr>productCostings := h5 s\<rparr>))" "commits I (modify (\<lambda>s. s\<lparr>valuationSnapshots := h6 s\<rparr>))"
    "commits I (modify (\<lambda>s. s\<lparr>itemCostProfiles := h7 s\<rparr>))"
    "commits I (modify (\<lambda>s. s\<lparr>costLayers := map (freeze_layer t f) (costLayers s)\<rparr>))"
    "commits I (modify (\<lambda>s. s\<lparr>costLayers := map (thaw_layer t f) (costLayers s)\<rparr>))"
  by (rule commits_modify, erule others freeze thaw)+

lemma post_journal_commits: "commits I (post_journal D p)"
  unfolding post_journal_def by (intro commits_intros primitives)

lemma reads: "commits I (resolveBaseCurrency t)" "commits I (assertPeriodOpen t f)" "commits I (getStandardCost t p)"
    "commits I (resolveOverheadRate t p l w)"
  unfolding resolveBaseCurrency_def assertPeriodOpen_def getStandardCost_def resolveOverheadRate_def
  by (intro commits_intros)+

lemma create_variance_commits: "commits I (create_variance mk)"
  unfolding create_variance_def by (intro commits_intros primitives writes)

lemmas pieces = primitives writes reads post_journal_commits create_variance_commits

lemma variances_commits: "commits I (calculateWorkOrderVariances D t w pr q els f u)"
  unfolding calculateWorkOrderVariances_def by (intro commits_intros pieces)

lemma receipt_commits:
  assumes "nb4 D (gr_quantity p) = gr_quantity p"
  shows "commits I (calculatePurchaseReceiptCostInTx D p)"
  unfolding calculatePurchaseReceiptCostInTx_def create_rate_snapshot_def
  by (intro commits_intros pieces layer recording)
    (simp_all add: new_layer_def receipt_layer_def dec_idem receipt_entry_def moves_stock_def assms entry_def)

lemma allocate_lines_commits: "commits I (allocate_lines D p as)"
  by (induction as) (auto simp: allocate_line_def intro!: commits_intros pieces)

lemma landed_commits: "commits I (allocateLandedCostInTx D p)"
  unfolding allocateLandedCostInTx_def by (intro commits_intros pieces allocate_lines_commits)

lemma issue_commits:
  assumes "nb4 D (mi_quantity p) = mi_quantity p"
  shows "commits I (issueMaterialCostInTx D p)"
  unfolding issueMaterialCostInTx_def issue_cost_def
  by (intro commits_intros pieces recording)
    (simp_all add: issue_entry_def moves_stock_def assms dec_minus entry_def)

lemma labor_commits: "commits I (recordLaborCostToWIPInTx D lp)"
  unfolding recordLaborCostToWIPInTx_def by (intro commits_intros pieces)

lemma overhead_commits: "commits I (recordOverheadToWIPInTx D op)"
  unfolding recordOverheadToWIPInTx_def by (intro commits_intros pieces)

lemma apply_overhead_commits: "commits I (apply_overhead D t w r els)"
  by (cases "computed_overhead r els") (auto simp: apply_overhead_def intro!: commits_intros pieces)

lemma completion_commits:
  assumes "nb4 D (cm_completedQty p) = cm_completedQty p"
  shows "commits I (completeWorkOrderCostInTx D p)"
  unfolding completeWorkOrderCostInTx_def
  by (intro commits_intros pieces apply_overhead_commits variances_commits layer recording order_cost)
    (simp_all add: new_layer_def completion_layer_def dec_idem completion_entry_def moves_stock_def assms entry_def
      work_order_cost_def Let_def)

lemma scrap_commits:
  assumes "nb4 D (sp_quantity p) = sp_quantity p"
  shows "commits I (costScrapInTx D p)"
  unfolding costScrapInTx_def
  by (intro commits_intros pieces recording) (simp_all add: scrap_entry_def moves_stock_def assms dec_minus entry_def)

lemma revalue_commits: "commits I (revalueInventoryInTx D rp)"
  unfolding revalueInventoryInTx_def by (intro commits_intros pieces)

lemma material_cost_commits: "commits I (material_cost t day left cs visited acc)"
  by (induction t day left cs visited acc rule: material_cost.induct)
    (auto simp: material_cost.simps Let_def intro!: commits_intros pieces)

lemma save_costing_commits: "commits I (save_costing D p day f)"
  unfolding save_costing_def by (intro commits_intros pieces)

lemma rollup_commits: "commits I (rollupStandardCostInTx D p)"
  unfolding rollupStandardCostInTx_def recursiveMaterialCost_def
  by (intro commits_intros pieces material_cost_commits save_costing_commits)

lemma snapshot_commits: "commits I (snapshotPeriodValuationInTx D t f)"
  unfolding snapshotPeriodValuationInTx_def upsert_snapshot_def by (intro commits_intros pieces)

lemma close_commits: "commits I (closePeriodInTx D t f u)"
  unfolding closePeriodInTx_def by (intro commits_intros pieces close_checkpoint) simp_all

lemma reopen_commits: "commits I (reopenPeriodInTx t f why u)"
  unfolding reopenPeriodInTx_def by (intro commits_intros pieces close_checkpoint) simp_all

lemma profile_commits: "commits I (upsertCostProfile D t d)"
  unfolding upsertCostProfile_def by (intro commits_intros pieces)

end

end
