(* ===== verification/CostBooks.thy ===== *)
theory CostBooks
  imports CostContract
begin

text \<open>
  The books under the costing engine: the journal's invariant and the stock ledger's invariant
  are kept by every call, so by every operation of the engine; and no operation moves a document
  sequence backwards.
\<close>

section \<open>Calls that leave the other ledger alone\<close>

lemma same_stock_trans: "same_stock a b \<Longrightarrow> same_stock b c \<Longrightarrow> same_stock a c"
  by (simp add: same_stock_def)

lemma stock_modify [keeps_intros]: "(\<And>t. same_stock t (f t)) \<Longrightarrow> keeps (same_stock b) (modify f)"
  by (rule keeps_modify) (blast intro: same_stock_trans)

lemma stock_fresh [keeps_intros]: "keeps (same_stock b) fresh_id"
  by (rule keepsI) (auto simp: run_simps same_stock_def)

lemma stock_number [keeps_intros]: "keeps (same_stock b) (nextNumber prefix)"
  by (rule keepsI) (auto simp: run_nextNumber same_stock_def split: option.splits)

lemma stock_transaction [keeps_intros]: "keeps (same_stock b) m \<Longrightarrow> keeps (same_stock b) (erp_transaction m)"
  by (rule keepsI)
    (auto simp: erp_transaction_def split: prod.splits sum.splits dest: keepsD intro: same_stock_trans rollback_same_stock)

lemma stock_acquire [keeps_intros]: "keeps (same_stock b) (acquire scope key t)"
  unfolding acquire_def insert_key_def create_key_def by (intro keeps_intros) (simp_all add: same_stock_def)

lemma stock_stamp [keeps_intros]: "keeps (same_stock b) (stamp scope key t r)"
  unfolding stamp_def by (intro keeps_intros) (simp add: same_stock_def)

lemma stock_journal [keeps_intros]: "keeps (same_stock b) (create_journal mk)"
  unfolding create_journal_def by (intro keeps_intros) (simp add: same_stock_def)

lemma stock_period [keeps_intros]: "keeps (same_stock b) (findFiscalPeriod t d)"
  unfolding findFiscalPeriod_def by (intro keeps_intros) (simp_all add: same_stock_def)

lemma stock_post [keeps_intros]: "keeps (same_stock b) (postTransactionalJournal dec q)"
  unfolding postTransactionalJournal_def autoPost_def resolvePostingProfile_def resolvePostingProfileCategory_def
    createJournalEntry_def validatePeriodOpen_def resolve_currency_def
  by (intro keeps_intros)

lemma stock_reverse [keeps_intros]: "keeps (same_stock b) (reverseJournalEntryById t i u)"
  unfolding reverseJournalEntryById_def reverseJournalEntry_def get_row_def validatePeriodOpen_def
  by (intro keeps_intros) (simp add: same_stock_def)

definition same_journal :: "erp \<Rightarrow> erp \<Rightarrow> bool" where
  "same_journal s t \<longleftrightarrow> journalEntries t = journalEntries s \<and> erp_next s \<le> erp_next t \<and> sequences_le s t"

lemma same_journal_trans: "same_journal a b \<Longrightarrow> same_journal b c \<Longrightarrow> same_journal a c"
  by (auto simp: same_journal_def intro: sequences_le_trans)

lemma journal_modify [keeps_intros]: "(\<And>t. same_journal t (f t)) \<Longrightarrow> keeps (same_journal b) (modify f)"
  by (rule keeps_modify) (blast intro: same_journal_trans)

lemma journal_fresh [keeps_intros]: "keeps (same_journal b) fresh_id"
  by (rule keepsI) (auto simp: run_simps same_journal_def sequences_le_def last_value_def)

lemma journal_number_keeps [keeps_intros]: "keeps (same_journal b) (nextNumber prefix)"
proof (rule keepsI)
  fix s r t
  assume "same_journal b s" and run: "nextNumber prefix s = (r, t)"
  moreover have "journalEntries t = journalEntries s \<and> erp_next t = erp_next s"
    using run by (auto simp: run_nextNumber split: option.splits)
  ultimately show "same_journal b t"
    using nextNumber_le [OF run] by (auto simp: same_journal_def intro: sequences_le_trans)
qed

lemma same_sequences: "sequences t = sequences s \<Longrightarrow> sequences_le s t"
  by (simp add: sequences_le_def last_value_def)

lemma journal_acquire [keeps_intros]: "keeps (same_journal b) (acquire scope key t)"
  unfolding acquire_def insert_key_def create_key_def
  by (intro keeps_intros) (simp_all add: same_journal_def same_sequences)

lemma journal_stamp [keeps_intros]: "keeps (same_journal b) (stamp scope key t r)"
  unfolding stamp_def by (intro keeps_intros) (simp add: same_journal_def same_sequences)

lemma journal_record [keeps_intros]: "keeps (same_journal b) (recordEntry dec e)"
  unfolding recordEntry_def create_entry_def update_level_def create_level_def move_batch_def get_row_def
  by (intro keeps_intros) (simp_all add: same_journal_def same_sequences)

lemma commits_frame:
  assumes "\<And>b. keeps (R b) m" "\<And>b. R b b" "\<And>b t. R b t \<Longrightarrow> I b \<Longrightarrow> I t"
  shows "commits I m"
  using assms by (metis commitsI keepsD)

lemma stock_frame: "(\<And>b. keeps (same_stock b) m) \<Longrightarrow> commits (stock_inv dec) m"
  by (rule commits_frame [of same_stock]) (auto simp: same_stock_def intro: stock_inv_cong)

lemma journal_frame: "(\<And>b. keeps (same_journal b) m) \<Longrightarrow> commits journal_ok m"
  by (rule commits_frame [of same_journal]) (auto simp: same_journal_def intro: journal_ok_cong)

lemma counter_frame: "(\<And>b. keeps (same_stock b) m) \<Longrightarrow> commits (\<lambda>b. n \<le> erp_next b) m"
  by (rule commits_frame [of same_stock]) (auto simp: same_stock_def)

lemma counter_journal_frame: "(\<And>b. keeps (same_journal b) m) \<Longrightarrow> commits (\<lambda>b. n \<le> erp_next b) m"
  by (rule commits_frame [of same_journal]) (auto simp: same_journal_def)

section \<open>The two ledgers\<close>

lemma commits_nested:
  assumes "commits J m"
  shows "commits J (erp_transaction m)"
  using assms by (auto simp: commits_def erp_transaction_ok)

locale cost_numbers = cost_column "nb4 D" for D :: numbers

sublocale cost_numbers \<subseteq> journal: ledger_books D journal_ok
proof unfold_locales
  fix b c f q scope key t r e i u prefix
  show "commits journal_ok (acquire scope key t)" "commits journal_ok (stamp scope key t r)"
    "commits journal_ok (recordEntry (nb4 D) e)" "commits journal_ok (nextNumber prefix)" "commits journal_ok fresh_id"
    by (rule journal_frame, intro keeps_intros)+
  show "commits journal_ok (postTransactionalJournal (nb4 D) q)"
    unfolding postTransactionalJournal_def by (rule commitsI) (rule autoPost_keeps)
  show "commits journal_ok (reverseJournalEntryById t i u)"
    unfolding reverseJournalEntryById_def
    by (rule commits_nested, rule commitsI) (rule reverseJournalEntry_keeps)
  show "journal_ok (rollback_to b c)" if "journal_ok b" "sequences_le b c"
    using that by (rule_tac journal_ok_cong [of _ b]) (simp_all add: rollback_to_def sequences_le_def last_value_def)
  show "journal_ok (b\<lparr>fiscalPeriods := f\<rparr>)" if "journal_ok b"
    using that by (rule_tac journal_ok_cong [of _ b]) (simp_all add: same_sequences)
qed

sublocale cost_numbers \<subseteq> stock: ledger_books D "stock_inv (nb4 D)"
proof unfold_locales
  fix b c f q scope key t r e i u prefix
  show "commits (stock_inv (nb4 D)) (acquire scope key t)" "commits (stock_inv (nb4 D)) (stamp scope key t r)"
    "commits (stock_inv (nb4 D)) (postTransactionalJournal (nb4 D) q)"
    "commits (stock_inv (nb4 D)) (reverseJournalEntryById t i u)"
    "commits (stock_inv (nb4 D)) (nextNumber prefix)" "commits (stock_inv (nb4 D)) fresh_id"
    by (rule stock_frame, intro keeps_intros)+
  show "commits (stock_inv (nb4 D)) (recordEntry (nb4 D) e)"
    if "moves_stock (en_entryType e)" "nb4 D (en_quantity e) = en_quantity e"
    using that by (intro commitsI) (rule recordEntry_keeps)
  show "stock_inv (nb4 D) (rollback_to b c)" if "stock_inv (nb4 D) b"
    using that by (rule stock_inv_cong [OF rollback_same_stock])
  show "stock_inv (nb4 D) (b\<lparr>fiscalPeriods := f\<rparr>)" if "stock_inv (nb4 D) b"
    using that by (rule_tac stock_inv_cong [of b]) (simp_all add: same_stock_def)
qed

text \<open>Identifiers are never taken back inside a transaction.\<close>

lemma counter_calls: "commits (\<lambda>b. n \<le> erp_next b) (acquire scope key t)" "commits (\<lambda>b. n \<le> erp_next b) (stamp scope key t r)"
    "commits (\<lambda>b. n \<le> erp_next b) (postTransactionalJournal dec q)"
    "commits (\<lambda>b. n \<le> erp_next b) (reverseJournalEntryById t i u)"
    "commits (\<lambda>b. n \<le> erp_next b) (nextNumber prefix)" "commits (\<lambda>b. n \<le> erp_next b) fresh_id"
  by (rule counter_frame, intro keeps_intros)+

lemma counter_record: "commits (\<lambda>b. n \<le> erp_next b) (recordEntry dec e)"
  by (rule counter_journal_frame, intro keeps_intros)

section \<open>The books under the engine\<close>

lemma commits_call: "commits J m \<Longrightarrow> commits (\<lambda>s. J (books s)) (call m)"
  by (auto simp: commits_def ok_simps)

lemma commits_tables: "(\<And>s. books (f s) = books s) \<Longrightarrow> commits (\<lambda>s. J (books s)) (modify f)"
  by (rule commits_modify) simp

context ledger_books
begin

lemmas calls = commits_call [OF acquire] commits_call [OF stamp] commits_call [OF post] commits_call [OF reverse]
  commits_call [OF number] commits_call [OF fresh]

lemma deplete_from_commits: "commits (\<lambda>s. J (books s)) (deplete_from D p ls q c)"
  by (induction ls arbitrary: q c)
    (auto simp: update_layer_def create_depletion_def Let_def intro!: commits_intros commits_tables calls)

lemma period_lock_commits: "commits (\<lambda>s. J (books s)) (set_period_lock f locked)"
  unfolding set_period_lock_def by (intro commits_intros commits_modify) (simp_all add: periods)

lemmas writers = create_layer_def depleteCostLayers_def add_landed_cost_def updateMovingAverage_def update_item_cost_def
  adjustMovingAverageValue_def updateLastIssueCost_def save_standard_cost_def accumulateWIP_def absorb_row_def
  upsert_work_order_cost_def upsert_checkpoint_def set_checkpoint_def Let_def

end

sublocale ledger_books \<subseteq> engine: cost_store D "\<lambda>s. J (books s)"
proof unfold_locales
  show "commits (\<lambda>s. J (books s)) (call (recordEntry (nb4 D) e))"
    if "moves_stock (en_entryType e)" "nb4 D (en_quantity e) = en_quantity e" for e
    using that by (intro commits_call recording)
qed (auto simp: rollback writers intro!: calls period_lock_commits deplete_from_commits commits_intros commits_tables)

end
