(* ===== verification/LayerBooks.thy ===== *)
theory LayerBooks
  imports CostBooks "HOL-Library.Multiset"
begin

text \<open>
  The books of the cost layers.  \<open>layers_ok\<close>: every layer's remaining quantity is what its
  depletions leave of the original one, and its status follows.  The depletion of a list of
  layers is computed by \<open>taken\<close>; on the stock it leaves (remaining quantity and unit cost per
  layer, in issue order) it is the queue operation \<open>issued_stock\<close>.
\<close>

section \<open>The invariant\<close>

definition depleted_of :: "uuid \<Rightarrow> CostLayerDepletion list \<Rightarrow> rat" where
  "depleted_of i = sum_where (\<lambda>d. dp_costLayerId d = i) dp_depletedQty"

definition layer_ok :: "numbers \<Rightarrow> CostLayerDepletion list \<Rightarrow> CostLayer \<Rightarrow> bool" where
  "layer_ok D ds l \<longleftrightarrow> nb4 D (ly_originalQty l) = ly_originalQty l \<and> nb4 D (ly_remainingQty l) = ly_remainingQty l \<and>
     ly_remainingQty l + depleted_of (ly_id l) ds = ly_originalQty l \<and>
     (0 \<le> ly_originalQty l \<longrightarrow> 0 \<le> ly_remainingQty l) \<and> (ly_status l = DEPLETED \<longrightarrow> ly_remainingQty l = 0) \<and>
     (ly_remainingQty l = 0 \<longrightarrow> ly_status l = DEPLETED \<or> ly_originalQty l = 0)"

definition layers_ok :: "numbers \<Rightarrow> costing \<Rightarrow> bool" where
  "layers_ok D s \<longleftrightarrow> distinct (map ly_id (costLayers s)) \<and> (\<forall>l \<in> set (costLayers s). ly_id l < erp_next (books s)) \<and>
     list_all (layer_ok D (costLayerDepletions s)) (costLayers s) \<and>
     (\<forall>d \<in> set (costLayerDepletions s). 0 \<le> dp_depletedQty d \<and> dp_costLayerId d \<in> ly_id ` set (costLayers s))"

text \<open>It reads the layers, their depletions and the source of identifiers.\<close>

lemma layers_ok_cong:
  "costLayers t = costLayers s \<Longrightarrow> costLayerDepletions t = costLayerDepletions s \<Longrightarrow> erp_next (books s) \<le> erp_next (books t) \<Longrightarrow>
   layers_ok D s \<Longrightarrow> layers_ok D t"
  by (auto simp: layers_ok_def intro: less_le_trans)

lemma layer_unique: "layers_ok D s \<Longrightarrow> l \<in> set (costLayers s) \<Longrightarrow> l' \<in> set (costLayers s) \<Longrightarrow> ly_id l' = ly_id l \<Longrightarrow> l' = l"
  by (metis find_by_unique layers_ok_def option.inject)

text \<open>A write that keeps what the invariant reads of a layer.\<close>

definition same_layer :: "CostLayer \<Rightarrow> CostLayer \<Rightarrow> bool" where
  "same_layer l m \<longleftrightarrow> ly_id m = ly_id l \<and> ly_originalQty m = ly_originalQty l \<and> ly_remainingQty m = ly_remainingQty l \<and>
     (ly_status m = DEPLETED \<longleftrightarrow> ly_status l = DEPLETED)"

lemma layers_ok_map:
  assumes "layers_ok D s" "\<And>l. same_layer l (f l)"
  shows "layers_ok D (s\<lparr>costLayers := map f (costLayers s)\<rparr>)"
proof -
  have keep: "ly_id (f l) = ly_id l" "layer_ok D ds (f l) = layer_ok D ds l" for l ds
    using assms(2) [of l] by (auto simp: same_layer_def layer_ok_def)
  then have "map ly_id (map f (costLayers s)) = map ly_id (costLayers s)"
    by (simp add: comp_def)
  then have "distinct (map ly_id (map f (costLayers s)))" "ly_id ` set (map f (costLayers s)) = ly_id ` set (costLayers s)"
    using assms(1) by (simp_all add: layers_ok_def flip: set_map del: map_map)
  then show ?thesis
    using assms(1) unfolding layers_ok_def by (simp add: list_all_iff keep del: map_map)
qed

section \<open>Issuing from a queue of stock\<close>

text \<open>A queue of stock: quantity and unit cost, the next to be issued first.\<close>

fun issued_stock :: "rat \<Rightarrow> (rat \<times> rat) list \<Rightarrow> (rat \<times> rat) list" where
  "issued_stock q [] = []"
| "issued_stock q ((r, c) # stock) =
     (if q \<le> 0 then (r, c) # stock else if r \<le> q then issued_stock (q - r) stock else (r - q, c) # stock)"

fun issue_value :: "rat \<Rightarrow> (rat \<times> rat) list \<Rightarrow> rat" where
  "issue_value q [] = 0"
| "issue_value q ((r, c) # stock) = (if q \<le> 0 then 0 else min q r * c + issue_value (q - min q r) stock)"

fun unissued :: "rat \<Rightarrow> (rat \<times> rat) list \<Rightarrow> rat" where
  "unissued q [] = q"
| "unissued q ((r, c) # stock) = (if q \<le> 0 then q else unissued (q - min q r) stock)"

definition stock_total :: "(rat \<times> rat) list \<Rightarrow> rat" where
  "stock_total stock = sum_list (map fst stock)"

lemma issue_nothing: "q \<le> 0 \<Longrightarrow> issued_stock q stock = stock" "q \<le> 0 \<Longrightarrow> issue_value q stock = 0"
    "q \<le> 0 \<Longrightarrow> unissued q stock = q"
  by (cases stock; auto)+

lemma stock_total_nonneg: "(\<And>x. x \<in> set stock \<Longrightarrow> 0 < fst x) \<Longrightarrow> 0 \<le> stock_total stock"
  by (induction stock) (auto simp: stock_total_def add_nonneg_nonneg less_imp_le)

lemma unissued_iff: "(\<And>x. x \<in> set stock \<Longrightarrow> 0 < fst x) \<Longrightarrow> unissued q stock \<le> 0 \<longleftrightarrow> q \<le> stock_total stock"
proof (induction stock arbitrary: q)
  case Nil
  then show ?case by (simp add: stock_total_def)
next
  case (Cons x stock)
  obtain r c where x: "x = (r, c)" by (cases x)
  have pos: "0 < r" "0 \<le> stock_total stock" using Cons.prems stock_total_nonneg [of stock] x by force+
  have st: "stock_total (x # stock) = r + stock_total stock" by (simp add: stock_total_def x)
  show ?case
  proof (cases "q \<le> 0")
    case True
    then show ?thesis using pos by (simp add: x st [unfolded x])
  next
    case False
    have "unissued (q - min q r) stock \<le> 0 \<longleftrightarrow> q - min q r \<le> stock_total stock"
      using Cons by simp
    with False show ?thesis using pos by (auto simp: x st [unfolded x] min_def)
  qed
qed

section \<open>Depleting a list of layers\<close>

definition stock_of :: "CostLayer \<Rightarrow> rat \<times> rat" where
  "stock_of l = (ly_remainingQty l, ly_unitCost l)"

definition take_layer :: "numbers \<Rightarrow> rat \<Rightarrow> CostLayer \<Rightarrow> CostLayer" where
  "take_layer D newRemaining l = l\<lparr>ly_remainingQty := nb4 D newRemaining,
     ly_status := (if newRemaining \<le> 0 then DEPLETED else CostLayerStatus.OPEN), ly_version := ly_version l + 1\<rparr>"

fun taken :: "numbers \<Rightarrow> rat \<Rightarrow> CostLayer list \<Rightarrow> CostLayer list" where
  "taken D q [] = []"
| "taken D q (l # ls) = (if q \<le> 0 then l # ls
     else take_layer D (ly_remainingQty l - min q (ly_remainingQty l)) l # taken D (q - min q (ly_remainingQty l)) ls)"

lemma taken_ids: "map ly_id (taken D q ls) = map ly_id ls"
  by (induction ls arbitrary: q) (auto simp: take_layer_def)

lemma find_taken: "i \<notin> ly_id ` set ls \<Longrightarrow> find_by ly_id i (taken D q ls) = None"
  using taken_ids [of D q ls] by (metis find_by_None image_set)

text \<open>The layers after a depletion: the rows of the list as taken, the others as they were.\<close>

definition with_rows :: "CostLayer list \<Rightarrow> CostLayer \<Rightarrow> CostLayer" where
  "with_rows rows l = orElse (find_by ly_id (ly_id l) rows) l"

definition issuable :: "CostLayer \<Rightarrow> bool" where
  "issuable l \<longleftrightarrow> ly_status l = CostLayerStatus.OPEN \<and> 0 < ly_remainingQty l"

text \<open>One layer of the loop.\<close>

lemma version_layer:
  assumes "layers_ok D s" "l \<in> set (costLayers s)"
  shows "update_where (\<lambda>x. ly_id x = ly_id l \<and> ly_version x = ly_version l) f (costLayers s) = set_row ly_id (ly_id l) f (costLayers s)"
    "filter (\<lambda>x. ly_id x = ly_id l \<and> ly_version x = ly_version l) (costLayers s) \<noteq> []"
proof -
  show "update_where (\<lambda>x. ly_id x = ly_id l \<and> ly_version x = ly_version l) f (costLayers s) = set_row ly_id (ly_id l) f (costLayers s)"
    unfolding update_where_def by (rule map_cong) (use layer_unique [OF assms] in auto)
  show "filter (\<lambda>x. ly_id x = ly_id l \<and> ly_version x = ly_version l) (costLayers s) \<noteq> []"
    using assms(2) by (auto simp: filter_empty_conv)
qed

definition depleted_state :: "numbers \<Rightarrow> deplete_params \<Rightarrow> CostLayer \<Rightarrow> rat \<Rightarrow> costing \<Rightarrow> costing" where
  "depleted_state D p l d s =
     s\<lparr>books := (books s)\<lparr>erp_next := erp_next (books s) + 1\<rparr>,
       costLayers := set_row ly_id (ly_id l) (take_layer D (ly_remainingQty l - d)) (costLayers s),
       costLayerDepletions := costLayerDepletions s @ [\<lparr>dp_id = erp_next (books s), dp_tenantId = de_tenantId p,
         dp_costLayerId = ly_id l, dp_depletedQty = nb4 D d, dp_unitCost = nb4 D (ly_unitCost l),
         dp_totalCost = nb4 D (d * ly_unitCost l), dp_referenceType = de_referenceType p, dp_referenceId = de_referenceId p,
         dp_referenceNumber = de_referenceNumber p, dp_depletedAt = today s\<rparr>]\<rparr>"

lemma deplete_one:
  assumes "layers_ok D s" "l \<in> set (costLayers s)"
  shows "update_layer D l (ly_remainingQty l - d) s =
      (Inr (), s\<lparr>costLayers := set_row ly_id (ly_id l) (take_layer D (ly_remainingQty l - d)) (costLayers s)\<rparr>)"
    "create_depletion D p l d (s\<lparr>costLayers := set_row ly_id (ly_id l) (take_layer D (ly_remainingQty l - d)) (costLayers s)\<rparr>) =
      (Inr (), depleted_state D p l d s)"
  using version_layer [OF assms]
  by (simp_all add: update_layer_def create_depletion_def depleted_state_def take_layer_def [abs_def] run_simps run_bind run_seq
      run_call today_def comp_def)

lemma set_row_with_rows:
  assumes "layers_ok D s" "l \<in> set (costLayers s)" "ly_id l \<notin> ly_id ` set ls" "ly_id (f l) = ly_id l"
  shows "map (with_rows (taken D q ls)) (set_row ly_id (ly_id l) f (costLayers s)) =
    map (with_rows (f l # taken D q ls)) (costLayers s)"
proof -
  have "with_rows (taken D q ls) (if ly_id x = ly_id l then f x else x) = with_rows (f l # taken D q ls) x"
    if "x \<in> set (costLayers s)" for x
  proof (cases "ly_id x = ly_id l")
    case True
    then have "x = l" using layer_unique [OF assms(1,2) that] by simp
    then show ?thesis using find_taken [OF assms(3), of D q] by (simp add: with_rows_def assms(4))
  next
    case False
    then show ?thesis by (simp add: with_rows_def assms(4))
  qed
  then show ?thesis by (simp add: update_where_def)
qed

context cost_numbers
begin

lemma depleted_layers_ok:
  assumes ok: "layers_ok D s" and l: "l \<in> set (costLayers s)" "issuable l" and d: "0 < d" "d \<le> ly_remainingQty l" "nb4 D d = d"
  shows "layers_ok D (depleted_state D p l d s)"
proof -
  define ds where "ds = costLayerDepletions s"
  define ds' where "ds' = costLayerDepletions (depleted_state D p l d s)"
  have ds': "depleted_of i ds' = depleted_of i ds + (if i = ly_id l then d else 0)" for i
    by (simp add: ds'_def ds_def depleted_state_def depleted_of_def d(3))
  have lok: "layer_ok D ds x" if "x \<in> set (costLayers s)" for x
    using ok that by (simp add: layers_ok_def list_all_iff ds_def)
  have rest: "nb4 D (ly_remainingQty l - d) = ly_remainingQty l - d"
    using lok [OF l(1)] d(3) by (simp add: layer_ok_def dec_diff)
  have row: "layer_ok D ds' (if ly_id x = ly_id l then take_layer D (ly_remainingQty l - d) x else x)"
    if "x \<in> set (costLayers s)" for x
  proof (cases "ly_id x = ly_id l")
    case True
    then have "x = l" using layer_unique [OF ok l(1) that] by simp
    then show ?thesis using lok [OF l(1)] d rest by (auto simp: layer_ok_def take_layer_def ds')
  next
    case False
    then show ?thesis using lok [OF that] by (simp add: layer_ok_def ds')
  qed
  have rows: "costLayers (depleted_state D p l d s) = set_row ly_id (ly_id l) (take_layer D (ly_remainingQty l - d)) (costLayers s)"
    by (simp add: depleted_state_def)
  have id: "ly_id (take_layer D x l') = ly_id l'" for x l' by (simp add: take_layer_def)
  have lt: "ly_id x < Suc (erp_next (books s))" if "x \<in> set (costLayers s)" for x
    using ok that by (simp add: layers_ok_def less_SucI)
  show ?thesis
    using ok row d l(1)
    unfolding layers_ok_def rows ds'_def [symmetric] by (auto simp: list_all_iff in_set_row id ds'_def depleted_state_def lt)
qed

theorem deplete_from_run:
  assumes "layers_ok D s" "distinct (map ly_id ls)" "\<And>l. l \<in> set ls \<Longrightarrow> l \<in> set (costLayers s) \<and> issuable l" "nb4 D q = q"
  shows "\<exists>t. deplete_from D p ls q c s = (Inr (unissued q (map stock_of ls), c + issue_value q (map stock_of ls)), t) \<and>
    layers_ok D t \<and> costLayers t = map (with_rows (taken D q ls)) (costLayers s)"
  using assms
proof (induction ls arbitrary: q c s)
  case Nil
  then show ?case by (simp add: run_simps with_rows_def)
next
  case (Cons l ls)
  note l = Cons.prems(3) [OF list.set_intros(1)]
  show ?case
  proof (cases "q \<le> 0")
    case True
    have "with_rows (l # ls) x = x" if "x \<in> set (costLayers s)" for x
    proof (cases "find_by ly_id (ly_id x) (l # ls)")
      case (Some y)
      then have "y \<in> set (l # ls)" "ly_id y = ly_id x" using find_by_Some by fast+
      then have "y = x" using Cons.prems(1,3) layer_unique that by blast
      with Some show ?thesis by (simp add: with_rows_def)
    qed (simp add: with_rows_def)
    then have "map (with_rows (l # ls)) (costLayers s) = costLayers s" by (simp add: map_idI)
    with True Cons.prems(1) show ?thesis by (simp add: run_simps stock_of_def)
  next
    case False
    define d where "d = min q (ly_remainingQty l)"
    define s1 where "s1 = depleted_state D p l d s"
    have grid: "nb4 D (ly_remainingQty l) = ly_remainingQty l"
      using Cons.prems(1) l by (simp add: layers_ok_def layer_ok_def list_all_iff)
    then have d: "0 < d" "d \<le> ly_remainingQty l" "nb4 D d = d"
      using False l Cons.prems(4) by (auto simp: d_def issuable_def min_def)
    have ok1: "layers_ok D s1" unfolding s1_def using depleted_layers_ok Cons.prems(1) l d by blast
    have kept: "x \<in> set (costLayers s1)" if "x \<in> set (costLayers s)" "ly_id x \<noteq> ly_id l" for x
      using that by (auto simp: s1_def depleted_state_def in_set_row)
    have "\<exists>t. deplete_from D p ls (q - d) (c + d * ly_unitCost l) s1 =
        (Inr (unissued (q - d) (map stock_of ls), c + d * ly_unitCost l + issue_value (q - d) (map stock_of ls)), t) \<and>
        layers_ok D t \<and> costLayers t = map (with_rows (taken D (q - d) ls)) (costLayers s1)"
    proof (rule Cons.IH)
      fix x
      assume x: "x \<in> set ls"
      then have "x \<in> set (costLayers s)" "issuable x" using Cons.prems(3) by auto
      moreover have "ly_id x \<in> ly_id ` set ls" using x by (rule imageI)
      moreover from this have "ly_id x \<noteq> ly_id l" using Cons.prems(2) by (metis distinct.simps(2) list.map(2) set_map)
      ultimately show "x \<in> set (costLayers s1) \<and> issuable x" using kept by blast
    qed (use ok1 Cons.prems(2,4) d in \<open>auto simp: dec_diff\<close>)
    then obtain t where t: "deplete_from D p ls (q - d) (c + d * ly_unitCost l) s1 =
        (Inr (unissued (q - d) (map stock_of ls), c + d * ly_unitCost l + issue_value (q - d) (map stock_of ls)), t)"
        "layers_ok D t" "costLayers t = map (with_rows (taken D (q - d) ls)) (costLayers s1)" by blast
    have "deplete_from D p (l # ls) q c s = deplete_from D p ls (q - d) (c + d * ly_unitCost l) s1"
      using False deplete_one [OF Cons.prems(1), of l, OF conjunct1 [OF l]] l
      by (simp add: run_simps run_seq Let_def s1_def flip: d_def)
    moreover have "map (with_rows (taken D (q - d) ls)) (costLayers s1) =
        map (with_rows (take_layer D (ly_remainingQty l - d) l # taken D (q - d) ls)) (costLayers s)"
      unfolding s1_def depleted_state_def
      using set_row_with_rows [OF Cons.prems(1), of l ls] l Cons.prems(2) by (simp add: take_layer_def)
    moreover have "stock_of l = (ly_remainingQty l, ly_unitCost l)" by (simp add: stock_of_def)
    ultimately show ?thesis
      using t False by (simp add: add.assoc flip: d_def)
  qed
qed

end

section \<open>The queue of an item\<close>

abbreviation queue :: "deplete_params \<Rightarrow> costing \<Rightarrow> (rat \<times> rat) list" where
  "queue p s \<equiv> map stock_of (layers_for p s)"

text \<open>Where a layer stands in the issue order: FIFO by date, otherwise the newest first.\<close>

definition issue_rank :: "deplete_params \<Rightarrow> CostLayer \<Rightarrow> timestamp" where
  "issue_rank p l = (if de_method p = FIFO then ly_layerDate l else - ly_layerDate l)"

lemma layers_for_set: "set (layers_for p s) = {l \<in> set (costLayers s). depletable (de_tenantId p) (de_productId p) (de_locationId p) l}"
  by (auto simp: layers_for_def Let_def)

lemma layers_for_issuable: "l \<in> set (layers_for p s) \<Longrightarrow> l \<in> set (costLayers s) \<and> issuable l"
  by (auto simp: layers_for_set depletable_def issuable_def)

lemma layers_for_rank: "sorted (map (issue_rank p) (layers_for p s))"
proof (cases "de_method p = FIFO")
  case True
  then have "issue_rank p = ly_layerDate" by (auto simp: issue_rank_def)
  with True show ?thesis by (simp add: layers_for_def Let_def)
next
  case False
  then have "issue_rank p = (\<lambda>l. - ly_layerDate l)" by (auto simp: issue_rank_def)
  with False show ?thesis by (simp add: layers_for_def Let_def)
qed

lemma distinct_map_sort: "distinct (map f (sort_key k xs)) = distinct (map f xs)"
  by (rule mset_eq_imp_distinct_iff) (metis mset_map mset_sort)

lemma layers_for_distinct: "layers_ok D s \<Longrightarrow> distinct (map ly_id (layers_for p s))"
  by (simp add: layers_for_def Let_def distinct_map_sort distinct_map_filter layers_ok_def)

text \<open>Updating rows without touching the sort key commutes with sorting.\<close>

lemma insort_key_map: "insort_key k (f x) (map f xs) = map f (insort_key (\<lambda>x. k (f x)) x xs)"
  by (induction xs) auto

lemma sort_key_map: "sort_key k (map f xs) = map f (sort_key (\<lambda>x. k (f x)) xs)"
  by (induction xs) (simp_all add: insort_key_map)

lemma sort_key_cong_on: "(\<And>x. x \<in> set xs \<Longrightarrow> k x = k' x) \<Longrightarrow> sort_key k xs = sort_key k' xs"
proof (induction xs)
  case (Cons x xs)
  have "insort_key k x ys = insort_key k' x ys" if "set ys \<subseteq> set (x # xs)" for ys
    using that Cons.prems by (induction ys) auto
  moreover have "set (sort_key k' xs) \<subseteq> set (x # xs)" by auto
  ultimately show ?case using Cons by simp
qed simp

lemma filter_map_inside: "(\<And>x. x \<in> set xs \<Longrightarrow> P (f x) \<Longrightarrow> P x) \<Longrightarrow> filter P (map f xs) = filter P (map f (filter P xs))"
  by (induction xs) auto

lemma sort_filter_update:
  assumes "\<And>x. x \<in> set xs \<Longrightarrow> k (f x) = k x"
  shows "sort_key k (filter P (map f xs)) = filter P (map f (sort_key k xs))"
proof -
  have "sort_key k (map f xs) = map f (sort_key k xs)"
    unfolding sort_key_map using assms by (simp cong: sort_key_cong_on)
  then show ?thesis by (metis filter_sort)
qed

definition rank_keys :: "CostLayer \<Rightarrow> timestamp \<times> timestamp" where
  "rank_keys l = (ly_layerDate l, ly_createdAt l)"

lemma layers_for_update:
  assumes "costLayers t = map f (costLayers s)" "\<And>x. x \<in> set (costLayers s) \<Longrightarrow> rank_keys (f x) = rank_keys x"
    "\<And>x. x \<in> set (costLayers s) \<Longrightarrow> P (f x) \<Longrightarrow> P x" "P = depletable (de_tenantId p) (de_productId p) (de_locationId p)"
  shows "layers_for p t = filter P (map f (layers_for p s))"
proof -
  have keys: "ly_layerDate (f x) = ly_layerDate x" "ly_createdAt (f x) = ly_createdAt x" if "x \<in> set (costLayers s)" for x
    using assms(2) [OF that] by (simp_all add: rank_keys_def)
  have inside: "filter P (map f (costLayers s)) = filter P (map f (filter P (costLayers s)))"
    using assms(3) by (rule filter_map_inside)
  have sorts: "sort_key k (sort_key k' (filter P (map f (filter P (costLayers s))))) =
      filter P (map f (sort_key k (sort_key k' (filter P (costLayers s)))))"
    if "\<And>x. x \<in> set (costLayers s) \<Longrightarrow> k (f x) = k x" "\<And>x. x \<in> set (costLayers s) \<Longrightarrow> k' (f x) = k' x" for k k' :: "CostLayer \<Rightarrow> int"
  proof -
    let ?X = "filter P (costLayers s)"
    have "sort_key k' (filter P (map f ?X)) = filter P (map f (sort_key k' ?X))"
      by (rule sort_filter_update) (use that in auto)
    moreover have "sort_key k (filter P (map f (sort_key k' ?X))) = filter P (map f (sort_key k (sort_key k' ?X)))"
      by (rule sort_filter_update) (use that in auto)
    ultimately show ?thesis by simp
  qed
  show ?thesis
    unfolding layers_for_def Let_def assms(1) assms(4) [symmetric] inside using sorts keys by simp
qed

lemma with_rows_taken: "distinct (map ly_id ls) \<Longrightarrow> map (with_rows (taken D q ls)) ls = taken D q ls"
proof (induction ls arbitrary: q)
  case (Cons l ls)
  have skip: "map (with_rows (x # rows)) ls = map (with_rows rows) ls" if "ly_id x = ly_id l" for x rows
    using Cons.prems that by (auto simp: with_rows_def image_iff)
  have same: "map (with_rows ls) ls = ls" using Cons.IH [of 0] Cons.prems by (cases ls) auto
  show ?case using Cons by (auto simp: skip same take_layer_def) (simp_all add: with_rows_def)
qed simp

lemma with_rows_keys:
  assumes "layers_ok D s" "set ls \<subseteq> set (costLayers s)" "x \<in> set (costLayers s)"
  shows "rank_keys (with_rows (taken D q ls) x) = rank_keys x"
    "depletable a b c (with_rows (taken D q ls) x) \<Longrightarrow> (\<And>l. l \<in> set ls \<Longrightarrow> depletable a b c l) \<Longrightarrow> depletable a b c x"
proof -
  have *: "find_by ly_id (ly_id x) (taken D q ls) = Some y \<Longrightarrow> x \<in> set ls \<and> rank_keys y = rank_keys x" if "set ls \<subseteq> set (costLayers s)" for y q ls
    using that
  proof (induction ls arbitrary: q)
    case (Cons l ls)
    have "ly_id l = ly_id x \<Longrightarrow> l = x" using layer_unique [OF assms(1,3)] Cons.prems(2) by simp
    moreover have "find_by ly_id (ly_id x) ls = Some y \<Longrightarrow> y = x"
      using find_by_Some [of ly_id "ly_id x" ls y] layer_unique [OF assms(1,3), of y] Cons.prems(2) by auto
    ultimately show ?case
      using Cons find_by_Some [of ly_id "ly_id x" ls y]
      by (auto simp: take_layer_def rank_keys_def split: if_splits)
  qed simp
  show "rank_keys (with_rows (taken D q ls) x) = rank_keys x"
    using * [OF assms(2)] by (cases "find_by ly_id (ly_id x) (taken D q ls)") (auto simp: with_rows_def)
  show "depletable a b c x" if "depletable a b c (with_rows (taken D q ls) x)" "\<And>l. l \<in> set ls \<Longrightarrow> depletable a b c l"
    using * [OF assms(2)] that by (cases "find_by ly_id (ly_id x) (taken D q ls)") (auto simp: with_rows_def)
qed

lemma filter_all: "(\<And>x. x \<in> set xs \<Longrightarrow> P x) \<Longrightarrow> filter P xs = xs"
  by (induction xs) auto

context cost_numbers
begin

lemma taken_stock:
  assumes "nb4 D q = q" "\<And>l. l \<in> set ls \<Longrightarrow> depletable a b c l \<and> nb4 D (ly_remainingQty l) = ly_remainingQty l"
  shows "map stock_of (filter (depletable a b c) (taken D q ls)) = issued_stock q (map stock_of ls)"
  using assms
proof (induction ls arbitrary: q)
  case (Cons l ls)
  define r where "r = ly_remainingQty l"
  have l: "depletable a b c l" "0 < r" "nb4 D r = r" "stock_of l = (r, ly_unitCost l)"
    using Cons.prems(2) [of l] by (auto simp: depletable_def r_def stock_of_def)
  have IH: "map stock_of (filter (depletable a b c) (taken D (q - r) ls)) = issued_stock (q - r) (map stock_of ls)"
    using Cons.prems l by (intro Cons.IH) (auto simp: dec_diff)
  have rest: "filter (depletable a b c) ls = ls" using Cons.prems by (intro filter_all) auto
  have all: "taken D 0 ls = ls" by (cases ls) auto
  consider "q \<le> 0" | "0 < q" "r \<le> q" | "0 < q" "q < r" by linarith
  then show ?case
  proof cases
    case 1
    then show ?thesis using l rest by simp
  next
    case 2
    then have "\<not> depletable a b c (take_layer D 0 l)" by (simp add: depletable_def take_layer_def)
    with 2 l IH show ?thesis by (simp add: min_absorb2 flip: r_def)
  next
    case 3
    have "nb4 D (r - q) = r - q" using l Cons.prems(1) by (simp add: dec_diff)
    then have "depletable a b c (take_layer D (r - q) l)" "stock_of (take_layer D (r - q) l) = (r - q, ly_unitCost l)"
      using 3 l(1) by (simp_all add: depletable_def take_layer_def stock_of_def)
    with 3 l rest all show ?thesis by (simp add: min_absorb1 flip: r_def)
  qed
qed simp

lemma queue_after:
  assumes "layers_ok D s" "nb4 D q = q" "costLayers t = map (with_rows (taken D q (layers_for p s))) (costLayers s)"
  shows "queue p t = issued_stock q (queue p s)"
proof -
  let ?P = "depletable (de_tenantId p) (de_productId p) (de_locationId p)"
  have sub: "set (layers_for p s) \<subseteq> set (costLayers s)" and P: "\<And>l. l \<in> set (layers_for p s) \<Longrightarrow> ?P l"
    by (auto simp: layers_for_set)
  have "layers_for p t = filter ?P (map (with_rows (taken D q (layers_for p s))) (layers_for p s))"
    using with_rows_keys [OF assms(1) sub] P by (intro layers_for_update [OF assms(3)]) auto
  then have "layers_for p t = filter ?P (taken D q (layers_for p s))"
    by (simp add: with_rows_taken [OF layers_for_distinct [OF assms(1)]])
  moreover have "nb4 D (ly_remainingQty l) = ly_remainingQty l" if "l \<in> set (layers_for p s)" for l
    using sub that assms(1) by (auto simp: layers_ok_def layer_ok_def list_all_iff)
  ultimately show ?thesis using taken_stock [OF assms(2)] P by simp
qed

text \<open>The depletion as a whole, on the state it leaves.\<close>

theorem depleteCostLayers_run:
  assumes "layers_ok D s" "nb4 D (de_quantity p) = de_quantity p"
  shows "\<exists>t. layers_ok D t \<and> queue p t = issued_stock (de_quantity p) (queue p s) \<and>
    depleteCostLayers D p s =
      (if de_quantity p \<le> stock_total (queue p s) then Inr (issue_value (de_quantity p) (queue p s)) else Inl BadRequestException, t)"
proof -
  have "\<exists>t. deplete_from D p (layers_for p s) (de_quantity p) 0 s =
      (Inr (unissued (de_quantity p) (queue p s), 0 + issue_value (de_quantity p) (queue p s)), t) \<and> layers_ok D t \<and>
      costLayers t = map (with_rows (taken D (de_quantity p) (layers_for p s))) (costLayers s)"
    by (rule deplete_from_run [OF assms(1) layers_for_distinct [OF assms(1)] layers_for_issuable assms(2)])
  then obtain t where t: "deplete_from D p (layers_for p s) (de_quantity p) 0 s =
      (Inr (unissued (de_quantity p) (queue p s), issue_value (de_quantity p) (queue p s)), t)" "layers_ok D t"
      "costLayers t = map (with_rows (taken D (de_quantity p) (layers_for p s))) (costLayers s)"
    by auto
  have "unissued (de_quantity p) (queue p s) \<le> 0 \<longleftrightarrow> de_quantity p \<le> stock_total (queue p s)"
    by (rule unissued_iff) (auto simp: stock_of_def layers_for_set depletable_def)
  then show ?thesis
    using t queue_after [OF assms t(3)]
    by (intro exI [of _ t]) (auto simp: depleteCostLayers_def run_simps run_bind run_seq)
qed

end

section \<open>Every operation keeps the layers\<close>

lemma layers_call: "(\<And>n. commits (\<lambda>b. n \<le> erp_next b) m) \<Longrightarrow> commits (layers_ok D) (call m)"
proof (rule commitsI)
  fix s x t
  assume m: "\<And>n. commits (\<lambda>b. n \<le> erp_next b) m" and ok: "layers_ok D s" and "call m s = (Inr x, t)"
  then obtain u where u: "m (books s) = (Inr x, u)" "t = s\<lparr>books := u\<rparr>" by (auto simp: ok_simps)
  have "erp_next (books s) \<le> erp_next u" using commitsD [OF m _ u(1)] by simp
  with ok show "layers_ok D t" unfolding u(2) by (rule_tac layers_ok_cong [of _ s]) simp_all
qed

lemma layers_other: "(\<And>s. costLayers (f s) = costLayers s \<and> costLayerDepletions (f s) = costLayerDepletions s \<and>
    erp_next (books s) \<le> erp_next (books (f s))) \<Longrightarrow> commits (layers_ok D) (modify f)"
  by (rule commits_modify) (metis layers_ok_cong)

lemma layers_create:
  assumes "\<And>t i. new_layer D i (mk t i)"
  shows "commits (layers_ok D) (create_layer mk)"
proof (rule commitsI)
  fix s i t
  assume ok: "layers_ok D s" and run: "create_layer mk s = (Inr i, t)"
  have t: "t = s\<lparr>books := (books s)\<lparr>erp_next := erp_next (books s) + 1\<rparr>, costLayers := costLayers s @ [mk (today s) (erp_next (books s))]\<rparr>"
    using run by (auto simp: create_layer_def ok_simps today_def)
  have none: "dp_costLayerId d \<noteq> erp_next (books s)" if "d \<in> set (costLayerDepletions s)" for d
    using ok that by (fastforce simp: layers_ok_def)
  then have "depleted_of (erp_next (books s)) (costLayerDepletions s) = 0"
    by (auto simp: depleted_of_def intro: sum_where_none)
  with assms [of "erp_next (books s)" "today s"] ok show "layers_ok D t"
    by (auto simp: t layers_ok_def new_layer_def layer_ok_def intro: less_SucI)
qed

lemma layers_landed: "commits (layers_ok D) (add_landed_cost D t a)"
  unfolding add_landed_cost_def Let_def update_where_def
  by (intro commits_intros commits_modify, erule layers_ok_map) (auto simp: same_layer_def)

lemmas layer_writers = updateMovingAverage_def update_item_cost_def adjustMovingAverageValue_def updateLastIssueCost_def
  save_standard_cost_def accumulateWIP_def absorb_row_def upsert_work_order_cost_def upsert_checkpoint_def
  set_checkpoint_def set_period_lock_def Let_def

sublocale cost_numbers \<subseteq> layers: cost_store D "layers_ok D"
proof unfold_locales
  show "commits (layers_ok D) (depleteCostLayers D p)" if "nb4 D (de_quantity p) = de_quantity p" for p
    using depleteCostLayers_run [OF _ that] by (intro commitsI) (metis prod.inject)
  show "commits (layers_ok D) (create_layer mk)" if "\<And>t i. new_layer D i (mk t i)" for mk
    using that by (rule layers_create)
  show "commits (layers_ok D) (call (recordEntry (nb4 D) e))" for e
    by (intro layers_call counter_record)
  show "layers_ok D (s\<lparr>costLayers := map (freeze_layer t f) (costLayers s)\<rparr>)" if "layers_ok D s" for s t f
    using that by (rule layers_ok_map) (auto simp: same_layer_def freeze_layer_def)
  show "layers_ok D (s\<lparr>costLayers := map (thaw_layer t f) (costLayers s)\<rparr>)" if "layers_ok D s" for s t f
    using that by (rule layers_ok_map) (auto simp: same_layer_def thaw_layer_def)
  show "layers_ok D (s\<lparr>books := rollback_to (books s) b\<rparr>)" if "layers_ok D s" for s b
    using that by (rule_tac layers_ok_cong [of _ s]) (simp_all add: rollback_to_def)
qed (auto simp: layer_writers layers_landed intro: layers_ok_cong
    intro!: layers_call counter_calls commits_intros layers_other)

end
