(* ===== verification/CostKeys.thy ===== *)
theory CostKeys
  imports LayerBooks
begin

text \<open>
  The unique keys of the engine's tables, which it maintains by looking a row up before it
  creates one: one item cost per product and location, one accumulation per work order and cost
  element, one checkpoint per period and one cost record per work order.
\<close>

definition item_key :: "ItemCost \<Rightarrow> uuid \<times> uuid \<times> uuid" where
  "item_key c = (ic_tenantId c, ic_productId c, ic_locationId c)"

definition wip_key :: "WIPCostAccumulation \<Rightarrow> uuid \<times> uuid \<times> string" where
  "wip_key w = (wi_tenantId w, wi_workOrderId w, wi_costElement w)"

definition checkpoint_key :: "PeriodCloseCheckpoint \<Rightarrow> uuid \<times> uuid" where
  "checkpoint_key c = (ck_tenantId c, ck_fiscalPeriodId c)"

definition keys_ok :: "costing \<Rightarrow> bool" where
  "keys_ok s \<longleftrightarrow> distinct (map item_key (itemCosts s)) \<and> distinct (map wip_key (wipAccumulations s)) \<and>
     distinct (map checkpoint_key (closeCheckpoints s)) \<and> distinct (map wc_workOrderId (workOrderCosts s))"

lemma keys_ok_cong:
  "map item_key (itemCosts t) = map item_key (itemCosts s) \<Longrightarrow> map wip_key (wipAccumulations t) = map wip_key (wipAccumulations s) \<Longrightarrow>
   map checkpoint_key (closeCheckpoints t) = map checkpoint_key (closeCheckpoints s) \<Longrightarrow>
   map wc_workOrderId (workOrderCosts t) = map wc_workOrderId (workOrderCosts s) \<Longrightarrow> keys_ok s \<Longrightarrow> keys_ok t"
  unfolding keys_ok_def by simp

lemma keys_call: "commits keys_ok (call m)"
  by (rule commitsI) (auto simp: ok_simps intro: keys_ok_cong)

lemma keys_modify:
  "(\<And>s. map item_key (itemCosts (f s)) = map item_key (itemCosts s) \<and> map wip_key (wipAccumulations (f s)) = map wip_key (wipAccumulations s) \<and>
     map checkpoint_key (closeCheckpoints (f s)) = map checkpoint_key (closeCheckpoints s) \<and>
     map wc_workOrderId (workOrderCosts (f s)) = map wc_workOrderId (workOrderCosts s)) \<Longrightarrow> commits keys_ok (modify f)"
  by (rule commits_modify) (metis keys_ok_cong)

lemma absent_item: "item_cost_at t p l s = None \<Longrightarrow> (t, p, l) \<notin> item_key ` set (itemCosts s)"
  by (auto simp: item_cost_at_def item_key_def find_None_iff)

lemma keys_average: "commits keys_ok (updateMovingAverage D a)"
  by (rule commitsI)
    (auto simp: updateMovingAverage_def update_item_cost_def moved_average_def Let_def ok_simps keys_ok_def item_key_def
      new_item_cost_def split: option.splits dest: absent_item)

lemma keys_update_item: "(\<And>c. item_key (f c) = item_key c) \<Longrightarrow> commits keys_ok (update_item_cost row f)"
  unfolding update_item_cost_def by (intro commits_intros keys_modify) simp

lemma keys_standard: "commits keys_ok (save_standard_cost D p x)"
  by (rule commitsI)
    (auto simp: save_standard_cost_def ok_simps keys_ok_def item_key_def split: option.splits dest: absent_item)

lemma absent_wip: "find (is_wip t w e) rows = None \<Longrightarrow> (t, w, e) \<notin> wip_key ` set rows"
  by (auto simp: is_wip_def wip_key_def find_None_iff)

lemma keys_wip: "commits keys_ok (accumulateWIP D t w e x)"
  by (rule commitsI)
    (auto simp: accumulateWIP_def ok_simps keys_ok_def wip_key_def split: option.splits dest: absent_wip)

lemma keys_order_cost:
  assumes "\<And>t. wc_workOrderId (mk t) = w"
  shows "commits keys_ok (upsert_work_order_cost w mk t)"
proof (rule commitsI)
  fix s x u
  assume ok: "keys_ok s" and run: "upsert_work_order_cost w mk t s = (Inr x, u)"
  have same: "wc_workOrderId (if wc_workOrderId c = w then mk (wc_tenantId c) else c) = wc_workOrderId c" for c
    using assms by simp
  show "keys_ok u"
    using ok run assms
    by (auto simp: upsert_work_order_cost_def ok_simps keys_ok_def find_by_None update_where_def comp_def same
        split: option.splits)
qed

lemma keys_checkpoint: "commits keys_ok (upsert_checkpoint t f x y z)"
  by (rule commitsI)
    (auto simp: upsert_checkpoint_def ok_simps keys_ok_def checkpoint_key_def checkpoint_of_def find_None_iff split: if_splits)

sublocale cost_numbers \<subseteq> keys: cost_store D keys_ok
proof unfold_locales
  show "commits keys_ok (updateMovingAverage D a)" "commits keys_ok (save_standard_cost D r x)"
    "commits keys_ok (accumulateWIP D t w e x)" "commits keys_ok (upsert_checkpoint t f x y z)" for a r x t w e f y z
    by (rule keys_average keys_standard keys_wip keys_checkpoint)+
  show "commits keys_ok (upsert_work_order_cost w mk t)" if "\<And>t. wc_workOrderId (mk t) = w" for w mk t
    using that by (rule keys_order_cost)
  show "commits keys_ok (adjustMovingAverageValue D t p l x)" for t p l x
    unfolding adjustMovingAverageValue_def
    by (intro commits_intros keys_update_item) (simp add: adjusted_value_def item_key_def Let_def)
  show "commits keys_ok (update_item_cost row (revalued D x))" for row x
    by (rule keys_update_item) (simp add: revalued_def item_key_def)
  show "commits keys_ok (depleteCostLayers D p)" for p
  proof -
    have "commits keys_ok (deplete_from D p ls q c)" for ls q c
      by (induction ls arbitrary: q c)
        (auto simp: update_layer_def create_depletion_def Let_def intro!: commits_intros keys_modify keys_call)
    then show ?thesis unfolding depleteCostLayers_def by (intro commits_intros)
  qed
qed (auto simp: create_layer_def add_landed_cost_def set_period_lock_def updateLastIssueCost_def absorb_row_def
    set_checkpoint_def item_key_def wip_key_def checkpoint_key_def Let_def
    intro: keys_ok_cong intro!: keys_call commits_intros keys_modify)

end
