(* ===== verification/CostSystem.thy ===== *)
theory CostSystem
  imports CostKeys
begin

text \<open>
  The costing engine as a system: its operations as steps, interleaved with the steps of the
  stock ledger and of the accounting service on their own, and what holds in every reachable
  state.
\<close>

section \<open>No operation moves a sequence back\<close>

lemma ahead_post_journal [keeps_intros]: "keeps (ahead b) (post_journal D p)"
  unfolding post_journal_def by (intro keeps_intros)

lemma ahead_reads [keeps_intros]: "keeps (ahead b) (resolveBaseCurrency t)" "keeps (ahead b) (assertPeriodOpen t f)"
    "keeps (ahead b) (getStandardCost t p)" "keeps (ahead b) (resolveOverheadRate t p l w)"
  unfolding resolveBaseCurrency_def assertPeriodOpen_def getStandardCost_def resolveOverheadRate_def
  by (intro keeps_intros)+

lemma ahead_deplete_from: "keeps (ahead b) (deplete_from D p ls q c)"
  by (induction ls arbitrary: q c)
    (auto simp: update_layer_def create_depletion_def Let_def intro!: keeps_intros)

lemma ahead_deplete [keeps_intros]: "keeps (ahead b) (depleteCostLayers D p)"
  unfolding depleteCostLayers_def by (intro keeps_intros ahead_deplete_from)

lemma ahead_writers [keeps_intros]: "keeps (ahead b) (create_layer mk)" "keeps (ahead b) (update_item_cost row h)"
    "keeps (ahead b) (updateLastIssueCost D t p l x)" "keeps (ahead b) (accumulateWIP D t w e x)"
    "keeps (ahead b) (absorb_row D els wrow)" "keeps (ahead b) (create_variance mk')"
    "keeps (ahead b) (set_period_lock f locked)" "keeps (ahead b) (set_checkpoint t f g)"
    "keeps (ahead b) (upsert_checkpoint t f x y z)" "keeps (ahead b) (save_standard_cost D ru x)"
  unfolding create_layer_def update_item_cost_def updateLastIssueCost_def accumulateWIP_def absorb_row_def
    create_variance_def set_period_lock_def set_checkpoint_def upsert_checkpoint_def save_standard_cost_def
  by (intro keeps_intros; simp)+

lemma ahead_averages [keeps_intros]: "keeps (ahead b) (updateMovingAverage D a)" "keeps (ahead b) (adjustMovingAverageValue D t p l x)"
  unfolding updateMovingAverage_def adjustMovingAverageValue_def by (intro keeps_intros; simp)+

lemma ahead_receipt: "keeps (ahead b) (calculatePurchaseReceiptCostInTx D p)"
  unfolding calculatePurchaseReceiptCostInTx_def create_rate_snapshot_def by (intro keeps_intros) simp

lemma ahead_allocate_lines: "keeps (ahead b) (allocate_lines D p as)"
  by (induction as) (auto simp: allocate_line_def add_landed_cost_def Let_def intro!: keeps_intros)

lemma ahead_landed: "keeps (ahead b) (allocateLandedCostInTx D p)"
  unfolding allocateLandedCostInTx_def by (intro keeps_intros ahead_allocate_lines)

lemma ahead_issue: "keeps (ahead b) (issueMaterialCostInTx D p)"
  unfolding issueMaterialCostInTx_def issue_cost_def by (intro keeps_intros)

lemma ahead_labor: "keeps (ahead b) (recordLaborCostToWIPInTx D p)"
  unfolding recordLaborCostToWIPInTx_def by (intro keeps_intros)

lemma ahead_overhead: "keeps (ahead b) (recordOverheadToWIPInTx D p)"
  unfolding recordOverheadToWIPInTx_def by (intro keeps_intros)

lemma ahead_completion: "keeps (ahead b) (completeWorkOrderCostInTx D p)"
proof -
  have "keeps (ahead b) (apply_overhead D t w r els)" for t w r els
    by (cases "computed_overhead r els") (auto simp: apply_overhead_def intro!: keeps_intros)
  moreover have "keeps (ahead b) (upsert_work_order_cost w mk t)" for w mk t
    unfolding upsert_work_order_cost_def by (intro keeps_intros) simp_all
  moreover have "keeps (ahead b) (calculateWorkOrderVariances D t w p q els f u)" for t w p q els f u
    unfolding calculateWorkOrderVariances_def by (intro keeps_intros)
  ultimately show ?thesis
    unfolding completeWorkOrderCostInTx_def by (intro keeps_intros)
qed

lemma ahead_scrap: "keeps (ahead b) (costScrapInTx D p)"
  unfolding costScrapInTx_def by (intro keeps_intros)

lemma ahead_revalue: "keeps (ahead b) (revalueInventoryInTx D p)"
  unfolding revalueInventoryInTx_def by (intro keeps_intros) simp

lemma ahead_rollup: "keeps (ahead b) (rollupStandardCostInTx D p)"
proof -
  have "keeps (ahead b) (material_cost t day left cs visited acc)" for t day left cs visited acc
    by (induction t day left cs visited acc rule: material_cost.induct)
      (auto simp: material_cost.simps Let_def intro!: keeps_intros)
  moreover have "keeps (ahead b) (save_costing D p day f)" for day f
    unfolding save_costing_def by (intro keeps_intros) simp_all
  ultimately show ?thesis
    unfolding rollupStandardCostInTx_def recursiveMaterialCost_def by (intro keeps_intros)
qed

lemma ahead_snapshot: "keeps (ahead b) (snapshotPeriodValuationInTx D t f)"
  unfolding snapshotPeriodValuationInTx_def upsert_snapshot_def by (intro keeps_intros) simp

lemma ahead_close: "keeps (ahead b) (closePeriodInTx D t f u)"
  unfolding closePeriodInTx_def by (intro keeps_intros) simp

lemma ahead_reopen: "keeps (ahead b) (reopenPeriodInTx t f why u)"
  unfolding reopenPeriodInTx_def by (intro keeps_intros) simp

section \<open>Steps of the engine\<close>

inductive engine_step :: "numbers \<Rightarrow> costing \<Rightarrow> costing \<Rightarrow> bool" for D :: numbers where
  receipt: "nb4 D (gr_quantity p1) = gr_quantity p1 \<Longrightarrow> calculatePurchaseReceiptCost D p1 s = (r1, t) \<Longrightarrow> engine_step D s t"
| landed: "allocateLandedCost D p2 s = (r2, t) \<Longrightarrow> engine_step D s t"
| issue: "nb4 D (mi_quantity p3) = mi_quantity p3 \<Longrightarrow> issueMaterialCost D p3 s = (r3, t) \<Longrightarrow> engine_step D s t"
| labor: "recordLaborCostToWIP D p4 s = (r4, t) \<Longrightarrow> engine_step D s t"
| overhead: "recordOverheadToWIP D p5 s = (r5, t) \<Longrightarrow> engine_step D s t"
| completion: "nb4 D (cm_completedQty p6) = cm_completedQty p6 \<Longrightarrow> completeWorkOrderCost D p6 s = (r6, t) \<Longrightarrow> engine_step D s t"
| scrap: "nb4 D (sp_quantity p7) = sp_quantity p7 \<Longrightarrow> costScrap D p7 s = (r7, t) \<Longrightarrow> engine_step D s t"
| revaluation: "revalueInventory D p8 s = (r8, t) \<Longrightarrow> engine_step D s t"
| reversal: "reverseTransaction tn i u s = (r9, t) \<Longrightarrow> engine_step D s t"
| rollup: "rollupStandardCost D p10 s = (r10, t) \<Longrightarrow> engine_step D s t"
| snapshot: "snapshotPeriodValuation D tn f s = (r11, t) \<Longrightarrow> engine_step D s t"
| closing: "closePeriod D tn f u s = (r12, t) \<Longrightarrow> engine_step D s t"
| reopening: "reopenPeriod tn f why u s = (r13, t) \<Longrightarrow> engine_step D s t"
| profile: "upsertCostProfile D tn d s = (Inr r14, t) \<Longrightarrow> engine_step D s t"

lemma keeps_retry_from: "keeps I fn \<Longrightarrow> keeps I (retry_from n k fn)"
proof (induction n k fn rule: retry_from.induct)
  case (1 n k fn)
  have "keeps I (if \<not> isConflict e \<or> n \<le> k then throw e else retry_from n (k + 1) fn)" for e
    using 1 by (auto intro: keeps_throw)
  then show ?case using 1(2) by (subst retry_from.simps) (rule keeps_catch)
qed

context cost_store
begin

lemma transaction_keeps:
  assumes "commits I m" "\<And>b. keeps (ahead b) m"
  shows "keeps I (cost_transaction m)"
proof (rule keepsI)
  fix s r t
  assume ok: "I s" and run: "cost_transaction m s = (r, t)"
  obtain r' u where m: "m s = (r', u)" by force
  show "I t"
  proof (cases r')
    case (Inl e)
    have "sequences_le (books s) (books u)" using keepsD [OF assms(2) _ m] by simp
    then show ?thesis using ok run m Inl rollback by (auto simp: run_simps)
  next
    case (Inr x)
    then show ?thesis using ok run m commitsD [OF assms(1)] by (auto simp: run_simps)
  qed
qed

lemmas operation = keepsD [OF transaction_keeps]

lemma reversal_keeps: "reverseTransaction t i u s = (r, v) \<Longrightarrow> I s \<Longrightarrow> I v"
proof -
  assume run: "reverseTransaction t i u s = (r, v)" and ok: "I s"
  obtain r' b where m: "reverseJournalEntry t i u (books s) = (r', b)" by force
  show "I v"
  proof (cases r')
    case (Inl e)
    have "sequences_le (books s) b" using keepsD [OF not_behind_reverseJournalEntry _ m] by simp
    with Inl m run ok show ?thesis
      by (auto simp: reverseTransaction_def reverseJournalEntryById_def call_def run_simps rollback)
  next
    case (Inr x)
    then have "call (reverseJournalEntryById t i u) s = (Inr x, v)"
      using m run by (auto simp: reverseTransaction_def reverseJournalEntryById_def call_def run_simps)
    then show ?thesis using commitsD [OF reverse ok] by blast
  qed
qed

theorem engine_step_keeps: "engine_step D s t \<Longrightarrow> I s \<Longrightarrow> I t"
proof (induction rule: engine_step.induct)
  case (receipt p s r t)
  then show ?case
    using operation [OF receipt_commits ahead_receipt] by (auto simp: calculatePurchaseReceiptCost_def)
next
  case (landed p s r t)
  then show ?case using operation [OF landed_commits ahead_landed] by (auto simp: allocateLandedCost_def)
next
  case (issue p s r t)
  then show ?case using operation [OF issue_commits ahead_issue] by (auto simp: issueMaterialCost_def)
next
  case (labor p s r t)
  then show ?case using operation [OF labor_commits ahead_labor] by (auto simp: recordLaborCostToWIP_def)
next
  case (overhead p s r t)
  then show ?case using operation [OF overhead_commits ahead_overhead] by (auto simp: recordOverheadToWIP_def)
next
  case (completion p s r t)
  then show ?case using operation [OF completion_commits ahead_completion] by (auto simp: completeWorkOrderCost_def)
next
  case (scrap p s r t)
  then show ?case using operation [OF scrap_commits ahead_scrap] by (auto simp: costScrap_def)
next
  case (revaluation p s r t)
  have "keeps I (revalueInventory D p)"
    unfolding revalueInventory_def withRetry_def
    by (intro keeps_retry_from transaction_keeps revalue_commits ahead_revalue)
  then show ?case using revaluation unfolding keeps_def by (metis snd_conv)
next
  case (reversal tn i u s r t)
  then show ?case by (rule reversal_keeps)
next
  case (rollup p s r t)
  then show ?case using operation [OF rollup_commits ahead_rollup rollup(2)] by (simp add: rollupStandardCost_def)
next
  case (snapshot tn f s r t)
  then show ?case using operation [OF snapshot_commits ahead_snapshot] by (auto simp: snapshotPeriodValuation_def)
next
  case (closing tn f u s r t)
  then show ?case using operation [OF close_commits ahead_close] by (auto simp: closePeriod_def)
next
  case (reopening tn f why u s r t)
  then show ?case using operation [OF reopen_commits ahead_reopen] by (auto simp: reopenPeriod_def)
next
  case (profile tn d s r t)
  then show ?case by (rule_tac commitsD [OF profile_commits])
qed

end

section \<open>The whole system\<close>

text \<open>
  The other services run between the engine's operations: the stock ledger's methods (without
  the journal), the accounting service's (without the stock), and whatever maintains the tables
  the engine only reads.
\<close>

definition same_costs :: "costing \<Rightarrow> costing \<Rightarrow> bool" where
  "same_costs s t \<longleftrightarrow> books t = books s \<and> costLayers t = costLayers s \<and> costLayerDepletions t = costLayerDepletions s \<and>
     itemCosts t = itemCosts s \<and> wipAccumulations t = wipAccumulations s \<and> closeCheckpoints t = closeCheckpoints s \<and>
     workOrderCosts t = workOrderCosts s"

inductive cost_step :: "numbers \<Rightarrow> costing \<Rightarrow> costing \<Rightarrow> bool" for D :: numbers where
  engine: "engine_step D s t \<Longrightarrow> cost_step D s t"
| stock: "stock_step (nb4 D) (books s) b \<Longrightarrow> same_journal (books s) b \<Longrightarrow> cost_step D s (s\<lparr>books := b\<rparr>)"
| accounting: "acc_step (nb4 D) (books s) b \<Longrightarrow> same_stock (books s) b \<Longrightarrow> cost_step D s (s\<lparr>books := b\<rparr>)"
| master: "same_costs s t \<Longrightarrow> cost_step D s t"

definition untouched :: "costing \<Rightarrow> bool" where
  "untouched s \<longleftrightarrow> costLayers s = [] \<and> costLayerDepletions s = [] \<and> itemCosts s = [] \<and> wipAccumulations s = [] \<and>
     closeCheckpoints s = [] \<and> workOrderCosts s = [] \<and> journalEntries (books s) = [] \<and> levels (books s) = [] \<and>
     ledger (books s) = [] \<and> stockReservations (books s) = [] \<and> holds (books s) = []"

inductive cost_reachable :: "numbers \<Rightarrow> costing \<Rightarrow> bool" for D :: numbers where
  start: "untouched s \<Longrightarrow> cost_reachable D s"
| step: "cost_reachable D s \<Longrightarrow> cost_step D s t \<Longrightarrow> cost_reachable D t"

definition cost_inv :: "numbers \<Rightarrow> costing \<Rightarrow> bool" where
  "cost_inv D s \<longleftrightarrow> layers_ok D s \<and> keys_ok s \<and> journal_ok (books s) \<and> stock_inv (nb4 D) (books s)"

lemma cost_inv_start: "untouched s \<Longrightarrow> cost_inv D s"
  by (simp add: untouched_def cost_inv_def layers_ok_def keys_ok_def journal_ok_empty stock_inv_empty)

context cost_numbers
begin

lemma cost_step_keeps: "cost_step D s t \<Longrightarrow> cost_inv D s \<Longrightarrow> cost_inv D t"
proof (induction rule: cost_step.induct)
  case (engine s t)
  then show ?case
    unfolding cost_inv_def
    using layers.engine_step_keeps keys.engine_step_keeps journal.engine.engine_step_keeps stock.engine.engine_step_keeps
    by blast
next
  case (stock s b)
  then have "journal_ok b"
    using journal_ok_cong [of b "books s"] by (simp add: cost_inv_def same_journal_def)
  moreover have "stock_inv (nb4 D) b" using stock stock_step_keeps by (simp add: cost_inv_def)
  moreover have "layers_ok D (s\<lparr>books := b\<rparr>)"
    using stock layers_ok_cong [of "s\<lparr>books := b\<rparr>" s D] by (simp add: cost_inv_def same_journal_def)
  ultimately show ?case using stock by (simp add: cost_inv_def keys_ok_def)
next
  case (accounting s b)
  then have "stock_inv (nb4 D) b" using stock_inv_cong by (auto simp: cost_inv_def)
  moreover have "journal_ok b" using accounting acc_step_keeps by (simp add: cost_inv_def)
  moreover have "layers_ok D (s\<lparr>books := b\<rparr>)"
    using accounting layers_ok_cong [of "s\<lparr>books := b\<rparr>" s D] by (simp add: cost_inv_def same_stock_def)
  ultimately show ?case using accounting by (simp add: cost_inv_def keys_ok_def)
next
  case (master s t)
  then show ?case by (auto simp: same_costs_def cost_inv_def keys_ok_def layers_ok_def)
qed

lemma reachable_inv: "cost_reachable D s \<Longrightarrow> cost_inv D s"
  by (induction rule: cost_reachable.induct) (auto intro: cost_inv_start cost_step_keeps)

end

text \<open>
  The database columns as PostgreSQL rounds them; the JavaScript side of the numbers stays
  arbitrary.
\<close>

definition postgres :: "numbers \<Rightarrow> numbers" where
  "postgres D = D\<lparr>nb4 := numeric4, nb8 := round_away 8\<rparr>"

lemma postgres_sel [simp]: "nb4 (postgres D) = numeric4"
  by (simp add: postgres_def)

interpretation postgres: cost_numbers "postgres D" for D
  using numeric4.cost_column_axioms by (simp add: cost_numbers_def)

end
