(* ===== verification/CostProperties.thy ===== *)
theory CostProperties
  imports CostSystem
begin

text \<open>
  The properties of the costing engine: every reachable state is well formed, depletion refines
  the issue from a queue of stock, revaluation cannot succeed, a completion splits the work in
  process, and closing a period is undone by reopening it.
\<close>

section \<open>An example\<close>

text \<open>
  Tenant 7 buys product 1 at location 2 under FIFO; \<open>example\<close> has the accounts and the posting
  profile of a receipt, and \<open>received\<close> is its state after ten pieces at 2.50 each.
\<close>

definition sample :: numbers where
  "sample = \<lparr>nb4 = numeric4, nb8 = round_away 8, nb_float = (\<lambda>x. x), nb_text = (\<lambda>_. ''0''), nb_shown = (\<lambda>x. x)\<rparr>"

definition account :: "uuid \<Rightarrow> GLAccount" where
  "account i = \<lparr>gl_id = i, gl_tenantId = 7, gl_accountNumber = ''1'', gl_name = ''a'', gl_accountType = ASSET, gl_parentId = None,
     gl_isActive = True, gl_isSystem = False, gl_normalBalance = DEBIT, gl_isInventoryAsset = True\<rparr>"

definition posting_rule :: "PostingTransactionType \<Rightarrow> PostingProfile" where
  "posting_rule ty = \<lparr>pp_id = 12, pp_tenantId = 7, pp_profileName = ''p'', pp_transactionType = ty, pp_debitAccountId = 10,
     pp_creditAccountId = 11, pp_productCategory = None, pp_productCategoryId = None, pp_locationId = None, pp_isActive = True,
     pp_priority = 0\<rparr>"

definition example :: costing where
  "example = (empty_costing (empty_erp\<lparr>glAccounts := [account 10, account 11],
       postingProfiles := map posting_rule [GOODS_RECEIPT, PRODUCTION_RECEIPT, SCRAP, PostingTransactionType.COST_VARIANCE],
       defaultCurrencies := [(7, ''USD'')], erp_next := 100\<rparr>))
     \<lparr>itemCostProfiles := [\<lparr>ip_id = 20, ip_tenantId = 7, ip_productId = 1, ip_locationId = Some 2, ip_costingMethod = FIFO,
        ip_standardCostVersion = None, ip_enableLandedCost = False, ip_overheadRate = Some 10, ip_laborRate = None\<rparr>]\<rparr>"

definition purchase :: receipt_params where
  "purchase = \<lparr>gr_tenantId = 7, gr_goodsReceiptId = 30, gr_goodsReceiptLineId = 31, gr_productId = 1, gr_locationId = 2,
     gr_quantity = 10, gr_unitPrice = 5 / 2, gr_uom = ''EA'', gr_purchaseCurrency = ''USD'', gr_baseCurrency = None,
     gr_exchangeRate = None, gr_batchId = None, gr_fiscalPeriodId = None, gr_userId = 40\<rparr>"

definition received :: costing where
  "received = snd (calculatePurchaseReceiptCost (postgres sample) purchase example)"


text \<open>The issue of fifteen pieces from it, and of four.\<close>

definition issue_of :: "rat \<Rightarrow> deplete_params" where
  "issue_of q = \<lparr>de_tenantId = 7, de_productId = 1, de_locationId = 2, de_quantity = q, de_method = FIFO,
     de_referenceType = ''MATERIAL_ISSUE'', de_referenceId = 50, de_referenceNumber = None\<rparr>"

lemma example_reachable: "cost_reachable (postgres sample) example"
  by (rule cost_reachable.start) (simp add: example_def untouched_def empty_costing_def empty_erp_def)

lemma received_reachable: "cost_reachable (postgres sample) received"
proof (rule cost_reachable.step [OF example_reachable], rule cost_step.engine, rule engine_step.receipt)
  show "nb4 (postgres sample) (gr_quantity purchase) = gr_quantity purchase" by code_simp
  show "calculatePurchaseReceiptCost (postgres sample) purchase example =
      (fst (calculatePurchaseReceiptCost (postgres sample) purchase example), received)"
    by (simp add: received_def)
qed

section \<open>Reachable states\<close>



section \<open>Depletion\<close>

text \<open>
  C23: the depletion of cost layers refines the issue from a queue of stock.  Seen as the queue of
  remaining quantities and unit costs, in order of age (FIFO) or from the newest (LIFO), the layers
  of an item after a depletion are the queue after the issue, and the cost is the value of what was
  taken; it succeeds exactly when the queue holds the quantity.
\<close>

theorem depletion_refines_queue:
  assumes "cost_reachable (postgres D) s" "numeric4 (de_quantity p) = de_quantity p"
  shows "sorted (map (issue_rank p) (layers_for p s)) \<and>
    wp (depleteCostLayers (postgres D) p)
      (\<lambda>cost t. de_quantity p \<le> stock_total (queue p s) \<and> cost = issue_value (de_quantity p) (queue p s) \<and>
         queue p t = issued_stock (de_quantity p) (queue p s))
      (\<lambda>e _. e = BadRequestException \<and> stock_total (queue p s) < de_quantity p) s"
proof -
  have "layers_ok (postgres D) s" using postgres.reachable_inv [OF assms(1)] by (simp add: cost_inv_def)
  then obtain t where "queue p t = issued_stock (de_quantity p) (queue p s)"
      "depleteCostLayers (postgres D) p s = (if de_quantity p \<le> stock_total (queue p s)
         then Inr (issue_value (de_quantity p) (queue p s)) else Inl BadRequestException, t)"
    using postgres.depleteCostLayers_run [of D s p] assms(2) by auto
  then show ?thesis by (simp add: layers_for_rank wp_def)
qed

theorem depletion_refines_queue_witness:
  "\<exists>t. depleteCostLayers (postgres sample) (issue_of 4) received = (Inr 10, t) \<and> queue (issue_of 4) t = [(6, 5 / 2)]"
proof -
  have q: "queue (issue_of 4) received = [(10, 5 / 2)]" by code_simp
  have "numeric4 (de_quantity (issue_of 4)) = de_quantity (issue_of 4)" by code_simp
  note depletion_refines_queue [OF received_reachable this, THEN conjunct2, unfolded q]
  then show ?thesis
    by (auto simp: wp_def issue_of_def stock_total_def split: prod.splits sum.splits)
qed

section \<open>Revaluation\<close>

lemma revaluation_fails: "\<exists>e t. revalueInventoryInTx D p s = (Inl e, t)"
proof -
  have "wp (revalueInventoryInTx D p) (\<lambda>_ _. False) (\<lambda>_ _. True) s"
    by (auto simp: revalueInventoryInTx_def assertPeriodOpen_def wp_simps sequence_names_def split: option.split)
  then show ?thesis by (auto simp: wp_def split: prod.splits sum.splits)
qed

text \<open>The tables a transaction restores when it is rolled back.\<close>

definition same_tables :: "costing \<Rightarrow> costing \<Rightarrow> bool" where
  "same_tables s t \<longleftrightarrow> (\<exists>b. t = s\<lparr>books := rollback_to (books s) b\<rparr>)"

lemma same_tables_trans: "same_tables a b \<Longrightarrow> same_tables b c \<Longrightarrow> same_tables a c"
  by (auto simp: same_tables_def rollback_to_def)

lemma revaluation_retries: "\<exists>e t. retry_from n k (cost_transaction (revalueInventoryInTx D p)) s = (Inl e, t) \<and> same_tables s t"
proof (induction n k "cost_transaction (revalueInventoryInTx D p)" arbitrary: s rule: retry_from.induct)
  case (1 n k)
  obtain e u where e: "revalueInventoryInTx D p s = (Inl e, u)" using revaluation_fails by blast
  define v where "v = s\<lparr>books := rollback_to (books s) (books u)\<rparr>"
  have v: "cost_transaction (revalueInventoryInTx D p) s = (Inl e, v)" "same_tables s v"
    using e by (auto simp: run_simps v_def same_tables_def)
  show ?case
  proof (cases "\<not> isConflict e \<or> n \<le> k")
    case True
    with v show ?thesis by (subst retry_from.simps) (simp add: run_simps)
  next
    case False
    then obtain e' t where "retry_from n (k + 1) (cost_transaction (revalueInventoryInTx D p)) v = (Inl e', t)" "same_tables v t"
      using 1 by blast
    with v False show ?thesis
      by (subst retry_from.simps) (auto simp: run_simps intro: same_tables_trans)
  qed
qed

text \<open>
  C24: no revaluation of inventory succeeds: whatever the item, the new cost and the period, the
  operation ends in an exception and leaves the tables as they were, since it asks the sequence
  service for a number with the prefix \<open>RV\<close>, which that service does not know.
\<close>

theorem revaluation_never_succeeds:
  "\<exists>e b. revalueInventory D p s = (Inl e, s\<lparr>books := rollback_to (books s) b\<rparr>)"
  using revaluation_retries unfolding revalueInventory_def withRetry_def same_tables_def by blast

section \<open>Completion\<close>

text \<open>\<open>returns P m\<close>: whatever \<open>m\<close> returns satisfies \<open>P\<close>.\<close>

definition returns :: "('a \<Rightarrow> bool) \<Rightarrow> ('s, 'e, 'a) prog \<Rightarrow> bool" where
  "returns P m \<longleftrightarrow> (\<forall>s x t. m s = (Inr x, t) \<longrightarrow> P x)"

lemma returns_bind: "(\<And>x. returns P (k x)) \<Longrightarrow> returns P (bind m k)"
  unfolding returns_def bind_ok by blast

lemma returns_seq: "returns P n \<Longrightarrow> returns P (seq m n)"
  unfolding returns_def seq_ok by blast

lemma returns_if: "(b \<Longrightarrow> returns P m) \<Longrightarrow> (\<not> b \<Longrightarrow> returns P n) \<Longrightarrow> returns P (if b then m else n)"
  by simp

lemma returns_prod: "(\<And>x y. returns P (k x y)) \<Longrightarrow> returns P (case v of (x, y) \<Rightarrow> k x y)"
  by (cases v) auto

lemma returns_return: "P x \<Longrightarrow> returns P (return x)"
  unfolding returns_def return_ok by blast

lemmas returns_intros = returns_bind returns_seq returns_if returns_prod returns_return

text \<open>The amounts a completion reports, in terms of the total.\<close>

definition splits_total :: "rat \<Rightarrow> rat \<Rightarrow> completion_result handled \<Rightarrow> bool" where
  "splits_total c d x = (case x of AlreadyProcessed _ \<Rightarrow> True | Processed r \<Rightarrow>
     cx_wipPerUnit r = wip_per_unit (cx_totalWIP r) (c + d) \<and> cx_fgCost r = sig20 (c * cx_wipPerUnit r) \<and>
     cx_scrapCost r = sig20 (d * cx_wipPerUnit r))"

lemma completion_returns:
  "returns (splits_total (cm_completedQty p) (orElse (cm_scrappedQty p) 0)) (completeWorkOrderCostInTx D p)"
  unfolding completeWorkOrderCostInTx_def Let_def by (intro returns_intros) (simp_all add: splits_total_def)

text \<open>One rounded division and product, against the exact share.\<close>

definition tiny :: rat where
  "tiny = 1 / (2 * 10 ^ 19)"

lemma share_error:
  assumes "0 \<le> c" "0 \<le> d" "0 < c + d"
  shows "\<bar>sig20 (c * sig20 (w / (c + d))) + sig20 (d * sig20 (w / (c + d))) - w\<bar> \<le> \<bar>w\<bar> * (tiny * (2 + tiny))"
proof -
  define u where "u = sig20 (w / (c + d))"
  have near: "\<bar>sig20 x - x\<bar> \<le> \<bar>x\<bar> * tiny" for x using sig20_near [of x] by (simp add: tiny_def)
  have pos: "0 \<le> tiny" by (simp add: tiny_def)
  have "\<bar>(c + d) * (u - w / (c + d))\<bar> \<le> (c + d) * (\<bar>w / (c + d)\<bar> * tiny)"
    using near [of "w / (c + d)"] assms unfolding u_def abs_mult by (intro mult_mono) auto
  then have total: "\<bar>(c + d) * u - w\<bar> \<le> \<bar>w\<bar> * tiny"
    using assms by (simp add: right_diff_distrib abs_divide)
  then have size: "(c + d) * \<bar>u\<bar> \<le> \<bar>w\<bar> * (1 + tiny)"
    using assms by (simp add: abs_mult [symmetric] distrib_left)
  have "\<bar>sig20 (c * u) - c * u\<bar> \<le> c * \<bar>u\<bar> * tiny" "\<bar>sig20 (d * u) - d * u\<bar> \<le> d * \<bar>u\<bar> * tiny"
    using near [of "c * u"] near [of "d * u"] assms by (simp_all add: abs_mult)
  then have "\<bar>sig20 (c * u) + sig20 (d * u) - (c + d) * u\<bar> \<le> (c + d) * \<bar>u\<bar> * tiny"
    by (simp add: distrib_right)
  also have "\<dots> \<le> \<bar>w\<bar> * (1 + tiny) * tiny" using size pos by (rule mult_right_mono)
  finally have "\<bar>sig20 (c * u) + sig20 (d * u) - w\<bar> \<le> \<bar>w\<bar> * (1 + tiny) * tiny + \<bar>w\<bar> * tiny"
    using total by linarith
  also have "\<dots> = \<bar>w\<bar> * (tiny * (2 + tiny))" by (simp add: algebra_simps)
  finally show ?thesis by (simp add: u_def)
qed

text \<open>
  A completed work order's cost is split between finished goods and scrap without loss: for
  non-negative quantities, not both zero, the two parts differ from the work in process by at most
  two parts in \<open>10 ^ 19\<close> (the division and the products are rounded to 20 digits), and the
  cost recorded per unit is within one part in \<open>10 ^ 19\<close> of the exact share.
\<close>

theorem completion_splits_wip:
  assumes "completeWorkOrderCost D p s = (Inr (Processed r), t)"
    "0 \<le> cm_completedQty p" "0 \<le> orElse (cm_scrappedQty p) 0" "0 < cm_completedQty p + orElse (cm_scrappedQty p) 0"
  shows "\<bar>cx_fgCost r + cx_scrapCost r - cx_totalWIP r\<bar> \<le> 2 * \<bar>cx_totalWIP r\<bar> / 10 ^ 19 \<and>
    \<bar>cx_wipPerUnit r - cx_totalWIP r / (cm_completedQty p + orElse (cm_scrappedQty p) 0)\<bar>
      \<le> \<bar>cx_totalWIP r / (cm_completedQty p + orElse (cm_scrappedQty p) 0)\<bar> / 10 ^ 19"
proof -
  define c d w where "c = cm_completedQty p" and "d = orElse (cm_scrappedQty p) 0" and "w = cx_totalWIP r"
  have "completeWorkOrderCostInTx D p s = (Inr (Processed r), t)"
    using assms(1) by (simp add: completeWorkOrderCost_def cost_transaction_ok)
  then have "splits_total c d (Processed r)"
    using completion_returns [of p D] unfolding returns_def c_def d_def by blast
  then have r: "cx_wipPerUnit r = sig20 (w / (c + d))" "cx_fgCost r = sig20 (c * sig20 (w / (c + d)))"
      "cx_scrapCost r = sig20 (d * sig20 (w / (c + d)))"
    using assms(4) by (simp_all add: splits_total_def wip_per_unit_def c_def d_def w_def)
  have "0 \<le> c" "0 \<le> d" "0 < c + d" using assms(2-4) by (simp_all add: c_def d_def)
  note share_error [OF this, of w]
  also have "\<bar>w\<bar> * (tiny * (2 + tiny)) \<le> \<bar>w\<bar> * (2 / 10 ^ 19)"
    by (rule mult_left_mono) (simp_all add: tiny_def)
  finally have split: "\<bar>cx_fgCost r + cx_scrapCost r - w\<bar> \<le> 2 * \<bar>w\<bar> / 10 ^ 19" by (simp add: r)
  have "\<bar>w / (c + d)\<bar> / (2 * 10 ^ 19) \<le> \<bar>w / (c + d)\<bar> / 10 ^ 19"
    by (rule divide_left_mono) simp_all
  with sig20_near [of "w / (c + d)"] have "\<bar>cx_wipPerUnit r - w / (c + d)\<bar> \<le> \<bar>w / (c + d)\<bar> / 10 ^ 19"
    unfolding r by (rule order_trans)
  with split show ?thesis unfolding w_def c_def d_def ..
qed

section \<open>Moving average\<close>

lemma between_mean:
  assumes "(0 :: rat) < x" "0 < y"
  shows "min (u / x) c \<le> (u + y * c) / (x + y) \<and> (u + y * c) / (x + y) \<le> max (u / x) c"
proof -
  have u: "u = x * (u / x)" using assms by simp
  have "(x + y) * min (u / x) c \<le> x * (u / x) + y * c" "x * (u / x) + y * c \<le> (x + y) * max (u / x) c"
    unfolding distrib_right using assms by (intro add_mono mult_left_mono; simp)+
  then show ?thesis using assms u by (simp add: pos_le_divide_eq pos_divide_le_eq mult.commute)
qed

lemma find_update_first:
  assumes "find P rows = Some r" "q r" "\<And>x. P (f x) = P x"
  shows "find P (update_where q f rows) = Some (f r)"
  using assms by (induction rows) (auto split: if_splits)

text \<open>
  C25: a receipt moves the average cost of an item to the weighted mean of the old average and the
  receipt's unit cost, which lies between the two, up to half a unit of the fourth decimal and the
  rounding of the division; quantity and value grow by the receipt's.  The update always succeeds
  where the item has a cost record with a positive quantity.
\<close>

theorem receipt_averages:
  assumes "item_cost_at (ua_tenantId p) (ua_productId p) (ua_locationId p) s = Some row"
    "0 < ic_currentTotalQty row" "0 < ua_incomingQty p"
  shows "\<exists>t row'. updateMovingAverage (postgres D) p s = (Inr (), t) \<and>
    item_cost_at (ua_tenantId p) (ua_productId p) (ua_locationId p) t = Some row' \<and>
    ic_currentTotalQty row' = numeric4 (ic_currentTotalQty row + ua_incomingQty p) \<and>
    ic_currentTotalValue row' = numeric4 (ic_currentTotalValue row + ua_incomingQty p * ua_incomingUnitCost p) \<and>
    (let old = ic_currentTotalValue row / ic_currentTotalQty row;
         mean = (ic_currentTotalValue row + ua_incomingQty p * ua_incomingUnitCost p) / (ic_currentTotalQty row + ua_incomingQty p)
     in min old (ua_incomingUnitCost p) \<le> mean \<and> mean \<le> max old (ua_incomingUnitCost p) \<and>
        \<bar>ic_currentUnitCost row' - mean\<bar> \<le> 1 / 20000 + \<bar>mean\<bar> / 10 ^ 19)"
proof -
  define f where "f = moved_average (postgres D) p (today s)"
  define q where "q = (\<lambda>c :: ItemCost. ic_id c = ic_id row \<and> ic_version c = ic_version row)"
  define t where "t = s\<lparr>itemCosts := update_where q f (itemCosts s)\<rparr>"
  define mean where "mean = (ic_currentTotalValue row + ua_incomingQty p * ua_incomingUnitCost p) /
    (ic_currentTotalQty row + ua_incomingQty p)"
  have "row \<in> set (itemCosts s)" using assms(1) find_in unfolding item_cost_at_def by fast
  then have "filter q (itemCosts s) \<noteq> []" by (auto simp: filter_empty_conv q_def)
  then have run: "updateMovingAverage (postgres D) p s = (Inr (), t)"
    using assms(1) by (simp add: updateMovingAverage_def update_item_cost_def run_simps run_bind run_seq t_def f_def q_def comp_def)
  have "ic_tenantId (f c) = ic_tenantId c \<and> ic_productId (f c) = ic_productId c \<and> ic_locationId (f c) = ic_locationId c" for c
    by (simp add: f_def moved_average_def Let_def)
  then have found: "item_cost_at (ua_tenantId p) (ua_productId p) (ua_locationId p) t = Some (f row)"
    using assms(1) unfolding item_cost_at_def t_def by (simp add: find_update_first q_def)
  have "ic_currentUnitCost (f row) = numeric4 (sig20 mean)"
    using assms(2,3) by (simp add: f_def moved_average_def Let_def mean_def)
  moreover have "\<bar>numeric4 (sig20 mean) - sig20 mean\<bar> \<le> 1 / 20000"
    using numeric4.dec_near [of "sig20 mean"] by simp
  moreover have "\<bar>mean\<bar> / (2 * 10 ^ 19) \<le> \<bar>mean\<bar> / 10 ^ 19"
    by (rule divide_left_mono) simp_all
  ultimately have near: "\<bar>ic_currentUnitCost (f row) - mean\<bar> \<le> 1 / 20000 + \<bar>mean\<bar> / 10 ^ 19"
    using sig20_near [of mean] by linarith
  have rest: "ic_currentTotalQty (f row) = numeric4 (ic_currentTotalQty row + ua_incomingQty p)"
      "ic_currentTotalValue (f row) = numeric4 (ic_currentTotalValue row + ua_incomingQty p * ua_incomingUnitCost p)"
    by (simp_all add: f_def moved_average_def Let_def)
  show ?thesis
    using run found near rest between_mean [OF assms(2,3)] unfolding mean_def Let_def by blast
qed

text \<open>Ten pieces worth 25 and a receipt of ten at 5.\<close>

definition averaged :: costing where
  "averaged = example\<lparr>itemCosts := [\<lparr>ic_id = 70, ic_tenantId = 7, ic_productId = 1, ic_locationId = 2, ic_currentUnitCost = 5 / 2,
     ic_currentTotalQty = 10, ic_currentTotalValue = 25, ic_standardCost = 0, ic_lastReceiptCost = 5 / 2,
     ic_lastReceiptDate = None, ic_lastIssueCost = None, ic_lastIssueDate = None, ic_currency = ''USD'', ic_version = 1\<rparr>]\<rparr>"

definition dearer :: average_params where
  "dearer = \<lparr>ua_tenantId = 7, ua_productId = 1, ua_locationId = 2, ua_incomingQty = 10, ua_incomingUnitCost = 5, ua_currency = ''USD''\<rparr>"

theorem receipt_averages_witness:
  "\<exists>t row'. updateMovingAverage (postgres sample) dearer averaged = (Inr (), t) \<and> item_cost_at 7 1 2 t = Some row' \<and>
     ic_currentTotalQty row' = 20 \<and> \<bar>ic_currentUnitCost row' - 15 / 4\<bar> \<le> 1 / 20000 + 15 / 4 / 10 ^ 19"
proof -
  define row where "row = hd (itemCosts averaged)"
  have row: "item_cost_at 7 1 2 averaged = Some row" "ic_currentTotalQty row = 10" "ic_currentTotalValue row = 25"
    by (simp_all add: row_def averaged_def item_cost_at_def)
  have "numeric4 20 = 20" by code_simp
  then show ?thesis
    using receipt_averages [of dearer averaged row sample] row by (auto simp: dearer_def Let_def)
qed

section \<open>Closing and reopening\<close>













section \<open>What the other components see\<close>

text \<open>
  A close does not touch the accounting service's cache of periods, which keeps saying that the
  period is open until it expires.
\<close>

lemma close_keeps_cache:
  assumes "closePeriod D t f u s = (Inr r, s1)"
  shows "fiscalPeriodCache (books s1) = fiscalPeriodCache (books s)"
  using assms
  by (auto simp: closePeriod_def closePeriodInTx_def set_period_lock_def set_checkpoint_def ok_simps split: option.splits)

text \<open>
  An item with a profile of its location and one of no location is listed, and valued, twice in a
  valuation snapshot.
\<close>

definition twice_profiled :: costing where
  "twice_profiled = averaged\<lparr>books := (books averaged)\<lparr>levels := [\<lparr>lv_id = 80, lv_tenantId = 7, lv_productId = 1, lv_locationId = 2,
       lv_onHandQty = 10, lv_availableQty = 10, lv_reservedQty = 0, lv_quarantineQty = 0, lv_version = 1\<rparr>]\<rparr>,
     itemCostProfiles := itemCostProfiles averaged @ map (ip_locationId_update (\<lambda>_. None)) (itemCostProfiles averaged)\<rparr>"

lemma snapshot_counts_twice: "map sn_totalValue (snapshot_rows 7 twice_profiled) = [25, 25]"
  by code_simp

end
