(* ===== verification/PlanningSchema.thy ===== *)
theory PlanningSchema
  imports JsLib
begin

text \<open>
  The rows of the approval workflow, plan, scenario and time bucket tables of
  \<open>apps/api/prisma/schema.prisma\<close>, the errors of the services that write them and their state,
  one list per table.  Columns of type \<open>DATE\<close> and instants are milliseconds; JSON settings,
  comments and timestamps nothing reads are left out.
\<close>

section \<open>Enumerations and errors\<close>

datatype WorkflowEntityType = PLAN_VERSION | SCENARIO | FORECAST_RUN | FORECAST_OVERRIDE
  | FORECAST_RECONCILIATION | FORECAST | PLANNED_ORDER | BOM | PROMOTION | PRICE_CHANGE
datatype ApproverType = USER | ROLE | MANAGER | DYNAMIC
datatype WorkflowStatus = IN_PROGRESS | APPROVED | REJECTED | CANCELLED | ON_HOLD
datatype WorkflowActionType = SUBMIT | APPROVE | REJECT | DELEGATE | RETURN | COMMENT | ESCALATE
datatype UserRole = SUPER_ADMIN | ADMIN | PLANNER | FORECAST_PLANNER | FINANCE | VIEWER | FORECAST_VIEWER
datatype PlanStatus = DRAFT | IN_REVIEW | APPROVED | LOCKED | ARCHIVED
datatype PlanType = BUDGET | FORECAST | STRATEGIC | WHAT_IF
datatype ScenarioType = BASE | OPTIMISTIC | PESSIMISTIC | STRETCH | CONSERVATIVE | CUSTOM
datatype AssumptionType = GROWTH_RATE | PRICE_CHANGE | VOLUME_CHANGE | COST_INFLATION | SEASONALITY
  | PROMOTION | NEW_PRODUCT | DISCONTINUATION | CUSTOM
datatype ValueType = PERCENTAGE | ABSOLUTE | MULTIPLIER | INDEX
datatype PeriodType = DAILY | WEEKLY | MONTHLY | QUARTERLY | YEARLY
datatype AuditAction = CREATE | UPDATE | DELETE | VIEW | EXPORT | IMPORT | LOGIN | LOGOUT | APPROVE | LOCK | UNLOCK

text \<open>
  The exceptions of NestJS, and the errors of the Prisma client: a missing row (P2025), a
  unique constraint (P2002) and a foreign key (P2003).
\<close>

datatype planning_error =
    BadRequestException
  | NotFoundException
  | ConflictException
  | PrismaRecordNotFound
  | PrismaUniqueViolation
  | PrismaForeignKeyViolation

section \<open>Rows\<close>

record User =
  us_id :: uuid
  us_tenantId :: uuid
  us_role :: UserRole

record WorkflowTemplate =
  wt_id :: uuid
  wt_tenantId :: uuid
  wt_name :: string
  wt_description :: "string option"
  wt_entityType :: WorkflowEntityType
  wt_isActive :: bool

record WorkflowStep =
  ws_id :: uuid
  ws_templateId :: uuid
  ws_sequence :: int
  ws_name :: string
  ws_approverType :: ApproverType
  ws_approverRole :: "UserRole option"
  ws_approverUserId :: "uuid option"
  ws_requiredApprovals :: int
  ws_canReject :: bool

record WorkflowInstance =
  wn_id :: uuid
  wn_tenantId :: uuid
  wn_templateId :: uuid
  wn_entityType :: WorkflowEntityType
  wn_entityId :: uuid
  wn_status :: WorkflowStatus
  wn_currentStep :: int
  wn_submittedBy :: uuid
  wn_submittedAt :: timestamp
  wn_completedAt :: "timestamp option"
  wn_notes :: "string option"

record WorkflowAction =
  wa_instanceId :: uuid
  wa_stepNumber :: int
  wa_action :: WorkflowActionType
  wa_performedBy :: uuid
  wa_comments :: "string option"

record PlanVersion =
  pv_id :: uuid
  pv_tenantId :: uuid
  pv_name :: string
  pv_description :: "string option"
  pv_planType :: PlanType
  pv_status :: PlanStatus
  pv_version :: int
  pv_startDate :: timestamp
  pv_endDate :: timestamp
  pv_periodType :: PeriodType
  pv_isLocked :: bool
  pv_lockedAt :: "timestamp option"
  pv_lockedReason :: "string option"
  pv_approvedAt :: "timestamp option"
  pv_approvedById :: "uuid option"
  pv_parentVersionId :: "uuid option"
  pv_createdById :: uuid

record Scenario =
  se_id :: uuid
  se_tenantId :: uuid
  se_planVersionId :: uuid
  se_name :: string
  se_description :: "string option"
  se_scenarioType :: ScenarioType
  se_status :: PlanStatus
  se_lockedAt :: "timestamp option"
  se_lockedReason :: "string option"
  se_isBaseline :: bool
  se_color :: "string option"
  se_sortOrder :: int

record Assumption =
  as_id :: uuid
  as_tenantId :: uuid
  as_planVersionId :: uuid
  as_scenarioId :: "uuid option"
  as_name :: string
  as_description :: "string option"
  as_assumptionType :: AssumptionType
  as_productId :: "uuid option"
  as_locationId :: "uuid option"
  as_customerId :: "uuid option"
  as_accountId :: "uuid option"
  as_value :: rat
  as_valueType :: ValueType
  as_startDate :: "timestamp option"
  as_endDate :: "timestamp option"
  as_priority :: int
  as_isActive :: bool

record TimeBucket =
  tb_id :: uuid
  tb_tenantId :: uuid
  tb_periodType :: PeriodType
  tb_periodKey :: string
  tb_bucketStart :: timestamp
  tb_bucketEnd :: timestamp
  tb_fiscalYear :: "int option"
  tb_fiscalQuarter :: "int option"
  tb_fiscalMonth :: "int option"
  tb_fiscalWeek :: "int option"
  tb_isFrozen :: bool

record audit_log =
  al_tenantId :: uuid
  al_userId :: uuid
  al_action :: AuditAction
  al_entityType :: string
  al_entityId :: uuid
  al_oldStatus :: PlanStatus
  al_newStatus :: PlanStatus

section \<open>State\<close>

text \<open>\<open>fiscalYearStarts\<close> is the column \<open>fiscal_year_start\<close> of the tenants.\<close>

record planning =
  users :: "User list"
  workflowTemplates :: "WorkflowTemplate list"
  workflowSteps :: "WorkflowStep list"
  workflowInstances :: "WorkflowInstance list"
  workflowActions :: "WorkflowAction list"
  planVersions :: "PlanVersion list"
  scenarios :: "Scenario list"
  assumptions :: "Assumption list"
  timeBuckets :: "TimeBucket list"
  auditLogs :: "audit_log list"
  fiscalYearStarts :: "(uuid \<times> int) list"
  next_id :: uuid
  clock :: timestamp

type_synonym 'a planning_prog = "(planning, planning_error, 'a) prog"

definition empty_planning :: planning where
  "empty_planning = \<lparr>users = [], workflowTemplates = [], workflowSteps = [], workflowInstances = [],
     workflowActions = [], planVersions = [], scenarios = [], assumptions = [], timeBuckets = [], auditLogs = [],
     fiscalYearStarts = [], next_id = 0, clock = 0\<rparr>"

definition new_id :: "uuid planning_prog" where
  "new_id = (\<lambda>s. (Inr (next_id s), s\<lparr>next_id := next_id s + 1\<rparr>))"

lemma run_new_id [run_simps]: "new_id s = (Inr (next_id s), s\<lparr>next_id := next_id s + 1\<rparr>)"
  by (simp add: new_id_def)

lemma new_id_ok [ok_simps]: "new_id s = (Inr i, t) \<longleftrightarrow> i = next_id s \<and> t = s\<lparr>next_id := next_id s + 1\<rparr>"
  by (auto simp: run_simps)

lemma wp_new_id [wp_simps]: "wp new_id Q E s = Q (next_id s) (s\<lparr>next_id := next_id s + 1\<rparr>)"
  by (simp add: wp_def run_simps)

text \<open>\<open>orderBy: { submittedAt: 'desc' }\<close> and \<open>orderBy: { sequence: 'asc' }\<close>.\<close>

definition newest_first :: "WorkflowInstance list \<Rightarrow> WorkflowInstance list" where
  "newest_first = sort_key (\<lambda>i. - wn_submittedAt i)"

text \<open>\<open>this.auditService.log(...)\<close> of a change of status.\<close>

definition log_status :: "User \<Rightarrow> AuditAction \<Rightarrow> string \<Rightarrow> uuid \<Rightarrow> PlanStatus \<Rightarrow> PlanStatus \<Rightarrow> unit planning_prog" where
  "log_status user action entityType entityId oldStatus newStatus =
     modify (\<lambda>s. s\<lparr>auditLogs := auditLogs s @
       [\<lparr>al_tenantId = us_tenantId user, al_userId = us_id user, al_action = action, al_entityType = entityType,
         al_entityId = entityId, al_oldStatus = oldStatus, al_newStatus = newStatus\<rparr>]\<rparr>)"

definition first_of :: "'a list \<Rightarrow> 'a option" where
  "first_of xs = (case xs of [] \<Rightarrow> None | x # _ \<Rightarrow> Some x)"

lemma first_of_simps [simp]: "first_of [] = None" "first_of (x # xs) = Some x"
  by (simp_all add: first_of_def)

lemma first_of_in: "first_of xs = Some x \<Longrightarrow> x \<in> set xs"
  by (cases xs) auto

definition steps_of :: "uuid \<Rightarrow> planning \<Rightarrow> WorkflowStep list" where
  "steps_of templateId s = sort_key ws_sequence (filter (\<lambda>w. ws_templateId w = templateId) (workflowSteps s))"

end
