(* ===== verification/Workflow.thy ===== *)
theory Workflow
  imports PlanningSchema
begin

text \<open>
  The approval workflow of \<open>core/workflow/workflow.service.ts\<close>.  Every method reads and writes in
  separate database calls, without a transaction: what it wrote before an exception stays.
\<close>

section \<open>Starting\<close>

definition MIN_APPROVAL_STEPS :: nat where
  "MIN_APPROVAL_STEPS = 3"

definition active_template :: "uuid \<Rightarrow> WorkflowEntityType \<Rightarrow> planning \<Rightarrow> WorkflowTemplate option" where
  "active_template tenantId entityType s =
     find (\<lambda>t. wt_tenantId t = tenantId \<and> wt_entityType t = entityType \<and> wt_isActive t) (workflowTemplates s)"

definition hasActiveTemplate :: "uuid \<Rightarrow> WorkflowEntityType \<Rightarrow> bool planning_prog" where
  "hasActiveTemplate tenantId entityType =
     bind (gets (active_template tenantId entityType)) (\<lambda>template. return (template \<noteq> None))"

text \<open>\<open>[...steps].sort((a, b) => a.sequence - b.sequence)\<close> is \<open>1, 2, ..., n\<close>.\<close>

definition assertTemplateStepsIntegrity :: "int list \<Rightarrow> unit planning_prog" where
  "assertTemplateStepsIntegrity sequences =
     seq (throwIf (sequences = []) BadRequestException)
         (throwIf (sort sequences \<noteq> [1..int (length sequences)]) BadRequestException)"

definition is_active :: "WorkflowStatus \<Rightarrow> bool" where
  "is_active st \<longleftrightarrow> st = IN_PROGRESS \<or> st = ON_HOLD"

definition active_instance :: "uuid \<Rightarrow> WorkflowEntityType \<Rightarrow> uuid \<Rightarrow> planning \<Rightarrow> WorkflowInstance option" where
  "active_instance tenantId entityType entityId s =
     find (\<lambda>i. wn_tenantId i = tenantId \<and> wn_entityType i = entityType \<and> wn_entityId i = entityId \<and> is_active (wn_status i))
       (workflowInstances s)"

definition create_action :: "uuid \<Rightarrow> int \<Rightarrow> WorkflowActionType \<Rightarrow> uuid \<Rightarrow> string option \<Rightarrow> unit planning_prog" where
  "create_action instanceId stepNumber action performedBy comments =
     modify (\<lambda>s. s\<lparr>workflowActions := workflowActions s @
       [\<lparr>wa_instanceId = instanceId, wa_stepNumber = stepNumber, wa_action = action,
         wa_performedBy = performedBy, wa_comments = comments\<rparr>]\<rparr>)"

definition new_instance :: "uuid \<Rightarrow> WorkflowTemplate \<Rightarrow> WorkflowEntityType \<Rightarrow> uuid \<Rightarrow> int \<Rightarrow> uuid \<Rightarrow> string option \<Rightarrow>
    timestamp \<Rightarrow> uuid \<Rightarrow> WorkflowInstance" where
  "new_instance tenantId template entityType entityId firstStep submittedBy notes t i =
     \<lparr>wn_id = i, wn_tenantId = tenantId, wn_templateId = wt_id template, wn_entityType = entityType,
      wn_entityId = entityId, wn_status = IN_PROGRESS, wn_currentStep = firstStep, wn_submittedBy = submittedBy,
      wn_submittedAt = t, wn_completedAt = None, wn_notes = notes\<rparr>"

definition startWorkflow :: "uuid \<Rightarrow> WorkflowEntityType \<Rightarrow> uuid \<Rightarrow> uuid \<Rightarrow> string option \<Rightarrow> WorkflowInstance planning_prog" where
  "startWorkflow tenantId entityType entityId submittedBy notes =
     bind (gets (active_template tenantId entityType)) (\<lambda>found.
     bind (orThrow BadRequestException found) (\<lambda>template.
     bind (gets (steps_of (wt_id template))) (\<lambda>steps.
     seq (assertTemplateStepsIntegrity (map ws_sequence steps))
    (seq (throwIf (length steps < MIN_APPROVAL_STEPS) BadRequestException)
    (bind (gets (active_instance tenantId entityType entityId)) (\<lambda>activeInstance.
     seq (throwIf (activeInstance \<noteq> None) BadRequestException)
    (bind (gets clock) (\<lambda>t.
     bind new_id (\<lambda>i.
     let row = new_instance tenantId template entityType entityId (ws_sequence (hd steps)) submittedBy notes t i in
     seq (modify (\<lambda>s. s\<lparr>workflowInstances := workflowInstances s @ [row]\<rparr>))
    (seq (create_action i (ws_sequence (hd steps)) SUBMIT submittedBy notes)
         (return row)))))))))))"

section \<open>Approval\<close>

text \<open>The instance with the steps of its template in order; a missing tenant does not filter.\<close>

definition getInstanceWithTemplate :: "uuid \<Rightarrow> uuid option \<Rightarrow> (WorkflowInstance \<times> WorkflowStep list) planning_prog" where
  "getInstanceWithTemplate instanceId tenantId =
     bind (gets (\<lambda>s. find (\<lambda>i. wn_id i = instanceId \<and> (tenantId = None \<or> tenantId = Some (wn_tenantId i))) (workflowInstances s)))
       (\<lambda>found.
     bind (orThrow NotFoundException found) (\<lambda>row.
     bind (gets (steps_of (wn_templateId row))) (\<lambda>steps. return (row, steps))))"

definition step_at :: "int \<Rightarrow> WorkflowStep list \<Rightarrow> WorkflowStep option" where
  "step_at n steps = find (\<lambda>w. ws_sequence w = n) steps"

definition user_of :: "uuid \<Rightarrow> uuid \<Rightarrow> planning \<Rightarrow> User option" where
  "user_of tenantId userId s = find (\<lambda>u. us_id u = userId \<and> us_tenantId u = tenantId) (users s)"

definition refused :: "WorkflowStep \<Rightarrow> User \<Rightarrow> uuid \<Rightarrow> bool" where
  "refused step user userId \<longleftrightarrow>
     ws_approverType step = USER \<and> ws_approverUserId step \<noteq> Some userId \<or>
     ws_approverType step = ROLE \<and> ws_approverRole step \<noteq> None \<and> ws_approverRole step \<noteq> Some (us_role user) \<or>
     ws_approverType step = MANAGER \<and> us_role user \<noteq> ADMIN \<or>
     ws_approverType step = DYNAMIC \<and> us_role user = VIEWER"

definition assertApprover :: "uuid \<Rightarrow> WorkflowStep \<Rightarrow> uuid \<Rightarrow> unit planning_prog" where
  "assertApprover tenantId step userId =
     bind (gets (user_of tenantId userId)) (\<lambda>found.
     bind (orThrow NotFoundException found) (\<lambda>user.
     throwIf (refused step user userId) BadRequestException))"

definition is_approval :: "uuid \<Rightarrow> int \<Rightarrow> WorkflowAction \<Rightarrow> bool" where
  "is_approval instanceId stepNumber a \<longleftrightarrow>
     wa_instanceId a = instanceId \<and> wa_stepNumber a = stepNumber \<and> wa_action a = WorkflowActionType.APPROVE"

definition approvers :: "uuid \<Rightarrow> int \<Rightarrow> planning \<Rightarrow> uuid list" where
  "approvers instanceId stepNumber s = map wa_performedBy (filter (is_approval instanceId stepNumber) (workflowActions s))"

definition update_instance :: "uuid \<Rightarrow> (WorkflowInstance \<Rightarrow> WorkflowInstance) \<Rightarrow> WorkflowInstance planning_prog" where
  "update_instance instanceId f =
     bind (gets (\<lambda>s. find_by wn_id instanceId (workflowInstances s))) (\<lambda>found.
     bind (orThrow PrismaRecordNotFound found) (\<lambda>row.
     seq (modify (\<lambda>s. s\<lparr>workflowInstances := set_row wn_id instanceId f (workflowInstances s)\<rparr>))
         (return (f row))))"

definition approve :: "uuid \<Rightarrow> uuid \<Rightarrow> string option \<Rightarrow> uuid option \<Rightarrow> WorkflowInstance planning_prog" where
  "approve instanceId userId comments tenantId =
     bind (getInstanceWithTemplate instanceId tenantId) (\<lambda>(row, steps).
     seq (throwIf (wn_status row \<noteq> IN_PROGRESS) BadRequestException)
    (bind (orThrow NotFoundException (step_at (wn_currentStep row) steps)) (\<lambda>currentStep.
     seq (assertApprover (wn_tenantId row) currentStep userId)
    (bind (gets (approvers (wn_id row) (ws_sequence currentStep))) (\<lambda>before.
     seq (throwIf (userId \<in> set before) BadRequestException)
    (seq (create_action (wn_id row) (ws_sequence currentStep) WorkflowActionType.APPROVE userId comments)
    (bind (gets (approvers (wn_id row) (ws_sequence currentStep))) (\<lambda>approvals.
     let uniqueApprovals = int (length (remdups approvals));
         isLastStep = ws_sequence currentStep = ws_sequence (last steps) in
     if ws_requiredApprovals currentStep \<le> uniqueApprovals then
       (if isLastStep then bind (gets clock) (\<lambda>t.
          update_instance (wn_id row) (\<lambda>i. i\<lparr>wn_status := WorkflowStatus.APPROVED, wn_completedAt := Some t\<rparr>))
        else update_instance (wn_id row) (\<lambda>i. i\<lparr>wn_currentStep := ws_sequence currentStep + 1\<rparr>))
     else return row))))))))"

definition reject :: "uuid \<Rightarrow> uuid \<Rightarrow> string option \<Rightarrow> uuid option \<Rightarrow> WorkflowInstance planning_prog" where
  "reject instanceId userId comments tenantId =
     bind (getInstanceWithTemplate instanceId tenantId) (\<lambda>(row, steps).
     seq (throwIf (wn_status row \<noteq> IN_PROGRESS) BadRequestException)
    (bind (orThrow NotFoundException (step_at (wn_currentStep row) steps)) (\<lambda>currentStep.
     seq (throwIf (\<not> ws_canReject currentStep) BadRequestException)
    (seq (assertApprover (wn_tenantId row) currentStep userId)
    (seq (create_action (wn_id row) (ws_sequence currentStep) WorkflowActionType.REJECT userId comments)
    (bind (gets clock) (\<lambda>t.
     update_instance (wn_id row) (\<lambda>i. i\<lparr>wn_status := REJECTED, wn_completedAt := Some t\<rparr>))))))))"

definition latest_instance :: "uuid \<Rightarrow> WorkflowEntityType \<Rightarrow> uuid \<Rightarrow> planning \<Rightarrow> WorkflowInstance option" where
  "latest_instance tenantId entityType entityId s =
     first_of (newest_first (filter (\<lambda>i. wn_tenantId i = tenantId \<and> wn_entityType i = entityType \<and> wn_entityId i = entityId)
       (workflowInstances s)))"

definition ensureApproved :: "uuid \<Rightarrow> WorkflowEntityType \<Rightarrow> uuid \<Rightarrow> WorkflowInstance planning_prog" where
  "ensureApproved tenantId entityType entityId =
     bind (gets (latest_instance tenantId entityType entityId)) (\<lambda>found.
     case found of
       None \<Rightarrow> throw BadRequestException
     | Some row \<Rightarrow> if wn_status row \<noteq> WorkflowStatus.APPROVED then throw BadRequestException else return row)"

end
