(* ===== verification/WorkflowAdmin.thy ===== *)
theory WorkflowAdmin
  imports Workflow
begin

text \<open>
  The workflow administration of \<open>manufacturing.service.ts\<close>: templates and their steps, and the
  endpoints that act on running instances beside \<open>workflow.service.ts\<close>.  A DTO field that may be
  missing is an option.
\<close>

section \<open>Templates\<close>

definition getWorkflowTemplate :: "uuid \<Rightarrow> uuid \<Rightarrow> WorkflowTemplate planning_prog" where
  "getWorkflowTemplate tenantId templateId =
     bind (gets (\<lambda>s. find (\<lambda>t. wt_id t = templateId \<and> wt_tenantId t = tenantId) (workflowTemplates s)))
       (orThrow NotFoundException)"

definition sequences_ok :: "int list \<Rightarrow> bool" where
  "sequences_ok sequences \<longleftrightarrow> sequences = [] \<or>
     length (remdups sequences) = length sequences \<and> sort sequences = [1..int (length sequences)]"

definition assertWorkflowStepSequenceIntegrity :: "int list \<Rightarrow> unit planning_prog" where
  "assertWorkflowStepSequenceIntegrity sequences = throwIf (\<not> sequences_ok sequences) BadRequestException"

definition role_names :: "(string \<times> UserRole) list" where
  "role_names = [(''SUPER_ADMIN'', SUPER_ADMIN), (''ADMIN'', ADMIN), (''PLANNER'', PLANNER),
     (''FORECAST_PLANNER'', FORECAST_PLANNER), (''FINANCE'', FINANCE), (''VIEWER'', VIEWER),
     (''FORECAST_VIEWER'', FORECAST_VIEWER)]"

definition to_upper :: "char \<Rightarrow> char" where
  "to_upper c = (let n = of_char c :: nat in if 97 \<le> n \<and> n \<le> 122 then char_of (n - 32) else c)"

text \<open>\<open>undefined\<close> for a missing or empty role.\<close>

definition normalizeApproverRole :: "string option \<Rightarrow> UserRole option planning_prog" where
  "normalizeApproverRole approverRole =
     (if orElse approverRole [] = [] then return None
      else case map_of role_names (map to_upper (orElse approverRole [])) of
          None \<Rightarrow> throw BadRequestException
        | Some r \<Rightarrow> return (Some r))"

record step_item =
  si_stepOrder :: int
  si_name :: string
  si_approverType :: ApproverType
  si_approverRole :: "string option"
  si_approverId :: "uuid option"
  si_requiredApprovals :: "int option"

text \<open>\<open>requiredApprovals || 1\<close>\<close>

definition approvals_or_one :: "int option \<Rightarrow> int" where
  "approvals_or_one n = (if orElse n 0 = 0 then 1 else orElse n 0)"

definition step_row :: "uuid \<Rightarrow> step_item \<Rightarrow> UserRole option \<Rightarrow> uuid \<Rightarrow> WorkflowStep" where
  "step_row templateId item role i =
     \<lparr>ws_id = i, ws_templateId = templateId, ws_sequence = si_stepOrder item, ws_name = si_name item,
      ws_approverType = si_approverType item, ws_approverRole = role, ws_approverUserId = si_approverId item,
      ws_requiredApprovals = approvals_or_one (si_requiredApprovals item), ws_canReject = True\<rparr>"

definition create_step :: "uuid \<Rightarrow> step_item \<times> UserRole option \<Rightarrow> unit planning_prog" where
  "create_step templateId = (\<lambda>(item, role). bind new_id (\<lambda>i.
     modify (\<lambda>s. s\<lparr>workflowSteps := workflowSteps s @ [step_row templateId item role i]\<rparr>)))"

fun normalized_roles :: "step_item list \<Rightarrow> (step_item \<times> UserRole option) list planning_prog" where
  "normalized_roles [] = return []"
| "normalized_roles (item # items) =
     bind (normalizeApproverRole (si_approverRole item)) (\<lambda>role.
     bind (normalized_roles items) (\<lambda>rest. return ((item, role) # rest)))"

definition name_taken :: "uuid \<Rightarrow> string \<Rightarrow> uuid option \<Rightarrow> planning \<Rightarrow> bool" where
  "name_taken tenantId name self s \<longleftrightarrow>
     list_ex (\<lambda>t. wt_tenantId t = tenantId \<and> wt_name t = name \<and> Some (wt_id t) \<noteq> self) (workflowTemplates s)"

record template_dto =
  td_name :: string
  td_description :: "string option"
  td_entityType :: WorkflowEntityType
  td_isActive :: "bool option"
  td_steps :: "step_item list"

definition createWorkflowTemplate :: "uuid \<Rightarrow> template_dto \<Rightarrow> WorkflowTemplate planning_prog" where
  "createWorkflowTemplate tenantId dto =
     seq (throwIf (orElse (td_isActive dto) True \<and> length (td_steps dto) < 3) BadRequestException)
    (seq (assertWorkflowStepSequenceIntegrity (map si_stepOrder (td_steps dto)))
    (bind (normalized_roles (td_steps dto)) (\<lambda>items.
     bind (gets (name_taken tenantId (td_name dto) None)) (\<lambda>clash.
     seq (throwIf clash PrismaUniqueViolation)
    (bind new_id (\<lambda>i.
     let row = \<lparr>wt_id = i, wt_tenantId = tenantId, wt_name = td_name dto, wt_description = td_description dto,
                wt_entityType = td_entityType dto, wt_isActive = orElse (td_isActive dto) True\<rparr> in
     seq (modify (\<lambda>s. s\<lparr>workflowTemplates := workflowTemplates s @ [row]\<rparr>))
    (seq (forEach (create_step i) items)
         (return row))))))))"

record template_patch =
  tp_name :: "string option"
  tp_description :: "string option"
  tp_entityType :: "WorkflowEntityType option"
  tp_isActive :: "bool option"

definition patch_template :: "template_patch \<Rightarrow> WorkflowTemplate \<Rightarrow> WorkflowTemplate" where
  "patch_template dto t =
     t\<lparr>wt_name := (if orElse (tp_name dto) [] = [] then wt_name t else orElse (tp_name dto) []),
       wt_description := (case tp_description dto of None \<Rightarrow> wt_description t | Some d \<Rightarrow> Some d),
       wt_entityType := orElse (tp_entityType dto) (wt_entityType t),
       wt_isActive := orElse (tp_isActive dto) (wt_isActive t)\<rparr>"

definition updateWorkflowTemplate :: "uuid \<Rightarrow> uuid \<Rightarrow> template_patch \<Rightarrow> unit planning_prog" where
  "updateWorkflowTemplate tenantId templateId dto =
     bind (getWorkflowTemplate tenantId templateId) (\<lambda>template.
     bind (gets (steps_of (wt_id template))) (\<lambda>steps.
     seq (throwIf (tp_isActive dto = Some True \<and> length steps < 3) BadRequestException)
    (bind (gets (name_taken (wt_tenantId template) (wt_name (patch_template dto template)) (Some (wt_id template)))) (\<lambda>clash.
     seq (throwIf clash PrismaUniqueViolation)
         (modify (\<lambda>s. s\<lparr>workflowTemplates := set_row wt_id (wt_id template) (patch_template dto) (workflowTemplates s)\<rparr>))))))"

text \<open>The steps go with the template; an instance that refers to it holds it back.\<close>

definition deleteWorkflowTemplate :: "uuid \<Rightarrow> uuid \<Rightarrow> unit planning_prog" where
  "deleteWorkflowTemplate tenantId templateId =
     bind (getWorkflowTemplate tenantId templateId) (\<lambda>template.
     bind (gets (\<lambda>s. list_ex (\<lambda>i. wn_templateId i = templateId) (workflowInstances s))) (\<lambda>referenced.
     seq (throwIf referenced PrismaForeignKeyViolation)
         (modify (\<lambda>s. s\<lparr>workflowTemplates := filter (\<lambda>t. wt_id t \<noteq> templateId) (workflowTemplates s),
            workflowSteps := filter (\<lambda>w. ws_templateId w \<noteq> templateId) (workflowSteps s)\<rparr>))))"

section \<open>Steps\<close>

text \<open>The count of steps is tested after the row is written.\<close>

definition addWorkflowStep :: "uuid \<Rightarrow> uuid \<Rightarrow> step_item \<Rightarrow> unit planning_prog" where
  "addWorkflowStep tenantId templateId dto =
     bind (getWorkflowTemplate tenantId templateId) (\<lambda>template.
     bind (gets (steps_of (wt_id template))) (\<lambda>steps.
     seq (assertWorkflowStepSequenceIntegrity (map ws_sequence steps @ [si_stepOrder dto]))
    (bind (normalizeApproverRole (si_approverRole dto)) (\<lambda>role.
     seq (create_step (wt_id template) (dto, role))
         (throwIf (wt_isActive template \<and> length steps + 1 < 3) BadRequestException)))))"

text \<open>A step by its id, if its template is the tenant's.\<close>

definition step_of_tenant :: "uuid \<Rightarrow> uuid \<Rightarrow> planning \<Rightarrow> (WorkflowStep \<times> WorkflowTemplate) option" where
  "step_of_tenant tenantId stepId s =
     (case find (\<lambda>w. ws_id w = stepId \<and>
          list_ex (\<lambda>t. wt_id t = ws_templateId w \<and> wt_tenantId t = tenantId) (workflowTemplates s)) (workflowSteps s) of
        None \<Rightarrow> None
      | Some w \<Rightarrow> map_option (Pair w) (find_by wt_id (ws_templateId w) (workflowTemplates s)))"

record step_patch =
  sp_stepOrder :: "int option"
  sp_name :: "string option"
  sp_approverType :: "ApproverType option"
  sp_approverRole :: "string option"
  sp_approverId :: "uuid option"
  sp_requiredApprovals :: "int option"

definition patch_step :: "step_patch \<Rightarrow> UserRole option \<Rightarrow> WorkflowStep \<Rightarrow> WorkflowStep" where
  "patch_step dto role w =
     w\<lparr>ws_sequence := orElse (sp_stepOrder dto) (ws_sequence w),
       ws_name := (if orElse (sp_name dto) [] = [] then ws_name w else orElse (sp_name dto) []),
       ws_approverType := orElse (sp_approverType dto) (ws_approverType w),
       ws_approverRole := (if sp_approverRole dto = None then ws_approverRole w else role),
       ws_approverUserId := (case sp_approverId dto of None \<Rightarrow> ws_approverUserId w | Some u \<Rightarrow> Some u),
       ws_requiredApprovals := orElse (sp_requiredApprovals dto) (ws_requiredApprovals w)\<rparr>"

definition other_sequences :: "WorkflowStep \<Rightarrow> planning \<Rightarrow> int list" where
  "other_sequences step s =
     map ws_sequence (filter (\<lambda>w. ws_id w \<noteq> ws_id step) (filter (\<lambda>w. ws_templateId w = ws_templateId step) (workflowSteps s)))"

definition updateWorkflowStep :: "uuid \<Rightarrow> uuid \<Rightarrow> step_patch \<Rightarrow> unit planning_prog" where
  "updateWorkflowStep tenantId stepId dto =
     bind (gets (step_of_tenant tenantId stepId)) (\<lambda>found.
     bind (orThrow NotFoundException found) (\<lambda>(step, template).
     bind (gets (other_sequences step)) (\<lambda>candidates.
     seq (assertWorkflowStepSequenceIntegrity (candidates @ [orElse (sp_stepOrder dto) (ws_sequence step)]))
    (bind (normalizeApproverRole (sp_approverRole dto)) (\<lambda>role.
     modify (\<lambda>s. s\<lparr>workflowSteps := set_row ws_id stepId (patch_step dto role) (workflowSteps s)\<rparr>))))))"

definition deleteWorkflowStep :: "uuid \<Rightarrow> uuid \<Rightarrow> unit planning_prog" where
  "deleteWorkflowStep tenantId stepId =
     bind (gets (step_of_tenant tenantId stepId)) (\<lambda>found.
     bind (orThrow NotFoundException found) (\<lambda>(step, template).
     bind (gets (steps_of (wt_id template))) (\<lambda>steps.
     seq (throwIf (wt_isActive template \<and> length steps \<le> 3) BadRequestException)
    (bind (gets (other_sequences step)) (\<lambda>remaining.
     seq (assertWorkflowStepSequenceIntegrity remaining)
         (modify (\<lambda>s. s\<lparr>workflowSteps := filter (\<lambda>w. ws_id w \<noteq> stepId) (workflowSteps s)\<rparr>)))))))"

section \<open>Instances\<close>

definition getWorkflowInstance :: "uuid \<Rightarrow> uuid \<Rightarrow> WorkflowInstance planning_prog" where
  "getWorkflowInstance tenantId instanceId =
     bind (gets (\<lambda>s. find (\<lambda>i. wn_id i = instanceId \<and> wn_tenantId i = tenantId) (workflowInstances s)))
       (orThrow NotFoundException)"

definition userCanApproveStep :: "WorkflowStep \<Rightarrow> User \<Rightarrow> bool" where
  "userCanApproveStep step user =
     (case ws_approverType step of
        USER \<Rightarrow> ws_approverUserId step = Some (us_id user)
      | ROLE \<Rightarrow> ws_approverRole step = Some (us_role user)
      | MANAGER \<Rightarrow> us_role user = ADMIN
      | DYNAMIC \<Rightarrow> us_role user \<noteq> VIEWER)"

definition getMyPendingApprovals :: "uuid \<Rightarrow> uuid \<Rightarrow> WorkflowInstance list planning_prog" where
  "getMyPendingApprovals tenantId userId =
     bind (gets (user_of tenantId userId)) (\<lambda>found.
     bind (orThrow NotFoundException found) (\<lambda>user.
     gets (\<lambda>s. filter (\<lambda>i. case step_at (wn_currentStep i) (steps_of (wn_templateId i) s) of
            None \<Rightarrow> False | Some step \<Rightarrow> userCanApproveStep step user)
       (newest_first (filter (\<lambda>i. wn_tenantId i = tenantId \<and> wn_status i = IN_PROGRESS) (workflowInstances s))))))"

definition startWorkflowRequest :: "uuid \<Rightarrow> uuid \<Rightarrow> WorkflowEntityType \<Rightarrow> uuid \<Rightarrow> string option \<Rightarrow> WorkflowInstance planning_prog" where
  "startWorkflowRequest tenantId userId entityType entityId notes = startWorkflow tenantId entityType entityId userId notes"

definition approveWorkflow :: "uuid \<Rightarrow> uuid \<Rightarrow> uuid \<Rightarrow> string option \<Rightarrow> WorkflowInstance planning_prog" where
  "approveWorkflow tenantId instanceId userId comments =
     bind (getWorkflowInstance tenantId instanceId) (\<lambda>_. approve instanceId userId comments (Some tenantId))"

definition rejectWorkflow :: "uuid \<Rightarrow> uuid \<Rightarrow> uuid \<Rightarrow> string option \<Rightarrow> WorkflowInstance planning_prog" where
  "rejectWorkflow tenantId instanceId userId comments =
     bind (getWorkflowInstance tenantId instanceId) (\<lambda>_. reject instanceId userId comments (Some tenantId))"

text \<open>The instance and the user are read together; a missing instance is reported first.\<close>

definition instance_and_user :: "uuid \<Rightarrow> uuid \<Rightarrow> uuid \<Rightarrow> (WorkflowInstance \<times> User) planning_prog" where
  "instance_and_user tenantId instanceId userId =
     bind (getWorkflowInstance tenantId instanceId) (\<lambda>row.
     bind (gets (user_of tenantId userId)) (\<lambda>found.
     bind (orThrow NotFoundException found) (\<lambda>user. return (row, user))))"

definition requestWorkflowChanges :: "uuid \<Rightarrow> uuid \<Rightarrow> uuid \<Rightarrow> string option \<Rightarrow> WorkflowInstance planning_prog" where
  "requestWorkflowChanges tenantId instanceId userId comments =
     bind (instance_and_user tenantId instanceId userId) (\<lambda>(row, user).
     seq (throwIf (wn_status row \<noteq> IN_PROGRESS) BadRequestException)
    (bind (gets (steps_of (wn_templateId row))) (\<lambda>steps.
     bind (orThrow BadRequestException (step_at (wn_currentStep row) steps)) (\<lambda>currentStep.
     seq (throwIf (\<not> userCanApproveStep currentStep user) BadRequestException)
    (seq (create_action instanceId (ws_sequence currentStep) RETURN userId comments)
         (update_instance instanceId (\<lambda>i. i\<lparr>wn_status := ON_HOLD,
            wn_notes := (case comments of None \<Rightarrow> wn_notes i | Some c \<Rightarrow> Some c)\<rparr>)))))))"

definition cancelWorkflow :: "uuid \<Rightarrow> uuid \<Rightarrow> uuid \<Rightarrow> string option \<Rightarrow> WorkflowInstance planning_prog" where
  "cancelWorkflow tenantId instanceId userId reason =
     bind (instance_and_user tenantId instanceId userId) (\<lambda>(row, user).
     seq (throwIf (\<not> is_active (wn_status row)) BadRequestException)
    (seq (throwIf (wn_submittedBy row \<noteq> userId \<and> us_role user \<noteq> ADMIN) BadRequestException)
    (seq (create_action instanceId (wn_currentStep row) WorkflowActionType.REJECT userId reason)
    (bind (gets clock) (\<lambda>t.
     update_instance instanceId (\<lambda>i. i\<lparr>wn_status := CANCELLED,
       wn_notes := (case reason of None \<Rightarrow> wn_notes i | Some c \<Rightarrow> Some c), wn_completedAt := Some t\<rparr>))))))"

definition resubmitWorkflow :: "uuid \<Rightarrow> uuid \<Rightarrow> uuid \<Rightarrow> string option \<Rightarrow> WorkflowInstance planning_prog" where
  "resubmitWorkflow tenantId instanceId userId notes =
     bind (getWorkflowInstance tenantId instanceId) (\<lambda>row.
     seq (throwIf (wn_submittedBy row \<noteq> userId) BadRequestException)
    (seq (throwIf (wn_status row \<noteq> ON_HOLD) BadRequestException)
    (bind (gets (steps_of (wn_templateId row))) (\<lambda>steps.
     bind (orThrow BadRequestException (first_of steps)) (\<lambda>firstStep.
     seq (create_action instanceId (ws_sequence firstStep) SUBMIT userId notes)
         (update_instance instanceId (\<lambda>i. i\<lparr>wn_status := IN_PROGRESS, wn_currentStep := ws_sequence firstStep,
            wn_notes := (case notes of None \<Rightarrow> wn_notes i | Some c \<Rightarrow> Some c)\<rparr>)))))))"

end
