(* ===== verification/WorkflowBooks.thy ===== *)
theory WorkflowBooks
  imports WorkflowAdmin "HOL-Library.Multiset"
begin

text \<open>
  The invariant of the approval workflow.  The steps of every template are numbered from 1
  without gaps, an active template has at least three of them, an entity has at most one
  active instance, nobody approves a step of an instance twice, and an instance has an approval
  of every step it has passed; an approved one also of the step it ended at.
\<close>

section \<open>Numbered steps\<close>

definition numbered :: "int list \<Rightarrow> bool" where
  "numbered ns \<longleftrightarrow> sort ns = [1..int (length ns)]"

lemma numbered_mset: "mset ms = mset ns \<Longrightarrow> numbered ms = numbered ns"
proof -
  assume m: "mset ms = mset ns"
  then have "sort ms = sort ns" by (intro properties_for_sort) simp_all
  moreover have "length ms = length ns" using m by (rule mset_eq_length)
  ultimately show ?thesis by (simp add: numbered_def)
qed

lemma numbered_distinct: "numbered ns \<Longrightarrow> distinct ns"
  unfolding numbered_def by (metis distinct_sort distinct_upto)

lemma numbered_set: "numbered ns \<Longrightarrow> set ns = {1..int (length ns)}"
  unfolding numbered_def by (metis set_sort set_upto)

lemma sequences_ok_iff: "sequences_ok ns \<longleftrightarrow> numbered ns"
  unfolding sequences_ok_def using numbered_distinct [of ns]
  by (auto simp: numbered_def distinct_card length_remdups_card_conv)

lemma sort_key_keys: "map f (sort_key f xs) = sort (map f xs)"
  by (rule properties_for_sort [symmetric]) simp_all

definition step_numbers :: "uuid \<Rightarrow> planning \<Rightarrow> int list" where
  "step_numbers i s = map ws_sequence (filter (\<lambda>w. ws_templateId w = i) (workflowSteps s))"

lemma steps_of_numbers: "map ws_sequence (steps_of i s) = sort (step_numbers i s)"
  by (simp add: steps_of_def step_numbers_def sort_key_keys)

lemma length_steps_of [simp]: "length (steps_of i s) = length (step_numbers i s)"
  by (simp add: steps_of_def step_numbers_def)

lemma first_step_number:
  assumes "numbered (step_numbers i s)" "steps_of i s = w # ws"
  shows "ws_sequence w = 1"
proof -
  have "ws_sequence w # map ws_sequence ws = [1..int (length (step_numbers i s))]"
    using assms steps_of_numbers [of i s] by (simp add: numbered_def)
  then show ?thesis by (cases "length (step_numbers i s) = 0") (simp_all add: upto_rec1)
qed

section \<open>Instances and their approvals\<close>

definition entity_key :: "WorkflowInstance \<Rightarrow> uuid \<times> WorkflowEntityType \<times> uuid" where
  "entity_key r = (wn_tenantId r, wn_entityType r, wn_entityId r)"

definition active_keys :: "planning \<Rightarrow> (uuid \<times> WorkflowEntityType \<times> uuid) list" where
  "active_keys s = map entity_key (filter (\<lambda>r. is_active (wn_status r)) (workflowInstances s))"

text \<open>The steps that an instance has passed.\<close>

definition passed :: "WorkflowInstance \<Rightarrow> int \<Rightarrow> bool" where
  "passed r k \<longleftrightarrow> 1 \<le> k \<and> (k < wn_currentStep r \<or> k = wn_currentStep r \<and> wn_status r = WorkflowStatus.APPROVED)"

definition templates_ok :: "planning \<Rightarrow> bool" where
  "templates_ok s \<longleftrightarrow> distinct (map wt_id (workflowTemplates s)) \<and> distinct (map ws_id (workflowSteps s)) \<and>
     (\<forall>i. numbered (step_numbers i s)) \<and>
     (\<forall>t \<in> set (workflowTemplates s). wt_isActive t \<longrightarrow> 3 \<le> length (step_numbers (wt_id t) s)) \<and>
     (\<forall>t \<in> set (workflowTemplates s). wt_id t < next_id s) \<and>
     (\<forall>w \<in> set (workflowSteps s). ws_id w < next_id s \<and> ws_templateId w < next_id s)"

definition instances_ok :: "planning \<Rightarrow> bool" where
  "instances_ok s \<longleftrightarrow> distinct (map wn_id (workflowInstances s)) \<and> distinct (active_keys s) \<and>
     (\<forall>r \<in> set (workflowInstances s). wn_id r < next_id s)"

definition approvals_ok :: "planning \<Rightarrow> bool" where
  "approvals_ok s \<longleftrightarrow> (\<forall>i k. distinct (approvers i k s)) \<and>
     (\<forall>r \<in> set (workflowInstances s). \<forall>k. passed r k \<longrightarrow> approvers (wn_id r) k s \<noteq> [])"

definition workflow_ok :: "planning \<Rightarrow> bool" where
  "workflow_ok s \<longleftrightarrow> templates_ok s \<and> instances_ok s \<and> approvals_ok s"

section \<open>Runs\<close>

text \<open>An action other than an approval leaves the approvers alone.\<close>

definition with_action :: "uuid \<Rightarrow> int \<Rightarrow> WorkflowActionType \<Rightarrow> uuid \<Rightarrow> string option \<Rightarrow> planning \<Rightarrow> planning" where
  "with_action i k act u c s = s\<lparr>workflowActions := workflowActions s @
     [\<lparr>wa_instanceId = i, wa_stepNumber = k, wa_action = act, wa_performedBy = u, wa_comments = c\<rparr>]\<rparr>"

lemma run_create_action [run_simps]: "create_action i k act u c s = (Inr (), with_action i k act u c s)"
  by (simp add: create_action_def with_action_def run_simps)

lemma wp_create_action [wp_simps]: "wp (create_action i k act u c) Q E s = Q () (with_action i k act u c s)"
  by (simp add: wp_def run_simps)

lemma with_action_sel [simp]:
  "workflowTemplates (with_action i k act u c s) = workflowTemplates s"
  "workflowSteps (with_action i k act u c s) = workflowSteps s"
  "workflowInstances (with_action i k act u c s) = workflowInstances s"
  "next_id (with_action i k act u c s) = next_id s" "clock (with_action i k act u c s) = clock s"
  "users (with_action i k act u c s) = users s"
  "steps_of j (with_action i k act u c s) = steps_of j s"
  "step_numbers j (with_action i k act u c s) = step_numbers j s"
  by (simp_all add: with_action_def steps_of_def step_numbers_def)

lemma approvers_with_action [simp]:
  "approvers j n (with_action i k act u c s) =
     approvers j n s @ (if j = i \<and> n = k \<and> act = WorkflowActionType.APPROVE then [u] else [])"
  by (auto simp: approvers_def with_action_def is_approval_def)

definition with_instance :: "uuid \<Rightarrow> (WorkflowInstance \<Rightarrow> WorkflowInstance) \<Rightarrow> planning \<Rightarrow> planning" where
  "with_instance i f s = s\<lparr>workflowInstances := set_row wn_id i f (workflowInstances s)\<rparr>"

lemma with_instance_sel [simp]:
  "workflowTemplates (with_instance i f s) = workflowTemplates s" "workflowSteps (with_instance i f s) = workflowSteps s"
  "workflowInstances (with_instance i f s) = set_row wn_id i f (workflowInstances s)"
  "workflowActions (with_instance i f s) = workflowActions s"
  "next_id (with_instance i f s) = next_id s" "clock (with_instance i f s) = clock s" "users (with_instance i f s) = users s"
  "step_numbers j (with_instance i f s) = step_numbers j s" "steps_of j (with_instance i f s) = steps_of j s"
  "approvers j k (with_instance i f s) = approvers j k s"
  by (simp_all add: with_instance_def step_numbers_def steps_of_def approvers_def)

lemma wp_update_instance [wp_simps]:
  "wp (update_instance i f) Q E s =
     (case find_by wn_id i (workflowInstances s) of None \<Rightarrow> E PrismaRecordNotFound s
      | Some r \<Rightarrow> Q (f r) (with_instance i f s))"
  by (simp add: update_instance_def wp_simps with_instance_def split: option.split)

end
