(* ===== verification/ApprovalRuns.thy ===== *)
theory ApprovalRuns
  imports WorkflowBooks
begin

text \<open>
  What the operations on instances do, and that they keep the invariant of the workflow.
\<close>

section \<open>One row of an instance\<close>

lemma find_instance:
  assumes "instances_ok s" "find P (workflowInstances s) = Some r"
  shows "r \<in> set (workflowInstances s)" "P r" "find_by wn_id (wn_id r) (workflowInstances s) = Some r"
proof -
  show "r \<in> set (workflowInstances s)" "P r" using find_in [OF assms(2)] by simp_all
  then show "find_by wn_id (wn_id r) (workflowInstances s) = Some r"
    using assms(1) by (simp add: instances_ok_def find_by_unique)
qed

text \<open>
  Rewriting a row that was active keeps the instances, whatever its new status; the approvals
  are kept where the row has passed no step that is not approved.
\<close>

lemma active_keys_update:
  assumes "is_active (wn_status r)" "entity_key (f r) = entity_key r"
    "distinct (map wn_id rows)" "r \<in> set rows" "wn_id r = i"
    "distinct (map entity_key (filter (\<lambda>r. is_active (wn_status r)) rows))"
  shows "distinct (map entity_key (filter (\<lambda>r. is_active (wn_status r)) (set_row wn_id i f rows)))"
  using assms(3-6)
proof (induction rows)
  case (Cons x rows)
  show ?case
  proof (cases "x = r")
    case True
    then have "set_row wn_id i f rows = rows"
      using Cons.prems(1,3) by (intro update_where_none) (auto simp: image_iff)
    then show ?thesis using Cons.prems True assms(1,2) by auto
  next
    case False
    then have r: "r \<in> set rows" "wn_id x \<noteq> i" using Cons.prems(1,2,3) by (auto simp: image_iff)
    have "entity_key x \<notin> entity_key ` set (filter (\<lambda>r. is_active (wn_status r)) (set_row wn_id i f rows))"
      if "is_active (wn_status x)"
    proof -
      have "entity_key y \<in> entity_key ` set (filter (\<lambda>r. is_active (wn_status r)) rows)"
        if y: "y \<in> set (set_row wn_id i f rows)" "is_active (wn_status y)" for y
      proof -
        have "y = f r \<or> y \<in> set rows"
          using set_row_cases [of wn_id rows r y f] Cons.prems(1) r(1) y(1) Cons.prems(3) by auto
        then show ?thesis using y(2) assms(1,2) r(1) by auto
      qed
      then show ?thesis using Cons.prems(4) that by fastforce
    qed
    then show ?thesis using Cons r by (auto split: if_splits)
  qed
qed simp

lemma instances_update:
  assumes "instances_ok s" "r \<in> set (workflowInstances s)" "is_active (wn_status r)" "wn_id r = i"
    "\<And>x. wn_id (f x) = wn_id x" "entity_key (f r) = entity_key r"
  shows "instances_ok (with_instance i f s)"
  using assms active_keys_update [of r f "workflowInstances s" i]
  by (auto simp: instances_ok_def active_keys_def in_set_row)

lemma approvals_update:
  assumes "approvals_ok s" "instances_ok s" "r \<in> set (workflowInstances s)" "wn_id r = i"
    "\<And>x. wn_id (f x) = wn_id x" "\<And>k. passed (f r) k \<Longrightarrow> approvers i k s \<noteq> []"
  shows "approvals_ok (with_instance i f s)"
proof -
  have "approvers (wn_id x) k s \<noteq> []" if x: "x \<in> set (set_row wn_id i f (workflowInstances s))" "passed x k" for x k
  proof -
    have "x = f r \<or> x \<in> set (workflowInstances s)"
      using set_row_cases [of wn_id "workflowInstances s" r x f] assms(2,3,4) x(1) by (auto simp: instances_ok_def)
    then show ?thesis using assms x(2) by (auto simp: approvals_ok_def)
  qed
  then show ?thesis using assms(1) by (auto simp: approvals_ok_def)
qed

lemma templates_instance: "templates_ok s \<Longrightarrow> templates_ok (with_instance i f s)"
  by (simp add: templates_ok_def)

text \<open>An action, an approval only of someone who has not approved the step.\<close>

lemma workflow_action:
  assumes "workflow_ok s" "act = WorkflowActionType.APPROVE \<Longrightarrow> u \<notin> set (approvers i k s)"
  shows "workflow_ok (with_action i k act u c s)"
proof -
  have "approvals_ok (with_action i k act u c s)"
    using assms by (auto simp: workflow_ok_def approvals_ok_def)
  then show ?thesis using assms(1) by (simp add: workflow_ok_def templates_ok_def instances_ok_def active_keys_def)
qed

lemma workflow_instance:
  assumes "workflow_ok s" "r \<in> set (workflowInstances s)" "is_active (wn_status r)" "wn_id r = i"
    "\<And>x. wn_id (f x) = wn_id x" "entity_key (f r) = entity_key r" "\<And>k. passed (f r) k \<Longrightarrow> approvers i k s \<noteq> []"
  shows "workflow_ok (with_instance i f s)"
  using assms instances_update [of s r i f] approvals_update [of s r i f] templates_instance [of s]
  by (simp add: workflow_ok_def)

section \<open>Starting\<close>

lemma run_integrity:
  "assertTemplateStepsIntegrity ns s = (if ns = [] \<or> \<not> numbered ns then Inl BadRequestException else Inr (), s)"
  by (auto simp: assertTemplateStepsIntegrity_def numbered_def run_seq run_simps)

lemma wp_integrity [wp_simps]:
  "wp (assertTemplateStepsIntegrity ns) Q E s = (if ns = [] \<or> \<not> numbered ns then E BadRequestException s else Q () s)"
  by (simp add: wp_def run_integrity)

definition started :: "WorkflowInstance \<Rightarrow> planning \<Rightarrow> planning" where
  "started row s = with_action (wn_id row) (wn_currentStep row) SUBMIT (wn_submittedBy row) (wn_notes row)
     (s\<lparr>next_id := next_id s + 1, workflowInstances := workflowInstances s @ [row]\<rparr>)"

definition fresh_row :: "uuid \<Rightarrow> WorkflowEntityType \<Rightarrow> uuid \<Rightarrow> uuid \<Rightarrow> planning \<Rightarrow> WorkflowInstance \<Rightarrow> bool" where
  "fresh_row tn ty e u s row \<longleftrightarrow> wn_id row = next_id s \<and> wn_tenantId row = tn \<and> wn_entityType row = ty \<and>
     wn_entityId row = e \<and> wn_status row = IN_PROGRESS \<and> wn_currentStep row = 1 \<and> wn_submittedBy row = u"

lemma startWorkflow_spec:
  "wp (startWorkflow tn ty e u notes)
     (\<lambda>row t. fresh_row tn ty e u s row \<and> active_instance tn ty e s = None \<and> t = started row s)
     (\<lambda>_ t. t = s) s"
proof -
  have "ws_sequence (hd steps) = 1" if "steps = steps_of i s" "steps \<noteq> []" "numbered (map ws_sequence steps)" for steps i
  proof -
    have "numbered (step_numbers i s)"
      using that(3) numbered_mset [of "sort (step_numbers i s)" "step_numbers i s"] by (simp add: that(1) steps_of_numbers)
    then show ?thesis using first_step_number [of i s "hd steps" "tl steps"] that(1,2) by simp
  qed
  then show ?thesis
    by (auto simp: startWorkflow_def wp_simps Let_def new_instance_def fresh_row_def started_def with_action_def
        split: option.split)
qed

lemma workflow_started:
  assumes "workflow_ok s" "fresh_row tn ty e u s row" "active_instance tn ty e s = None"
  shows "workflow_ok (started row s)"
proof -
  define s1 where "s1 = s\<lparr>next_id := next_id s + 1, workflowInstances := workflowInstances s @ [row]\<rparr>"
  have "entity_key row \<notin> set (active_keys s)"
    using assms(2,3) by (auto simp: active_instance_def find_None_iff active_keys_def entity_key_def fresh_row_def)
  moreover have "is_active (wn_status row)" using assms(2) by (simp add: fresh_row_def is_active_def)
  ultimately have "instances_ok s1"
    using assms(1,2) by (auto simp: workflow_ok_def instances_ok_def s1_def active_keys_def fresh_row_def)
  moreover have "approvals_ok s1"
    using assms(1,2) by (auto simp: workflow_ok_def approvals_ok_def s1_def approvers_def passed_def fresh_row_def)
  moreover have "templates_ok s1"
    using assms(1) by (auto simp: workflow_ok_def templates_ok_def s1_def step_numbers_def)
  ultimately show ?thesis unfolding started_def s1_def [symmetric] by (intro workflow_action) (simp_all add: workflow_ok_def)
qed

lemma keeps_wp: "(\<And>s. I s \<Longrightarrow> wp m (\<lambda>_. I) (\<lambda>_. I) s) \<Longrightarrow> keeps I m"
  by (simp add: wp_keeps)

lemma keeps_startWorkflow: "keeps workflow_ok (startWorkflow tn ty e u notes)"
  by (rule keeps_wp, rule wp_call [OF startWorkflow_spec]) (auto intro: workflow_started)

section \<open>Deciding\<close>

lemma step_at_Some: "step_at n steps = Some w \<Longrightarrow> w \<in> set steps \<and> ws_sequence w = n"
  by (auto simp: step_at_def dest: find_in)

text \<open>It is \<open>u\<close>'s turn at the current step of the instance.\<close>

definition turn :: "uuid option \<Rightarrow> uuid \<Rightarrow> uuid \<Rightarrow> planning \<Rightarrow> WorkflowInstance \<Rightarrow> WorkflowStep \<Rightarrow> bool" where
  "turn tn i u s row step \<longleftrightarrow>
     find (\<lambda>r. wn_id r = i \<and> (tn = None \<or> tn = Some (wn_tenantId r))) (workflowInstances s) = Some row \<and>
     wn_status row = IN_PROGRESS \<and>
     step_at (wn_currentStep row) (steps_of (wn_templateId row) s) = Some step \<and>
     (\<exists>user. user_of (wn_tenantId row) u s = Some user \<and> \<not> refused step user u)"

lemma turn_row:
  assumes "turn tn i u s row step"
  shows "row \<in> set (workflowInstances s)" "wn_id row = i" "wn_status row = IN_PROGRESS"
    "ws_sequence step = wn_currentStep row"
  using assms step_at_Some [of "wn_currentStep row" "steps_of (wn_templateId row) s" step]
  by (auto simp: turn_def dest: find_in)

definition advanced :: "WorkflowStep \<Rightarrow> bool \<Rightarrow> uuid list \<Rightarrow> timestamp \<Rightarrow> WorkflowInstance \<Rightarrow> WorkflowInstance" where
  "advanced step isLastStep approvals t r =
     (if ws_requiredApprovals step \<le> int (length (remdups approvals))
      then (if isLastStep then r\<lparr>wn_status := WorkflowStatus.APPROVED, wn_completedAt := Some t\<rparr>
            else r\<lparr>wn_currentStep := ws_sequence step + 1\<rparr>)
      else r)"

lemma advanced_sel [simp]:
  "wn_id (advanced step l as t r) = wn_id r" "entity_key (advanced step l as t r) = entity_key r"
  by (simp_all add: advanced_def entity_key_def)

definition last_step :: "WorkflowInstance \<Rightarrow> WorkflowStep \<Rightarrow> planning \<Rightarrow> bool" where
  "last_step row step s \<longleftrightarrow> ws_sequence step = ws_sequence (last (steps_of (wn_templateId row) s))"

text \<open>The instance and the state after \<open>u\<close> approved.\<close>

definition approval_row :: "WorkflowInstance \<Rightarrow> WorkflowStep \<Rightarrow> uuid \<Rightarrow> planning \<Rightarrow> WorkflowInstance \<Rightarrow> WorkflowInstance" where
  "approval_row row step u s =
     advanced step (last_step row step s) (approvers (wn_id row) (ws_sequence step) s @ [u]) (clock s)"

definition approval_state :: "WorkflowInstance \<Rightarrow> WorkflowStep \<Rightarrow> uuid \<Rightarrow> string option \<Rightarrow> planning \<Rightarrow> planning" where
  "approval_state row step u c s =
     with_instance (wn_id row) (approval_row row step u s)
       (with_action (wn_id row) (ws_sequence step) WorkflowActionType.APPROVE u c s)"

lemma with_instance_id [simp]: "with_instance i (\<lambda>r. r) s = s"
  by (simp add: with_instance_def update_where_def)

lemma approve_spec:
  assumes "instances_ok s"
  shows "wp (approve i u c tn)
    (\<lambda>r t. \<exists>row step. turn tn i u s row step \<and> u \<notin> set (approvers i (ws_sequence step) s) \<and>
       r = approval_row row step u s row \<and> t = approval_state row step u c s)
    (\<lambda>e t. t = s \<and> (\<forall>row step. turn tn i u s row step \<longrightarrow> u \<in> set (approvers i (ws_sequence step) s))) s"
proof (cases "find (\<lambda>r. wn_id r = i \<and> (tn = None \<or> tn = Some (wn_tenantId r))) (workflowInstances s)")
  case None
  then show ?thesis by (simp add: approve_def getInstanceWithTemplate_def turn_def wp_simps)
next
  case (Some r)
  have r: "wn_id r = i" "find_by wn_id i (workflowInstances s) = Some r"
    using find_instance [OF assms Some] by auto
  consider step user where "wn_status r = IN_PROGRESS" "step_at (wn_currentStep r) (steps_of (wn_templateId r) s) = Some step"
      "user_of (wn_tenantId r) u s = Some user" "\<not> refused step user u" "u \<notin> set (approvers i (ws_sequence step) s)"
    | "\<nexists>step. turn tn i u s r step \<and> u \<notin> set (approvers i (ws_sequence step) s)"
    by (auto simp: turn_def Some)
  then show ?thesis
  proof cases
    case 1
    then have "turn tn i u s r step" by (auto simp: turn_def Some)
    moreover have "wp (approve i u c tn) (\<lambda>x t. x = approval_row r step u s r \<and> t = approval_state r step u c s) (\<lambda>_ _. False) s"
      unfolding approve_def getInstanceWithTemplate_def assertApprover_def
      by (simp add: wp_simps Some r 1 approval_row_def [abs_def] approval_state_def advanced_def [abs_def] last_step_def Let_def)
    ultimately show ?thesis using 1(5) by (auto elim!: wp_call)
  next
    case 2
    then have "wp (approve i u c tn) (\<lambda>_ _. False) (\<lambda>e t. t = s) s"
      unfolding approve_def getInstanceWithTemplate_def assertApprover_def
      by (cases "wn_status r = IN_PROGRESS"; cases "step_at (wn_currentStep r) (steps_of (wn_templateId r) s)";
          cases "user_of (wn_tenantId r) u s")
         (auto simp: wp_simps Some r turn_def)
    then show ?thesis using 2 by (elim wp_call) (auto simp: turn_def Some)
  qed
qed

lemma workflow_approved:
  assumes "workflow_ok s" "turn tn i u s row step" "u \<notin> set (approvers i (ws_sequence step) s)"
  shows "workflow_ok (approval_state row step u c s)"
proof -
  note r = turn_row [OF assms(2)]
  define s1 where "s1 = with_action (wn_id row) (ws_sequence step) WorkflowActionType.APPROVE u c s"
  have ok: "workflow_ok s1" unfolding s1_def by (rule workflow_action) (use assms(1,3) r(2) in auto)
  have "approvers (wn_id row) k s1 \<noteq> []" if "passed (approval_row row step u s row) k" for k
  proof (cases "k = wn_currentStep row")
    case True
    then show ?thesis by (simp add: s1_def r(4))
  next
    case False
    then have "passed row k"
      using that r(3,4) by (auto simp: passed_def approval_row_def advanced_def split: if_splits)
    then have "approvers (wn_id row) k s \<noteq> []" using assms(1) r(1) by (auto simp: workflow_ok_def approvals_ok_def)
    then show ?thesis by (simp add: s1_def)
  qed
  then show ?thesis
    unfolding approval_state_def s1_def [symmetric] using ok r
    by (intro workflow_instance [of s1 row]) (simp_all add: s1_def is_active_def approval_row_def)
qed

lemma workflow_okD: "workflow_ok s \<Longrightarrow> instances_ok s" "workflow_ok s \<Longrightarrow> templates_ok s" "workflow_ok s \<Longrightarrow> approvals_ok s"
  by (simp_all add: workflow_ok_def)

lemma keeps_approve: "keeps workflow_ok (approve i u c tn)"
  by (rule keeps_wp, rule wp_call [OF approve_spec]) (auto intro: workflow_approved workflow_okD)

text \<open>The end or the return of an instance that was active: nothing new is passed.\<close>

lemma workflow_moved:
  assumes "workflow_ok s" "r \<in> set (workflowInstances s)" "is_active (wn_status r)"
    "\<And>x. wn_id (f x) = wn_id x" "entity_key (f r) = entity_key r"
    "wn_status (f r) \<noteq> WorkflowStatus.APPROVED" "wn_currentStep (f r) \<le> wn_currentStep r \<or> wn_currentStep (f r) \<le> 1"
    "act \<noteq> WorkflowActionType.APPROVE"
  shows "workflow_ok (with_instance (wn_id r) f (with_action (wn_id r) k act u c s))"
proof (rule workflow_instance [where r = r])
  show ok: "workflow_ok (with_action (wn_id r) k act u c s)"
    by (rule workflow_action) (use assms(1,8) in auto)
  show "approvers (wn_id r) n (with_action (wn_id r) k act u c s) \<noteq> []" if "passed (f r) n" for n
  proof -
    have "passed r n" using that assms(6,7) by (auto simp: passed_def)
    then have "approvers (wn_id r) n s \<noteq> []" using assms(1,2) by (auto simp: workflow_ok_def approvals_ok_def)
    then show ?thesis by simp
  qed
qed (use assms in simp_all)

lemma reject_spec:
  assumes "instances_ok s"
  shows "wp (reject i u c tn)
    (\<lambda>r t. \<exists>row step. turn tn i u s row step \<and> ws_canReject step \<and>
       r = row\<lparr>wn_status := REJECTED, wn_completedAt := Some (clock s)\<rparr> \<and>
       t = with_instance (wn_id row) (\<lambda>r. r\<lparr>wn_status := REJECTED, wn_completedAt := Some (clock s)\<rparr>)
             (with_action (wn_id row) (ws_sequence step) WorkflowActionType.REJECT u c s))
    (\<lambda>e t. t = s) s"
proof (cases "find (\<lambda>r. wn_id r = i \<and> (tn = None \<or> tn = Some (wn_tenantId r))) (workflowInstances s)")
  case None
  then show ?thesis by (simp add: reject_def getInstanceWithTemplate_def turn_def wp_simps)
next
  case (Some r)
  have r: "wn_id r = i" "find_by wn_id i (workflowInstances s) = Some r"
    using find_instance [OF assms Some] by auto
  show ?thesis
    unfolding reject_def getInstanceWithTemplate_def assertApprover_def
    by (simp add: wp_simps turn_def Some r split: option.split)
qed

lemma keeps_reject: "keeps workflow_ok (reject i u c tn)"
proof (rule keeps_wp, rule wp_call [OF reject_spec])
  fix s r t
  assume ok: "workflow_ok s" and "\<exists>row step. turn tn i u s row step \<and> ws_canReject step \<and>
       r = row\<lparr>wn_status := REJECTED, wn_completedAt := Some (clock s)\<rparr> \<and>
       t = with_instance (wn_id row) (\<lambda>r. r\<lparr>wn_status := REJECTED, wn_completedAt := Some (clock s)\<rparr>)
             (with_action (wn_id row) (ws_sequence step) WorkflowActionType.REJECT u c s)"
  then obtain row step where "turn tn i u s row step"
    "t = with_instance (wn_id row) (\<lambda>r. r\<lparr>wn_status := REJECTED, wn_completedAt := Some (clock s)\<rparr>)
       (with_action (wn_id row) (ws_sequence step) WorkflowActionType.REJECT u c s)" by blast
  then show "workflow_ok t" using ok turn_row [of tn i u s row step]
    by (auto intro!: workflow_moved simp: is_active_def entity_key_def)
qed (auto intro: workflow_okD)

section \<open>Returning, cancelling, resubmitting\<close>

text \<open>A run that finds the tenant's instance \<open>r\<close>, active and of this identifier.\<close>

lemma wp_getWorkflowInstance [wp_simps]:
  "wp (getWorkflowInstance tn i) Q E s =
     (case find (\<lambda>r. wn_id r = i \<and> wn_tenantId r = tn) (workflowInstances s) of
        None \<Rightarrow> E NotFoundException s | Some r \<Rightarrow> Q r s)"
  by (simp add: getWorkflowInstance_def wp_simps)

lemma found_instance:
  assumes "workflow_ok s" "find (\<lambda>r. wn_id r = i \<and> wn_tenantId r = tn) (workflowInstances s) = Some r"
  shows "r \<in> set (workflowInstances s)" "wn_id r = i" "find_by wn_id i (workflowInstances s) = Some r"
  using find_instance [OF workflow_okD(1) [OF assms(1)] assms(2)] by auto

lemma workflow_moved_found:
  assumes "workflow_ok s" "find (\<lambda>r. wn_id r = i \<and> wn_tenantId r = tn) (workflowInstances s) = Some r"
    "is_active (wn_status r)" "\<And>x. wn_id (f x) = wn_id x" "entity_key (f r) = entity_key r"
    "wn_status (f r) \<noteq> WorkflowStatus.APPROVED" "wn_currentStep (f r) \<le> wn_currentStep r \<or> wn_currentStep (f r) \<le> 1"
    "act \<noteq> WorkflowActionType.APPROVE"
  shows "workflow_ok (with_instance i f (with_action i k act u c s))"
  using workflow_moved [OF assms(1) found_instance(1) [OF assms(1,2)] assms(3-8)] found_instance(2) [OF assms(1,2)] by simp

lemma keeps_requestWorkflowChanges: "keeps workflow_ok (requestWorkflowChanges tn i u c)"
proof (rule keeps_wp)
  fix s assume ok: "workflow_ok s"
  show "wp (requestWorkflowChanges tn i u c) (\<lambda>_. workflow_ok) (\<lambda>_. workflow_ok) s"
  proof (cases "find (\<lambda>r. wn_id r = i \<and> wn_tenantId r = tn) (workflowInstances s)")
    case None
    then show ?thesis using ok by (simp add: requestWorkflowChanges_def instance_and_user_def wp_simps)
  next
    case (Some r)
    then show ?thesis using ok
      by (auto simp: requestWorkflowChanges_def instance_and_user_def wp_simps found_instance [OF ok Some]
            is_active_def entity_key_def intro!: workflow_moved_found [OF ok Some] split: option.split)
  qed
qed

lemma keeps_cancelWorkflow: "keeps workflow_ok (cancelWorkflow tn i u c)"
proof (rule keeps_wp)
  fix s assume ok: "workflow_ok s"
  show "wp (cancelWorkflow tn i u c) (\<lambda>_. workflow_ok) (\<lambda>_. workflow_ok) s"
  proof (cases "find (\<lambda>r. wn_id r = i \<and> wn_tenantId r = tn) (workflowInstances s)")
    case None
    then show ?thesis using ok by (simp add: cancelWorkflow_def instance_and_user_def wp_simps)
  next
    case (Some r)
    then show ?thesis using ok
      by (auto simp: cancelWorkflow_def instance_and_user_def wp_simps found_instance [OF ok Some]
            entity_key_def intro!: workflow_moved_found [OF ok Some] split: option.split)
  qed
qed

lemma keeps_resubmitWorkflow: "keeps workflow_ok (resubmitWorkflow tn i u c)"
proof (rule keeps_wp)
  fix s assume ok: "workflow_ok s"
  have one: "ws_sequence w = 1" if "first_of (steps_of j s) = Some w" for j w
    using that first_step_number [of j s w] ok by (cases "steps_of j s") (auto simp: workflow_ok_def templates_ok_def)
  show "wp (resubmitWorkflow tn i u c) (\<lambda>_. workflow_ok) (\<lambda>_. workflow_ok) s"
  proof (cases "find (\<lambda>r. wn_id r = i \<and> wn_tenantId r = tn) (workflowInstances s)")
    case None
    then show ?thesis using ok by (simp add: resubmitWorkflow_def wp_simps)
  next
    case (Some r)
    then show ?thesis using ok
      by (auto simp: resubmitWorkflow_def wp_simps found_instance [OF ok Some] one
            is_active_def entity_key_def intro!: workflow_moved_found [OF ok Some] split: option.split)
  qed
qed

lemma keeps_getWorkflowInstance [keeps_intros]: "keeps I (getWorkflowInstance tn i)"
  unfolding getWorkflowInstance_def by (intro keeps_intros)

lemma keeps_endpoints:
  "keeps workflow_ok (startWorkflowRequest tn u ty e notes)" "keeps workflow_ok (approveWorkflow tn i u c)"
  "keeps workflow_ok (rejectWorkflow tn i u c)"
  unfolding startWorkflowRequest_def approveWorkflow_def rejectWorkflow_def
  by (intro keeps_intros keeps_startWorkflow keeps_approve keeps_reject)+

end
