(* ===== verification/TemplateRuns.thy ===== *)
theory TemplateRuns
  imports ApprovalRuns
begin

text \<open>
  The administration of templates keeps the invariant of the workflow: the integrity check of
  the step numbers is what keeps them numbered from 1.
\<close>

lemma templates_workflow:
  assumes "workflow_ok s" "templates_ok t" "workflowInstances t = workflowInstances s"
    "workflowActions t = workflowActions s" "next_id s \<le> next_id t"
  shows "workflow_ok t"
  using assms
  by (auto simp: workflow_ok_def instances_ok_def approvals_ok_def active_keys_def approvers_def intro: less_le_trans)

lemma wp_sequence_integrity [wp_simps]:
  "wp (assertWorkflowStepSequenceIntegrity ns) Q E s = (if numbered ns then Q () s else E BadRequestException s)"
  by (simp add: assertWorkflowStepSequenceIntegrity_def sequences_ok_iff wp_simps)

lemma wp_getWorkflowTemplate [wp_simps]:
  "wp (getWorkflowTemplate tn i) Q E s =
     (case find (\<lambda>t. wt_id t = i \<and> wt_tenantId t = tn) (workflowTemplates s) of None \<Rightarrow> E NotFoundException s | Some t \<Rightarrow> Q t s)"
  by (simp add: getWorkflowTemplate_def wp_simps)

text \<open>The roles are checked without touching the state.\<close>

lemma normalizeApproverRole_run: "normalizeApproverRole role s = (r, t) \<Longrightarrow> t = s"
  by (auto simp: normalizeApproverRole_def run_simps split: if_splits option.splits)

lemma wp_normalizeApproverRole:
  assumes "\<And>role'. Q role' s" "\<And>e. E e s"
  shows "wp (normalizeApproverRole role) Q E s"
  using assms normalizeApproverRole_run [of role s] by (auto simp: wp_def split: prod.split sum.split)

text \<open>With the role checked, the items of a new template keep their order.\<close>

lemma wp_normalized_roles:
  assumes "\<And>rest. map fst rest = items \<Longrightarrow> Q rest s" "\<And>e. E e s"
  shows "wp (normalized_roles items) Q E s"
  using assms
proof (induction items arbitrary: Q)
  case Nil
  then show ?case by (simp add: wp_simps)
next
  case (Cons item items)
  have "wp (normalized_roles items) (\<lambda>rest. Q ((item, role) # rest)) E s" for role
    using Cons.prems by (intro Cons.IH) auto
  then show ?case
    unfolding normalized_roles.simps wp_simps using Cons.prems(2) by (intro wp_normalizeApproverRole)
qed

section \<open>One step\<close>

definition with_step :: "WorkflowStep \<Rightarrow> planning \<Rightarrow> planning" where
  "with_step w s = s\<lparr>next_id := next_id s + 1, workflowSteps := workflowSteps s @ [w]\<rparr>"

lemma run_create_step:
  "create_step i (item, role) s = (Inr (), with_step (step_row i item role (next_id s)) s)"
  by (simp add: create_step_def with_step_def run_bind run_simps)

lemma templates_with_step:
  assumes "templates_ok s" "ws_id w = next_id s" "ws_templateId w < next_id s"
    "numbered (step_numbers (ws_templateId w) s @ [ws_sequence w])"
  shows "templates_ok (with_step w s)"
proof -
  have n: "step_numbers i (with_step w s) = step_numbers i s @ (if i = ws_templateId w then [ws_sequence w] else [])" for i
    by (simp add: step_numbers_def with_step_def)
  have "length (step_numbers i s) \<le> length (step_numbers i (with_step w s))" for i by (simp add: n)
  moreover have "numbered (step_numbers i (with_step w s))" for i using assms by (simp add: n templates_ok_def)
  ultimately show ?thesis
    using assms(1-3) by (force simp: templates_ok_def with_step_def intro: order_trans)
qed

lemma keeps_addWorkflowStep: "keeps workflow_ok (addWorkflowStep tn i dto)"
proof (rule keeps_wp)
  fix s assume ok: "workflow_ok s"
  have "workflow_ok (with_step (step_row (wt_id t) dto role (next_id s)) s)"
    if t: "find (\<lambda>t. wt_id t = i \<and> wt_tenantId t = tn) (workflowTemplates s) = Some t"
      "numbered (map ws_sequence (steps_of (wt_id t) s) @ [si_stepOrder dto])" for t role
  proof -
    have "numbered (step_numbers (wt_id t) s @ [si_stepOrder dto])"
      using t(2) numbered_mset [of "sort (step_numbers (wt_id t) s) @ [si_stepOrder dto]"] by (simp add: steps_of_numbers)
    moreover have "t \<in> set (workflowTemplates s)" using find_in [OF t(1)] by simp
    ultimately have "templates_ok (with_step (step_row (wt_id t) dto role (next_id s)) s)"
      using ok by (intro templates_with_step) (auto simp: workflow_ok_def templates_ok_def step_row_def)
    then show ?thesis by (rule templates_workflow [OF ok]) (simp_all add: with_step_def)
  qed
  then show "wp (addWorkflowStep tn i dto) (\<lambda>_. workflow_ok) (\<lambda>_. workflow_ok) s"
    using ok
    by (auto simp: addWorkflowStep_def wp_simps wp_def [of "create_step _ _"] run_create_step
        intro!: wp_normalizeApproverRole split: option.split)
qed

text \<open>Taking the step with a given identifier out of a list.\<close>

lemma mset_without:
  assumes "distinct (map ws_id ws)" "w \<in> set ws"
  shows "mset ws = add_mset w (mset (filter (\<lambda>v. ws_id v \<noteq> ws_id w) ws))"
  using assms
proof (induction ws)
  case (Cons v ws)
  show ?case
  proof (cases "v = w")
    case True
    then have "filter (\<lambda>v. ws_id v \<noteq> ws_id w) ws = ws" using Cons.prems(1) by (auto simp: image_iff intro!: filter_True)
    then show ?thesis using True by simp
  next
    case False
    then have "ws_id v \<noteq> ws_id w" "w \<in> set ws" using Cons.prems by (auto simp: image_iff)
    then show ?thesis using Cons by simp
  qed
qed simp

lemma numbers_without:
  assumes "templates_ok s" "w \<in> set (workflowSteps s)"
  shows "mset (step_numbers (ws_templateId w) s) = mset (other_sequences w s @ [ws_sequence w])"
proof -
  have "mset (filter (\<lambda>v. ws_templateId v = ws_templateId w) (workflowSteps s)) =
      add_mset w (mset (filter (\<lambda>v. ws_id v \<noteq> ws_id w) (filter (\<lambda>v. ws_templateId v = ws_templateId w) (workflowSteps s))))"
    using assms by (intro mset_without) (auto simp: templates_ok_def distinct_map_filter)
  then show ?thesis by (simp add: step_numbers_def other_sequences_def)
qed

text \<open>A gap in the numbers is filled by one number only, so no step can be given another.\<close>

lemma numbered_unique:
  assumes "numbered (ns @ [a])" "numbered (ns @ [b])"
  shows "a = b"
proof -
  have "insert a (set ns) = insert b (set ns)" "a \<notin> set ns" "b \<notin> set ns"
    using numbered_set [OF assms(1)] numbered_set [OF assms(2)] numbered_distinct [OF assms(1)] numbered_distinct [OF assms(2)]
    by auto
  then show ?thesis by (metis insertE insertI1)
qed

lemma step_of_tenant_Some:
  assumes "step_of_tenant tn i s = Some (w, t)"
  shows "w \<in> set (workflowSteps s)" "ws_id w = i" "t \<in> set (workflowTemplates s)" "wt_id t = ws_templateId w"
  using assms find_by_Some [of wt_id "ws_templateId w" "workflowTemplates s" t]
  by (auto simp: step_of_tenant_def split: option.splits dest!: find_in)

lemma step_keeps_number:
  assumes "templates_ok s" "step_of_tenant tn i s = Some (w, t)"
    "numbered (other_sequences w s @ [orElse (sp_stepOrder dto) (ws_sequence w)])"
  shows "ws_sequence (patch_step dto role w) = ws_sequence w"
proof -
  note w = step_of_tenant_Some [OF assms(2)]
  have "numbered (other_sequences w s @ [ws_sequence w])"
    using assms(1) numbers_without [OF assms(1) w(1)] numbered_mset by (metis templates_ok_def)
  then show ?thesis using numbered_unique [OF _ assms(3)] by (simp add: patch_step_def)
qed

lemma patch_step_ids [simp]:
  "ws_id (patch_step dto role w) = ws_id w" "ws_templateId (patch_step dto role w) = ws_templateId w"
  by (simp_all add: patch_step_def)

lemma map_cong_row:
  "(\<And>v. v \<in> set rows \<Longrightarrow> key v = k \<Longrightarrow> f (g v) = f v) \<Longrightarrow> map f (set_row key k g rows) = map f rows"
  by (induction rows) auto

definition step_key :: "WorkflowStep \<Rightarrow> uuid \<times> uuid \<times> int" where
  "step_key w = (ws_id w, ws_templateId w, ws_sequence w)"

lemma step_numbers_key: "step_numbers i s = map (snd \<circ> snd) (filter (\<lambda>k. fst (snd k) = i) (map step_key (workflowSteps s)))"
  by (simp add: step_numbers_def filter_map step_key_def comp_def)

text \<open>The rows after an update: every step has its old number.\<close>

lemma updated_keys:
  assumes "templates_ok s" "step_of_tenant tn i s = Some (w, t)"
    "numbered (other_sequences w s @ [orElse (sp_stepOrder dto) (ws_sequence w)])"
  shows "map step_key (set_row ws_id i (patch_step dto role) (workflowSteps s)) = map step_key (workflowSteps s)"
proof (rule map_cong_row)
  note w = step_of_tenant_Some [OF assms(2)]
  show "step_key (patch_step dto role v) = step_key v" if "v \<in> set (workflowSteps s)" "ws_id v = i" for v
  proof -
    have "v = w"
      using that w(1,2) assms(1) by (auto simp: templates_ok_def) (metis find_by_unique option.inject)
    then show ?thesis using step_keeps_number [OF assms] by (simp add: step_key_def)
  qed
qed

lemma templates_same_keys:
  assumes "templates_ok s" "map step_key (workflowSteps t) = map step_key (workflowSteps s)"
    "workflowTemplates t = workflowTemplates s" "next_id t = next_id s"
  shows "templates_ok t"
proof -
  have n: "step_numbers i t = step_numbers i s" for i by (simp add: step_numbers_key assms(2))
  have ids: "map ws_id (workflowSteps t) = map ws_id (workflowSteps s)"
    using arg_cong [OF assms(2), of "map fst"] by (simp add: step_key_def comp_def)
  have "ws_id w < next_id s \<and> ws_templateId w < next_id s" if "w \<in> set (workflowSteps t)" for w
  proof -
    have "step_key w \<in> step_key ` set (workflowSteps s)" using that arg_cong [OF assms(2), of set] by auto
    then show ?thesis using assms(1) by (auto simp: templates_ok_def step_key_def)
  qed
  then show ?thesis using assms by (simp add: templates_ok_def n ids)
qed

lemma keeps_updateWorkflowStep: "keeps workflow_ok (updateWorkflowStep tn i dto)"
proof (rule keeps_wp)
  fix s assume ok: "workflow_ok s"
  have "workflow_ok (s\<lparr>workflowSteps := set_row ws_id i (patch_step dto role) (workflowSteps s)\<rparr>)"
    if "step_of_tenant tn i s = Some (w, t)" "numbered (other_sequences w s @ [orElse (sp_stepOrder dto) (ws_sequence w)])"
    for w t role
    using updated_keys [OF workflow_okD(2) [OF ok] that, of role] templates_same_keys [OF workflow_okD(2) [OF ok]]
    by (intro templates_workflow [OF ok]) auto
  then show "wp (updateWorkflowStep tn i dto) (\<lambda>_. workflow_ok) (\<lambda>_. workflow_ok) s"
    using ok by (auto simp: updateWorkflowStep_def wp_simps intro!: wp_normalizeApproverRole split: option.split)
qed

section \<open>Removing steps and templates\<close>

lemma templates_without_step:
  assumes "templates_ok s" "step_of_tenant tn i s = Some (w, t)" "numbered (other_sequences w s)"
    "wt_isActive t \<Longrightarrow> 3 < length (step_numbers (wt_id t) s)"
  shows "templates_ok (s\<lparr>workflowSteps := filter (\<lambda>w. ws_id w \<noteq> i) (workflowSteps s)\<rparr>)"
proof -
  define s' where "s' = s\<lparr>workflowSteps := filter (\<lambda>w. ws_id w \<noteq> i) (workflowSteps s)\<rparr>"
  note w = step_of_tenant_Some [OF assms(2)]
  have here: "step_numbers (ws_templateId w) s' = other_sequences w s"
    by (simp add: s'_def step_numbers_def other_sequences_def w(2) conj_commute)
  have there: "step_numbers j s' = step_numbers j s" if "j \<noteq> ws_templateId w" for j
  proof -
    have "ws_templateId v \<noteq> j" if "v \<in> set (workflowSteps s)" "ws_id v = i" for v
      using that w(1,2) \<open>j \<noteq> ws_templateId w\<close> assms(1) by (auto simp: templates_ok_def) (metis find_by_unique option.inject)
    then have "filter (\<lambda>v. ws_id v \<noteq> i \<and> ws_templateId v = j) (workflowSteps s) = filter (\<lambda>v. ws_templateId v = j) (workflowSteps s)"
      by (intro filter_cong) auto
    then show ?thesis by (simp add: s'_def step_numbers_def conj_commute)
  qed
  have n: "numbered (step_numbers j s')" for j
    using assms(1,3) here there [of j] by (cases "j = ws_templateId w") (auto simp: templates_ok_def)
  have "length (step_numbers (ws_templateId w) s) = length (other_sequences w s) + 1"
    using arg_cong [OF numbers_without [OF assms(1) w(1)], of size] by simp
  then have "3 \<le> length (step_numbers (wt_id u) s')" if "u \<in> set (workflowTemplates s)" "wt_isActive u" for u
  proof (cases "wt_id u = ws_templateId w")
    case True
    then have "u = t" using that(1) w(3,4) assms(1) by (auto simp: templates_ok_def) (metis find_by_unique option.inject)
    then show ?thesis using assms(4) that(2) here True \<open>length (step_numbers (ws_templateId w) s) = _\<close> by simp
  next
    case False
    then show ?thesis using that there assms(1) by (auto simp: templates_ok_def)
  qed
  then show ?thesis using assms(1) n by (auto simp: templates_ok_def s'_def [symmetric] distinct_map_filter) (auto simp: s'_def distinct_map_filter)
qed

lemma keeps_deleteWorkflowStep: "keeps workflow_ok (deleteWorkflowStep tn i)"
proof (rule keeps_wp)
  fix s assume ok: "workflow_ok s"
  have "workflow_ok (s\<lparr>workflowSteps := filter (\<lambda>w. ws_id w \<noteq> i) (workflowSteps s)\<rparr>)"
    if "step_of_tenant tn i s = Some (w, t)" "numbered (other_sequences w s)"
      "wt_isActive t \<longrightarrow> \<not> length (step_numbers (wt_id t) s) \<le> 3" for w t
    using templates_without_step [OF workflow_okD(2) [OF ok] that(1,2)] that(3)
    by (intro templates_workflow [OF ok]) auto
  then show "wp (deleteWorkflowStep tn i) (\<lambda>_. workflow_ok) (\<lambda>_. workflow_ok) s"
    using ok by (auto simp: deleteWorkflowStep_def wp_simps split: option.split)
qed

lemma keeps_deleteWorkflowTemplate: "keeps workflow_ok (deleteWorkflowTemplate tn i)"
proof (rule keeps_wp)
  fix s assume ok: "workflow_ok s"
  define s' where "s' = s\<lparr>workflowTemplates := filter (\<lambda>t. wt_id t \<noteq> i) (workflowTemplates s),
     workflowSteps := filter (\<lambda>w. ws_templateId w \<noteq> i) (workflowSteps s)\<rparr>"
  have n: "step_numbers j s' = (if j = i then [] else step_numbers j s)" for j
    by (auto simp: s'_def step_numbers_def intro!: arg_cong [where f = "map ws_sequence"] filter_cong)
  have "numbered []" by (simp add: numbered_def)
  then have "templates_ok s'"
    using workflow_okD(2) [OF ok] by (auto simp: templates_ok_def n) (auto simp: s'_def distinct_map_filter)
  then have "workflow_ok s'" by (rule templates_workflow [OF ok]) (simp_all add: s'_def)
  then show "wp (deleteWorkflowTemplate tn i) (\<lambda>_. workflow_ok) (\<lambda>_. workflow_ok) s"
    using ok by (simp add: deleteWorkflowTemplate_def wp_simps s'_def split: option.split)
qed

section \<open>Templates\<close>

lemma patch_template_id [simp]: "wt_id (patch_template dto t) = wt_id t"
  by (simp add: patch_template_def)

lemma keeps_updateWorkflowTemplate: "keeps workflow_ok (updateWorkflowTemplate tn i dto)"
proof (rule keeps_wp)
  fix s assume ok: "workflow_ok s"
  have "workflow_ok (s\<lparr>workflowTemplates := set_row wt_id (wt_id t) (patch_template dto) (workflowTemplates s)\<rparr>)"
    if t: "find (\<lambda>t. wt_id t = i \<and> wt_tenantId t = tn) (workflowTemplates s) = Some t"
      "tp_isActive dto = Some True \<longrightarrow> \<not> length (step_numbers (wt_id t) s) < 3" for t
  proof -
    define s' where "s' = s\<lparr>workflowTemplates := set_row wt_id (wt_id t) (patch_template dto) (workflowTemplates s)\<rparr>"
    have n: "step_numbers j s' = step_numbers j s" for j by (simp add: s'_def step_numbers_def)
    have "3 \<le> length (step_numbers (wt_id t) s)" if "u \<in> set (workflowTemplates s)" "wt_id u = wt_id t"
        "wt_isActive (patch_template dto u)" for u
    proof (cases "tp_isActive dto")
      case None
      then show ?thesis using that workflow_okD(2) [OF ok] by (auto simp: patch_template_def templates_ok_def)
    next
      case (Some b)
      then show ?thesis using that t(2) by (auto simp: patch_template_def)
    qed
    then have "templates_ok s'"
      using workflow_okD(2) [OF ok] by (auto simp: templates_ok_def n) (auto simp: s'_def in_set_row split: if_splits)
    then show ?thesis unfolding s'_def [symmetric] by (rule templates_workflow [OF ok]) (simp_all add: s'_def)
  qed
  then show "wp (updateWorkflowTemplate tn i dto) (\<lambda>_. workflow_ok) (\<lambda>_. workflow_ok) s"
    using ok by (auto simp: updateWorkflowTemplate_def wp_simps split: option.split)
qed

text \<open>The rows of a new template's steps.\<close>

fun step_rows :: "uuid \<Rightarrow> uuid \<Rightarrow> (step_item \<times> UserRole option) list \<Rightarrow> WorkflowStep list" where
  "step_rows i n [] = []"
| "step_rows i n ((item, role) # rest) = step_row i item role n # step_rows i (n + 1) rest"

lemma run_create_steps:
  "forEach (create_step i) items s =
     (Inr (), s\<lparr>next_id := next_id s + length items, workflowSteps := workflowSteps s @ step_rows i (next_id s) items\<rparr>)"
  by (induction items arbitrary: s) (auto simp: run_simps run_seq run_create_step with_step_def)

lemma step_rows_sel:
  "map ws_sequence (step_rows i n items) = map (si_stepOrder \<circ> fst) items"
  "map ws_id (step_rows i n items) = [n ..< n + length items]"
  "map ws_templateId (step_rows i n items) = replicate (length items) i"
  by (induction items arbitrary: n) (auto simp: step_row_def upt_conv_Cons simp del: upt_Suc)

lemma templates_with_rows:
  assumes "templates_ok s" "numbered (map (si_stepOrder \<circ> fst) items)" "wt_id row = next_id s"
    "wt_isActive row \<Longrightarrow> 3 \<le> length items"
  shows "templates_ok (s\<lparr>workflowTemplates := workflowTemplates s @ [row], next_id := next_id s + 1 + length items,
    workflowSteps := workflowSteps s @ step_rows (next_id s) (next_id s + 1) items\<rparr>)" (is "templates_ok ?t")
proof -
  define rows where "rows = step_rows (next_id s) (next_id s + 1) items"
  define u where "u = s\<lparr>workflowTemplates := workflowTemplates s @ [row], next_id := next_id s + 1 + length items,
    workflowSteps := workflowSteps s @ rows\<rparr>"
  note sel = step_rows_sel [of "next_id s" "next_id s + 1" items, folded rows_def]
  have t: "ws_templateId w = next_id s" if "w \<in> set rows" for w
  proof -
    have "ws_templateId w \<in> set (map ws_templateId rows)" using that by simp
    then show ?thesis unfolding sel(3) by (simp split: if_splits)
  qed
  have id: "next_id s < ws_id w \<and> ws_id w < next_id s + 1 + length items" if "w \<in> set rows" for w
  proof -
    have "ws_id w \<in> set (map ws_id rows)" using that by simp
    then show ?thesis unfolding sel(2) set_upt by auto
  qed
  have old: "step_numbers (next_id s) s = []" using assms(1) by (auto simp: step_numbers_def templates_ok_def filter_empty_conv)
  have "filter (\<lambda>w. ws_templateId w = j) rows = (if j = next_id s then rows else [])" for j
    using t by (auto simp: filter_empty_conv)
  then have n: "step_numbers j u = (if j = next_id s then map (si_stepOrder \<circ> fst) items else step_numbers j s)" for j
    using old by (auto simp: step_numbers_def u_def sel(1))
  have "ws_id v \<noteq> ws_id w" if "v \<in> set (workflowSteps s)" "w \<in> set rows" for v w
    using that assms(1) id [of w] by (auto simp: templates_ok_def)
  then have "distinct (map ws_id (workflowSteps u))"
    using assms(1) by (auto simp: templates_ok_def u_def sel(2) simp del: map_append) (auto simp: sel(2) image_iff)
  moreover have "\<forall>w \<in> set (workflowSteps u). ws_id w < next_id u \<and> ws_templateId w < next_id u"
    using assms(1) id t by (auto simp: templates_ok_def u_def)
  ultimately have "templates_ok u"
    using assms by (auto simp: templates_ok_def n) (auto simp: u_def)
  then show ?thesis by (simp add: u_def rows_def)
qed

lemma keeps_createWorkflowTemplate: "keeps workflow_ok (createWorkflowTemplate tn dto)"
proof (rule keeps_wp)
  fix s assume ok: "workflow_ok s"
  have len: "length items = length (td_steps dto)" if "map fst items = td_steps dto"
    for items :: "(step_item \<times> UserRole option) list" using arg_cong [OF that, of length] by simp
  have made: "workflow_ok (s\<lparr>workflowTemplates := workflowTemplates s @ [row], next_id := Suc (next_id s + length (td_steps dto)),
      workflowSteps := workflowSteps s @ step_rows (next_id s) (Suc (next_id s)) items\<rparr>)" (is "workflow_ok ?t")
    if "map fst items = td_steps dto" "numbered (map si_stepOrder (td_steps dto))" "wt_id row = next_id s"
      "wt_isActive row \<Longrightarrow> 3 \<le> length (td_steps dto)" for items row
  proof -
    have "numbered (map (si_stepOrder \<circ> fst) items)" using that(1,2) by (simp flip: map_map)
    then have "templates_ok ?t"
      using templates_with_rows [OF workflow_okD(2) [OF ok], of items row] that(3,4) len [OF that(1)] by simp
    then show ?thesis by (rule templates_workflow [OF ok]) simp_all
  qed
  show "wp (createWorkflowTemplate tn dto) (\<lambda>_. workflow_ok) (\<lambda>_. workflow_ok) s"
    using ok
    by (auto simp: createWorkflowTemplate_def wp_simps Let_def wp_def [of "forEach _ _"] run_create_steps len not_less
        intro!: wp_normalized_roles made)
qed

end
