(* ===== verification/Plans.thy ===== *)
theory Plans
  imports Workflow
begin

text \<open>
  The plan versions of \<open>modules/plans/plans.service.ts\<close>.  The signed-in user is a row of \<open>users\<close>;
  what a method returns is the plan's row.  The grid listing and the version history are left out.
\<close>

definition findPlan :: "uuid \<Rightarrow> User \<Rightarrow> PlanVersion planning_prog" where
  "findPlan planId user =
     bind (gets (\<lambda>s. find (\<lambda>p. pv_id p = planId \<and> pv_tenantId p = us_tenantId user) (planVersions s)))
       (orThrow NotFoundException)"

definition update_plan :: "uuid \<Rightarrow> (PlanVersion \<Rightarrow> PlanVersion) \<Rightarrow> unit planning_prog" where
  "update_plan planId f =
     bind (gets (\<lambda>s. find_by pv_id planId (planVersions s))) (\<lambda>found.
     seq (throwIf (found = None) PrismaRecordNotFound)
         (modify (\<lambda>s. s\<lparr>planVersions := set_row pv_id planId f (planVersions s)\<rparr>)))"

text \<open>The unique key \<open>(tenantId, name, version)\<close>.\<close>

definition plan_key_taken :: "uuid \<Rightarrow> string \<Rightarrow> int \<Rightarrow> uuid option \<Rightarrow> planning \<Rightarrow> bool" where
  "plan_key_taken tenantId name version self s \<longleftrightarrow>
     list_ex (\<lambda>p. pv_tenantId p = tenantId \<and> pv_name p = name \<and> pv_version p = version \<and> Some (pv_id p) \<noteq> self)
       (planVersions s)"

section \<open>Creation\<close>

record plan_dto =
  cp_name :: string
  cp_description :: "string option"
  cp_startDate :: timestamp
  cp_endDate :: timestamp
  cp_planType :: "PlanType option"
  cp_periodType :: "PeriodType option"

definition plan_row :: "plan_dto \<Rightarrow> User \<Rightarrow> uuid \<Rightarrow> PlanVersion" where
  "plan_row dto user i =
     \<lparr>pv_id = i, pv_tenantId = us_tenantId user, pv_name = cp_name dto, pv_description = cp_description dto,
      pv_planType = orElse (cp_planType dto) PlanType.FORECAST, pv_status = DRAFT, pv_version = 1,
      pv_startDate = cp_startDate dto, pv_endDate = cp_endDate dto,
      pv_periodType = orElse (cp_periodType dto) MONTHLY, pv_isLocked = False, pv_lockedAt = None,
      pv_lockedReason = None, pv_approvedAt = None, pv_approvedById = None, pv_parentVersionId = None,
      pv_createdById = us_id user\<rparr>"

definition standard_scenario :: "User \<Rightarrow> uuid \<Rightarrow> string \<times> string \<times> ScenarioType \<times> bool \<times> string \<times> int \<Rightarrow> unit planning_prog" where
  "standard_scenario user planId = (\<lambda>(name, description, scenarioType, isBaseline, color, sortOrder).
     bind new_id (\<lambda>i. modify (\<lambda>s. s\<lparr>scenarios := scenarios s @
       [\<lparr>se_id = i, se_tenantId = us_tenantId user, se_planVersionId = planId, se_name = name,
         se_description = Some description, se_scenarioType = scenarioType, se_status = DRAFT, se_lockedAt = None,
         se_lockedReason = None, se_isBaseline = isBaseline, se_color = Some color, se_sortOrder = sortOrder\<rparr>]\<rparr>)))"

definition standard_scenarios :: "(string \<times> string \<times> ScenarioType \<times> bool \<times> string \<times> int) list" where
  "standard_scenarios =
     [(''Base Scenario'', ''Default baseline scenario'', BASE, True, ''#3b82f6'', 0),
      (''Optimistic'', ''Best-case assumptions (+15% uplift)'', OPTIMISTIC, False, ''#10b981'', 1),
      (''Pessimistic'', ''Worst-case assumptions (-15% reduction)'', PESSIMISTIC, False, ''#ef4444'', 2)]"

definition createPlan :: "plan_dto \<Rightarrow> User \<Rightarrow> PlanVersion planning_prog" where
  "createPlan dto user =
     bind (transaction (
       bind (gets (plan_key_taken (us_tenantId user) (cp_name dto) 1 None)) (\<lambda>existing.
       seq (throwIf existing ConflictException)
      (bind new_id (\<lambda>i.
       seq (modify (\<lambda>s. s\<lparr>planVersions := planVersions s @ [plan_row dto user i]\<rparr>))
      (seq (forEach (standard_scenario user i) standard_scenarios)
           (return i))))))) (\<lambda>planId.
     findPlan planId user)"

record plan_patch =
  up_name :: "string option"
  up_description :: "string option"
  up_startDate :: "timestamp option"
  up_endDate :: "timestamp option"

definition patch_plan :: "plan_patch \<Rightarrow> PlanVersion \<Rightarrow> PlanVersion" where
  "patch_plan dto p =
     p\<lparr>pv_name := (if orElse (up_name dto) [] = [] then pv_name p else orElse (up_name dto) []),
       pv_description := (case up_description dto of None \<Rightarrow> pv_description p | Some d \<Rightarrow> Some d),
       pv_startDate := orElse (up_startDate dto) (pv_startDate p),
       pv_endDate := orElse (up_endDate dto) (pv_endDate p)\<rparr>"

definition updatePlan :: "uuid \<Rightarrow> plan_patch \<Rightarrow> User \<Rightarrow> PlanVersion planning_prog" where
  "updatePlan planId dto user =
     bind (findPlan planId user) (\<lambda>plan.
     seq (throwIf (pv_status plan = PlanStatus.APPROVED \<or> pv_status plan = LOCKED) BadRequestException)
    (bind (gets (plan_key_taken (pv_tenantId plan) (pv_name (patch_plan dto plan)) (pv_version plan) (Some planId))) (\<lambda>clash.
     seq (throwIf clash PrismaUniqueViolation)
    (seq (update_plan planId (patch_plan dto))
         (return (patch_plan dto plan))))))"

text \<open>
  Scenarios and assumptions go with the plan; versions derived from it lose their parent.
\<close>

definition delete_plan :: "uuid \<Rightarrow> planning \<Rightarrow> planning" where
  "delete_plan planId s = s\<lparr>planVersions := update_where (\<lambda>p. pv_parentVersionId p = Some planId)
         (\<lambda>p. p\<lparr>pv_parentVersionId := None\<rparr>) (filter (\<lambda>p. pv_id p \<noteq> planId) (planVersions s)),
       scenarios := filter (\<lambda>c. se_planVersionId c \<noteq> planId) (scenarios s),
       assumptions := filter (\<lambda>a. as_planVersionId a \<noteq> planId) (assumptions s)\<rparr>"

definition removePlan :: "uuid \<Rightarrow> User \<Rightarrow> unit planning_prog" where
  "removePlan planId user =
     bind (findPlan planId user) (\<lambda>plan.
     seq (throwIf (pv_status plan = PlanStatus.APPROVED \<or> pv_status plan = LOCKED) BadRequestException)
         (modify (delete_plan planId)))"

definition clone_scenario :: "User \<Rightarrow> uuid \<Rightarrow> Scenario \<Rightarrow> unit planning_prog" where
  "clone_scenario user planId c = bind new_id (\<lambda>i. modify (\<lambda>s. s\<lparr>scenarios := scenarios s @
     [\<lparr>se_id = i, se_tenantId = us_tenantId user, se_planVersionId = planId, se_name = se_name c,
       se_description = se_description c, se_scenarioType = se_scenarioType c, se_status = DRAFT,
       se_lockedAt = None, se_lockedReason = None, se_isBaseline = se_isBaseline c, se_color = se_color c,
       se_sortOrder = se_sortOrder c\<rparr>]\<rparr>))"

definition clonePlan :: "uuid \<Rightarrow> string option \<Rightarrow> User \<Rightarrow> PlanVersion planning_prog" where
  "clonePlan planId name user =
     bind (findPlan planId user) (\<lambda>original.
     let name' = (if orElse name [] = [] then pv_name original @ '' (Copy)'' else orElse name []) in
     bind (gets (plan_key_taken (us_tenantId user) name' 1 None)) (\<lambda>clash.
     seq (throwIf clash PrismaUniqueViolation)
    (bind new_id (\<lambda>i.
     seq (modify (\<lambda>s. s\<lparr>planVersions := planVersions s @
            [\<lparr>pv_id = i, pv_tenantId = us_tenantId user, pv_name = name', pv_description = pv_description original,
              pv_planType = pv_planType original, pv_status = DRAFT, pv_version = 1,
              pv_startDate = pv_startDate original, pv_endDate = pv_endDate original,
              pv_periodType = pv_periodType original, pv_isLocked = False, pv_lockedAt = None, pv_lockedReason = None,
              pv_approvedAt = None, pv_approvedById = None, pv_parentVersionId = Some (pv_id original),
              pv_createdById = us_id user\<rparr>]\<rparr>))
    (bind (gets (\<lambda>s. filter (\<lambda>c. se_planVersionId c = pv_id original) (scenarios s))) (\<lambda>copied.
     seq (forEach (clone_scenario user i) copied)
         (findPlan i user)))))))"

section \<open>Review\<close>

definition submitPlan :: "uuid \<Rightarrow> User \<Rightarrow> PlanVersion planning_prog" where
  "submitPlan planId user =
     bind (findPlan planId user) (\<lambda>plan.
     seq (throwIf (pv_status plan \<noteq> DRAFT) BadRequestException)
    (bind (gets (\<lambda>s. length (filter (\<lambda>c. se_planVersionId c = planId) (scenarios s)))) (\<lambda>scenarioCount.
     seq (throwIf (scenarioCount = 0) BadRequestException)
    (bind (hasActiveTemplate (us_tenantId user) PLAN_VERSION) (\<lambda>hasWorkflow.
     seq (if hasWorkflow
          then seq (bind (startWorkflow (us_tenantId user) PLAN_VERSION planId (us_id user)
                      (Some ''Plan submitted for approval'')) (\<lambda>_. return ()))
              (seq (update_plan planId (\<lambda>p. p\<lparr>pv_status := IN_REVIEW\<rparr>))
                   (log_status user UPDATE ''PlanVersion'' planId DRAFT IN_REVIEW))
          else bind (gets clock) (\<lambda>t.
               seq (update_plan planId (\<lambda>p. p\<lparr>pv_status := PlanStatus.APPROVED, pv_approvedAt := Some t,
                      pv_approvedById := Some (us_id user)\<rparr>))
                   (log_status user AuditAction.APPROVE ''PlanVersion'' planId DRAFT PlanStatus.APPROVED)))
         (findPlan planId user))))))"

definition approvePlan :: "uuid \<Rightarrow> User \<Rightarrow> PlanVersion planning_prog" where
  "approvePlan planId user =
     bind (findPlan planId user) (\<lambda>plan.
     seq (throwIf (pv_status plan \<noteq> IN_REVIEW) BadRequestException)
    (bind (gets (latest_instance (us_tenantId user) PLAN_VERSION planId)) (\<lambda>found.
     bind (orThrow BadRequestException found) (\<lambda>row.
     bind (approve (wn_id row) (us_id user) (Some ''Plan approved'') None) (\<lambda>workflow.
     if wn_status workflow \<noteq> WorkflowStatus.APPROVED then findPlan planId user
     else bind (gets clock) (\<lambda>t.
       seq (update_plan planId (\<lambda>p. p\<lparr>pv_status := PlanStatus.APPROVED, pv_approvedAt := Some t,
              pv_approvedById := Some (us_id user)\<rparr>))
      (seq (log_status user AuditAction.APPROVE ''PlanVersion'' planId IN_REVIEW PlanStatus.APPROVED)
           (findPlan planId user))))))))"

definition rejectPlan :: "uuid \<Rightarrow> string \<Rightarrow> User \<Rightarrow> PlanVersion planning_prog" where
  "rejectPlan planId reason user =
     bind (findPlan planId user) (\<lambda>plan.
     seq (throwIf (pv_status plan \<noteq> IN_REVIEW) BadRequestException)
    (bind (gets (latest_instance (us_tenantId user) PLAN_VERSION planId)) (\<lambda>found.
     bind (orThrow BadRequestException found) (\<lambda>row.
     bind (reject (wn_id row) (us_id user) (Some reason) None) (\<lambda>_.
     seq (update_plan planId (\<lambda>p. p\<lparr>pv_status := DRAFT\<rparr>))
    (seq (log_status user UPDATE ''PlanVersion'' planId IN_REVIEW DRAFT)
         (findPlan planId user)))))))"

section \<open>Locks and archive\<close>

definition lockPlan :: "uuid \<Rightarrow> string \<Rightarrow> User \<Rightarrow> PlanVersion planning_prog" where
  "lockPlan planId reason user =
     bind (findPlan planId user) (\<lambda>plan.
     seq (throwIf (pv_isLocked plan) BadRequestException)
    (seq (throwIf (pv_status plan \<noteq> PlanStatus.APPROVED) BadRequestException)
    (bind (hasActiveTemplate (us_tenantId user) PLAN_VERSION) (\<lambda>hasWorkflow.
     seq (if hasWorkflow then bind (ensureApproved (us_tenantId user) PLAN_VERSION planId) (\<lambda>_. return ()) else return ())
    (bind (gets clock) (\<lambda>t.
     seq (update_plan planId (\<lambda>p. p\<lparr>pv_isLocked := True, pv_lockedAt := Some t, pv_lockedReason := Some reason,
            pv_status := LOCKED\<rparr>))
    (seq (log_status user AuditAction.LOCK ''PlanVersion'' planId PlanStatus.APPROVED LOCKED)
         (findPlan planId user))))))))"

definition unlockPlan :: "uuid \<Rightarrow> User \<Rightarrow> PlanVersion planning_prog" where
  "unlockPlan planId user =
     bind (findPlan planId user) (\<lambda>plan.
     seq (throwIf (\<not> pv_isLocked plan) BadRequestException)
    (seq (update_plan planId (\<lambda>p. p\<lparr>pv_isLocked := False, pv_lockedAt := None, pv_lockedReason := None,
            pv_status := DRAFT\<rparr>))
    (seq (log_status user UNLOCK ''PlanVersion'' planId LOCKED DRAFT)
         (findPlan planId user))))"

definition archivePlan :: "uuid \<Rightarrow> User \<Rightarrow> PlanVersion planning_prog" where
  "archivePlan planId user =
     bind (findPlan planId user) (\<lambda>_.
     seq (update_plan planId (\<lambda>p. p\<lparr>pv_status := ARCHIVED\<rparr>))
         (findPlan planId user))"

end
