(* ===== verification/Scenarios.thy ===== *)
theory Scenarios
  imports Workflow
begin

text \<open>
  The scenarios of \<open>modules/scenarios/scenarios.service.ts\<close>.  The listing and the comparison of
  forecast totals are left out.
\<close>

definition findScenario :: "uuid \<Rightarrow> User \<Rightarrow> Scenario planning_prog" where
  "findScenario scenarioId user =
     bind (gets (\<lambda>s. find (\<lambda>c. se_id c = scenarioId \<and> se_tenantId c = us_tenantId user) (scenarios s)))
       (orThrow NotFoundException)"

definition update_scenario :: "uuid \<Rightarrow> (Scenario \<Rightarrow> Scenario) \<Rightarrow> unit planning_prog" where
  "update_scenario scenarioId f =
     bind (gets (\<lambda>s. find_by se_id scenarioId (scenarios s))) (\<lambda>found.
     seq (throwIf (found = None) PrismaRecordNotFound)
         (modify (\<lambda>s. s\<lparr>scenarios := set_row se_id scenarioId f (scenarios s)\<rparr>)))"

text \<open>The unique key \<open>(tenantId, planVersionId, name)\<close>.\<close>

definition scenario_key_taken :: "uuid \<Rightarrow> uuid \<Rightarrow> string \<Rightarrow> uuid option \<Rightarrow> planning \<Rightarrow> bool" where
  "scenario_key_taken tenantId planId name self s \<longleftrightarrow>
     list_ex (\<lambda>c. se_tenantId c = tenantId \<and> se_planVersionId c = planId \<and> se_name c = name \<and> Some (se_id c) \<noteq> self)
       (scenarios s)"

section \<open>Creation and changes\<close>

record scenario_dto =
  cs_planVersionId :: uuid
  cs_name :: string
  cs_description :: "string option"
  cs_scenarioType :: "ScenarioType option"
  cs_color :: "string option"
  cs_sortOrder :: "int option"

definition createScenario :: "scenario_dto \<Rightarrow> User \<Rightarrow> Scenario planning_prog" where
  "createScenario dto user =
     bind (gets (\<lambda>s. find (\<lambda>p. pv_id p = cs_planVersionId dto \<and> pv_tenantId p = us_tenantId user) (planVersions s))) (\<lambda>plan.
     seq (throwIf (plan = None) NotFoundException)
    (bind (gets (scenario_key_taken (us_tenantId user) (cs_planVersionId dto) (cs_name dto) None)) (\<lambda>existing.
     seq (throwIf existing BadRequestException)
    (bind new_id (\<lambda>i.
     let scenarioType = orElse (cs_scenarioType dto) BASE;
         row = \<lparr>se_id = i, se_tenantId = us_tenantId user, se_planVersionId = cs_planVersionId dto, se_name = cs_name dto,
           se_description = cs_description dto, se_scenarioType = scenarioType, se_status = DRAFT, se_lockedAt = None,
           se_lockedReason = None, se_isBaseline = (scenarioType = BASE), se_color = cs_color dto,
           se_sortOrder = orElse (cs_sortOrder dto) 0\<rparr> in
     seq (modify (\<lambda>s. s\<lparr>scenarios := scenarios s @ [row]\<rparr>))
         (return row))))))"

record scenario_patch =
  sq_name :: "string option"
  sq_description :: "string option"
  sq_scenarioType :: "ScenarioType option"
  sq_color :: "string option"
  sq_sortOrder :: "int option"

definition patch_scenario :: "scenario_patch \<Rightarrow> Scenario \<Rightarrow> Scenario" where
  "patch_scenario dto c =
     c\<lparr>se_name := (if orElse (sq_name dto) [] = [] then se_name c else orElse (sq_name dto) []),
       se_description := (case sq_description dto of None \<Rightarrow> se_description c | Some d \<Rightarrow> Some d),
       se_scenarioType := orElse (sq_scenarioType dto) (se_scenarioType c),
       se_color := (case sq_color dto of None \<Rightarrow> se_color c | Some k \<Rightarrow> Some k),
       se_sortOrder := orElse (sq_sortOrder dto) (se_sortOrder c)\<rparr>"

definition updateScenario :: "uuid \<Rightarrow> scenario_patch \<Rightarrow> User \<Rightarrow> Scenario planning_prog" where
  "updateScenario scenarioId dto user =
     bind (findScenario scenarioId user) (\<lambda>scenario.
     seq (throwIf (se_status scenario = LOCKED) BadRequestException)
    (bind (gets (scenario_key_taken (se_tenantId scenario) (se_planVersionId scenario)
             (se_name (patch_scenario dto scenario)) (Some scenarioId))) (\<lambda>clash.
     seq (throwIf clash PrismaUniqueViolation)
    (seq (update_scenario scenarioId (patch_scenario dto))
         (return (patch_scenario dto scenario))))))"

definition delete_scenario :: "uuid \<Rightarrow> planning \<Rightarrow> planning" where
  "delete_scenario scenarioId s = s\<lparr>scenarios := filter (\<lambda>c. se_id c \<noteq> scenarioId) (scenarios s),
     assumptions := filter (\<lambda>a. as_scenarioId a \<noteq> Some scenarioId) (assumptions s)\<rparr>"

definition removeScenario :: "uuid \<Rightarrow> User \<Rightarrow> unit planning_prog" where
  "removeScenario scenarioId user =
     bind (findScenario scenarioId user) (\<lambda>scenario.
     seq (throwIf (se_isBaseline scenario) BadRequestException)
    (seq (throwIf (se_status scenario = LOCKED) BadRequestException)
         (modify (delete_scenario scenarioId))))"

definition clone_assumption :: "User \<Rightarrow> uuid \<Rightarrow> Assumption \<Rightarrow> unit planning_prog" where
  "clone_assumption user scenarioId a = bind new_id (\<lambda>i. modify (\<lambda>s. s\<lparr>assumptions := assumptions s @
     [a\<lparr>as_id := i, as_tenantId := us_tenantId user, as_scenarioId := Some scenarioId\<rparr>]\<rparr>))"

definition cloneScenario :: "uuid \<Rightarrow> string \<Rightarrow> User \<Rightarrow> Scenario planning_prog" where
  "cloneScenario scenarioId newName user =
     bind (findScenario scenarioId user) (\<lambda>scenario.
     bind (gets (scenario_key_taken (us_tenantId user) (se_planVersionId scenario) newName None)) (\<lambda>clash.
     seq (throwIf clash PrismaUniqueViolation)
    (bind new_id (\<lambda>i.
     let row = \<lparr>se_id = i, se_tenantId = us_tenantId user, se_planVersionId = se_planVersionId scenario, se_name = newName,
           se_description = Some (''Cloned from '' @ se_name scenario), se_scenarioType = ScenarioType.CUSTOM,
           se_status = DRAFT, se_lockedAt = None, se_lockedReason = None, se_isBaseline = False,
           se_color = se_color scenario, se_sortOrder = se_sortOrder scenario + 1\<rparr> in
     seq (modify (\<lambda>s. s\<lparr>scenarios := scenarios s @ [row]\<rparr>))
    (bind (gets (\<lambda>s. filter (\<lambda>a. as_scenarioId a = Some scenarioId) (assumptions s))) (\<lambda>copied.
     seq (forEach (clone_assumption user i) copied)
         (return row)))))))"

text \<open>\<open>updateMany\<close> clears the flag of the plan's baselines, then the scenario gets it.\<close>

definition setBaseline :: "uuid \<Rightarrow> User \<Rightarrow> unit planning_prog" where
  "setBaseline scenarioId user =
     bind (findScenario scenarioId user) (\<lambda>scenario.
     seq (modify (\<lambda>s. s\<lparr>scenarios := update_where
            (\<lambda>c. se_tenantId c = us_tenantId user \<and> se_planVersionId c = se_planVersionId scenario \<and> se_isBaseline c)
            (\<lambda>c. c\<lparr>se_isBaseline := False\<rparr>) (scenarios s)\<rparr>))
         (update_scenario scenarioId (\<lambda>c. c\<lparr>se_isBaseline := True, se_scenarioType := BASE\<rparr>)))"

section \<open>Review\<close>

definition submitScenario :: "uuid \<Rightarrow> User \<Rightarrow> Scenario planning_prog" where
  "submitScenario scenarioId user =
     bind (findScenario scenarioId user) (\<lambda>scenario.
     seq (throwIf (se_status scenario \<noteq> DRAFT) BadRequestException)
    (bind (hasActiveTemplate (us_tenantId user) SCENARIO) (\<lambda>hasWorkflow.
     seq (if hasWorkflow
          then seq (bind (startWorkflow (us_tenantId user) SCENARIO scenarioId (us_id user)
                      (Some ''Scenario submitted for approval'')) (\<lambda>_. return ()))
              (seq (update_scenario scenarioId (\<lambda>c. c\<lparr>se_status := IN_REVIEW\<rparr>))
                   (log_status user UPDATE ''Scenario'' scenarioId DRAFT IN_REVIEW))
          else seq (update_scenario scenarioId (\<lambda>c. c\<lparr>se_status := PlanStatus.APPROVED\<rparr>))
                   (log_status user AuditAction.APPROVE ''Scenario'' scenarioId DRAFT PlanStatus.APPROVED))
         (findScenario scenarioId user))))"

definition approveScenario :: "uuid \<Rightarrow> User \<Rightarrow> Scenario planning_prog" where
  "approveScenario scenarioId user =
     bind (findScenario scenarioId user) (\<lambda>scenario.
     seq (throwIf (se_status scenario \<noteq> IN_REVIEW) BadRequestException)
    (bind (gets (latest_instance (us_tenantId user) SCENARIO scenarioId)) (\<lambda>found.
     bind (orThrow BadRequestException found) (\<lambda>row.
     bind (approve (wn_id row) (us_id user) (Some ''Scenario approved'') None) (\<lambda>workflow.
     if wn_status workflow \<noteq> WorkflowStatus.APPROVED then findScenario scenarioId user
     else seq (update_scenario scenarioId (\<lambda>c. c\<lparr>se_status := PlanStatus.APPROVED\<rparr>))
         (seq (log_status user AuditAction.APPROVE ''Scenario'' scenarioId IN_REVIEW PlanStatus.APPROVED)
              (findScenario scenarioId user)))))))"

definition rejectScenario :: "uuid \<Rightarrow> string \<Rightarrow> User \<Rightarrow> Scenario planning_prog" where
  "rejectScenario scenarioId reason user =
     bind (findScenario scenarioId user) (\<lambda>scenario.
     seq (throwIf (se_status scenario \<noteq> IN_REVIEW) BadRequestException)
    (bind (gets (latest_instance (us_tenantId user) SCENARIO scenarioId)) (\<lambda>found.
     bind (orThrow BadRequestException found) (\<lambda>row.
     bind (reject (wn_id row) (us_id user) (Some reason) None) (\<lambda>_.
     seq (update_scenario scenarioId (\<lambda>c. c\<lparr>se_status := DRAFT\<rparr>))
    (seq (log_status user UPDATE ''Scenario'' scenarioId IN_REVIEW DRAFT)
         (findScenario scenarioId user)))))))"

definition lockScenario :: "uuid \<Rightarrow> string \<Rightarrow> User \<Rightarrow> Scenario planning_prog" where
  "lockScenario scenarioId reason user =
     bind (findScenario scenarioId user) (\<lambda>scenario.
     seq (throwIf (se_status scenario \<noteq> PlanStatus.APPROVED) BadRequestException)
    (bind (hasActiveTemplate (us_tenantId user) SCENARIO) (\<lambda>hasWorkflow.
     seq (if hasWorkflow then bind (ensureApproved (us_tenantId user) SCENARIO scenarioId) (\<lambda>_. return ()) else return ())
    (bind (gets clock) (\<lambda>t.
     seq (update_scenario scenarioId (\<lambda>c. c\<lparr>se_status := LOCKED, se_lockedAt := Some t, se_lockedReason := Some reason\<rparr>))
    (seq (log_status user AuditAction.LOCK ''Scenario'' scenarioId PlanStatus.APPROVED LOCKED)
         (findScenario scenarioId user)))))))"

end
