(* ===== verification/ReviewClients.thy ===== *)
theory ReviewClients
  imports Plans Scenarios
begin

text \<open>
  Plans and scenarios are clients of the approval workflow.  The interface \<open>approval_service\<close>
  states what they rely on: an invariant that the workflow's operations keep and that does not
  read the clients' own tables.  Every operation of the clients then keeps it.
\<close>

definition same_workflow :: "planning \<Rightarrow> planning \<Rightarrow> bool" where
  "same_workflow s t \<longleftrightarrow> workflowTemplates t = workflowTemplates s \<and> workflowSteps t = workflowSteps s \<and>
     workflowInstances t = workflowInstances s \<and> workflowActions t = workflowActions s \<and> next_id s \<le> next_id t"

locale approval_service =
  fixes I :: "planning \<Rightarrow> bool"
    and start :: "uuid \<Rightarrow> WorkflowEntityType \<Rightarrow> uuid \<Rightarrow> uuid \<Rightarrow> string option \<Rightarrow> WorkflowInstance planning_prog"
    and accept :: "uuid \<Rightarrow> uuid \<Rightarrow> string option \<Rightarrow> uuid option \<Rightarrow> WorkflowInstance planning_prog"
    and refuse :: "uuid \<Rightarrow> uuid \<Rightarrow> string option \<Rightarrow> uuid option \<Rightarrow> WorkflowInstance planning_prog"
  assumes frame: "I s \<Longrightarrow> same_workflow s t \<Longrightarrow> I t"
    and start_keeps: "keeps I (start tenantId entityType entityId submittedBy notes)"
    and accept_keeps: "keeps I (accept instanceId userId comments tenant)"
    and refuse_keeps: "keeps I (refuse instanceId userId comments tenant)"
begin

lemma own_table: "(\<And>s. same_workflow s (f s)) \<Longrightarrow> keeps I (modify f)"
  by (rule keeps_modify) (rule frame)

lemma fresh: "keeps I new_id"
  by (rule keepsI) (auto simp: run_simps same_workflow_def intro: frame)

end

locale review_client = approval_service I startWorkflow approve reject for I
begin

lemma client_writes:
  "keeps I (update_plan i f)" "keeps I (update_scenario i g)" "keeps I (log_status user act ty i old new)"
  "keeps I (hasActiveTemplate tn et)" "keeps I (ensureApproved tn et e)" "keeps I (findPlan i user)"
  "keeps I (findScenario i user)"
  unfolding update_plan_def update_scenario_def log_status_def hasActiveTemplate_def ensureApproved_def findPlan_def findScenario_def
  by (intro keeps_intros own_table; simp add: same_workflow_def)+

lemmas client_intros = keeps_intros client_writes fresh start_keeps accept_keeps refuse_keeps

lemma plan_operations:
  "keeps I (createPlan cdto user)" "keeps I (updatePlan i udto user)" "keeps I (removePlan i user)"
  "keeps I (clonePlan i name user)" "keeps I (submitPlan i user)" "keeps I (approvePlan i user)"
  "keeps I (rejectPlan i reason user)" "keeps I (lockPlan i reason user)" "keeps I (unlockPlan i user)"
  "keeps I (archivePlan i user)"
  unfolding createPlan_def updatePlan_def removePlan_def clonePlan_def submitPlan_def approvePlan_def
    rejectPlan_def lockPlan_def unlockPlan_def archivePlan_def standard_scenario_def clone_scenario_def
  by (intro client_intros own_table; simp add: same_workflow_def delete_plan_def)+

lemma scenario_operations:
  "keeps I (createScenario cdto user)" "keeps I (updateScenario i udto user)" "keeps I (removeScenario i user)"
  "keeps I (cloneScenario i name user)" "keeps I (setBaseline i user)" "keeps I (submitScenario i user)"
  "keeps I (approveScenario i user)" "keeps I (rejectScenario i reason user)" "keeps I (lockScenario i reason user)"
  unfolding createScenario_def updateScenario_def removeScenario_def cloneScenario_def setBaseline_def submitScenario_def
    approveScenario_def rejectScenario_def lockScenario_def clone_assumption_def
  by (intro client_intros own_table; simp add: same_workflow_def delete_scenario_def)+

end

end
