(* ===== verification/TimeBuckets.thy ===== *)
theory TimeBuckets
  imports PlanningSchema
begin

text \<open>
  The time buckets of \<open>core/time/time-bucket.service.ts\<close>: the key of a period, the bucket of a
  date, created when it is missing, and its fiscal coordinates.
\<close>

text \<open>
  \<open>Date.UTC(year, month, day)\<close> with months from 0, any of which may overflow; the years from 0
  to 99 stand for 1900 to 1999.
\<close>

definition date_utc :: "int \<Rightarrow> int \<Rightarrow> int \<Rightarrow> timestamp" where
  "date_utc year month day =
     (let y = (if 0 \<le> year \<and> year \<le> 99 then 1900 + year else year)
      in (days_from_civil (y + month div 12) (month mod 12 + 1) 1 + day - 1) * MS_PER_DAY)"

text \<open>\<open>toISOString().split('T')[0]\<close>\<close>

definition iso_day :: "timestamp \<Rightarrow> string" where
  "iso_day t = (let (y, m, d) = utc_date t in
     (if 0 \<le> y \<and> y \<le> 9999 then padStart 4 (digits_of (nat y))
      else (if y < 0 then CHR ''-'' else CHR ''+'') # padStart 6 (digits_of (nat \<bar>y\<bar>))) @
     ''-'' @ padStart 2 (digits_of (nat m)) @ ''-'' @ padStart 2 (digits_of (nat d)))"

definition getWeekOfYear :: "timestamp \<Rightarrow> int" where
  "getWeekOfYear date = (let (y, m, d) = utc_date date in (date - date_utc y 0 1) div (7 * MS_PER_DAY) + 1)"

definition buildPeriodKey :: "timestamp \<Rightarrow> PeriodType \<Rightarrow> string" where
  "buildPeriodKey periodDate periodType = (let (year, month, d) = utc_date periodDate in
     (case periodType of
        MONTHLY \<Rightarrow> js_String year @ ''-'' @ padStart 2 (js_String month)
      | QUARTERLY \<Rightarrow> js_String year @ ''-Q'' @ js_String ((month - 1) div 3 + 1)
      | YEARLY \<Rightarrow> js_String year
      | WEEKLY \<Rightarrow> js_String year @ ''-W'' @ padStart 2 (js_String (getWeekOfYear periodDate))
      | DAILY \<Rightarrow> iso_day periodDate))"

text \<open>\<open>getUTCDay()\<close>: 0 is Sunday.\<close>

definition utc_weekday :: "timestamp \<Rightarrow> int" where
  "utc_weekday t = (utc_day t + 4) mod 7"

definition fiscal_start :: "uuid \<Rightarrow> PeriodType \<Rightarrow> planning \<Rightarrow> int" where
  "fiscal_start tenantId periodType s =
     (if periodType \<in> {YEARLY, QUARTERLY, MONTHLY}
      then (case map_of (fiscalYearStarts s) tenantId of None \<Rightarrow> 4 | Some m \<Rightarrow> m) - 1 else 3)"

text \<open>
  Start, end, fiscal year, quarter, month and week of the bucket of a date.  The fiscal year
  starts in a month from 1 to 12 (the settings DTO admits no other), so the remainder is taken of a
  positive number.
\<close>

definition bucket_fields :: "int \<Rightarrow> timestamp \<Rightarrow> PeriodType \<Rightarrow>
    timestamp \<times> timestamp \<times> int \<times> int option \<times> int option \<times> int option" where
  "bucket_fields fyStartMonth0 periodDate periodType =
     (let (year, month1, day) = utc_date periodDate; month = month1 - 1;
          fyYear = (if fyStartMonth0 \<le> month then year else year - 1);
          qIndex = ((month - fyStartMonth0) + 12) mod 12 div 3
      in case periodType of
        YEARLY \<Rightarrow> (date_utc fyYear fyStartMonth0 1, date_utc fyYear (fyStartMonth0 + 12) 0, fyYear, None, None, None)
      | QUARTERLY \<Rightarrow> (date_utc fyYear (fyStartMonth0 + qIndex * 3) 1, date_utc fyYear (fyStartMonth0 + qIndex * 3 + 3) 0,
          fyYear, Some (qIndex + 1), None, None)
      | MONTHLY \<Rightarrow> (date_utc year month 1, date_utc year (month + 1) 0, fyYear, Some (qIndex + 1), Some (month + 1), None)
      | WEEKLY \<Rightarrow>
          (let dayOfWeek = utc_weekday periodDate; mondayOffset = (if dayOfWeek = 0 then - 6 else 1 - dayOfWeek);
               bucketStart = date_utc year month (day + mondayOffset)
           in (bucketStart, bucketStart + 6 * MS_PER_DAY, year, None, None, Some (getWeekOfYear periodDate)))
      | DAILY \<Rightarrow> (date_utc year month day, date_utc year month day, year, None, None, None))"

definition is_bucket :: "uuid \<Rightarrow> PeriodType \<Rightarrow> string \<Rightarrow> TimeBucket \<Rightarrow> bool" where
  "is_bucket tenantId periodType periodKey b \<longleftrightarrow>
     tb_tenantId b = tenantId \<and> tb_periodType b = periodType \<and> tb_periodKey b = periodKey"

definition bucket_row :: "uuid \<Rightarrow> timestamp \<Rightarrow> PeriodType \<Rightarrow> string \<Rightarrow> int \<Rightarrow> uuid \<Rightarrow> TimeBucket" where
  "bucket_row tenantId periodDate periodType periodKey fyStartMonth0 i =
     (let (bucketStart, bucketEnd, fiscalYear, fiscalQuarter, fiscalMonth, fiscalWeek) =
            bucket_fields fyStartMonth0 periodDate periodType
      in \<lparr>tb_id = i, tb_tenantId = tenantId, tb_periodType = periodType, tb_periodKey = periodKey,
          tb_bucketStart = bucketStart, tb_bucketEnd = bucketEnd, tb_fiscalYear = Some fiscalYear,
          tb_fiscalQuarter = fiscalQuarter, tb_fiscalMonth = fiscalMonth, tb_fiscalWeek = fiscalWeek,
          tb_isFrozen = False\<rparr>)"

definition ensureBucket :: "uuid \<Rightarrow> timestamp \<Rightarrow> PeriodType \<Rightarrow> string \<Rightarrow> TimeBucket planning_prog" where
  "ensureBucket tenantId periodDate periodType periodKey =
     bind (gets (fiscal_start tenantId periodType)) (\<lambda>fyStartMonth0.
     bind (gets (find (is_bucket tenantId periodType periodKey) \<circ> timeBuckets)) (\<lambda>found.
     case found of
       Some b \<Rightarrow> return b
     | None \<Rightarrow> bind new_id (\<lambda>i.
         let row = bucket_row tenantId periodDate periodType periodKey fyStartMonth0 i in
         seq (modify (\<lambda>s. s\<lparr>timeBuckets := timeBuckets s @ [row]\<rparr>)) (return row))))"

definition getBucketOrThrow :: "uuid \<Rightarrow> timestamp \<Rightarrow> PeriodType \<Rightarrow> bool \<Rightarrow> TimeBucket planning_prog" where
  "getBucketOrThrow tenantId periodDate periodType allowFrozen =
     bind (gets (find (is_bucket tenantId periodType (buildPeriodKey periodDate periodType)) \<circ> timeBuckets)) (\<lambda>found.
     bind (case found of Some b \<Rightarrow> return b
           | None \<Rightarrow> ensureBucket tenantId periodDate periodType (buildPeriodKey periodDate periodType)) (\<lambda>bucket.
     seq (throwIf (tb_isFrozen bucket \<and> \<not> allowFrozen) BadRequestException)
         (return bucket)))"

end
