(* ===== verification/Calendar.thy ===== *)
theory Calendar
  imports JsLib
begin

text \<open>
  The calendar arithmetic of \<open>JsLib\<close> is right: the date of an instant names the day it falls on,
  and that day lies before the first of the next month.
\<close>

lemma div_bounds:
  fixes x n :: int
  assumes "0 < n"
  shows "n * (x div n) \<le> x" "x < n * (x div n) + n"
  using assms mult_div_mod_eq [of n x] pos_mod_bound [of n x] pos_mod_sign [of n x] by linarith+

lemma year_of_era_bounds:
  fixes doe :: int
  assumes "0 \<le> doe" "doe < 146097"
  defines "y \<equiv> year_of_era doe"
  shows "365 * y + y div 4 - y div 100 \<le> doe \<and> 0 \<le> y \<and> y \<le> 399 \<and> (y < 399 \<longrightarrow> doe < 365 * (y + 1) + (y + 1) div 4 - (y + 1) div 100)"
proof -
  define a b c g where d: "a = doe div 1460" "b = doe div 36524" "c = doe div 146096" "g = doe - a + b - c"
  have yg: "y = g div 365" by (simp add: y_def year_of_era_def d)
  note ba = div_bounds [of 1460 doe, OF zero_less_numeral, folded d(1)]
  note bb = div_bounds [of 36524 doe, OF zero_less_numeral, folded d(2)]
  note bc = div_bounds [of 146096 doe, OF zero_less_numeral, folded d(3)]
  note by' = div_bounds [of 365 g, OF zero_less_numeral, folded yg]
  define p q where pq: "p = y div 4" "q = y div 100"
  note bp = div_bounds [of 4 y, OF zero_less_numeral, folded pq(1)] and bq = div_bounds [of 100 y, OF zero_less_numeral, folded pq(2)]
  have b: "b = 0 \<or> b = 1 \<or> b = 2 \<or> b = 3 \<or> b = 4" using assms bb by linarith
  have c: "c = 0 \<and> doe < 146096 \<or> c = 1 \<and> doe = 146096" using assms bc by linarith
  have y0: "0 \<le> y" "y \<le> 399" using c b ba bb by' d(4) assms by (auto)
  have low: "365 * y + p - q \<le> doe"
  proof (rule ccontr)
    assume n: "\<not> 365 * y + p - q \<le> doe"
    have "p \<le> 25 * q + 24" using bp bq by linarith
    then have bq': "b \<le> q" using n bb bq by linarith
    have "365 * y \<le> doe - a + b - c" using by' d(4) by linarith
    then have "a + 1 \<le> p" using n bq' c by linarith
    then have "doe < 365 * y" using ba bp by linarith
    then have aq: "a < q" using \<open>365 * y \<le> doe - a + b - c\<close> bq' c by linarith
    moreover have "0 \<le> a" using ba assms(1) by linarith
    ultimately show False using \<open>365 * y \<le> doe - a + b - c\<close> bq' bq ba c by linarith
  qed
  have "doe < 365 * (y + 1) + (y + 1) div 4 - (y + 1) div 100" if y: "y < 399"
  proof (rule ccontr)
    define Y p' q' where pq': "Y = y + 1" "p' = Y div 4" "q' = Y div 100"
    note bp' = div_bounds [of 4 Y, OF zero_less_numeral, folded pq'(2)] and bq' = div_bounds [of 100 Y, OF zero_less_numeral, folded pq'(3)]
    assume "\<not> doe < 365 * (y + 1) + (y + 1) div 4 - (y + 1) div 100"
    then have n: "365 * Y + p' - q' \<le> doe" by (simp add: pq')
    have "25 * q' \<le> p'" using bp' bq' by linarith
    then have "q' \<le> b" using n bb bq' by linarith
    have c0: "c = 0"
    proof (rule ccontr)
      assume "c \<noteq> 0"
      then have "doe = 146096" "c = 1" using c by auto
      then show False using y by' d pq'(1) by simp
    qed
    have "doe - a + b < 365 * Y" using by' d(4) c0 pq'(1) by linarith
    then have "doe < 365 * Y + a - q'" using \<open>q' \<le> b\<close> by linarith
    moreover have "a \<le> p'" using calculation ba bp' bq' y y0 pq'(1) by linarith
    ultimately show False using n by linarith
  qed
  then show ?thesis using low y0 by (simp add: pq)
qed
lemma month_of_day:
  fixes doy :: int
  assumes "0 \<le> doy" "doy \<le> 365" "mp = (5 * doy + 2) div 153"
  shows "0 \<le> mp" "mp \<le> 11" "(153 * mp + 2) div 5 \<le> doy" "doy < (153 * (mp + 1) + 2) div 5"
proof -
  note b = div_bounds [of 153 "5 * doy + 2", OF zero_less_numeral, folded assms(3)]
  show "0 \<le> mp" "mp \<le> 11" using b assms(1,2) by linarith+
  define r t r' where r: "r = (153 * mp + 2) div 5" "t = 153 * (mp + 1) + 2" "r' = t div 5"
  note br = div_bounds [of 5 "153 * mp + 2", OF zero_less_numeral, folded r(1)]
  note br' = div_bounds [of 5 t, OF zero_less_numeral, folded r(3)]
  show "(153 * mp + 2) div 5 \<le> doy" using b br unfolding r(1) [symmetric] by linarith
  have "t = 153 * mp + 155" by (simp add: r(2))
  then have "doy < r'" using b br' by linarith
  then show "doy < (153 * (mp + 1) + 2) div 5" by (simp add: r)
qed

text \<open>Days from March 1 of the era to the first day of month \<open>mp\<close> (March is 0) of year \<open>y\<close>.\<close>

definition era_day :: "int \<Rightarrow> int \<Rightarrow> int" where
  "era_day y mp = 365 * y + y div 4 - y div 100 + (153 * mp + 2) div 5"

lemma civil_era:
  assumes "0 \<le> y" "y \<le> 399" "0 \<le> mp" "mp \<le> 11"
  shows "days_from_civil (y + 400 * e + (if mp < 10 then 0 else 1)) (if mp < 10 then mp + 3 else mp - 9) d =
    e * 146097 + era_day y mp + d - 1 - 719468"
proof -
  have "(y + 400 * e) mod 400 = y" "(y + 400 * e) div 400 = e" using assms(1,2) by simp_all
  then show ?thesis using assms(3,4) by (auto simp: days_from_civil_def Let_def era_day_def)
qed

lemma next_month:
  assumes "0 \<le> y" "y \<le> 399" "0 \<le> mp" "mp \<le> 11"
  shows "days_from_civil (y + 400 * e + (if mp < 10 then 0 else 1) + (if mp < 10 then mp + 3 else mp - 9) div 12)
      ((if mp < 10 then mp + 3 else mp - 9) mod 12 + 1) 1 =
    (if mp < 11 then e * 146097 + era_day y (mp + 1)
     else if y < 399 then e * 146097 + era_day (y + 1) 0 else (e + 1) * 146097) - 719468"
proof -
  consider "mp < 9" | "mp = 9" | "mp = 10" | "mp = 11" "y < 399" | "mp = 11" "y = 399" using assms by linarith
  then show ?thesis
  proof cases
    case 1
    then have "(mp + 3) div 12 = 0" "(mp + 3) mod 12 = mp + 3" using assms(3) by simp_all
    then show ?thesis using 1 assms civil_era [of y "mp + 1" e 1] by simp
  next
    case 2
    then show ?thesis using assms civil_era [of y 10 e 1] by simp
  next
    case 3
    then show ?thesis using assms civil_era [of y 11 e 1] by simp
  next
    case 4
    then show ?thesis using assms civil_era [of "y + 1" 0 e 1] by (simp add: add_ac)
  next
    case 5
    then show ?thesis using civil_era [of 0 0 "e + 1" 1] by (simp add: era_day_def algebra_simps)
  qed
qed

theorem utc_date_right:
  assumes "utc_date ms = (y, m, d)"
  shows "days_from_civil y m d = utc_day ms" "1 \<le> m" "m \<le> 12" "1 \<le> d"
    "utc_day ms < days_from_civil (y + m div 12) (m mod 12 + 1) 1"
proof -
  define z where "z = utc_day ms + 719468"
  define e doe where ed: "e = z div 146097" "doe = z mod 146097"
  define yoe where "yoe = year_of_era doe"
  define doy mp where dm: "doy = doe - (365 * yoe + yoe div 4 - yoe div 100)" "mp = (5 * doy + 2) div 153"
  have doe: "0 \<le> doe" "doe < 146097" by (simp_all add: ed)
  note yb = year_of_era_bounds [OF doe, folded yoe_def]
  have z: "z = e * 146097 + doe" unfolding ed by (rule div_mult_mod_eq [symmetric])
  have "0 \<le> doy" using yb by (simp add: dm(1))
  have "doy \<le> 365"
  proof (cases "yoe < 399")
    case True
    have "(yoe + 1) div 4 \<le> yoe div 4 + 1" "yoe div 100 \<le> (yoe + 1) div 100" by linarith+
    then show ?thesis using yb True by (simp add: dm(1))
  next
    case False
    then show ?thesis using yb doe by (simp add: dm(1))
  qed
  note doy = \<open>0 \<le> doy\<close> \<open>doy \<le> 365\<close>
  note mb = month_of_day [OF doy dm(2)]
  have ymd: "d = doy - (153 * mp + 2) div 5 + 1" "m = (if mp < 10 then mp + 3 else mp - 9)"
    "y = yoe + 400 * e + (if mp < 10 then 0 else 1)"
    using assms [unfolded utc_date_def Let_def, folded z_def, folded ed, folded yoe_def, folded dm(1), folded dm(2)] mb(1,2)
    by (simp_all split: if_splits)
  show "1 \<le> m" "m \<le> 12" "1 \<le> d" using mb by (auto simp: ymd)
  show "days_from_civil y m d = utc_day ms"
  proof -
    have "days_from_civil y m d = e * 146097 + era_day yoe mp + d - 1 - 719468"
      unfolding ymd(2,3) using yb mb(1,2) by (intro civil_era) simp_all
    then show ?thesis using z by (simp add: ymd(1) era_day_def dm(1) z_def)
  qed
  have day: "utc_day ms = e * 146097 + (365 * yoe + yoe div 4 - yoe div 100) + doy - 719468"
    using z by (simp add: z_def dm(1))
  have after: "days_from_civil (y + m div 12) (m mod 12 + 1) 1 =
      (if mp < 11 then e * 146097 + era_day yoe (mp + 1)
       else if yoe < 399 then e * 146097 + era_day (yoe + 1) 0 else (e + 1) * 146097) - 719468"
    unfolding ymd(2,3) using yb mb by (intro next_month) simp_all
  consider "mp < 11" | "mp = 11" "yoe < 399" | "mp = 11" "yoe = 399" using mb(2) yb by linarith
  then show "utc_day ms < days_from_civil (y + m div 12) (m mod 12 + 1) 1"
  proof cases
    case 1
    then show ?thesis unfolding after day era_day_def using mb(4) by simp
  next
    case 2
    then show ?thesis unfolding after era_day_def using yb z by (simp add: z_def)
  next
    case 3
    then show ?thesis unfolding after using z doe by (simp add: z_def)
  qed
qed

text \<open>The months numbered through, \<open>12 * year + month\<close> with months from 0, and their first days.\<close>

definition first_of_month :: "int \<Rightarrow> int" where
  "first_of_month n = days_from_civil (n div 12) (n mod 12 + 1) 1"

lemma first_of_month_next: "first_of_month n < first_of_month (n + 1)"
proof -
  define m where "m = n mod 12"
  define y mp where ym: "y = (if m < 2 then n div 12 - 1 else n div 12)" "mp = (if m < 2 then m + 10 else m - 2)"
  define yoe e where ye: "yoe = y mod 400" "e = y div 400"
  have m: "0 \<le> m" "m \<le> 11" by (simp_all add: m_def)
  have mp: "0 \<le> mp" "mp \<le> 11" and yoe: "0 \<le> yoe" "yoe \<le> 399" using m by (auto simp: ym(2) ye(1))
  have y: "y = yoe + 400 * e" by (simp add: ye)
  have n: "n div 12 = y + (if mp < 10 then 0 else 1)" "m + 1 = (if mp < 10 then mp + 3 else mp - 9)"
    using m by (auto simp: ym)
  have here: "first_of_month n = e * 146097 + era_day yoe mp - 719468"
    unfolding first_of_month_def m_def [symmetric] n y using civil_era [OF yoe mp, of e 1] by simp
  have "n + 1 = 12 * (n div 12) + (m + 1)" by (simp add: m_def)
  then have "(n + 1) div 12 = n div 12 + (m + 1) div 12" by simp
  moreover have "(n + 1) mod 12 = (m + 1) mod 12" by (simp add: m_def mod_simps)
  ultimately have after: "first_of_month (n + 1) = (if mp < 11 then e * 146097 + era_day yoe (mp + 1)
     else if yoe < 399 then e * 146097 + era_day (yoe + 1) 0 else (e + 1) * 146097) - 719468"
    unfolding first_of_month_def using next_month [OF yoe mp, of e] by (simp only: n y)
  have "(153 * mp + 2) div 5 < (153 * (mp + 1) + 2) div 5" by presburger
  then have "era_day yoe mp < era_day yoe (mp + 1)" by (simp add: era_day_def)
  moreover have "yoe div 4 \<le> (yoe + 1) div 4" "(yoe + 1) div 100 \<le> yoe div 100 + 1" by linarith+
  then have "era_day yoe 11 < era_day (yoe + 1) 0" by (simp add: era_day_def)
  moreover have "era_day 399 11 < 146097" by (simp add: era_day_def)
  ultimately show ?thesis
    using mp yoe unfolding here after by (cases "mp = 11"; cases "yoe = 399") auto
qed

lemma first_of_month_add: "first_of_month n \<le> first_of_month (n + int k)"
proof (induction k)
  case (Suc k)
  then show ?case using first_of_month_next [of "n + int k"] by (simp add: add_ac)
qed simp

lemma first_of_month_mono: "n \<le> k \<Longrightarrow> first_of_month n \<le> first_of_month k"
  using first_of_month_add [of n "nat (k - n)"] by simp

text \<open>A day lies in its month.\<close>

lemma day_in_month:
  assumes "utc_date t = (y, m, d)"
  shows "first_of_month (12 * y + m - 1) \<le> utc_day t" "utc_day t < first_of_month (12 * y + m)"
    "utc_day t = first_of_month (12 * y + m - 1) + d - 1"
proof -
  note r = utc_date_right [OF assms]
  have "(12 * y + (m - 1)) div 12 = y" "(12 * y + (m - 1)) mod 12 = m - 1" using r(2,3) by simp_all
  then have s: "first_of_month (12 * y + m - 1) = days_from_civil y m 1" by (simp add: first_of_month_def add_diff_eq)
  have "days_from_civil y m d = days_from_civil y m 1 + d - 1" by (simp add: days_from_civil_def Let_def)
  then show "utc_day t = first_of_month (12 * y + m - 1) + d - 1" using r(1) s by simp
  then show "first_of_month (12 * y + m - 1) \<le> utc_day t" using r(4) by simp
  show "utc_day t < first_of_month (12 * y + m)" using r(5) by (simp add: first_of_month_def)
qed

end
