(* ===== verification/BucketBooks.thy ===== *)
theory BucketBooks
  imports TimeBuckets Calendar
begin

text \<open>
  What the bucket of a date covers: a new bucket contains the date it was made for, whatever its
  period, and a bucket of a month is the whole month of its key.
\<close>

lemma utc_day_days [simp]: "utc_day (k * MS_PER_DAY) = k"
  by (simp add: utc_day_def MS_PER_DAY_def)

lemma utc_day_add [simp]: "utc_day (t + k * MS_PER_DAY) = utc_day t + k"
  by (simp add: utc_day_def MS_PER_DAY_def)

lemma date_utc_month:
  assumes "100 \<le> y"
  shows "date_utc y m d = (first_of_month (12 * y + m) + d - 1) * MS_PER_DAY"
proof -
  have "(12 * y + m) div 12 = y + m div 12" "(12 * y + m) mod 12 = m mod 12" by simp_all
  then show ?thesis using assms by (simp add: date_utc_def Let_def first_of_month_def)
qed

lemma utc_day_date: "100 \<le> y \<Longrightarrow> utc_day (date_utc y m d) = first_of_month (12 * y + m) + d - 1"
  by (simp add: date_utc_month)

definition covers :: "TimeBucket \<Rightarrow> timestamp \<Rightarrow> bool" where
  "covers b t \<longleftrightarrow> utc_day (tb_bucketStart b) \<le> utc_day t \<and> utc_day t \<le> utc_day (tb_bucketEnd b)"

text \<open>The months of a date's fiscal year and quarter, numbered through.\<close>

lemma fiscal_months:
  fixes f m y :: int
  assumes "0 \<le> f" "f \<le> 11" "1 \<le> m" "m \<le> 12"
  defines "fy \<equiv> (if f \<le> m - 1 then y else y - 1)"
  defines "q \<equiv> (m - 1 - f + 12) mod 12 div 3"
  shows "12 * fy + f \<le> 12 * y + m - 1" "12 * y + m \<le> 12 * fy + f + 12"
    "12 * fy + (f + q * 3) \<le> 12 * y + m - 1" "12 * y + m \<le> 12 * fy + (f + q * 3 + 3)"
proof -
  show a: "12 * fy + f \<le> 12 * y + m - 1" "12 * y + m \<le> 12 * fy + f + 12"
    using assms(1-4) by (auto simp: fy_def)
  define k where "k = 12 * y + m - 1 - (12 * fy + f)"
  have "m - 1 - f + 12 = (if f \<le> m - 1 then k + 12 else k)" by (simp add: k_def fy_def)
  then have "(m - 1 - f + 12) mod 12 = k mod 12" by simp
  also have "\<dots> = k" using a by (simp add: k_def)
  finally have "q = k div 3" by (simp add: q_def)
  then have "q * 3 \<le> k" "k < q * 3 + 3" by simp_all
  then show "12 * fy + (f + q * 3) \<le> 12 * y + m - 1" "12 * y + m \<le> 12 * fy + (f + q * 3 + 3)"
    by (simp_all add: k_def)
qed

lemma new_bucket_covers:
  assumes "utc_date t = (y, m, d)" "101 \<le> y" "0 \<le> f" "f \<le> 11"
  shows "covers (bucket_row tenantId t periodType key f i) t"
proof -
  note r = utc_date_right [OF assms(1)] and dm = day_in_month [OF assms(1)]
  note fm = fiscal_months [OF assms(3,4) r(2,3), of y]
  have y: "100 \<le> y" "100 \<le> y - 1" using assms(2) by simp_all
  define fy where "fy = (if f \<le> m - 1 then y else y - 1)"
  define q where "q = (m - 1 - f + 12) mod 12 div 3"
  note fm = fm [folded fy_def, folded q_def]
  have fy: "100 \<le> fy" using assms(2) by (simp add: fy_def)
  note months = first_of_month_mono [OF fm(1)] first_of_month_mono [OF fm(2)] first_of_month_mono [OF fm(3)] first_of_month_mono [OF fm(4)]
  note unfolds = covers_def bucket_row_def bucket_fields_def assms(1) utc_day_date Let_def add_diff_eq
  show ?thesis
  proof (cases periodType)
    case WEEKLY
    have "0 \<le> utc_weekday t" "utc_weekday t \<le> 6" by (simp_all add: utc_weekday_def)
    then show ?thesis using dm WEEKLY y by (simp add: unfolds)
  next
    case DAILY
    then show ?thesis using dm y by (simp add: unfolds)
  next
    case MONTHLY
    then show ?thesis using dm y by (simp add: unfolds)
  next
    case QUARTERLY
    have "bucket_fields f t QUARTERLY =
        (date_utc fy (f + q * 3) 1, date_utc fy (f + q * 3 + 3) 0, fy, Some (q + 1), None, None)"
      by (simp only: bucket_fields_def assms(1) Let_def prod.case PeriodType.case fy_def q_def)
    then show ?thesis using dm fy months QUARTERLY by (simp add: covers_def bucket_row_def utc_day_date)
  next
    case YEARLY
    have "bucket_fields f t YEARLY = (date_utc fy f 1, date_utc fy (f + 12) 0, fy, None, None, None)"
      by (simp only: bucket_fields_def assms(1) Let_def prod.case PeriodType.case fy_def)
    then show ?thesis using dm fy months YEARLY by (simp add: covers_def bucket_row_def utc_day_date add_ac)
  qed
qed

section \<open>Keys\<close>

lemma digits_of_inj: "digits_of a = digits_of b \<longleftrightarrow> a = b"
  by (metis digits_value_digits_of option.inject)

lemma js_String_inj: "js_String a = js_String b \<longleftrightarrow> a = b"
proof -
  have "digits_of n \<noteq> CHR ''-'' # cs" for n cs
  proof
    assume "digits_of n = CHR ''-'' # cs"
    then have "digits_value 10 0 (CHR ''-'' # cs) = Some n" by (metis digits_value_digits_of)
    then show False by (simp add: digit_value_def)
  qed
  then show ?thesis by (auto simp: js_String_def digits_of_inj eq_nat_nat_iff) (metis)+
qed

lemma padded_month:
  assumes "1 \<le> m" "m \<le> 12"
  shows "length (padStart 2 (js_String m)) = 2" "digits_value 10 0 (padStart 2 (js_String m)) = Some (nat m)"
proof -
  show "digits_value 10 0 (padStart 2 (js_String m)) = Some (nat m)"
    using assms by (simp add: js_String_def padStart_value)
  have "m = 1 \<or> m = 2 \<or> m = 3 \<or> m = 4 \<or> m = 5 \<or> m = 6 \<or> m = 7 \<or> m = 8 \<or> m = 9 \<or> m = 10 \<or> m = 11 \<or> m = 12"
    using assms by presburger
  then show "length (padStart 2 (js_String m)) = 2"
    by (elim disjE) (simp_all add: js_String_def padStart_def digits_of.simps)
qed

lemma monthly_key_inj:
  assumes "utc_date t = (y, m, d)" "utc_date t' = (y', m', d')"
  shows "buildPeriodKey t MONTHLY = buildPeriodKey t' MONTHLY \<longleftrightarrow> y = y' \<and> m = m'"
proof -
  note r = utc_date_right [OF assms(1)] and r' = utc_date_right [OF assms(2)]
  note p = padded_month [OF r(2,3)] and p' = padded_month [OF r'(2,3)]
  have "padStart 2 (js_String m) = padStart 2 (js_String m') \<longleftrightarrow> m = m'"
    using p(2) p'(2) r(2) r'(2) by (metis eq_nat_nat_iff option.inject order_trans zero_le_one)
  then show ?thesis using p(1) p'(1) by (auto simp: buildPeriodKey_def assms js_String_inj)
qed

section \<open>Reachable buckets\<close>

text \<open>
  The service's own calls, buckets frozen or thawed, and anything that leaves the buckets alone,
  such as a new start of the tenant's fiscal year.
\<close>

inductive bucket_step :: "planning \<Rightarrow> planning \<Rightarrow> bool" where
  get: "getBucketOrThrow tenantId periodDate periodType allowFrozen s = (r, s') \<Longrightarrow> bucket_step s s'"
| freeze: "bucket_step s (s\<lparr>timeBuckets := update_where p (\<lambda>b. b\<lparr>tb_isFrozen := v\<rparr>) (timeBuckets s)\<rparr>)"
| elsewhere: "timeBuckets s' = timeBuckets s \<Longrightarrow> bucket_step s s'"

inductive buckets_reachable :: "planning \<Rightarrow> bool" where
  start: "timeBuckets s = [] \<Longrightarrow> buckets_reachable s"
| step: "buckets_reachable s \<Longrightarrow> bucket_step s s' \<Longrightarrow> buckets_reachable s'"

text \<open>A bucket of type \<open>MONTHLY\<close> is the month of its key.\<close>

definition whole_month :: "TimeBucket \<Rightarrow> bool" where
  "whole_month b \<longleftrightarrow> (\<exists>t y m d. utc_date t = (y, m, d) \<and> tb_periodKey b = buildPeriodKey t MONTHLY \<and>
     tb_bucketStart b = date_utc y (m - 1) 1 \<and> tb_bucketEnd b = date_utc y m 0)"

definition months_ok :: "planning \<Rightarrow> bool" where
  "months_ok s \<longleftrightarrow> (\<forall>b \<in> set (timeBuckets s). tb_periodType b = MONTHLY \<longrightarrow> whole_month b)"

lemma whole_month_row: "whole_month (bucket_row tenantId t MONTHLY (buildPeriodKey t MONTHLY) f i)"
proof -
  obtain y m d where "utc_date t = (y, m, d)" by (cases "utc_date t") auto
  then show ?thesis
    unfolding whole_month_def
    by (intro exI [of _ t] exI [of _ y] exI [of _ m] exI [of _ d]) (simp add: bucket_row_def bucket_fields_def Let_def)
qed

lemma bucket_row_sel [simp]:
  "tb_id (bucket_row tn t ty k f i) = i" "tb_tenantId (bucket_row tn t ty k f i) = tn"
  "tb_periodType (bucket_row tn t ty k f i) = ty" "tb_periodKey (bucket_row tn t ty k f i) = k"
  "tb_isFrozen (bucket_row tn t ty k f i) = False"
  by (simp_all add: bucket_row_def Let_def split: prod.split)

text \<open>A call, in one equation.\<close>

lemma run_getBucket:
  "getBucketOrThrow tn t ty allowFrozen s =
     (let key = buildPeriodKey t ty in
      case find (is_bucket tn ty key) (timeBuckets s) of
        Some b \<Rightarrow> (if tb_isFrozen b \<and> \<not> allowFrozen then Inl BadRequestException else Inr b, s)
      | None \<Rightarrow> let row = bucket_row tn t ty key (fiscal_start tn ty s) (next_id s)
                in (Inr row, s\<lparr>next_id := next_id s + 1, timeBuckets := timeBuckets s @ [row]\<rparr>))"
  by (cases "find (is_bucket tn ty (buildPeriodKey t ty)) (timeBuckets s)")
     (simp_all add: getBucketOrThrow_def ensureBucket_def run_bind run_seq run_simps Let_def)

lemma months_step:
  assumes "bucket_step s s'" "months_ok s"
  shows "months_ok s'"
  using assms
proof (induction rule: bucket_step.induct)
  case (get tn t ty af s r s')
  then show ?case
    by (auto simp: run_getBucket months_ok_def Let_def whole_month_row split: option.splits if_splits)
next
  case (freeze s p v)
  have "whole_month (b\<lparr>tb_isFrozen := v\<rparr>) = whole_month b" for b by (simp add: whole_month_def)
  then show ?case using freeze by (auto simp: months_ok_def in_set_row split: if_splits)
next
  case (elsewhere s' s)
  then show ?case by (simp add: months_ok_def)
qed

lemma reachable_months: "buckets_reachable s \<Longrightarrow> months_ok s"
proof (induction rule: buckets_reachable.induct)
  case (start s)
  then show ?case by (simp add: months_ok_def)
next
  case (step s s')
  then show ?case using months_step by blast
qed

lemma found_again:
  assumes "getBucketOrThrow tn t ty af s = (Inr b, s')" "buildPeriodKey t' ty = buildPeriodKey t ty"
  shows "find (is_bucket tn ty (buildPeriodKey t' ty)) (timeBuckets s') = Some b"
  using assms by (auto simp: run_getBucket Let_def find_append is_bucket_def split: option.splits if_splits)

end
