(* ===== verification/PlanningSystem.thy ===== *)
theory PlanningSystem
  imports TemplateRuns ReviewClients BucketBooks
begin

text \<open>
  The planning module as a whole: its step relation, any operation with any arguments in any
  order, its reachable states, and the invariant of the workflow in all of them.
\<close>

lemma workflow_frame: "workflow_ok s \<Longrightarrow> same_workflow s t \<Longrightarrow> workflow_ok t"
  unfolding workflow_ok_def templates_ok_def instances_ok_def approvals_ok_def same_workflow_def
    step_numbers_def active_keys_def approvers_def
  by (auto intro: less_le_trans)

interpretation workflow: review_client workflow_ok
  by unfold_locales (auto intro: workflow_frame keeps_startWorkflow keeps_approve keeps_reject)

section \<open>Steps\<close>

inductive workflow_step :: "planning \<Rightarrow> planning \<Rightarrow> bool" where
  start: "startWorkflowRequest tn u et e notes s = (x, s') \<Longrightarrow> workflow_step s s'"
| approve: "approveWorkflow tn i u c s = (x, s') \<Longrightarrow> workflow_step s s'"
| reject: "rejectWorkflow tn i u c s = (x, s') \<Longrightarrow> workflow_step s s'"
| changes: "requestWorkflowChanges tn i u c s = (x, s') \<Longrightarrow> workflow_step s s'"
| cancel: "cancelWorkflow tn i u c s = (x, s') \<Longrightarrow> workflow_step s s'"
| resubmit: "resubmitWorkflow tn i u c s = (x, s') \<Longrightarrow> workflow_step s s'"
| create_template: "createWorkflowTemplate tn td s = (y, s') \<Longrightarrow> workflow_step s s'"
| update_template: "updateWorkflowTemplate tn i tp s = (z, s') \<Longrightarrow> workflow_step s s'"
| delete_template: "deleteWorkflowTemplate tn i s = (z, s') \<Longrightarrow> workflow_step s s'"
| add_step: "addWorkflowStep tn i item s = (z, s') \<Longrightarrow> workflow_step s s'"
| update_step: "updateWorkflowStep tn i sp s = (z, s') \<Longrightarrow> workflow_step s s'"
| delete_step: "deleteWorkflowStep tn i s = (z, s') \<Longrightarrow> workflow_step s s'"

inductive client_step :: "planning \<Rightarrow> planning \<Rightarrow> bool" where
  create_plan: "createPlan pd user s = (x, s') \<Longrightarrow> client_step s s'"
| update_plan: "updatePlan i pp user s = (x, s') \<Longrightarrow> client_step s s'"
| remove_plan: "removePlan i user s = (y, s') \<Longrightarrow> client_step s s'"
| clone_plan: "clonePlan i name user s = (x, s') \<Longrightarrow> client_step s s'"
| submit_plan: "submitPlan i user s = (x, s') \<Longrightarrow> client_step s s'"
| approve_plan: "approvePlan i user s = (x, s') \<Longrightarrow> client_step s s'"
| reject_plan: "rejectPlan i reason user s = (x, s') \<Longrightarrow> client_step s s'"
| lock_plan: "lockPlan i reason user s = (x, s') \<Longrightarrow> client_step s s'"
| unlock_plan: "unlockPlan i user s = (x, s') \<Longrightarrow> client_step s s'"
| archive_plan: "archivePlan i user s = (x, s') \<Longrightarrow> client_step s s'"
| create_scenario: "createScenario cd user s = (z, s') \<Longrightarrow> client_step s s'"
| update_scenario: "updateScenario i cp user s = (z, s') \<Longrightarrow> client_step s s'"
| remove_scenario: "removeScenario i user s = (y, s') \<Longrightarrow> client_step s s'"
| clone_scenario: "cloneScenario i newName user s = (z, s') \<Longrightarrow> client_step s s'"
| baseline: "setBaseline i user s = (y, s') \<Longrightarrow> client_step s s'"
| submit_scenario: "submitScenario i user s = (z, s') \<Longrightarrow> client_step s s'"
| approve_scenario: "approveScenario i user s = (z, s') \<Longrightarrow> client_step s s'"
| reject_scenario: "rejectScenario i reason user s = (z, s') \<Longrightarrow> client_step s s'"
| lock_scenario: "lockScenario i reason user s = (z, s') \<Longrightarrow> client_step s s'"

text \<open>Outside these services users come and go, time passes, and other tables are written.\<close>

inductive planning_step :: "planning \<Rightarrow> planning \<Rightarrow> bool" where
  workflow: "workflow_step s s' \<Longrightarrow> planning_step s s'"
| client: "client_step s s' \<Longrightarrow> planning_step s s'"
| outside: "same_workflow s s' \<Longrightarrow> planning_step s s'"

inductive planning_reachable :: "planning \<Rightarrow> bool" where
  start: "workflowTemplates s = [] \<Longrightarrow> workflowSteps s = [] \<Longrightarrow> workflowInstances s = [] \<Longrightarrow>
    workflowActions s = [] \<Longrightarrow> planning_reachable s"
| step: "planning_reachable s \<Longrightarrow> planning_step s s' \<Longrightarrow> planning_reachable s'"

lemmas workflow_keeps = keeps_endpoints keeps_requestWorkflowChanges keeps_cancelWorkflow keeps_resubmitWorkflow
  keeps_createWorkflowTemplate keeps_updateWorkflowTemplate keeps_deleteWorkflowTemplate
  keeps_addWorkflowStep keeps_updateWorkflowStep keeps_deleteWorkflowStep

lemma workflow_step_ok: "workflow_step s s' \<Longrightarrow> workflow_ok s \<Longrightarrow> workflow_ok s'"
  by (induction rule: workflow_step.induct) (rule keepsD [rotated 2], assumption, rule workflow_keeps, assumption)+

lemma client_step_ok: "client_step s s' \<Longrightarrow> workflow_ok s \<Longrightarrow> workflow_ok s'"
  by (induction rule: client_step.induct)
     (rule keepsD [rotated 2], assumption, rule workflow.plan_operations workflow.scenario_operations, assumption)+

theorem reachable_workflow: "planning_reachable s \<Longrightarrow> workflow_ok s"
proof (induction rule: planning_reachable.induct)
  case (start s)
  then show ?case
    by (simp add: workflow_ok_def templates_ok_def instances_ok_def approvals_ok_def step_numbers_def numbered_def
        active_keys_def approvers_def)
next
  case (step s s')
  from step(2) show ?case
    by cases (use step workflow_step_ok client_step_ok workflow_frame in blast)+
qed

end
