(* ===== verification/PlanningExample.thy ===== *)
theory PlanningExample
  imports PlanningSystem
begin

text \<open>
  A run of the planning module at which its properties are read: a template, a plan, its
  submission and the approvals of its three steps, and a return at the second one.
\<close>

text \<open>
  Tenant 7 has an administrator, a planner and a viewer, and a template of three steps: the
  administrator by name, any planner, and a manager.
\<close>

definition admin :: User where
  "admin = \<lparr>us_id = 1, us_tenantId = 7, us_role = ADMIN\<rparr>"

definition planner :: User where
  "planner = \<lparr>us_id = 2, us_tenantId = 7, us_role = PLANNER\<rparr>"

definition three_steps :: template_dto where
  "three_steps = \<lparr>td_name = ''Plan review'', td_description = None, td_entityType = PLAN_VERSION, td_isActive = None,
     td_steps =
       [\<lparr>si_stepOrder = 1, si_name = ''Owner'', si_approverType = USER, si_approverRole = None,
         si_approverId = Some 1, si_requiredApprovals = None\<rparr>,
        \<lparr>si_stepOrder = 2, si_name = ''Planning'', si_approverType = ROLE, si_approverRole = Some ''planner'',
         si_approverId = None, si_requiredApprovals = None\<rparr>,
        \<lparr>si_stepOrder = 3, si_name = ''Management'', si_approverType = MANAGER, si_approverRole = None,
         si_approverId = None, si_requiredApprovals = None\<rparr>]\<rparr>"

definition tenant :: planning where
  "tenant = empty_planning\<lparr>users := [admin, planner,
     \<lparr>us_id = 3, us_tenantId = 7, us_role = VIEWER\<rparr>], next_id := 10\<rparr>"

definition configured :: planning where
  "configured = snd (createWorkflowTemplate 7 three_steps tenant)"

definition budget :: plan_dto where
  "budget = \<lparr>cp_name = ''Budget'', cp_description = None, cp_startDate = 0, cp_endDate = 0, cp_planType = None,
     cp_periodType = None\<rparr>"

definition planned :: planning where
  "planned = snd (createPlan budget admin configured)"

definition submitted :: planning where
  "submitted = snd (submitPlan 14 admin planned)"

lemma tenant_reachable: "planning_reachable tenant"
  by (rule planning_reachable.start) (simp_all add: tenant_def empty_planning_def)

lemma submitted_reachable: "planning_reachable submitted"
proof -
  have "planning_reachable configured"
    using tenant_reachable
    by (rule planning_reachable.step) (metis configured_def planning_step.workflow workflow_step.create_template prod.collapse)
  then have "planning_reachable planned"
    by (rule planning_reachable.step) (metis planned_def planning_step.client client_step.create_plan prod.collapse)
  then show ?thesis
    by (rule planning_reachable.step) (metis submitted_def planning_step.client client_step.submit_plan prod.collapse)
qed

text \<open>The states, evaluated.\<close>

lemma submitted_eq: "submitted = \<lparr>users = [admin, planner, \<lparr>us_id = 3, us_tenantId = 7, us_role = VIEWER\<rparr>],
    workflowTemplates = [\<lparr>wt_id = 10, wt_tenantId = 7, wt_name = ''Plan review'', wt_description = None,
      wt_entityType = PLAN_VERSION, wt_isActive = True\<rparr>],
    workflowSteps =
      [\<lparr>ws_id = 11, ws_templateId = 10, ws_sequence = 1, ws_name = ''Owner'', ws_approverType = USER,
         ws_approverRole = None, ws_approverUserId = Some 1, ws_requiredApprovals = 1, ws_canReject = True\<rparr>,
       \<lparr>ws_id = 12, ws_templateId = 10, ws_sequence = 2, ws_name = ''Planning'', ws_approverType = ROLE,
         ws_approverRole = Some PLANNER, ws_approverUserId = None, ws_requiredApprovals = 1, ws_canReject = True\<rparr>,
       \<lparr>ws_id = 13, ws_templateId = 10, ws_sequence = 3, ws_name = ''Management'', ws_approverType = MANAGER,
         ws_approverRole = None, ws_approverUserId = None, ws_requiredApprovals = 1, ws_canReject = True\<rparr>],
    workflowInstances =
      [\<lparr>wn_id = 18, wn_tenantId = 7, wn_templateId = 10, wn_entityType = PLAN_VERSION, wn_entityId = 14,
         wn_status = IN_PROGRESS, wn_currentStep = 1, wn_submittedBy = 1, wn_submittedAt = 0, wn_completedAt = None,
         wn_notes = Some ''Plan submitted for approval''\<rparr>],
    workflowActions = [\<lparr>wa_instanceId = 18, wa_stepNumber = 1, wa_action = SUBMIT, wa_performedBy = 1,
      wa_comments = Some ''Plan submitted for approval''\<rparr>],
    planVersions =
      [\<lparr>pv_id = 14, pv_tenantId = 7, pv_name = ''Budget'', pv_description = None, pv_planType = PlanType.FORECAST,
         pv_status = IN_REVIEW, pv_version = 1, pv_startDate = 0, pv_endDate = 0, pv_periodType = MONTHLY,
         pv_isLocked = False, pv_lockedAt = None, pv_lockedReason = None, pv_approvedAt = None,
         pv_approvedById = None, pv_parentVersionId = None, pv_createdById = 1\<rparr>],
    scenarios =
      [\<lparr>se_id = 15, se_tenantId = 7, se_planVersionId = 14, se_name = ''Base Scenario'',
         se_description = Some ''Default baseline scenario'', se_scenarioType = BASE, se_status = DRAFT,
         se_lockedAt = None, se_lockedReason = None, se_isBaseline = True, se_color = Some ''#3b82f6'', se_sortOrder = 0\<rparr>,
       \<lparr>se_id = 16, se_tenantId = 7, se_planVersionId = 14, se_name = ''Optimistic'',
         se_description = Some ''Best-case assumptions (+15% uplift)'', se_scenarioType = OPTIMISTIC, se_status = DRAFT,
         se_lockedAt = None, se_lockedReason = None, se_isBaseline = False, se_color = Some ''#10b981'', se_sortOrder = 1\<rparr>,
       \<lparr>se_id = 17, se_tenantId = 7, se_planVersionId = 14, se_name = ''Pessimistic'',
         se_description = Some ''Worst-case assumptions (-15% reduction)'', se_scenarioType = PESSIMISTIC, se_status = DRAFT,
         se_lockedAt = None, se_lockedReason = None, se_isBaseline = False, se_color = Some ''#ef4444'', se_sortOrder = 2\<rparr>],
    assumptions = [], timeBuckets = [],
    auditLogs = [\<lparr>al_tenantId = 7, al_userId = 1, al_action = UPDATE, al_entityType = ''PlanVersion'',
      al_entityId = 14, al_oldStatus = DRAFT, al_newStatus = IN_REVIEW\<rparr>],
    fiscalYearStarts = [], next_id = 19, clock = 0\<rparr>"
  by code_simp

text \<open>After the first approval, after the second, and after the return of the first state.\<close>

definition approval_of :: "int \<Rightarrow> uuid \<Rightarrow> WorkflowAction" where
  "approval_of k u = \<lparr>wa_instanceId = 18, wa_stepNumber = k, wa_action = WorkflowActionType.APPROVE, wa_performedBy = u,
     wa_comments = Some ''Plan approved''\<rparr>"

definition at_step :: "int \<Rightarrow> WorkflowAction list \<Rightarrow> planning" where
  "at_step k acts = submitted\<lparr>workflowInstances := map (\<lambda>r. r\<lparr>wn_currentStep := k\<rparr>) (workflowInstances submitted),
     workflowActions := workflowActions submitted @ acts\<rparr>"

definition second :: planning where
  "second = at_step 2 [approval_of 1 1]"

definition third :: planning where
  "third = at_step 3 [approval_of 1 1, approval_of 2 2]"

definition returned :: planning where
  "returned = snd (requestWorkflowChanges 7 18 2 None second)"

lemma second_run: "snd (approvePlan 14 admin submitted) = second"
  unfolding submitted_eq second_def at_step_def by code_simp

lemma third_run: "snd (approvePlan 14 planner second) = third"
  unfolding second_def third_def at_step_def submitted_eq by code_simp

lemma second_reachable: "planning_reachable second"
  using submitted_reachable
  by (rule planning_reachable.step) (metis second_run planning_step.client client_step.approve_plan prod.collapse)

lemma third_reachable: "planning_reachable third"
  using second_reachable
  by (rule planning_reachable.step) (metis third_run planning_step.client client_step.approve_plan prod.collapse)

lemma returned_reachable: "planning_reachable returned"
  using second_reachable
  by (rule planning_reachable.step) (metis returned_def planning_step.workflow workflow_step.changes prod.collapse)

lemma returned_eq: "returned = second\<lparr>workflowInstances := map (\<lambda>r. r\<lparr>wn_status := ON_HOLD\<rparr>) (workflowInstances second),
    workflowActions := workflowActions second @ [\<lparr>wa_instanceId = 18, wa_stepNumber = 2, wa_action = RETURN,
      wa_performedBy = 2, wa_comments = None\<rparr>]\<rparr>"
  unfolding returned_def second_def at_step_def submitted_eq by code_simp

end
