(* ===== verification/ReviewRuns.thy ===== *)
theory ReviewRuns
  imports PlanningSystem
begin

text \<open>
  What the review of a plan and the administration of a running workflow do: the approval of a
  plan, the archive, a resubmission, and the list of pending approvals.
\<close>

section \<open>Plans\<close>

definition plan_found :: "uuid \<Rightarrow> User \<Rightarrow> planning \<Rightarrow> PlanVersion option" where
  "plan_found i user s = find (\<lambda>p. pv_id p = i \<and> pv_tenantId p = us_tenantId user) (planVersions s)"

lemma wp_findPlan [wp_simps]:
  "wp (findPlan i user) Q E s = (case plan_found i user s of None \<Rightarrow> E NotFoundException s | Some p \<Rightarrow> Q p s)"
  by (simp add: findPlan_def plan_found_def wp_simps)

lemma wp_update_plan [wp_simps]:
  "wp (update_plan i f) Q E s = (if find_by pv_id i (planVersions s) = None then E PrismaRecordNotFound s
     else Q () (s\<lparr>planVersions := set_row pv_id i f (planVersions s)\<rparr>))"
  by (simp add: update_plan_def wp_simps)

lemma wp_log_status [wp_simps]:
  "wp (log_status user act ty i old new) Q E s = Q () (snd (log_status user act ty i old new s))"
  by (simp add: log_status_def wp_simps run_simps)

lemma log_status_sel [simp]:
  "workflowInstances (snd (log_status user act ty i old new s)) = workflowInstances s"
  "workflowActions (snd (log_status user act ty i old new s)) = workflowActions s"
  "workflowSteps (snd (log_status user act ty i old new s)) = workflowSteps s"
  "planVersions (snd (log_status user act ty i old new s)) = planVersions s"
  by (simp_all add: log_status_def run_simps)

lemma plan_found_cong: "planVersions t = planVersions s \<Longrightarrow> plan_found i user t = plan_found i user s"
  by (simp add: plan_found_def)

lemma find_map_row:
  "(\<And>x. P (f x) = P x) \<Longrightarrow> (\<And>x. P x \<Longrightarrow> key x = k) \<Longrightarrow>
     find P (set_row key k f rows) = map_option f (find P rows)"
  by (induction rows) auto

lemma plan_found_update:
  assumes "\<And>p. pv_id (f p) = pv_id p" "\<And>p. pv_tenantId (f p) = pv_tenantId p"
  shows "plan_found i user (s\<lparr>planVersions := set_row pv_id i f (planVersions s)\<rparr>) = map_option f (plan_found i user s)"
  unfolding plan_found_def by (simp, rule find_map_row) (simp_all add: assms)

lemma plan_found_by: "plan_found i user s = Some p \<Longrightarrow> find_by pv_id i (planVersions s) \<noteq> None"
  by (auto simp: plan_found_def find_by_def find_None_iff dest: find_in)

lemma approval_state_plans [simp]: "planVersions (approval_state row step u c s) = planVersions s"
  by (simp add: approval_state_def with_instance_def with_action_def)

lemma latest_in: "latest_instance tn et e s = Some row \<Longrightarrow> row \<in> set (workflowInstances s)"
  by (auto simp: latest_instance_def newest_first_def dest!: first_of_in)

text \<open>A plan comes out approved from the last approval of its instance only.\<close>

definition reviewed :: "uuid \<Rightarrow> User \<Rightarrow> planning \<Rightarrow> PlanVersion \<Rightarrow> planning \<Rightarrow> bool" where
  "reviewed p user s plan t \<longleftrightarrow>
     (pv_status plan = PlanStatus.APPROVED \<longrightarrow>
       (\<exists>old row step. plan_found p user s = Some old \<and> pv_status old = IN_REVIEW \<and>
          latest_instance (us_tenantId user) PLAN_VERSION p s = Some row \<and>
          turn None (wn_id row) (us_id user) s row step \<and>
          us_id user \<notin> set (approvers (wn_id row) (ws_sequence step) s) \<and>
          wn_status (approval_row row step (us_id user) s row) = WorkflowStatus.APPROVED \<and>
          workflowInstances t = workflowInstances (approval_state row step (us_id user) (Some ''Plan approved'') s) \<and>
          workflowActions t = workflowActions (approval_state row step (us_id user) (Some ''Plan approved'') s)))"

lemma approvePlan_reviewed:
  assumes "instances_ok s"
  shows "wp (approvePlan p user) (reviewed p user s) (\<lambda>_ _. True) s"
proof (cases "plan_found p user s")
  case None
  then show ?thesis by (simp add: approvePlan_def wp_simps)
next
  case old: (Some old)
  show ?thesis
  proof (cases "latest_instance (us_tenantId user) PLAN_VERSION p s")
    case None
    then show ?thesis by (simp add: approvePlan_def wp_simps old)
  next
    case row: (Some row)
    have same: "row' = row" if "turn None (wn_id row) u s row' step" for row' u step
      using assms latest_in [OF row] turn_row(1,2) [OF that]
      by (metis distinct_map inj_onD instances_ok_def)
    show ?thesis
    proof (simp add: approvePlan_def wp_simps old row, intro impI, rule wp_call [OF approve_spec [OF assms]], elim exE conjE)
      fix r t row' step
      let ?u = "us_id user" and ?c = "Some ''Plan approved''"
      assume a: "pv_status old = IN_REVIEW" "turn None (wn_id row) ?u s row' step"
        "?u \<notin> set (approvers (wn_id row) (ws_sequence step) s)"
        "r = approval_row row' step ?u s row'" "t = approval_state row' step ?u ?c s"
      note eq = same [OF a(2)]
      have plan: "plan_found p user t = Some old" by (simp add: plan_found_cong a(5) old)
      show "wp (if wn_status r \<noteq> WorkflowStatus.APPROVED then findPlan p user
          else bind (gets clock) (\<lambda>t.
            seq (update_plan p (\<lambda>p. p\<lparr>pv_status := PlanStatus.APPROVED, pv_approvedAt := Some t, pv_approvedById := Some ?u\<rparr>))
           (seq (log_status user AuditAction.APPROVE ''PlanVersion'' p IN_REVIEW PlanStatus.APPROVED)
                (findPlan p user)))) (reviewed p user s) (\<lambda>_ _. True) t"
      proof (cases "wn_status r = WorkflowStatus.APPROVED")
        case True
        then have "reviewed p user s plan v"
          if "workflowInstances v = workflowInstances t" "workflowActions v = workflowActions t" for plan v
          using a that by (auto simp: reviewed_def old row eq)
        then show ?thesis using True by (simp add: wp_simps split: option.split)
      next
        case False
        then show ?thesis by (simp add: wp_simps plan reviewed_def a(1))
      qed
    qed simp
  qed
qed

lemma last_step_number:
  assumes "numbered (step_numbers i s)" "steps_of i s \<noteq> []"
  shows "ws_sequence (last (steps_of i s)) = int (length (step_numbers i s))"
proof -
  have "map ws_sequence (steps_of i s) = [1..int (length (step_numbers i s))]"
    using assms(1) steps_of_numbers [of i s] by (simp add: numbered_def)
  moreover have "length (step_numbers i s) \<noteq> 0" using assms(2) length_steps_of [of i s] by (metis length_0_conv)
  ultimately show ?thesis
    using assms(2) last_map [of "steps_of i s" ws_sequence] by (simp add: upto_rec2)
qed

lemma step_bounds:
  assumes "numbered (step_numbers i s)" "w \<in> set (steps_of i s)"
  shows "1 \<le> ws_sequence w" "ws_sequence w \<le> int (length (step_numbers i s))"
proof -
  have "ws_sequence w \<in> set (map ws_sequence (steps_of i s))" using assms(2) by simp
  then have "ws_sequence w \<in> {1..int (length (step_numbers i s))}"
    unfolding steps_of_numbers set_sort numbered_set [OF assms(1)] .
  then show "1 \<le> ws_sequence w" "ws_sequence w \<le> int (length (step_numbers i s))" by simp_all
qed

lemma approved_plan:
  assumes "workflow_ok s" "approvePlan p user s = (Inr plan, t)" "pv_status plan = PlanStatus.APPROVED"
  shows "\<exists>old row r. plan_found p user s = Some old \<and> pv_status old = IN_REVIEW \<and>
    latest_instance (us_tenantId user) PLAN_VERSION p s = Some row \<and>
    find_by wn_id (wn_id row) (workflowInstances t) = Some r \<and> wn_status r = WorkflowStatus.APPROVED \<and>
    (\<forall>w \<in> set (steps_of (wn_templateId row) s). approvers (wn_id row) (ws_sequence w) t \<noteq> []) \<and>
    ws_requiredApprovals (last (steps_of (wn_templateId row) s)) \<le> int (length (approvers (wn_id row) (wn_currentStep row) t))"
proof -
  let ?u = "us_id user" and ?c = "Some ''Plan approved''"
  have "reviewed p user s plan t"
    using approvePlan_reviewed [OF workflow_okD(1) [OF assms(1)], of p user] by (simp add: wp_def assms(2))
  then obtain old row step where a: "plan_found p user s = Some old" "pv_status old = IN_REVIEW"
      "latest_instance (us_tenantId user) PLAN_VERSION p s = Some row" "turn None (wn_id row) ?u s row step"
      "?u \<notin> set (approvers (wn_id row) (ws_sequence step) s)"
      "wn_status (approval_row row step ?u s row) = WorkflowStatus.APPROVED"
      "workflowInstances t = workflowInstances (approval_state row step ?u ?c s)"
      "workflowActions t = workflowActions (approval_state row step ?u ?c s)"
    using assms(3) by (auto simp: reviewed_def)
  note row = turn_row [OF a(4)]
  let ?r = "approval_row row step ?u s row" and ?t = "approval_state row step ?u ?c s"
  have "step \<in> set (steps_of (wn_templateId row) s)" using a(4) by (auto simp: turn_def dest: step_at_Some)
  then have steps: "steps_of (wn_templateId row) s \<noteq> []" by auto
  have ok: "workflow_ok ?t" by (rule workflow_approved [OF assms(1) a(4,5)])
  have end': "last_step row step s" "ws_requiredApprovals step \<le> int (length (approvers (wn_id row) (ws_sequence step) s @ [?u]))"
    "wn_currentStep ?r = wn_currentStep row" "wn_id ?r = wn_id row"
    using a(5,6) row(3) assms(1)
    by (auto simp: approval_row_def advanced_def workflow_ok_def approvals_ok_def distinct_remdups_id split: if_splits)
  have "distinct (map wn_id (workflowInstances s))" using assms(1) by (simp add: workflow_ok_def instances_ok_def)
  then have "find_by wn_id (wn_id row) (workflowInstances s) = Some row" using row(1) by (simp add: find_by_unique)
  then have found: "find_by wn_id (wn_id row) (workflowInstances ?t) = Some ?r"
    by (simp add: approval_state_def find_by_set_row approval_row_def)
  have app: "approvers j k t = approvers j k ?t" for j k by (simp add: approvers_def a(8))
  have num: "numbered (step_numbers (wn_templateId row) s)" using assms(1) by (simp add: workflow_ok_def templates_ok_def)
  have "ws_sequence (last (steps_of (wn_templateId row) s)) = wn_currentStep row"
    using end'(1) row(4) by (simp add: last_step_def)
  then have last: "wn_currentStep row = int (length (step_numbers (wn_templateId row) s))"
    using last_step_number [OF num steps] by simp
  have "approvers (wn_id row) (ws_sequence w) t \<noteq> []" if w: "w \<in> set (steps_of (wn_templateId row) s)" for w
  proof -
    have "passed ?r (ws_sequence w)" using step_bounds [OF num w] a(6) end'(3) last by (auto simp: passed_def)
    then show ?thesis using ok find_by_Some [OF found] end'(4) by (fastforce simp: workflow_ok_def approvals_ok_def app)
  qed
  moreover have "last (steps_of (wn_templateId row) s) = step"
  proof -
    have "distinct (map ws_sequence (steps_of (wn_templateId row) s))"
      using num by (simp add: steps_of_numbers numbered_distinct)
    then show ?thesis
      using end'(1) \<open>step \<in> _\<close> steps by (metis distinct_map inj_onD last_in_set last_step_def)
  qed
  ultimately show ?thesis
    using a(1-3,6,7) found end'(2) row(4)
    by (intro exI [of _ old] exI [of _ row] exI [of _ ?r]) (simp add: app approval_state_def)
qed

section \<open>The archive\<close>

lemma run_removePlan:
  "plan_found i user s = Some plan \<Longrightarrow> removePlan i user s =
     (if pv_status plan = PlanStatus.APPROVED \<or> pv_status plan = LOCKED then (Inl BadRequestException, s)
      else (Inr (), delete_plan i s))"
  by (simp add: removePlan_def findPlan_def plan_found_def run_bind run_seq run_simps)

lemma run_archivePlan:
  assumes "plan_found i user s = Some plan"
  shows "archivePlan i user s = (Inr (plan\<lparr>pv_status := ARCHIVED\<rparr>),
     s\<lparr>planVersions := set_row pv_id i (\<lambda>p. p\<lparr>pv_status := ARCHIVED\<rparr>) (planVersions s)\<rparr>)"
proof -
  have "wp (archivePlan i user) (\<lambda>x t. x = plan\<lparr>pv_status := ARCHIVED\<rparr> \<and>
      t = s\<lparr>planVersions := set_row pv_id i (\<lambda>p. p\<lparr>pv_status := ARCHIVED\<rparr>) (planVersions s)\<rparr>) (\<lambda>_ _. False) s"
    using assms plan_found_by [OF assms] by (simp add: archivePlan_def wp_simps plan_found_update)
  then show ?thesis by (simp add: wp_def split: prod.splits sum.splits)
qed

lemma removed_archived:
  assumes "plan_found i user s = Some plan"
  defines "t \<equiv> s\<lparr>planVersions := set_row pv_id i (\<lambda>p. p\<lparr>pv_status := ARCHIVED\<rparr>) (planVersions s)\<rparr>"
  shows "\<exists>u. removePlan i user t = (Inr (), u) \<and> i \<notin> pv_id ` set (planVersions u) \<and> i \<notin> se_planVersionId ` set (scenarios u)"
proof -
  have "plan_found i user t = Some (plan\<lparr>pv_status := ARCHIVED\<rparr>)"
    unfolding t_def by (subst plan_found_update) (simp_all add: assms(1))
  then show ?thesis
    by (auto simp: run_removePlan delete_plan_def update_where_def split: if_splits)
qed

section \<open>Running workflows\<close>

definition resubmitted :: "int \<Rightarrow> string option \<Rightarrow> WorkflowInstance \<Rightarrow> WorkflowInstance" where
  "resubmitted k notes r = r\<lparr>wn_status := IN_PROGRESS, wn_currentStep := k,
     wn_notes := (case notes of None \<Rightarrow> wn_notes r | Some c \<Rightarrow> Some c)\<rparr>"

lemma resubmit_spec:
  assumes "workflow_ok s"
  shows "wp (resubmitWorkflow tn i u c)
    (\<lambda>r t. \<exists>row w. find (\<lambda>r. wn_id r = i \<and> wn_tenantId r = tn) (workflowInstances s) = Some row \<and>
       wn_status row = ON_HOLD \<and> wn_submittedBy row = u \<and> first_of (steps_of (wn_templateId row) s) = Some w \<and>
       r = resubmitted (ws_sequence w) c row \<and>
       t = with_instance i (resubmitted (ws_sequence w) c) (with_action i (ws_sequence w) SUBMIT u c s))
    (\<lambda>_ t. t = s) s"
proof (cases "find (\<lambda>r. wn_id r = i \<and> wn_tenantId r = tn) (workflowInstances s)")
  case None
  then show ?thesis by (simp add: resubmitWorkflow_def wp_simps)
next
  case (Some row)
  show ?thesis
    by (cases "first_of (steps_of (wn_templateId row) s)")
       (simp_all add: resubmitWorkflow_def wp_simps Some found_instance [OF assms Some] resubmitted_def [abs_def])
qed

text \<open>An instance at its first step that only its approver may approve again.\<close>

lemma first_step_stuck:
  assumes "workflow_ok t" "find_by wn_id i (workflowInstances t) = Some r"
    "first_of (steps_of (wn_templateId r) t) = Some w" "wn_currentStep r = ws_sequence w"
    "ws_approverType w = USER" "ws_approverUserId w = Some v" "v \<in> set (approvers i (ws_sequence w) t)"
  shows "\<exists>e. approve i x c tn t = (Inl e, t)"
proof -
  have no: False if a: "turn tn i x t row step" "x \<notin> set (approvers i (ws_sequence step) t)" for row step
  proof -
    note row = turn_row [OF a(1)]
    have "distinct (map wn_id (workflowInstances t))" using assms(1) by (simp add: workflow_ok_def instances_ok_def)
    then have "find_by wn_id i (workflowInstances t) = Some row"
      using row(1,2) find_by_unique [of wn_id "workflowInstances t" row] by simp
    then have r: "row = r" using assms(2) by simp
    have "step_at (ws_sequence w) (steps_of (wn_templateId r) t) = Some w"
      using assms(3) by (cases "steps_of (wn_templateId r) t") (simp_all add: step_at_def)
    then have "step = w" using a(1) assms(4) by (simp add: turn_def r)
    then show False using a assms(5-7) by (auto simp: turn_def refused_def)
  qed
  have "wp (approve i x c tn) (\<lambda>_ _. False) (\<lambda>_ u. u = t) t"
    by (rule wp_call [OF approve_spec]) (use no assms(1) in \<open>auto simp: workflow_ok_def\<close>)
  then show ?thesis by (auto simp: wp_def split: prod.splits sum.splits)
qed

lemma stuck_after_resubmission:
  assumes "workflow_ok s" "resubmitWorkflow tn i u c s = (Inr r, t)"
    "first_of (steps_of (wn_templateId r) s) = Some w" "ws_approverType w = USER" "ws_approverUserId w = Some v"
    "v \<in> set (approvers i (ws_sequence w) s)"
  shows "\<exists>e. approve i x c' tn' t = (Inl e, t)"
proof -
  obtain row w' where row: "find (\<lambda>r. wn_id r = i \<and> wn_tenantId r = tn) (workflowInstances s) = Some row"
      "first_of (steps_of (wn_templateId row) s) = Some w'" "r = resubmitted (ws_sequence w') c row"
      "t = with_instance i (resubmitted (ws_sequence w') c) (with_action i (ws_sequence w') SUBMIT u c s)"
    using resubmit_spec [OF assms(1), of tn i u c] by (auto simp: wp_def assms(2))
  have w: "w' = w" using row(2,3) assms(3) by (simp add: resubmitted_def)
  note f = found_instance [OF assms(1) row(1)]
  have "find_by wn_id i (workflowInstances t) = Some r"
    using f(3) by (simp add: row(3,4) find_by_set_row resubmitted_def)
  then show ?thesis
    using first_step_stuck [OF keepsD [OF keeps_resubmitWorkflow assms(1,2)], of i r w v] assms(3-6) row(3,4)
    by (simp add: w resubmitted_def [of "ws_sequence w" c row])
qed

section \<open>Pending approvals\<close>

lemma can_approve_iff:
  "userCanApproveStep step user \<longleftrightarrow>
     \<not> refused step user (us_id user) \<and> \<not> (ws_approverType step = ROLE \<and> ws_approverRole step = None)"
  by (auto simp: userCanApproveStep_def refused_def split: ApproverType.splits)

lemma user_of_id: "user_of tn u s = Some user \<Longrightarrow> us_id user = u"
  by (auto simp: user_of_def dest: find_in)

lemma pending_turn:
  assumes "workflow_ok s" "getMyPendingApprovals tn u s = (Inr rows, t)"
  shows "r \<in> set rows \<longleftrightarrow> (\<exists>step. turn (Some tn) (wn_id r) u s r step \<and>
           \<not> (ws_approverType step = ROLE \<and> ws_approverRole step = None))"
proof -
  obtain user where user: "user_of tn u s = Some user"
    using assms(2) by (cases "user_of tn u s") (auto simp: getMyPendingApprovals_def run_bind run_simps)
  have rows: "set rows = {i \<in> set (workflowInstances s). wn_tenantId i = tn \<and> wn_status i = IN_PROGRESS \<and>
      (case step_at (wn_currentStep i) (steps_of (wn_templateId i) s) of None \<Rightarrow> False | Some step \<Rightarrow> userCanApproveStep step user)}"
    using assms(2) by (auto simp: getMyPendingApprovals_def run_bind run_simps user newest_first_def)
  have "find (\<lambda>x. wn_id x = wn_id r \<and> (Some tn = None \<or> Some tn = Some (wn_tenantId x))) (workflowInstances s) = Some r \<longleftrightarrow>
      r \<in> set (workflowInstances s) \<and> wn_tenantId r = tn"
  proof
    assume "r \<in> set (workflowInstances s) \<and> wn_tenantId r = tn"
    moreover have "inj_on wn_id (set (workflowInstances s))"
      using assms(1) by (simp add: workflow_ok_def instances_ok_def distinct_map)
    ultimately show "find (\<lambda>x. wn_id x = wn_id r \<and> (Some tn = None \<or> Some tn = Some (wn_tenantId x))) (workflowInstances s) = Some r"
      by (cases "find (\<lambda>x. wn_id x = wn_id r \<and> (Some tn = None \<or> Some tn = Some (wn_tenantId x))) (workflowInstances s)")
         (auto simp: find_None_iff dest!: find_in dest: inj_onD)
  qed (auto dest: find_in)
  then show ?thesis
    using user user_of_id [OF user] by (cases "step_at (wn_currentStep r) (steps_of (wn_templateId r) s)") (auto simp: rows turn_def can_approve_iff)
qed

end
