(* ===== verification/BucketRuns.thy ===== *)
theory BucketRuns
  imports BucketBooks
begin

text \<open>
  Which dates share a bucket: a month has one, and what a bucket of a month or a fiscal year
  covers, month by month.
\<close>

lemma in_months:
  assumes "utc_date t = (y, m, d)"
  shows "first_of_month a \<le> utc_day t \<longleftrightarrow> a \<le> 12 * y + m - 1" "utc_day t < first_of_month b \<longleftrightarrow> 12 * y + m \<le> b"
proof -
  note dm = day_in_month [OF assms]
  show "first_of_month a \<le> utc_day t \<longleftrightarrow> a \<le> 12 * y + m - 1"
    using dm(1,2) first_of_month_mono [of a "12 * y + m - 1"] first_of_month_mono [of "12 * y + m" a] by linarith
  show "utc_day t < first_of_month b \<longleftrightarrow> 12 * y + m \<le> b"
    using dm(1,2) first_of_month_mono [of b "12 * y + m - 1"] first_of_month_mono [of "12 * y + m" b] by linarith
qed

text \<open>A bucket from the first of month \<open>a\<close> to the day before the first of month \<open>b\<close>.\<close>

lemma covers_months:
  assumes "utc_date t = (y, m, d)" "utc_day (tb_bucketStart b) = first_of_month a" "utc_day (tb_bucketEnd b) = first_of_month c - 1"
  shows "covers b t \<longleftrightarrow> a \<le> 12 * y + m - 1 \<and> 12 * y + m \<le> c"
  using in_months [OF assms(1)] by (simp add: covers_def assms(2,3) zle_diff1_eq)

lemma covers_whole_month:
  assumes "whole_month b" "tb_periodKey b = buildPeriodKey t MONTHLY" "utc_date t = (y, m, d)" "100 \<le> y"
    "utc_date t' = (y', m', d')"
  shows "covers b t' \<longleftrightarrow> y' = y \<and> m' = m"
proof -
  obtain t0 y0 m0 d0 where b: "utc_date t0 = (y0, m0, d0)" "tb_periodKey b = buildPeriodKey t0 MONTHLY"
      "tb_bucketStart b = date_utc y0 (m0 - 1) 1" "tb_bucketEnd b = date_utc y0 m0 0"
    using assms(1) by (auto simp: whole_month_def)
  then have "y0 = y \<and> m0 = m" using monthly_key_inj [OF b(1) assms(3)] assms(2) by simp
  then have "covers b t' \<longleftrightarrow> 12 * y + (m - 1) \<le> 12 * y' + m' - 1 \<and> 12 * y' + m' \<le> 12 * y + m"
    using b(3,4) assms(4) by (intro covers_months [OF assms(5)]) (simp_all add: utc_day_date)
  also have "\<dots> \<longleftrightarrow> y' = y \<and> m' = m"
    using utc_date_right(2,3) [OF assms(3)] utc_date_right(2,3) [OF assms(5)] by (cases y y' rule: linorder_cases) auto
  finally show ?thesis .
qed

lemma got_month:
  assumes "buckets_reachable s" "getBucketOrThrow tn t MONTHLY af s = (Inr b, s')"
  shows "whole_month b" "tb_periodKey b = buildPeriodKey t MONTHLY"
proof -
  have "months_ok s'" by (rule reachable_months, rule buckets_reachable.step [OF assms(1)], rule bucket_step.get [OF assms(2)])
  moreover have "b \<in> set (timeBuckets s')" "is_bucket tn MONTHLY (buildPeriodKey t MONTHLY) b"
    using find_in [OF found_again [OF assms(2) refl]] by simp_all
  ultimately show "whole_month b" "tb_periodKey b = buildPeriodKey t MONTHLY" by (auto simp: months_ok_def is_bucket_def)
qed

text \<open>The second of two calls with the same key finds the bucket of the first.\<close>

lemma get_again:
  assumes "getBucketOrThrow tn t ty af s = (Inr b, s')" "buildPeriodKey t' ty = buildPeriodKey t ty"
  shows "getBucketOrThrow tn t' ty af s' = (Inr b, s')"
proof -
  have "\<not> (tb_isFrozen b \<and> \<not> af)" using assms(1) by (auto simp: run_getBucket Let_def split: option.splits if_splits)
  then show ?thesis using found_again [OF assms] by (simp add: run_getBucket Let_def)
qed

lemma covers_fiscal_year:
  assumes "utc_date t = (y, m, d)" "utc_date t' = (y, m', d')" "101 \<le> y" "0 \<le> f" "f \<le> 11"
  shows "covers (bucket_row tn t YEARLY key f i) t' \<longleftrightarrow> (f \<le> m - 1 \<longleftrightarrow> f \<le> m' - 1)"
proof -
  define fy where "fy = (if f \<le> m - 1 then y else y - 1)"
  have "bucket_fields f t YEARLY = (date_utc fy f 1, date_utc fy (f + 12) 0, fy, None, None, None)"
    by (simp only: bucket_fields_def assms(1) Let_def prod.case PeriodType.case fy_def)
  then have "covers (bucket_row tn t YEARLY key f i) t' \<longleftrightarrow> 12 * fy + f \<le> 12 * y + m' - 1 \<and> 12 * y + m' \<le> 12 * fy + (f + 12)"
    using assms(3) by (intro covers_months [OF assms(2)]) (auto simp: bucket_row_def utc_day_date fy_def)
  then show ?thesis using utc_date_right(2,3) [OF assms(2)] assms(4,5) by (auto simp: fy_def)
qed

end
