(* ===== verification/PlanningProperties.thy ===== *)
theory PlanningProperties
  imports PlanningExample ReviewRuns BucketRuns
begin

text \<open>
  The properties of the planning module: the approval workflow, the plans that go through it,
  and the time buckets.
\<close>

section \<open>The workflow\<close>

text \<open>
  C27: in every state that the workflow, the administration of its templates, the plans and the
  scenarios reach in any order, the steps of every template are numbered from 1 without gaps, an
  active template has at least three, an entity has at most one active instance, nobody approves
  a step of an instance twice, and every step an instance has passed, or was approved at, has an
  approval.
\<close>

theorem workflow_well_formed:
  assumes "planning_reachable s"
  shows "numbered (step_numbers i s) \<and>
    (t \<in> set (workflowTemplates s) \<longrightarrow> wt_isActive t \<longrightarrow> 3 \<le> length (step_numbers (wt_id t) s)) \<and>
    distinct (active_keys s) \<and> distinct (approvers j k s) \<and>
    (r \<in> set (workflowInstances s) \<longrightarrow> passed r k \<longrightarrow> approvers (wn_id r) k s \<noteq> [])"
  using reachable_workflow [OF assms]
  by (simp add: workflow_ok_def templates_ok_def instances_ok_def approvals_ok_def)

theorem workflow_well_formed_witness:
  "numbered (step_numbers 10 submitted) \<and> step_numbers 10 submitted = [1, 2, 3] \<and> length (active_keys submitted) = 1"
proof -
  have "step_numbers 10 submitted = [1, 2, 3]" "length (active_keys submitted) = 1" by code_simp+
  then show ?thesis using workflow_well_formed [OF submitted_reachable, of 10] by simp
qed

text \<open>
  C28: an approval succeeds only for a user whose turn it is and who has not approved the current
  step; it adds that one approval, and the instance moves on, or is approved at the last step,
  exactly when as many different users as the step requires have approved.  A refused approval
  changes nothing.
\<close>

theorem approve_decides:
  assumes "planning_reachable s"
  shows "wp (approve i u c tn)
    (\<lambda>r t. \<exists>row step. turn tn i u s row step \<and> u \<notin> set (approvers i (wn_currentStep row) s) \<and>
       approvers i (wn_currentStep row) t = approvers i (wn_currentStep row) s @ [u] \<and>
       (let enough = ws_requiredApprovals step \<le> int (length (approvers i (wn_currentStep row) t))
        in wn_status r = (if enough \<and> last_step row step s then WorkflowStatus.APPROVED else IN_PROGRESS) \<and>
           wn_currentStep r = wn_currentStep row + (if enough \<and> \<not> last_step row step s then 1 else 0)) \<and>
       find_by wn_id i (workflowInstances t) = Some r)
    (\<lambda>e t. t = s \<and> (\<forall>row step. turn tn i u s row step \<longrightarrow> u \<in> set (approvers i (wn_currentStep row) s))) s"
proof -
  have ok: "workflow_ok s" by (rule reachable_workflow [OF assms])
  have found: "find_by wn_id i (set_row wn_id i (approval_row row step u s) (workflowInstances s)) = Some (approval_row row step u s row)"
    if "turn tn i u s row step" for row step
    using turn_row [OF that] find_by_unique [of wn_id "workflowInstances s" row] ok
    by (simp add: find_by_set_row workflow_ok_def instances_ok_def approval_row_def)
  have count: "length (remdups (approvers i k s @ [u])) = length (approvers i k s) + 1" if "u \<notin> set (approvers i k s)" for k
    using that ok by (simp add: workflow_ok_def approvals_ok_def distinct_remdups_id)
  have "\<exists>row step. turn tn i u s row step \<and> u \<notin> set (approvers i (wn_currentStep row) s) \<and>
       approvers i (wn_currentStep row) t = approvers i (wn_currentStep row) s @ [u] \<and>
       (let enough = ws_requiredApprovals step \<le> int (length (approvers i (wn_currentStep row) t))
        in wn_status r = (if enough \<and> last_step row step s then WorkflowStatus.APPROVED else IN_PROGRESS) \<and>
           wn_currentStep r = wn_currentStep row + (if enough \<and> \<not> last_step row step s then 1 else 0)) \<and>
       find_by wn_id i (workflowInstances t) = Some r"
    if "turn tn i u s row step" "u \<notin> set (approvers i (ws_sequence step) s)"
      "r = approval_row row step u s row" "t = approval_state row step u c s" for r t row step
  proof -
    note row = turn_row [OF that(1)]
    have r: "r = advanced step (last_step row step s) (approvers i (wn_currentStep row) s @ [u]) (clock s) row"
      by (simp add: that(3) approval_row_def row)
    have t: "approvers i (wn_currentStep row) t = approvers i (wn_currentStep row) s @ [u]"
      by (simp add: that(4) approval_state_def row)
    have "find_by wn_id i (workflowInstances t) = Some r"
      using found [OF that(1)] by (simp add: that(3,4) approval_state_def row)
    then show ?thesis
      using that(1,2) count [of "wn_currentStep row"] row(3,4)
      by (intro exI [of _ row] exI [of _ step]) (simp add: t, simp add: r advanced_def Let_def)
  qed
  then show ?thesis
    by (intro wp_call [OF approve_spec [OF workflow_okD(1) [OF ok]]]) (blast, metis turn_row(4))
qed

theorem approve_decides_witness:
  "\<exists>t. (\<exists>r. approve 18 1 None None submitted = (Inr r, t) \<and> wn_currentStep r = 2) \<and> approvers 18 1 t = [1]"
proof -
  have "\<not> isl (fst (approve 18 1 None None submitted))" unfolding submitted_eq by code_simp
  then obtain r t where run: "approve 18 1 None None submitted = (Inr r, t)"
    using ran_ok [of "approve 18 1 None None" submitted] by blast
  moreover have "wn_currentStep (projr (fst (approve 18 1 None None submitted))) = 2"
    "approvers 18 1 (snd (approve 18 1 None None submitted)) = [1]" unfolding submitted_eq by code_simp+
  ultimately show ?thesis using approve_decides [OF submitted_reachable, of 18 1 None None] by (auto simp: wp_def)
qed

text \<open>
  C29: the pending approvals of a user are the running instances of the tenant at whose current
  step it is the user's turn, except the steps for a role that name no role: those everybody may
  approve, and nobody is told.
\<close>

theorem pending_is_turn:
  assumes "planning_reachable s" "getMyPendingApprovals tn u s = (Inr rows, t)"
  shows "r \<in> set rows \<longleftrightarrow> (\<exists>step. turn (Some tn) (wn_id r) u s r step \<and>
           \<not> (ws_approverType step = ROLE \<and> ws_approverRole step = None))"
  by (rule pending_turn [OF reachable_workflow [OF assms(1)] assms(2)])

theorem pending_is_turn_witness:
  "\<exists>rows t r step. getMyPendingApprovals 7 1 submitted = (Inr rows, t) \<and> r \<in> set rows \<and> turn (Some 7) 18 1 submitted r step"
proof -
  have "\<not> isl (fst (getMyPendingApprovals 7 1 submitted))" unfolding submitted_eq by code_simp
  then obtain rows t where run: "getMyPendingApprovals 7 1 submitted = (Inr rows, t)"
    using ran_ok [of "getMyPendingApprovals 7 1" submitted] by blast
  have "map wn_id (projr (fst (getMyPendingApprovals 7 1 submitted))) = [18]" unfolding submitted_eq by code_simp
  then obtain r where "rows = [r]" "wn_id r = 18" by (auto simp: run simp del: One_nat_def)
  then show ?thesis using run pending_is_turn [OF submitted_reachable run, of r] by auto
qed



section \<open>Plans\<close>

text \<open>
  C31: a plan that its approval returns as approved was in review, and the newest workflow
  instance of the plan has just been approved: every step of its template has an approval, and
  the last one as many as it requires.
\<close>

theorem plan_approval_reviewed:
  assumes "planning_reachable s" "approvePlan p user s = (Inr plan, t)" "pv_status plan = PlanStatus.APPROVED"
  shows "\<exists>old row r. plan_found p user s = Some old \<and> pv_status old = IN_REVIEW \<and>
    latest_instance (us_tenantId user) PLAN_VERSION p s = Some row \<and>
    find_by wn_id (wn_id row) (workflowInstances t) = Some r \<and> wn_status r = WorkflowStatus.APPROVED \<and>
    (\<forall>w \<in> set (steps_of (wn_templateId row) s). approvers (wn_id row) (ws_sequence w) t \<noteq> []) \<and>
    ws_requiredApprovals (last (steps_of (wn_templateId row) s)) \<le> int (length (approvers (wn_id row) (wn_currentStep row) t))"
  by (rule approved_plan [OF reachable_workflow [OF assms(1)] assms(2,3)])

theorem plan_approval_reviewed_witness:
  "\<exists>plan t row. approvePlan 14 admin third = (Inr plan, t) \<and> approvers 18 3 t = [1] \<and>
     latest_instance 7 PLAN_VERSION 14 third = Some row"
proof -
  note eval = third_def at_step_def submitted_eq
  have "\<not> isl (fst (approvePlan 14 admin third))" unfolding eval by code_simp
  then obtain plan t where run: "approvePlan 14 admin third = (Inr plan, t)"
    using ran_ok [of "approvePlan 14 admin" third] by blast
  have "pv_status (projr (fst (approvePlan 14 admin third))) = PlanStatus.APPROVED"
    "approvers 18 3 (snd (approvePlan 14 admin third)) = [1]" unfolding eval by code_simp+
  then have "pv_status plan = PlanStatus.APPROVED" "approvers 18 3 t = [1]" by (simp_all add: run)
  then show ?thesis using plan_approval_reviewed [OF third_reachable run] run by (auto simp: admin_def)
qed

text \<open>
  A locked plan cannot be deleted, but the archive takes it whatever its status, and an
  archived plan can: its row and its scenarios are gone.
\<close>

theorem archive_unlocks:
  assumes "plan_found i user s = Some plan" "pv_status plan = LOCKED"
  shows "removePlan i user s = (Inl BadRequestException, s) \<and>
    (\<exists>archived t u. archivePlan i user s = (Inr archived, t) \<and> removePlan i user t = (Inr (), u) \<and>
       i \<notin> pv_id ` set (planVersions u) \<and> i \<notin> se_planVersionId ` set (scenarios u))"
  by (simp add: run_removePlan [OF assms(1)] assms(2) run_archivePlan [OF assms(1)] removed_archived [OF assms(1)])

definition locked_budget :: planning where
  "locked_budget = submitted\<lparr>planVersions := map (\<lambda>p. p\<lparr>pv_status := LOCKED, pv_isLocked := True\<rparr>) (planVersions submitted)\<rparr>"

theorem archive_unlocks_witness:
  "removePlan 14 admin locked_budget = (Inl BadRequestException, locked_budget) \<and>
     (\<exists>archived t u. archivePlan 14 admin locked_budget = (Inr archived, t) \<and> removePlan 14 admin t = (Inr (), u))"
proof -
  have "map_option pv_status (plan_found 14 admin locked_budget) = Some LOCKED"
    unfolding locked_budget_def submitted_eq by code_simp
  then show ?thesis using archive_unlocks [of 14 admin locked_budget] by blast
qed

section \<open>Time buckets\<close>

text \<open>
  C32: in every reachable state a monthly bucket is the month it is asked for: it covers exactly
  the dates of that month, and each of them is given the same bucket again.
\<close>

theorem month_has_one_bucket:
  assumes "buckets_reachable s" "getBucketOrThrow tn t MONTHLY allowFrozen s = (Inr b, s')"
    "utc_date t = (y, m, d)" "100 \<le> y" "utc_date t' = (y', m', d')"
  shows "(covers b t' \<longleftrightarrow> y' = y \<and> m' = m) \<and>
    (y' = y \<and> m' = m \<longrightarrow> getBucketOrThrow tn t' MONTHLY allowFrozen s' = (Inr b, s'))"
  using covers_whole_month [OF got_month [OF assms(1,2)] assms(3-5)]
    get_again [OF assms(2)] monthly_key_inj [OF assms(5,3)] by simp

theorem month_has_one_bucket_witness:
  "\<exists>b s'. getBucketOrThrow 7 (days_from_civil 2024 2 1 * MS_PER_DAY) MONTHLY False empty_planning = (Inr b, s') \<and>
     covers b (days_from_civil 2024 2 29 * MS_PER_DAY) \<and> \<not> covers b (days_from_civil 2024 3 1 * MS_PER_DAY)"
proof -
  let ?t = "days_from_civil 2024 2 1 * MS_PER_DAY"
  have dates: "utc_date ?t = (2024, 2, 1)" "utc_date (days_from_civil 2024 2 29 * MS_PER_DAY) = (2024, 2, 29)"
    "utc_date (days_from_civil 2024 3 1 * MS_PER_DAY) = (2024, 3, 1)" by code_simp+
  obtain b s' where run: "getBucketOrThrow 7 ?t MONTHLY False empty_planning = (Inr b, s')"
    by (simp add: run_getBucket empty_planning_def Let_def)
  have "buckets_reachable empty_planning" by (rule buckets_reachable.start) (simp add: empty_planning_def)
  from month_has_one_bucket [OF this run dates(1) _ dates(2)] month_has_one_bucket [OF this run dates(1) _ dates(3)]
  show ?thesis using run by auto
qed

text \<open>
  A yearly bucket has the key of the calendar year and the dates of the fiscal year.  Every
  date of the calendar year is given the bucket of the first one asked for, and that bucket
  covers it only when the two dates lie on the same side of the start of the fiscal year.
\<close>

theorem year_bucket_misses:
  assumes "find (is_bucket tn YEARLY (buildPeriodKey t YEARLY)) (timeBuckets s) = None"
    "getBucketOrThrow tn t YEARLY allowFrozen s = (Inr b, s')"
    "utc_date t = (y, m, d)" "101 \<le> y" "utc_date t' = (y, m', d')"
    "0 \<le> fiscal_start tn YEARLY s" "fiscal_start tn YEARLY s \<le> 11"
  shows "getBucketOrThrow tn t' YEARLY allowFrozen s' = (Inr b, s') \<and>
    (covers b t' \<longleftrightarrow> (fiscal_start tn YEARLY s \<le> m - 1 \<longleftrightarrow> fiscal_start tn YEARLY s \<le> m' - 1))"
proof -
  have "b = bucket_row tn t YEARLY (buildPeriodKey t YEARLY) (fiscal_start tn YEARLY s) (next_id s)"
    using assms(1,2) by (auto simp: run_getBucket Let_def)
  moreover have "buildPeriodKey t' YEARLY = buildPeriodKey t YEARLY" by (simp add: buildPeriodKey_def assms(3,5))
  ultimately show ?thesis using get_again [OF assms(2)] covers_fiscal_year [OF assms(3,5,4,6,7)] by simp
qed

theorem year_bucket_misses_witness:
  "\<exists>b s'. getBucketOrThrow 7 (days_from_civil 2024 5 2 * MS_PER_DAY) YEARLY False empty_planning = (Inr b, s') \<and>
     getBucketOrThrow 7 (days_from_civil 2024 2 1 * MS_PER_DAY) YEARLY False s' = (Inr b, s') \<and>
     \<not> covers b (days_from_civil 2024 2 1 * MS_PER_DAY)"
proof -
  let ?t = "days_from_civil 2024 5 2 * MS_PER_DAY"
  have dates: "utc_date ?t = (2024, 5, 2)" "utc_date (days_from_civil 2024 2 1 * MS_PER_DAY) = (2024, 2, 1)" by code_simp+
  obtain b s' where run: "getBucketOrThrow 7 ?t YEARLY False empty_planning = (Inr b, s')"
    by (simp add: run_getBucket empty_planning_def Let_def)
  have "find (is_bucket 7 YEARLY (buildPeriodKey ?t YEARLY)) (timeBuckets empty_planning) = None"
    "fiscal_start 7 YEARLY empty_planning = 3" by (simp_all add: empty_planning_def fiscal_start_def)
  then show ?thesis using year_bucket_misses [OF _ run dates(1) _ dates(2)] run by auto
qed

end
