(* ===== verification/Doubles.thy ===== *)
theory Doubles
  imports JsLib
begin

text \<open>
  The numbers of JavaScript where their rounding shows: IEEE doubles as the rationals they stand
  for.  \<open>double x\<close> is the nearest number of 53 significant binary digits, ties to even; exponents
  are unbounded, since the quantities computed with stay far from overflow and underflow.
\<close>

section \<open>Powers of two\<close>

definition pow2 :: "int \<Rightarrow> rat" where
  "pow2 k = (if 0 \<le> k then 2 ^ nat k else 1 / 2 ^ nat (- k))"

lemma pow2_powi: "pow2 k = 2 powi k"
  by (simp add: pow2_def power_int_def power_one_over inverse_eq_divide)

lemma pow2_pos [simp]: "0 < pow2 k"
  by (simp add: pow2_def)

lemma pow2_nonzero [simp]: "pow2 k \<noteq> 0"
  using pow2_pos [of k] by linarith

lemma pow2_add: "pow2 (a + b) = pow2 a * pow2 b"
  by (simp add: pow2_powi power_int_add)

lemma pow2_0 [simp]: "pow2 0 = 1"
  by (simp add: pow2_def)

lemma pow2_Suc: "pow2 (k + 1) = 2 * pow2 k"
  by (simp add: pow2_add pow2_def [of 1])

lemma pow2_minus: "pow2 k * pow2 (- k) = 1"
  using pow2_add [of k "- k"] by simp

lemma pow2_mono: "a \<le> b \<Longrightarrow> pow2 a \<le> pow2 b"
  by (simp add: pow2_powi power_int_increasing)

lemma pow2_less: "a < b \<Longrightarrow> pow2 a < pow2 b"
  by (simp add: pow2_powi power_int_strict_increasing)

lemma pow2_nat: "0 \<le> k \<Longrightarrow> pow2 k = of_int (2 ^ nat k)"
  by (simp add: pow2_def)

text \<open>The exponent of the leading binary digit of a positive natural number.\<close>

function log2 :: "int \<Rightarrow> int" where
  "log2 n = (if n \<le> 1 then 0 else 1 + log2 (n div 2))"
  by pat_completeness auto
termination by (relation "measure nat") auto

declare log2.simps [simp del]

text \<open>Its evaluation, which unfolds only on numerals, so that it may stand under a binder.\<close>

definition log2_if :: "bool \<Rightarrow> int \<Rightarrow> int" where
  "log2_if c n = (if c then log2 n else 0)"

lemma log2_code [code]: "log2 n = log2_if (1 < n) n"
  by (simp add: log2_if_def log2.simps)

lemma log2_if_code [code]:
  "log2_if False n = 0"
  "log2_if True n = (if n \<le> 1 then 0 else 1 + log2_if (1 < n div 2) (n div 2))"
  by (simp_all add: log2_if_def log2.simps)

lemma log2_bounds: "0 < n \<Longrightarrow> 0 \<le> log2 n \<and> 2 ^ nat (log2 n) \<le> n \<and> n < 2 * 2 ^ nat (log2 n)"
proof (induction n rule: log2.induct)
  case (1 n)
  show ?case
  proof (cases "n \<le> 1")
    case True
    then show ?thesis using 1 by (simp add: log2.simps)
  next
    case False
    then have "0 \<le> log2 (n div 2)" "2 ^ nat (log2 (n div 2)) \<le> n div 2" "n div 2 < 2 * 2 ^ nat (log2 (n div 2))"
      using 1 by simp_all
    then show ?thesis using False by (subst (1 2 3) log2.simps) (simp add: nat_add_distrib, linarith)
  qed
qed

definition binary_exponent :: "rat \<Rightarrow> int" where
  "binary_exponent x =
     (let (p, q) = quotient_of \<bar>x\<bar>; e = log2 p - log2 q
      in if pow2 e \<le> \<bar>x\<bar> then e else e - 1)"

lemma binary_exponent_bounds:
  assumes "x \<noteq> 0"
  shows "pow2 (binary_exponent x) \<le> \<bar>x\<bar> \<and> \<bar>x\<bar> < pow2 (binary_exponent x + 1)"
proof -
  obtain p q where pq: "quotient_of \<bar>x\<bar> = (p, q)" by fastforce
  have x: "\<bar>x\<bar> = of_int p / of_int q" "0 < q" using quotient_of_div [OF pq] quotient_of_denom_pos [OF pq] by simp_all
  have p: "0 < p"
  proof (rule ccontr)
    assume "\<not> 0 < p"
    then have "of_int p / of_int q \<le> (0 :: rat)" using x(2) by (intro divide_nonpos_pos) simp_all
    then show False using x(1) assms by simp
  qed
  define a b where ab: "a = nat (log2 p)" "b = nat (log2 q)"
  have digits: "2 ^ nat (log2 k) \<le> (of_int k :: rat)" "(of_int k :: rat) < 2 * 2 ^ nat (log2 k)" if "0 < k" for k
  proof -
    have "of_int (2 ^ nat (log2 k)) \<le> (of_int k :: rat)" "(of_int k :: rat) < of_int (2 * 2 ^ nat (log2 k))"
      using log2_bounds [OF that] by (simp_all only: of_int_le_iff of_int_less_iff)
    then show "2 ^ nat (log2 k) \<le> (of_int k :: rat)" "(of_int k :: rat) < 2 * 2 ^ nat (log2 k)" by simp_all
  qed
  note P = digits [OF p, folded ab] and Q = digits [OF x(2), folded ab]
  have e: "pow2 (int a - int b) = 2 ^ a / 2 ^ b"
    using pow2_add [of "int a" "- int b"] by (simp add: pow2_def)
  have "\<bar>x\<bar> < 2 * pow2 (int a - int b)" "pow2 (int a - int b - 1) < \<bar>x\<bar>"
  proof -
    have "of_int p * 2 ^ b < 2 * 2 ^ a * (of_int q :: rat)"
      using P(2) Q(1) x(2) p by (intro mult_less_le_imp_less) simp_all
    then show "\<bar>x\<bar> < 2 * pow2 (int a - int b)" using x(2) by (simp add: x(1) e field_simps)
    have "2 ^ a * of_int q < of_int p * (2 * 2 ^ b :: rat)"
      using P(1) Q(2) p x(2) by (intro mult_le_less_imp_less) simp_all
    moreover have "pow2 (int a - int b) = 2 * pow2 (int a - int b - 1)" using pow2_Suc [of "int a - int b - 1"] by simp
    ultimately show "pow2 (int a - int b - 1) < \<bar>x\<bar>" using x(2) e by (simp add: x(1) field_simps)
  qed
  then show ?thesis
    using pow2_Suc [of "int a - int b"] log2_bounds [OF p] log2_bounds [OF x(2)] by (auto simp: binary_exponent_def pq ab Let_def)
qed

section \<open>Rounding\<close>

text \<open>To the nearest integer, ties to even.\<close>

definition round_even :: "rat \<Rightarrow> int" where
  "round_even x =
     (let n = \<lfloor>x\<rfloor>; d = x - of_int n in if d < 1 / 2 \<or> d = 1 / 2 \<and> even n then n else n + 1)"

definition double :: "rat \<Rightarrow> rat" where
  "double x = (if x = 0 then 0
     else let k = 52 - binary_exponent x in of_int (round_even (x * pow2 k)) * pow2 (- k))"

text \<open>The operations of JavaScript on numbers.\<close>

definition num_add :: "rat \<Rightarrow> rat \<Rightarrow> rat" where
  "num_add x y = double (x + y)"

definition num_sub :: "rat \<Rightarrow> rat \<Rightarrow> rat" where
  "num_sub x y = double (x - y)"

definition num_mul :: "rat \<Rightarrow> rat \<Rightarrow> rat" where
  "num_mul x y = double (x * y)"

definition num_div :: "rat \<Rightarrow> rat \<Rightarrow> rat" where
  "num_div x y = double (x / y)"

text \<open>\<open>Math.ceil\<close>, which is exact, and \<open>x?.toNumber() || d\<close> of a decimal column.\<close>

definition math_ceil :: "rat \<Rightarrow> rat" where
  "math_ceil x = of_int \<lceil>x\<rceil>"

definition number_or :: "rat option \<Rightarrow> rat \<Rightarrow> rat" where
  "number_or x d = (case x of None \<Rightarrow> d | Some v \<Rightarrow> if double v = 0 then d else double v)"

lemma round_even_int [simp]: "round_even (of_int n) = n"
  by (simp add: round_even_def)

lemma round_even_mono:
  assumes "x \<le> y"
  shows "round_even x \<le> round_even y"
proof (cases "\<lfloor>x\<rfloor> = \<lfloor>y\<rfloor>")
  case True
  then show ?thesis using assms by (auto simp: round_even_def Let_def)
next
  case False
  then have "\<lfloor>x\<rfloor> + 1 \<le> \<lfloor>y\<rfloor>" using floor_mono [OF assms] by simp
  then show ?thesis by (auto simp: round_even_def Let_def)
qed

lemma round_even_ge: "of_int n \<le> x \<Longrightarrow> n \<le> round_even x"
  using round_even_mono [of "of_int n" x] by simp

lemma round_even_le: "x \<le> of_int n \<Longrightarrow> round_even x \<le> n"
  using round_even_mono [of x "of_int n"] by simp

section \<open>Doubles\<close>

lemma double_0 [simp]: "double 0 = 0"
  by (simp add: double_def)

text \<open>A rounded number stays between the powers of two around it.\<close>

lemma double_pos:
  assumes "0 < x"
  shows "pow2 (binary_exponent x) \<le> double x" "double x \<le> pow2 (binary_exponent x + 1)"
proof -
  define e where "e = binary_exponent x"
  have b: "pow2 e \<le> x" "x < pow2 (e + 1)" using binary_exponent_bounds [of x] assms by (simp_all add: e_def)
  have scale: "pow2 (e + i) * pow2 (52 - e) = of_int (2 ^ nat (52 + i))" if "0 \<le> i" for i
    using pow2_add [of "e + i" "52 - e"] that by (simp add: pow2_nat add_ac)
  have unscale: "of_int (2 ^ nat (52 + i)) * pow2 (- (52 - e)) = pow2 (e + i)" if "0 \<le> i" for i
    using scale [OF that] pow2_minus [of "52 - e"] by (metis mult.assoc mult.right_neutral)
  have "of_int (2 ^ nat (52 + 0)) \<le> x * pow2 (52 - e)" "x * pow2 (52 - e) \<le> of_int (2 ^ nat (52 + 1))"
    unfolding scale [symmetric, OF order_refl] scale [of 1, symmetric, OF zero_le_one] using b by (simp_all add: mult_right_mono)
  then have "2 ^ nat (52 + 0) \<le> round_even (x * pow2 (52 - e))" "round_even (x * pow2 (52 - e)) \<le> 2 ^ nat (52 + 1)"
    using round_even_ge round_even_le by blast+
  then have "of_int (2 ^ nat (52 + 0)) * pow2 (- (52 - e)) \<le> double x" "double x \<le> of_int (2 ^ nat (52 + 1)) * pow2 (- (52 - e))"
    using assms by (auto simp: double_def Let_def e_def [symmetric] simp del: of_int_power intro!: mult_right_mono)
  then show "pow2 (binary_exponent x) \<le> double x" "double x \<le> pow2 (binary_exponent x + 1)"
    unfolding unscale [OF order_refl] unscale [OF zero_le_one] by (simp_all add: e_def)
qed

lemma double_minus: "double (- x) = - double x"
proof (cases "x = 0")
  case False
  have r: "round_even (- y) = - round_even y" for y
  proof (cases "y = of_int \<lfloor>y\<rfloor>")
    case True
    then show ?thesis by (metis of_int_minus round_even_int)
  next
    case False
    then have y: "of_int \<lfloor>y\<rfloor> < y" "y < of_int \<lfloor>y\<rfloor> + 1" using floor_correct [of y] by linarith+
    then have "\<lfloor>- y\<rfloor> = - \<lfloor>y\<rfloor> - 1" by (intro floor_unique) simp_all
    then show ?thesis using y by (auto simp: round_even_def Let_def)
  qed
  have "binary_exponent (- x) = binary_exponent x" by (simp add: binary_exponent_def)
  then show ?thesis using False by (simp add: double_def Let_def r)
qed simp

lemma double_mono_pos:
  assumes "0 < x" "x \<le> y"
  shows "double x \<le> double y"
proof -
  define e f where ef: "e = binary_exponent x" "f = binary_exponent y"
  have b: "pow2 e \<le> x" "x < pow2 (e + 1)" "pow2 f \<le> y" "y < pow2 (f + 1)"
    using binary_exponent_bounds [of x] binary_exponent_bounds [of y] assms by (simp_all add: ef)
  have "e \<le> f"
  proof (rule ccontr)
    assume "\<not> e \<le> f"
    then have "pow2 (f + 1) \<le> pow2 e" by (intro pow2_mono) simp
    then show False using b assms(2) by linarith
  qed
  then consider "e = f" | "e + 1 \<le> f" by linarith
  then show ?thesis
  proof cases
    case 1
    have "x * pow2 (52 - e) \<le> y * pow2 (52 - e)" using assms(2) by (simp add: mult_right_mono)
    then have "round_even (x * pow2 (52 - e)) \<le> round_even (y * pow2 (52 - e))" by (rule round_even_mono)
    then show ?thesis using assms 1 by (simp add: double_def Let_def ef [symmetric] mult_right_mono)
  next
    case 2
    have "double x \<le> pow2 (e + 1)" using double_pos(2) [OF assms(1)] by (simp add: ef)
    also have "\<dots> \<le> pow2 f" by (rule pow2_mono [OF 2])
    also have "\<dots> \<le> double y" using double_pos(1) [of y] assms by (simp add: ef)
    finally show ?thesis .
  qed
qed

lemma double_sign: "0 < x \<Longrightarrow> 0 < double x" "x < 0 \<Longrightarrow> double x < 0"
proof -
  show pos: "0 < double x" if "0 < x" for x using double_pos(1) [OF that] pow2_pos [of "binary_exponent x"] by linarith
  show "double x < 0" if "x < 0" using pos [of "- x"] that by (simp add: double_minus)
qed

lemma double_zero_iff [simp]: "double x = 0 \<longleftrightarrow> x = 0"
  using double_sign [of x] by (cases x "0 :: rat" rule: linorder_cases) auto

lemma double_pos_iff [simp]: "0 < double x \<longleftrightarrow> 0 < x"
  using double_sign [of x] by (cases x "0 :: rat" rule: linorder_cases) auto

lemma double_neg_iff [simp]: "double x < 0 \<longleftrightarrow> x < 0"
  using double_pos_iff [of "- x"] by (simp add: double_minus)

theorem double_mono: "x \<le> y \<Longrightarrow> double x \<le> double y"
proof -
  assume le: "x \<le> y"
  consider "0 < x" | "x \<le> 0" "0 \<le> y" | "y < 0" by linarith
  then show ?thesis
  proof cases
    case 1
    then show ?thesis using le by (rule double_mono_pos)
  next
    case 2
    then have "double x \<le> 0" "0 \<le> double y"
      using double_pos_iff [of x] double_neg_iff [of y] by linarith+
    then show ?thesis by linarith
  next
    case 3
    then have "double (- y) \<le> double (- x)" using le by (intro double_mono_pos) simp_all
    then show ?thesis by (simp add: double_minus)
  qed
qed

text \<open>What fits in 53 binary digits is exact.\<close>

theorem double_exact:
  assumes "\<bar>m\<bar> \<le> 2 ^ 53"
  shows "double (of_int m * pow2 j) = of_int m * pow2 j"
proof -
  have pos: "double (of_int m * pow2 j) = of_int m * pow2 j" if m: "0 < m" "m \<le> 2 ^ 53" for m :: int
  proof -
    define x where "x = of_int m * pow2 j"
    define e where "e = binary_exponent x"
    have x: "0 < x" using m by (simp add: x_def)
    have "pow2 e \<le> x" using binary_exponent_bounds [of x] x by (simp add: e_def)
    have "m < 2 ^ 53 \<Longrightarrow> e < 53 + j"
    proof (rule ccontr)
      assume "m < 2 ^ 53" "\<not> e < 53 + j"
      then have "pow2 (53 + j) \<le> x" using \<open>pow2 e \<le> x\<close> pow2_mono [of "53 + j" e] by linarith
      then have "pow2 53 \<le> of_int m" by (simp add: x_def pow2_add)
      then have "(2 :: int) ^ 53 \<le> m" by (simp add: pow2_def)
      then show False using \<open>m < 2 ^ 53\<close> by simp
    qed
    then consider "e \<le> 52 + j" | "m = 2 ^ 53" using m(2) by linarith
    then have "\<exists>k. x * pow2 (52 - e) = of_int k"
    proof cases
      case 1
      have "x * pow2 (52 - e) = of_int m * pow2 (j + (52 - e))" by (simp add: x_def pow2_add)
      also have "\<dots> = of_int (m * 2 ^ nat (j + (52 - e)))" using 1 by (simp add: pow2_nat)
      finally show ?thesis by blast
    next
      case 2
      have xp: "x = pow2 (53 + j)" by (simp add: x_def 2 pow2_add pow2_def [of 53])
      have "e = 53 + j"
      proof -
        have "pow2 (53 + j) < pow2 (e + 1)" "pow2 e \<le> pow2 (53 + j)"
          using binary_exponent_bounds [of x] x xp by (simp_all add: e_def)
        then show ?thesis
          using pow2_mono [of "e + 1" "53 + j"] pow2_less [of "53 + j" e] by linarith
      qed
      then have "x * pow2 (52 - e) = pow2 52" by (simp add: xp pow2_add [symmetric])
      then show ?thesis by (metis pow2_nat zero_le_numeral)
    qed
    then obtain k where k: "x * pow2 (52 - e) = of_int k" by blast
    have "double x = of_int k * pow2 (- (52 - e))" using x by (simp add: double_def Let_def e_def [symmetric] k)
    also have "\<dots> = x" using pow2_minus [of "52 - e"] by (simp add: k [symmetric] mult.assoc)
    finally show ?thesis by (simp add: x_def)
  qed
  consider "m = 0" | "0 < m" | "0 < - m" by linarith
  then show ?thesis
  proof cases
    case 1
    then show ?thesis by simp
  next
    case 2
    then show ?thesis using pos assms by simp
  next
    case 3
    then have "double (- (of_int m * pow2 j)) = - (of_int m * pow2 j)" using pos [of "- m"] assms by simp
    then show ?thesis by (simp add: double_minus)
  qed
qed

lemma double_int [simp]: "\<bar>m\<bar> \<le> 2 ^ 53 \<Longrightarrow> double (of_int m) = of_int m"
  using double_exact [of m 0] by simp

end
