(* ===== verification/MrpSchema.thy ===== *)
theory MrpSchema
  imports Doubles
begin

text \<open>
  The rows that material requirements planning reads and writes
  (\<open>apps/api/prisma/schema.prisma\<close>), one list per table.  Products, locations, work centers
  and suppliers have the text of their UUID as identifier, since the planning run
  builds keys from it, and tenants too; the other rows have natural numbers.  Quantities of
  \<open>Decimal\<close> columns are rationals, dates are milliseconds; columns no operation reads are left out.
\<close>

section \<open>Enumerations and errors\<close>

datatype BOMType = MANUFACTURING | ENGINEERING | SALES | PHANTOM
datatype SupplyType = STOCK | DIRECT_PURCHASE | SUBCONTRACT | TRANSFER
datatype BOMStatus = DRAFT | ACTIVE | OBSOLETE | PENDING_APPROVAL
datatype DimensionStatus = ACTIVE | INACTIVE | ARCHIVED
datatype LocationType = WAREHOUSE | STORE | DISTRIBUTION_CENTER | PLANT | OFFICE | VIRTUAL
datatype PurchaseOrderStatus = DRAFT | PENDING_APPROVAL | APPROVED | SENT | PARTIALLY_RECEIVED | RECEIVED | CLOSED | CANCELLED
datatype WorkOrderStatus = PLANNED | RELEASED | IN_PROGRESS | ON_HOLD | COMPLETED | CLOSED | CANCELLED
datatype PlannedOrderType = PURCHASE | PRODUCTION | TRANSFER | SUBCONTRACT
datatype PlannedOrderStatus = PLANNED | FIRMED | RELEASED | CANCELLED
datatype MRPRunType = REGENERATIVE | NET_CHANGE | SELECTIVE
datatype JobStatus = PENDING | QUEUED | PROCESSING | COMPLETED | FAILED | CANCELLED
datatype MRPExceptionType = PAST_DUE_ORDER | EXPEDITE | DEFER | CANCEL | SHORTAGE | EXCESS_INVENTORY
  | LEAD_TIME_VIOLATION | LOT_SIZE_VIOLATION | CAPACITY_OVERLOAD
datatype ExceptionSeverity = CRITICAL | HIGH | MEDIUM | LOW
datatype ExceptionStatus = OPEN | IN_PROGRESS | RESOLVED | IGNORED

text \<open>
  The exceptions of NestJS, the errors of the Prisma client (a unique constraint, a foreign key, a
  number too large for its column, an argument it refuses) and of \<open>new Decimal(undefined)\<close>.
\<close>

datatype mrp_error = BadRequestException | NotFoundException | PrismaRecordNotFound
  | PrismaUniqueViolation | PrismaForeignKeyViolation | PrismaValueOutOfRange | PrismaValidationError | DecimalError

section \<open>Master data\<close>

type_synonym uuid_string = string

record mrp_product =
  pr_id :: uuid_string
  pr_tenantId :: uuid_string
  pr_name :: string
  pr_unitOfMeasure :: "string option"
  pr_standardCost :: "rat option"

record mrp_bom =
  bm_id :: uuid
  bm_tenantId :: uuid_string
  bm_parentProductId :: uuid_string
  bm_name :: string
  bm_version :: string
  bm_type :: BOMType
  bm_status :: BOMStatus
  bm_effectiveFrom :: timestamp
  bm_effectiveTo :: "timestamp option"
  bm_baseQuantity :: rat
  bm_baseUOM :: string
  bm_notes :: "string option"

record bom_line =
  bl_id :: uuid
  bl_bomId :: uuid
  bl_componentProductId :: uuid_string
  bl_sequence :: int
  bl_quantity :: rat
  bl_uom :: string
  bl_scrapPercent :: rat
  bl_supplyType :: SupplyType
  bl_leadTimeOffset :: int
  bl_notes :: "string option"

record mrp_location =
  lc_id :: uuid_string
  lc_tenantId :: uuid_string
  lc_type :: LocationType
  lc_status :: DimensionStatus

record mrp_forecast =
  fr_tenantId :: uuid_string
  fr_productId :: "uuid_string option"
  fr_locationId :: "uuid_string option"
  fr_periodDate :: timestamp
  fr_forecastQuantity :: "rat option"

record inventory_level =
  il_tenantId :: uuid_string
  il_productId :: uuid_string
  il_locationId :: uuid_string
  il_availableQty :: rat

record inventory_policy =
  ip_tenantId :: uuid_string
  ip_productId :: uuid_string
  ip_locationId :: uuid_string
  ip_safetyStockQty :: "rat option"
  ip_minOrderQty :: "rat option"
  ip_multipleOrderQty :: "rat option"
  ip_leadTimeDays :: int

record mrp_supplier =
  su_id :: uuid_string
  su_tenantId :: uuid_string
  su_status :: DimensionStatus

record supplier_product =
  sp_supplierId :: uuid_string
  sp_productId :: uuid_string
  sp_isPrimary :: bool

record mrp_routing =
  rt_id :: uuid
  rt_tenantId :: uuid_string
  rt_bomId :: uuid
  rt_status :: BOMStatus

record routing_step =
  rs_routingId :: uuid
  rs_workCenterId :: uuid_string
  rs_sequence :: int
  rs_setupTime :: rat
  rs_runTimePerUnit :: rat

record work_center =
  wc_id :: uuid_string
  wc_tenantId :: uuid_string
  wc_status :: DimensionStatus

record work_center_capacity =
  cy_workCenterId :: uuid_string
  cy_effectiveFrom :: timestamp
  cy_effectiveTo :: "timestamp option"
  cy_capacityPerDay :: rat

section \<open>Open orders\<close>

record purchase_order =
  po_id :: uuid
  po_tenantId :: uuid_string
  po_locationId :: uuid_string
  po_status :: PurchaseOrderStatus
  po_expectedDate :: timestamp

record purchase_line =
  pl_purchaseOrderId :: uuid
  pl_productId :: uuid_string
  pl_quantity :: rat
  pl_receivedQty :: rat

record work_order =
  wo_tenantId :: uuid_string
  wo_productId :: uuid_string
  wo_locationId :: uuid_string
  wo_status :: WorkOrderStatus
  wo_plannedQty :: rat
  wo_completedQty :: rat
  wo_plannedEndDate :: timestamp

section \<open>Planning rows\<close>

record mrp_run =
  mr_id :: uuid
  mr_tenantId :: uuid_string
  mr_name :: string
  mr_runType :: MRPRunType
  mr_status :: JobStatus
  mr_planningHorizonDays :: int
  mr_frozenPeriodDays :: int
  mr_locationIds :: "uuid_string list"
  mr_productIds :: "uuid_string list"
  mr_respectLeadTimes :: bool
  mr_considerSafetyStock :: bool
  mr_netChange :: bool

record mrp_requirement =
  mq_mrpRunId :: uuid
  mq_productId :: uuid_string
  mq_locationId :: uuid_string
  mq_periodDate :: timestamp
  mq_grossRequirement :: rat
  mq_scheduledReceipts :: rat
  mq_projectedOnHand :: rat
  mq_netRequirement :: rat
  mq_plannedOrderReceipt :: rat
  mq_plannedOrderRelease :: rat

record mrp_exception =
  mx_id :: uuid
  mx_mrpRunId :: uuid
  mx_productId :: uuid_string
  mx_locationId :: uuid_string
  mx_exceptionType :: MRPExceptionType
  mx_severity :: ExceptionSeverity
  mx_affectedDate :: timestamp
  mx_currentValue :: rat
  mx_requiredValue :: rat
  mx_status :: ExceptionStatus
  mx_resolvedAt :: "timestamp option"
  mx_resolvedBy :: "uuid option"
  mx_resolution :: "string option"

record planned_order =
  pd_id :: uuid
  pd_tenantId :: uuid_string
  pd_mrpRunId :: "uuid option"
  pd_productId :: uuid_string
  pd_locationId :: uuid_string
  pd_orderType :: PlannedOrderType
  pd_status :: PlannedOrderStatus
  pd_startDate :: timestamp
  pd_dueDate :: timestamp
  pd_releaseDate :: "timestamp option"
  pd_quantity :: rat
  pd_supplierId :: "uuid_string option"
  pd_isFirmed :: bool
  pd_firmedAt :: "timestamp option"
  pd_notes :: "string option"

section \<open>State\<close>

record mrp =
  mrpProducts :: "mrp_product list"
  boms :: "mrp_bom list"
  bomLines :: "bom_line list"
  mrpLocations :: "mrp_location list"
  forecastRows :: "mrp_forecast list"
  inventoryRows :: "inventory_level list"
  policyRows :: "inventory_policy list"
  mrpSuppliers :: "mrp_supplier list"
  supplierProducts :: "supplier_product list"
  mrpRoutings :: "mrp_routing list"
  routingSteps :: "routing_step list"
  workCenters :: "work_center list"
  workCenterCapacities :: "work_center_capacity list"
  purchaseOrders :: "purchase_order list"
  purchaseLines :: "purchase_line list"
  workOrders :: "work_order list"
  mrpRuns :: "mrp_run list"
  mrpRequirements :: "mrp_requirement list"
  mrpExceptions :: "mrp_exception list"
  plannedOrders :: "planned_order list"
  next_row :: uuid

type_synonym 'a mrp_prog = "(mrp, mrp_error, 'a) prog"

definition new_row :: "uuid mrp_prog" where
  "new_row = bind (gets next_row) (\<lambda>i. seq (modify (\<lambda>s. s\<lparr>next_row := i + 1\<rparr>)) (return i))"

text \<open>\<open>Decimal(p, d)\<close> columns round to \<open>d\<close> decimals and refuse what needs more than \<open>p\<close> digits.\<close>

definition fits :: "nat \<Rightarrow> nat \<Rightarrow> rat \<Rightarrow> bool" where
  "fits p d x \<longleftrightarrow> \<bar>round_away d x\<bar> < 10 ^ (p - d)"

text \<open>The day that a \<open>DATE\<close> column keeps, and numbering from \<open>n\<close>.\<close>

definition to_date :: "timestamp \<Rightarrow> timestamp" where
  "to_date t = utc_day t * MS_PER_DAY"

definition numbered_from :: "uuid \<Rightarrow> 'a list \<Rightarrow> ('a \<times> uuid) list" where
  "numbered_from n xs = zip xs [n ..< n + length xs]"

text \<open>A JavaScript \<open>Map\<close>: its entries in the order of their first insertion.\<close>

definition put :: "'k \<Rightarrow> 'v \<Rightarrow> ('k \<times> 'v) list \<Rightarrow> ('k \<times> 'v) list" where
  "put k v m = (if k \<in> fst ` set m then map (\<lambda>e. if fst e = k then (k, v) else e) m else m @ [(k, v)])"

definition put_all :: "('k \<times> 'v) list \<Rightarrow> ('k \<times> 'v) list" where
  "put_all es = fold (\<lambda>(k, v). put k v) es []"

lemma map_of_put [simp]: "map_of (put k v m) = (map_of m)(k \<mapsto> v)"
proof -
  have "map_of (map (\<lambda>e. if fst e = k then (k, v) else e) m) = (map_of m)(k \<mapsto> v)" if "k \<in> fst ` set m"
    using that
  proof (induction m)
    case (Cons e m)
    show ?case
    proof (cases "k \<in> fst ` set m")
      case True
      then show ?thesis using Cons by (cases e) (auto simp: fun_upd_twist)
    next
      case False
      then have "map (\<lambda>e. if fst e = k then (k, v) else e) m = m" by (intro map_idI) (auto simp: image_iff)
      then show ?thesis using Cons.prems False by (cases e) auto
    qed
  qed simp
  moreover have "map_of (m @ [(k, v)]) = (map_of m)(k \<mapsto> v)" if "k \<notin> fst ` set m"
  proof -
    have "map_of m k = None" using that by (simp add: map_of_eq_None_iff)
    then show ?thesis by (auto simp: map_add_def fun_eq_iff split: option.split)
  qed
  ultimately show ?thesis by (simp add: put_def)
qed

lemma map_of_put_all: "map_of (put_all es) = map_of (rev es)"
proof -
  have "map_of (fold (\<lambda>(k, v). put k v) es m) = map_of m ++ map_of (rev es)" for m
    by (induction es arbitrary: m) (auto simp: map_add_upd_left)
  then show ?thesis by (simp add: put_all_def)
qed

end
