(* ===== verification/Mrp.thy ===== *)
theory Mrp
  imports MrpSchema
begin

text \<open>
  Material requirements planning: \<open>calculateMRP\<close> of \<open>manufacturing.service.ts\<close>.  \<open>zone\<close> is the
  offset of the server's local time from UTC in milliseconds, constant as in a zone without summer
  time; \<open>DATE\<close> columns keep the UTC day of what they are given or compared with.
\<close>

section \<open>Dates\<close>

text \<open>\<open>d.setHours(0, 0, 0, 0)\<close>, \<open>d.setDate(d.getDate() + n)\<close> and \<open>d.getDay()\<close>.\<close>

definition local_midnight :: "int \<Rightarrow> timestamp \<Rightarrow> timestamp" where
  "local_midnight zone t = (t + zone) div MS_PER_DAY * MS_PER_DAY - zone"

definition add_days :: "timestamp \<Rightarrow> int \<Rightarrow> timestamp" where
  "add_days t n = t + n * MS_PER_DAY"

definition local_weekday :: "int \<Rightarrow> timestamp \<Rightarrow> int" where
  "local_weekday zone t = ((t + zone) div MS_PER_DAY + 4) mod 7"

definition between_dates :: "timestamp \<Rightarrow> timestamp \<Rightarrow> timestamp \<Rightarrow> bool" where
  "between_dates a b d \<longleftrightarrow> to_date a \<le> d \<and> d \<le> to_date b"

text \<open>\<open>getWeekStart\<close>: the Sunday, as the UTC date of its local midnight.\<close>

definition getWeekStart :: "int \<Rightarrow> timestamp \<Rightarrow> string" where
  "getWeekStart zone d = iso_date (add_days (local_midnight zone d) (- local_weekday zone (local_midnight zone d)))"

text \<open>The weekly buckets: \<open>while (bucketDate <= horizonEnd)\<close>.\<close>

function weekly :: "timestamp \<Rightarrow> timestamp \<Rightarrow> timestamp list" where
  "weekly bucketDate horizonEnd =
     (if bucketDate \<le> horizonEnd then bucketDate # weekly (add_days bucketDate 7) horizonEnd else [])"
  by pat_completeness auto
termination by (relation "measure (\<lambda>(t, e). nat (e + 1 - t))") (auto simp: add_days_def MS_PER_DAY_def)

declare weekly.simps [simp del]

section \<open>What is read\<close>

text \<open>\<open>`${a}-${b}`\<close>\<close>

definition dashed :: "string \<Rightarrow> string \<Rightarrow> string" where
  "dashed a b = a @ ''-'' @ b"

definition selected_boms :: "uuid_string \<Rightarrow> mrp_run \<Rightarrow> mrp \<Rightarrow> mrp_bom list" where
  "selected_boms tenantId run s =
     filter (\<lambda>b. bm_tenantId b = tenantId \<and> bm_status b = BOMStatus.ACTIVE \<and>
       (mr_productIds run = [] \<or> bm_parentProductId b \<in> set (mr_productIds run))) (boms s)"

definition selected_locations :: "uuid_string \<Rightarrow> mrp_run \<Rightarrow> mrp \<Rightarrow> uuid_string list" where
  "selected_locations tenantId run s = map lc_id (filter (\<lambda>l. lc_tenantId l = tenantId \<and>
     (if mr_locationIds run \<noteq> [] then lc_id l \<in> set (mr_locationIds run)
      else lc_type l = WAREHOUSE \<and> lc_status l = DimensionStatus.ACTIVE)) (mrpLocations s))"

record demand_item =
  dm_productId :: uuid_string
  dm_locationId :: uuid_string
  dm_periodDate :: timestamp
  dm_quantity :: rat

text \<open>Forecasts by date; a further forecast of the same product, place and day is averaged in.\<close>

definition add_demand :: "uuid_string \<times> uuid_string \<times> mrp_forecast \<Rightarrow> (string \<times> demand_item) list \<Rightarrow> (string \<times> demand_item) list" where
  "add_demand = (\<lambda>(productId, locationId, f) m.
     let key = dashed (dashed productId locationId) (iso_date (fr_periodDate f));
         quantity = number_or (fr_forecastQuantity f) 0
     in case map_of m key of
          Some e \<Rightarrow> put key (e\<lparr>dm_quantity := num_div (num_add (dm_quantity e) quantity) 2\<rparr>) m
        | None \<Rightarrow> put key \<lparr>dm_productId = productId, dm_locationId = locationId, dm_periodDate = fr_periodDate f,
                    dm_quantity = quantity\<rparr> m)"

definition placed_forecast :: "mrp_forecast \<Rightarrow> (uuid_string \<times> uuid_string \<times> mrp_forecast) list" where
  "placed_forecast f = (case (fr_productId f, fr_locationId f) of (Some p, Some l) \<Rightarrow> [(p, l, f)] | _ \<Rightarrow> [])"

definition demand_map :: "uuid_string \<Rightarrow> uuid_string list \<Rightarrow> uuid_string list \<Rightarrow> timestamp \<Rightarrow> timestamp \<Rightarrow> mrp \<Rightarrow> demand_item list" where
  "demand_map tenantId products locations today horizonEnd s =
     map snd (fold add_demand
       (filter (\<lambda>(p, l, f). fr_tenantId f = tenantId \<and> p \<in> set products \<and> l \<in> set locations \<and>
          between_dates today horizonEnd (fr_periodDate f))
        (concat (map placed_forecast (sort_key fr_periodDate (forecastRows s))))) [])"

text \<open>The entry of an inventory level; of its four numbers only \<open>available\<close> is read.\<close>

definition inventory_map :: "uuid_string \<Rightarrow> uuid_string list \<Rightarrow> mrp \<Rightarrow> (string \<times> rat) list" where
  "inventory_map tenantId locations s =
     put_all (map (\<lambda>v. (dashed (il_productId v) (il_locationId v), double (il_availableQty v)))
       (filter (\<lambda>v. il_tenantId v = tenantId \<and> il_locationId v \<in> set locations) (inventoryRows s)))"

definition policy_map :: "uuid_string \<Rightarrow> uuid_string list \<Rightarrow> mrp \<Rightarrow> (string \<times> inventory_policy) list" where
  "policy_map tenantId locations s =
     put_all (map (\<lambda>p. (dashed (ip_productId p) (ip_locationId p), p))
       (filter (\<lambda>p. ip_tenantId p = tenantId \<and> ip_locationId p \<in> set locations) (policyRows s)))"

definition supplier_map :: "uuid_string \<Rightarrow> mrp \<Rightarrow> (uuid_string \<times> uuid_string) list" where
  "supplier_map tenantId s =
     put_all (map (\<lambda>p. (sp_productId p, sp_supplierId p))
       (filter (\<lambda>p. sp_isPrimary p \<and> list_ex (\<lambda>u. su_id u = sp_supplierId p \<and> su_tenantId u = tenantId \<and>
          su_status u = DimensionStatus.ACTIVE) (mrpSuppliers s)) (supplierProducts s)))"

definition bom_map :: "mrp_bom list \<Rightarrow> (uuid_string \<times> mrp_bom) list" where
  "bom_map bs = put_all (map (\<lambda>b. (bm_parentProductId b, b)) bs)"

definition components_of :: "mrp_bom \<Rightarrow> mrp \<Rightarrow> bom_line list" where
  "components_of b s = filter (\<lambda>c. bl_bomId c = bm_id b) (bomLines s)"

definition routing_map :: "uuid_string \<Rightarrow> mrp_bom list \<Rightarrow> mrp \<Rightarrow> (uuid \<times> routing_step list) list" where
  "routing_map tenantId bs s =
     put_all (map (\<lambda>r. (rt_bomId r, sort_key rs_sequence (filter (\<lambda>t. rs_routingId t = rt_id r) (routingSteps s))))
       (filter (\<lambda>r. rt_tenantId r = tenantId \<and> rt_status r = BOMStatus.ACTIVE \<and> rt_bomId r \<in> bm_id ` set bs) (mrpRoutings s)))"

text \<open>The entry of a capacity; its hours and number of shifts are never read.\<close>

definition capacity_map :: "uuid_string \<Rightarrow> timestamp \<Rightarrow> timestamp \<Rightarrow> mrp \<Rightarrow> (uuid_string \<times> rat) list" where
  "capacity_map tenantId today horizonEnd s =
     put_all (map (\<lambda>c. (cy_workCenterId c, number_or (Some (cy_capacityPerDay c)) 480))
       (filter (\<lambda>c. list_ex (\<lambda>w. wc_id w = cy_workCenterId c \<and> wc_tenantId w = tenantId \<and> wc_status w = DimensionStatus.ACTIVE) (workCenters s) \<and>
          cy_effectiveFrom c \<le> to_date horizonEnd \<and>
          (case cy_effectiveTo c of None \<Rightarrow> True | Some d \<Rightarrow> to_date today \<le> d)) (workCenterCapacities s)))"

text \<open>Open purchase lines and work orders by product, place and week.\<close>

definition add_receipt :: "string \<times> rat \<Rightarrow> (string \<times> rat) list \<Rightarrow> (string \<times> rat) list" where
  "add_receipt = (\<lambda>(key, remaining) m.
     if 0 < remaining then put key (num_add (case map_of m key of None \<Rightarrow> 0 | Some q \<Rightarrow> q) remaining) m else m)"

definition scheduled_receipts :: "uuid_string \<Rightarrow> int \<Rightarrow> timestamp \<Rightarrow> timestamp \<Rightarrow> mrp \<Rightarrow> (string \<times> rat) list" where
  "scheduled_receipts tenantId zone today horizonEnd s =
     (let pos = filter (\<lambda>p. po_tenantId p = tenantId \<and> po_status p \<in> {PurchaseOrderStatus.APPROVED, SENT, PARTIALLY_RECEIVED} \<and>
            between_dates today horizonEnd (po_expectedDate p)) (purchaseOrders s);
          wos = filter (\<lambda>w. wo_tenantId w = tenantId \<and>
            wo_status w \<in> {WorkOrderStatus.PLANNED, WorkOrderStatus.RELEASED, WorkOrderStatus.IN_PROGRESS} \<and>
            between_dates today horizonEnd (wo_plannedEndDate w)) (workOrders s)
      in fold add_receipt
           (concat (map (\<lambda>p. map (\<lambda>l. (dashed (dashed (pl_productId l) (po_locationId p)) (getWeekStart zone (po_expectedDate p)),
                num_sub (double (pl_quantity l)) (double (pl_receivedQty l))))
              (filter (\<lambda>l. pl_purchaseOrderId l = po_id p) (purchaseLines s))) pos) @
            map (\<lambda>w. (dashed (dashed (wo_productId w) (wo_locationId w)) (getWeekStart zone (wo_plannedEndDate w)),
                num_sub (double (wo_plannedQty w)) (double (wo_completedQty w)))) wos) [])"

section \<open>The plan\<close>

record order_item =
  oi_productId :: uuid_string
  oi_locationId :: uuid_string
  oi_orderType :: PlannedOrderType
  oi_startDate :: timestamp
  oi_dueDate :: timestamp
  oi_quantity :: rat
  oi_supplierId :: "uuid_string option"

record exception_item =
  ei_productId :: uuid_string
  ei_locationId :: uuid_string
  ei_exceptionType :: MRPExceptionType
  ei_severity :: ExceptionSeverity
  ei_affectedDate :: timestamp
  ei_currentValue :: rat
  ei_requiredValue :: rat

record requirement_item =
  ri_productId :: uuid_string
  ri_locationId :: uuid_string
  ri_periodDate :: timestamp
  ri_grossRequirement :: rat
  ri_scheduledReceipts :: rat
  ri_projectedOnHand :: rat
  ri_netRequirement :: rat
  ri_plannedOrderReceipt :: rat
  ri_plannedOrderRelease :: rat

text \<open>What the loops accumulate; \<open>capacityUsage\<close> is shared by all products and places.\<close>

record plan =
  pn_orders :: "order_item list"
  pn_exceptions :: "exception_item list"
  pn_requirements :: "requirement_item list"
  pn_capacityUsage :: "(string \<times> rat) list"

text \<open>What the loops read.\<close>

record mrp_input =
  in_run :: mrp_run
  in_zone :: int
  in_today :: timestamp
  in_horizonEnd :: timestamp
  in_frozenEnd :: timestamp
  in_demands :: "demand_item list"
  in_inventory :: "(string \<times> rat) list"
  in_policies :: "(string \<times> inventory_policy) list"
  in_suppliers :: "(uuid_string \<times> uuid_string) list"
  in_boms :: "(uuid_string \<times> mrp_bom) list"
  in_components :: "mrp_bom \<Rightarrow> bom_line list"
  in_routings :: "(uuid \<times> routing_step list) list"
  in_capacities :: "(uuid_string \<times> rat) list"
  in_receipts :: "(string \<times> rat) list"

definition push_order :: "order_item \<Rightarrow> plan \<Rightarrow> plan" where
  "push_order x p = p\<lparr>pn_orders := pn_orders p @ [x]\<rparr>"

definition push_exception :: "exception_item \<Rightarrow> plan \<Rightarrow> plan" where
  "push_exception x p = p\<lparr>pn_exceptions := pn_exceptions p @ [x]\<rparr>"

definition push_requirement :: "requirement_item \<Rightarrow> plan \<Rightarrow> plan" where
  "push_requirement x p = p\<lparr>pn_requirements := pn_requirements p @ [x]\<rparr>"

text \<open>The lot: at least the net requirement and the minimum, rounded up to the order multiple.\<close>

definition lot_size :: "rat \<Rightarrow> rat \<Rightarrow> rat \<Rightarrow> rat" where
  "lot_size netRequirement minOrderQty multipleOrderQty =
     (let q = max netRequirement minOrderQty
      in if 1 < multipleOrderQty then num_mul (math_ceil (num_div q multipleOrderQty)) multipleOrderQty else q)"

definition policy_number :: "(inventory_policy \<Rightarrow> rat option) \<Rightarrow> inventory_policy option \<Rightarrow> rat \<Rightarrow> rat" where
  "policy_number field policy d = (case policy of None \<Rightarrow> d | Some p \<Rightarrow> number_or (field p) d)"

text \<open>The capacity of the work center of one operation, used up in the week of the release.\<close>

definition check_capacity :: "mrp_input \<Rightarrow> uuid_string \<Rightarrow> uuid_string \<Rightarrow> timestamp \<Rightarrow> timestamp \<Rightarrow> rat \<Rightarrow> routing_step \<Rightarrow> plan \<Rightarrow> plan" where
  "check_capacity inp locationId productId bucket releaseDate orderQty operation p =
     (let requiredCapacity = num_add (double (rs_setupTime operation)) (num_mul (double (rs_runTimePerUnit operation)) orderQty);
          availableCapacity = (case map_of (in_capacities inp) (rs_workCenterId operation) of None \<Rightarrow> 480 | Some c \<Rightarrow> c);
          usageKey = dashed (rs_workCenterId operation) (iso_date releaseDate);
          newUsage = num_add (case map_of (pn_capacityUsage p) usageKey of None \<Rightarrow> 0 | Some u \<Rightarrow> u) requiredCapacity;
          weeklyCapacity = num_mul availableCapacity 5;
          utilizationPct = num_mul (num_div newUsage weeklyCapacity) 100;
          p' = p\<lparr>pn_capacityUsage := put usageKey newUsage (pn_capacityUsage p)\<rparr>;
          overload = (\<lambda>severity. push_exception \<lparr>ei_productId = productId, ei_locationId = locationId,
            ei_exceptionType = CAPACITY_OVERLOAD, ei_severity = severity, ei_affectedDate = bucket,
            ei_currentValue = weeklyCapacity, ei_requiredValue = newUsage\<rparr>)
      in if weeklyCapacity < newUsage then overload (if 150 < utilizationPct then CRITICAL else HIGH) p'
         else if 85 < utilizationPct then overload MEDIUM p' else p')"

text \<open>What one component of a production order needs.\<close>

definition required_qty :: "rat \<Rightarrow> bom_line \<Rightarrow> rat" where
  "required_qty orderQty component =
     math_ceil (num_mul (num_mul orderQty (number_or (Some (bl_quantity component)) 1))
       (num_add 1 (num_div (double (bl_scrapPercent component)) 100)))"

definition plan_component :: "mrp_input \<Rightarrow> uuid_string \<Rightarrow> timestamp \<Rightarrow> timestamp \<Rightarrow> rat \<Rightarrow> bom_line \<Rightarrow> plan \<Rightarrow> plan" where
  "plan_component inp locationId bucket releaseDate orderQty component p =
     (let productId = bl_componentProductId component; key = dashed productId locationId;
          requiredQty = required_qty orderQty component;
          policy = map_of (in_policies inp) key;
          leadTime = (case policy of None \<Rightarrow> 14 | Some y \<Rightarrow> if ip_leadTimeDays y = 0 then 14 else ip_leadTimeDays y);
          available = (case map_of (in_inventory inp) key of None \<Rightarrow> 0 | Some q \<Rightarrow> q);
          netReq = max 0 (num_sub requiredQty available);
          exception = (\<lambda>kind severity. push_exception \<lparr>ei_productId = productId, ei_locationId = locationId,
            ei_exceptionType = kind, ei_severity = severity, ei_affectedDate = bucket, ei_currentValue = available,
            ei_requiredValue = requiredQty\<rparr>);
          ordered = (if netReq \<le> 0 then p
            else let startDate = add_days releaseDate (- leadTime);
                     late = (if startDate < in_today inp then exception LEAD_TIME_VIOLATION CRITICAL p else p);
                     quantity = lot_size netReq (policy_number ip_minOrderQty policy 1) (policy_number ip_multipleOrderQty policy 1);
                     pushed = push_order \<lparr>oi_productId = productId, oi_locationId = locationId, oi_orderType = PURCHASE,
                       oi_startDate = max (in_today inp) startDate, oi_dueDate = releaseDate, oi_quantity = quantity,
                       oi_supplierId = map_of (in_suppliers inp) productId\<rparr> late
                 in if available < num_mul requiredQty (1 / 2)
                    then exception SHORTAGE (if available = 0 then CRITICAL else HIGH) pushed else pushed)
      in push_requirement \<lparr>ri_productId = productId, ri_locationId = locationId, ri_periodDate = bucket,
           ri_grossRequirement = requiredQty, ri_scheduledReceipts = 0, ri_projectedOnHand = available,
           ri_netRequirement = netReq, ri_plannedOrderReceipt = netReq, ri_plannedOrderRelease = netReq\<rparr> ordered)"

text \<open>The production order of a finished good, its capacity and its components.\<close>

definition plan_production :: "mrp_input \<Rightarrow> uuid_string \<Rightarrow> uuid_string \<Rightarrow> mrp_bom \<Rightarrow> timestamp \<Rightarrow> timestamp \<Rightarrow> rat \<Rightarrow> plan \<Rightarrow> plan" where
  "plan_production inp locationId productId bom bucket releaseDate orderQty p =
     (let pushed = push_order \<lparr>oi_productId = productId, oi_locationId = locationId, oi_orderType = PRODUCTION,
            oi_startDate = releaseDate, oi_dueDate = bucket, oi_quantity = orderQty, oi_supplierId = None\<rparr> p;
          operations = (case map_of (in_routings inp) (bm_id bom) of None \<Rightarrow> [] | Some os \<Rightarrow> os);
          checked = fold (check_capacity inp locationId productId bucket releaseDate orderQty) operations pushed
      in fold (plan_component inp locationId bucket releaseDate orderQty) (in_components inp bom) checked)"

definition gross_requirement :: "mrp_input \<Rightarrow> uuid_string \<Rightarrow> uuid_string \<Rightarrow> timestamp \<Rightarrow> rat" where
  "gross_requirement inp locationId productId bucket =
     fold (\<lambda>d q. num_add q (dm_quantity d))
       (filter (\<lambda>d. dm_productId d = productId \<and> dm_locationId d = locationId \<and> bucket \<le> dm_periodDate d \<and>
          dm_periodDate d < add_days bucket 7) (in_demands inp)) 0"

record lot_policy =
  lp_safetyStock :: rat
  lp_leadTime :: int
  lp_minOrderQty :: rat
  lp_multipleOrderQty :: rat

definition lot_policy_of :: "mrp_input \<Rightarrow> uuid_string \<Rightarrow> uuid_string \<Rightarrow> lot_policy" where
  "lot_policy_of inp locationId productId =
     (let policy = map_of (in_policies inp) (dashed productId locationId)
      in \<lparr>lp_safetyStock = (if mr_considerSafetyStock (in_run inp) then policy_number ip_safetyStockQty policy 0 else 0),
          lp_leadTime = (if mr_respectLeadTimes (in_run inp) then (case policy of None \<Rightarrow> 0 | Some y \<Rightarrow> ip_leadTimeDays y) else 0),
          lp_minOrderQty = policy_number ip_minOrderQty policy 1,
          lp_multipleOrderQty = policy_number ip_multipleOrderQty policy 1\<rparr>)"

text \<open>One bucket of a finished good: its requirement row, which carries the plan of the bucket.\<close>

definition netting_row :: "mrp_input \<Rightarrow> uuid_string \<Rightarrow> uuid_string \<Rightarrow> timestamp \<Rightarrow> rat \<Rightarrow> requirement_item" where
  "netting_row inp locationId productId bucket projectedOnHand =
     (let y = lot_policy_of inp locationId productId;
          gross = gross_requirement inp locationId productId bucket;
          receipts = (case map_of (in_receipts inp) (dashed (dashed productId locationId) (getWeekStart (in_zone inp) bucket))
            of None \<Rightarrow> 0 | Some q \<Rightarrow> q);
          available = num_sub (num_add projectedOnHand receipts) gross;
          net = max 0 (num_sub (lp_safetyStock y) available);
          orderQty = (if 0 < net then lot_size net (lp_minOrderQty y) (lp_multipleOrderQty y) else 0)
      in \<lparr>ri_productId = productId, ri_locationId = locationId, ri_periodDate = bucket, ri_grossRequirement = gross,
          ri_scheduledReceipts = receipts, ri_projectedOnHand = projectedOnHand, ri_netRequirement = net,
          ri_plannedOrderReceipt = orderQty, ri_plannedOrderRelease = orderQty\<rparr>)"

definition next_on_hand :: "requirement_item \<Rightarrow> rat" where
  "next_on_hand r =
     num_add (num_sub (num_add (ri_projectedOnHand r) (ri_scheduledReceipts r)) (ri_grossRequirement r))
       (ri_plannedOrderReceipt r)"

definition plan_bucket :: "mrp_input \<Rightarrow> uuid_string \<Rightarrow> uuid_string \<Rightarrow> mrp_bom \<Rightarrow> timestamp \<Rightarrow> rat \<times> plan \<Rightarrow> rat \<times> plan" where
  "plan_bucket inp locationId productId bom bucket = (\<lambda>(projectedOnHand, p).
     let row = netting_row inp locationId productId bucket projectedOnHand;
         isFrozen = bucket \<le> in_frozenEnd inp;
         warned = (if isFrozen \<and> 0 < ri_netRequirement row
           then push_exception \<lparr>ei_productId = productId, ei_locationId = locationId, ei_exceptionType = PAST_DUE_ORDER,
             ei_severity = HIGH, ei_affectedDate = bucket, ei_currentValue = projectedOnHand,
             ei_requiredValue = ri_grossRequirement row\<rparr> p else p);
         releaseDate = add_days bucket (- lp_leadTime (lot_policy_of inp locationId productId));
         produced = (if 0 < ri_plannedOrderReceipt row \<and> \<not> isFrozen
           then plan_production inp locationId productId bom bucket releaseDate (ri_plannedOrderReceipt row) warned else warned)
     in (next_on_hand row, push_requirement row produced))"

text \<open>
  A finished good: \<open>projectedInventory\<close> holds what is left of it, which a second bill of material
  of the product would go on from.
\<close>

definition plan_product :: "mrp_input \<Rightarrow> uuid_string \<Rightarrow> uuid_string \<Rightarrow> (string \<times> rat) list \<times> plan \<Rightarrow> (string \<times> rat) list \<times> plan" where
  "plan_product inp locationId productId = (\<lambda>(projectedInventory, p).
     case map_of (in_boms inp) productId of
       None \<Rightarrow> (projectedInventory, p)
     | Some bom \<Rightarrow>
         (let onHand = (case map_of projectedInventory productId of None \<Rightarrow> 0 | Some q \<Rightarrow> q);
              buckets = weekly (in_today inp) (in_horizonEnd inp);
              (left, p') = fold (plan_bucket inp locationId productId bom) buckets (onHand, p)
          in (if buckets = [] then projectedInventory else put productId left projectedInventory, p')))"

text \<open>\<open>key.endsWith(`-${location.id}`)\<close> and \<open>key.split('-')[0]\<close>\<close>

definition ends_with :: "string \<Rightarrow> string \<Rightarrow> bool" where
  "ends_with e s \<longleftrightarrow> length e \<le> length s \<and> drop (length s - length e) s = e"

definition initial_inventory :: "mrp_input \<Rightarrow> uuid_string \<Rightarrow> (string \<times> rat) list" where
  "initial_inventory inp locationId =
     put_all (map (\<lambda>(key, available). (hd (js_split CHR ''-'' key), available))
       (filter (\<lambda>(key, _). ends_with (CHR ''-'' # locationId) key) (in_inventory inp)))"

definition plan_location :: "mrp_input \<Rightarrow> uuid_string list \<Rightarrow> uuid_string \<Rightarrow> plan \<Rightarrow> plan" where
  "plan_location inp products locationId p =
     snd (fold (plan_product inp locationId) products (initial_inventory inp locationId, p))"

definition mrp_input_of :: "uuid_string \<Rightarrow> mrp_run \<Rightarrow> int \<Rightarrow> timestamp \<Rightarrow> mrp \<Rightarrow> mrp_input" where
  "mrp_input_of tenantId run zone now s =
     (let today = local_midnight zone now; horizonEnd = add_days today (mr_planningHorizonDays run);
          bs = selected_boms tenantId run s; locations = selected_locations tenantId run s
      in \<lparr>in_run = run, in_zone = zone, in_today = today, in_horizonEnd = horizonEnd,
          in_frozenEnd = add_days today (mr_frozenPeriodDays run),
          in_demands = demand_map tenantId (map bm_parentProductId bs) locations today horizonEnd s,
          in_inventory = inventory_map tenantId locations s, in_policies = policy_map tenantId locations s,
          in_suppliers = supplier_map tenantId s, in_boms = bom_map bs, in_components = (\<lambda>b. components_of b s),
          in_routings = routing_map tenantId bs s, in_capacities = capacity_map tenantId today horizonEnd s,
          in_receipts = scheduled_receipts tenantId zone today horizonEnd s\<rparr>)"

definition mrp_plan :: "uuid_string \<Rightarrow> mrp_run \<Rightarrow> int \<Rightarrow> timestamp \<Rightarrow> mrp \<Rightarrow> plan" where
  "mrp_plan tenantId run zone now s =
     fold (plan_location (mrp_input_of tenantId run zone now s) (map bm_parentProductId (selected_boms tenantId run s)))
       (selected_locations tenantId run s)
       \<lparr>pn_orders = [], pn_exceptions = [], pn_requirements = [], pn_capacityUsage = []\<rparr>"

section \<open>What is written\<close>

text \<open>\<open>D\<close> is what the client and a \<open>Decimal(18, 4)\<close> column make of a number.\<close>

definition requirement_of :: "(rat \<Rightarrow> rat) \<Rightarrow> mrp_run \<Rightarrow> requirement_item \<Rightarrow> mrp_requirement" where
  "requirement_of D run r =
     \<lparr>mq_mrpRunId = mr_id run, mq_productId = ri_productId r, mq_locationId = ri_locationId r,
      mq_periodDate = to_date (ri_periodDate r), mq_grossRequirement = D (ri_grossRequirement r),
      mq_scheduledReceipts = D (ri_scheduledReceipts r), mq_projectedOnHand = D (ri_projectedOnHand r),
      mq_netRequirement = D (ri_netRequirement r), mq_plannedOrderReceipt = D (ri_plannedOrderReceipt r),
      mq_plannedOrderRelease = D (ri_plannedOrderRelease r)\<rparr>"

definition order_of :: "(rat \<Rightarrow> rat) \<Rightarrow> uuid_string \<Rightarrow> mrp_run \<Rightarrow> order_item \<times> uuid \<Rightarrow> planned_order" where
  "order_of D tenantId run = (\<lambda>(x, i).
     \<lparr>pd_id = i, pd_tenantId = tenantId, pd_mrpRunId = Some (mr_id run), pd_productId = oi_productId x,
      pd_locationId = oi_locationId x, pd_orderType = oi_orderType x, pd_status = PlannedOrderStatus.PLANNED,
      pd_startDate = to_date (oi_startDate x), pd_dueDate = to_date (oi_dueDate x), pd_releaseDate = None,
      pd_quantity = D (oi_quantity x), pd_supplierId = oi_supplierId x, pd_isFirmed = False, pd_firmedAt = None,
      pd_notes = None\<rparr>)"

definition exception_of :: "(rat \<Rightarrow> rat) \<Rightarrow> mrp_run \<Rightarrow> exception_item \<times> uuid \<Rightarrow> mrp_exception" where
  "exception_of D run = (\<lambda>(x, i).
     \<lparr>mx_id = i, mx_mrpRunId = mr_id run, mx_productId = ei_productId x, mx_locationId = ei_locationId x,
      mx_exceptionType = ei_exceptionType x, mx_severity = ei_severity x, mx_affectedDate = to_date (ei_affectedDate x),
      mx_currentValue = D (ei_currentValue x), mx_requiredValue = D (ei_requiredValue x), mx_status = OPEN,
      mx_resolvedAt = None, mx_resolvedBy = None, mx_resolution = None\<rparr>)"

text \<open>The rows of earlier executions of the run go, whatever their status; the counts are returned.\<close>

definition calculateMRP :: "(rat \<Rightarrow> rat) \<Rightarrow> int \<Rightarrow> timestamp \<Rightarrow> uuid_string \<Rightarrow> mrp_run \<Rightarrow> (nat \<times> nat) mrp_prog" where
  "calculateMRP D zone now tenantId run =
     bind (gets (mrp_plan tenantId run zone now)) (\<lambda>p.
     seq (modify (\<lambda>s. s\<lparr>mrpRequirements := filter (\<lambda>r. mq_mrpRunId r \<noteq> mr_id run) (mrpRequirements s),
            mrpExceptions := filter (\<lambda>x. mx_mrpRunId x \<noteq> mr_id run) (mrpExceptions s),
            plannedOrders := filter (\<lambda>x. pd_mrpRunId x \<noteq> Some (mr_id run)) (plannedOrders s)\<rparr>))
    (seq (modify (\<lambda>s. s\<lparr>mrpRequirements := mrpRequirements s @ map (requirement_of D run) (pn_requirements p)\<rparr>))
    (seq (modify (\<lambda>s. s\<lparr>plannedOrders := plannedOrders s @
              map (order_of D tenantId run) (numbered_from (next_row s) (pn_orders p)),
            next_row := next_row s + length (pn_orders p)\<rparr>))
    (seq (modify (\<lambda>s. s\<lparr>mrpExceptions := mrpExceptions s @
              map (exception_of D run) (numbered_from (next_row s) (pn_exceptions p)),
            next_row := next_row s + length (pn_exceptions p)\<rparr>))
         (return (length (pn_orders p), length (pn_exceptions p)))))))"

end
