(* ===== verification/MrpOrders.thy ===== *)
theory MrpOrders
  imports Mrp
begin

text \<open>
  What is done with planning runs, planned orders and exceptions beside the calculation: the
  endpoints of \<open>manufacturing.service.ts\<close> from \<open>firmPlannedOrder\<close> to \<open>getMRPSummary\<close>.
\<close>

section \<open>Runs\<close>

record run_dto =
  rd_name :: string
  rd_runType :: "MRPRunType option"
  rd_planningHorizonDays :: "int option"
  rd_frozenPeriodDays :: "int option"
  rd_locationIds :: "uuid_string list option"
  rd_productIds :: "uuid_string list option"
  rd_respectLeadTime :: "bool option"
  rd_considerSafetyStock :: "bool option"

definition run_row :: "uuid_string \<Rightarrow> run_dto \<Rightarrow> uuid \<Rightarrow> mrp_run" where
  "run_row tenantId dto i =
     \<lparr>mr_id = i, mr_tenantId = tenantId, mr_name = rd_name dto, mr_runType = orElse (rd_runType dto) REGENERATIVE,
      mr_status = PENDING,
      mr_planningHorizonDays = (if orElse (rd_planningHorizonDays dto) 0 = 0 then 90 else orElse (rd_planningHorizonDays dto) 0),
      mr_frozenPeriodDays = orElse (rd_frozenPeriodDays dto) 0, mr_locationIds = orElse (rd_locationIds dto) [],
      mr_productIds = orElse (rd_productIds dto) [], mr_respectLeadTimes = orElse (rd_respectLeadTime dto) True,
      mr_considerSafetyStock = orElse (rd_considerSafetyStock dto) True,
      mr_netChange = (rd_runType dto = Some NET_CHANGE)\<rparr>"

definition createMRPRun :: "uuid_string \<Rightarrow> run_dto \<Rightarrow> mrp_run mrp_prog" where
  "createMRPRun tenantId dto =
     bind new_row (\<lambda>i.
     seq (modify (\<lambda>s. s\<lparr>mrpRuns := mrpRuns s @ [run_row tenantId dto i]\<rparr>))
         (return (run_row tenantId dto i)))"

definition getMRPRun :: "uuid_string \<Rightarrow> uuid \<Rightarrow> mrp_run mrp_prog" where
  "getMRPRun tenantId runId =
     bind (gets (\<lambda>s. find (\<lambda>r. mr_id r = runId \<and> mr_tenantId r = tenantId) (mrpRuns s))) (orThrow NotFoundException)"

section \<open>Planned orders\<close>

definition getPlannedOrder :: "uuid_string \<Rightarrow> uuid \<Rightarrow> planned_order mrp_prog" where
  "getPlannedOrder tenantId orderId =
     bind (gets (\<lambda>s. find (\<lambda>x. pd_id x = orderId \<and> pd_tenantId x = tenantId) (plannedOrders s))) (orThrow NotFoundException)"

definition write_order :: "uuid \<Rightarrow> (planned_order \<Rightarrow> planned_order) \<Rightarrow> unit mrp_prog" where
  "write_order orderId f = modify (\<lambda>s. s\<lparr>plannedOrders := update_where (\<lambda>x. pd_id x = orderId) f (plannedOrders s)\<rparr>)"

definition firmPlannedOrder :: "timestamp \<Rightarrow> uuid_string \<Rightarrow> uuid \<Rightarrow> unit mrp_prog" where
  "firmPlannedOrder now tenantId orderId =
     bind (getPlannedOrder tenantId orderId) (\<lambda>x.
     seq (throwIf (pd_status x \<noteq> PlannedOrderStatus.PLANNED) BadRequestException)
         (write_order orderId (\<lambda>y. y\<lparr>pd_status := FIRMED, pd_isFirmed := True, pd_firmedAt := Some now\<rparr>)))"

definition releasePlannedOrder :: "timestamp \<Rightarrow> uuid_string \<Rightarrow> uuid \<Rightarrow> unit mrp_prog" where
  "releasePlannedOrder now tenantId orderId =
     bind (getPlannedOrder tenantId orderId) (\<lambda>x.
     seq (throwIf (pd_status x \<noteq> FIRMED) BadRequestException)
         (write_order orderId (\<lambda>y. y\<lparr>pd_status := PlannedOrderStatus.RELEASED, pd_releaseDate := Some (to_date now)\<rparr>)))"

record order_patch =
  op_quantity :: "rat option"
  op_dueDate :: "timestamp option"
  op_startDate :: "timestamp option"
  op_supplierId :: "uuid_string option"
  op_notes :: "string option"

definition patch_order :: "order_patch \<Rightarrow> planned_order \<Rightarrow> planned_order" where
  "patch_order dto x =
     x\<lparr>pd_quantity := (case op_quantity dto of None \<Rightarrow> pd_quantity x | Some q \<Rightarrow> round_away 4 q),
       pd_dueDate := (case op_dueDate dto of None \<Rightarrow> pd_dueDate x | Some t \<Rightarrow> to_date t),
       pd_startDate := (case op_startDate dto of None \<Rightarrow> pd_startDate x | Some t \<Rightarrow> to_date t),
       pd_supplierId := (case op_supplierId dto of None \<Rightarrow> pd_supplierId x | Some i \<Rightarrow> Some i),
       pd_notes := (case op_notes dto of None \<Rightarrow> pd_notes x | Some n \<Rightarrow> Some n)\<rparr>"

definition updatePlannedOrder :: "uuid_string \<Rightarrow> uuid \<Rightarrow> order_patch \<Rightarrow> unit mrp_prog" where
  "updatePlannedOrder tenantId orderId dto =
     bind (getPlannedOrder tenantId orderId) (\<lambda>_.
     seq (throwIf (\<not> fits 18 4 (orElse (op_quantity dto) 0)) PrismaValueOutOfRange)
    (bind (gets (\<lambda>s. case op_supplierId dto of None \<Rightarrow> True | Some i \<Rightarrow> list_ex (\<lambda>u. su_id u = i) (mrpSuppliers s))) (\<lambda>found.
     seq (throwIf (\<not> found) PrismaForeignKeyViolation)
         (write_order orderId (patch_order dto)))))"

definition cancelPlannedOrder :: "uuid_string \<Rightarrow> uuid \<Rightarrow> string option \<Rightarrow> unit mrp_prog" where
  "cancelPlannedOrder tenantId orderId reason =
     bind (getPlannedOrder tenantId orderId) (\<lambda>x.
     write_order orderId (\<lambda>y. y\<lparr>pd_status := PlannedOrderStatus.CANCELLED,
       pd_notes := (if truthy reason then reason else pd_notes x)\<rparr>))"

text \<open>\<open>statusMap\<close>\<close>

definition action_status :: "string \<Rightarrow> PlannedOrderStatus option" where
  "action_status action = map_of
     [(''firm'', FIRMED), (''release'', PlannedOrderStatus.RELEASED), (''cancel'', PlannedOrderStatus.CANCELLED)] action"

text \<open>\<open>orderIds\<close> is \<open>None\<close> when it is no array; the number of rows written is returned.\<close>

definition bulkUpdatePlannedOrders :: "uuid_string \<Rightarrow> uuid list option \<Rightarrow> string \<Rightarrow> nat mrp_prog" where
  "bulkUpdatePlannedOrders tenantId orderIds action =
     seq (throwIf (orderIds = None \<or> action = []) BadRequestException)
    (bind (orThrow BadRequestException (action_status action)) (\<lambda>status.
     let chosen = (\<lambda>x. pd_id x \<in> set (orElse orderIds []) \<and> pd_tenantId x = tenantId) in
     bind (gets (\<lambda>s. length (filter chosen (plannedOrders s)))) (\<lambda>count.
     seq (modify (\<lambda>s. s\<lparr>plannedOrders := update_where chosen (\<lambda>x. x\<lparr>pd_status := status\<rparr>) (plannedOrders s)\<rparr>))
         (return count))))"

record order_dto =
  od_productId :: uuid_string
  od_locationId :: "uuid_string option"
  od_orderType :: PlannedOrderType
  od_quantity :: rat
  od_dueDate :: timestamp
  od_startDate :: "timestamp option"
  od_supplierId :: "uuid_string option"

text \<open>The supplier of the request is not written; without a location the tenant's id is.\<close>

definition order_row :: "timestamp \<Rightarrow> uuid_string \<Rightarrow> order_dto \<Rightarrow> uuid \<Rightarrow> planned_order" where
  "order_row now tenantId dto i =
     \<lparr>pd_id = i, pd_tenantId = tenantId, pd_mrpRunId = None, pd_productId = od_productId dto,
      pd_locationId = (if truthy (od_locationId dto) then orElse (od_locationId dto) [] else tenantId),
      pd_orderType = od_orderType dto, pd_status = PlannedOrderStatus.PLANNED,
      pd_startDate = to_date (orElse (od_startDate dto) now), pd_dueDate = to_date (od_dueDate dto), pd_releaseDate = None,
      pd_quantity = round_away 4 (od_quantity dto), pd_supplierId = None, pd_isFirmed = False, pd_firmedAt = None,
      pd_notes = None\<rparr>"

definition createPlannedOrder :: "timestamp \<Rightarrow> uuid_string \<Rightarrow> order_dto \<Rightarrow> planned_order mrp_prog" where
  "createPlannedOrder now tenantId dto =
     bind (gets (\<lambda>s. list_ex (\<lambda>p. pr_id p = od_productId dto \<and> pr_tenantId p = tenantId) (mrpProducts s))) (\<lambda>found.
     seq (throwIf (\<not> found) NotFoundException)
    (seq (throwIf (\<not> fits 18 4 (od_quantity dto)) PrismaValueOutOfRange)
    (bind (gets (\<lambda>s. list_ex (\<lambda>l. lc_id l = pd_locationId (order_row now tenantId dto 0)) (mrpLocations s))) (\<lambda>place.
     seq (throwIf (\<not> place) PrismaForeignKeyViolation)
    (bind new_row (\<lambda>i.
     seq (modify (\<lambda>s. s\<lparr>plannedOrders := plannedOrders s @ [order_row now tenantId dto i]\<rparr>))
         (return (order_row now tenantId dto i))))))))"

section \<open>Exceptions\<close>

definition run_of_tenant :: "uuid_string \<Rightarrow> uuid \<Rightarrow> mrp \<Rightarrow> bool" where
  "run_of_tenant tenantId runId s \<longleftrightarrow> list_ex (\<lambda>r. mr_id r = runId \<and> mr_tenantId r = tenantId) (mrpRuns s)"

definition write_exception :: "uuid_string \<Rightarrow> uuid \<Rightarrow> (mrp_exception \<Rightarrow> mrp_exception) \<Rightarrow> unit mrp_prog" where
  "write_exception tenantId exceptionId f =
     bind (gets (\<lambda>s. find (\<lambda>x. mx_id x = exceptionId \<and> run_of_tenant tenantId (mx_mrpRunId x) s) (mrpExceptions s))) (\<lambda>found.
     seq (throwIf (found = None) NotFoundException)
         (modify (\<lambda>s. s\<lparr>mrpExceptions := update_where (\<lambda>x. mx_id x = exceptionId) f (mrpExceptions s)\<rparr>)))"

definition acknowledgeMRPException :: "timestamp \<Rightarrow> uuid_string \<Rightarrow> uuid \<Rightarrow> uuid \<Rightarrow> unit mrp_prog" where
  "acknowledgeMRPException now tenantId exceptionId userId = write_exception tenantId exceptionId
     (\<lambda>x. x\<lparr>mx_status := IN_PROGRESS, mx_resolvedBy := Some userId, mx_resolvedAt := Some now\<rparr>)"

text \<open>A missing resolution leaves the column as it is.\<close>

definition resolveMRPException :: "timestamp \<Rightarrow> uuid_string \<Rightarrow> uuid \<Rightarrow> uuid \<Rightarrow> string option \<Rightarrow> unit mrp_prog" where
  "resolveMRPException now tenantId exceptionId userId resolution = write_exception tenantId exceptionId
     (\<lambda>x. x\<lparr>mx_status := RESOLVED, mx_resolution := (if resolution = None then mx_resolution x else resolution),
        mx_resolvedBy := Some userId, mx_resolvedAt := Some now\<rparr>)"

definition ignoreMRPException :: "timestamp \<Rightarrow> uuid_string \<Rightarrow> uuid \<Rightarrow> uuid \<Rightarrow> string option \<Rightarrow> unit mrp_prog" where
  "ignoreMRPException now tenantId exceptionId userId reason = write_exception tenantId exceptionId
     (\<lambda>x. x\<lparr>mx_status := IGNORED, mx_resolution := (if reason = None then mx_resolution x else reason),
        mx_resolvedBy := Some userId, mx_resolvedAt := Some now\<rparr>)"

section \<open>Queries\<close>

definition getMRPRequirements :: "uuid_string \<Rightarrow> uuid \<Rightarrow> uuid_string option \<Rightarrow> uuid_string option \<Rightarrow> timestamp option \<Rightarrow>
    timestamp option \<Rightarrow> mrp_requirement list mrp_prog" where
  "getMRPRequirements tenantId runId productId locationId startDate endDate =
     gets (\<lambda>s. sort_key mq_periodDate (filter (\<lambda>r. mq_mrpRunId r = runId \<and>
       (truthy productId \<longrightarrow> productId = Some (mq_productId r)) \<and> (truthy locationId \<longrightarrow> locationId = Some (mq_locationId r)) \<and>
       (case startDate of None \<Rightarrow> True | Some t \<Rightarrow> to_date t \<le> mq_periodDate r) \<and>
       (case endDate of None \<Rightarrow> True | Some t \<Rightarrow> mq_periodDate r \<le> to_date t) \<and>
       run_of_tenant tenantId (mq_mrpRunId r) s) (mrpRequirements s)))"

definition getMRPSummary :: "uuid_string \<Rightarrow> (nat \<times> nat \<times> nat) mrp_prog" where
  "getMRPSummary tenantId =
     gets (\<lambda>s. (length (filter (\<lambda>r. mr_tenantId r = tenantId) (mrpRuns s)),
       length (filter (\<lambda>x. pd_tenantId x = tenantId) (plannedOrders s)),
       length (filter (\<lambda>x. run_of_tenant tenantId (mx_mrpRunId x) s) (mrpExceptions s))))"

end
