(* ===== verification/Boms.thy ===== *)
theory Boms
  imports MrpSchema
begin

text \<open>
  Bills of material: the BOM section of \<open>manufacturing.service.ts\<close>, from \<open>getBOM\<close> to
  \<open>compareBOMs\<close>.  A field of a request that may be missing is an option; its numbers are the
  decimals they were written as, its enumerated strings are values of their enumeration.
\<close>

section \<open>Responses\<close>

record component_response =
  cr_id :: uuid
  cr_bomId :: uuid
  cr_componentProductId :: uuid_string
  cr_componentProduct :: "mrp_product option"
  cr_quantityPer :: rat
  cr_uom :: string
  cr_position :: int
  cr_wastagePercent :: rat

record bom_response =
  br_id :: uuid
  br_productId :: uuid_string
  br_product :: "mrp_product option"
  br_bomType :: BOMType
  br_status :: BOMStatus
  br_revision :: string
  br_effectiveDate :: timestamp
  br_expiryDate :: "timestamp option"
  br_components :: "component_response list"

definition mapBOMComponentResponse :: "mrp_product option \<Rightarrow> bom_line \<Rightarrow> component_response" where
  "mapBOMComponentResponse product c =
     \<lparr>cr_id = bl_id c, cr_bomId = bl_bomId c, cr_componentProductId = bl_componentProductId c,
      cr_componentProduct = product, cr_quantityPer = double (bl_quantity c), cr_uom = bl_uom c,
      cr_position = bl_sequence c, cr_wastagePercent = double (bl_scrapPercent c)\<rparr>"

definition mapBOMResponse :: "(uuid_string \<Rightarrow> mrp_product option) \<Rightarrow> mrp_bom \<Rightarrow> bom_line list \<Rightarrow> bom_response" where
  "mapBOMResponse products b cs =
     \<lparr>br_id = bm_id b, br_productId = bm_parentProductId b, br_product = products (bm_parentProductId b),
      br_bomType = bm_type b, br_status = bm_status b, br_revision = bm_version b,
      br_effectiveDate = bm_effectiveFrom b, br_expiryDate = bm_effectiveTo b,
      br_components = map (\<lambda>c. mapBOMComponentResponse (products (bl_componentProductId c)) c) cs\<rparr>"

definition product_by :: "mrp \<Rightarrow> uuid_string \<Rightarrow> mrp_product option" where
  "product_by s i = find (\<lambda>p. pr_id p = i) (mrpProducts s)"

definition lines_of :: "uuid \<Rightarrow> mrp \<Rightarrow> bom_line list" where
  "lines_of bomId s = filter (\<lambda>c. bl_bomId c = bomId) (bomLines s)"

definition own_bom :: "uuid_string \<Rightarrow> uuid \<Rightarrow> mrp_bom mrp_prog" where
  "own_bom tenantId bomId =
     bind (gets (\<lambda>s. find (\<lambda>b. bm_id b = bomId \<and> bm_tenantId b = tenantId) (boms s))) (orThrow NotFoundException)"

definition getBOM :: "uuid_string \<Rightarrow> uuid \<Rightarrow> bom_response mrp_prog" where
  "getBOM tenantId bomId =
     bind (own_bom tenantId bomId) (\<lambda>b.
     gets (\<lambda>s. mapBOMResponse (product_by s) b (sort_key bl_sequence (lines_of bomId s))))"

section \<open>Creation\<close>

record bom_item =
  bi_componentProductId :: uuid_string
  bi_quantity :: rat
  bi_uom :: string
  bi_sequence :: "int option"
  bi_scrapPercent :: "rat option"
  bi_supplyType :: "SupplyType option"
  bi_leadTimeOffset :: "int option"
  bi_notes :: "string option"

record bom_dto =
  bd_parentProductId :: uuid_string
  bd_name :: string
  bd_version :: "string option"
  bd_baseQuantity :: "rat option"
  bd_baseUOM :: "string option"
  bd_effectiveFrom :: "timestamp option"
  bd_effectiveTo :: "timestamp option"
  bd_notes :: "string option"
  bd_type :: "BOMType option"
  bd_components :: "bom_item list option"

text \<open>\<open>x || d\<close> of a string and \<open>x ? x : d\<close> of a number.\<close>

definition text_or :: "string option \<Rightarrow> string \<Rightarrow> string" where
  "text_or x d = (if truthy x then orElse x d else d)"

definition nonzero_or :: "rat option \<Rightarrow> rat \<Rightarrow> rat" where
  "nonzero_or x d = (if orElse x 0 = 0 then d else orElse x 0)"

definition version_taken :: "uuid_string \<Rightarrow> uuid_string \<Rightarrow> string \<Rightarrow> mrp_bom list \<Rightarrow> bool" where
  "version_taken tenantId productId version bs \<longleftrightarrow>
     list_ex (\<lambda>b. bm_tenantId b = tenantId \<and> bm_parentProductId b = productId \<and> bm_version b = version) bs"

definition item_fits :: "bom_item \<Rightarrow> bool" where
  "item_fits c \<longleftrightarrow> fits 18 6 (bi_quantity c) \<and> fits 5 2 (nonzero_or (bi_scrapPercent c) 0)"

definition item_line :: "uuid \<Rightarrow> bom_item \<times> nat \<Rightarrow> uuid \<Rightarrow> bom_line" where
  "item_line bomId = (\<lambda>(c, idx) i.
     \<lparr>bl_id = i, bl_bomId = bomId, bl_componentProductId = bi_componentProductId c,
      bl_sequence = orElse (bi_sequence c) ((int idx + 1) * 10), bl_quantity = round_away 6 (bi_quantity c),
      bl_uom = (if bi_uom c = [] then ''EA'' else bi_uom c),
      bl_scrapPercent = round_away 2 (nonzero_or (bi_scrapPercent c) 0),
      bl_supplyType = orElse (bi_supplyType c) STOCK, bl_leadTimeOffset = orElse (bi_leadTimeOffset c) 0,
      bl_notes = bi_notes c\<rparr>)"

definition create_line :: "uuid \<Rightarrow> bom_item \<times> nat \<Rightarrow> unit mrp_prog" where
  "create_line bomId x =
     bind new_row (\<lambda>i. modify (\<lambda>s. s\<lparr>bomLines := bomLines s @ [item_line bomId x i]\<rparr>))"

definition check_items :: "uuid_string \<Rightarrow> uuid_string \<Rightarrow> bom_item list \<Rightarrow> unit mrp_prog" where
  "check_items tenantId parentProductId items =
     (let ids = map bi_componentProductId items
      in if items = [] then return ()
         else seq (throwIf (parentProductId \<in> set ids) BadRequestException)
             (bind (gets (\<lambda>s. filter (\<lambda>p. pr_id p \<in> set ids \<and> pr_tenantId p = tenantId) (mrpProducts s))) (\<lambda>components.
              throwIf (length components \<noteq> length ids) BadRequestException)))"

definition bom_row :: "uuid_string \<Rightarrow> bom_dto \<Rightarrow> timestamp \<Rightarrow> uuid \<Rightarrow> mrp_bom" where
  "bom_row tenantId dto now i =
     \<lparr>bm_id = i, bm_tenantId = tenantId, bm_parentProductId = bd_parentProductId dto, bm_name = bd_name dto,
      bm_version = text_or (bd_version dto) ''1.0'', bm_type = orElse (bd_type dto) MANUFACTURING,
      bm_status = BOMStatus.DRAFT, bm_effectiveFrom = to_date (orElse (bd_effectiveFrom dto) now),
      bm_effectiveTo = map_option to_date (bd_effectiveTo dto),
      bm_baseQuantity = round_away 4 (nonzero_or (bd_baseQuantity dto) 1),
      bm_baseUOM = text_or (bd_baseUOM dto) ''EA'', bm_notes = bd_notes dto\<rparr>"

text \<open>The id of the new bill is returned; Prisma writes it and its lines in one transaction.\<close>

definition createBOM :: "timestamp \<Rightarrow> uuid_string \<Rightarrow> bom_dto \<Rightarrow> uuid mrp_prog" where
  "createBOM now tenantId dto =
     bind (gets (\<lambda>s. list_ex (\<lambda>p. pr_id p = bd_parentProductId dto \<and> pr_tenantId p = tenantId) (mrpProducts s))) (\<lambda>found.
     seq (throwIf (\<not> found) NotFoundException)
    (bind (gets (\<lambda>s. version_taken tenantId (bd_parentProductId dto) (text_or (bd_version dto) ''1.0'') (boms s))) (\<lambda>existing.
     seq (throwIf existing BadRequestException)
    (seq (check_items tenantId (bd_parentProductId dto) (orElse (bd_components dto) []))
    (seq (throwIf (\<not> (fits 18 4 (nonzero_or (bd_baseQuantity dto) 1) \<and> list_all item_fits (orElse (bd_components dto) [])))
            PrismaValueOutOfRange)
    (bind new_row (\<lambda>i.
     seq (modify (\<lambda>s. s\<lparr>boms := boms s @ [bom_row tenantId dto now i]\<rparr>))
    (seq (forEach (create_line i) (numbered_from 0 (orElse (bd_components dto) [])))
         (return i)))))))))"

record api_item =
  ai_componentProductId :: uuid_string
  ai_quantityPer :: "rat option"
  ai_quantity :: "rat option"
  ai_uom :: "string option"
  ai_position :: "int option"
  ai_sequence :: "int option"
  ai_wastagePercent :: "rat option"
  ai_scrapPercent :: "rat option"
  ai_supplyType :: "SupplyType option"
  ai_leadTimeOffset :: "int option"
  ai_notes :: "string option"

record api_bom =
  ab_productId :: "uuid_string option"
  ab_parentProductId :: "uuid_string option"
  ab_name :: "string option"
  ab_revision :: "string option"
  ab_version :: "string option"
  ab_baseQuantity :: "rat option"
  ab_baseUOM :: "string option"
  ab_effectiveDate :: "timestamp option"
  ab_expiryDate :: "timestamp option"
  ab_notes :: "string option"
  ab_bomType :: "BOMType option"
  ab_components :: "api_item list option"

text \<open>\<open>a ?? b\<close>\<close>

fun nullish :: "'a option \<Rightarrow> 'a option \<Rightarrow> 'a option" where
  "nullish (Some a) b = Some a"
| "nullish None b = b"

definition api_component :: "api_item \<times> nat \<Rightarrow> bom_item" where
  "api_component = (\<lambda>(c, idx).
     \<lparr>bi_componentProductId = ai_componentProductId c,
      bi_quantity = orElse (nullish (ai_quantityPer c) (ai_quantity c)) 1, bi_uom = text_or (ai_uom c) ''EA'',
      bi_sequence = Some (orElse (nullish (ai_position c) (ai_sequence c)) ((int idx + 1) * 10)),
      bi_scrapPercent = nullish (ai_wastagePercent c) (ai_scrapPercent c), bi_supplyType = ai_supplyType c,
      bi_leadTimeOffset = ai_leadTimeOffset c, bi_notes = ai_notes c\<rparr>)"

definition createBOMFromApi :: "timestamp \<Rightarrow> uuid_string \<Rightarrow> api_bom \<Rightarrow> bom_response mrp_prog" where
  "createBOMFromApi now tenantId dto =
     (let productId = text_or (ab_productId dto) (text_or (ab_parentProductId dto) [])
      in seq (throwIf (productId = []) BadRequestException)
        (bind (bind (gets (\<lambda>s. find (\<lambda>p. pr_id p = productId \<and> pr_tenantId p = tenantId) (mrpProducts s)))
                 (orThrow NotFoundException)) (\<lambda>product.
         bind (createBOM now tenantId
             \<lparr>bd_parentProductId = productId, bd_name = text_or (ab_name dto) (pr_name product @ '' BOM''),
              bd_version = (if truthy (ab_revision dto) then ab_revision dto else ab_version dto),
              bd_baseQuantity = ab_baseQuantity dto, bd_baseUOM = ab_baseUOM dto,
              bd_effectiveFrom = ab_effectiveDate dto, bd_effectiveTo = ab_expiryDate dto, bd_notes = ab_notes dto,
              bd_type = ab_bomType dto, bd_components = map_option (\<lambda>cs. map api_component (numbered_from 0 cs)) (ab_components dto)\<rparr>)
           (\<lambda>i. bind (own_bom tenantId i) (\<lambda>b.
             gets (\<lambda>s. mapBOMResponse (\<lambda>j. if j = pr_id product then Some product else None) b (lines_of i s)))))))"

section \<open>Changes\<close>

record bom_patch =
  bp_name :: "string option"
  bp_revision :: "string option"
  bp_version :: "string option"
  bp_bomType :: "BOMType option"
  bp_status :: "BOMStatus option"
  bp_effectiveDate :: "timestamp option"
  bp_expiryDate :: "timestamp option"
  bp_baseQuantity :: "rat option"
  bp_baseUOM :: "string option"
  bp_notes :: "string option"

definition patch_bom :: "bom_patch \<Rightarrow> mrp_bom \<Rightarrow> mrp_bom" where
  "patch_bom dto b =
     b\<lparr>bm_name := text_or (bp_name dto) (bm_name b),
       bm_version := text_or (bp_version dto) (text_or (bp_revision dto) (bm_version b)),
       bm_type := orElse (bp_bomType dto) (bm_type b), bm_status := orElse (bp_status dto) (bm_status b),
       bm_effectiveFrom := (case bp_effectiveDate dto of None \<Rightarrow> bm_effectiveFrom b | Some t \<Rightarrow> to_date t),
       bm_effectiveTo := (case bp_expiryDate dto of None \<Rightarrow> bm_effectiveTo b | Some t \<Rightarrow> Some (to_date t)),
       bm_baseQuantity := (if nonzero_or (bp_baseQuantity dto) 0 = 0 then bm_baseQuantity b
         else round_away 4 (nonzero_or (bp_baseQuantity dto) 0)),
       bm_baseUOM := text_or (bp_baseUOM dto) (bm_baseUOM b), bm_notes := nullish (bp_notes dto) (bm_notes b)\<rparr>"

text \<open>\<open>update\<close> by primary key.\<close>

definition write_bom :: "uuid \<Rightarrow> (mrp_bom \<Rightarrow> mrp_bom) \<Rightarrow> unit mrp_prog" where
  "write_bom bomId f = modify (\<lambda>s. s\<lparr>boms := update_where (\<lambda>b. bm_id b = bomId) f (boms s)\<rparr>)"

definition updateBOM :: "uuid_string \<Rightarrow> uuid \<Rightarrow> bom_patch \<Rightarrow> bom_response mrp_prog" where
  "updateBOM tenantId bomId dto =
     bind (own_bom tenantId bomId) (\<lambda>b.
     seq (throwIf (\<not> fits 18 4 (nonzero_or (bp_baseQuantity dto) 0)) PrismaValueOutOfRange)
    (bind (gets (\<lambda>s. version_taken (bm_tenantId b) (bm_parentProductId b) (bm_version (patch_bom dto b))
             (filter (\<lambda>x. bm_id x \<noteq> bomId) (boms s)))) (\<lambda>clash.
     seq (throwIf clash PrismaUniqueViolation)
    (seq (write_bom bomId (patch_bom dto))
         (gets (\<lambda>s. mapBOMResponse (product_by s) (patch_bom dto b) (lines_of bomId s)))))))"

text \<open>Lines and routings, with their operations, go with their bill.\<close>

definition deleteBOM :: "uuid_string \<Rightarrow> uuid \<Rightarrow> unit mrp_prog" where
  "deleteBOM tenantId bomId =
     bind (own_bom tenantId bomId) (\<lambda>_.
     modify (\<lambda>s. s\<lparr>boms := filter (\<lambda>b. bm_id b \<noteq> bomId) (boms s),
       bomLines := filter (\<lambda>c. bl_bomId c \<noteq> bomId) (bomLines s),
       routingSteps := filter (\<lambda>t. \<not> list_ex (\<lambda>r. rt_id r = rs_routingId t \<and> rt_bomId r = bomId) (mrpRoutings s)) (routingSteps s),
       mrpRoutings := filter (\<lambda>r. rt_bomId r \<noteq> bomId) (mrpRoutings s)\<rparr>))"

record component_dto =
  cd_componentProductId :: uuid_string
  cd_quantity :: "rat option"
  cd_uom :: "string option"
  cd_sequence :: "int option"
  cd_position :: "int option"
  cd_scrapPercent :: "rat option"
  cd_supplyType :: "SupplyType option"
  cd_leadTimeOffset :: "int option"
  cd_notes :: "string option"

text \<open>
  \<open>new Decimal\<close> of a missing quantity throws; a null unit of measure is refused by the client.
\<close>

definition addBOMComponent :: "uuid_string \<Rightarrow> uuid \<Rightarrow> component_dto \<Rightarrow> component_response mrp_prog" where
  "addBOMComponent tenantId bomId dto =
     bind (own_bom tenantId bomId) (\<lambda>_.
     bind (bind (gets (\<lambda>s. find (\<lambda>p. pr_id p = cd_componentProductId dto \<and> pr_tenantId p = tenantId) (mrpProducts s)))
             (orThrow NotFoundException)) (\<lambda>product.
     bind (orThrow DecimalError (cd_quantity dto)) (\<lambda>quantity.
     bind (orThrow PrismaValidationError (if truthy (cd_uom dto) then cd_uom dto else pr_unitOfMeasure product)) (\<lambda>uom.
     seq (throwIf (\<not> (fits 18 6 quantity \<and> fits 5 2 (orElse (cd_scrapPercent dto) 0))) PrismaValueOutOfRange)
    (bind new_row (\<lambda>i.
     let row = \<lparr>bl_id = i, bl_bomId = bomId, bl_componentProductId = cd_componentProductId dto,
           bl_sequence = orElse (nullish (cd_sequence dto) (cd_position dto)) 10, bl_quantity = round_away 6 quantity,
           bl_uom = uom, bl_scrapPercent = round_away 2 (orElse (cd_scrapPercent dto) 0),
           bl_supplyType = orElse (cd_supplyType dto) DIRECT_PURCHASE,
           bl_leadTimeOffset = orElse (cd_leadTimeOffset dto) 0, bl_notes = cd_notes dto\<rparr> in
     seq (modify (\<lambda>s. s\<lparr>bomLines := bomLines s @ [row]\<rparr>))
         (return (mapBOMComponentResponse (Some product) row))))))))"

record component_patch =
  cp_componentProductId :: "uuid_string option"
  cp_quantity :: "rat option"
  cp_uom :: "string option"
  cp_sequence :: "int option"
  cp_position :: "int option"
  cp_scrapPercent :: "rat option"
  cp_wastagePercent :: "rat option"
  cp_supplyType :: "SupplyType option"
  cp_leadTimeOffset :: "int option"
  cp_notes :: "string option"

text \<open>Later spreads of the object literal win: \<open>position\<close> and \<open>wastagePercent\<close>.\<close>

definition patch_line :: "component_patch \<Rightarrow> bom_line \<Rightarrow> bom_line" where
  "patch_line dto c =
     c\<lparr>bl_componentProductId := text_or (cp_componentProductId dto) (bl_componentProductId c),
       bl_quantity := (case cp_quantity dto of None \<Rightarrow> bl_quantity c | Some q \<Rightarrow> round_away 6 q),
       bl_uom := orElse (cp_uom dto) (bl_uom c),
       bl_sequence := orElse (nullish (cp_position dto) (cp_sequence dto)) (bl_sequence c),
       bl_scrapPercent := (case nullish (cp_wastagePercent dto) (cp_scrapPercent dto) of None \<Rightarrow> bl_scrapPercent c
         | Some x \<Rightarrow> round_away 2 x),
       bl_supplyType := orElse (cp_supplyType dto) (bl_supplyType c),
       bl_leadTimeOffset := orElse (cp_leadTimeOffset dto) (bl_leadTimeOffset c),
       bl_notes := nullish (cp_notes dto) (bl_notes c)\<rparr>"

text \<open>A line of a bill of the tenant.\<close>

definition own_line :: "uuid_string \<Rightarrow> uuid \<Rightarrow> bom_line mrp_prog" where
  "own_line tenantId componentId =
     bind (gets (\<lambda>s. find (\<lambda>c. bl_id c = componentId \<and>
         list_ex (\<lambda>b. bm_id b = bl_bomId c \<and> bm_tenantId b = tenantId) (boms s)) (bomLines s)))
       (orThrow NotFoundException)"

definition updateBOMComponent :: "uuid_string \<Rightarrow> uuid \<Rightarrow> component_patch \<Rightarrow> component_response mrp_prog" where
  "updateBOMComponent tenantId componentId dto =
     bind (own_line tenantId componentId) (\<lambda>c.
     seq (throwIf (\<not> (fits 18 6 (orElse (cp_quantity dto) 0) \<and>
           fits 5 2 (orElse (nullish (cp_wastagePercent dto) (cp_scrapPercent dto)) 0))) PrismaValueOutOfRange)
    (bind (gets (\<lambda>s. product_by s (bl_componentProductId (patch_line dto c)))) (\<lambda>product.
     seq (throwIf (product = None) PrismaForeignKeyViolation)
    (seq (modify (\<lambda>s. s\<lparr>bomLines := update_where (\<lambda>x. bl_id x = componentId) (patch_line dto) (bomLines s)\<rparr>))
         (return (mapBOMComponentResponse product (patch_line dto c)))))))"

definition deleteBOMComponent :: "uuid_string \<Rightarrow> uuid \<Rightarrow> unit mrp_prog" where
  "deleteBOMComponent tenantId componentId =
     bind (own_line tenantId componentId) (\<lambda>_.
     modify (\<lambda>s. s\<lparr>bomLines := filter (\<lambda>c. bl_id c \<noteq> componentId) (bomLines s)\<rparr>))"

fun validTransitions :: "BOMStatus \<Rightarrow> BOMStatus list" where
  "validTransitions BOMStatus.DRAFT = [BOMStatus.PENDING_APPROVAL, BOMStatus.ACTIVE]"
| "validTransitions BOMStatus.PENDING_APPROVAL = [BOMStatus.ACTIVE, BOMStatus.DRAFT]"
| "validTransitions BOMStatus.ACTIVE = [OBSOLETE]"
| "validTransitions OBSOLETE = []"

definition updateBOMStatus :: "uuid_string \<Rightarrow> uuid \<Rightarrow> BOMStatus \<Rightarrow> unit mrp_prog" where
  "updateBOMStatus tenantId bomId status =
     bind (own_bom tenantId bomId) (\<lambda>b.
     seq (throwIf (status \<notin> set (validTransitions (bm_status b))) BadRequestException)
         (write_bom bomId (\<lambda>x. x\<lparr>bm_status := status\<rparr>)))"

record copy_dto =
  co_targetProductId :: "uuid_string option"
  co_newRevision :: "string option"
  co_name :: "string option"
  co_copyComponents :: "bool option"

text \<open>The copy and its lines are two writes without a transaction; only the first can fail.\<close>

definition copyBOM :: "uuid_string \<Rightarrow> uuid \<Rightarrow> copy_dto \<Rightarrow> uuid mrp_prog" where
  "copyBOM tenantId bomId dto =
     bind (own_bom tenantId bomId) (\<lambda>source.
     bind (gets (lines_of bomId)) (\<lambda>cs.
     let target = text_or (co_targetProductId dto) (bm_parentProductId source);
         version = text_or (co_newRevision dto) (bm_version source @ ''-COPY'') in
     bind (gets (\<lambda>s. (product_by s target, version_taken tenantId target version (boms s)))) (\<lambda>(product, clash).
     seq (throwIf (product = None) PrismaRecordNotFound)
    (seq (throwIf clash PrismaUniqueViolation)
    (bind new_row (\<lambda>i.
     seq (modify (\<lambda>s. s\<lparr>boms := boms s @ [source\<lparr>bm_id := i, bm_tenantId := tenantId, bm_parentProductId := target,
            bm_name := text_or (co_name dto) (bm_name source @ '' Copy''), bm_version := version, bm_status := BOMStatus.DRAFT\<rparr>]\<rparr>))
    (seq (modify (\<lambda>s. if orElse (co_copyComponents dto) True then
            s\<lparr>bomLines := bomLines s @ map (\<lambda>(c, j). c\<lparr>bl_id := j, bl_bomId := i\<rparr>) (numbered_from (next_row s) cs),
              next_row := next_row s + length cs\<rparr> else s))
         (return i))))))))"

section \<open>Comparison and use\<close>

definition line_key :: "bom_line \<Rightarrow> uuid_string \<times> int" where
  "line_key c = (bl_componentProductId c, bl_sequence c)"

record bom_difference =
  df_added :: "uuid_string list"
  df_removed :: "uuid_string list"
  df_changed :: "uuid_string list"

text \<open>The text keys separate an id, which has no colon, from a sequence number.\<close>

definition compareBOMs :: "uuid_string \<Rightarrow> uuid \<Rightarrow> uuid \<Rightarrow> bom_difference mrp_prog" where
  "compareBOMs tenantId bomId1 bomId2 =
     seq (own_bom tenantId bomId1) (seq (own_bom tenantId bomId2)
    (gets (\<lambda>s.
       let bom1Map = put_all (map (\<lambda>c. (line_key c, c)) (lines_of bomId1 s));
           bom2Map = put_all (map (\<lambda>c. (line_key c, c)) (lines_of bomId2 s))
       in \<lparr>df_added = map (bl_componentProductId \<circ> snd) (filter (\<lambda>e. map_of bom1Map (fst e) = None) bom2Map),
           df_removed = map (bl_componentProductId \<circ> snd) (filter (\<lambda>e. map_of bom2Map (fst e) = None) bom1Map),
           df_changed = map (bl_componentProductId \<circ> snd) (filter (\<lambda>e. case map_of bom2Map (fst e) of None \<Rightarrow> False
             | Some m \<Rightarrow> double (bl_quantity (snd e)) \<noteq> double (bl_quantity m) \<or>
                 double (bl_scrapPercent (snd e)) \<noteq> double (bl_scrapPercent m)) bom1Map)\<rparr>)))"

record bom_use =
  bu_bomId :: uuid
  bu_bomName :: string
  bu_revision :: string
  bu_status :: BOMStatus
  bu_parentProductId :: uuid_string
  bu_quantity :: rat
  bu_uom :: string
  bu_sequence :: int

text \<open>Newest line first, as rows are appended.\<close>

definition getWhereUsed :: "uuid_string \<Rightarrow> uuid_string \<Rightarrow> bom_use list mrp_prog" where
  "getWhereUsed tenantId productId =
     gets (\<lambda>s. concat (map (\<lambda>c. map (\<lambda>b.
         \<lparr>bu_bomId = bm_id b, bu_bomName = bm_name b, bu_revision = bm_version b, bu_status = bm_status b,
          bu_parentProductId = bm_parentProductId b, bu_quantity = double (bl_quantity c), bu_uom = bl_uom c,
          bu_sequence = bl_sequence c\<rparr>)
         (filter (\<lambda>b. bm_id b = bl_bomId c \<and> bm_tenantId b = tenantId) (boms s)))
       (filter (\<lambda>c. bl_componentProductId c = productId) (rev (bomLines s)))))"

end
