(* ===== verification/Explosion.thy ===== *)
theory Explosion
  imports Boms "HOL-Library.Sublist"
begin

text \<open>
  The multi-level explosion of a bill of material, \<open>explodeBOM\<close>, and \<open>rollupCost\<close> on it.  A number
  that may be \<open>NaN\<close> is an option, \<open>None\<close> standing for \<open>NaN\<close>.
\<close>

section \<open>The code\<close>

definition nan_mul :: "rat option \<Rightarrow> rat option \<Rightarrow> rat option" where
  "nan_mul x y = (case (x, y) of (Some a, Some b) \<Rightarrow> Some (num_mul a b) | _ \<Rightarrow> None)"

text \<open>
  What \<open>explode\<close> reads of a component: a mapped component of \<open>getBOM\<close> has \<open>quantityPer\<close> but no
  \<open>quantity\<close> and no \<open>supplyType\<close>, so \<open>Number(comp.quantity)\<close> is \<open>NaN\<close>; a row has both.
\<close>

record explode_item =
  xi_componentProductId :: uuid_string
  xi_componentProduct :: "mrp_product option"
  xi_quantity :: "rat option"
  xi_uom :: string
  xi_supplyType :: "SupplyType option"

definition mapped_item :: "component_response \<Rightarrow> explode_item" where
  "mapped_item c = \<lparr>xi_componentProductId = cr_componentProductId c, xi_componentProduct = cr_componentProduct c,
     xi_quantity = None, xi_uom = cr_uom c, xi_supplyType = None\<rparr>"

definition row_item :: "mrp \<Rightarrow> bom_line \<Rightarrow> explode_item" where
  "row_item s c = \<lparr>xi_componentProductId = bl_componentProductId c, xi_componentProduct = product_by s (bl_componentProductId c),
     xi_quantity = Some (double (bl_quantity c)), xi_uom = bl_uom c, xi_supplyType = Some (bl_supplyType c)\<rparr>"

text \<open>\<open>xc_totalCost\<close> is \<open>None\<close> for \<open>undefined\<close>.\<close>

record ExplodedComponent =
  xc_level :: int
  xc_productId :: uuid_string
  xc_quantity :: "rat option"
  xc_extendedQuantity :: "rat option"
  xc_uom :: "string option"
  xc_supplyType :: "SupplyType option"
  xc_totalCost :: "rat option option"

definition exploded_row :: "int \<Rightarrow> rat option \<Rightarrow> explode_item \<Rightarrow> mrp_product \<Rightarrow> ExplodedComponent" where
  "exploded_row level extendedQty item product =
     \<lparr>xc_level = level, xc_productId = xi_componentProductId item, xc_quantity = xi_quantity item,
      xc_extendedQuantity = extendedQty, xc_uom = (if xi_uom item = [] then pr_unitOfMeasure product else Some (xi_uom item)),
      xc_supplyType = xi_supplyType item,
      xc_totalCost = map_option (\<lambda>cost. nan_mul (Some (double cost)) extendedQty) (pr_standardCost product)\<rparr>"

text \<open>The lines of the active bill of a product, if it has one.\<close>

definition child_bom :: "uuid_string \<Rightarrow> mrp \<Rightarrow> uuid_string \<Rightarrow> mrp_bom option" where
  "child_bom tenantId s productId =
     find (\<lambda>b. bm_tenantId b = tenantId \<and> bm_parentProductId b = productId \<and> bm_status b = BOMStatus.ACTIVE) (boms s)"

definition children :: "uuid_string \<Rightarrow> mrp \<Rightarrow> uuid_string \<Rightarrow> explode_item list" where
  "children tenantId s productId =
     (case child_bom tenantId s productId of None \<Rightarrow> [] | Some b \<Rightarrow> map (row_item s) (lines_of (bm_id b) s))"

function explode :: "uuid_string \<Rightarrow> mrp \<Rightarrow> int \<Rightarrow> int \<Rightarrow> rat option \<Rightarrow> explode_item list \<Rightarrow>
    ExplodedComponent list \<times> uuid_string list \<Rightarrow> ExplodedComponent list \<times> uuid_string list" where
  "explode tenantId s maxLevels level parentQty [] acc = acc"
| "explode tenantId s maxLevels level parentQty (item # components) (exploded, visited) =
     (if maxLevels < level then (exploded, visited)
      else case xi_componentProduct item of
        None \<Rightarrow> explode tenantId s maxLevels level parentQty components (exploded, visited)
      | Some product \<Rightarrow>
          let i = xi_componentProductId item; extendedQty = nan_mul (xi_quantity item) parentQty;
              out = exploded @ [exploded_row level extendedQty item product]
          in explode tenantId s maxLevels level parentQty components
               (if i \<in> set visited then (out, visited)
                else explode tenantId s maxLevels (level + 1) extendedQty (children tenantId s i) (out, i # visited)))"
  by pat_completeness auto
termination
  by (relation "measures [\<lambda>(t, s, maxLevels, level, q, cs, acc). nat (maxLevels + 1 - level),
        \<lambda>(t, s, maxLevels, level, q, cs, acc). length cs]") auto

declare explode.simps(2) [simp del]

record explosion =
  xp_components :: "ExplodedComponent list"
  xp_totalLevels :: int
  xp_uniqueComponents :: nat
  xp_totalCost :: rat

text \<open>\<open>c.totalCost || 0\<close>: neither \<open>undefined\<close> nor \<open>NaN\<close> counts.\<close>

definition cost_or_0 :: "ExplodedComponent \<Rightarrow> rat" where
  "cost_or_0 c = (case xc_totalCost c of Some (Some x) \<Rightarrow> x | _ \<Rightarrow> 0)"

definition explodeBOM :: "uuid_string \<Rightarrow> uuid \<Rightarrow> int \<Rightarrow> explosion mrp_prog" where
  "explodeBOM tenantId bomId maxLevels =
     bind (getBOM tenantId bomId) (\<lambda>bom.
     gets (\<lambda>s. let exploded = fst (explode tenantId s maxLevels 1 (Some 1) (map mapped_item (br_components bom)) ([], []))
       in \<lparr>xp_components = exploded, xp_totalLevels = fold max (map xc_level exploded) 0,
           xp_uniqueComponents = card (xc_productId ` set exploded),
           xp_totalCost = fold (\<lambda>c sum. num_add sum (cost_or_0 c)) exploded 0\<rparr>))"

definition rollupCost :: "uuid_string \<Rightarrow> uuid \<Rightarrow> rat mrp_prog" where
  "rollupCost tenantId bomId = bind (explodeBOM tenantId bomId 10) (\<lambda>x. return (xp_totalCost x))"

text \<open>The items the explosion starts from: the mapped lines of the bill.\<close>

definition root_items :: "mrp \<Rightarrow> uuid \<Rightarrow> explode_item list" where
  "root_items s bomId = map (\<lambda>c. mapped_item (mapBOMComponentResponse (product_by s (bl_componentProductId c)) c))
     (sort_key bl_sequence (lines_of bomId s))"

lemma run_explodeBOM:
  "explodeBOM tenantId bomId maxLevels s =
     (case find (\<lambda>b. bm_id b = bomId \<and> bm_tenantId b = tenantId) (boms s) of
        None \<Rightarrow> (Inl NotFoundException, s)
      | Some _ \<Rightarrow> (let exploded = fst (explode tenantId s maxLevels 1 (Some 1) (root_items s bomId) ([], []))
         in (Inr \<lparr>xp_components = exploded, xp_totalLevels = fold max (map xc_level exploded) 0,
               xp_uniqueComponents = card (xc_productId ` set exploded),
               xp_totalCost = fold (\<lambda>c sum. num_add sum (cost_or_0 c)) exploded 0\<rparr>, s)))"
  by (auto simp: explodeBOM_def getBOM_def own_bom_def bind_def gets_def orThrow_def throw_def return_def Let_def
      mapBOMResponse_def root_items_def comp_def split: option.split)

section \<open>Its steps\<close>

lemma explode_deep: "maxLevels < level \<Longrightarrow> explode tenantId s maxLevels level q (item # cs) acc = acc"
  by (cases acc) (simp add: explode.simps(2))

lemma explode_None: "\<not> maxLevels < level \<Longrightarrow> xi_componentProduct item = None \<Longrightarrow>
    explode tenantId s maxLevels level q (item # cs) acc = explode tenantId s maxLevels level q cs acc"
  by (cases acc) (simp add: explode.simps(2))

text \<open>A component with a product: its row, and what its own bill adds unless it was seen before.\<close>

definition row_of :: "int \<Rightarrow> rat option \<Rightarrow> explode_item \<Rightarrow> mrp_product \<Rightarrow> ExplodedComponent" where
  "row_of level q item product = exploded_row level (nan_mul (xi_quantity item) q) item product"

definition below :: "uuid_string \<Rightarrow> mrp \<Rightarrow> int \<Rightarrow> int \<Rightarrow> rat option \<Rightarrow> explode_item \<Rightarrow> mrp_product \<Rightarrow>
    ExplodedComponent list \<times> uuid_string list \<Rightarrow> ExplodedComponent list \<times> uuid_string list" where
  "below tenantId s maxLevels level q item product = (\<lambda>(out, visited).
     if xi_componentProductId item \<in> set visited then (out @ [row_of level q item product], visited)
     else explode tenantId s maxLevels (level + 1) (nan_mul (xi_quantity item) q) (children tenantId s (xi_componentProductId item))
       (out @ [row_of level q item product], xi_componentProductId item # visited))"

lemma explode_Some: "\<not> maxLevels < level \<Longrightarrow> xi_componentProduct item = Some product \<Longrightarrow>
    explode tenantId s maxLevels level q (item # cs) acc =
      explode tenantId s maxLevels level q cs (below tenantId s maxLevels level q item product acc)"
  by (cases acc) (simp add: explode.simps(2) below_def row_of_def Let_def)

lemma explode_induct [case_names Nil Deep None Some]:
  assumes "\<And>level q acc. P level q [] acc"
    "\<And>level q item cs acc. maxLevels < level \<Longrightarrow> P level q (item # cs) acc"
    "\<And>level q item cs acc. \<not> maxLevels < level \<Longrightarrow> xi_componentProduct item = None \<Longrightarrow> P level q cs acc \<Longrightarrow> P level q (item # cs) acc"
    "\<And>level q item cs out visited product. \<not> maxLevels < level \<Longrightarrow> xi_componentProduct item = Some product \<Longrightarrow>
      (xi_componentProductId item \<notin> set visited \<Longrightarrow>
        P (level + 1) (nan_mul (xi_quantity item) q) (children tenantId s (xi_componentProductId item))
          (out @ [row_of level q item product], xi_componentProductId item # visited)) \<Longrightarrow>
      P level q cs (below tenantId s maxLevels level q item product (out, visited)) \<Longrightarrow> P level q (item # cs) (out, visited)"
  shows "P level q (cs :: explode_item list) acc"
proof (induction "nat (maxLevels + 1 - level)" arbitrary: level q cs acc rule: less_induct)
  case (less level q cs acc)
  show ?case
  proof (cases "maxLevels < level")
    case True
    then show ?thesis by (cases cs) (simp_all add: assms(1,2))
  next
    case False
    show ?thesis
    proof (induction cs arbitrary: acc)
      case Nil
      show ?case by (rule assms(1))
    next
      case (Cons item cs)
      obtain out visited where acc: "acc = (out, visited)" by fastforce
      show ?case
      proof (cases "xi_componentProduct item")
        case None
        then show ?thesis using Cons False by (intro assms(3)) simp_all
      next
        case (Some product)
        then show ?thesis unfolding acc using Cons False less by (intro assms(4) [OF False Some]) simp_all
      qed
    qed
  qed
qed

section \<open>The total cost\<close>

lemma row_nan: "xc_extendedQuantity (row_of level q item product) = nan_mul (xi_quantity item) q"
  "nan_mul (xi_quantity item) q = None \<Longrightarrow> cost_or_0 (row_of level q item product) = 0"
  by (auto simp: row_of_def exploded_row_def cost_or_0_def nan_mul_def split: option.splits)

lemma nan_mul_None: "q = None \<or> x = None \<Longrightarrow> nan_mul x q = None"
  by (auto simp: nan_mul_def split: option.split)

lemma explode_nan:
  "q = None \<or> (\<forall>c \<in> set cs. xi_quantity c = None) \<Longrightarrow>
   \<forall>x \<in> set (fst acc). xc_extendedQuantity x = None \<and> cost_or_0 x = 0 \<Longrightarrow>
   \<forall>x \<in> set (fst (explode tenantId s maxLevels level q cs acc)). xc_extendedQuantity x = None \<and> cost_or_0 x = 0"
proof (induction level q cs acc rule: explode_induct [where tenantId = tenantId and s = s and maxLevels = maxLevels])
  case (Some level q item cs out visited product)
  have nan: "nan_mul (xi_quantity item) q = None" using Some.prems(1) by (intro nan_mul_None) auto
  have "\<forall>x \<in> set (fst (below tenantId s maxLevels level q item product (out, visited))). xc_extendedQuantity x = None \<and> cost_or_0 x = 0"
    using Some.IH(1) Some.prems(2) by (auto simp: below_def nan row_nan)
  then show ?case using Some.IH(2) Some.prems(1) by (auto simp: explode_Some [OF Some.hyps])
qed (auto simp: explode_deep explode_None)

lemma sum_zero: "\<forall>x \<in> set xs. f x = 0 \<Longrightarrow> fold (\<lambda>c sum. num_add sum (f c)) xs 0 = 0"
  by (induction xs) (simp_all add: num_add_def)

text \<open>Nothing an explosion lists has a quantity, so every rolled up cost is zero.\<close>

lemma explodeBOM_nan:
  assumes "explodeBOM tenantId bomId maxLevels s = (Inr x, s')"
  shows "s' = s" "\<forall>c \<in> set (xp_components x). xc_extendedQuantity c = None" "xp_totalCost x = 0"
proof -
  define out where "out = fst (explode tenantId s maxLevels 1 (Some 1) (root_items s bomId) ([], []))"
  have "\<forall>c \<in> set out. xc_extendedQuantity c = None \<and> cost_or_0 c = 0"
    unfolding out_def by (rule explode_nan) (simp_all add: mapped_item_def root_items_def)
  then show "s' = s" "\<forall>c \<in> set (xp_components x). xc_extendedQuantity c = None" "xp_totalCost x = 0"
    using assms sum_zero [of out cost_or_0] by (auto simp: run_explodeBOM out_def [symmetric] Let_def split: option.splits)
qed

section \<open>Against the full explosion\<close>

text \<open>The rows without the test for what was visited: every component with all that is below it.\<close>

function full_explosion :: "uuid_string \<Rightarrow> mrp \<Rightarrow> int \<Rightarrow> int \<Rightarrow> rat option \<Rightarrow> explode_item list \<Rightarrow> ExplodedComponent list" where
  "full_explosion tenantId s maxLevels level q [] = []"
| "full_explosion tenantId s maxLevels level q (item # cs) =
     (if maxLevels < level then []
      else case xi_componentProduct item of
        None \<Rightarrow> full_explosion tenantId s maxLevels level q cs
      | Some product \<Rightarrow> row_of level q item product #
          full_explosion tenantId s maxLevels (level + 1) (nan_mul (xi_quantity item) q)
            (children tenantId s (xi_componentProductId item)) @
          full_explosion tenantId s maxLevels level q cs)"
  by pat_completeness auto
termination
  by (relation "measures [\<lambda>(t, s, maxLevels, level, q, cs). nat (maxLevels + 1 - level),
        \<lambda>(t, s, maxLevels, level, q, cs). length cs]") auto

declare full_explosion.simps(2) [simp del]

lemma row_product [simp]: "xc_productId (row_of level q item product) = xi_componentProductId item"
  by (simp add: row_of_def exploded_row_def)

text \<open>The code lists some of these rows, in their order.\<close>

lemma explode_subseq:
  "\<exists>rows. fst (explode tenantId s maxLevels level q cs acc) = fst acc @ rows \<and>
     subseq rows (full_explosion tenantId s maxLevels level q cs)"
proof (induction level q cs acc rule: explode_induct [where tenantId = tenantId and s = s and maxLevels = maxLevels])
  case (Some level q item cs out visited product)
  define under where "under = full_explosion tenantId s maxLevels (level + 1) (nan_mul (xi_quantity item) q)
    (children tenantId s (xi_componentProductId item))"
  have "\<exists>rows. fst (below tenantId s maxLevels level q item product (out, visited)) = out @ row_of level q item product # rows \<and>
      subseq rows under"
    using Some.IH(1) by (auto simp: below_def under_def)
  then obtain r where r: "fst (below tenantId s maxLevels level q item product (out, visited)) = out @ row_of level q item product # r"
    "subseq r under" by blast
  obtain r' where r': "fst (explode tenantId s maxLevels level q cs (below tenantId s maxLevels level q item product (out, visited))) =
      fst (below tenantId s maxLevels level q item product (out, visited)) @ r'"
    "subseq r' (full_explosion tenantId s maxLevels level q cs)" using Some.IH(2) by blast
  have "subseq (row_of level q item product # r @ r')
      (full_explosion tenantId s maxLevels level q (item # cs))"
    using list_emb_append_mono [OF r(2) r'(2)] Some.hyps by (simp add: full_explosion.simps(2) under_def)
  then show ?case using r r' by (intro exI [of _ "row_of level q item product # r @ r'"]) (simp add: explode_Some [OF Some.hyps])
qed (simp_all add: explode_deep explode_None full_explosion.simps(2))

text \<open>It lists all of them where no product comes twice.\<close>

lemma explode_distinct:
  "distinct (map xc_productId (full_explosion tenantId s maxLevels level q cs)) \<Longrightarrow>
   xc_productId ` set (full_explosion tenantId s maxLevels level q cs) \<inter> set (snd acc) = {} \<Longrightarrow>
   fst (explode tenantId s maxLevels level q cs acc) = fst acc @ full_explosion tenantId s maxLevels level q cs \<and>
   set (snd (explode tenantId s maxLevels level q cs acc)) =
     set (snd acc) \<union> xc_productId ` set (full_explosion tenantId s maxLevels level q cs)"
proof (induction level q cs acc rule: explode_induct [where tenantId = tenantId and s = s and maxLevels = maxLevels])
  case (Some level q item cs out visited product)
  define under where "under = full_explosion tenantId s maxLevels (level + 1) (nan_mul (xi_quantity item) q)
    (children tenantId s (xi_componentProductId item))"
  define rest where "rest = full_explosion tenantId s maxLevels level q cs"
  have full: "full_explosion tenantId s maxLevels level q (item # cs) = row_of level q item product # under @ rest"
    using Some.hyps by (simp add: full_explosion.simps(2) under_def rest_def)
  define b where "b = below tenantId s maxLevels level q item product (out, visited)"
  have fresh: "xi_componentProductId item \<notin> set visited" using Some.prems(2) by (simp add: full)
  have "fst b = out @ row_of level q item product # under \<and>
      set (snd b) = insert (xi_componentProductId item) (set visited \<union> xc_productId ` set under)"
    using Some.IH(1) [OF fresh] Some.prems fresh by (auto simp: b_def below_def under_def [symmetric] full)
  moreover have "fst (explode tenantId s maxLevels level q cs b) = fst b @ rest \<and>
      set (snd (explode tenantId s maxLevels level q cs b)) = set (snd b) \<union> xc_productId ` set rest"
    unfolding b_def rest_def
    by (rule Some.IH(2)) (use Some.prems calculation in \<open>auto simp: b_def [symmetric] rest_def [symmetric] full\<close>)
  ultimately show ?case by (auto simp: explode_Some [OF Some.hyps] b_def [symmetric] full)
qed (simp_all add: explode_deep explode_None full_explosion.simps(2))

section \<open>The size of an explosion\<close>

definition fan_out :: "uuid_string \<Rightarrow> mrp \<Rightarrow> uuid_string \<Rightarrow> nat" where
  "fan_out tenantId s p = length (children tenantId s p)"

text \<open>The bill of each product is opened once, also where bills contain each other.\<close>

lemma explode_size:
  "length (fst (explode tenantId s maxLevels level q cs acc)) + sum_list (map (fan_out tenantId s) (snd acc)) \<le>
     length (fst acc) + length cs + sum_list (map (fan_out tenantId s) (snd (explode tenantId s maxLevels level q cs acc))) \<and>
   (distinct (snd acc) \<longrightarrow> distinct (snd (explode tenantId s maxLevels level q cs acc)))"
proof (induction level q cs acc rule: explode_induct [where tenantId = tenantId and s = s and maxLevels = maxLevels])
  case (Some level q item cs out visited product)
  define b where "b = below tenantId s maxLevels level q item product (out, visited)"
  have "length (fst b) + sum_list (map (fan_out tenantId s) visited) \<le>
      Suc (length out) + sum_list (map (fan_out tenantId s) (snd b)) \<and> (distinct visited \<longrightarrow> distinct (snd b))"
    using Some.IH(1) by (auto simp: b_def below_def fan_out_def [symmetric])
  then show ?case using Some.IH(2) by (auto simp: explode_Some [OF Some.hyps] b_def [symmetric])
qed (simp_all add: explode_deep explode_None)

lemma fan_out_lines:
  assumes "distinct (map bm_id (boms s))" "distinct ps"
  shows "sum_list (map (fan_out tenantId s) ps) =
    length (filter (\<lambda>c. \<exists>p \<in> set ps. map_option bm_id (child_bom tenantId s p) = Some (bl_bomId c)) (bomLines s))"
  using assms(2)
proof (induction ps)
  case (Cons p ps)
  define own where "own = (\<lambda>p (c :: bom_line). map_option bm_id (child_bom tenantId s p) = Some (bl_bomId c))"
  have fan: "fan_out tenantId s p = length (filter (own p) (bomLines s))"
  proof (cases "child_bom tenantId s p")
    case None
    then show ?thesis by (simp add: fan_out_def children_def own_def)
  next
    case (Some b)
    then have "own p = (\<lambda>c. bl_bomId c = bm_id b)" by (auto simp: own_def fun_eq_iff)
    then show ?thesis using Some by (simp add: fan_out_def children_def lines_of_def)
  qed
  have "p = p'" if o: "own p c" "own p' c" for p' c
  proof -
    obtain b b' where b: "child_bom tenantId s p = Some b" "child_bom tenantId s p' = Some b'" "bm_id b = bm_id b'"
      using o by (auto simp: own_def)
    then have "b \<in> set (boms s)" "b' \<in> set (boms s)" "bm_parentProductId b = p" "bm_parentProductId b' = p'"
      by (auto simp: child_bom_def find_Some_iff)
    then show ?thesis using b(3) assms(1) by (auto simp: distinct_map dest: inj_onD)
  qed
  then have apart: "\<not> (own p c \<and> (\<exists>p' \<in> set ps. own p' c))" for c using Cons.prems by auto
  have "length (filter P xs) + length (filter Q xs) = length (filter (\<lambda>c. P c \<or> Q c) xs)"
    if "\<And>c. \<not> (P c \<and> Q c)" for P Q and xs :: "bom_line list"
    by (induction xs) (use that in auto)
  from this [of "own p" "\<lambda>c. \<exists>p' \<in> set ps. own p' c", OF apart]
  show ?case using Cons fan by (simp add: own_def)
qed simp

section \<open>An explosion\<close>

lemma explosion_run:
  "explodeBOM tenantId bomId maxLevels s = (Inr x, s') \<Longrightarrow>
   xp_components x = fst (explode tenantId s maxLevels 1 (Some 1) (root_items s bomId) ([], []))"
  by (auto simp: run_explodeBOM Let_def split: option.splits)

lemma explosion_subseq:
  "explodeBOM tenantId bomId maxLevels s = (Inr x, s') \<Longrightarrow>
   subseq (xp_components x) (full_explosion tenantId s maxLevels 1 (Some 1) (root_items s bomId))"
  using explode_subseq [of tenantId s maxLevels 1 "Some 1" "root_items s bomId" "([], [])"] by (auto simp: explosion_run)

lemma explosion_distinct:
  "explodeBOM tenantId bomId maxLevels s = (Inr x, s') \<Longrightarrow>
   distinct (map xc_productId (full_explosion tenantId s maxLevels 1 (Some 1) (root_items s bomId))) \<Longrightarrow>
   xp_components x = full_explosion tenantId s maxLevels 1 (Some 1) (root_items s bomId)"
  using explode_distinct [of tenantId s maxLevels 1 "Some 1" "root_items s bomId" "([], [])"] by (simp add: explosion_run)

lemma length_root [simp]: "length (root_items s bomId) = length (lines_of bomId s)"
  by (simp add: root_items_def)

lemma explosion_size:
  assumes "distinct (map bm_id (boms s))" "explodeBOM tenantId bomId maxLevels s = (Inr x, s')"
  shows "length (xp_components x) \<le> length (lines_of bomId s) + length (bomLines s)"
proof -
  define acc where "acc = explode tenantId s maxLevels 1 (Some 1) (root_items s bomId) ([], [])"
  have "length (fst acc) \<le> length (root_items s bomId) + sum_list (map (fan_out tenantId s) (snd acc)) \<and> distinct (snd acc)"
    using explode_size [of tenantId s maxLevels 1 "Some 1" "root_items s bomId" "([], [])"] by (simp add: acc_def)
  moreover have "sum_list (map (fan_out tenantId s) (snd acc)) \<le> length (bomLines s)"
    using calculation fan_out_lines [OF assms(1), of "snd acc"] by simp
  ultimately show ?thesis by (simp add: explosion_run [OF assms(2)] acc_def [symmetric])
qed

end
