(* ===== verification/MrpSystem.thy ===== *)
theory MrpSystem
  imports MrpOrders Explosion
begin

text \<open>
  Bills of material, planning runs and planned orders as one system: its operations in any order,
  and what holds of the bills and the orders in every state they lead to.
\<close>

section \<open>Tables with fresh ids\<close>

definition fresh_keys :: "('r \<Rightarrow> uuid) \<Rightarrow> 'r list \<Rightarrow> uuid \<Rightarrow> bool" where
  "fresh_keys key rows n \<longleftrightarrow> distinct (map key rows) \<and> (\<forall>r \<in> set rows. key r < n)"

lemma fresh_append: "fresh_keys key rows n \<Longrightarrow> key r = n \<Longrightarrow> fresh_keys key (rows @ [r]) (Suc n)"
  by (auto simp: fresh_keys_def)

lemma fresh_mono: "fresh_keys key rows n \<Longrightarrow> n \<le> m \<Longrightarrow> fresh_keys key rows m"
  by (auto simp: fresh_keys_def)

lemma fresh_filter: "fresh_keys key rows n \<Longrightarrow> fresh_keys key (filter P rows) n"
  by (auto simp: fresh_keys_def distinct_map inj_on_def)

lemma fresh_update: "(\<And>r. key (f r) = key r) \<Longrightarrow> fresh_keys key rows n \<Longrightarrow> fresh_keys key (update_where P f rows) n"
  unfolding fresh_keys_def by (auto simp: in_set_row split: if_splits)

lemma numbered_from_simps [simp]:
  "numbered_from n [] = []" "numbered_from n (x # xs) = (x, n) # numbered_from (Suc n) xs"
  by (simp_all add: numbered_from_def upt_conv_Cons del: upt_Suc)

lemma fresh_numbered:
  assumes "\<And>x i. key (f (x, i)) = i"
  shows "fresh_keys key rows n \<Longrightarrow> fresh_keys key (rows @ map f (numbered_from n xs)) (n + length xs)"
proof (induction xs arbitrary: rows n)
  case (Cons x xs)
  then have "fresh_keys key (rows @ [f (x, n)]) (Suc n)" by (simp add: fresh_append assms)
  then show ?case using Cons.IH [of "rows @ [f (x, n)]" "Suc n"] by simp
qed simp

lemma numbered_from_in: "(x, i) \<in> set (numbered_from n xs) \<Longrightarrow> x \<in> set xs"
  by (simp add: numbered_from_def set_zip) (metis nth_mem)

section \<open>The invariant\<close>

text \<open>Bills: one version of a product's bill, and no line without its bill.\<close>

definition version_key :: "mrp_bom \<Rightarrow> uuid_string \<times> uuid_string \<times> string" where
  "version_key b = (bm_tenantId b, bm_parentProductId b, bm_version b)"

definition bills_ok :: "mrp \<Rightarrow> bool" where
  "bills_ok s \<longleftrightarrow> fresh_keys bm_id (boms s) (next_row s) \<and> fresh_keys bl_id (bomLines s) (next_row s) \<and>
     distinct (map version_key (boms s)) \<and> (\<forall>c \<in> set (bomLines s). bl_bomId c \<in> bm_id ` set (boms s))"

text \<open>
  Orders: firmed before they are released, and dated; \<open>bulk\<close> says whether the bulk update was
  used, which sets a status alone.
\<close>

definition order_life :: "bool \<Rightarrow> planned_order \<Rightarrow> bool" where
  "order_life bulk x \<longleftrightarrow>
     (pd_isFirmed x \<longleftrightarrow> pd_firmedAt x \<noteq> None) \<and>
     (pd_status x = PlannedOrderStatus.PLANNED \<longrightarrow> \<not> pd_isFirmed x \<and> pd_releaseDate x = None) \<and>
     (\<not> bulk \<longrightarrow> (pd_status x = FIRMED \<longrightarrow> pd_isFirmed x \<and> pd_releaseDate x = None) \<and>
       (pd_status x = PlannedOrderStatus.RELEASED \<longrightarrow> pd_isFirmed x \<and> pd_releaseDate x \<noteq> None))"

definition orders_ok :: "bool \<Rightarrow> mrp \<Rightarrow> bool" where
  "orders_ok bulk s \<longleftrightarrow> fresh_keys pd_id (plannedOrders s) (next_row s) \<and> (\<forall>x \<in> set (plannedOrders s). order_life bulk x)"

definition mrp_ok :: "bool \<Rightarrow> mrp \<Rightarrow> bool" where
  "mrp_ok bulk s \<longleftrightarrow> bills_ok s \<and> orders_ok bulk s"

section \<open>Runs of the shared parts\<close>

lemma wp_new_row [wp_simps]: "wp new_row Q E s = Q (next_row s) (s\<lparr>next_row := next_row s + 1\<rparr>)"
  by (simp add: new_row_def wp_simps)

lemma wp_own_bom [wp_simps]: "wp (own_bom t i) Q E s =
    (case find (\<lambda>b. bm_id b = i \<and> bm_tenantId b = t) (boms s) of None \<Rightarrow> E NotFoundException s | Some b \<Rightarrow> Q b s)"
  by (simp add: own_bom_def wp_simps)

lemma wp_own_line [wp_simps]: "wp (own_line t i) Q E s =
    (case find (\<lambda>c. bl_id c = i \<and> list_ex (\<lambda>b. bm_id b = bl_bomId c \<and> bm_tenantId b = t) (boms s)) (bomLines s) of
       None \<Rightarrow> E NotFoundException s | Some c \<Rightarrow> Q c s)"
  by (simp add: own_line_def wp_simps)

lemma wp_getPlannedOrder [wp_simps]: "wp (getPlannedOrder t i) Q E s =
    (case find (\<lambda>x. pd_id x = i \<and> pd_tenantId x = t) (plannedOrders s) of None \<Rightarrow> E NotFoundException s | Some x \<Rightarrow> Q x s)"
  by (simp add: getPlannedOrder_def wp_simps)

lemma wp_write_bom [wp_simps]: "wp (write_bom i f) Q E s = Q () (s\<lparr>boms := set_row bm_id i f (boms s)\<rparr>)"
  by (simp add: write_bom_def wp_simps)

lemma wp_write_order [wp_simps]: "wp (write_order i f) Q E s = Q () (s\<lparr>plannedOrders := set_row pd_id i f (plannedOrders s)\<rparr>)"
  by (simp add: write_order_def wp_simps)

section \<open>Bills\<close>

lemma bills_more: "bills_ok s \<Longrightarrow> boms t = boms s \<Longrightarrow> bomLines t = bomLines s \<Longrightarrow> next_row s \<le> next_row t \<Longrightarrow> bills_ok t"
  by (auto simp: bills_ok_def intro: fresh_mono)

lemma orders_more: "orders_ok bulk s \<Longrightarrow> plannedOrders t = plannedOrders s \<Longrightarrow> next_row s \<le> next_row t \<Longrightarrow> orders_ok bulk t"
  by (auto simp: orders_ok_def intro: fresh_mono)

lemma version_taken_key: "version_taken t p v bs \<longleftrightarrow> (t, p, v) \<in> version_key ` set bs"
  by (auto simp: version_taken_def version_key_def list_ex_iff image_iff)

lemma bills_append:
  assumes "bills_ok s" "bm_id b = next_row s" "\<not> version_taken (bm_tenantId b) (bm_parentProductId b) (bm_version b) (boms s)"
  shows "bills_ok (s\<lparr>next_row := Suc (next_row s), boms := boms s @ [b]\<rparr>)"
  using assms fresh_append [of bm_id "boms s" "next_row s" b] fresh_mono [of bl_id "bomLines s" "next_row s" "Suc (next_row s)"]
  by (auto simp: bills_ok_def version_taken_key) (simp add: version_key_def)

lemma bills_line:
  assumes "bills_ok s" "bl_id c = next_row s" "bl_bomId c \<in> bm_id ` set (boms s)"
  shows "bills_ok (s\<lparr>next_row := Suc (next_row s), bomLines := bomLines s @ [c]\<rparr>)"
  using assms fresh_append [of bl_id "bomLines s" "next_row s" c] fresh_mono [of bm_id "boms s" "next_row s" "Suc (next_row s)"]
  by (auto simp: bills_ok_def)

lemma bills_update:
  assumes "bills_ok s" "\<And>b. bm_id (f b) = bm_id b" "\<And>b. bm_tenantId (f b) = bm_tenantId b"
    "\<And>b. bm_parentProductId (f b) = bm_parentProductId b" "b \<in> set (boms s)" "bm_id b = i"
    "\<not> version_taken (bm_tenantId b) (bm_parentProductId b) (bm_version (f b)) (filter (\<lambda>x. bm_id x \<noteq> i) (boms s))"
  shows "bills_ok (s\<lparr>boms := set_row bm_id i f (boms s)\<rparr>)"
proof -
  have new: "version_key (f b) \<notin> version_key ` set (filter (\<lambda>x. bm_id x \<noteq> i) (boms s))"
    using assms(7) by (simp add: version_taken_key version_key_def assms(3,4))
  have "distinct (map version_key (set_row bm_id i f bs))"
    if "distinct (map version_key bs)" "distinct (map bm_id bs)" "set bs \<subseteq> set (boms s)" "b \<in> set bs \<or> i \<notin> bm_id ` set bs" for bs
    using that
  proof (induction bs)
    case (Cons x bs)
    show ?case
    proof (cases "bm_id x = i")
      case True
      then have "x = b" using Cons.prems(2,4) assms(6) by (auto simp: image_iff)
      moreover have "set_row bm_id i f bs = bs" using Cons.prems(2) True by (intro update_where_none) (auto simp: image_iff)
      moreover have "version_key (f b) \<notin> version_key ` set bs" using new Cons.prems(2,3) True by (force simp: image_iff)
      ultimately show ?thesis using Cons.prems(1) True by simp
    next
      case False
      have "version_key x \<notin> version_key ` set (set_row bm_id i f bs)"
      proof
        assume "version_key x \<in> version_key ` set (set_row bm_id i f bs)"
        then obtain y where y: "y \<in> set bs" "version_key x = version_key (if bm_id y = i then f y else y)"
          by (auto simp: in_set_row)
        then have "bm_id y = i" using Cons.prems(1) by (auto simp: image_iff split: if_splits)
        moreover from this have "y = b" using y(1) Cons.prems assms(1,5,6) by (auto simp: bills_ok_def fresh_keys_def distinct_map inj_on_def)
        ultimately show False using y(2) new False Cons.prems(3) by (force simp: image_iff)
      qed
      moreover have "b \<in> set bs \<or> i \<notin> bm_id ` set bs" using Cons.prems(4) False assms(6) by auto
      ultimately show ?thesis using Cons False by simp
    qed
  qed simp
  from this [of "boms s"] have "distinct (map version_key (set_row bm_id i f (boms s)))"
    using assms(1,5) by (simp add: bills_ok_def fresh_keys_def)
  then show ?thesis using assms(1,2) by (auto simp: bills_ok_def intro: fresh_update)
qed

lemma keeps_bills:
  assumes "\<And>s. bills_ok s \<Longrightarrow> orders_ok bulk s \<Longrightarrow>
    wp m (\<lambda>_ t. bills_ok t \<and> plannedOrders t = plannedOrders s \<and> next_row s \<le> next_row t)
      (\<lambda>_ t. bills_ok t \<and> plannedOrders t = plannedOrders s \<and> next_row s \<le> next_row t) s"
  shows "keeps (mrp_ok bulk) m"
  unfolding wp_keeps mrp_ok_def
  by (intro allI impI, elim conjE, rule wp_call [OF assms]) (auto intro: orders_more)

lemma wp_createBOM:
  assumes "bills_ok s"
  shows "wp (createBOM now t dto) (\<lambda>_ u. bills_ok u \<and> plannedOrders u = plannedOrders s \<and> next_row s \<le> next_row u)
    (\<lambda>_ u. bills_ok u \<and> plannedOrders u = plannedOrders s \<and> next_row s \<le> next_row u) s"
proof -
  define row where "row = bom_row t dto now (next_row s)"
  define u where "u = s\<lparr>next_row := Suc (next_row s), boms := boms s @ [row]\<rparr>"
  have lines: "wp (forEach (create_line (next_row s)) xs)
      (\<lambda>_ u. bills_ok u \<and> plannedOrders u = plannedOrders s \<and> next_row s \<le> next_row u)
      (\<lambda>_ u. bills_ok u \<and> plannedOrders u = plannedOrders s \<and> next_row s \<le> next_row u) u"
    if "\<not> version_taken t (bd_parentProductId dto) (text_or (bd_version dto) ''1.0'') (boms s)" for xs
  proof (rule wp_forEach [where I = "\<lambda>u. bills_ok u \<and> plannedOrders u = plannedOrders s \<and> next_row s \<le> next_row u \<and>
        next_row s \<in> bm_id ` set (boms u)"])
    show "bills_ok u \<and> plannedOrders u = plannedOrders s \<and> next_row s \<le> next_row u \<and> next_row s \<in> bm_id ` set (boms u)"
      unfolding u_def row_def using assms that by (auto simp: bom_row_def intro!: bills_append)
  qed (auto simp: create_line_def wp_simps item_line_def split: prod.splits intro!: bills_line)
  have added: "\<not> version_taken t (bd_parentProductId dto) (text_or (bd_version dto) ''1.0'') (boms s) \<Longrightarrow>
      bills_ok (s\<lparr>next_row := Suc (next_row s), boms := boms s @ [row]\<rparr>)"
    unfolding row_def using assms by (intro bills_append) (simp_all add: bom_row_def)
  show ?thesis
    using assms unfolding createBOM_def check_items_def
    by (auto simp: wp_simps Let_def row_def [symmetric] intro!: added wp_call [OF lines, unfolded u_def])
qed

lemma keeps_createBOM: "keeps (mrp_ok bulk) (createBOM now t dto)"
  by (rule keeps_bills) (rule wp_createBOM)

lemma keeps_createBOMFromApi: "keeps (mrp_ok bulk) (createBOMFromApi now t dto)"
  unfolding createBOMFromApi_def own_bom_def Let_def by (intro keeps_intros keeps_createBOM)

lemma keeps_updateBOM: "keeps (mrp_ok bulk) (updateBOM t i dto)"
  by (rule keeps_bills)
     (auto simp: updateBOM_def wp_simps patch_bom_def split: option.split intro!: bills_update dest!: find_in)

lemma keeps_updateBOMStatus: "keeps (mrp_ok bulk) (updateBOMStatus t i status)"
proof (rule keeps_bills)
  fix s assume ok: "bills_ok s"
  have "bills_ok (s\<lparr>boms := set_row bm_id i (\<lambda>x. x\<lparr>bm_status := status\<rparr>) (boms s)\<rparr>)"
    using ok by (auto simp: bills_ok_def version_key_def intro: fresh_update)
  then show "wp (updateBOMStatus t i status) (\<lambda>_ u. bills_ok u \<and> plannedOrders u = plannedOrders s \<and> next_row s \<le> next_row u)
      (\<lambda>_ u. bills_ok u \<and> plannedOrders u = plannedOrders s \<and> next_row s \<le> next_row u) s"
    using ok by (auto simp: updateBOMStatus_def wp_simps split: option.split)
qed

lemma distinct_filter_map: "distinct (map f xs) \<Longrightarrow> distinct (map f (filter P xs))"
  by (auto simp: distinct_map inj_on_def)

lemma keeps_deleteBOM: "keeps (mrp_ok bulk) (deleteBOM t i)"
  by (rule keeps_bills)
     (auto simp: deleteBOM_def wp_simps bills_ok_def intro!: fresh_filter distinct_filter_map split: option.split)

lemma keeps_addBOMComponent: "keeps (mrp_ok bulk) (addBOMComponent t i dto)"
  by (rule keeps_bills)
     (auto simp: addBOMComponent_def wp_simps Let_def split: option.split intro!: bills_line dest!: find_in)

lemma patch_line_keys [simp]: "bl_id (patch_line dto c) = bl_id c" "bl_bomId (patch_line dto c) = bl_bomId c"
  by (simp_all add: patch_line_def)

lemma keeps_updateBOMComponent: "keeps (mrp_ok bulk) (updateBOMComponent t i dto)"
proof (rule keeps_bills)
  fix s assume ok: "bills_ok s"
  have "bills_ok (s\<lparr>bomLines := set_row bl_id i (patch_line dto) (bomLines s)\<rparr>)"
    using ok by (auto simp: bills_ok_def in_set_row intro: fresh_update)
  then show "wp (updateBOMComponent t i dto) (\<lambda>_ u. bills_ok u \<and> plannedOrders u = plannedOrders s \<and> next_row s \<le> next_row u)
      (\<lambda>_ u. bills_ok u \<and> plannedOrders u = plannedOrders s \<and> next_row s \<le> next_row u) s"
    using ok by (auto simp: updateBOMComponent_def wp_simps split: option.split)
qed

lemma keeps_deleteBOMComponent: "keeps (mrp_ok bulk) (deleteBOMComponent t i)"
  by (rule keeps_bills)
     (auto simp: deleteBOMComponent_def wp_simps bills_ok_def intro!: fresh_filter split: option.split)

lemma keeps_copyBOM: "keeps (mrp_ok bulk) (copyBOM t i dto)"
proof (rule keeps_bills)
  fix s assume ok: "bills_ok s"
  have copied: "bills_ok (s\<lparr>boms := boms s @ [b],
      bomLines := bomLines s @ map (\<lambda>(c, j). c\<lparr>bl_id := j, bl_bomId := next_row s\<rparr>) (numbered_from (Suc (next_row s)) cs),
      next_row := Suc (next_row s + length cs)\<rparr>)"
    if "bm_id b = next_row s" "\<not> version_taken (bm_tenantId b) (bm_parentProductId b) (bm_version b) (boms s)" for b cs
  proof -
    have one: "bills_ok (s\<lparr>next_row := Suc (next_row s), boms := boms s @ [b]\<rparr>)" using ok that by (intro bills_append)
    then have "fresh_keys bl_id (bomLines s @ map (\<lambda>(c, j). c\<lparr>bl_id := j, bl_bomId := next_row s\<rparr>) (numbered_from (Suc (next_row s)) cs))
        (Suc (next_row s) + length cs)"
      by (intro fresh_numbered) (auto simp: bills_ok_def)
    moreover have "fresh_keys bm_id (boms s @ [b]) (Suc (next_row s) + length cs)"
      using one by (auto simp: bills_ok_def intro: fresh_mono)
    ultimately show ?thesis using one that(1) by (auto simp: bills_ok_def)
  qed
  show "wp (copyBOM t i dto) (\<lambda>_ u. bills_ok u \<and> plannedOrders u = plannedOrders s \<and> next_row s \<le> next_row u)
      (\<lambda>_ u. bills_ok u \<and> plannedOrders u = plannedOrders s \<and> next_row s \<le> next_row u) s"
    using ok by (auto simp: copyBOM_def wp_simps Let_def split: option.split intro!: copied bills_append)
qed

section \<open>Planned orders\<close>

lemma keeps_orders:
  assumes "\<And>s. orders_ok bulk s \<Longrightarrow>
    wp m (\<lambda>_ t. orders_ok bulk t \<and> boms t = boms s \<and> bomLines t = bomLines s \<and> next_row s \<le> next_row t)
      (\<lambda>_ t. orders_ok bulk t \<and> boms t = boms s \<and> bomLines t = bomLines s \<and> next_row s \<le> next_row t) s"
  shows "keeps (mrp_ok bulk) m"
  unfolding wp_keeps mrp_ok_def
  by (intro allI impI, elim conjE, rule wp_call [OF assms]) (auto intro: bills_more)

lemma orders_append:
  assumes "orders_ok bulk s" "pd_id x = next_row s" "order_life bulk x"
  shows "orders_ok bulk (s\<lparr>next_row := Suc (next_row s), plannedOrders := plannedOrders s @ [x]\<rparr>)"
  using assms fresh_append [of pd_id "plannedOrders s" "next_row s" x] by (auto simp: orders_ok_def)

lemma orders_update:
  assumes "orders_ok bulk s" "\<And>x. pd_id (f x) = pd_id x"
    "\<And>x. x \<in> set (plannedOrders s) \<Longrightarrow> P x \<Longrightarrow> order_life bulk x \<Longrightarrow> order_life bulk (f x)"
  shows "orders_ok bulk (s\<lparr>plannedOrders := update_where P f (plannedOrders s)\<rparr>)"
  using assms by (auto simp: orders_ok_def in_set_row intro: fresh_update)

text \<open>The row that was read is the one that is written.\<close>

lemma order_unique:
  assumes "orders_ok bulk s" "find (\<lambda>x. pd_id x = i \<and> pd_tenantId x = t) (plannedOrders s) = Some y"
    "x \<in> set (plannedOrders s)" "pd_id x = i"
  shows "x = y"
  using assms find_in [OF assms(2)] by (auto simp: orders_ok_def fresh_keys_def distinct_map dest: inj_onD)

lemma orders_write:
  assumes "orders_ok bulk s" "find (\<lambda>x. pd_id x = i \<and> pd_tenantId x = t) (plannedOrders s) = Some y"
    "\<And>x. pd_id (f x) = pd_id x" "order_life bulk y \<Longrightarrow> order_life bulk (f y)"
  shows "orders_ok bulk (s\<lparr>plannedOrders := set_row pd_id i f (plannedOrders s)\<rparr>)"
  by (rule orders_update [OF assms(1,3)]) (use order_unique [OF assms(1,2)] assms(4) in blast)

lemma keeps_firm: "keeps (mrp_ok bulk) (firmPlannedOrder now t i)"
  by (rule keeps_orders)
     (auto simp: firmPlannedOrder_def wp_simps split: option.split intro!: orders_write simp: order_life_def)

lemma keeps_release: "keeps (mrp_ok bulk) (releasePlannedOrder now t i)"
  by (rule keeps_orders)
     (auto simp: releasePlannedOrder_def wp_simps split: option.split intro!: orders_write simp: order_life_def)

lemma keeps_updateOrder: "keeps (mrp_ok bulk) (updatePlannedOrder t i dto)"
  by (rule keeps_orders)
     (auto simp: updatePlannedOrder_def wp_simps patch_order_def split: option.split intro!: orders_update simp: order_life_def)

lemma keeps_cancel: "keeps (mrp_ok bulk) (cancelPlannedOrder t i reason)"
  by (rule keeps_orders)
     (auto simp: cancelPlannedOrder_def wp_simps split: option.split intro!: orders_update simp: order_life_def)

lemma keeps_bulk: "keeps (mrp_ok True) (bulkUpdatePlannedOrders t is action)"
  by (rule keeps_orders)
     (auto simp: bulkUpdatePlannedOrders_def wp_simps Let_def action_status_def split: option.split if_splits
       intro!: orders_update simp: order_life_def)

lemma keeps_createOrder: "keeps (mrp_ok bulk) (createPlannedOrder now t dto)"
  by (rule keeps_orders)
     (auto simp: createPlannedOrder_def wp_simps order_row_def order_life_def intro!: orders_append)

lemma keeps_createRun: "keeps (mrp_ok bulk) (createMRPRun t dto)"
  by (rule keeps_orders) (auto simp: createMRPRun_def wp_simps intro: orders_more)

lemma keeps_exception: "keeps (mrp_ok bulk) (write_exception t i f)"
  by (rule keeps_orders) (auto simp: write_exception_def wp_simps intro: orders_more)

lemma keeps_exceptions:
  "keeps (mrp_ok bulk) (acknowledgeMRPException now t i u)" "keeps (mrp_ok bulk) (resolveMRPException now t i u r)"
  "keeps (mrp_ok bulk) (ignoreMRPException now t i u r)"
  by (simp_all add: acknowledgeMRPException_def resolveMRPException_def ignoreMRPException_def keeps_exception)

lemma keeps_calculate: "keeps (mrp_ok bulk) (calculateMRP D zone now t run)"
proof (rule keeps_orders)
  fix s assume ok: "orders_ok bulk s"
  have "fresh_keys pd_id (filter (\<lambda>x. pd_mrpRunId x \<noteq> Some (mr_id run)) (plannedOrders s) @
      map (order_of D t run) (numbered_from (next_row s) xs)) (next_row s + length xs)" for xs
    by (intro fresh_numbered fresh_filter) (use ok in \<open>simp_all add: orders_ok_def order_of_def\<close>)
  then have "fresh_keys pd_id (filter (\<lambda>x. pd_mrpRunId x \<noteq> Some (mr_id run)) (plannedOrders s) @
      map (order_of D t run) (numbered_from (next_row s) xs)) (next_row s + length xs + n)" for xs n
    by (rule fresh_mono) simp
  then show "wp (calculateMRP D zone now t run)
      (\<lambda>_ u. orders_ok bulk u \<and> boms u = boms s \<and> bomLines u = bomLines s \<and> next_row s \<le> next_row u)
      (\<lambda>_ u. orders_ok bulk u \<and> boms u = boms s \<and> bomLines u = bomLines s \<and> next_row s \<le> next_row u) s"
    using ok by (auto simp: calculateMRP_def wp_simps orders_ok_def order_of_def order_life_def)
qed

section \<open>Steps\<close>

text \<open>
  Every operation, with any arguments; \<open>outside\<close> is what the rest of the program does to the tables
  planning only reads.  The bulk update of planned orders is a step of its own.
\<close>

definition same_planned :: "mrp \<Rightarrow> mrp \<Rightarrow> bool" where
  "same_planned s t \<longleftrightarrow> boms t = boms s \<and> bomLines t = bomLines s \<and> plannedOrders t = plannedOrders s \<and> next_row s \<le> next_row t"

inductive mrp_step :: "bool \<Rightarrow> mrp \<Rightarrow> mrp \<Rightarrow> bool" where
  create_bom: "createBOM now t dto s = (x, s') \<Longrightarrow> mrp_step bulk s s'"
| create_api: "createBOMFromApi now t api s = (y, s') \<Longrightarrow> mrp_step bulk s s'"
| update_bom: "updateBOM t i bp s = (y, s') \<Longrightarrow> mrp_step bulk s s'"
| status: "updateBOMStatus t i st s = (z, s') \<Longrightarrow> mrp_step bulk s s'"
| delete_bom: "deleteBOM t i s = (z, s') \<Longrightarrow> mrp_step bulk s s'"
| copy: "copyBOM t i co s = (x, s') \<Longrightarrow> mrp_step bulk s s'"
| add_line: "addBOMComponent t i cd s = (c, s') \<Longrightarrow> mrp_step bulk s s'"
| update_line: "updateBOMComponent t i cp s = (c, s') \<Longrightarrow> mrp_step bulk s s'"
| delete_line: "deleteBOMComponent t i s = (z, s') \<Longrightarrow> mrp_step bulk s s'"
| create_run: "createMRPRun t rd s = (r, s') \<Longrightarrow> mrp_step bulk s s'"
| calculate: "calculateMRP D zone now t run s = (n, s') \<Longrightarrow> mrp_step bulk s s'"
| firm: "firmPlannedOrder now t i s = (z, s') \<Longrightarrow> mrp_step bulk s s'"
| release: "releasePlannedOrder now t i s = (z, s') \<Longrightarrow> mrp_step bulk s s'"
| update_order: "updatePlannedOrder t i op s = (z, s') \<Longrightarrow> mrp_step bulk s s'"
| cancel: "cancelPlannedOrder t i reason s = (z, s') \<Longrightarrow> mrp_step bulk s s'"
| create_order: "createPlannedOrder now t od s = (o', s') \<Longrightarrow> mrp_step bulk s s'"
| bulk: "bulkUpdatePlannedOrders t ids action s = (k, s') \<Longrightarrow> mrp_step True s s'"
| acknowledge: "acknowledgeMRPException now t i u s = (z, s') \<Longrightarrow> mrp_step bulk s s'"
| resolve: "resolveMRPException now t i u reason s = (z, s') \<Longrightarrow> mrp_step bulk s s'"
| ignore: "ignoreMRPException now t i u reason s = (z, s') \<Longrightarrow> mrp_step bulk s s'"
| outside: "same_planned s s' \<Longrightarrow> mrp_step bulk s s'"

inductive mrp_reachable :: "bool \<Rightarrow> mrp \<Rightarrow> bool" where
  start: "boms s = [] \<Longrightarrow> bomLines s = [] \<Longrightarrow> plannedOrders s = [] \<Longrightarrow> mrp_reachable bulk s"
| step: "mrp_reachable bulk s \<Longrightarrow> mrp_step bulk s s' \<Longrightarrow> mrp_reachable bulk s'"

lemmas mrp_keeps = keeps_createBOM keeps_createBOMFromApi keeps_updateBOM keeps_updateBOMStatus keeps_deleteBOM keeps_copyBOM
  keeps_addBOMComponent keeps_updateBOMComponent keeps_deleteBOMComponent keeps_createRun keeps_calculate keeps_firm
  keeps_release keeps_updateOrder keeps_cancel keeps_createOrder keeps_bulk keeps_exceptions

lemma mrp_step_ok: "mrp_step bulk s s' \<Longrightarrow> mrp_ok bulk s \<Longrightarrow> mrp_ok bulk s'"
proof (induction rule: mrp_step.induct)
  case (outside s s' bulk)
  then show ?case by (auto simp: same_planned_def mrp_ok_def intro: bills_more orders_more)
qed (rule keepsD [rotated 2], assumption, rule mrp_keeps, assumption)+

lemma reachable_mrp: "mrp_reachable bulk s \<Longrightarrow> mrp_ok bulk s"
  by (induction rule: mrp_reachable.induct)
     (auto simp: mrp_ok_def bills_ok_def orders_ok_def fresh_keys_def dest: mrp_step_ok)

end
