(* ===== verification/MrpRuns.thy ===== *)
theory MrpRuns
  imports Mrp
begin

text \<open>
  What the planning loops produce: where purchase orders come from, which production orders a
  finished good gets, and which stock the plan depends on.
\<close>

section \<open>Elementary writes\<close>

lemma push_sel [simp]:
  "pn_orders (push_order x p) = pn_orders p @ [x]" "pn_orders (push_exception e p) = pn_orders p"
  "pn_orders (push_requirement r p) = pn_orders p"
  by (simp_all add: push_order_def push_exception_def push_requirement_def)

lemma check_capacity_orders [simp]: "pn_orders (check_capacity inp l i b d q op p) = pn_orders p"
  by (simp add: check_capacity_def Let_def)

lemma fold_capacity_orders [simp]: "pn_orders (fold (check_capacity inp l i b d q) ops p) = pn_orders p"
  by (induction ops arbitrary: p) simp_all

section \<open>Where purchase orders come from\<close>

definition available_of :: "mrp_input \<Rightarrow> uuid_string \<Rightarrow> uuid_string \<Rightarrow> rat" where
  "available_of inp productId locationId =
     (case map_of (in_inventory inp) (dashed productId locationId) of None \<Rightarrow> 0 | Some q \<Rightarrow> q)"

definition shortfall :: "mrp_input \<Rightarrow> uuid_string \<Rightarrow> rat \<Rightarrow> bom_line \<Rightarrow> rat" where
  "shortfall inp locationId orderQty c =
     num_sub (required_qty orderQty c) (available_of inp (bl_componentProductId c) locationId)"

definition purchase_lot :: "mrp_input \<Rightarrow> uuid_string \<Rightarrow> bom_line \<Rightarrow> rat \<Rightarrow> rat" where
  "purchase_lot inp locationId c net =
     (let policy = map_of (in_policies inp) (dashed (bl_componentProductId c) locationId)
      in lot_size net (policy_number ip_minOrderQty policy 1) (policy_number ip_multipleOrderQty policy 1))"

text \<open>The purchase order of a component for one production order.\<close>

definition buys_for :: "mrp_input \<Rightarrow> order_item \<Rightarrow> bom_line \<Rightarrow> order_item \<Rightarrow> bool" where
  "buys_for inp x c y \<longleftrightarrow> oi_orderType y = PURCHASE \<and> oi_productId y = bl_componentProductId c \<and>
     oi_locationId y = oi_locationId x \<and> oi_dueDate y = oi_startDate x \<and> in_today inp \<le> oi_startDate y \<and>
     0 < shortfall inp (oi_locationId x) (oi_quantity x) c \<and>
     oi_quantity y = purchase_lot inp (oi_locationId x) c (shortfall inp (oi_locationId x) (oi_quantity x) c)"

lemma component_orders:
  assumes "oi_locationId x = l" "oi_startDate x = d" "oi_quantity x = q"
  shows "pn_orders (plan_component inp l b d q c p) = pn_orders p \<or>
    (\<exists>y. pn_orders (plan_component inp l b d q c p) = pn_orders p @ [y] \<and> buys_for inp x c y)"
proof (cases "0 < shortfall inp l q c")
  case True
  then show ?thesis
    using assms by (auto simp: plan_component_def Let_def shortfall_def available_of_def buys_for_def purchase_lot_def)
next
  case False
  then show ?thesis by (simp add: plan_component_def Let_def shortfall_def available_of_def)
qed

lemma components_orders:
  assumes "oi_locationId x = l" "oi_startDate x = d" "oi_quantity x = q"
  shows "\<exists>ys. pn_orders (fold (plan_component inp l b d q) cs p) = pn_orders p @ ys \<and>
    (\<forall>y \<in> set ys. \<exists>c \<in> set cs. buys_for inp x c y)"
proof (induction cs arbitrary: p)
  case (Cons c cs)
  obtain ys where ys: "pn_orders (fold (plan_component inp l b d q) cs (plan_component inp l b d q c p)) =
      pn_orders (plan_component inp l b d q c p) @ ys" "\<forall>y \<in> set ys. \<exists>c \<in> set cs. buys_for inp x c y"
    using Cons by blast
  from component_orders [OF assms, of inp b c p] show ?case
  proof
    assume "pn_orders (plan_component inp l b d q c p) = pn_orders p"
    then show ?thesis using ys by auto
  next
    assume "\<exists>y. pn_orders (plan_component inp l b d q c p) = pn_orders p @ [y] \<and> buys_for inp x c y"
    then obtain y where "pn_orders (plan_component inp l b d q c p) = pn_orders p @ [y]" "buys_for inp x c y" by blast
    then show ?thesis using ys by (intro exI [of _ "y # ys"]) auto
  qed
qed simp

text \<open>The production order of a bucket.\<close>

definition production_order :: "mrp_input \<Rightarrow> requirement_item \<Rightarrow> order_item" where
  "production_order inp r = \<lparr>oi_productId = ri_productId r, oi_locationId = ri_locationId r, oi_orderType = PRODUCTION,
     oi_startDate = add_days (ri_periodDate r) (- lp_leadTime (lot_policy_of inp (ri_locationId r) (ri_productId r))),
     oi_dueDate = ri_periodDate r, oi_quantity = ri_plannedOrderReceipt r, oi_supplierId = None\<rparr>"

definition is_produced :: "mrp_input \<Rightarrow> requirement_item \<Rightarrow> bool" where
  "is_produced inp r \<longleftrightarrow> 0 < ri_plannedOrderReceipt r \<and> in_frozenEnd inp < ri_periodDate r"

lemma netting_row_sel [simp]:
  "ri_productId (netting_row inp l i b q) = i" "ri_locationId (netting_row inp l i b q) = l"
  "ri_periodDate (netting_row inp l i b q) = b" "ri_projectedOnHand (netting_row inp l i b q) = q"
  by (simp_all add: netting_row_def Let_def)

lemma production_order_sel [simp]:
  "oi_orderType (production_order inp r) = PRODUCTION" "oi_locationId (production_order inp r) = ri_locationId r"
  "oi_productId (production_order inp r) = ri_productId r" "oi_dueDate (production_order inp r) = ri_periodDate r"
  "oi_quantity (production_order inp r) = ri_plannedOrderReceipt r"
  by (simp_all add: production_order_def)

text \<open>The orders one bucket adds: its production order, if any, and what is bought for it.\<close>

lemma bucket_orders:
  fixes inp l i b q
  defines "r \<equiv> netting_row inp l i b q"
  shows "fst (plan_bucket inp l i bom b (q, p)) = next_on_hand r"
    "is_produced inp r \<Longrightarrow> \<exists>ys. pn_orders (snd (plan_bucket inp l i bom b (q, p))) =
       pn_orders p @ production_order inp r # ys \<and>
       (\<forall>y \<in> set ys. \<exists>c \<in> set (in_components inp bom). buys_for inp (production_order inp r) c y)"
    "\<not> is_produced inp r \<Longrightarrow> pn_orders (snd (plan_bucket inp l i bom b (q, p))) = pn_orders p"
proof -
  show "fst (plan_bucket inp l i bom b (q, p)) = next_on_hand r" by (simp add: plan_bucket_def Let_def r_def)
  have date: "ri_periodDate r = b" by (simp add: r_def)
  show "\<not> is_produced inp r \<Longrightarrow> pn_orders (snd (plan_bucket inp l i bom b (q, p))) = pn_orders p"
    by (auto simp: plan_bucket_def Let_def r_def [symmetric] is_produced_def date)
  assume pr: "is_produced inp r"
  define x where "x = production_order inp r"
  define d where "d = add_days b (- lp_leadTime (lot_policy_of inp l i))"
  have x: "oi_locationId x = l" "oi_startDate x = d" "oi_quantity x = ri_plannedOrderReceipt r"
    by (simp_all add: x_def production_order_def r_def d_def)
  define p0 where "p0 = fold (check_capacity inp l i b d (ri_plannedOrderReceipt r))
    (case map_of (in_routings inp) (bm_id bom) of None \<Rightarrow> [] | Some os \<Rightarrow> os) (push_order x p)"
  have "x = \<lparr>oi_productId = i, oi_locationId = l, oi_orderType = PRODUCTION, oi_startDate = d, oi_dueDate = b,
      oi_quantity = ri_plannedOrderReceipt r, oi_supplierId = None\<rparr>"
    by (simp add: x_def production_order_def r_def d_def)
  then have "pn_orders (snd (plan_bucket inp l i bom b (q, p))) =
      pn_orders (fold (plan_component inp l b d (ri_plannedOrderReceipt r)) (in_components inp bom) p0)"
    using pr by (simp add: plan_bucket_def Let_def r_def [symmetric] is_produced_def date plan_production_def d_def [symmetric] p0_def)
  moreover have "pn_orders p0 = pn_orders p @ [x]" by (simp add: p0_def)
  ultimately show "\<exists>ys. pn_orders (snd (plan_bucket inp l i bom b (q, p))) = pn_orders p @ production_order inp r # ys \<and>
       (\<forall>y \<in> set ys. \<exists>c \<in> set (in_components inp bom). buys_for inp (production_order inp r) c y)"
    using components_orders [OF x, of inp b "in_components inp bom" p0] by (auto simp: x_def)
qed

section \<open>The rows of a finished good\<close>

text \<open>Each row starts from the stock that the row before it leaves.\<close>

fun product_rows :: "mrp_input \<Rightarrow> uuid_string \<Rightarrow> uuid_string \<Rightarrow> timestamp list \<Rightarrow> rat \<Rightarrow> requirement_item list" where
  "product_rows inp l i [] q = []"
| "product_rows inp l i (b # bs) q =
     netting_row inp l i b q # product_rows inp l i bs (next_on_hand (netting_row inp l i b q))"

lemma rows_chain: "Suc k < length (product_rows inp l i bs q) \<Longrightarrow>
    ri_projectedOnHand (product_rows inp l i bs q ! Suc k) = next_on_hand (product_rows inp l i bs q ! k)"
proof (induction bs arbitrary: q k)
  case (Cons b bs)
  then show ?case by (cases bs; cases k) auto
qed simp

definition on_hand :: "(string \<times> rat) list \<Rightarrow> uuid_string \<Rightarrow> rat" where
  "on_hand m i = (case map_of m i of None \<Rightarrow> 0 | Some q \<Rightarrow> q)"

definition produced :: "plan \<Rightarrow> order_item list" where
  "produced p = filter (\<lambda>x. oi_orderType x = PRODUCTION) (pn_orders p)"

lemma produced_bucket:
  "produced (snd (plan_bucket inp l i bom b (q, p))) =
     produced p @ map (production_order inp) (filter (is_produced inp) [netting_row inp l i b q])"
proof (cases "is_produced inp (netting_row inp l i b q)")
  case True
  then obtain ys where ys: "pn_orders (snd (plan_bucket inp l i bom b (q, p))) =
      pn_orders p @ production_order inp (netting_row inp l i b q) # ys" "\<forall>y \<in> set ys. oi_orderType y = PURCHASE"
    using bucket_orders(2) [OF True, of bom p] by (auto simp: buys_for_def)
  then have "filter (\<lambda>x. oi_orderType x = PRODUCTION) ys = []" by (auto simp: filter_empty_conv)
  then show ?thesis using True ys(1) by (simp add: produced_def)
next
  case False
  then show ?thesis by (simp add: produced_def bucket_orders(3))
qed

lemma produced_buckets:
  "produced (snd (fold (plan_bucket inp l i bom) bs (q, p))) =
     produced p @ map (production_order inp) (filter (is_produced inp) (product_rows inp l i bs q))"
proof (induction bs arbitrary: q p)
  case (Cons b bs)
  define p1 where "p1 = snd (plan_bucket inp l i bom b (q, p))"
  have "plan_bucket inp l i bom b (q, p) = (next_on_hand (netting_row inp l i b q), p1)"
    by (metis bucket_orders(1) prod.collapse p1_def)
  moreover have "produced p1 = produced p @ map (production_order inp) (filter (is_produced inp) [netting_row inp l i b q])"
    unfolding p1_def by (rule produced_bucket)
  ultimately show ?case using Cons by simp
qed simp

lemma run_plan_product:
  "map_of (in_boms inp) i = Some bom \<Longrightarrow> plan_product inp l i (m, p) =
     (if weekly (in_today inp) (in_horizonEnd inp) = [] then m
        else put i (fst (fold (plan_bucket inp l i bom) (weekly (in_today inp) (in_horizonEnd inp)) (on_hand m i, p))) m,
      snd (fold (plan_bucket inp l i bom) (weekly (in_today inp) (in_horizonEnd inp)) (on_hand m i, p)))"
  "map_of (in_boms inp) i = None \<Longrightarrow> plan_product inp l i (m, p) = (m, p)"
  by (simp_all add: plan_product_def on_hand_def split: prod.split)

section \<open>The whole plan\<close>

text \<open>
  Production orders are due after the frozen period and within the horizon; every other order is
  a purchase for a component of one of them.
\<close>

definition order_ok :: "mrp_input \<Rightarrow> plan \<Rightarrow> order_item \<Rightarrow> bool" where
  "order_ok inp p y \<longleftrightarrow>
     oi_orderType y = PRODUCTION \<and> in_frozenEnd inp < oi_dueDate y \<and> oi_dueDate y \<le> in_horizonEnd inp \<and> 0 < oi_quantity y \<or>
     (\<exists>x \<in> set (pn_orders p). oi_orderType x = PRODUCTION \<and>
        (\<exists>bom c. map_of (in_boms inp) (oi_productId x) = Some bom \<and> c \<in> set (in_components inp bom) \<and> buys_for inp x c y))"

definition plan_ok :: "mrp_input \<Rightarrow> plan \<Rightarrow> bool" where
  "plan_ok inp p \<longleftrightarrow> (\<forall>y \<in> set (pn_orders p). order_ok inp p y)"

lemma order_ok_more: "order_ok inp p y \<Longrightarrow> set (pn_orders p) \<subseteq> set (pn_orders p') \<Longrightarrow> order_ok inp p' y"
  unfolding order_ok_def by blast

lemma weekly_bounds: "b \<in> set (weekly t e) \<Longrightarrow> t \<le> b \<and> b \<le> e"
proof (induction t e rule: weekly.induct)
  case (1 t e)
  then show ?case by (subst (asm) (2) weekly.simps) (auto split: if_splits simp: add_days_def MS_PER_DAY_def)
qed

lemma plan_bucket_ok:
  assumes "plan_ok inp p" "map_of (in_boms inp) i = Some bom" "b \<le> in_horizonEnd inp"
  shows "plan_ok inp (snd (plan_bucket inp l i bom b (q, p)))"
proof (cases "is_produced inp (netting_row inp l i b q)")
  case True
  define x where "x = production_order inp (netting_row inp l i b q)"
  obtain ys where ys: "pn_orders (snd (plan_bucket inp l i bom b (q, p))) = pn_orders p @ x # ys"
      "\<forall>y \<in> set ys. \<exists>c \<in> set (in_components inp bom). buys_for inp x c y"
    using bucket_orders(2) [OF True, of bom p] by (auto simp: x_def)
  have "order_ok inp (snd (plan_bucket inp l i bom b (q, p))) y" if "y \<in> set (pn_orders p)" for y
    by (rule order_ok_more [of inp p]) (use assms(1) that ys(1) in \<open>auto simp: plan_ok_def\<close>)
  moreover have "order_ok inp (snd (plan_bucket inp l i bom b (q, p))) x"
    using True assms(3) by (simp add: order_ok_def x_def is_produced_def)
  moreover have "order_ok inp (snd (plan_bucket inp l i bom b (q, p))) y" if "y \<in> set ys" for y
    using ys that assms(2) by (auto simp: order_ok_def x_def)
  ultimately show ?thesis using ys(1) by (auto simp: plan_ok_def)
next
  case False
  then show ?thesis using assms(1) bucket_orders(3) [OF False] by (simp add: plan_ok_def order_ok_def)
qed

lemma plan_buckets_ok:
  assumes "plan_ok inp p" "map_of (in_boms inp) i = Some bom" "\<forall>b \<in> set bs. b \<le> in_horizonEnd inp"
  shows "plan_ok inp (snd (fold (plan_bucket inp l i bom) bs (q, p)))"
  using assms
proof (induction bs arbitrary: q p)
  case (Cons b bs)
  then have "plan_ok inp (snd (plan_bucket inp l i bom b (q, p)))" by (simp add: plan_bucket_ok)
  then show ?case using Cons by (cases "plan_bucket inp l i bom b (q, p)") simp
qed simp

lemma plan_product_ok: "plan_ok inp p \<Longrightarrow> plan_ok inp (snd (plan_product inp l i (m, p)))"
  by (cases "map_of (in_boms inp) i")
     (auto simp: run_plan_product intro!: plan_buckets_ok dest: weekly_bounds)

lemma plan_products_ok: "plan_ok inp p \<Longrightarrow> plan_ok inp (snd (fold (plan_product inp l) is (m, p)))"
proof (induction "is" arbitrary: m p)
  case (Cons i "is")
  then show ?case using plan_product_ok [of inp p l i m] by (cases "plan_product inp l i (m, p)") simp
qed simp

lemma plan_locations_ok: "plan_ok inp p \<Longrightarrow> plan_ok inp (fold (plan_location inp is) ls p)"
  by (induction ls arbitrary: p) (simp_all add: plan_location_def plan_products_ok)

lemma mrp_plan_ok: "plan_ok (mrp_input_of tenantId run zone now s) (mrp_plan tenantId run zone now s)"
  unfolding mrp_plan_def by (rule plan_locations_ok) (simp add: plan_ok_def)

section \<open>The stock a plan depends on\<close>

lemma component_stock:
  "available_of (inp\<lparr>in_inventory := v\<rparr>) (bl_componentProductId c) l = available_of inp (bl_componentProductId c) l \<Longrightarrow>
     plan_component (inp\<lparr>in_inventory := v\<rparr>) l b d q c p = plan_component inp l b d q c p"
  unfolding plan_component_def available_of_def Let_def by simp

lemma row_stock: "netting_row (inp\<lparr>in_inventory := v\<rparr>) l i b q = netting_row inp l i b q"
  by (simp add: netting_row_def gross_requirement_def lot_policy_of_def Let_def)

lemma capacity_stock: "check_capacity (inp\<lparr>in_inventory := v\<rparr>) l i b d q op p = check_capacity inp l i b d q op p"
  by (simp add: check_capacity_def Let_def)

lemma policy_stock: "lot_policy_of (inp\<lparr>in_inventory := v\<rparr>) l i = lot_policy_of inp l i"
  by (simp add: lot_policy_of_def Let_def)

lemma bucket_stock:
  assumes "\<And>c. c \<in> set (in_components inp bom) \<Longrightarrow>
    available_of (inp\<lparr>in_inventory := v\<rparr>) (bl_componentProductId c) l = available_of inp (bl_componentProductId c) l"
  shows "plan_bucket (inp\<lparr>in_inventory := v\<rparr>) l i bom b = plan_bucket inp l i bom b"
proof -
  have "fold (plan_component (inp\<lparr>in_inventory := v\<rparr>) l b d q) (in_components inp bom) p =
      fold (plan_component inp l b d q) (in_components inp bom) p" for d q p
    by (rule fold_cong) (auto intro!: component_stock assms)
  then show ?thesis
    by (simp add: plan_bucket_def plan_production_def row_stock policy_stock capacity_stock [abs_def] Let_def fun_eq_iff)
qed

text \<open>Two running stocks that agree on the identifiers with a dash.\<close>

definition same_dashed :: "(string \<times> rat) list \<Rightarrow> (string \<times> rat) list \<Rightarrow> bool" where
  "same_dashed m n \<longleftrightarrow> (\<forall>k. CHR ''-'' \<in> set k \<longrightarrow> map_of m k = map_of n k)"

lemma products_stock:
  assumes "\<And>i bom c. i \<in> set is \<Longrightarrow> map_of (in_boms inp) i = Some bom \<Longrightarrow> c \<in> set (in_components inp bom) \<Longrightarrow>
      available_of (inp\<lparr>in_inventory := v\<rparr>) (bl_componentProductId c) l = available_of inp (bl_componentProductId c) l"
    "\<And>i. i \<in> set is \<Longrightarrow> CHR ''-'' \<in> set i" "same_dashed m n"
  shows "snd (fold (plan_product (inp\<lparr>in_inventory := v\<rparr>) l) is (m, p)) = snd (fold (plan_product inp l) is (n, p))"
  using assms
proof (induction "is" arbitrary: m n p)
  case (Cons i "is")
  have on: "on_hand m i = on_hand n i" using Cons.prems(2,3) by (simp add: on_hand_def same_dashed_def)
  show ?case
  proof (cases "map_of (in_boms inp) i")
    case None
    have "snd (fold (plan_product (inp\<lparr>in_inventory := v\<rparr>) l) is (m, p)) = snd (fold (plan_product inp l) is (n, p))"
      by (rule Cons.IH) (use Cons.prems in auto)
    then show ?thesis using None by (simp add: run_plan_product)
  next
    case (Some bom)
    have "plan_bucket (inp\<lparr>in_inventory := v\<rparr>) l i bom = plan_bucket inp l i bom"
      by (rule ext, rule bucket_stock) (use Cons.prems(1) Some in auto)
    moreover have "same_dashed (put i q m) (put i q n)" for q using Cons.prems(3) by (simp add: same_dashed_def)
    moreover have "snd (fold (plan_product (inp\<lparr>in_inventory := v\<rparr>) l) is (m', p')) = snd (fold (plan_product inp l) is (n', p'))"
      if "same_dashed m' n'" for m' n' p'
      by (rule Cons.IH) (use Cons.prems that in auto)
    ultimately show ?thesis using Cons.prems(3) by (simp add: run_plan_product Some on)
  qed
qed simp

lemma split_no_dash: "CHR ''-'' \<notin> set (hd (js_split CHR ''-'' k))"
  by (induction k) (auto split: list.split)

lemma initial_dashed: "same_dashed (initial_inventory inp l) (initial_inventory inp' l)"
proof -
  have "map_of (initial_inventory inp l) k = None" if "CHR ''-'' \<in> set k" for inp k
  proof -
    have "k \<notin> fst ` set (rev (map (\<lambda>(key, available). (hd (js_split CHR ''-'' key), available))
       (filter (\<lambda>(key, _). ends_with (CHR ''-'' # l) key) (in_inventory inp))))"
      using that split_no_dash by (auto simp: image_iff)
    then show ?thesis unfolding initial_inventory_def map_of_put_all by (simp only: map_of_eq_None_iff not_False_eq_True)
  qed
  then show ?thesis by (simp add: same_dashed_def)
qed

lemma locations_stock:
  assumes "\<And>l i bom c. l \<in> set ls \<Longrightarrow> i \<in> set is \<Longrightarrow> map_of (in_boms inp) i = Some bom \<Longrightarrow> c \<in> set (in_components inp bom) \<Longrightarrow>
      available_of (inp\<lparr>in_inventory := v\<rparr>) (bl_componentProductId c) l = available_of inp (bl_componentProductId c) l"
    "\<And>i. i \<in> set is \<Longrightarrow> CHR ''-'' \<in> set i"
  shows "fold (plan_location (inp\<lparr>in_inventory := v\<rparr>) is) ls p = fold (plan_location inp is) ls p"
proof (rule fold_cong)
  fix l assume "l \<in> set ls"
  then show "plan_location (inp\<lparr>in_inventory := v\<rparr>) is l = plan_location inp is l"
    unfolding plan_location_def [abs_def]
    by (intro ext products_stock initial_dashed) (use assms in blast)+
qed simp_all

lemma input_stock: "mrp_input_of tenantId run zone now (s\<lparr>inventoryRows := rows\<rparr>) =
    (mrp_input_of tenantId run zone now s)\<lparr>in_inventory :=
       inventory_map tenantId (selected_locations tenantId run s) (s\<lparr>inventoryRows := rows\<rparr>)\<rparr>"
  by (simp add: mrp_input_of_def Let_def selected_boms_def selected_locations_def demand_map_def policy_map_def
      supplier_map_def components_of_def routing_map_def capacity_map_def scheduled_receipts_def)

lemma same_component_stock:
  assumes "\<forall>b \<in> set (selected_boms tenantId run s). CHR ''-'' \<in> set (bm_parentProductId b)"
    "\<forall>l \<in> set (selected_locations tenantId run s). \<forall>b \<in> set (selected_boms tenantId run s). \<forall>c \<in> set (components_of b s).
      available_of (mrp_input_of tenantId run zone now (s\<lparr>inventoryRows := rows\<rparr>)) (bl_componentProductId c) l =
      available_of (mrp_input_of tenantId run zone now s) (bl_componentProductId c) l"
  shows "mrp_plan tenantId run zone now (s\<lparr>inventoryRows := rows\<rparr>) = mrp_plan tenantId run zone now s"
proof -
  define inp where "inp = mrp_input_of tenantId run zone now s"
  have sel: "selected_boms tenantId run (s\<lparr>inventoryRows := rows\<rparr>) = selected_boms tenantId run s"
    "selected_locations tenantId run (s\<lparr>inventoryRows := rows\<rparr>) = selected_locations tenantId run s"
    by (simp_all add: selected_boms_def selected_locations_def)
  have own: "bom \<in> set (selected_boms tenantId run s)" if "map_of (in_boms inp) i = Some bom" for i bom
  proof -
    have "map_of (rev (map (\<lambda>b. (bm_parentProductId b, b)) (selected_boms tenantId run s))) i = Some bom"
      using that by (simp add: inp_def mrp_input_of_def Let_def bom_map_def map_of_put_all)
    then show ?thesis by (auto dest: map_of_SomeD)
  qed
  have comps: "in_components inp = (\<lambda>b. components_of b s)" by (simp add: inp_def mrp_input_of_def Let_def)
  have stock: "available_of (inp\<lparr>in_inventory := inventory_map tenantId (selected_locations tenantId run s) (s\<lparr>inventoryRows := rows\<rparr>)\<rparr>)
      (bl_componentProductId c) l = available_of inp (bl_componentProductId c) l"
    if "l \<in> set (selected_locations tenantId run s)" "map_of (in_boms inp) i = Some bom" "c \<in> set (in_components inp bom)" for l i bom c
    using assms(2) that(1,3) own [OF that(2)] by (simp add: comps input_stock inp_def [symmetric])
  show ?thesis
    unfolding mrp_plan_def sel input_stock inp_def [symmetric]
    by (rule locations_stock, erule (2) stock) (use assms(1) in auto)
qed

end
