(* ===== verification/MrpNumbers.thy ===== *)
theory MrpNumbers
  imports MrpRuns
begin

text \<open>
  Netting is exact for whole quantities: the doubles of a row are the integers they stand for, and
  a lot is the smallest multiple that covers the need, in spite of the rounded quotient.
\<close>

lemma ceil_of_quotient:
  fixes q m :: int
  assumes "0 < q" "q \<le> 2 ^ 50" "0 < m"
  shows "\<lceil>num_div (of_int q) (of_int m)\<rceil> = \<lceil>(of_int q :: rat) / of_int m\<rceil>"
proof -
  define x where "x = (of_int q :: rat) / of_int m"
  define c where "c = \<lceil>x\<rceil>"
  have x: "0 < x" using assms by (simp add: x_def)
  have c1: "1 \<le> c" using x by (simp add: c_def)
  have xq: "x * of_int m = of_int q" using assms(3) by (simp add: x_def)
  have cx: "of_int c - 1 < x" "x \<le> of_int c" using ceiling_correct [of x] by (simp_all add: c_def)
  have "x \<le> of_int q"
  proof -
    have "of_int q * 1 \<le> of_int q * (of_int m :: rat)" using assms by (intro mult_left_mono) simp_all
    then show ?thesis using assms(3) by (simp add: x_def divide_le_eq)
  qed
  then have cq: "c \<le> q" by (simp add: c_def ceiling_le_iff)
  have "double x \<le> double (of_int c)" by (rule double_mono [OF cx(2)])
  then have up: "double x \<le> of_int c" using cq c1 assms(2) by simp
  have "(of_int c - 1) * of_int m < (of_int q :: rat)"
    using mult_strict_right_mono [OF cx(1), of "of_int m"] assms(3) xq by simp
  then have "(c - 1) * m < q" by (metis of_int_1 of_int_diff of_int_less_iff of_int_mult)
  then have step: "(c - 1) * m + 1 \<le> q" by simp
  define j where "j = nat (log2 m) + 1"
  note lb = log2_bounds [OF assms(3)]
  have j: "m < 2 ^ j" "2 ^ j \<le> 2 * m" using lb by (simp_all add: j_def)
  define n where "n = (c - 1) * 2 ^ j + 1"
  have "(c - 1) * 2 ^ j \<le> (c - 1) * (2 * m)" using j(2) c1 by (intro mult_left_mono) simp_all
  then have "n \<le> 2 * q" using step by (simp add: n_def)
  moreover have "0 < n" using c1 by (simp add: n_def add_nonneg_pos)
  ultimately have "\<bar>n\<bar> \<le> 2 ^ 53" using assms(2) by simp
  then have exact: "double (of_int n * pow2 (- int j)) = of_int n * pow2 (- int j)" by (rule double_exact)
  have val: "of_int n * pow2 (- int j) = of_int c - 1 + 1 / 2 ^ j"
    by (simp add: n_def pow2_def field_simps)
  have "of_int c - 1 + 1 / of_int m \<le> x"
  proof -
    have "((of_int c - 1) * of_int m + 1 :: rat) \<le> of_int q"
      using step by (metis (mono_tags) of_int_1 of_int_add of_int_diff of_int_le_iff of_int_mult)
    then have "((of_int c - 1) * of_int m + 1) / of_int m \<le> x" unfolding x_def using assms(3) by (intro divide_right_mono) simp_all
    then show ?thesis using assms(3) by (simp add: add_divide_distrib)
  qed
  moreover have "1 / 2 ^ j \<le> 1 / (of_int m :: rat)"
  proof -
    have "(of_int m :: rat) \<le> of_int (2 ^ j)" using j(1) by (simp only: of_int_le_iff)
    then show ?thesis using assms(3) by (intro divide_left_mono) simp_all
  qed
  ultimately have "of_int n * pow2 (- int j) \<le> x" unfolding val by linarith
  then have "of_int c - 1 + 1 / 2 ^ j \<le> double x" using double_mono exact val by metis
  moreover have "0 < (1 / 2 ^ j :: rat)" by simp
  ultimately have "of_int c - 1 < double x" by linarith
  then have "\<lceil>double x\<rceil> = c" using up by (intro ceiling_unique) simp_all
  then show ?thesis by (simp add: num_div_def x_def c_def)
qed

definition lot_of :: "int \<Rightarrow> int \<Rightarrow> int" where
  "lot_of q m = (if 1 < m then \<lceil>(of_int q :: rat) / of_int m\<rceil> * m else q)"

lemma lot_of_bounds:
  assumes "0 < q"
  shows "q \<le> lot_of q m" "lot_of q m < q + max 1 m" "1 < m \<Longrightarrow> m dvd lot_of q m"
proof -
  define c where "c = \<lceil>(of_int q :: rat) / of_int m\<rceil>"
  have "q \<le> c * m \<and> c * m < q + m" if "1 < m"
  proof -
    have "(of_int q :: rat) / of_int m \<le> of_int c" "of_int c - 1 < (of_int q :: rat) / of_int m"
      using ceiling_correct [of "(of_int q :: rat) / of_int m"] by (simp_all add: c_def)
    then have "(of_int q :: rat) \<le> of_int c * of_int m" "(of_int c - 1) * of_int m < (of_int q :: rat)"
      using that by (simp_all add: divide_le_eq less_divide_eq)
    then have "of_int q \<le> (of_int (c * m) :: rat)" "(of_int (c * m) :: rat) < of_int (q + m)" by (simp_all add: algebra_simps)
    then show ?thesis by (simp only: of_int_le_iff of_int_less_iff)
  qed
  then show "q \<le> lot_of q m" "lot_of q m < q + max 1 m" "1 < m \<Longrightarrow> m dvd lot_of q m"
    by (auto simp: lot_of_def c_def)
qed

lemma lot_size_whole:
  assumes "0 < max n k" "max n k \<le> 2 ^ 50" "m \<le> 2 ^ 50"
  shows "lot_size (of_int n) (of_int k) (of_int m) = of_int (lot_of (max n k) m)"
proof -
  have q: "max (of_int n) (of_int k) = (of_int (max n k) :: rat)" by (simp add: max_def)
  have lot: "\<bar>lot_of (max n k) m\<bar> \<le> 2 ^ 53"
  proof -
    define q where "q = max n k"
    have "q \<le> lot_of q m" "lot_of q m < q + max 1 m" "0 < q" "q \<le> 2 ^ 50"
      using lot_of_bounds(1,2) [OF assms(1), of m] assms by (simp_all add: q_def)
    then show ?thesis using assms(3) by (cases "1 \<le> m") (simp_all add: q_def [symmetric])
  qed
  show ?thesis
  proof (cases "1 < m")
    case True
    then have "num_mul (math_ceil (num_div (of_int (max n k)) (of_int m))) (of_int m) = double (of_int (lot_of (max n k) m))"
      using ceil_of_quotient [OF assms(1,2), of m] by (simp add: num_mul_def math_ceil_def lot_of_def)
    then show ?thesis using True lot unfolding lot_size_def Let_def q by simp
  next
    case False
    then show ?thesis unfolding lot_size_def Let_def q by (simp add: lot_of_def)
  qed
qed

definition whole :: "rat \<Rightarrow> bool" where
  "whole x \<longleftrightarrow> x = of_int \<lfloor>x\<rfloor> \<and> \<bar>\<lfloor>x\<rfloor>\<bar> \<le> 2 ^ 40"

lemma wholeE: "whole x \<Longrightarrow> (\<And>n. x = of_int n \<Longrightarrow> \<bar>n\<bar> \<le> 2 ^ 40 \<Longrightarrow> P) \<Longrightarrow> P"
  by (auto simp: whole_def)

lemma double_whole:
  "\<bar>a\<bar> \<le> 2 ^ 52 \<Longrightarrow> \<bar>b\<bar> \<le> 2 ^ 52 \<Longrightarrow> num_add (of_int a) (of_int b) = of_int (a + b)"
  "\<bar>a\<bar> \<le> 2 ^ 52 \<Longrightarrow> \<bar>b\<bar> \<le> 2 ^ 52 \<Longrightarrow> num_sub (of_int a) (of_int b) = of_int (a - b)"
  using double_int [of "a + b"] double_int [of "a - b"] by (simp_all add: num_add_def num_sub_def)

lemma whole_netting:
  assumes "whole (ri_projectedOnHand r)" "whole (ri_scheduledReceipts r)" "whole (ri_grossRequirement r)"
    "whole (lp_safetyStock y)" "whole (lp_minOrderQty y)" "whole (lp_multipleOrderQty y)"
    "r = netting_row inp l i b q" "y = lot_policy_of inp l i"
  defines "available \<equiv> ri_projectedOnHand r + ri_scheduledReceipts r - ri_grossRequirement r"
  shows "next_on_hand r = available + ri_plannedOrderReceipt r" "lp_safetyStock y \<le> next_on_hand r"
    "0 < ri_plannedOrderReceipt r \<longleftrightarrow> available < lp_safetyStock y"
    "available < lp_safetyStock y \<Longrightarrow>
       next_on_hand r < max (lp_safetyStock y) (available + lp_minOrderQty y) + max 1 (lp_multipleOrderQty y)"
proof -
  obtain p s g f k m where n: "ri_projectedOnHand r = of_int p" "ri_scheduledReceipts r = of_int s"
      "ri_grossRequirement r = of_int g" "lp_safetyStock y = of_int f" "lp_minOrderQty y = of_int k"
      "lp_multipleOrderQty y = of_int m"
    and b: "\<bar>p\<bar> \<le> 2 ^ 40" "\<bar>s\<bar> \<le> 2 ^ 40" "\<bar>g\<bar> \<le> 2 ^ 40" "\<bar>f\<bar> \<le> 2 ^ 40" "\<bar>k\<bar> \<le> 2 ^ 40" "\<bar>m\<bar> \<le> 2 ^ 40"
    using assms(1-6) by (elim wholeE)
  define a where "a = p + s - g"
  have a: "\<bar>a\<bar> \<le> 3 * 2 ^ 40" using b by (simp add: a_def)
  have av: "num_sub (num_add (of_int p) (of_int s)) (of_int g) = of_int a"
    using b by (simp add: double_whole a_def del: of_int_add of_int_diff)
  have net: "num_sub (of_int f) (of_int a) = of_int (f - a)" using a b by (intro double_whole(2)) simp_all
  have "ri_plannedOrderReceipt r = (let available = num_sub (num_add (ri_projectedOnHand r) (ri_scheduledReceipts r)) (ri_grossRequirement r);
      net = max 0 (num_sub (lp_safetyStock y) available)
    in if 0 < net then lot_size net (lp_minOrderQty y) (lp_multipleOrderQty y) else 0)"
    by (simp add: assms(7,8) netting_row_def Let_def)
  then have run: "ri_plannedOrderReceipt r =
      (if (0 :: rat) < max 0 (of_int (f - a)) then lot_size (max 0 (of_int (f - a))) (of_int k) (of_int m) else (0 :: rat))"
    unfolding n av net Let_def .
  have receipt: "ri_plannedOrderReceipt r = of_int (if a < f then lot_of (max (f - a) k) m else 0)"
  proof (cases "a < f")
    case True
    have "lot_size (of_int (f - a)) (of_int k) (of_int m) = of_int (lot_of (max (f - a) k) m)"
      using True a b by (intro lot_size_whole) (auto simp: max_def)
    moreover have "max 0 (of_int (f - a)) = (of_int (f - a) :: rat)" "0 < (of_int (f - a) :: rat)"
      using True by (simp_all only: of_int_0_less_iff max_def of_int_0_le_iff) simp_all
    ultimately show ?thesis using True unfolding run by simp
  next
    case False
    then have "max 0 (of_int (f - a)) = (0 :: rat)" by (simp add: max_def)
    then show ?thesis using False unfolding run by simp
  qed
  define t where "t = (if a < f then lot_of (max (f - a) k) m else 0)"
  have t: "a < f \<Longrightarrow> max (f - a) k \<le> t \<and> t < max (f - a) k + max 1 m" "\<not> a < f \<Longrightarrow> t = 0"
    using lot_of_bounds [of "max (f - a) k" m] by (auto simp: t_def)
  have tb: "\<bar>t\<bar> \<le> 2 ^ 52" using t a b by (cases "a < f") (auto simp: max_def split: if_splits)
  have nx: "next_on_hand r = of_int (a + t)"
    unfolding next_on_hand_def n receipt av t_def [symmetric] using a tb by (intro double_whole(1)) simp_all
  have avail: "available = of_int a" by (simp add: available_def n a_def)
  show "next_on_hand r = available + ri_plannedOrderReceipt r" by (simp add: nx avail receipt t_def)
  show "lp_safetyStock y \<le> next_on_hand r" unfolding nx n of_int_le_iff using t by (cases "a < f") auto
  show "0 < ri_plannedOrderReceipt r \<longleftrightarrow> available < lp_safetyStock y"
    unfolding receipt t_def [symmetric] avail n of_int_less_iff of_int_0_less_iff using t by (cases "a < f") auto
  show "next_on_hand r < max (lp_safetyStock y) (available + lp_minOrderQty y) + max 1 (lp_multipleOrderQty y)"
    if "available < lp_safetyStock y"
  proof -
    have "a < f" using that by (simp add: avail n)
    then have "a + t < max f (a + k) + max 1 m" using t(1) by (auto simp: max_def)
    moreover have "max (lp_safetyStock y) (available + lp_minOrderQty y) + max 1 (lp_multipleOrderQty y) = of_int (max f (a + k) + max 1 m)"
      by (simp add: n avail of_int_max)
    ultimately show ?thesis unfolding nx by (simp only: of_int_less_iff)
  qed
qed

end
