(* ===== verification/MrpBooks.thy ===== *)
theory MrpBooks
  imports MrpSystem MrpNumbers
begin

text \<open>What a calculation leaves in the planning tables.\<close>

lemma plan_frame: "mrp_plan tenantId run zone now (s\<lparr>mrpRequirements := a, plannedOrders := b, mrpExceptions := c, next_row := n\<rparr>) =
    mrp_plan tenantId run zone now s"
proof -
  have "selected_boms tenantId run (s\<lparr>mrpRequirements := a, plannedOrders := b, mrpExceptions := c, next_row := n\<rparr>) = selected_boms tenantId run s"
    "selected_locations tenantId run (s\<lparr>mrpRequirements := a, plannedOrders := b, mrpExceptions := c, next_row := n\<rparr>) = selected_locations tenantId run s"
    by (simp_all add: selected_boms_def selected_locations_def)
  moreover have "mrp_input_of tenantId run zone now (s\<lparr>mrpRequirements := a, plannedOrders := b, mrpExceptions := c, next_row := n\<rparr>) =
      mrp_input_of tenantId run zone now s"
    by (simp add: mrp_input_of_def Let_def calculation demand_map_def inventory_map_def policy_map_def supplier_map_def
        components_of_def routing_map_def capacity_map_def scheduled_receipts_def)
  ultimately show ?thesis by (simp add: mrp_plan_def)
qed

lemma run_calculateMRP:
  fixes tenantId run zone now s defines "p \<equiv> mrp_plan tenantId run zone now s"
  shows "calculateMRP D zone now tenantId run s = (Inr (length (pn_orders p), length (pn_exceptions p)),
    s\<lparr>mrpRequirements := filter (\<lambda>r. mq_mrpRunId r \<noteq> mr_id run) (mrpRequirements s) @ map (requirement_of D run) (pn_requirements p),
      plannedOrders := filter (\<lambda>x. pd_mrpRunId x \<noteq> Some (mr_id run)) (plannedOrders s) @
        map (order_of D tenantId run) (numbered_from (next_row s) (pn_orders p)),
      mrpExceptions := filter (\<lambda>x. mx_mrpRunId x \<noteq> mr_id run) (mrpExceptions s) @
        map (exception_of D run) (numbered_from (next_row s + length (pn_orders p)) (pn_exceptions p)),
      next_row := next_row s + length (pn_orders p) + length (pn_exceptions p)\<rparr>)"
  by (simp add: calculateMRP_def run_bind run_seq run_simps p_def [symmetric])

lemma numbered_map: "(\<And>x i. g (f (x, i)) = h x) \<Longrightarrow> map g (map f (numbered_from n xs)) = map h xs"
  by (induction xs arbitrary: n) auto

lemma replaced:
  assumes "\<forall>y \<in> set ys. P y"
  shows "filter P (filter (\<lambda>x. \<not> P x) xs @ ys) = ys" "filter (\<lambda>x. \<not> P x) (filter (\<lambda>x. \<not> P x) xs @ ys) = filter (\<lambda>x. \<not> P x) xs"
  using assms by (auto simp: filter_empty_conv filter_id_conv)

lemma calculated_rows:
  assumes "calculateMRP D zone now tenantId run s = (r, s')"
  shows "r = Inr (length (pn_orders (mrp_plan tenantId run zone now s)), length (pn_exceptions (mrp_plan tenantId run zone now s))) \<and>
    filter (\<lambda>x. mq_mrpRunId x = mr_id run) (mrpRequirements s') =
      map (requirement_of D run) (pn_requirements (mrp_plan tenantId run zone now s)) \<and>
    map (\<lambda>x. x\<lparr>pd_id := 0\<rparr>) (filter (\<lambda>x. pd_mrpRunId x = Some (mr_id run)) (plannedOrders s')) =
      map (\<lambda>x. order_of D tenantId run (x, 0)) (pn_orders (mrp_plan tenantId run zone now s)) \<and>
    map (\<lambda>x. x\<lparr>mx_id := 0\<rparr>) (filter (\<lambda>x. mx_mrpRunId x = mr_id run) (mrpExceptions s')) =
      map (\<lambda>x. exception_of D run (x, 0)) (pn_exceptions (mrp_plan tenantId run zone now s)) \<and>
    filter (\<lambda>x. mq_mrpRunId x \<noteq> mr_id run) (mrpRequirements s') = filter (\<lambda>x. mq_mrpRunId x \<noteq> mr_id run) (mrpRequirements s) \<and>
    filter (\<lambda>x. pd_mrpRunId x \<noteq> Some (mr_id run)) (plannedOrders s') = filter (\<lambda>x. pd_mrpRunId x \<noteq> Some (mr_id run)) (plannedOrders s) \<and>
    filter (\<lambda>x. mx_mrpRunId x \<noteq> mr_id run) (mrpExceptions s') = filter (\<lambda>x. mx_mrpRunId x \<noteq> mr_id run) (mrpExceptions s)"
proof -
  have "\<forall>y \<in> set (map (requirement_of D run) xs). mq_mrpRunId y = mr_id run" for xs by (simp add: requirement_of_def)
  note R = replaced [OF this]
  have "\<forall>y \<in> set (map (order_of D tenantId run) ys). pd_mrpRunId y = Some (mr_id run)" for ys by (auto simp: order_of_def)
  note O = replaced [OF this]
  have "\<forall>y \<in> set (map (exception_of D run) ys). mx_mrpRunId y = mr_id run" for ys by (auto simp: exception_of_def)
  note X = replaced [OF this]
  have "map (\<lambda>x. x\<lparr>pd_id := 0\<rparr>) (map (order_of D tenantId run) (numbered_from n xs)) = map (\<lambda>x. order_of D tenantId run (x, 0)) xs" for n xs
    by (rule numbered_map) (simp add: order_of_def)
  moreover have "map (\<lambda>x. x\<lparr>mx_id := 0\<rparr>) (map (exception_of D run) (numbered_from n xs)) = map (\<lambda>x. exception_of D run (x, 0)) xs" for n xs
    by (rule numbered_map) (simp add: exception_of_def)
  ultimately show ?thesis using assms unfolding run_calculateMRP by (auto simp: R O X simp del: map_map filter_append)
qed

lemma calculated_plan:
  assumes "calculateMRP D zone now tenantId run s = (r, s')"
  shows "mrp_plan tenantId run zone now s' = mrp_plan tenantId run zone now s"
  using assms unfolding run_calculateMRP by (auto simp: plan_frame)

end
