(* ===== verification/MrpExample.thy ===== *)
theory MrpExample
  imports MrpBooks
begin

text \<open>
  A small factory, evaluated: a finished good \<open>f-1\<close> made of two \<open>c-1\<close> with a tenth of scrap in the
  warehouse \<open>w-1\<close>, with forecasts for two weeks, planned over one.
\<close>

definition day :: "int \<Rightarrow> timestamp" where
  "day n = n * MS_PER_DAY"

definition example_bom :: mrp_bom where
  "example_bom = \<lparr>bm_id = 1, bm_tenantId = ''t'', bm_parentProductId = ''f-1'', bm_name = ''F'', bm_version = ''1.0'',
     bm_type = MANUFACTURING, bm_status = BOMStatus.ACTIVE, bm_effectiveFrom = 0, bm_effectiveTo = None,
     bm_baseQuantity = 1, bm_baseUOM = ''EA'', bm_notes = None\<rparr>"

definition example_line :: bom_line where
  "example_line = \<lparr>bl_id = 2, bl_bomId = 1, bl_componentProductId = ''c-1'', bl_sequence = 10, bl_quantity = 2,
     bl_uom = ''EA'', bl_scrapPercent = 10, bl_supplyType = STOCK, bl_leadTimeOffset = 0, bl_notes = None\<rparr>"

definition stock_row :: "uuid_string \<Rightarrow> rat \<Rightarrow> inventory_level" where
  "stock_row i q = \<lparr>il_tenantId = ''t'', il_productId = i, il_locationId = ''w-1'', il_availableQty = q\<rparr>"

definition forecast :: "int \<Rightarrow> rat \<Rightarrow> mrp_forecast" where
  "forecast d q = \<lparr>fr_tenantId = ''t'', fr_productId = Some ''f-1'', fr_locationId = Some ''w-1'', fr_periodDate = day d,
     fr_forecastQuantity = Some q\<rparr>"

definition example_run :: mrp_run where
  "example_run = \<lparr>mr_id = 9, mr_tenantId = ''t'', mr_name = ''R'', mr_runType = REGENERATIVE, mr_status = PENDING,
     mr_planningHorizonDays = 7, mr_frozenPeriodDays = 0, mr_locationIds = [], mr_productIds = [],
     mr_respectLeadTimes = True, mr_considerSafetyStock = True, mr_netChange = False\<rparr>"

definition factory :: "inventory_level list \<Rightarrow> mrp" where
  "factory stock = \<lparr>mrpProducts = [\<lparr>pr_id = ''f-1'', pr_tenantId = ''t'', pr_name = ''F'', pr_unitOfMeasure = None, pr_standardCost = None\<rparr>,
       \<lparr>pr_id = ''c-1'', pr_tenantId = ''t'', pr_name = ''C'', pr_unitOfMeasure = Some ''EA'', pr_standardCost = Some 5\<rparr>],
     boms = [example_bom], bomLines = [example_line],
     mrpLocations = [\<lparr>lc_id = ''w-1'', lc_tenantId = ''t'', lc_type = WAREHOUSE, lc_status = DimensionStatus.ACTIVE\<rparr>],
     forecastRows = [forecast 100 30, forecast 107 50], inventoryRows = stock,
     policyRows = [],
     mrpSuppliers = [], supplierProducts = [], mrpRoutings = [], routingSteps = [], workCenters = [], workCenterCapacities = [],
     purchaseOrders = [], purchaseLines = [], workOrders = [], mrpRuns = [example_run], mrpRequirements = [],
     mrpExceptions = [], plannedOrders = [], next_row = 20\<rparr>"

definition example_stock :: "inventory_level list" where
  "example_stock = [stock_row ''f-1'' 500, stock_row ''c-1'' 10]"

definition example_plan :: plan where
  "example_plan = mrp_plan ''t'' example_run 0 (day 100) (factory example_stock)"

section \<open>What is read\<close>

lemmas example_rows = factory_def example_bom_def example_line_def example_run_def example_stock_def stock_row_def forecast_def

lemma double_numeral [simp]: "numeral n \<le> (2 ^ 53 :: int) \<Longrightarrow> double (numeral n) = numeral n"
  using double_int [of "numeral n"] by simp

lemma double_neg_numeral [simp]: "numeral n \<le> (2 ^ 53 :: int) \<Longrightarrow> double (- numeral n) = - numeral n"
  using double_int [of "- numeral n"] by simp

lemma double_1 [simp]: "double 1 = 1"
  using double_int [of 1] by simp

lemma example_days [simp]:
  "local_midnight 0 (day 100) = day 100" "add_days (day n) k = day (n + k)" "to_date (day n) = day n"
  "iso_date (day 100) = ''1970-04-11''" "iso_date (day 107) = ''1970-04-18''"
  "getWeekStart 0 (day 100) = ''1970-04-05''" "getWeekStart 0 (day 107) = ''1970-04-12''"
  by (simp_all add: local_midnight_def day_def MS_PER_DAY_def add_days_def to_date_def utc_day_def) code_simp+

lemma day_order [simp]: "day m \<le> day n \<longleftrightarrow> m \<le> n" "day m < day n \<longleftrightarrow> m < n" "day m = day n \<longleftrightarrow> m = n"
  by (simp_all add: day_def MS_PER_DAY_def)

lemma factory_sel [simp]:
  "boms (factory stock) = [example_bom]" "bomLines (factory stock) = [example_line]" "policyRows (factory stock) = []"
  "supplierProducts (factory stock) = []" "mrpRoutings (factory stock) = []" "purchaseOrders (factory stock) = []"
  "workOrders (factory stock) = []" "inventoryRows (factory stock) = stock" "workCenterCapacities (factory stock) = []"
  by (simp_all add: factory_def)

lemma example_sel [simp]:
  "bm_id example_bom = 1" "bm_tenantId example_bom = ''t''" "bm_parentProductId example_bom = ''f-1''"
  "bm_status example_bom = BOMStatus.ACTIVE" "bl_bomId example_line = 1" "bl_componentProductId example_line = ''c-1''"
  "mr_planningHorizonDays example_run = 7" "mr_frozenPeriodDays example_run = 0" "mr_locationIds example_run = []"
  "mr_productIds example_run = []" "mr_respectLeadTimes example_run" "mr_considerSafetyStock example_run"
  by (simp_all add: example_bom_def example_line_def example_run_def)

lemma example_weeks: "weekly (day 100) (day 107) = [day 100, day 107]"
  by (simp add: weekly.simps)

lemma example_boms: "selected_boms ''t'' example_run (factory stock) = [example_bom]"
  by (simp add: selected_boms_def)

lemma example_places: "selected_locations ''t'' example_run (factory stock) = [''w-1'']"
  by (simp add: selected_locations_def example_rows)

lemma example_demand: "demand_map ''t'' [''f-1''] [''w-1''] (day 100) (day 107) (factory stock) =
    [\<lparr>dm_productId = ''f-1'', dm_locationId = ''w-1'', dm_periodDate = day 100, dm_quantity = 30\<rparr>,
     \<lparr>dm_productId = ''f-1'', dm_locationId = ''w-1'', dm_periodDate = day 107, dm_quantity = 50\<rparr>]"
  by (simp add: demand_map_def factory_def forecast_def placed_forecast_def between_dates_def add_demand_def dashed_def put_def
      number_or_def Let_def)

lemma example_inventory:
  "inventory_map ''t'' [''w-1''] (factory example_stock) = [(''f-1-w-1'', 500), (''c-1-w-1'', 10)]"
  by (simp add: inventory_map_def example_rows dashed_def put_def put_all_def)

definition example_input :: mrp_input where
  "example_input = mrp_input_of ''t'' example_run 0 (day 100) (factory example_stock)"

lemma example_input [simp]:
  "in_run example_input = example_run" "in_zone example_input = 0" "in_today example_input = day 100"
  "in_horizonEnd example_input = day 107" "in_frozenEnd example_input = day 100"
  "in_demands example_input = [\<lparr>dm_productId = ''f-1'', dm_locationId = ''w-1'', dm_periodDate = day 100, dm_quantity = 30\<rparr>,
     \<lparr>dm_productId = ''f-1'', dm_locationId = ''w-1'', dm_periodDate = day 107, dm_quantity = 50\<rparr>]"
  "in_inventory example_input = [(''f-1-w-1'', 500), (''c-1-w-1'', 10)]"
  "in_policies example_input = []" "in_suppliers example_input = []" "in_boms example_input = [(''f-1'', example_bom)]"
  "in_components example_input example_bom = [example_line]" "in_routings example_input = []" "in_receipts example_input = []"
  using example_demand [of example_stock] example_inventory
  by (simp_all add: example_input_def mrp_input_of_def Let_def example_boms example_places policy_map_def
      supplier_map_def bom_map_def components_of_def routing_map_def scheduled_receipts_def put_all_def put_def)

section \<open>The plan\<close>

text \<open>The stock of 500 is not seen; the receipt of the frozen week is not ordered, yet counted on.\<close>

definition row_100 :: requirement_item where
  "row_100 = \<lparr>ri_productId = ''f-1'', ri_locationId = ''w-1'', ri_periodDate = day 100, ri_grossRequirement = 30,
     ri_scheduledReceipts = 0, ri_projectedOnHand = 0, ri_netRequirement = 30, ri_plannedOrderReceipt = 30,
     ri_plannedOrderRelease = 30\<rparr>"

definition row_107 :: requirement_item where
  "row_107 = \<lparr>ri_productId = ''f-1'', ri_locationId = ''w-1'', ri_periodDate = day 107, ri_grossRequirement = 50,
     ri_scheduledReceipts = 0, ri_projectedOnHand = 0, ri_netRequirement = 50, ri_plannedOrderReceipt = 50,
     ri_plannedOrderRelease = 50\<rparr>"

lemmas number_defs = num_add_def num_sub_def num_mul_def num_div_def

lemma example_netting:
  "netting_row example_input ''w-1'' ''f-1'' (day 100) 0 = row_100" "next_on_hand row_100 = 0"
  "netting_row example_input ''w-1'' ''f-1'' (day 107) 0 = row_107" "next_on_hand row_107 = 0"
  by (simp_all add: row_100_def row_107_def netting_row_def next_on_hand_def gross_requirement_def lot_policy_of_def lot_size_def
      policy_number_def number_defs Let_def)

lemma example_quantity: "required_qty 50 example_line = 111"
  by code_simp

definition order_107 :: order_item where
  "order_107 = \<lparr>oi_productId = ''f-1'', oi_locationId = ''w-1'', oi_orderType = PRODUCTION, oi_startDate = day 107,
     oi_dueDate = day 107, oi_quantity = 50, oi_supplierId = None\<rparr>"

definition purchase_107 :: order_item where
  "purchase_107 = \<lparr>oi_productId = ''c-1'', oi_locationId = ''w-1'', oi_orderType = PURCHASE, oi_startDate = day 100,
     oi_dueDate = day 107, oi_quantity = 101, oi_supplierId = None\<rparr>"

lemma example_component:
  "pn_orders (plan_component example_input ''w-1'' (day 107) (day 107) 50 example_line p) = pn_orders p @ [purchase_107]"
  by (simp add: plan_component_def example_quantity Let_def dashed_def number_defs lot_size_def policy_number_def purchase_107_def)

lemma example_buckets:
  "plan_bucket example_input ''w-1'' ''f-1'' example_bom (day 100) (0, p) =
     (0, push_requirement row_100 (push_exception \<lparr>ei_productId = ''f-1'', ei_locationId = ''w-1'', ei_exceptionType = PAST_DUE_ORDER,
        ei_severity = HIGH, ei_affectedDate = day 100, ei_currentValue = 0, ei_requiredValue = 30\<rparr> p))"
  "fst (plan_bucket example_input ''w-1'' ''f-1'' example_bom (day 107) (0, p)) = 0"
  "pn_orders (snd (plan_bucket example_input ''w-1'' ''f-1'' example_bom (day 107) (0, p))) = pn_orders p @ [order_107, purchase_107]"
  by (simp_all add: plan_bucket_def Let_def example_netting plan_production_def lot_policy_of_def order_107_def example_component)
     (simp_all add: row_100_def row_107_def example_component)

lemma example_orders: "pn_orders (mrp_plan ''t'' example_run 0 (day 100) (factory example_stock)) = [order_107, purchase_107]"
proof -
  have "initial_inventory example_input ''w-1'' = [(''f'', 500), (''c'', 10)]"
    by (simp add: initial_inventory_def put_all_def put_def ends_with_def)
  then show ?thesis
    by (simp add: mrp_plan_def example_input_def [symmetric] example_boms example_places plan_location_def run_plan_product
        example_weeks on_hand_def example_buckets)
qed

section \<open>Example bills\<close>

definition part :: "uuid_string \<Rightarrow> rat \<Rightarrow> mrp_product" where
  "part i cost = \<lparr>pr_id = i, pr_tenantId = ''t'', pr_name = i, pr_unitOfMeasure = Some ''EA'', pr_standardCost = Some cost\<rparr>"

definition bill :: "uuid \<Rightarrow> uuid_string \<Rightarrow> mrp_bom" where
  "bill n i = example_bom\<lparr>bm_id := n, bm_parentProductId := i\<rparr>"

definition bill_line :: "uuid \<Rightarrow> uuid \<Rightarrow> uuid_string \<Rightarrow> bom_line" where
  "bill_line n b i = example_line\<lparr>bl_id := n, bl_bomId := b, bl_componentProductId := i\<rparr>"

text \<open>\<open>a\<close> is made of \<open>b\<close> and \<open>c\<close>, both of \<open>d\<close>, and that of \<open>e\<close>.\<close>

definition shared_parts :: mrp where
  "shared_parts = (factory [])\<lparr>mrpProducts := [part ''a'' 0, part ''b'' 0, part ''c'' 0, part ''d'' 3, part ''e'' 5],
     boms := [bill 1 ''a'', bill 2 ''b'', bill 3 ''c'', bill 4 ''d''],
     bomLines := [bill_line 5 1 ''b'', bill_line 6 1 ''c'', bill_line 7 2 ''d'', bill_line 8 3 ''d'', bill_line 9 4 ''e'']\<rparr>"

definition no_bills :: mrp where
  "no_bills = (factory [])\<lparr>boms := [], bomLines := []\<rparr>"

definition order_request :: order_dto where
  "order_request = \<lparr>od_productId = ''c-1'', od_locationId = Some ''w-1'', od_orderType = PURCHASE, od_quantity = 7,
     od_dueDate = day 110, od_startDate = None, od_supplierId = None\<rparr>"

definition bill_request :: bom_dto where
  "bill_request = \<lparr>bd_parentProductId = ''f-1'', bd_name = ''F'', bd_version = None, bd_baseQuantity = None, bd_baseUOM = None,
     bd_effectiveFrom = None, bd_effectiveTo = None, bd_notes = None, bd_type = None,
     bd_components = Some [\<lparr>bi_componentProductId = ''c-1'', bi_quantity = 2, bi_uom = ''EA'', bi_sequence = None,
       bi_scrapPercent = None, bi_supplyType = None, bi_leadTimeOffset = None, bi_notes = None\<rparr>]\<rparr>"

text \<open>A bill, its line and an order: the ids 20, 21 and 22.\<close>

definition ordered :: mrp where
  "ordered = snd (createPlannedOrder (day 100) ''t'' order_request (snd (createBOM (day 99) ''t'' bill_request no_bills)))"

definition released :: mrp where
  "released = snd (releasePlannedOrder (day 101) ''t'' 22 (snd (firmPlannedOrder (day 100) ''t'' 22 ordered)))"

lemma released_orders: "map (\<lambda>x. (pd_status x, pd_isFirmed x, pd_releaseDate x)) (plannedOrders released) =
    [(PlannedOrderStatus.RELEASED, True, Some (day 101))]"
  by code_simp

lemma released_line: "length (bomLines released) = 1"
  by code_simp

lemma steps_of_runs:
  "mrp_reachable bulk s \<Longrightarrow> mrp_reachable bulk (snd (createBOM now t dto s))"
  "mrp_reachable bulk s \<Longrightarrow> mrp_reachable bulk (snd (createPlannedOrder now t od s))"
  "mrp_reachable bulk s \<Longrightarrow> mrp_reachable bulk (snd (firmPlannedOrder now t i s))"
  "mrp_reachable bulk s \<Longrightarrow> mrp_reachable bulk (snd (releasePlannedOrder now t i s))"
  "mrp_reachable True s \<Longrightarrow> mrp_reachable True (snd (bulkUpdatePlannedOrders t is action s))"
  by (blast intro: mrp_reachable.step mrp_step.create_bom mrp_step.create_order mrp_step.firm mrp_step.release mrp_step.bulk surjective_pairing)+

lemma ordered_reachable: "mrp_reachable bulk ordered"
  unfolding ordered_def by (intro steps_of_runs mrp_reachable.start) (simp_all add: no_bills_def factory_def)

lemma released_reachable: "mrp_reachable bulk released"
  unfolding released_def by (intro steps_of_runs ordered_reachable)

text \<open>The bulk update releases an order that was never firmed, without a release date.\<close>

lemma bulk_release_undated:
  "\<exists>s. mrp_reachable True s \<and> (\<exists>x \<in> set (plannedOrders s). pd_status x = PlannedOrderStatus.RELEASED \<and> \<not> pd_isFirmed x \<and> pd_releaseDate x = None)"
proof (intro exI conjI)
  show "mrp_reachable True (snd (bulkUpdatePlannedOrders ''t'' (Some [22]) ''release'' ordered))"
    by (intro steps_of_runs ordered_reachable)
  show "\<exists>x \<in> set (plannedOrders (snd (bulkUpdatePlannedOrders ''t'' (Some [22]) ''release'' ordered))).
      pd_status x = PlannedOrderStatus.RELEASED \<and> \<not> pd_isFirmed x \<and> pd_releaseDate x = None"
    by code_simp
qed

lemma shared_explosion:
  "map xc_productId (xp_components (case fst (explodeBOM ''t'' 1 10 shared_parts) of Inr x \<Rightarrow> x)) = [''b'', ''d'', ''e'', ''c'', ''d'']"
  by code_simp

lemma shared_full: "map xc_productId (full_explosion ''t'' shared_parts 10 1 (Some 1) (root_items shared_parts 1)) =
    [''b'', ''d'', ''e'', ''c'', ''d'', ''e'']"
  by code_simp

end
