(* ===== verification/MrpProperties.thy ===== *)
theory MrpProperties
  imports MrpExample
begin

text \<open>
  The properties of materials planning and bills of material, each with a run in which its
  hypotheses hold.
\<close>

section \<open>The plan\<close>

text \<open>
  C33. Every order of a plan is explained: a production order is due after the frozen period and
  within the horizon, and any other order is a purchase of a component of one of the plan's
  production orders, due when that order starts, for what the component's whole available stock does
  not cover.  Since each purchase is net of the whole stock, the same stock serves every order.
\<close>

theorem planned_orders_explained:
  assumes "y \<in> set (pn_orders (mrp_plan tenantId run zone now s))"
  shows "oi_orderType y = PRODUCTION \<and> 0 < oi_quantity y \<and> oi_dueDate y \<le> in_horizonEnd (mrp_input_of tenantId run zone now s) \<and>
       in_frozenEnd (mrp_input_of tenantId run zone now s) < oi_dueDate y \<or>
     (\<exists>x \<in> set (pn_orders (mrp_plan tenantId run zone now s)). oi_orderType x = PRODUCTION \<and>
       (\<exists>bom c. map_of (bom_map (selected_boms tenantId run s)) (oi_productId x) = Some bom \<and> c \<in> set (components_of bom s) \<and>
          buys_for (mrp_input_of tenantId run zone now s) x c y))"
  using mrp_plan_ok [of tenantId run zone now s] assms
  by (auto simp: plan_ok_def order_ok_def mrp_input_of_def Let_def)

theorem planned_orders_explained_witness:
  "oi_orderType purchase_107 = PURCHASE \<and>
   (\<exists>x \<in> {order_107, purchase_107}. oi_orderType x = PRODUCTION \<and>
      (\<exists>bom c. map_of (bom_map (selected_boms ''t'' example_run (factory example_stock))) (oi_productId x) = Some bom \<and>
         c \<in> set (components_of bom (factory example_stock)) \<and> buys_for example_input x c purchase_107))"
  using planned_orders_explained [of purchase_107 "''t''" example_run 0 "day 100" "factory example_stock"]
  by (simp add: example_orders purchase_107_def example_input_def)

text \<open>
  C34. The production orders of a finished good are those of its positive receipts after the frozen
  period.  Each row of its plan starts from the stock that the row before it leaves, receipts of the
  frozen period included: these are counted on, but never ordered.
\<close>

theorem frozen_receipts_lost:
  assumes "map_of (in_boms inp) i = Some bom"
    "rows = product_rows inp l i (weekly (in_today inp) (in_horizonEnd inp)) (on_hand m i)"
  shows "produced (snd (plan_product inp l i (m, p))) = produced p @ map (production_order inp) (filter (is_produced inp) rows) \<and>
    (\<forall>k. Suc k < length rows \<longrightarrow> ri_projectedOnHand (rows ! Suc k) = next_on_hand (rows ! k))"
  using produced_buckets [of inp l i bom] rows_chain [of _ inp l i] assms by (simp add: run_plan_product(1))

theorem frozen_receipts_lost_witness:
  "0 < ri_plannedOrderReceipt row_100 \<and> 0 < ri_plannedOrderReceipt row_107 \<and>
   produced (snd (plan_product example_input ''w-1'' ''f-1'' ([], \<lparr>pn_orders = [], pn_exceptions = [], pn_requirements = [], pn_capacityUsage = []\<rparr>))) = [order_107]"
proof -
  define p where "p = \<lparr>pn_orders = [], pn_exceptions = [], pn_requirements = [], pn_capacityUsage = []\<rparr>"
  have "produced (snd (plan_product example_input ''w-1'' ''f-1'' ([], p))) =
      produced p @ map (production_order example_input) (filter (is_produced example_input) [row_100, row_107])"
    using frozen_receipts_lost [of example_input "''f-1''" example_bom "[row_100, row_107]" "''w-1''" "[]" p]
    by (simp add: example_weeks example_netting on_hand_def)
  then show ?thesis
    by (simp add: p_def produced_def is_produced_def production_order_def order_107_def row_100_def row_107_def lot_policy_of_def)
qed

text \<open>
  C35. On whole quantities up to \<open>2 ^ 40\<close> the netting of a bucket is exact in spite of the rounding
  of doubles: the stock it leaves is what it had plus the receipt, never below the safety stock;
  there is a receipt exactly if the stock would fall below it, and the lot exceeds the need, or the
  minimum, by less than one order multiple.
\<close>

theorem netting_meets_safety:
  assumes "r = netting_row inp l i b q" "y = lot_policy_of inp l i"
    "whole (ri_projectedOnHand r)" "whole (ri_scheduledReceipts r)" "whole (ri_grossRequirement r)"
    "whole (lp_safetyStock y)" "whole (lp_minOrderQty y)" "whole (lp_multipleOrderQty y)"
  shows "next_on_hand r = ri_projectedOnHand r + ri_scheduledReceipts r - ri_grossRequirement r + ri_plannedOrderReceipt r \<and>
    lp_safetyStock y \<le> next_on_hand r \<and>
    (0 < ri_plannedOrderReceipt r \<longleftrightarrow> ri_projectedOnHand r + ri_scheduledReceipts r - ri_grossRequirement r < lp_safetyStock y) \<and>
    (0 < ri_plannedOrderReceipt r \<longrightarrow> next_on_hand r <
       max (lp_safetyStock y) (ri_projectedOnHand r + ri_scheduledReceipts r - ri_grossRequirement r + lp_minOrderQty y) +
         max 1 (lp_multipleOrderQty y))"
  using whole_netting [of r y inp l i b q] assms by simp

theorem netting_meets_safety_witness:
  "ri_projectedOnHand row_107 = 0 \<and> ri_grossRequirement row_107 = 50 \<and> next_on_hand row_107 = 0 \<and> 0 < ri_plannedOrderReceipt row_107"
proof -
  have "lot_policy_of example_input ''w-1'' ''f-1'' = \<lparr>lp_safetyStock = 0, lp_leadTime = 0, lp_minOrderQty = 1, lp_multipleOrderQty = 1\<rparr>"
    by (simp add: lot_policy_of_def policy_number_def)
  then show ?thesis
    using netting_meets_safety [OF example_netting(3) [symmetric] refl] by (simp add: whole_def) (simp add: row_107_def)
qed

text \<open>
  C36. The stock of finished goods is ignored.  If the ids of the finished goods contain a dash, as
  UUIDs do, any two inventories with the same stock of the components give the same plan: the code
  keeps the first piece of \<open>productId-locationId\<close> between dashes, which is not the product's id.
\<close>

theorem finished_stock_ignored:
  assumes "\<forall>b \<in> set (selected_boms tenantId run s). CHR ''-'' \<in> set (bm_parentProductId b)"
    "\<forall>l \<in> set (selected_locations tenantId run s). \<forall>b \<in> set (selected_boms tenantId run s). \<forall>c \<in> set (components_of b s).
      available_of (mrp_input_of tenantId run zone now (s\<lparr>inventoryRows := rows\<rparr>)) (bl_componentProductId c) l =
      available_of (mrp_input_of tenantId run zone now s) (bl_componentProductId c) l"
  shows "mrp_plan tenantId run zone now (s\<lparr>inventoryRows := rows\<rparr>) = mrp_plan tenantId run zone now s"
  by (rule same_component_stock [OF assms])

theorem finished_stock_ignored_witness:
  "mrp_plan ''t'' example_run 0 (day 100) (factory example_stock\<lparr>inventoryRows := [stock_row ''c-1'' 10]\<rparr>) =
   mrp_plan ''t'' example_run 0 (day 100) (factory example_stock)"
proof -
  have "factory example_stock\<lparr>inventoryRows := [stock_row ''c-1'' 10]\<rparr> = factory [stock_row ''c-1'' 10]"
    by (simp add: factory_def)
  moreover have "inventory_map ''t'' [''w-1''] (factory [stock_row ''c-1'' 10]) = [(''c-1-w-1'', 10)]"
    by (simp add: inventory_map_def example_rows dashed_def put_def put_all_def)
  ultimately show ?thesis
    by (intro finished_stock_ignored)
       (simp_all add: example_boms example_places components_of_def available_of_def mrp_input_of_def Let_def example_inventory dashed_def)
qed

section \<open>Its rows\<close>

text \<open>
  C37. A calculation replaces the rows of its run by those of the plan: the requirements, the planned
  orders and the exceptions of the run are afterwards those of the plan in its order, the rows of
  other runs are as before, and the counts are returned.  Calculating again plans the same, whatever
  became of the orders meanwhile: also firmed and released orders of the run are replaced.
\<close>

theorem calculation_replaces_run:
  assumes "calculateMRP D zone now tenantId run s = (r, s')"
  shows "r = Inr (length (pn_orders (mrp_plan tenantId run zone now s)), length (pn_exceptions (mrp_plan tenantId run zone now s))) \<and>
    filter (\<lambda>x. mq_mrpRunId x = mr_id run) (mrpRequirements s') =
      map (requirement_of D run) (pn_requirements (mrp_plan tenantId run zone now s)) \<and>
    map (\<lambda>x. x\<lparr>pd_id := 0\<rparr>) (filter (\<lambda>x. pd_mrpRunId x = Some (mr_id run)) (plannedOrders s')) =
      map (\<lambda>x. order_of D tenantId run (x, 0)) (pn_orders (mrp_plan tenantId run zone now s)) \<and>
    map (\<lambda>x. x\<lparr>mx_id := 0\<rparr>) (filter (\<lambda>x. mx_mrpRunId x = mr_id run) (mrpExceptions s')) =
      map (\<lambda>x. exception_of D run (x, 0)) (pn_exceptions (mrp_plan tenantId run zone now s)) \<and>
    filter (\<lambda>x. mq_mrpRunId x \<noteq> mr_id run) (mrpRequirements s') = filter (\<lambda>x. mq_mrpRunId x \<noteq> mr_id run) (mrpRequirements s) \<and>
    filter (\<lambda>x. pd_mrpRunId x \<noteq> Some (mr_id run)) (plannedOrders s') = filter (\<lambda>x. pd_mrpRunId x \<noteq> Some (mr_id run)) (plannedOrders s) \<and>
    filter (\<lambda>x. mx_mrpRunId x \<noteq> mr_id run) (mrpExceptions s') = filter (\<lambda>x. mx_mrpRunId x \<noteq> mr_id run) (mrpExceptions s) \<and>
    mrp_plan tenantId run zone now s' = mrp_plan tenantId run zone now s"
  using calculated_rows [OF assms] calculated_plan [OF assms] by blast

theorem calculation_replaces_run_witness:
  "\<exists>s'. calculateMRP (\<lambda>x. x) 0 (day 100) ''t'' example_run (factory example_stock) = (Inr (2, length (pn_exceptions (mrp_plan ''t'' example_run 0 (day 100) (factory example_stock)))), s') \<and>
     map pd_quantity (filter (\<lambda>x. pd_mrpRunId x = Some 9) (plannedOrders s')) = [50, 101] \<and>
     mrp_plan ''t'' example_run 0 (day 100) s' = mrp_plan ''t'' example_run 0 (day 100) (factory example_stock)"
proof -
  obtain r s' where run: "calculateMRP (\<lambda>x. x) 0 (day 100) ''t'' example_run (factory example_stock) = (r, s')" by fastforce
  note C = calculation_replaces_run [OF run]
  have id: "mr_id example_run = 9" by (simp add: example_run_def)
  have "map pd_quantity (map (\<lambda>x. x\<lparr>pd_id := 0\<rparr>) (filter (\<lambda>x. pd_mrpRunId x = Some 9) (plannedOrders s'))) = [50, 101]"
    using C by (simp add: id example_orders) (simp add: order_of_def order_107_def purchase_107_def)
  then show ?thesis using C run by (simp add: example_orders comp_def)
qed



section \<open>Bills of material\<close>

text \<open>
  C39. The cost rollup of a bill of material succeeds with total cost 0, whatever the bill: the
  explosion reads \<open>quantity\<close> of components that \<open>getBOM\<close> has mapped to \<open>quantityPer\<close>, every extended
  quantity is \<open>NaN\<close>, and \<open>NaN || 0\<close> is 0.
\<close>

theorem rollup_always_zero:
  assumes "\<exists>b \<in> set (boms s). bm_id b = bomId \<and> bm_tenantId b = tenantId"
  shows "rollupCost tenantId bomId s = (Inr 0, s)"
proof -
  obtain b where "find (\<lambda>b. bm_id b = bomId \<and> bm_tenantId b = tenantId) (boms s) = Some b"
    using assms by (metis (mono_tags, lifting) find_None_iff option.exhaust)
  then obtain x where x: "explodeBOM tenantId bomId 10 s = (Inr x, s)" by (simp add: run_explodeBOM Let_def)
  then show ?thesis using explodeBOM_nan(3) [OF x] by (simp add: rollupCost_def bind_def return_def)
qed

theorem rollup_always_zero_witness:
  "rollupCost ''t'' 1 (factory []) = (Inr 0, factory []) \<and>
   map bl_quantity (lines_of 1 (factory [])) = [2] \<and> map_option pr_standardCost (product_by (factory []) ''c-1'') = Some (Some 5)"
  using rollup_always_zero [of "factory []" 1 "''t''"]
  by (simp add: lines_of_def product_by_def) (simp add: example_line_def factory_def)

text \<open>
  C40. An explosion lists rows of the full explosion, in which every component comes with all that is
  below it, in their order, and all of them if no product comes twice.  Also with bills that contain
  each other it ends, with at most the lines of the bill and one row for every line of all bills:
  the bill of a product is opened only where the product comes first, so that a shared subassembly
  is not expanded again.
\<close>

theorem explosion_opens_bills_once:
  assumes "distinct (map bm_id (boms s))" "explodeBOM tenantId bomId maxLevels s = (Inr x, s')"
    "full = full_explosion tenantId s maxLevels 1 (Some 1) (root_items s bomId)"
  shows "subseq (xp_components x) full \<and> (distinct (map xc_productId full) \<longrightarrow> xp_components x = full) \<and>
    length (xp_components x) \<le> length (lines_of bomId s) + length (bomLines s)"
  using explosion_subseq [OF assms(2)] explosion_distinct [OF assms(2)] explosion_size [OF assms(1,2)] assms(3) by blast

theorem explosion_opens_bills_once_witness:
  "\<exists>x. explodeBOM ''t'' 1 10 shared_parts = (Inr x, shared_parts) \<and>
     map xc_productId (xp_components x) = [''b'', ''d'', ''e'', ''c'', ''d''] \<and>
     subseq (xp_components x) (full_explosion ''t'' shared_parts 10 1 (Some 1) (root_items shared_parts 1)) \<and>
     length (xp_components x) \<le> 2 + 5"
proof -
  have "find (\<lambda>b. bm_id b = 1 \<and> bm_tenantId b = ''t'') (boms shared_parts) = Some (bill 1 ''a'')"
    by (simp add: shared_parts_def bill_def)
  then obtain x where x: "explodeBOM ''t'' 1 10 shared_parts = (Inr x, shared_parts)" by (simp add: run_explodeBOM Let_def)
  have "distinct (map bm_id (boms shared_parts))" "length (lines_of 1 shared_parts) = 2" "length (bomLines shared_parts) = 5"
    by (simp_all add: shared_parts_def bill_def lines_of_def bill_line_def)
  then show ?thesis using explosion_opens_bills_once [OF _ x refl] shared_explosion x by simp
qed

end
