(* ===== verification/Spec2Isabelle.thy ===== *)
theory Spec2Isabelle
  imports BillingProperties PurchaseProperties StockProperties AccountingProperties CostProperties
    PlanningProperties MrpProperties
begin

text \<open>
  A verification library for the services of the forecast application that keep money, stock and
  plans: the AI billing platform (\<open>src/apps/api/src/modules/ai-billing\<close>), the stock ledger, general
  ledger and costing engine of manufacturing (\<open>src/apps/api/src/modules/manufacturing/services\<close>),
  its bills of material and materials planning (\<open>manufacturing.service.ts\<close>), and the planning services (\<open>core/workflow\<close>, \<open>core/time\<close>, \<open>modules/plans\<close>, \<open>modules/scenarios\<close>).

  \<^bold>\<open>The program.\<close>  A tenant has one credit wallet.  Every AI request passes the charge gate
  (\<open>charge.service.ts\<close>): \<open>prepare\<close> resolves the price (\<open>pricing.service.ts\<close>), asks the access
  policies (\<open>access.service.ts\<close>) and holds the estimate on the wallet (\<open>wallet.service.ts\<close>);
  \<open>settle\<close> turns the hold into a charge, or releases it, and writes the usage log.  Credits come
  in by purchases (\<open>purchase.service.ts\<close>: Stripe checkouts confirmed by the signed webhook of
  \<open>stripe.client.ts\<close> and \<open>stripe-webhook.controller.ts\<close>, or bank transfers confirmed by an
  administrator) and go back by refunds (\<open>refund.service.ts\<close>) and disputes
  (\<open>dispute.service.ts\<close>).  Only \<open>wallet.service.ts\<close> writes balances; the others call it.
  \<open>registry.service.ts\<close> keeps providers and models and picks the target of a request.

  Manufacturing keeps its stock in an append-only ledger with materialised balances
  (\<open>inventory-ledger.service.ts\<close>: every movement, reservation and hold is an entry) and its money
  in a double-entry journal (\<open>accounting.service.ts\<close>: manual entries, postings through posting
  profiles, reversals, locked fiscal periods).  Both number their documents from database
  sequences (\<open>sequence.service.ts\<close>); operations that must run once hold an idempotency key
  (\<open>idempotency.service.ts\<close>), and transactions that conflict are retried
  (\<open>retry.utility.ts\<close>).

  The costing engine (\<open>costing-engine.service.ts\<close>) values every movement of stock: receipts make
  cost layers or move an average, issues take from them into the work in process of a work order,
  completions take the work in process into finished goods and post variances, and periods are
  valued, closed and reopened.  Each operation runs in one retried transaction and calls the
  stock ledger, the accounting service, the sequences and the idempotency keys.

  Plans and their scenarios go through an approval workflow (\<open>workflow.service.ts\<close>): a template
  per kind of entity has numbered steps, a submission starts an instance of it, and each step is
  passed when enough of its approvers have approved.  Templates, steps and the decisions outside
  the plan pages (return, cancel, resubmit) are the workflow section of
  \<open>manufacturing.service.ts\<close>.  \<open>plans.service.ts\<close> and \<open>scenarios.service.ts\<close> submit, approve, reject,
  lock and archive; \<open>time-bucket.service.ts\<close> gives a date the bucket of its period.

  Bills of material and materials planning are sections of \<open>manufacturing.service.ts\<close>.  A bill has
  lines and a status; \<open>explodeBOM\<close> lists all levels below it.  A planning run nets forecasts, stock and
  open orders in weekly buckets (\<open>calculateMRP\<close>) and writes requirements, planned orders and exceptions,
  which are then firmed, released, cancelled or resolved.

  \<^bold>\<open>The theories.\<close>
  \<^item> \<open>Prelude\<close>: programs as functions from a state to an error or a value and the new state
    (exceptions, database transactions that roll back, loops, catch), their weakest
    preconditions, \<open>keeps\<close> (a program preserves a predicate), table operations of the database
    client, pagination, JavaScript numbers and rounding.
  \<^item> \<open>Money\<close>: the locale \<open>decimal_column\<close>, what a fixed-point database column does to a value
    (monotone, idempotent, exact on its grid, at most half a unit off), with the instances for
    six and four decimals by rounding half away from zero.
  \<^item> \<open>JsLib\<close>: the string, number and date functions of JavaScript that the services call.
  \<^item> \<open>BillingSchema\<close>: the rows, enumerations and errors, one field per column, and the state
    \<open>billing\<close> with one list per table, a clock and a source of fresh identifiers.
  \<^item> \<open>BillingAudit\<close>, \<open>Wallet\<close>, \<open>Pricing\<close>, \<open>Access\<close>, \<open>Charge\<close>, \<open>Purchase\<close>, \<open>Refund\<close>, \<open>Dispute\<close>,
    \<open>Registry\<close>, \<open>StripeClient\<close>: one theory per service, each method a definition of the same name
    with its guards in the order of the code.
  \<^item> \<open>WalletBooks\<close>, \<open>WalletInv\<close>, \<open>WalletService\<close>: the invariant of the books (holds, chained
    ledger, drift) and one preservation lemma per wallet operation.
  \<^item> \<open>LedgerContract\<close>: the locale \<open>ledger_service\<close>, what the other services may rely on when they
    post to the ledger; purchases, refunds and disputes are verified against it once, and it is
    interpreted on the wallet service (with \<open>numeric6\<close> for the column).
  \<^item> \<open>PurchaseBooks\<close>: the invariant that ties purchases to ledger rows.
  \<^item> \<open>BillingSystem\<close>: the step relation of the whole module (any method, any arguments, any
    answers of Stripe) and its reachable states.
  \<^item> \<open>BillingProperties\<close>, \<open>PurchaseProperties\<close>: the properties C1 to C13 with their witnesses.
  \<^item> \<open>ErpSchema\<close>: the rows of the stock and accounting tables, the state \<open>erp\<close> with the database
    sequences and the process caches, which a rollback (\<open>erp_transaction\<close>) does not reset.
  \<^item> \<open>ErpSupport\<close>: document numbers, idempotency keys, and the retry loop as a recursion on the
    attempts left.
  \<^item> \<open>StockLedger\<close>: the stock ledger, one definition per method.  \<open>StockBooks\<close>: what one entry does
    to the balances; \<open>StockSystem\<close>: the invariant of stock, reservations and holds, the step
    relation \<open>stock_step\<close> and its reachable states; \<open>StockProperties\<close>: C14 to C19.
  \<^item> \<open>Accounting\<close>: accounts, posting profiles, journal, reversals, trial balance, periods.
    \<open>AccountingBooks\<close>: what a posting and a reversal add; \<open>AccountingSystem\<close>: the invariant of the
    journal, \<open>acc_step\<close> and its reachable states, and what later steps leave alone;
    \<open>AccountingProperties\<close>: C20 and C21.
  \<^item> \<open>CostSchema\<close>: the costing tables; the state \<open>costing\<close> holds them beside \<open>books\<close>, the \<open>erp\<close> state
    of the called services.  \<open>call\<close> runs an operation of those on \<open>books\<close>, \<open>cost_transaction\<close> is the
    retried transaction over both.
  \<^item> \<open>CostLayers\<close> (the engine's private helpers), \<open>CostEngine\<close> (receipts, landed cost, issues, labour,
    overhead), \<open>WorkOrderCosting\<close> (completion, variances, scrap, revaluation), \<open>CostRollup\<close> (standard
    cost from bills of material and routings), \<open>CostPeriods\<close> (snapshot, close, reopen, cost profiles,
    reports, planned cost of sales): one definition per method.
  \<^item> \<open>CostContract\<close>: two interfaces.  \<open>ledger_books\<close> is what the engine relies on of the services it
    calls, an invariant their operations keep; \<open>cost_store\<close> is the contract of its tables, the
    elementary writes that keep an invariant, under which every operation of the engine keeps it
    (proved once).  \<open>CostBooks\<close>, \<open>LayerBooks\<close> and \<open>CostKeys\<close> give the instances as sublocales of
    \<open>cost_numbers\<close>: the journal and the stock ledger, the cost layers (what remains and what was
    depleted add up), the keys.  \<open>CostSystem\<close>: \<open>cost_step\<close>, its reachable states, and the
    interpretation \<open>postgres\<close>, the columns of the database.
  \<^item> \<open>CostProperties\<close>: C22 to C26.  \<open>LayerBooks\<close> also states the abstract queue of stock that C23
    refines.
  \<^item> \<open>PlanningSchema\<close>: the rows of workflow, plans, scenarios and time buckets and the state
    \<open>planning\<close>.  \<open>Workflow\<close> (\<open>workflow.service.ts\<close>), \<open>WorkflowAdmin\<close> (the workflow section of
    \<open>manufacturing.service.ts\<close>), \<open>Plans\<close>, \<open>Scenarios\<close>, \<open>TimeBuckets\<close>: one definition per method.
  \<^item> \<open>WorkflowBooks\<close>: the invariant of templates, instances and approvals; \<open>ApprovalRuns\<close> and
    \<open>TemplateRuns\<close>: what each operation does and that it keeps the invariant.
  \<^item> \<open>ReviewClients\<close>: the locale \<open>approval_service\<close>, the workflow as plans and scenarios see it, and
    \<open>review_client\<close>, in which all their operations are verified once.  \<open>PlanningSystem\<close> interprets it
    on the workflow engine; it has the step relation \<open>planning_step\<close> and its reachable states.
    \<open>ReviewRuns\<close>: the last approval of a plan, archive, resubmission, pending approvals.
  \<^item> \<open>Calendar\<close>: the day arithmetic of \<open>JsLib\<close> is the Gregorian calendar (\<open>utc_date_right\<close>);
    \<open>BucketBooks\<close>, \<open>BucketRuns\<close>: the dates a bucket covers, and which dates share a key.
  \<^item> \<open>PlanningExample\<close>: the run at which the properties are read; \<open>PlanningProperties\<close>: C27 to C32.
  \<^item> \<open>Doubles\<close>: the numbers of JavaScript where their rounding shows, as the rationals of 53 significant
    binary digits nearest to the exact result, with unbounded exponents.
  \<^item> \<open>MrpSchema\<close>: the rows that planning reads and writes and the state \<open>mrp\<close>.  \<open>Boms\<close> and \<open>Explosion\<close>
    (bills of material), \<open>Mrp\<close> (\<open>calculateMRP\<close>, one definition per part of its loops) and \<open>MrpOrders\<close>
    (runs, planned orders, exceptions): one definition per method.
  \<^item> \<open>MrpRuns\<close>: where the orders of a plan come from and which stock it sees; \<open>MrpNumbers\<close>: netting on
    whole quantities is exact in doubles.  \<open>Explosion\<close> also compares the explosion with the full one
    and bounds its size.  \<open>MrpSystem\<close>: the invariant of bills and orders, \<open>mrp_step\<close> and its reachable
    states; \<open>MrpBooks\<close>: what a calculation writes; \<open>MrpExample\<close>: a small factory, evaluated;
    \<open>MrpProperties\<close>: C33 to C40.

  \<^bold>\<open>How the model reads the code.\<close>  Each public method is one atomic step; the bodies of
  \<open>$transaction\<close> roll back on an exception, separate database calls of one method do not.  The
  races the code leaves open between such calls are outside the sequential step relation; where
  a property needs one call at a time its text says so.  Identifiers are fresh naturals in
  place of random UUIDs.  Decimals are exact rationals, rounded where a column stores them
  (the parameter \<open>dec\<close>); JavaScript numbers are rationals, infinities or NaN.  A \<open>findFirst\<close>
  without an order returns the oldest row.  The precision of \<open>decimal.js\<close> (20 digits) is not
  exceeded by the sums and products of column values below \<open>10 ^ 12\<close>, so they are exact there;
  quotients, and what is computed from quotients, are rounded to 20 digits (\<open>sig20\<close>).  The
  conversions of the costing engine are the fields of the parameter \<open>numbers\<close>: the columns of four
  and eight decimals, which \<open>postgres\<close> fixes to rounding half away from zero, the doubles of
  JavaScript and their text.  Its results are the values before \<open>toNumber()\<close>.  The recursion of the
  cost rollup takes the code's own limit of 20 levels as fuel, and what exceeds it is the code's
  exception.  A field that a request may leave out is an option; the newest of several workflow
  instances submitted in the same millisecond is the oldest row.  The statements on time buckets
  take years from 100 on, since \<open>Date.UTC\<close> reads smaller ones as years of the 20th century.
  Materials planning takes the offset of the server's time zone, constant over the horizon, as the
  parameter \<open>zone\<close>, and the columns of its results as the parameter \<open>D\<close>; its recursion over the weeks
  ends because the dates grow, the explosion because its level does (at most \<open>maxLevels\<close>).  Rows that
  the code reads without an order come in the order they were written; dates have four-digit years.
  Stripe, the HMAC, JSON parsing, the clock and the cipher of provider keys are
  parameters.

  \<^bold>\<open>Not modelled.\<close>  Message prose, JSON metadata, log output, database outages and the typing of
  SQL parameters; the read-only dashboards of \<open>billing-reporting.service.ts\<close>; the two grid
  listings of the accounting service; the grid query of cost profiles, the item cost list ordered
  by its update time and the row lock of a cost layer, which an atomic step subsumes; the breakdown
  that the rollup's result repeats; the listings of plans, scenarios, workflow templates and
  instances, bills, runs, planned orders and exceptions, \<open>executeMRPRun\<close>, whose row lock blocks the
  calculation it starts on another connection, the version history, the comparison of forecast totals and the workflow metrics; and
  the other modules of the repository.
\<close>

end
